(* ===== verification/Errors.thy ===== *)
theory Errors
  imports Main
begin

text \<open>
  The error classes of the modelled modules. Every module of the repository throws its own
  subclass of \<open>Error\<close> with a \<open>code\<close> drawn from a fixed list; here each list is a
  datatype with the source's codes as constructors, and \<open>err\<close> is the value that a
  \<open>throw\<close> carries. \<open>TypeError\<close> and \<open>RangeError\<close> are the two built-in errors that the
  JavaScript operations used by the code can raise (a property read of \<open>null\<close> or
  \<open>undefined\<close>, \<open>toISOString\<close> of an invalid date).
\<close>

datatype money_tax_code =
    MONEY_INPUT_INVALID | MONEY_CURRENCY_MISMATCH | MONEY_OVERFLOW
  | MONEY_DIVISION_INVALID | MONEY_ALLOCATION_INVALID | TAX_INPUT_INVALID

datatype effective_period_code =
    EFFECTIVE_PERIOD_INPUT_INVALID | EFFECTIVE_PERIOD_SCOPE_INVALID
  | EFFECTIVE_PERIOD_TIME_INVALID | EFFECTIVE_PERIOD_OVERLAP
  | EFFECTIVE_PERIOD_CANDIDATES_INVALID

datatype tax_configuration_code =
    TAX_CONFIGURATION_INPUT_INVALID | TAX_CONFIGURATION_SCOPE_MISMATCH
  | TAX_CONFIGURATION_EVIDENCE_INVALID | TAX_CONFIGURATION_RULE_CONFLICT
  | TAX_CONFIGURATION_COVERAGE_MISSING | TAX_CONFIGURATION_NOT_EFFECTIVE

datatype price_resolution_code =
    PRICE_INPUT_INVALID | PRICE_SCOPE_MISMATCH | PRICE_BOOK_NOT_PUBLISHED
  | PRICE_ENTRY_CONFLICT | PRICE_COVERAGE_MISSING

datatype price_quote_code =
    QUOTE_INPUT_INVALID | QUOTE_SCOPE_MISMATCH | QUOTE_CURRENCY_MISMATCH
  | QUOTE_UNSUPPORTED_TAX_MODE | QUOTE_CALCULATION_FAILED

datatype price_quote_lifecycle_code =
    QUOTE_LIFECYCLE_INPUT_INVALID | QUOTE_NOT_EXPIRED
  | QUOTE_REQUOTE_SCOPE_MISMATCH | QUOTE_REQUOTE_REFERENCE_REUSED

datatype promotion_code =
    PROMOTION_INPUT_INVALID | PROMOTION_SCOPE_MISMATCH | PROMOTION_NOT_EFFECTIVE
  | PROMOTION_BUDGET_EXHAUSTED | PROMOTION_STACKING_CONFLICT

datatype cart_code =
    CART_INPUT_INVALID | CART_UNAVAILABLE | CART_PERMISSION_DENIED | CART_VERSION_CONFLICT
  | CART_IDEMPOTENCY_CONFLICT | CART_ITEM_NOT_FOUND | CART_ITEM_LIMIT_REACHED
  | CART_SELECTION_INVALID | CART_QUOTE_INVALID | CART_QUOTE_EXPIRED
  | CART_LIFECYCLE_UNAVAILABLE | CART_EXPIRED | CART_ABANDONED | CART_EXPIRATION_NOT_DUE
  | CART_DEPENDENCY_UNAVAILABLE

datatype order_amendment_code =
    ORDER_AMENDMENT_INPUT_INVALID | ORDER_AMENDMENT_ORDER_INELIGIBLE
  | ORDER_AMENDMENT_KITCHEN_REJECTED | ORDER_AMENDMENT_TRANSITION_INVALID
  | ORDER_AMENDMENT_SEPARATION_REQUIRED

datatype order_amendment_workflow_code =
    AMENDMENT_INPUT_INVALID | AMENDMENT_PERMISSION_DENIED | AMENDMENT_VERSION_CONFLICT
  | AMENDMENT_IDEMPOTENCY_CONFLICT | AMENDMENT_ORDER_INELIGIBLE | AMENDMENT_QUOTE_INVALID
  | AMENDMENT_DEPENDENCY_UNAVAILABLE

datatype identity_contract_code =
    IDENTITY_INPUT_INVALID | ACTOR_REFERENCE_INVALID | ACTOR_SHAPE_INVALID | ACTOR_INACTIVE
  | AUTHENTICATION_METHOD_INVALID | VERIFICATION_LEVEL_INVALID | TIMESTAMP_INVALID
  | SESSION_REFERENCE_INVALID | SESSION_SHAPE_INVALID | SESSION_POLICY_INVALID | SESSION_REVOKED
  | SESSION_EXPIRED | SESSION_UNKNOWN | SESSION_VERSION_CONFLICT | SESSION_ROTATED
  | REVOCATION_INVALID | EVENT_INVALID

datatype guest_session_code =
    GUEST_SESSION_INPUT_INVALID | GUEST_SESSION_UNAVAILABLE | GUEST_SESSION_VERSION_CONFLICT
  | GUEST_SESSION_IDEMPOTENCY_CONFLICT

datatype customer_profile_code =
    CUSTOMER_PROFILE_INVALID | CUSTOMER_PROFILE_STATE_CONFLICT
  | CUSTOMER_PROFILE_IDEMPOTENCY_CONFLICT | CUSTOMER_PROFILE_PERMISSION_DENIED
  | CUSTOMER_PROFILE_PROOF_REQUIRED

datatype organization_code =
    ORGANIZATION_INPUT_INVALID | BRAND_REFERENCE_INVALID | STORE_REFERENCE_INVALID
  | BRAND_SHAPE_INVALID | STORE_SHAPE_INVALID | ORGANIZATION_VERSION_CONFLICT
  | ORGANIZATION_TRANSITION_INVALID

datatype tenant_context_code =
    TENANT_CONTEXT_INPUT_INVALID | TENANT_CONTEXT_ACTOR_INVALID | TENANT_CONTEXT_BRAND_DENIED
  | TENANT_CONTEXT_STORE_DENIED

datatype membership_code =
    MEMBERSHIP_INPUT_INVALID | MEMBERSHIP_REFERENCE_INVALID | WORKFORCE_RELATIONSHIP_REFERENCE_INVALID
  | STORE_ASSIGNMENT_REFERENCE_INVALID | MEMBERSHIP_ACTOR_INVALID | MEMBERSHIP_SHAPE_INVALID
  | STORE_ASSIGNMENT_SHAPE_INVALID | MEMBERSHIP_EVIDENCE_REQUIRED | MEMBERSHIP_VERSION_CONFLICT
  | STORE_ASSIGNMENT_VERSION_CONFLICT | MEMBERSHIP_TRANSITION_INVALID | STORE_ASSIGNMENT_TRANSITION_INVALID
  | STORE_BRAND_MISMATCH | ACTIVE_MEMBERSHIP_NOT_FOUND | ACTIVE_MEMBERSHIP_AMBIGUOUS
  | ACTIVE_STORE_ASSIGNMENT_NOT_FOUND | ACTIVE_STORE_ASSIGNMENT_AMBIGUOUS

datatype permission_policy_code =
    PERMISSION_POLICY_INPUT_INVALID | PERMISSION_POLICY_SHAPE_INVALID | PERMISSION_POLICY_SCOPE_INVALID
  | PERMISSION_POLICY_DEPENDENCY_INVALID | PERMISSION_POLICY_VERSION_CONFLICT
  | PERMISSION_POLICY_TRANSITION_INVALID | PERMISSION_POLICY_MATERIALIZATION_INVALID

datatype permission_evaluation_code = PERMISSION_REQUEST_INVALID | PERMISSION_CONTEXT_INVALID

datatype checkout_code =
    CHECKOUT_INPUT_INVALID | CHECKOUT_PERMISSION_DENIED | CHECKOUT_CART_UNAVAILABLE
  | CHECKOUT_CART_VERSION_CONFLICT | CHECKOUT_CART_EMPTY | CHECKOUT_CART_NOT_ACTIVE
  | CHECKOUT_QUOTE_MISSING | CHECKOUT_QUOTE_EXPIRED | CHECKOUT_REQUOTE_REQUIRED
  | CHECKOUT_ITEM_UNAVAILABLE | CHECKOUT_SELECTION_INVALID | CHECKOUT_STORE_CLOSED
  | CHECKOUT_CAPACITY_UNAVAILABLE | CHECKOUT_FULFILLMENT_UNAVAILABLE
  | CHECKOUT_DEPENDENCY_UNAVAILABLE

datatype order_code = ORDER_INPUT_INVALID | ORDER_VALIDATION_EXPIRED

datatype order_item_snapshot_code =
    ORDER_ITEM_SNAPSHOT_INPUT_INVALID | ORDER_ITEM_SNAPSHOT_VALIDATION_EXPIRED

datatype business_date_code =
    STORE_BUSINESS_DATE_INPUT_INVALID | STORE_BUSINESS_DATE_CONFIGURATION_NOT_EFFECTIVE

datatype err =
    MoneyTaxContractError money_tax_code
  | OrganizationContractError organization_code
  | EffectivePeriodContractError effective_period_code
  | TaxConfigurationError tax_configuration_code
  | PriceResolutionError price_resolution_code
  | PriceQuoteError price_quote_code
  | PriceQuoteLifecycleError price_quote_lifecycle_code
  | PromotionError promotion_code
  | CartError cart_code
  | OrderAmendmentError order_amendment_code
  | OrderAmendmentWorkflowError order_amendment_workflow_code
  | IdentityContractError identity_contract_code
  | GuestSessionError guest_session_code
  | InvalidAuditRecordError string
  | CustomerProfileError customer_profile_code
  | TenantContextContractError tenant_context_code
  | MembershipContractError membership_code
  | PermissionPolicyContractError permission_policy_code
  | PermissionEvaluationContractError permission_evaluation_code
  | CheckoutValidationError checkout_code
  | OrderError order_code
  | OrderItemSnapshotError order_item_snapshot_code
  | BusinessDateError business_date_code
  | TypeError
  | RangeError

end
