(* ===== verification/Prelude.thy ===== *)
theory Prelude
  imports Errors
begin

text \<open>
  Shared ground of the development: results with errors as values, JavaScript values as the
  validators see them, the shape guard every module starts with, and the fixed-width string
  formats (UUID v7, SHA-256 digests, upper-case codes).
\<close>

section \<open>Results: a thrown error is a value\<close>

type_synonym 'a res = "err + 'a"

text \<open>\<open>bnd m f\<close> is the sequence "evaluate \<open>m\<close>, then go on with its value"; a throw in
  \<open>m\<close> ends the computation. \<open>throw_if\<close> is \<open>if (c) throw e\<close>; \<open>catching\<close> is a
  \<open>try\<close> block whose handler maps the error.\<close>

definition bnd :: "'a res \<Rightarrow> ('a \<Rightarrow> 'b res) \<Rightarrow> 'b res" where
  "bnd m f = (case m of Inl e \<Rightarrow> Inl e | Inr x \<Rightarrow> f x)"

definition throw_if :: "bool \<Rightarrow> err \<Rightarrow> unit res" where
  "throw_if c e = (if c then Inl e else Inr ())"

definition catching :: "'a res \<Rightarrow> (err \<Rightarrow> 'a res) \<Rightarrow> 'a res" where
  "catching m h = (case m of Inl e \<Rightarrow> h e | Inr x \<Rightarrow> Inr x)"

text \<open>\<open>array.map(f)\<close> where \<open>f\<close> may throw: left to right, the first throw wins.\<close>

fun map_res :: "('a \<Rightarrow> 'b res) \<Rightarrow> 'a list \<Rightarrow> 'b list res" where
  "map_res f [] = Inr []"
| "map_res f (x # xs) = bnd (f x) (\<lambda>y. bnd (map_res f xs) (\<lambda>ys. Inr (y # ys)))"

text \<open>\<open>x === null ? null : f(x)\<close> on a value already read as an option.\<close>

definition opt_res :: "('a \<Rightarrow> 'b res) \<Rightarrow> 'a option \<Rightarrow> 'b option res" where
  "opt_res f x = (case x of None \<Rightarrow> Inr None | Some v \<Rightarrow> bnd (f v) (\<lambda>w. Inr (Some w)))"

named_theorems res_simps \<open>inversion and evaluation of the result combinators\<close>

lemma bnd_Inl [simp]: "bnd (Inl e) f = Inl e"
  by (simp add: bnd_def)

lemma bnd_Inr [simp]: "bnd (Inr x) f = f x"
  by (simp add: bnd_def)

lemma throw_if_True [simp]: "throw_if True e = Inl e"
  by (simp add: throw_if_def)

lemma throw_if_False [simp]: "throw_if False e = Inr ()"
  by (simp add: throw_if_def)

lemma catching_Inl [simp]: "catching (Inl e) h = h e"
  by (simp add: catching_def)

lemma catching_Inr [simp]: "catching (Inr x) h = Inr x"
  by (simp add: catching_def)

lemma bnd_eq_Inr [res_simps]: "bnd m f = Inr y \<longleftrightarrow> (\<exists>x. m = Inr x \<and> f x = Inr y)"
  by (cases m) auto

lemma bnd_eq_Inl [res_simps]:
  "bnd m f = Inl e \<longleftrightarrow> m = Inl e \<or> (\<exists>x. m = Inr x \<and> f x = Inl e)"
  by (cases m) auto

lemma throw_if_eq_Inr [res_simps]: "throw_if c e = Inr u \<longleftrightarrow> \<not> c"
  by (simp add: throw_if_def)

lemma throw_if_eq_Inl [res_simps]: "throw_if c e = Inl e' \<longleftrightarrow> c \<and> e' = e"
  by (auto simp: throw_if_def)

lemma catching_eq_Inr [res_simps]:
  "catching m h = Inr y \<longleftrightarrow> m = Inr y \<or> (\<exists>e. m = Inl e \<and> h e = Inr y)"
  by (cases m) auto

lemma catching_throw_Inr [res_simps]: "catching m (\<lambda>_. Inl e) = Inr y \<longleftrightarrow> m = Inr y"
  by (cases m) auto

lemma catching_throw_Inl [res_simps]:
  "catching m (\<lambda>_. Inl e) = Inl e' \<longleftrightarrow> e' = e \<and> (\<exists>x. m = Inl x)"
  by (cases m) auto

lemma bnd_assoc: "bnd (bnd m f) g = bnd m (\<lambda>x. bnd (f x) g)"
  by (cases m) auto

lemma bnd_cong [fundef_cong]:
  "m = m' \<Longrightarrow> (\<And>x. m' = Inr x \<Longrightarrow> f x = f' x) \<Longrightarrow> bnd m f = bnd m' f'"
  by (cases m') auto

lemma map_res_Inr_iff:
  "map_res f xs = Inr ys \<longleftrightarrow> list_all2 (\<lambda>x y. f x = Inr y) xs ys"
  by (induction xs arbitrary: ys) (auto simp: res_simps list_all2_Cons1)

lemma map_res_length: "map_res f xs = Inr ys \<Longrightarrow> length ys = length xs"
  by (auto simp: map_res_Inr_iff dest: list_all2_lengthD)

lemma map_res_in:
  "map_res f xs = Inr ys \<Longrightarrow> y \<in> set ys \<Longrightarrow> \<exists>x \<in> set xs. f x = Inr y"
  by (induction xs arbitrary: ys) (auto simp: res_simps)

lemma map_res_in_src:
  "map_res f xs = Inr ys \<Longrightarrow> x \<in> set xs \<Longrightarrow> \<exists>y \<in> set ys. f x = Inr y"
  by (induction xs arbitrary: ys) (auto simp: res_simps)

lemma map_res_map: "map_res f (map g xs) = map_res (\<lambda>x. f (g x)) xs"
  by (induction xs) simp_all

lemma map_res_Inr_id: "(\<And>x. x \<in> set xs \<Longrightarrow> f x = Inr (g x)) \<Longrightarrow> map_res f xs = Inr (map g xs)"
  by (induction xs) auto

lemma map_res_Inl_ex: "map_res f xs = Inl e \<Longrightarrow> \<exists>x \<in> set xs. f x = Inl e"
  by (induction xs) (auto simp: res_simps)

lemma opt_res_Inr [res_simps]:
  "opt_res f x = Inr y \<longleftrightarrow>
     (x = None \<and> y = None) \<or> (\<exists>v w. x = Some v \<and> f v = Inr w \<and> y = Some w)"
  by (cases x) (auto simp: opt_res_def res_simps)

lemma opt_res_None [simp]: "opt_res f None = Inr None"
  by (simp add: opt_res_def)

lemma opt_res_Some [simp]: "opt_res f (Some v) = bnd (f v) (\<lambda>w. Inr (Some w))"
  by (simp add: opt_res_def)

section \<open>JavaScript values\<close>

text \<open>
  What a validator receives as \<open>unknown\<close>. Numbers are split into the integral ones (\<open>JNum\<close>,
  of any size) and the rest (\<open>JNonInt\<close>: fractions, NaN, infinities), because every numeric
  guard of the code starts with \<open>Number.isSafeInteger\<close> or \<open>Number.isInteger\<close>. \<open>JBig\<close> is a
  \<open>bigint\<close>. \<open>JObj\<close> is an object whose prototype is \<open>Object.prototype\<close> and whose own
  properties are enumerable data properties with string keys, in insertion order; \<open>JOpaque\<close>
  is every other value (functions, symbols, class instances, objects with accessors or symbol
  keys). Strings are sequences of characters below 256.
\<close>

datatype js =
    JUndefined
  | JNull
  | JBool bool
  | JNum int
  | JNonInt
  | JBig int
  | JStr string
  | JArr "js list"
  | JObj "(string \<times> js) list"
  | JOpaque

text \<open>The property list of a plain object never names a key twice.\<close>

fun is_plain :: "js \<Rightarrow> bool" where
  "is_plain (JObj ps) = distinct (map fst ps)"
| "is_plain _ = False"

fun own_keys :: "js \<Rightarrow> string list" where
  "own_keys (JObj ps) = map fst ps"
| "own_keys _ = []"

text \<open>\<open>value.k\<close> on a value known to be an object; a missing property reads \<open>undefined\<close>.\<close>

fun fld :: "js \<Rightarrow> string \<Rightarrow> js" where
  "fld (JObj ps) k = (case map_of ps k of None \<Rightarrow> JUndefined | Some v \<Rightarrow> v)"
| "fld _ k = JUndefined"

text \<open>\<open>value.k\<close> on an arbitrary value: reading through \<open>null\<close> or \<open>undefined\<close> throws.\<close>

fun get_prop :: "js \<Rightarrow> string \<Rightarrow> js res" where
  "get_prop JUndefined k = Inl TypeError"
| "get_prop JNull k = Inl TypeError"
| "get_prop v k = Inr (fld v k)"

text \<open>
  The closed-shape guard (\<open>exact\<close>, \<open>closed\<close> or \<open>plain\<close> in the modules): a plain object whose
  own keys are the given fields, no more and no fewer.
\<close>

definition has_shape :: "js \<Rightarrow> string list \<Rightarrow> bool" where
  "has_shape v fields \<longleftrightarrow>
     is_plain v \<and> length (own_keys v) = length fields \<and>
     list_all (\<lambda>f. f \<in> set (own_keys v)) fields \<and>
     list_all (\<lambda>k. k \<in> set fields) (own_keys v)"

lemma has_shape_JObj [simp]:
  "has_shape (JObj ps) fields \<longleftrightarrow>
     distinct (map fst ps) \<and> length ps = length fields \<and>
     set fields \<subseteq> fst ` set ps \<and> fst ` set ps \<subseteq> set fields"
  by (auto simp: has_shape_def list_all_iff image_iff subset_iff)

lemma has_shape_cases: "has_shape v fields \<Longrightarrow> \<exists>ps. v = JObj ps"
  by (cases v) (auto simp: has_shape_def)

fun is_array :: "js \<Rightarrow> bool" where
  "is_array (JArr _) = True"
| "is_array _ = False"

fun elements :: "js \<Rightarrow> js list" where
  "elements (JArr xs) = xs"
| "elements _ = []"

lemma is_array_iff: "is_array v \<longleftrightarrow> (\<exists>xs. v = JArr xs)"
  by (cases v) auto

text \<open>\<open>value === null ? null : f(value)\<close>.\<close>

definition nullable :: "(js \<Rightarrow> 'a res) \<Rightarrow> js \<Rightarrow> 'a option res" where
  "nullable f v = (if v = JNull then Inr None else bnd (f v) (\<lambda>x. Inr (Some x)))"

lemma nullable_JNull [simp]: "nullable f JNull = Inr None"
  by (simp add: nullable_def)

lemma nullable_Inr [res_simps]:
  "nullable f v = Inr y \<longleftrightarrow>
     (v = JNull \<and> y = None) \<or> (v \<noteq> JNull \<and> (\<exists>w. f v = Inr w \<and> y = Some w))"
  by (auto simp: nullable_def res_simps)

text \<open>\<open>Number.isSafeInteger\<close> with bounds: the value when it is an integer within them.\<close>

definition max_safe :: int where
  "max_safe = 9007199254740991"

fun safe_int_in :: "int \<Rightarrow> int \<Rightarrow> js \<Rightarrow> int option" where
  "safe_int_in lo hi (JNum n) =
     (if - max_safe \<le> n \<and> n \<le> max_safe \<and> lo \<le> n \<and> n \<le> hi then Some n else None)"
| "safe_int_in lo hi _ = None"

lemma safe_int_in_Some [res_simps]:
  "safe_int_in lo hi v = Some n \<longleftrightarrow>
     v = JNum n \<and> - max_safe \<le> n \<and> n \<le> max_safe \<and> lo \<le> n \<and> n \<le> hi"
  by (cases v) auto

text \<open>A string-literal union: the constructor a string names, if any.\<close>

definition enum_of :: "(string \<times> 'a) list \<Rightarrow> js \<Rightarrow> 'a option" where
  "enum_of tab v = (case v of JStr s \<Rightarrow> map_of tab s | _ \<Rightarrow> None)"

text \<open>An option read as a result: the value, or the given error.\<close>

definition or_throw :: "'a option \<Rightarrow> err \<Rightarrow> 'a res" where
  "or_throw x e = (case x of None \<Rightarrow> Inl e | Some v \<Rightarrow> Inr v)"

lemma or_throw_simps [simp]: "or_throw None e = Inl e" "or_throw (Some v) e = Inr v"
  by (simp_all add: or_throw_def)

lemma sort_key_Nil_iff [simp]: "sort_key f xs = [] \<longleftrightarrow> xs = []"
  by (metis length_0_conv length_sort)

lemma or_throw_Inr [res_simps]: "or_throw x e = Inr v \<longleftrightarrow> x = Some v"
  by (cases x) auto

lemma or_throw_Inl [res_simps]: "or_throw x e = Inl e' \<longleftrightarrow> x = None \<and> e' = e"
  by (cases x) auto

text \<open>\<open>null\<close> for the absent case when a parsed value is handed back to a validator.\<close>

definition js_opt :: "('a \<Rightarrow> js) \<Rightarrow> 'a option \<Rightarrow> js" where
  "js_opt f x = (case x of None \<Rightarrow> JNull | Some v \<Rightarrow> f v)"

lemma js_opt_simps [simp]: "js_opt f None = JNull" "js_opt f (Some v) = f v"
  by (simp_all add: js_opt_def)

section \<open>Strings\<close>

definition in_range :: "nat \<Rightarrow> nat \<Rightarrow> char \<Rightarrow> bool" where
  "in_range a b c \<longleftrightarrow> a \<le> of_char c \<and> of_char c \<le> b"

definition is_digit :: "char \<Rightarrow> bool" where
  "is_digit c \<longleftrightarrow> in_range 48 57 c"

definition is_upper :: "char \<Rightarrow> bool" where
  "is_upper c \<longleftrightarrow> in_range 65 90 c"

definition is_hex :: "char \<Rightarrow> bool" where
  "is_hex c \<longleftrightarrow> is_digit c \<or> in_range 97 102 c"

text \<open>Code equations on the bits of a character, for evaluation by the simplifier.\<close>

lemma is_digit_code [code]:
  "is_digit (Char b0 b1 b2 b3 b4 b5 b6 b7) \<longleftrightarrow> \<not> b7 \<and> \<not> b6 \<and> b5 \<and> b4 \<and> \<not> (b3 \<and> (b2 \<or> b1))"
  by (cases b0; cases b1; cases b2; cases b3; cases b4; cases b5; cases b6; cases b7)
    (simp_all add: is_digit_def in_range_def)

lemma is_upper_code [code]:
  "is_upper (Char b0 b1 b2 b3 b4 b5 b6 b7) \<longleftrightarrow> \<not> b7 \<and> b6 \<and> \<not> b5 \<and>
     (b0 \<or> b1 \<or> b2 \<or> b3 \<or> b4) \<and> \<not> (b4 \<and> b3 \<and> (b2 \<or> b0 \<and> b1))"
  by (cases b0; cases b1; cases b2; cases b3; cases b4; cases b5; cases b6; cases b7)
    (simp_all add: is_upper_def in_range_def)

lemma is_hex_code [code]:
  "is_hex (Char b0 b1 b2 b3 b4 b5 b6 b7) \<longleftrightarrow> \<not> b7 \<and> b5 \<and>
     (\<not> b6 \<and> b4 \<and> \<not> (b3 \<and> (b2 \<or> b1)) \<or>
      b6 \<and> \<not> b4 \<and> \<not> b3 \<and> (b0 \<or> b1 \<or> b2) \<and> \<not> (b0 \<and> b1 \<and> b2))"
  by (cases b0; cases b1; cases b2; cases b3; cases b4; cases b5; cases b6; cases b7)
    (simp_all add: is_hex_def is_digit_def in_range_def)

text \<open>A fixed-width pattern: one predicate per character.\<close>

definition matches :: "(char \<Rightarrow> bool) list \<Rightarrow> string \<Rightarrow> bool" where
  "matches pat s \<longleftrightarrow> list_all2 (\<lambda>p c. p c) pat s"

definition lit :: "char \<Rightarrow> char \<Rightarrow> bool" where
  "lit a c \<longleftrightarrow> a = c"

text \<open>\<open>/^[0-9a-f]{8}-[0-9a-f]{4}-7[0-9a-f]{3}-[89ab][0-9a-f]{3}-[0-9a-f]{12}$/u\<close>\<close>

definition uuid_v7 :: "string \<Rightarrow> bool" where
  "uuid_v7 s \<longleftrightarrow> matches
     (replicate 8 is_hex @ [lit (CHR ''-'')] @ replicate 4 is_hex @
      [lit (CHR ''-''), lit (CHR ''7'')] @ replicate 3 is_hex @
      [lit (CHR ''-''), \<lambda>c. c \<in> set ''89ab''] @ replicate 3 is_hex @
      [lit (CHR ''-'')] @ replicate 12 is_hex) s"

text \<open>\<open>/^sha256:[0-9a-f]{64}$/u\<close>\<close>

definition sha256_digest :: "string \<Rightarrow> bool" where
  "sha256_digest s \<longleftrightarrow> matches (map lit ''sha256:'' @ replicate 64 is_hex) s"

text \<open>\<open>/^[A-Z]{3}$/u\<close>\<close>

definition currency_format :: "string \<Rightarrow> bool" where
  "currency_format s \<longleftrightarrow> matches (replicate 3 is_upper) s"

text \<open>\<open>/^[A-Z][A-Z0-9_]{0,63}$/u\<close>, and with \<open>-\<close> allowed after the first letter.\<close>

definition code_format :: "string \<Rightarrow> string \<Rightarrow> bool" where
  "code_format extra s \<longleftrightarrow>
     (case s of [] \<Rightarrow> False
      | c # cs \<Rightarrow> is_upper c \<and> length cs \<le> 63 \<and>
          list_all (\<lambda>d. is_upper d \<or> is_digit d \<or> d \<in> set extra) cs)"

lemma matches_length: "matches pat s \<Longrightarrow> length s = length pat"
  by (auto simp: matches_def dest: list_all2_lengthD)

text \<open>Reading a JavaScript value as a string of a given format.\<close>

fun str_if :: "(string \<Rightarrow> bool) \<Rightarrow> js \<Rightarrow> string option" where
  "str_if P (JStr s) = (if P s then Some s else None)"
| "str_if P _ = None"

lemma str_if_Some [res_simps]: "str_if P v = Some s \<longleftrightarrow> v = JStr s \<and> P s"
  by (cases v) auto

text \<open>\<open>a < b\<close> on strings: lexicographic by code unit.\<close>

fun str_less :: "string \<Rightarrow> string \<Rightarrow> bool" where
  "str_less [] [] = False"
| "str_less [] (_ # _) = True"
| "str_less (_ # _) [] = False"
| "str_less (c # cs) (d # ds) =
     ((of_char c :: nat) < of_char d \<or> c = d \<and> str_less cs ds)"

lemma str_less_append:
  "length u = length u' \<Longrightarrow> str_less (u @ v) (u' @ v') = (str_less u u' \<or> u = u' \<and> str_less v v')"
  by (induction u u' rule: list_induct2) auto

lemma str_less_irrefl [simp]: "\<not> str_less s s"
  by (induction s) auto

lemma str_less_trans: "str_less a b \<Longrightarrow> str_less b c \<Longrightarrow> str_less a c"
proof (induction a b arbitrary: c rule: str_less.induct)
  case (2 d ds)
  then show ?case by (cases c) auto
next
  case (4 x xs y ys)
  then show ?case by (cases c) auto
qed auto

lemma str_less_total: "str_less a b \<or> a = b \<or> str_less b a"
proof (induction a b rule: str_less.induct)
  case (4 c cs d ds)
  have "c = d \<or> (of_char c :: nat) < of_char d \<or> (of_char d :: nat) < of_char c"
    using of_char_eq_iff by (metis nat_neq_iff)
  with 4 show ?case by auto
qed auto

text \<open>
  \<open>String.prototype.trim\<close> on the characters below 256: tab, line feed, vertical tab, form feed,
  carriage return, space and no-break space. NFC normalisation is the identity on these characters.
\<close>

definition js_space :: "char \<Rightarrow> bool" where
  "js_space c \<longleftrightarrow> in_range 9 13 c \<or> of_char c = (32 :: nat) \<or> of_char c = (160 :: nat)"

definition js_trim :: "string \<Rightarrow> string" where
  "js_trim s = rev (dropWhile js_space (rev (dropWhile js_space s)))"

section \<open>Decimal numerals\<close>

definition digit_val :: "char \<Rightarrow> int" where
  "digit_val c = int (of_char c) - 48"

definition dec_val :: "string \<Rightarrow> int" where
  "dec_val s = foldl (\<lambda>a c. 10 * a + digit_val c) 0 s"

definition digit_char :: "int \<Rightarrow> char" where
  "digit_char d = char_of (nat (48 + d))"

lemma digit_val_code [code]:
  "digit_val (Char b0 b1 b2 b3 b4 b5 b6 b7) =
     (if b0 then 1 else 0) + (if b1 then 2 else 0) + (if b2 then 4 else 0) + (if b3 then 8 else 0) +
     (if b4 then 16 else 0) + (if b5 then 32 else 0) + (if b6 then 64 else 0) + (if b7 then 128 else 0) - 48"
  by (cases b0; cases b1; cases b2; cases b3; cases b4; cases b5; cases b6; cases b7)
    (simp_all add: digit_val_def)

lemma digit_char_code [code]:
  "digit_char d =
     (if d = 0 then CHR ''0'' else if d = 1 then CHR ''1'' else if d = 2 then CHR ''2''
      else if d = 3 then CHR ''3'' else if d = 4 then CHR ''4'' else if d = 5 then CHR ''5''
      else if d = 6 then CHR ''6'' else if d = 7 then CHR ''7'' else if d = 8 then CHR ''8''
      else if d = 9 then CHR ''9'' else char_of (nat (48 + d)))"
  by (simp add: digit_char_def) code_simp
text \<open>\<open>n\<close> written with exactly \<open>w\<close> digits (the low ones).\<close>

fun pad_digits :: "nat \<Rightarrow> int \<Rightarrow> string" where
  "pad_digits 0 n = []"
| "pad_digits (Suc w) n = pad_digits w (n div 10) @ [digit_char (n mod 10)]"

lemma digit_val_char: "0 \<le> d \<Longrightarrow> d \<le> 9 \<Longrightarrow> digit_val (digit_char d) = d"
  by (simp add: digit_val_def digit_char_def of_char_of)

lemma is_digit_char: "0 \<le> d \<Longrightarrow> d \<le> 9 \<Longrightarrow> is_digit (digit_char d)"
  by (simp add: is_digit_def in_range_def digit_char_def of_char_of nat_le_iff)

lemma digit_char_val: "is_digit c \<Longrightarrow> digit_char (digit_val c) = c"
  by (simp add: is_digit_def in_range_def digit_char_def digit_val_def)

lemma digit_val_range: "is_digit c \<Longrightarrow> 0 \<le> digit_val c \<and> digit_val c \<le> 9"
  by (simp add: is_digit_def in_range_def digit_val_def)

lemma dec_val_snoc: "dec_val (s @ [c]) = 10 * dec_val s + digit_val c"
  by (simp add: dec_val_def)

lemma dec_val_Nil [simp]: "dec_val [] = 0"
  by (simp add: dec_val_def)

lemma length_pad_digits [simp]: "length (pad_digits w n) = w"
  by (induction w arbitrary: n) simp_all

lemma pad_digits_all_digits: "list_all is_digit (pad_digits w n)"
  by (induction w arbitrary: n) (simp_all add: is_digit_char)

lemma dec_val_pad_digits: "0 \<le> n \<Longrightarrow> n < 10 ^ w \<Longrightarrow> dec_val (pad_digits w n) = n"
proof (induction w arbitrary: n)
  case 0
  then show ?case by simp
next
  case (Suc w)
  have "n div 10 < 10 ^ w" using Suc.prems by (simp add: div_less_iff_less_mult algebra_simps)
  with Suc show ?case by (simp add: dec_val_snoc digit_val_char)
qed

lemma dec_val_range:
  "list_all is_digit s \<Longrightarrow> 0 \<le> dec_val s \<and> dec_val s < 10 ^ length s"
proof (induction s rule: rev_induct)
  case Nil
  then show ?case by simp
next
  case (snoc c s)
  then have "0 \<le> digit_val c \<and> digit_val c \<le> 9" by (simp add: digit_val_range)
  with snoc show ?case by (simp add: dec_val_snoc)
qed

lemma pad_digits_dec_val: "list_all is_digit s \<Longrightarrow> pad_digits (length s) (dec_val s) = s"
proof (induction s rule: rev_induct)
  case Nil
  then show ?case by simp
next
  case (snoc c s)
  then have d: "0 \<le> digit_val c \<and> digit_val c \<le> 9" by (simp add: digit_val_range)
  then have "(10 * dec_val s + digit_val c) div 10 = dec_val s"
    and "(10 * dec_val s + digit_val c) mod 10 = digit_val c"
    by presburger+
  with snoc show ?case by (simp add: dec_val_snoc digit_char_val)
qed

text \<open>\<open>BigInt.prototype.toString()\<close>: the decimal numeral without leading zeros.\<close>

fun nat_str :: "nat \<Rightarrow> string" where
  "nat_str n = (if n < 10 then [digit_char (int n)]
                else nat_str (n div 10) @ [digit_char (int (n mod 10))])"

declare nat_str.simps [simp del]

definition int_str :: "int \<Rightarrow> string" where
  "int_str n = (if n < 0 then CHR ''-'' # nat_str (nat (- n)) else nat_str (nat n))"

lemma dec_val_nat_str: "dec_val (nat_str n) = int n"
proof (induction n rule: nat_str.induct)
  case (1 n)
  show ?case
  proof (cases "n < 10")
    case True
    then show ?thesis by (subst nat_str.simps) (simp add: dec_val_def digit_val_char)
  next
    case False
    with 1 show ?thesis
      by (subst nat_str.simps) (simp add: dec_val_snoc digit_val_char zmod_int zdiv_int)
  qed
qed

lemma nat_str_digits: "list_all is_digit (nat_str n)"
proof (induction n rule: nat_str.induct)
  case (1 n)
  then show ?case by (subst nat_str.simps) (simp add: is_digit_char)
qed

text \<open>
  \<open>/^(?:0|[1-9][0-9]*)$/u\<close>: a canonical natural number, and the value \<open>BigInt\<close> reads from it.
\<close>

definition nat_numeral :: "string \<Rightarrow> bool" where
  "nat_numeral s \<longleftrightarrow>
     s = ''0'' \<or> (s \<noteq> [] \<and> hd s \<noteq> CHR ''0'' \<and> list_all is_digit s)"

lemma nat_str_neq_Nil [simp]: "nat_str n \<noteq> []"
  by (subst nat_str.simps) simp

lemma digit_char_0 [simp]: "digit_char 0 = CHR ''0''"
  by code_simp

lemma digit_char_eq_0: "0 \<le> d \<Longrightarrow> d \<le> 9 \<Longrightarrow> digit_char d = CHR ''0'' \<longleftrightarrow> d = 0"
  using digit_val_char [of d] by (auto simp: digit_val_def)

lemma nat_str_numeral: "nat_numeral (nat_str n)"
proof -
  have "0 < n \<Longrightarrow> hd (nat_str n) \<noteq> CHR ''0''"
  proof (induction n rule: nat_str.induct)
    case (1 n)
    then show ?case
      by (subst nat_str.simps) (auto simp: digit_char_eq_0 hd_append)
  qed
  moreover have "nat_str 0 = ''0''" by (subst nat_str.simps) simp
  ultimately show ?thesis
    using nat_str_digits [of n] by (cases "n = 0") (auto simp: nat_numeral_def)
qed

section \<open>Collation\<close>

text \<open>
  \<open>a.localeCompare(b, "en")\<close> on the strings the code compares with it: upper-case codes over
  \<open>[A-Z0-9_-]\<close>, and such codes joined with \<open>|\<close>. Every character of this alphabet has its own
  primary weight, in the order \<open>_ - | 0..9 A..Z\<close>, so the comparison is lexicographic in these
  weights.
\<close>

definition collation_weight :: "char \<Rightarrow> nat" where
  "collation_weight c =
     (if c = CHR ''_'' then 0 else if c = CHR ''-'' then 1 else if c = CHR ''|'' then 2
      else 3 + of_char c)"

definition collation_key :: "string \<Rightarrow> nat list" where
  "collation_key s = map collation_weight s"

lemma inj_collation_weight: "inj collation_weight"
proof (rule injI)
  fix c d assume "collation_weight c = collation_weight d"
  then show "c = d"
    by (auto simp: collation_weight_def split: if_splits)
qed

lemma collation_key_inj [simp]: "collation_key s = collation_key t \<longleftrightarrow> s = t"
  using inj_collation_weight by (simp add: collation_key_def inj_map_eq_map)

end
