(* ===== verification/JsDate.thy ===== *)
theory JsDate
  imports Prelude
begin

text \<open>
  The part of JavaScript's \<open>Date\<close> the code relies on: \<open>Date.parse\<close> on strings of the shape
  \<open>YYYY-MM-DDTHH:MM:SS.mmmZ\<close> (the only strings the code passes to it) and \<open>toISOString\<close>.
  \<open>None\<close> stands for \<open>NaN\<close>. As in the Node runtime the repository pins, a day up to 31 is
  accepted in every month and rolls over (\<open>2026-02-31\<close> is the third of March), and
  \<open>24:00:00.000\<close> is the end of the day; the code's stricter parsers reject both by comparing
  \<open>new Date(Date.parse(v)).toISOString()\<close> with \<open>v\<close>. The lemmas show that the two functions
  are inverse to each other on the years 0 to 9999 and that the strict check accepts exactly the
  real calendar instants.
\<close>

section \<open>The proleptic Gregorian calendar\<close>

definition leap :: "int \<Rightarrow> bool" where
  "leap y \<longleftrightarrow> y mod 4 = 0 \<and> (y mod 100 \<noteq> 0 \<or> y mod 400 = 0)"

text \<open>Days from 1 January 1970 to 1 January of year \<open>y\<close> (ECMAScript's \<open>DayFromYear\<close>).\<close>

definition day_from_year :: "int \<Rightarrow> int" where
  "day_from_year y =
     365 * (y - 1970) + (y - 1969) div 4 - (y - 1901) div 100 + (y - 1601) div 400"

definition month_lengths :: "bool \<Rightarrow> int list" where
  "month_lengths lp = [31, if lp then 29 else 28, 31, 30, 31, 30, 31, 31, 30, 31, 30, 31]"

text \<open>Month and day of month of the \<open>d\<close>-th day (from 0) of a run of months.\<close>

fun split_month :: "int list \<Rightarrow> int \<Rightarrow> int \<Rightarrow> int \<times> int" where
  "split_month [] m d = (m, d + 1)"
| "split_month (l # ls) m d = (if d < l then (m, d + 1) else split_month ls (m + 1) (d - l))"

definition days_before_month :: "bool \<Rightarrow> int \<Rightarrow> int" where
  "days_before_month lp m = sum_list (take (nat (m - 1)) (month_lengths lp))"

definition year_from_day :: "int \<Rightarrow> int" where
  "year_from_day d =
     (let e = 1970 + (400 * d) div 146097
      in if day_from_year (e + 1) \<le> d then e + 1
         else if day_from_year e \<le> d then e else e - 1)"

lemma int_div_succ: "0 < k \<Longrightarrow> (z + 1) div k = z div k + (if (z + 1) mod k = 0 then 1 else (0::int))"
proof -
  assume k: "0 < k"
  define q r where "q = z div k" and "r = z mod k"
  have z: "z = k * q + r" and r: "0 \<le> r" "r < k"
    using k by (simp_all add: q_def r_def)
  show ?thesis
  proof (cases "r + 1 = k")
    case True
    then have "z + 1 = k * (q + 1)" using z by (simp add: algebra_simps)
    with k show ?thesis by (simp add: q_def)
  next
    case False
    with r k have "(z + 1) div k = q" and "(z + 1) mod k = r + 1"
      unfolding z by (simp_all add: add.assoc div_pos_pos_trivial mod_pos_pos_trivial)
    with r show ?thesis by (simp add: q_def)
  qed
qed

lemma int_div_bounds: "0 < k \<Longrightarrow> k * (z div k) \<le> z \<and> z < k * (z div k) + (k::int)"
  using mult_div_mod_eq [of k z] pos_mod_sign [of k z] pos_mod_bound [of k z] by linarith

lemma int_mod_shift: "(y - j * k) mod k = y mod (k::int)"
  using mod_diff_right_eq [of y "j * k" k] by simp

lemma day_from_year_succ: "day_from_year (y + 1) = day_from_year y + (if leap y then 366 else 365)"
proof -
  have a: "(y + 1 - 1969) div 4 = (y - 1969) div 4 + (if y mod 4 = 0 then 1 else 0)"
    using int_div_succ [of 4 "y - 1969"] int_mod_shift [of y 492 4] by (simp add: algebra_simps)
  have b: "(y + 1 - 1901) div 100 = (y - 1901) div 100 + (if y mod 100 = 0 then 1 else 0)"
    using int_div_succ [of 100 "y - 1901"] int_mod_shift [of y 19 100] by (simp add: algebra_simps)
  have c: "(y + 1 - 1601) div 400 = (y - 1601) div 400 + (if y mod 400 = 0 then 1 else 0)"
    using int_div_succ [of 400 "y - 1601"] int_mod_shift [of y 4 400] by (simp add: algebra_simps)
  have d: "y mod 400 = 0 \<Longrightarrow> y mod 100 = 0" "y mod 100 = 0 \<Longrightarrow> y mod 4 = 0"
    using mod_mod_cancel [of 100 400 y] mod_mod_cancel [of 4 100 y] by simp_all
  have e: "day_from_year (y + 1) = 365 * (y + 1 - 1970) +
      ((y - 1969) div 4 + (if y mod 4 = 0 then 1 else 0)) -
      ((y - 1901) div 100 + (if y mod 100 = 0 then 1 else 0)) +
      ((y - 1601) div 400 + (if y mod 400 = 0 then 1 else 0))"
    by (simp only: day_from_year_def a b c)
  define A B C where "A = (y - 1969) div 4" and "B = (y - 1901) div 100" and "C = (y - 1601) div 400"
  have "day_from_year y = 365 * (y - 1970) + A - B + C"
    by (simp only: day_from_year_def A_def B_def C_def)
  moreover define p q r where "p = (y mod 4 = 0)" and "q = (y mod 100 = 0)" and "r = (y mod 400 = 0)"
  ultimately show ?thesis
    using d unfolding e leap_def A_def [symmetric] B_def [symmetric] C_def [symmetric]
      p_def [symmetric] q_def [symmetric] r_def [symmetric]
    by (cases p; cases q; cases r) simp_all
qed

lemma day_from_year_add: "day_from_year y + 365 * int n \<le> day_from_year (y + int n)"
proof (induction n)
  case 0
  then show ?case by simp
next
  case (Suc n)
  have "day_from_year (y + int (Suc n)) \<ge> day_from_year (y + int n) + 365"
    using day_from_year_succ [of "y + int n"] by (simp add: algebra_simps)
  with Suc show ?case by simp
qed

lemma day_from_year_mono: "y \<le> z \<Longrightarrow> day_from_year y \<le> day_from_year z"
  using day_from_year_add [of y "nat (z - y)"] by simp

lemma year_bracket_unique:
  assumes "day_from_year y \<le> d" and "d < day_from_year (y + 1)"
    and "day_from_year z \<le> d" and "d < day_from_year (z + 1)"
  shows "y = z"
proof (rule ccontr)
  assume "y \<noteq> z"
  then have "y + 1 \<le> z \<or> z + 1 \<le> y" by arith
  with assms show False
    using day_from_year_mono [of "y + 1" z] day_from_year_mono [of "z + 1" y] by auto
qed

lemma day_from_year_bounds:
  "146097 * (y - 1970) - 506 \<le> 400 * day_from_year y"
  "400 * day_from_year y \<le> 146097 * (y - 1970) + 589"
proof -
  define a b c where "a = (y - 1969) div 4" and "b = (y - 1901) div 100" and "c = (y - 1601) div 400"
  note defs = a_def b_def c_def
  have "4 * a \<le> y - 1969" "y - 1969 \<le> 4 * a + 3"
    and "100 * b \<le> y - 1901" "y - 1901 \<le> 100 * b + 99"
    and "400 * c \<le> y - 1601" "y - 1601 \<le> 400 * c + 399"
    using int_div_bounds [of 4 "y - 1969"] int_div_bounds [of 100 "y - 1901"]
      int_div_bounds [of 400 "y - 1601"] unfolding a_def b_def c_def by simp_all
  moreover have "day_from_year y = 365 * (y - 1970) + a - b + c"
    by (simp add: day_from_year_def defs)
  ultimately show "146097 * (y - 1970) - 506 \<le> 400 * day_from_year y"
    and "400 * day_from_year y \<le> 146097 * (y - 1970) + 589"
    by (simp_all add: algebra_simps)
qed

lemma year_from_day_bracket:
  "day_from_year (year_from_day d) \<le> d \<and> d < day_from_year (year_from_day d + 1)"
proof -
  define e where "e = 1970 + (400 * d) div 146097"
  have e: "146097 * (e - 1970) \<le> 400 * d" "400 * d < 146097 * (e - 1970) + 146097"
    using int_div_bounds [of 146097 "400 * d"] unfolding e_def by simp_all
  have "d < day_from_year (e + 2)"
    using day_from_year_bounds(1) [of "e + 2"] e by simp
  moreover have "day_from_year (e - 1) \<le> d"
    using day_from_year_bounds(2) [of "e - 1"] e by simp
  ultimately show ?thesis
    by (simp add: year_from_day_def Let_def e_def [symmetric] add.commute)
qed

lemma year_from_day_eqI:
  "day_from_year y \<le> d \<Longrightarrow> d < day_from_year (y + 1) \<Longrightarrow> year_from_day d = y"
  using year_from_day_bracket [of d] by (blast intro: year_bracket_unique)

lemma split_month_spec:
  assumes "0 \<le> d" and "d < sum_list ls" and "split_month ls m d = (m', dd)"
  shows "m \<le> m' \<and> m' < m + int (length ls) \<and> 1 \<le> dd \<and> dd \<le> ls ! nat (m' - m) \<and>
    sum_list (take (nat (m' - m)) ls) + dd - 1 = d"
  using assms
proof (induction ls m d rule: split_month.induct)
  case (1 m d)
  then show ?case by simp
next
  case (2 l ls m d)
  show ?case
  proof (cases "d < l")
    case True
    with 2 show ?thesis by auto
  next
    case False
    with "2.prems" have "split_month ls (m + 1) (d - l) = (m', dd)" "0 \<le> d - l" "d - l < sum_list ls"
      by auto
    note IH = "2.IH" [OF False this(2) this(3) this(1)]
    then have "nat (m' - m) = Suc (nat (m' - (m + 1)))" by linarith
    with IH show ?thesis by simp
  qed
qed

lemma split_month_at:
  assumes "k < length ls" and "1 \<le> dd" and "dd \<le> ls ! k" and "\<forall>l \<in> set ls. 0 < l"
  shows "split_month ls m (sum_list (take k ls) + dd - 1) = (m + int k, dd)"
  using assms
proof (induction ls arbitrary: k m)
  case Nil
  then show ?case by simp
next
  case (Cons l ls)
  show ?case
  proof (cases k)
    case 0
    with Cons.prems show ?thesis by simp
  next
    case (Suc j)
    have "0 \<le> sum_list (take j ls)"
      using Cons.prems(4) by (intro sum_list_nonneg) (auto dest!: in_set_takeD intro: less_imp_le)
    with Suc Cons.prems Cons.IH [of j "m + 1"] show ?thesis
      by (simp add: algebra_simps)
  qed
qed

lemma sum_month_lengths: "sum_list (month_lengths lp) = (if lp then 366 else 365)"
  by (simp add: month_lengths_def)

lemma month_lengths_bound: "n < 12 \<Longrightarrow> 1 \<le> month_lengths lp ! n \<and> month_lengths lp ! n \<le> 31"
proof -
  assume "n < 12"
  then have "month_lengths lp ! n \<in> set (month_lengths lp)"
    by (intro nth_mem) (simp add: month_lengths_def)
  then show ?thesis by (auto simp: month_lengths_def split: if_splits)
qed

section \<open>Date.parse and toISOString\<close>

text \<open>\<open>/^\d{4}-\d{2}-\d{2}T\d{2}:\d{2}:\d{2}\.\d{3}Z$/u\<close>\<close>

definition instant_pat :: "(char \<Rightarrow> bool) list" where
  "instant_pat = replicate 4 is_digit @ [lit (CHR ''-'')] @ replicate 2 is_digit @
     [lit (CHR ''-'')] @ replicate 2 is_digit @ [lit (CHR ''T'')] @ replicate 2 is_digit @
     [lit (CHR '':'')] @ replicate 2 is_digit @ [lit (CHR '':'')] @ replicate 2 is_digit @
     [lit (CHR ''.'')] @ replicate 3 is_digit @ [lit (CHR ''Z'')]"

definition instant_format :: "string \<Rightarrow> bool" where
  "instant_format s \<longleftrightarrow> matches instant_pat s"

text \<open>The seven numbers of an instant: year, month, day, hour, minute, second, millisecond.\<close>

definition instant_parts :: "string \<Rightarrow> int \<times> int \<times> int \<times> int \<times> int \<times> int \<times> int" where
  "instant_parts s =
     (dec_val (take 4 s), dec_val (take 2 (drop 5 s)), dec_val (take 2 (drop 8 s)),
      dec_val (take 2 (drop 11 s)), dec_val (take 2 (drop 14 s)), dec_val (take 2 (drop 17 s)),
      dec_val (take 3 (drop 20 s)))"

definition ms_per_day :: int where
  "ms_per_day = 86400000"

definition make_time :: "int \<Rightarrow> int \<Rightarrow> int \<Rightarrow> int \<Rightarrow> int" where
  "make_time h mi se ms = ((h * 60 + mi) * 60 + se) * 1000 + ms"

definition make_day :: "int \<Rightarrow> int \<Rightarrow> int \<Rightarrow> int" where
  "make_day y m d = day_from_year y + days_before_month (leap y) m + (d - 1)"

definition date_parse :: "string \<Rightarrow> int option" where
  "date_parse s =
     (if instant_format s then
        (case instant_parts s of (y, m, d, h, mi, se, ms) \<Rightarrow>
           if 1 \<le> m \<and> m \<le> 12 \<and> 1 \<le> d \<and> d \<le> 31 \<and> mi \<le> 59 \<and> se \<le> 59 \<and>
              (h \<le> 23 \<or> h = 24 \<and> mi = 0 \<and> se = 0 \<and> ms = 0)
           then Some (make_day y m d * ms_per_day + make_time h mi se ms) else None)
      else None)"

definition iso_year :: "int \<Rightarrow> string" where
  "iso_year y =
     (if 0 \<le> y \<and> y \<le> 9999 then pad_digits 4 y
      else if y < 0 then CHR ''-'' # pad_digits 6 (- y) else CHR ''+'' # pad_digits 6 y)"

text \<open>\<open>new Date(t).toISOString()\<close> for a time value in range.\<close>

definition to_iso :: "int \<Rightarrow> string" where
  "to_iso t =
     (let day = t div ms_per_day; r = t mod ms_per_day; y = year_from_day day;
          (m, d) = split_month (month_lengths (leap y)) 1 (day - day_from_year y)
      in iso_year y @ ''-'' @ pad_digits 2 m @ ''-'' @ pad_digits 2 d @ ''T'' @
         pad_digits 2 (r div 3600000) @ '':'' @ pad_digits 2 (r div 60000 mod 60) @ '':'' @
         pad_digits 2 (r div 1000 mod 60) @ ''.'' @ pad_digits 3 (r mod 1000) @ ''Z'')"

text \<open>\<open>new Date(Date.parse(s)).toISOString() === s\<close> for a string that parses.\<close>

definition canonical_instant :: "string \<Rightarrow> bool" where
  "canonical_instant s \<longleftrightarrow> (case date_parse s of None \<Rightarrow> False | Some t \<Rightarrow> to_iso t = s)"

text \<open>Comparisons of time values: any comparison with \<open>NaN\<close> is false.\<close>

fun ms_less :: "int option \<Rightarrow> int option \<Rightarrow> bool" where
  "ms_less (Some a) (Some b) = (a < b)"
| "ms_less _ _ = False"

fun ms_le :: "int option \<Rightarrow> int option \<Rightarrow> bool" where
  "ms_le (Some a) (Some b) = (a \<le> b)"
| "ms_le _ _ = False"

section \<open>Round trips\<close>

definition valid_parts :: "int \<times> int \<times> int \<times> int \<times> int \<times> int \<times> int \<Rightarrow> bool" where
  "valid_parts p = (case p of (y, m, d, h, mi, se, ms) \<Rightarrow>
     0 \<le> y \<and> y \<le> 9999 \<and> 1 \<le> m \<and> m \<le> 12 \<and>
     1 \<le> d \<and> d \<le> month_lengths (leap y) ! nat (m - 1) \<and>
     0 \<le> h \<and> h \<le> 23 \<and> 0 \<le> mi \<and> mi \<le> 59 \<and> 0 \<le> se \<and> se \<le> 59 \<and> 0 \<le> ms \<and> ms \<le> 999)"

definition parts_ms :: "int \<times> int \<times> int \<times> int \<times> int \<times> int \<times> int \<Rightarrow> int" where
  "parts_ms p = (case p of (y, m, d, h, mi, se, ms) \<Rightarrow>
     make_day y m d * ms_per_day + make_time h mi se ms)"

definition format_parts :: "int \<times> int \<times> int \<times> int \<times> int \<times> int \<times> int \<Rightarrow> string" where
  "format_parts p = (case p of (y, m, d, h, mi, se, ms) \<Rightarrow>
     pad_digits 4 y @ ''-'' @ pad_digits 2 m @ ''-'' @ pad_digits 2 d @ ''T'' @
     pad_digits 2 h @ '':'' @ pad_digits 2 mi @ '':'' @ pad_digits 2 se @ ''.'' @
     pad_digits 3 ms @ ''Z'')"

lemma matches_replicate:
  "list_all2 (\<lambda>p c. p c) (replicate n P) s \<longleftrightarrow> length s = n \<and> list_all P s"
  by (auto simp: list_all2_conv_all_nth list_all_length)

lemma matches_append:
  "matches (p @ q) s \<longleftrightarrow> matches p (take (length p) s) \<and> matches q (drop (length p) s)"
proof
  assume "matches (p @ q) s"
  then show "matches p (take (length p) s) \<and> matches q (drop (length p) s)"
    by (auto simp: matches_def list_all2_append1)
next
  assume h: "matches p (take (length p) s) \<and> matches q (drop (length p) s)"
  then have "matches (p @ q) (take (length p) s @ drop (length p) s)"
    unfolding matches_def by (blast intro: list_all2_appendI)
  then show "matches (p @ q) s" by simp
qed

lemma matches_digits: "matches (replicate n P) s \<longleftrightarrow> length s = n \<and> list_all P s"
  by (simp add: matches_def matches_replicate)

lemma matches_lit: "matches [lit c] s \<longleftrightarrow> s = [c]"
  by (auto simp: matches_def list_all2_Cons1 lit_def)

text \<open>The chunks of a 24-character string, by position.\<close>

lemma take_drop_glue: "take n (drop m s) @ drop (m + n) s = drop m s"
  by (metis append_take_drop_id drop_drop add.commute)

lemma instant_chunks:
  assumes "length s = 24"
  shows "take 4 s @ take 1 (drop 4 s) @ take 2 (drop 5 s) @ take 1 (drop 7 s) @ take 2 (drop 8 s) @
    take 1 (drop 10 s) @ take 2 (drop 11 s) @ take 1 (drop 13 s) @ take 2 (drop 14 s) @
    take 1 (drop 16 s) @ take 2 (drop 17 s) @ take 1 (drop 19 s) @ take 3 (drop 20 s) @
    take 1 (drop 23 s) = s"
proof -
  have "take 1 (drop 23 s) = drop 23 s" using assms by simp
  then show ?thesis
    using take_drop_glue [of 3 20 s] take_drop_glue [of 1 19 s] take_drop_glue [of 2 17 s]
      take_drop_glue [of 1 16 s] take_drop_glue [of 2 14 s] take_drop_glue [of 1 13 s]
      take_drop_glue [of 2 11 s] take_drop_glue [of 1 10 s] take_drop_glue [of 2 8 s]
      take_drop_glue [of 1 7 s] take_drop_glue [of 2 5 s] take_drop_glue [of 1 4 s]
    by simp
qed

lemma instant_format_chunks:
  "instant_format s \<longleftrightarrow> length s = 24 \<and>
     list_all is_digit (take 4 s) \<and> take 1 (drop 4 s) = ''-'' \<and>
     list_all is_digit (take 2 (drop 5 s)) \<and> take 1 (drop 7 s) = ''-'' \<and>
     list_all is_digit (take 2 (drop 8 s)) \<and> take 1 (drop 10 s) = ''T'' \<and>
     list_all is_digit (take 2 (drop 11 s)) \<and> take 1 (drop 13 s) = '':'' \<and>
     list_all is_digit (take 2 (drop 14 s)) \<and> take 1 (drop 16 s) = '':'' \<and>
     list_all is_digit (take 2 (drop 17 s)) \<and> take 1 (drop 19 s) = ''.'' \<and>
     list_all is_digit (take 3 (drop 20 s)) \<and> take 1 (drop 23 s) = ''Z''"
  (is "_ \<longleftrightarrow> ?R")
proof -
  have len: "length instant_pat = 24" by (simp add: instant_pat_def)
  have "instant_format s \<longleftrightarrow> length s = 24 \<and> instant_format s"
    using matches_length [of instant_pat s] len by (auto simp: instant_format_def)
  also have "\<dots> \<longleftrightarrow> ?R"
    by (rule conj_cong, rule refl)
      (simp add: instant_format_def instant_pat_def matches_append matches_digits matches_lit
        del: replicate.simps append.simps)
  finally show ?thesis .
qed

lemma instant_parts_append:
  assumes "length a = 4" "length b = 2" "length c = 2" "length d = 2" "length e = 2"
    "length f = 2" "length g = 3"
  shows "instant_parts (a @ ''-'' @ b @ ''-'' @ c @ ''T'' @ d @ '':'' @ e @ '':'' @ f @ ''.'' @ g @ ''Z'')
    = (dec_val a, dec_val b, dec_val c, dec_val d, dec_val e, dec_val f, dec_val g)"
  using assms by (simp add: instant_parts_def)

lemma format_parts_of: "instant_format s \<Longrightarrow> format_parts (instant_parts s) = s"
proof -
  assume f: "instant_format s"
  note ch = f [unfolded instant_format_chunks]
  have p: "pad_digits 4 (dec_val (take 4 s)) = take 4 s"
    "pad_digits 2 (dec_val (take 2 (drop 5 s))) = take 2 (drop 5 s)"
    "pad_digits 2 (dec_val (take 2 (drop 8 s))) = take 2 (drop 8 s)"
    "pad_digits 2 (dec_val (take 2 (drop 11 s))) = take 2 (drop 11 s)"
    "pad_digits 2 (dec_val (take 2 (drop 14 s))) = take 2 (drop 14 s)"
    "pad_digits 2 (dec_val (take 2 (drop 17 s))) = take 2 (drop 17 s)"
    "pad_digits 3 (dec_val (take 3 (drop 20 s))) = take 3 (drop 20 s)"
    using ch pad_digits_dec_val [of "take 4 s"] pad_digits_dec_val [of "take 2 (drop 5 s)"]
      pad_digits_dec_val [of "take 2 (drop 8 s)"] pad_digits_dec_val [of "take 2 (drop 11 s)"]
      pad_digits_dec_val [of "take 2 (drop 14 s)"] pad_digits_dec_val [of "take 2 (drop 17 s)"]
      pad_digits_dec_val [of "take 3 (drop 20 s)"]
    by simp_all
  show ?thesis
    using instant_chunks [of s] ch
    by (simp only: format_parts_def instant_parts_def prod.case p)
qed

lemma valid_parts_bounds:
  "valid_parts (y, m, d, h, mi, se, ms) \<Longrightarrow> 1 \<le> d \<and> d \<le> 31"
  using month_lengths_bound [of "nat (m - 1)" "leap y"]
  by (clarsimp simp: valid_parts_def nat_less_iff)

lemma parts_of_format_parts:
  assumes "valid_parts p"
  shows "instant_format (format_parts p) \<and> instant_parts (format_parts p) = p"
proof -
  obtain y m d h mi se ms where p: "p = (y, m, d, h, mi, se, ms)" by (cases p)
  have d: "1 \<le> d" "d \<le> 31" using valid_parts_bounds assms p by auto
  with assms have "dec_val (pad_digits 4 y) = y" "dec_val (pad_digits 2 m) = m"
    "dec_val (pad_digits 2 d) = d" "dec_val (pad_digits 2 h) = h" "dec_val (pad_digits 2 mi) = mi"
    "dec_val (pad_digits 2 se) = se" "dec_val (pad_digits 3 ms) = ms"
    by (simp_all add: p valid_parts_def dec_val_pad_digits)
  moreover have "instant_format (format_parts p)"
    by (simp add: p format_parts_def instant_format_chunks pad_digits_all_digits del: pad_digits.simps)
  ultimately show ?thesis
    using instant_parts_append [of "pad_digits 4 y" "pad_digits 2 m" "pad_digits 2 d" "pad_digits 2 h"
        "pad_digits 2 mi" "pad_digits 2 se" "pad_digits 3 ms"]
    by (simp add: p format_parts_def del: pad_digits.simps)
qed

lemma date_parse_parts:
  assumes "valid_parts p"
  shows "date_parse (format_parts p) = Some (parts_ms p)"
proof -
  obtain y m d h mi se ms where p: "p = (y, m, d, h, mi, se, ms)" by (cases p)
  have "1 \<le> d" "d \<le> 31" using valid_parts_bounds assms p by auto
  with parts_of_format_parts [OF assms] assms show ?thesis
    by (simp add: date_parse_def p parts_ms_def valid_parts_def)
qed

lemma make_day_split:
  assumes "1 \<le> m" "m \<le> 12" "1 \<le> d" "d \<le> month_lengths (leap y) ! nat (m - 1)"
  shows "year_from_day (make_day y m d) = y \<and>
    split_month (month_lengths (leap y)) 1 (make_day y m d - day_from_year y) = (m, d)"
proof -
  define k where "k = nat (m - 1)"
  have k: "k < length (month_lengths (leap y))" and m: "m = 1 + int k"
    using assms by (simp_all add: k_def month_lengths_def)
  have pos: "\<forall>l \<in> set (month_lengths (leap y)). 0 < l" by (simp add: month_lengths_def)
  have dm: "days_before_month (leap y) m = sum_list (take k (month_lengths (leap y)))"
    by (simp add: days_before_month_def k_def)
  have "take k (month_lengths (leap y)) @ drop k (month_lengths (leap y)) = month_lengths (leap y)"
    by simp
  then have "sum_list (take k (month_lengths (leap y))) + sum_list (drop k (month_lengths (leap y)))
      = (if leap y then 366 else 365)"
    using sum_month_lengths [of "leap y"] by (metis sum_list_append)
  moreover have "month_lengths (leap y) ! k \<le> sum_list (drop k (month_lengths (leap y)))"
  proof -
    have "drop k (month_lengths (leap y)) = month_lengths (leap y) ! k # drop (Suc k) (month_lengths (leap y))"
      using k by (simp add: Cons_nth_drop_Suc)
    moreover have "0 \<le> sum_list (drop (Suc k) (month_lengths (leap y)))"
      using pos by (intro sum_list_nonneg) (auto dest!: in_set_dropD intro: less_imp_le)
    ultimately show ?thesis by simp
  qed
  moreover have "0 \<le> sum_list (take k (month_lengths (leap y)))"
    using pos by (intro sum_list_nonneg) (auto dest!: in_set_takeD intro: less_imp_le)
  ultimately have "year_from_day (make_day y m d) = y"
    using assms day_from_year_succ [of y]
    by (intro year_from_day_eqI) (simp_all add: make_day_def dm k_def [symmetric])
  moreover have "split_month (month_lengths (leap y)) 1 (make_day y m d - day_from_year y) = (m, d)"
    using split_month_at [OF k assms(3) _ pos, of 1] assms(4)
    by (simp add: make_day_def dm k_def [symmetric] algebra_simps) (simp add: m)
  ultimately show ?thesis by blast
qed

lemma time_split:
  assumes "0 \<le> h" "h \<le> 23" "0 \<le> mi" "mi \<le> 59" "0 \<le> se" "se \<le> 59" "0 \<le> ms" "ms \<le> 999"
  shows "0 \<le> make_time h mi se ms \<and> make_time h mi se ms < ms_per_day \<and>
    make_time h mi se ms div 3600000 = h \<and> make_time h mi se ms div 60000 mod 60 = mi \<and>
    make_time h mi se ms div 1000 mod 60 = se \<and> make_time h mi se ms mod 1000 = ms"
proof -
  define a b where "a = (h * 60 + mi) * 60 + se" and "b = h * 60 + mi"
  have t: "make_time h mi se ms = a * 1000 + ms" and a: "a = b * 60 + se" and b: "b = h * 60 + mi"
    by (simp_all add: make_time_def a_def b_def)
  have d1: "(a * 1000 + ms) div 1000 = a" "(a * 1000 + ms) mod 1000 = ms"
    using assms by simp_all
  have d2: "a div 60 = b" "a mod 60 = se" using assms unfolding a by simp_all
  have d3: "b div 60 = h" "b mod 60 = mi" using assms unfolding b by simp_all
  have "(a * 1000 + ms) div 60000 = (a * 1000 + ms) div 1000 div 60"
    "(a * 1000 + ms) div 3600000 = (a * 1000 + ms) div 1000 div 60 div 60"
    by (simp_all add: zdiv_zmult2_eq [symmetric])
  moreover have "0 \<le> a * 1000 + ms" "a * 1000 + ms < 86400000"
    using assms by (simp_all add: a b)
  ultimately show ?thesis
    by (simp add: t d1 d2 d3 ms_per_day_def) (use d1 in simp)
qed

lemma to_iso_parts:
  assumes "valid_parts p"
  shows "to_iso (parts_ms p) = format_parts p"
proof -
  obtain y m d h mi se ms where p: "p = (y, m, d, h, mi, se, ms)" by (cases p)
  note v = assms [unfolded p valid_parts_def prod.case]
  have ts: "0 \<le> make_time h mi se ms" "make_time h mi se ms < ms_per_day"
    "make_time h mi se ms div 3600000 = h" "make_time h mi se ms div 60000 mod 60 = mi"
    "make_time h mi se ms div 1000 mod 60 = se" "make_time h mi se ms mod 1000 = ms"
    using time_split [of h mi se ms] v by simp_all
  have dm: "parts_ms p div ms_per_day = make_day y m d" "parts_ms p mod ms_per_day = make_time h mi se ms"
    using ts by (simp_all add: p parts_ms_def ms_per_day_def)
  have "year_from_day (make_day y m d) = y"
    "split_month (month_lengths (leap y)) 1 (make_day y m d - day_from_year y) = (m, d)"
    using make_day_split [of m d y] v by simp_all
  then show ?thesis
    using v unfolding to_iso_def Let_def dm ts
    by (simp add: ts p format_parts_def iso_year_def del: pad_digits.simps)
qed

lemma parts_exist:
  assumes "day_from_year 0 * ms_per_day \<le> t" and "t < day_from_year 10000 * ms_per_day"
  shows "\<exists>p. valid_parts p \<and> parts_ms p = t"
proof -
  define day r y where "day = t div ms_per_day" and "r = t mod ms_per_day" and "y = year_from_day day"
  have t: "t = day * ms_per_day + r" by (simp add: day_def r_def)
  have r: "0 \<le> r" "r < 86400000" by (simp_all add: r_def ms_per_day_def)
  have "day_from_year 0 \<le> day" "day < day_from_year 10000"
    using assms r by (simp_all add: t ms_per_day_def)
  moreover have y: "day_from_year y \<le> day" "day < day_from_year (y + 1)"
    using year_from_day_bracket [of day] by (simp_all add: y_def)
  ultimately have yr: "0 \<le> y" "y \<le> 9999"
    using day_from_year_mono [of "y + 1" 0] day_from_year_mono [of 10000 y]
    by (force, force)
  obtain m d where md: "split_month (month_lengths (leap y)) 1 (day - day_from_year y) = (m, d)"
    by (cases "split_month (month_lengths (leap y)) 1 (day - day_from_year y)")
  have md2: "1 \<le> m \<and> m < 1 + int 12 \<and> 1 \<le> d \<and> d \<le> month_lengths (leap y) ! nat (m - 1) \<and>
    days_before_month (leap y) m + d - 1 = day - day_from_year y"
    using split_month_spec [OF _ _ md] y day_from_year_succ [of y] sum_month_lengths [of "leap y"]
    by (simp add: days_before_month_def month_lengths_def split: if_splits)
  define h mi se ms where "h = r div 3600000" and "mi = r div 60000 mod 60"
    and "se = r div 1000 mod 60" and "ms = r mod 1000"
  have mt: "make_time h mi se ms = r"
  proof -
    have "r div 60000 = r div 1000 div 60" "r div 3600000 = r div 1000 div 60 div 60"
      by (simp_all add: zdiv_zmult2_eq [symmetric])
    then have "make_time h mi se ms =
      ((r div 1000 div 60 div 60 * 60 + r div 1000 div 60 mod 60) * 60 + r div 1000 mod 60) * 1000 + r mod 1000"
      by (simp add: make_time_def h_def mi_def se_def ms_def)
    then show ?thesis by simp
  qed
  have bnd: "0 \<le> h" "h \<le> 23" "0 \<le> mi" "mi \<le> 59" "0 \<le> se" "se \<le> 59" "0 \<le> ms" "ms \<le> 999"
  proof -
    have "3600000 * h \<le> r" "r < 3600000 * h + 3600000"
      using int_div_bounds [of 3600000 r] by (simp_all add: h_def)
    with r show "0 \<le> h" "h \<le> 23" by simp_all
    show "0 \<le> mi" "0 \<le> se" "0 \<le> ms" by (simp_all add: mi_def se_def ms_def)
    have "mi < 60" "se < 60" "ms < 1000" by (simp_all add: mi_def se_def ms_def)
    then show "mi \<le> 59" "se \<le> 59" "ms \<le> 999" by simp_all
  qed
  have "make_day y m d = day" using md2 by (simp add: make_day_def)
  then have "valid_parts (y, m, d, h, mi, se, ms) \<and> parts_ms (y, m, d, h, mi, se, ms) = t"
    using yr md2 mt bnd by (simp add: valid_parts_def parts_ms_def t)
  then show ?thesis by blast
qed

lemma parts_ms_range:
  assumes "valid_parts p"
  shows "day_from_year 0 * ms_per_day \<le> parts_ms p \<and> parts_ms p < day_from_year 10000 * ms_per_day"
proof -
  obtain y m d h mi se ms where p: "p = (y, m, d, h, mi, se, ms)" by (cases p)
  note v = assms [unfolded p valid_parts_def prod.case]
  have t: "0 \<le> make_time h mi se ms" "make_time h mi se ms < ms_per_day"
    using time_split [of h mi se ms] v by simp_all
  have "year_from_day (make_day y m d) = y" using make_day_split [of m d y] v by simp
  then have "day_from_year y \<le> make_day y m d" "make_day y m d < day_from_year (y + 1)"
    using year_from_day_bracket [of "make_day y m d"] by simp_all
  then have "day_from_year 0 \<le> make_day y m d" "make_day y m d < day_from_year 10000"
    using day_from_year_mono [of 0 y] day_from_year_mono [of "y + 1" 10000] v by simp_all
  with t show ?thesis by (simp add: p parts_ms_def ms_per_day_def)
qed

definition iso_time :: "int \<Rightarrow> bool" where
  "iso_time t \<longleftrightarrow> day_from_year 0 * ms_per_day \<le> t \<and> t < day_from_year 10000 * ms_per_day"

lemma iso_time_iff: "iso_time t \<longleftrightarrow> -62167219200000 \<le> t \<and> t < 253402300800000"
  by (simp add: iso_time_def day_from_year_def ms_per_day_def)

lemma date_parse_to_iso: "iso_time t \<Longrightarrow> date_parse (to_iso t) = Some t"
  using parts_exist [of t] by (auto simp: iso_time_def to_iso_parts date_parse_parts)

lemma canonical_to_iso: "iso_time t \<Longrightarrow> canonical_instant (to_iso t)"
  by (simp add: canonical_instant_def date_parse_to_iso)

lemma instant_format_to_iso: "iso_time t \<Longrightarrow> instant_format (to_iso t)"
  using parts_exist [of t] by (auto simp: iso_time_def to_iso_parts parts_of_format_parts)

lemma length_to_iso_wide: "\<not> iso_time t \<Longrightarrow> length (to_iso t) \<noteq> 24"
proof -
  assume n: "\<not> iso_time t"
  define y where "y = year_from_day (t div ms_per_day)"
  have b: "day_from_year y \<le> t div ms_per_day" "t div ms_per_day < day_from_year (y + 1)"
    using year_from_day_bracket by (simp_all add: y_def)
  have "\<not> (0 \<le> y \<and> y \<le> 9999)"
  proof
    assume "0 \<le> y \<and> y \<le> 9999"
    then have "day_from_year 0 \<le> t div ms_per_day" "t div ms_per_day < day_from_year 10000"
      using b day_from_year_mono [of 0 y] day_from_year_mono [of "y + 1" 10000] by simp_all
    then have "iso_time t"
      using int_div_bounds [of ms_per_day t] by (simp add: iso_time_def ms_per_day_def)
    with n show False by simp
  qed
  then have "length (iso_year y) = 7" by (simp add: iso_year_def)
  then show ?thesis
    by (auto simp: to_iso_def Let_def y_def [symmetric] split: prod.splits)
qed

text \<open>The strict check accepts exactly the written form of the real calendar instants.\<close>

lemma canonical_instant_iff: "canonical_instant s \<longleftrightarrow> (\<exists>p. valid_parts p \<and> s = format_parts p)"
proof
  assume "canonical_instant s"
  then obtain t where t: "date_parse s = Some t" "to_iso t = s"
    by (auto simp: canonical_instant_def split: option.splits)
  then have "length s = 24"
    by (auto simp: date_parse_def instant_format_chunks split: if_splits)
  with t have "iso_time t" using length_to_iso_wide [of t] by auto
  then obtain p where "valid_parts p" "parts_ms p = t"
    using parts_exist [of t] unfolding iso_time_def by blast
  with t show "\<exists>p. valid_parts p \<and> s = format_parts p" using to_iso_parts [of p] by blast
next
  assume "\<exists>p. valid_parts p \<and> s = format_parts p"
  then show "canonical_instant s"
    by (auto simp: canonical_instant_def date_parse_parts to_iso_parts)
qed

lemma canonical_instantE:
  assumes "canonical_instant s"
  obtains t where "date_parse s = Some t" and "iso_time t" and "s = to_iso t"
proof -
  obtain p where p: "valid_parts p" "s = format_parts p"
    using assms by (auto simp: canonical_instant_iff)
  show thesis
    using that [of "parts_ms p"] p parts_ms_range [OF p(1)]
    by (simp add: date_parse_parts to_iso_parts iso_time_def)
qed

lemma canonical_instant_format: "canonical_instant s \<Longrightarrow> instant_format s"
  using parts_of_format_parts by (auto simp: canonical_instant_iff)

definition ms_of :: "string \<Rightarrow> int" where
  "ms_of s = (case date_parse s of Some t \<Rightarrow> t | None \<Rightarrow> 0)"

lemma date_parse_canonical: "canonical_instant s \<Longrightarrow> date_parse s = Some (ms_of s)"
  by (auto simp: canonical_instant_def ms_of_def split: option.splits)

lemma ms_of_to_iso [simp]: "iso_time t \<Longrightarrow> ms_of (to_iso t) = t"
  by (simp add: ms_of_def date_parse_to_iso)

lemma to_iso_ms_of: "canonical_instant s \<Longrightarrow> to_iso (ms_of s) = s"
  by (auto simp: canonical_instant_def ms_of_def split: option.splits)

lemma iso_time_ms_of: "canonical_instant s \<Longrightarrow> iso_time (ms_of s)"
  by (auto elim: canonical_instantE)

lemma canonical_eq_iff:
  "canonical_instant a \<Longrightarrow> canonical_instant b \<Longrightarrow> a = b \<longleftrightarrow> ms_of a = ms_of b"
  using to_iso_ms_of by metis

section \<open>String order is time order\<close>

lemma dec_val_Cons: "dec_val (c # s) = digit_val c * 10 ^ length s + dec_val s"
proof (induction s rule: rev_induct)
  case Nil
  then show ?case by (simp add: dec_val_def)
next
  case (snoc d s)
  have "dec_val (c # s @ [d]) = 10 * dec_val (c # s) + digit_val d"
    using dec_val_snoc [of "c # s" d] by simp
  with snoc show ?case by (simp add: dec_val_snoc algebra_simps)
qed

lemma digit_less: "is_digit c \<Longrightarrow> is_digit d \<Longrightarrow> (of_char c < (of_char d :: nat)) = (digit_val c < digit_val d)"
  by (auto simp: digit_val_def)

lemma digit_eq: "is_digit c \<Longrightarrow> is_digit d \<Longrightarrow> (c = d) = (digit_val c = digit_val d)"
  using digit_char_val by metis

lemma str_less_digits:
  "length u = length v \<Longrightarrow> list_all is_digit u \<Longrightarrow> list_all is_digit v \<Longrightarrow>
    str_less u v = (dec_val u < dec_val v)"
proof (induction u v rule: list_induct2)
  case Nil
  then show ?case by simp
next
  case (Cons c u d v)
  have r: "0 \<le> dec_val u" "dec_val u < 10 ^ length u" "0 \<le> dec_val v" "dec_val v < 10 ^ length u"
    using Cons.prems Cons.hyps dec_val_range [of u] dec_val_range [of v] by auto
  have dig: "is_digit c" "is_digit d" using Cons.prems by auto
  have lt: "dec_val (c # u) < dec_val (d # v)"
    if "digit_val c < digit_val d" "length u = length v" "dec_val u < 10 ^ length u" "0 \<le> dec_val v"
    for c d :: char and u v :: string
  proof -
    have "(digit_val c + 1) * 10 ^ length u \<le> digit_val d * 10 ^ length u"
      using that by (intro mult_right_mono) simp_all
    with that show ?thesis by (simp add: dec_val_Cons algebra_simps)
  qed
  consider "digit_val c < digit_val d" | "digit_val c = digit_val d" | "digit_val d < digit_val c" by arith
  then show ?case
  proof cases
    case 1
    with lt [of c d u v] r Cons.hyps dig show ?thesis by (simp add: digit_less)
  next
    case 2
    with Cons r dig show ?thesis by (simp add: digit_less digit_eq dec_val_Cons)
  next
    case 3
    with lt [of d c v u] r Cons.hyps dig show ?thesis by (auto simp: digit_less digit_eq)
  qed
qed

fun lex_less :: "int list \<Rightarrow> int list \<Rightarrow> bool" where
  "lex_less (a # as) (b # bs) = (a < b \<or> a = b \<and> lex_less as bs)"
| "lex_less _ _ = False"

lemma lex_less_total: "length as = length bs \<Longrightarrow> lex_less as bs \<or> as = bs \<or> lex_less bs as"
  by (induction as bs rule: list_induct2) auto

definition parts_list :: "int \<times> int \<times> int \<times> int \<times> int \<times> int \<times> int \<Rightarrow> int list" where
  "parts_list p = (case p of (y, m, d, h, mi, se, ms) \<Rightarrow> [y, m, d, h, mi, se, ms])"

lemma str_less_pad:
  assumes "0 \<le> a" "a < 10 ^ w" "0 \<le> b" "b < 10 ^ w"
  shows "str_less (pad_digits w a @ u) (pad_digits w b @ v) = (a < b \<or> a = b \<and> str_less u v)"
proof -
  have "pad_digits w a = pad_digits w b \<longleftrightarrow> a = b"
    using assms dec_val_pad_digits by metis
  with assms show ?thesis
    by (simp add: str_less_append str_less_digits pad_digits_all_digits dec_val_pad_digits)
qed

lemma str_less_format_parts:
  assumes "valid_parts p" "valid_parts q"
  shows "str_less (format_parts p) (format_parts q) = lex_less (parts_list p) (parts_list q)"
proof -
  obtain y m d h mi se ms where p: "p = (y, m, d, h, mi, se, ms)" by (cases p)
  obtain y' m' d' h' mi' se' ms' where q: "q = (y', m', d', h', mi', se', ms')" by (cases q)
  have "1 \<le> d" "d \<le> 31" "1 \<le> d'" "d' \<le> 31" using valid_parts_bounds assms p q by auto
  with assms show ?thesis
    by (simp add: p q format_parts_def parts_list_def valid_parts_def str_less_pad del: pad_digits.simps)
qed

lemma days_before_month_succ:
  "1 \<le> m \<Longrightarrow> m \<le> 12 \<Longrightarrow>
    days_before_month lp (m + 1) = days_before_month lp m + month_lengths lp ! nat (m - 1)"
proof -
  assume m: "1 \<le> m" "m \<le> 12"
  then have "nat m = Suc (nat (m - 1))" and "nat (m - 1) < length (month_lengths lp)"
    by (simp_all add: month_lengths_def)
  then show ?thesis by (simp add: days_before_month_def take_Suc_conv_app_nth)
qed

lemma days_before_month_mono: "m \<le> m' \<Longrightarrow> days_before_month lp m \<le> days_before_month lp m'"
proof -
  assume "m \<le> m'"
  then have "take (nat (m' - 1)) (month_lengths lp) =
    take (nat (m - 1)) (month_lengths lp) @ take (nat (m' - 1) - nat (m - 1)) (drop (nat (m - 1)) (month_lengths lp))"
    by (metis diff_mono le_add_diff_inverse nat_mono order_refl take_add)
  moreover have "0 \<le> sum_list (take (nat (m' - 1) - nat (m - 1)) (drop (nat (m - 1)) (month_lengths lp)))"
    by (intro sum_list_nonneg) (auto dest!: in_set_takeD in_set_dropD simp: month_lengths_def)
  ultimately show ?thesis by (simp add: days_before_month_def)
qed

lemma make_day_less:
  assumes "1 \<le> m" "m \<le> 12" "1 \<le> d" "d \<le> month_lengths (leap y) ! nat (m - 1)"
    and "1 \<le> m'" "m' \<le> 12" "1 \<le> d'" "d' \<le> month_lengths (leap y') ! nat (m' - 1)"
    and "lex_less [y, m, d] [y', m', d']"
  shows "make_day y m d < make_day y' m' d'"
proof (cases "y < y'")
  case True
  have "year_from_day (make_day y m d) = y" "year_from_day (make_day y' m' d') = y'"
    using assms make_day_split by blast+
  then have "make_day y m d < day_from_year (y + 1)" "day_from_year y' \<le> make_day y' m' d'"
    using year_from_day_bracket by metis+
  moreover have "day_from_year (y + 1) \<le> day_from_year y'" using True by (simp add: day_from_year_mono)
  ultimately show ?thesis by simp
next
  case False
  with assms have y: "y' = y" and md: "m < m' \<or> m = m' \<and> d < d'" by auto
  show ?thesis
  proof (cases "m < m'")
    case True
    have "days_before_month (leap y) m + month_lengths (leap y) ! nat (m - 1) \<le> days_before_month (leap y) m'"
      using days_before_month_succ [of m "leap y"] days_before_month_mono [of "m + 1" m' "leap y"] True assms
      by simp
    with assms y show ?thesis by (simp add: make_day_def)
  next
    case False
    with md y show ?thesis by (simp add: make_day_def)
  qed
qed

lemma parts_ms_less:
  assumes "valid_parts p" "valid_parts q" "lex_less (parts_list p) (parts_list q)"
  shows "parts_ms p < parts_ms q"
proof -
  obtain y m d h mi se ms where p: "p = (y, m, d, h, mi, se, ms)" by (cases p)
  obtain y' m' d' h' mi' se' ms' where q: "q = (y', m', d', h', mi', se', ms')" by (cases q)
  note v = assms(1) [unfolded p valid_parts_def prod.case] assms(2) [unfolded q valid_parts_def prod.case]
  have t: "0 \<le> make_time h mi se ms" "make_time h mi se ms < ms_per_day"
    "0 \<le> make_time h' mi' se' ms'" "make_time h' mi' se' ms' < ms_per_day"
    using time_split [of h mi se ms] time_split [of h' mi' se' ms'] v by simp_all
  show ?thesis
  proof (cases "lex_less [y, m, d] [y', m', d']")
    case True
    then have "make_day y m d < make_day y' m' d'" using make_day_less v by blast
    then show ?thesis using t by (simp add: p q parts_ms_def ms_per_day_def)
  next
    case False
    with assms(3) have "y = y'" "m = m'" "d = d'" "lex_less [h, mi, se, ms] [h', mi', se', ms']"
      by (auto simp: p q parts_list_def)
    moreover from this v have "make_time h mi se ms < make_time h' mi' se' ms'"
      by (auto simp: make_time_def)
    ultimately show ?thesis by (simp add: p q parts_ms_def)
  qed
qed

theorem str_less_canonical:
  assumes "canonical_instant a" "canonical_instant b"
  shows "str_less a b = (ms_of a < ms_of b)"
proof -
  obtain p q where pq: "valid_parts p" "a = format_parts p" "valid_parts q" "b = format_parts q"
    using assms by (auto simp: canonical_instant_iff)
  have ms: "ms_of a = parts_ms p" "ms_of b = parts_ms q"
    using pq by (simp_all add: ms_of_def date_parse_parts)
  have "parts_list p = parts_list q \<Longrightarrow> p = q"
    by (cases p; cases q) (simp add: parts_list_def)
  moreover have "length (parts_list p) = length (parts_list q)"
    by (simp add: parts_list_def split: prod.splits)
  ultimately show ?thesis
    using parts_ms_less pq lex_less_total [of "parts_list p" "parts_list q"]
    unfolding ms str_less_format_parts [OF pq(1,3), folded pq(2,4)]
    by fastforce
qed

end
