(* ===== verification/MoneyTax.thy ===== *)
theory MoneyTax
  imports JsDate "HOL-Library.Multiset" "HOL-Library.List_Lexorder" "HOL-Library.Product_Lexorder"
begin

text \<open>
  Money and tax arithmetic: \<open>packages/rms/pricing/src/domain/money-tax-contract.ts\<close> (the value
  types and their validators) and \<open>money-tax.ts\<close> (checked addition, rounding of rationals, tax
  of an amount, allocation of an amount over weighted shares). Amounts are bigint minor units
  checked against the signed 64-bit range; rates are canonical decimal strings.
\<close>

section \<open>Value types\<close>

datatype rounding_mode = HalfUp | HalfEven | TowardZero | AwayFromZero

datatype tax_treatment = Taxable | Exempt | ZeroRated

datatype price_inclusion = Exclusive | Inclusive

definition rounding_modes :: "(string \<times> rounding_mode) list" where
  "rounding_modes = [(''HalfUp'', HalfUp), (''HalfEven'', HalfEven), (''TowardZero'', TowardZero),
     (''AwayFromZero'', AwayFromZero)]"

definition tax_treatments :: "(string \<times> tax_treatment) list" where
  "tax_treatments = [(''Taxable'', Taxable), (''Exempt'', Exempt), (''ZeroRated'', ZeroRated)]"

definition price_inclusions :: "(string \<times> price_inclusion) list" where
  "price_inclusions = [(''Exclusive'', Exclusive), (''Inclusive'', Inclusive)]"

record money =
  amountMinor :: int
  currencyCode :: string

record currency_metadata =
  cm_currencyCode :: string
  cm_minorUnitExponent :: int
  cm_metadataVersion :: int
  cm_metadataVersionReference :: string
  cm_metadataDigest :: string

record resolved_tax_rule =
  rt_ruleVersionReference :: string
  rt_ruleVersionDigest :: string
  rt_jurisdictionCode :: string
  rt_taxComponentCode :: string
  rt_taxClassificationReference :: string
  rt_treatment :: tax_treatment
  rt_rate :: string
  rt_priceInclusion :: price_inclusion
  rt_roundingMode :: rounding_mode

record tax_calculation_input =
  ti_calculationReference :: string
  ti_taxableReference :: string
  ti_inputAmount :: money
  ti_currencyMetadata :: currency_metadata
  ti_resolvedRule :: resolved_tax_rule

record tax_calculation_explanation =
  te_jurisdictionCode :: string
  te_taxComponentCode :: string
  te_taxClassificationReference :: string
  te_treatment :: tax_treatment
  te_rate :: string
  te_rateNumerator :: string
  te_rateDenominator :: string
  te_priceInclusion :: price_inclusion
  te_roundingMode :: rounding_mode
  te_currencyMetadataVersion :: int
  te_currencyMetadataVersionReference :: string
  te_currencyMetadataDigest :: string
  te_ruleVersionReference :: string
  te_ruleVersionDigest :: string

record tax_calculation_result =
  tr_calculationReference :: string
  tr_taxableReference :: string
  tr_inputAmount :: money
  tr_netAmount :: money
  tr_taxAmount :: money
  tr_grossAmount :: money
  tr_explanation :: tax_calculation_explanation

record money_allocation =
  ma_allocationKey :: string
  ma_amount :: money

section \<open>Validators\<close>

definition minimumMinor :: int where
  "minimumMinor = - (2 ^ 63)"

definition maximumMinor :: int where
  "maximumMinor = 2 ^ 63 - 1"

definition mt_exact :: "js \<Rightarrow> string list \<Rightarrow> money_tax_code \<Rightarrow> unit res" where
  "mt_exact value fs errorCode = throw_if (\<not> has_shape value fs) (MoneyTaxContractError errorCode)"

text \<open>\<open>/^[A-Z][A-Z0-9]*(?:[-_][A-Z0-9]+)*$/u\<close>: the flag says that a separator was just read.\<close>

fun pricing_code_tail :: "bool \<Rightarrow> string \<Rightarrow> bool" where
  "pricing_code_tail sep [] = (\<not> sep)"
| "pricing_code_tail sep (c # cs) =
     (if is_upper c \<or> is_digit c then pricing_code_tail False cs
      else if c = CHR ''-'' \<or> c = CHR ''_'' then \<not> sep \<and> pricing_code_tail True cs
      else False)"

definition pricing_code_format :: "string \<Rightarrow> bool" where
  "pricing_code_format s \<longleftrightarrow>
     (case s of [] \<Rightarrow> False | c # cs \<Rightarrow> is_upper c \<and> pricing_code_tail False cs)"

text \<open>\<open>/^(?:0|[1-9][0-9]{0,5})(?:\.[0-9]{0,11}[1-9])?$/u\<close>\<close>

definition rate_whole :: "string \<Rightarrow> string" where
  "rate_whole s = takeWhile (\<lambda>c. c \<noteq> CHR ''.'') s"

definition rate_rest :: "string \<Rightarrow> string" where
  "rate_rest s = dropWhile (\<lambda>c. c \<noteq> CHR ''.'') s"

definition canonical_rate :: "string \<Rightarrow> bool" where
  "canonical_rate s \<longleftrightarrow>
     nat_numeral (rate_whole s) \<and> length (rate_whole s) \<le> 6 \<and>
     (case rate_rest s of [] \<Rightarrow> True
      | _ # f \<Rightarrow> f \<noteq> [] \<and> length f \<le> 12 \<and> list_all is_digit f \<and> last f \<noteq> CHR ''0'')"

definition parseCurrencyCode :: "js \<Rightarrow> string res" where
  "parseCurrencyCode v = or_throw (str_if currency_format v) (MoneyTaxContractError MONEY_INPUT_INVALID)"

definition parsePricingReference :: "js \<Rightarrow> string res" where
  "parsePricingReference v = or_throw (str_if uuid_v7 v) (MoneyTaxContractError TAX_INPUT_INVALID)"

definition parsePricingDigest :: "js \<Rightarrow> string res" where
  "parsePricingDigest v = or_throw (str_if sha256_digest v) (MoneyTaxContractError TAX_INPUT_INVALID)"

definition parsePricingCode :: "js \<Rightarrow> string res" where
  "parsePricingCode v =
     or_throw (str_if (\<lambda>s. length s \<le> 64 \<and> pricing_code_format s) v)
       (MoneyTaxContractError TAX_INPUT_INVALID)"

definition parseTaxRate :: "js \<Rightarrow> string res" where
  "parseTaxRate v = or_throw (str_if canonical_rate v) (MoneyTaxContractError TAX_INPUT_INVALID)"

fun parseAmountMinor :: "js \<Rightarrow> int res" where
  "parseAmountMinor (JBig n) =
     (if n < minimumMinor \<or> maximumMinor < n then Inl (MoneyTaxContractError MONEY_INPUT_INVALID)
      else Inr n)"
| "parseAmountMinor _ = Inl (MoneyTaxContractError MONEY_INPUT_INVALID)"

definition createMoney :: "js \<Rightarrow> money res" where
  "createMoney input =
     bnd (mt_exact input [''amountMinor'', ''currencyCode''] MONEY_INPUT_INVALID) (\<lambda>_.
     bnd (parseAmountMinor (fld input ''amountMinor'')) (\<lambda>a.
     bnd (parseCurrencyCode (fld input ''currencyCode'')) (\<lambda>c.
     Inr \<lparr>amountMinor = a, currencyCode = c\<rparr>)))"

definition createCurrencyMetadataSnapshot :: "js \<Rightarrow> currency_metadata res" where
  "createCurrencyMetadataSnapshot input =
     bnd (mt_exact input [''currencyCode'', ''minorUnitExponent'', ''metadataVersion'',
            ''metadataVersionReference'', ''metadataDigest''] TAX_INPUT_INVALID) (\<lambda>_.
     bnd (or_throw (safe_int_in 0 6 (fld input ''minorUnitExponent''))
            (MoneyTaxContractError TAX_INPUT_INVALID)) (\<lambda>ex.
     bnd (or_throw (safe_int_in 1 max_safe (fld input ''metadataVersion''))
            (MoneyTaxContractError TAX_INPUT_INVALID)) (\<lambda>ver.
     bnd (parseCurrencyCode (fld input ''currencyCode'')) (\<lambda>cur.
     bnd (parsePricingReference (fld input ''metadataVersionReference'')) (\<lambda>ref.
     bnd (parsePricingDigest (fld input ''metadataDigest'')) (\<lambda>dig.
     Inr \<lparr>cm_currencyCode = cur, cm_minorUnitExponent = ex, cm_metadataVersion = ver,
          cm_metadataVersionReference = ref, cm_metadataDigest = dig\<rparr>))))))"

definition createResolvedTaxRuleSnapshot :: "js \<Rightarrow> resolved_tax_rule res" where
  "createResolvedTaxRuleSnapshot input =
     bnd (mt_exact input [''ruleVersionReference'', ''ruleVersionDigest'', ''jurisdictionCode'',
            ''taxComponentCode'', ''taxClassificationReference'', ''treatment'', ''rate'',
            ''priceInclusion'', ''roundingMode''] TAX_INPUT_INVALID) (\<lambda>_.
     bnd (parseTaxRate (fld input ''rate'')) (\<lambda>rate.
     bnd (or_throw (enum_of tax_treatments (fld input ''treatment''))
            (MoneyTaxContractError TAX_INPUT_INVALID)) (\<lambda>treatment.
     bnd (or_throw (enum_of price_inclusions (fld input ''priceInclusion''))
            (MoneyTaxContractError TAX_INPUT_INVALID)) (\<lambda>inclusion.
     bnd (or_throw (enum_of rounding_modes (fld input ''roundingMode''))
            (MoneyTaxContractError TAX_INPUT_INVALID)) (\<lambda>mode.
     bnd (throw_if (treatment \<noteq> Taxable \<and> rate \<noteq> ''0'')
            (MoneyTaxContractError TAX_INPUT_INVALID)) (\<lambda>_.
     bnd (parsePricingReference (fld input ''ruleVersionReference'')) (\<lambda>vref.
     bnd (parsePricingDigest (fld input ''ruleVersionDigest'')) (\<lambda>vdig.
     bnd (parsePricingCode (fld input ''jurisdictionCode'')) (\<lambda>jur.
     bnd (parsePricingCode (fld input ''taxComponentCode'')) (\<lambda>comp.
     bnd (parsePricingReference (fld input ''taxClassificationReference'')) (\<lambda>cls.
     Inr \<lparr>rt_ruleVersionReference = vref, rt_ruleVersionDigest = vdig, rt_jurisdictionCode = jur,
          rt_taxComponentCode = comp, rt_taxClassificationReference = cls, rt_treatment = treatment,
          rt_rate = rate, rt_priceInclusion = inclusion, rt_roundingMode = mode\<rparr>)))))))))))"

definition validateTaxCalculationInput :: "js \<Rightarrow> tax_calculation_input res" where
  "validateTaxCalculationInput input =
     bnd (mt_exact input [''calculationReference'', ''taxableReference'', ''inputAmount'',
            ''currencyMetadata'', ''resolvedRule''] TAX_INPUT_INVALID) (\<lambda>_.
     bnd (createMoney (fld input ''inputAmount'')) (\<lambda>amount.
     bnd (createCurrencyMetadataSnapshot (fld input ''currencyMetadata'')) (\<lambda>meta.
     bnd (throw_if (currencyCode amount \<noteq> cm_currencyCode meta)
            (MoneyTaxContractError MONEY_CURRENCY_MISMATCH)) (\<lambda>_.
     bnd (parsePricingReference (fld input ''calculationReference'')) (\<lambda>cref.
     bnd (parsePricingReference (fld input ''taxableReference'')) (\<lambda>tref.
     bnd (createResolvedTaxRuleSnapshot (fld input ''resolvedRule'')) (\<lambda>rule.
     Inr \<lparr>ti_calculationReference = cref, ti_taxableReference = tref, ti_inputAmount = amount,
          ti_currencyMetadata = meta, ti_resolvedRule = rule\<rparr>)))))))"

text \<open>The plain objects the code builds from parsed values.\<close>

definition money_js :: "money \<Rightarrow> js" where
  "money_js m = JObj [(''amountMinor'', JBig (amountMinor m)), (''currencyCode'', JStr (currencyCode m))]"

fun treatment_str :: "tax_treatment \<Rightarrow> string" where
  "treatment_str Taxable = ''Taxable''"
| "treatment_str Exempt = ''Exempt''"
| "treatment_str ZeroRated = ''ZeroRated''"

fun inclusion_str :: "price_inclusion \<Rightarrow> string" where
  "inclusion_str Exclusive = ''Exclusive''"
| "inclusion_str Inclusive = ''Inclusive''"

fun mode_str :: "rounding_mode \<Rightarrow> string" where
  "mode_str HalfUp = ''HalfUp''"
| "mode_str HalfEven = ''HalfEven''"
| "mode_str TowardZero = ''TowardZero''"
| "mode_str AwayFromZero = ''AwayFromZero''"

definition currency_metadata_js :: "currency_metadata \<Rightarrow> js" where
  "currency_metadata_js c = JObj
     [(''currencyCode'', JStr (cm_currencyCode c)),
      (''minorUnitExponent'', JNum (cm_minorUnitExponent c)),
      (''metadataVersion'', JNum (cm_metadataVersion c)),
      (''metadataVersionReference'', JStr (cm_metadataVersionReference c)),
      (''metadataDigest'', JStr (cm_metadataDigest c))]"

definition resolved_tax_rule_js :: "resolved_tax_rule \<Rightarrow> js" where
  "resolved_tax_rule_js r = JObj
     [(''ruleVersionReference'', JStr (rt_ruleVersionReference r)),
      (''ruleVersionDigest'', JStr (rt_ruleVersionDigest r)),
      (''jurisdictionCode'', JStr (rt_jurisdictionCode r)),
      (''taxComponentCode'', JStr (rt_taxComponentCode r)),
      (''taxClassificationReference'', JStr (rt_taxClassificationReference r)),
      (''treatment'', JStr (treatment_str (rt_treatment r))),
      (''rate'', JStr (rt_rate r)),
      (''priceInclusion'', JStr (inclusion_str (rt_priceInclusion r))),
      (''roundingMode'', JStr (mode_str (rt_roundingMode r)))]"

section \<open>Arithmetic\<close>

text \<open>\<open>checked\<close>: a result outside the 64-bit range is an overflow.\<close>

definition checked :: "int \<Rightarrow> string \<Rightarrow> money res" where
  "checked amount currency =
     catching
       (bnd (parseAmountMinor (JBig amount)) (\<lambda>a.
        createMoney (JObj [(''amountMinor'', JBig a), (''currencyCode'', JStr currency)])))
       (\<lambda>e. if e = MoneyTaxContractError MONEY_INPUT_INVALID
            then Inl (MoneyTaxContractError MONEY_OVERFLOW) else Inl e)"

definition sameCurrency :: "money \<Rightarrow> money \<Rightarrow> unit res" where
  "sameCurrency l r =
     throw_if (currencyCode l \<noteq> currencyCode r) (MoneyTaxContractError MONEY_CURRENCY_MISMATCH)"

definition addMoney :: "js \<Rightarrow> js \<Rightarrow> money res" where
  "addMoney leftInput rightInput =
     bnd (createMoney leftInput) (\<lambda>l.
     bnd (createMoney rightInput) (\<lambda>r.
     bnd (sameCurrency l r) (\<lambda>_.
     checked (amountMinor l + amountMinor r) (currencyCode l))))"

definition subtractMoney :: "js \<Rightarrow> js \<Rightarrow> money res" where
  "subtractMoney leftInput rightInput =
     bnd (createMoney leftInput) (\<lambda>l.
     bnd (createMoney rightInput) (\<lambda>r.
     bnd (sameCurrency l r) (\<lambda>_.
     checked (amountMinor l - amountMinor r) (currencyCode l))))"

definition compareMoney :: "js \<Rightarrow> js \<Rightarrow> int res" where
  "compareMoney leftInput rightInput =
     bnd (createMoney leftInput) (\<lambda>l.
     bnd (createMoney rightInput) (\<lambda>r.
     bnd (sameCurrency l r) (\<lambda>_.
     Inr (if amountMinor l < amountMinor r then -1
          else if amountMinor l > amountMinor r then 1 else 0))))"

text \<open>
  BigInt division truncates, and here both operands are non-negative, so it is \<open>div\<close>. The run-time
  test of \<open>mode\<close> is carried by the type.
\<close>

definition roundRational :: "int \<Rightarrow> int \<Rightarrow> rounding_mode \<Rightarrow> int res" where
  "roundRational numerator denominator mode =
     bnd (throw_if (denominator \<le> 0) (MoneyTaxContractError MONEY_DIVISION_INVALID)) (\<lambda>_.
     let sign = (if numerator < 0 then -1 else 1);
         magnitude = \<bar>numerator\<bar>;
         quotient = magnitude div denominator;
         remainder = magnitude mod denominator;
         comparison = remainder * 2 - denominator
     in if remainder = 0 \<or> mode = TowardZero then Inr (sign * quotient)
        else if mode = AwayFromZero then Inr (sign * (quotient + 1))
        else Inr (sign *
          (if comparison > 0 \<or>
              comparison = 0 \<and> (mode = HalfUp \<or> mode = HalfEven \<and> quotient mod 2 \<noteq> 0)
           then quotient + 1 else quotient)))"

record rate_ratio =
  numerator :: int
  denominator :: int

text \<open>\<open>canonicalRate.split(".")\<close> gives the part before the dot and, if any, the part after it.\<close>

definition rate_fraction :: "string \<Rightarrow> string" where
  "rate_fraction s = (case rate_rest s of [] \<Rightarrow> [] | _ # f \<Rightarrow> f)"

definition taxRateRatio :: "js \<Rightarrow> rate_ratio res" where
  "taxRateRatio rate =
     bnd (parseTaxRate rate) (\<lambda>s.
     let den = 10 ^ length (rate_fraction s)
     in Inr \<lparr>numerator = dec_val (rate_whole s) * den + dec_val (rate_fraction s),
             denominator = den\<rparr>)"

definition multiplyMoneyByTaxRate :: "js \<Rightarrow> js \<Rightarrow> rounding_mode \<Rightarrow> money res" where
  "multiplyMoneyByTaxRate amountInput rate roundingMode =
     bnd (createMoney amountInput) (\<lambda>amount.
     bnd (taxRateRatio rate) (\<lambda>ratio.
     bnd (roundRational (amountMinor amount * numerator ratio) (denominator ratio) roundingMode) (\<lambda>r.
     checked r (currencyCode amount))))"

definition tax_minor :: "resolved_tax_rule \<Rightarrow> rate_ratio \<Rightarrow> int \<Rightarrow> int res" where
  "tax_minor rule ratio amount =
     (if rt_treatment rule \<noteq> Taxable \<or> numerator ratio = 0 then Inr 0
      else if rt_priceInclusion rule = Exclusive
      then roundRational (amount * numerator ratio) (denominator ratio) (rt_roundingMode rule)
      else roundRational (amount * numerator ratio) (denominator ratio + numerator ratio)
             (rt_roundingMode rule))"

definition calculateTax :: "js \<Rightarrow> tax_calculation_result res" where
  "calculateTax input =
     bnd (validateTaxCalculationInput input) (\<lambda>candidate.
     let inputAmount = ti_inputAmount candidate; rule = ti_resolvedRule candidate;
         meta = ti_currencyMetadata candidate
     in
     bnd (taxRateRatio (JStr (rt_rate rule))) (\<lambda>ratio.
     bnd (tax_minor rule ratio (amountMinor inputAmount)) (\<lambda>taxMinor.
     bnd (checked taxMinor (currencyCode inputAmount)) (\<lambda>taxAmount.
     bnd (if rt_priceInclusion rule = Inclusive
          then subtractMoney (money_js inputAmount) (money_js taxAmount)
          else createMoney (money_js inputAmount)) (\<lambda>netAmount.
     bnd (if rt_priceInclusion rule = Exclusive
          then addMoney (money_js inputAmount) (money_js taxAmount)
          else createMoney (money_js inputAmount)) (\<lambda>grossAmount.
     Inr \<lparr>tr_calculationReference = ti_calculationReference candidate,
          tr_taxableReference = ti_taxableReference candidate,
          tr_inputAmount = inputAmount, tr_netAmount = netAmount, tr_taxAmount = taxAmount,
          tr_grossAmount = grossAmount,
          tr_explanation = \<lparr>
            te_jurisdictionCode = rt_jurisdictionCode rule,
            te_taxComponentCode = rt_taxComponentCode rule,
            te_taxClassificationReference = rt_taxClassificationReference rule,
            te_treatment = rt_treatment rule,
            te_rate = rt_rate rule,
            te_rateNumerator = int_str (numerator ratio),
            te_rateDenominator = int_str (denominator ratio),
            te_priceInclusion = rt_priceInclusion rule,
            te_roundingMode = rt_roundingMode rule,
            te_currencyMetadataVersion = cm_metadataVersion meta,
            te_currencyMetadataVersionReference = cm_metadataVersionReference meta,
            te_currencyMetadataDigest = cm_metadataDigest meta,
            te_ruleVersionReference = rt_ruleVersionReference rule,
            te_ruleVersionDigest = rt_ruleVersionDigest rule\<rparr>\<rparr>))))))"

subsection \<open>Allocation\<close>

record allocation_candidate =
  ac_key :: string
  ac_amount :: int
  ac_remainder :: int

text \<open>One share: a plain object with a code and a non-negative bigint weight.\<close>

definition allocation_share :: "js \<Rightarrow> (string \<times> int) res" where
  "allocation_share share =
     bnd (mt_exact share [''allocationKey'', ''weight''] MONEY_ALLOCATION_INVALID) (\<lambda>_.
     bnd (case fld share ''weight'' of
            JBig w \<Rightarrow> if w < 0 then Inl (MoneyTaxContractError MONEY_ALLOCATION_INVALID) else Inr w
          | _ \<Rightarrow> Inl (MoneyTaxContractError MONEY_ALLOCATION_INVALID)) (\<lambda>w.
     bnd (catching (parsePricingCode (fld share ''allocationKey''))
            (\<lambda>_. Inl (MoneyTaxContractError MONEY_ALLOCATION_INVALID))) (\<lambda>k.
     Inr (k, w))))"

text \<open>The \<open>sharesInput.map\<close> with its \<open>seen\<close> set: a repeated key throws.\<close>

fun allocation_shares :: "string list \<Rightarrow> js list \<Rightarrow> (string \<times> int) list res" where
  "allocation_shares seen [] = Inr []"
| "allocation_shares seen (s # ss) =
     bnd (allocation_share s) (\<lambda>(k, w).
     bnd (throw_if (k \<in> set seen) (MoneyTaxContractError MONEY_ALLOCATION_INVALID)) (\<lambda>_.
     bnd (allocation_shares (k # seen) ss) (\<lambda>rest. Inr ((k, w) # rest))))"

text \<open>The loop over the sorted candidates: one more minor unit each until none is left.\<close>

fun distribute :: "int \<Rightarrow> allocation_candidate list \<Rightarrow> allocation_candidate list" where
  "distribute undistributed [] = []"
| "distribute undistributed (c # cs) =
     (if undistributed = 0 then c # cs
      else c\<lparr>ac_amount := ac_amount c + 1\<rparr> # distribute (undistributed - 1) cs)"

definition allocation_candidates :: "int \<Rightarrow> (string \<times> int) list \<Rightarrow> allocation_candidate list" where
  "allocation_candidates magnitude shares =
     (let weightTotal = sum_list (map snd shares)
      in map (\<lambda>(k, w). \<lparr>ac_key = k, ac_amount = magnitude * w div weightTotal,
                        ac_remainder = magnitude * w mod weightTotal\<rparr>) shares)"

text \<open>
  The loop mutates the candidate objects that the final sort reads, so the final list is the
  distributed one, sorted by key; the keys are distinct, hence its order does not depend on the
  order the candidates had before.
\<close>

definition allocation_result :: "int \<Rightarrow> (string \<times> int) list \<Rightarrow> allocation_candidate list" where
  "allocation_result magnitude shares =
     (let candidates = allocation_candidates magnitude shares;
          undistributed = magnitude - sum_list (map ac_amount candidates);
          ranked = sort_key (\<lambda>c. (- ac_remainder c, collation_key (ac_key c))) candidates
      in sort_key (\<lambda>c. collation_key (ac_key c)) (distribute undistributed ranked))"

definition allocateMoney :: "js \<Rightarrow> js \<Rightarrow> money_allocation list res" where
  "allocateMoney totalInput sharesInput =
     bnd (createMoney totalInput) (\<lambda>total.
     bnd (throw_if (\<not> is_array sharesInput \<or> elements sharesInput = [])
            (MoneyTaxContractError MONEY_ALLOCATION_INVALID)) (\<lambda>_.
     bnd (allocation_shares [] (elements sharesInput)) (\<lambda>shares.
     bnd (throw_if (sum_list (map snd shares) \<le> 0)
            (MoneyTaxContractError MONEY_ALLOCATION_INVALID)) (\<lambda>_.
     let magnitude = \<bar>amountMinor total\<bar>; sign = (if amountMinor total < 0 then -1 else 1)
     in map_res (\<lambda>c. bnd (checked (sign * ac_amount c) (currencyCode total)) (\<lambda>m.
                      Inr \<lparr>ma_allocationKey = ac_key c, ma_amount = m\<rparr>))
          (allocation_result magnitude shares)))))"

section \<open>Properties of the validators\<close>

definition valid_money :: "money \<Rightarrow> bool" where
  "valid_money m \<longleftrightarrow>
     minimumMinor \<le> amountMinor m \<and> amountMinor m \<le> maximumMinor \<and> currency_format (currencyCode m)"

lemma parseAmountMinor_Inr [res_simps]:
  "parseAmountMinor v = Inr a \<longleftrightarrow> v = JBig a \<and> minimumMinor \<le> a \<and> a \<le> maximumMinor"
  by (cases v) auto

lemma parse_Inr [res_simps]:
  "parseCurrencyCode v = Inr s \<longleftrightarrow> v = JStr s \<and> currency_format s"
  "parsePricingReference v = Inr s \<longleftrightarrow> v = JStr s \<and> uuid_v7 s"
  "parsePricingDigest v = Inr s \<longleftrightarrow> v = JStr s \<and> sha256_digest s"
  "parsePricingCode v = Inr s \<longleftrightarrow> v = JStr s \<and> length s \<le> 64 \<and> pricing_code_format s"
  "parseTaxRate v = Inr s \<longleftrightarrow> v = JStr s \<and> canonical_rate s"
  by (simp_all add: parseCurrencyCode_def parsePricingReference_def parsePricingDigest_def
      parsePricingCode_def parseTaxRate_def res_simps)

lemma mt_exact_Inr [res_simps]: "mt_exact v fs e = Inr u \<longleftrightarrow> has_shape v fs"
  by (simp add: mt_exact_def res_simps)

lemma createMoney_valid: "createMoney v = Inr m \<Longrightarrow> valid_money m"
  by (auto simp: createMoney_def res_simps valid_money_def)

lemma createMoney_money_js [simp]: "valid_money m \<Longrightarrow> createMoney (money_js m) = Inr m"
  by (simp add: createMoney_def money_js_def mt_exact_def valid_money_def parseCurrencyCode_def)

lemma createMoney_obj:
  "createMoney (JObj [(''amountMinor'', JBig a), (''currencyCode'', JStr c)]) = Inr m \<longleftrightarrow>
     m = \<lparr>amountMinor = a, currencyCode = c\<rparr> \<and> valid_money m"
  by (auto simp: createMoney_def mt_exact_def valid_money_def res_simps)

lemma checked_eq:
  "currency_format c \<Longrightarrow>
    checked a c = (if minimumMinor \<le> a \<and> a \<le> maximumMinor
                   then Inr \<lparr>amountMinor = a, currencyCode = c\<rparr>
                   else Inl (MoneyTaxContractError MONEY_OVERFLOW))"
  by (simp add: checked_def createMoney_def mt_exact_def parseCurrencyCode_def)

lemma checked_Inr [res_simps]:
  "checked a c = Inr m \<longleftrightarrow> m = \<lparr>amountMinor = a, currencyCode = c\<rparr> \<and> valid_money m"
  by (auto simp: checked_def res_simps createMoney_obj valid_money_def split: if_splits)

lemma sameCurrency_Inr [res_simps]: "sameCurrency l r = Inr u \<longleftrightarrow> currencyCode l = currencyCode r"
  by (simp add: sameCurrency_def res_simps)

lemma addMoney_money_js:
  assumes "valid_money l" and "valid_money r"
  shows "addMoney (money_js l) (money_js r) =
    (if currencyCode l \<noteq> currencyCode r then Inl (MoneyTaxContractError MONEY_CURRENCY_MISMATCH)
     else if minimumMinor \<le> amountMinor l + amountMinor r \<and> amountMinor l + amountMinor r \<le> maximumMinor
     then Inr \<lparr>amountMinor = amountMinor l + amountMinor r, currencyCode = currencyCode l\<rparr>
     else Inl (MoneyTaxContractError MONEY_OVERFLOW))"
  using assms by (simp add: addMoney_def sameCurrency_def throw_if_def checked_eq valid_money_def)

lemma subtractMoney_money_js:
  assumes "valid_money l" and "valid_money r"
  shows "subtractMoney (money_js l) (money_js r) =
    (if currencyCode l \<noteq> currencyCode r then Inl (MoneyTaxContractError MONEY_CURRENCY_MISMATCH)
     else if minimumMinor \<le> amountMinor l - amountMinor r \<and> amountMinor l - amountMinor r \<le> maximumMinor
     then Inr \<lparr>amountMinor = amountMinor l - amountMinor r, currencyCode = currencyCode l\<rparr>
     else Inl (MoneyTaxContractError MONEY_OVERFLOW))"
  using assms by (simp add: subtractMoney_def sameCurrency_def throw_if_def checked_eq valid_money_def)

lemma money_eqI: "amountMinor m = a \<Longrightarrow> currencyCode m = c \<Longrightarrow> m = \<lparr>amountMinor = a, currencyCode = c\<rparr>"
  by simp

section \<open>Rounding\<close>

text \<open>The four modes as one statement about the rounded quotient of magnitudes.\<close>

definition rounds_to :: "rounding_mode \<Rightarrow> int \<Rightarrow> int \<Rightarrow> int \<Rightarrow> bool" where
  "rounds_to mode n d r \<longleftrightarrow>
     \<bar>r * d - n\<bar> < d \<and> 0 \<le> r * n \<and>
     (mode = TowardZero \<longrightarrow> \<bar>r\<bar> * d \<le> \<bar>n\<bar>) \<and>
     (mode = AwayFromZero \<longrightarrow> \<bar>n\<bar> \<le> \<bar>r\<bar> * d) \<and>
     (mode \<in> {HalfUp, HalfEven} \<longrightarrow> 2 * \<bar>r * d - n\<bar> \<le> d) \<and>
     (mode = HalfUp \<and> 2 * \<bar>r * d - n\<bar> = d \<longrightarrow> \<bar>n\<bar> < \<bar>r\<bar> * d) \<and>
     (mode = HalfEven \<and> 2 * \<bar>r * d - n\<bar> = d \<longrightarrow> even r)"

definition round_magnitude :: "rounding_mode \<Rightarrow> int \<Rightarrow> int \<Rightarrow> int" where
  "round_magnitude mode m d =
     (let q = m div d; x = m mod d
      in if x = 0 \<or> mode = TowardZero then q
         else if mode = AwayFromZero \<or> d < 2 * x \<or>
                 2 * x = d \<and> (mode = HalfUp \<or> mode = HalfEven \<and> odd q)
         then q + 1 else q)"

lemma roundRational_eq:
  "0 < d \<Longrightarrow> roundRational n d mode =
     Inr ((if n < 0 then -1 else 1) * round_magnitude mode \<bar>n\<bar> d)"
  unfolding roundRational_def Let_def round_magnitude_def
  by (cases mode) (auto simp: odd_iff_mod_2_eq_one)

lemma round_magnitude_spec:
  assumes d: "0 < d" and m: "0 \<le> m"
  shows "rounds_to mode m d (round_magnitude mode m d) \<and> 0 \<le> round_magnitude mode m d"
proof -
  define q x where "q = m div d" and "x = m mod d"
  have m_eq: "m = q * d + x" and x: "0 \<le> x" "x < d" and q: "0 \<le> q"
    using d m by (simp_all add: q_def x_def pos_imp_zdiv_nonneg_iff)
  have qd: "0 \<le> q * d" using q d by simp
  have prod: "0 \<le> q * (q * d + x)" "0 \<le> (q + 1) * (q * d + x)" using q d x by simp_all
  have m_abs: "\<bar>q * d + x\<bar> = q * d + x" using qd x by simp
  have lo: "\<bar>q * d - (q * d + x)\<bar> = x" using x by simp
  have hi: "(q + 1) * d - (q * d + x) = d - x" by (simp add: algebra_simps)
  have up: "\<bar>(q + 1) * d - (q * d + x)\<bar> = d - x" using x unfolding hi by simp
  have below: "rounds_to mode m d q"
    if "x = 0 \<or> mode = TowardZero \<or> mode \<noteq> AwayFromZero \<and> 2 * x \<le> d \<and>
         (2 * x = d \<longrightarrow> mode = HalfEven \<and> even q)"
    using that d x q prod unfolding m_eq rounds_to_def lo m_abs by auto
  have above: "rounds_to mode m d (q + 1)"
    if "x \<noteq> 0" "mode \<noteq> TowardZero" "mode = AwayFromZero \<or> d < 2 * x \<or>
         2 * x = d \<and> (mode = HalfUp \<or> mode = HalfEven \<and> odd q)"
  proof -
    have q1: "\<bar>q + 1\<bar> * d = q * d + d" using q by (simp add: algebra_simps)
    show ?thesis
      using that d x prod unfolding m_eq rounds_to_def up m_abs q1 by auto
  qed
  show ?thesis
    unfolding round_magnitude_def Let_def q_def [symmetric] x_def [symmetric]
    using below above q x by (cases mode) auto
qed

lemma rounds_to_uminus: "rounds_to mode m d r \<Longrightarrow> rounds_to mode (- m) d (- r)"
  unfolding rounds_to_def by (simp add: abs_minus_commute)

lemma roundRational_returns:
  assumes "0 < d"
  shows "\<exists>r. roundRational n d mode = Inr r \<and> rounds_to mode n d r"
proof (cases "n < 0")
  case True
  then have "rounds_to mode (- n) d (round_magnitude mode (- n) d)"
    using round_magnitude_spec [OF assms, of "- n"] by simp
  then have "rounds_to mode n d (- round_magnitude mode (- n) d)"
    using rounds_to_uminus by fastforce
  with True assms show ?thesis by (simp add: roundRational_eq)
next
  case False
  with assms round_magnitude_spec [OF assms, of n mode] show ?thesis
    by (simp add: roundRational_eq)
qed

text \<open>
  \<open>roundRational\<close> returns for every positive denominator; the result is within one unit of the
  exact quotient and keeps its sign, and each mode rounds as it is named: towards zero, away from
  zero, or to the nearest integer with ties away from zero (HalfUp) or to the even one (HalfEven).
\<close>

theorem roundRational_rounds:
  assumes "0 < d"
  shows "\<exists>r. roundRational n d mode = Inr r \<and> rounds_to mode n d r"
  using assms by (rule roundRational_returns)

theorem roundRational_rounds_witness:
  "(0::int) < 2 \<and> (\<exists>r. roundRational (- 5) 2 HalfEven = Inr r \<and> rounds_to HalfEven (- 5) 2 r) \<and>
   roundRational (- 5) 2 HalfEven = Inr (- 2)"
proof -
  have h: "(0::int) < 2" by simp
  have "roundRational (- 5) 2 HalfEven = Inr (- 2)" by (simp add: roundRational_def)
  with roundRational_rounds [OF h, of "- 5" HalfEven] show ?thesis by simp
qed

section \<open>Allocation\<close>

definition bump :: "allocation_candidate \<Rightarrow> allocation_candidate" where
  "bump c = c\<lparr>ac_amount := ac_amount c + 1\<rparr>"

lemma bump_simps [simp]:
  "ac_key (bump c) = ac_key c" "ac_remainder (bump c) = ac_remainder c"
  "ac_amount (bump c) = ac_amount c + 1"
  by (simp_all add: bump_def)

lemma distribute_eq:
  "0 \<le> n \<Longrightarrow> distribute n cs = map bump (take (nat n) cs) @ drop (nat n) cs"
proof (induction n cs rule: distribute.induct)
  case (2 n c cs)
  show ?case
  proof (cases "n = 0")
    case False
    with 2 show ?thesis
      by (cases "nat n") (auto simp: bump_def nat_diff_distrib)
  qed simp
qed simp

lemma distribute_keys: "map ac_key (distribute n cs) = map ac_key cs"
  by (induction n cs rule: distribute.induct) auto

lemma sum_bump: "sum_list (map ac_amount (map bump cs)) = sum_list (map ac_amount cs) + int (length cs)"
  by (induction cs) auto

lemma distribute_sum:
  assumes "0 \<le> n" and "nat n \<le> length cs"
  shows "sum_list (map ac_amount (distribute n cs)) = sum_list (map ac_amount cs) + n"
proof -
  have "sum_list (map ac_amount cs) =
      sum_list (map ac_amount (take (nat n) cs)) + sum_list (map ac_amount (drop (nat n) cs))"
    by (metis append_take_drop_id map_append sum_list_append)
  with assms sum_bump [of "take (nat n) cs"] show ?thesis
    by (simp add: distribute_eq)
qed

text \<open>Largest remainder: the ones that receive the rest have a positive remainder.\<close>

lemma sum_list_le_const: "(\<And>x. x \<in> set xs \<Longrightarrow> x \<le> (b::int)) \<Longrightarrow> sum_list xs \<le> int (length xs) * b"
proof (induction xs)
  case (Cons x xs)
  then have "x \<le> b" and "sum_list xs \<le> int (length xs) * b" by simp_all
  then show ?case by (simp add: algebra_simps)
qed simp

lemma sum_list_member_le:
  "x \<in> set xs \<Longrightarrow> (\<And>y. y \<in> set xs \<Longrightarrow> 0 \<le> f y) \<Longrightarrow> (f x :: int) \<le> sum_list (map f xs)"
proof (induction xs)
  case (Cons y ys)
  moreover from this have "0 \<le> sum_list (map f ys)" by (intro sum_list_nonneg) auto
  ultimately show ?case by fastforce
qed simp

lemma largest_remainder:
  assumes sorted: "sorted (map (\<lambda>r. - r) rs)" and range: "\<And>r. r \<in> set rs \<Longrightarrow> 0 \<le> r \<and> r < (W::int)"
    and sum: "sum_list rs = n * W" and W: "0 < W" and i: "i < nat n"
  shows "i < length rs \<and> 0 < rs ! i"
proof (rule ccontr)
  assume neg: "\<not> (i < length rs \<and> 0 < rs ! i)"
  have "r \<le> 0" if r: "r \<in> set (drop i rs)" for r
  proof -
    from r obtain j where j: "j < length rs - i" "r = rs ! (i + j)"
      by (auto simp: in_set_conv_nth)
    with neg have "rs ! i \<le> 0" by auto
    moreover have "map (\<lambda>r. - r) rs ! i \<le> map (\<lambda>r. - r) rs ! (i + j)"
      using j by (intro sorted_nth_mono [OF sorted]) auto
    ultimately show ?thesis using j by simp
  qed
  then have tail: "sum_list (drop i rs) \<le> 0"
    using sum_list_le_const [of "drop i rs" 0] by simp
  have head: "sum_list (take i rs) \<le> int (length (take i rs)) * W"
    by (rule sum_list_le_const) (use range in \<open>auto dest!: in_set_takeD less_imp_le\<close>)
  have "int (length (take i rs)) * W \<le> int i * W" using W by simp
  moreover have "sum_list rs = sum_list (take i rs) + sum_list (drop i rs)"
    by (metis append_take_drop_id sum_list_append)
  ultimately have le: "n * W \<le> int i * W" using head tail sum by simp
  have "int i < n" using i by simp
  then have "int i * W < n * W" using W by simp
  with le show False by simp
qed

lemma candidates_simps:
  "map ac_key (allocation_candidates mag shares) = map fst shares"
  "map ac_remainder (allocation_candidates mag shares) =
     map (\<lambda>s. mag * snd s mod sum_list (map snd shares)) shares"
  "map ac_amount (allocation_candidates mag shares) =
     map (\<lambda>s. mag * snd s div sum_list (map snd shares)) shares"
  by (simp_all add: allocation_candidates_def Let_def case_prod_unfold comp_def)

lemma candidates_sum:
  assumes "W = sum_list (map snd shares)"
  shows "W * sum_list (map ac_amount (allocation_candidates mag shares)) +
     sum_list (map ac_remainder (allocation_candidates mag shares)) = mag * W"
proof -
  have "W' * sum_list (map (\<lambda>s. mag * snd s div W') ss) + sum_list (map (\<lambda>s. mag * snd s mod W') ss) =
      mag * sum_list (map snd ss)" for W' and ss :: "('a \<times> int) list"
  proof (induction ss)
    case (Cons s ss)
    have "W' * (mag * snd s div W') + mag * snd s mod W' = mag * snd s" by simp
    with Cons show ?case by (simp add: algebra_simps)
  qed simp
  with assms show ?thesis by (simp add: candidates_simps)
qed

text \<open>What the ranked list and the rest to distribute look like for acceptable shares.\<close>

definition ranked :: "int \<Rightarrow> (string \<times> int) list \<Rightarrow> allocation_candidate list" where
  "ranked mag shares = sort_key (\<lambda>c. (- ac_remainder c, collation_key (ac_key c)))
     (allocation_candidates mag shares)"

definition rest :: "int \<Rightarrow> (string \<times> int) list \<Rightarrow> int" where
  "rest mag shares = mag - sum_list (map ac_amount (allocation_candidates mag shares))"

lemma ranked_mset: "mset (ranked mag shares) = mset (allocation_candidates mag shares)"
  by (simp add: ranked_def)

lemma sum_list_mset_cong: "mset xs = mset ys \<Longrightarrow> sum_list (map f xs) = sum_list (map f ys)"
  for f :: "'a \<Rightarrow> int"
  by (metis mset_map sum_mset_sum_list)

lemma rest_props:
  assumes pos: "0 < sum_list (map snd shares)" 
  shows "0 \<le> rest mag shares" "nat (rest mag shares) \<le> length shares"
    and "\<And>i. i < nat (rest mag shares) \<Longrightarrow> 0 < ac_remainder (ranked mag shares ! i)"
proof -
  let ?W = "sum_list (map snd shares)"
  let ?rs = "map ac_remainder (ranked mag shares)"
  have sum: "sum_list ?rs = rest mag shares * ?W"
    using candidates_sum [OF refl, of shares mag]
      sum_list_mset_cong [OF ranked_mset, of ac_remainder mag shares]
    by (simp add: rest_def algebra_simps)
  have "set (ranked mag shares) = set (allocation_candidates mag shares)"
    by (metis ranked_mset set_mset_mset)
  then have range: "0 \<le> r \<and> r < ?W" if "r \<in> set ?rs" for r
    using that pos by (auto simp: allocation_candidates_def Let_def case_prod_unfold)
  have "sorted (map fst ps)" if "sorted ps" for ps :: "(int \<times> nat list) list"
    using that by (induction ps) (auto simp: less_eq_prod_def)
  from this [of "map (\<lambda>c. (- ac_remainder c, collation_key (ac_key c))) (ranked mag shares)"]
  have sorted: "sorted (map (\<lambda>r. - r) ?rs)" by (simp add: ranked_def comp_def)
  show "0 \<le> rest mag shares"
  proof -
    have "0 \<le> sum_list ?rs" using range by (intro sum_list_nonneg) auto
    with sum pos show ?thesis by (simp add: zero_le_mult_iff)
  qed
  have main: "i < length ?rs \<and> 0 < ?rs ! i" if "i < nat (rest mag shares)" for i
    by (rule largest_remainder [OF sorted range sum pos that])
  have len: "length ?rs = length shares"
    by (simp add: ranked_def allocation_candidates_def Let_def)
  show "nat (rest mag shares) \<le> length shares"
    using main [of "length shares"] len by (cases "length shares < nat (rest mag shares)") auto
  show "0 < ac_remainder (ranked mag shares ! i)" if "i < nat (rest mag shares)" for i
    using main [OF that] by (metis length_map nth_map)
qed


definition shares_ok :: "(string \<times> int) list \<Rightarrow> bool" where
  "shares_ok shares \<longleftrightarrow> distinct (map fst shares) \<and> (\<forall>s \<in> set shares. 0 \<le> snd s) \<and>
     0 < sum_list (map snd shares)"

lemma allocation_result_alt:
  "allocation_result mag shares =
     sort_key (\<lambda>c. collation_key (ac_key c)) (distribute (rest mag shares) (ranked mag shares))"
  by (simp add: allocation_result_def rest_def ranked_def Let_def)

lemma length_ranked: "length (ranked mag shares) = length shares"
  by (simp add: ranked_def allocation_candidates_def Let_def)

lemma allocation_result_sum:
  assumes "0 < sum_list (map snd shares)"
  shows "sum_list (map ac_amount (allocation_result mag shares)) = mag"
proof -
  have "sum_list (map ac_amount (allocation_result mag shares)) =
      sum_list (map ac_amount (distribute (rest mag shares) (ranked mag shares)))"
    by (rule sum_list_mset_cong) (simp add: allocation_result_alt)
  also have "\<dots> = sum_list (map ac_amount (ranked mag shares)) + rest mag shares"
    using rest_props [OF assms, where mag = mag] by (intro distribute_sum) (simp_all add: length_ranked)
  finally show ?thesis
    using sum_list_mset_cong [OF ranked_mset, of ac_amount mag shares] by (simp add: rest_def)
qed

lemma allocation_result_keys:
  "mset (map ac_key (allocation_result mag shares)) = mset (map fst shares)"
proof -
  have "mset (map ac_key (allocation_result mag shares)) =
      mset (map ac_key (distribute (rest mag shares) (ranked mag shares)))"
    by (simp add: allocation_result_alt mset_map)
  also have "\<dots> = mset (map ac_key (allocation_candidates mag shares))"
    by (simp add: distribute_keys mset_map ranked_mset)
  finally show ?thesis by (simp add: candidates_simps del: mset_map)
qed

lemma allocation_result_sorted:
  "sorted (map (\<lambda>c. collation_key (ac_key c)) (allocation_result mag shares))"
  by (simp add: allocation_result_alt)

text \<open>Every share gets its exact proportion rounded down or up.\<close>

lemma allocation_result_quota:
  assumes "0 < sum_list (map snd shares)" and c: "c \<in> set (allocation_result mag shares)"
  shows "\<exists>w. (ac_key c, w) \<in> set shares \<and>
     \<bar>ac_amount c * sum_list (map snd shares) - mag * w\<bar> < sum_list (map snd shares) \<and>
     mag * w div sum_list (map snd shares) \<le> ac_amount c"
proof -
  let ?W = "sum_list (map snd shares)" and ?n = "nat (rest mag shares)" and ?rk = "ranked mag shares"
  note rp = rest_props [OF assms(1), where mag = mag]
  have cand: "\<exists>w. (ac_key d, w) \<in> set shares \<and> ac_amount d = mag * w div ?W \<and>
      ac_remainder d = mag * w mod ?W" if "d \<in> set ?rk" for d
  proof -
    have "d \<in> set (allocation_candidates mag shares)" using that ranked_mset by (metis set_mset_mset)
    then show ?thesis by (auto simp: allocation_candidates_def Let_def)
  qed
  have fl: "mag * w div ?W * ?W = mag * w - mag * w mod ?W" for w
    by (simp add: minus_mod_eq_div_mult)
  have range: "0 \<le> mag * w mod ?W" "mag * w mod ?W < ?W" for w using assms(1) by simp_all
  from c have "c \<in> set (map bump (take ?n ?rk) @ drop ?n ?rk)"
    using rp(1) by (simp add: allocation_result_alt distribute_eq)
  then consider (up) d where "d \<in> set (take ?n ?rk)" "c = bump d" | (same) "c \<in> set (drop ?n ?rk)"
    by auto
  then show ?thesis
  proof cases
    case up
    then obtain i where i: "i < ?n" "i < length ?rk" "d = ?rk ! i"
      by (auto simp: in_set_conv_nth)
    obtain w where w: "(ac_key d, w) \<in> set shares" "ac_amount d = mag * w div ?W"
      "ac_remainder d = mag * w mod ?W"
      using cand up(1) by (meson in_set_takeD)
    have "0 < mag * w mod ?W" using rp(3) [OF i(1)] i(3) w(3) by simp
    moreover have "ac_amount c * ?W - mag * w = ?W - mag * w mod ?W"
      using fl [of w] by (simp only: up(2) bump_simps w(2) distrib_right)
    ultimately show ?thesis
      using w up(2) range(2) [of w] by (intro exI [of _ w]) simp
  next
    case same
    then obtain w where "(ac_key c, w) \<in> set shares" "ac_amount c = mag * w div ?W"
      using cand by (meson in_set_dropD)
    with fl [of w] range [of w] show ?thesis by (intro exI [of _ w]) simp
  qed
qed

lemma allocation_result_range:
  assumes ok: "shares_ok shares" and "0 \<le> mag" and c: "c \<in> set (allocation_result mag shares)"
  shows "0 \<le> ac_amount c \<and> ac_amount c \<le> mag"
proof -
  have nonneg: "0 \<le> ac_amount d" if "d \<in> set (allocation_result mag shares)" for d
  proof -
    from ok have pos: "0 < sum_list (map snd shares)" by (simp add: shares_ok_def)
    from allocation_result_quota [OF this that] obtain w where
      "(ac_key d, w) \<in> set shares" "mag * w div sum_list (map snd shares) \<le> ac_amount d" by blast
    moreover from this ok have "0 \<le> w" by (auto simp: shares_ok_def)
    then have "0 \<le> mag * w div sum_list (map snd shares)"
      using pos assms(2) by (simp add: pos_imp_zdiv_nonneg_iff)
    ultimately show ?thesis by simp
  qed
  have "ac_amount c \<le> sum_list (map ac_amount (allocation_result mag shares))"
    using c nonneg by (intro sum_list_member_le) auto
  with ok c nonneg show ?thesis by (simp add: allocation_result_sum shares_ok_def)
qed

text \<open>The result depends only on the set of shares, not on their order.\<close>

lemma allocation_result_perm:
  assumes m: "mset shares = mset shares'" and d: "distinct (map fst shares)"
  shows "allocation_result mag shares = allocation_result mag shares'"
proof -
  let ?W = "sum_list (map snd shares)"
  have W: "?W = sum_list (map snd shares')" by (rule sum_list_mset_cong [OF m])
  let ?f = "\<lambda>(k, w). \<lparr>ac_key = k, ac_amount = mag * w div ?W, ac_remainder = mag * w mod ?W\<rparr>"
  have c: "allocation_candidates mag shares = map ?f shares"
    "allocation_candidates mag shares' = map ?f shares'"
    by (simp_all add: allocation_candidates_def Let_def W)
  have mc: "mset (allocation_candidates mag shares) = mset (allocation_candidates mag shares')"
    unfolding c using m by (simp add: mset_map)
  have "inj_on ac_key (set (allocation_candidates mag shares))"
    using d candidates_simps(1) [of mag shares] by (metis distinct_map)
  then have "inj_on (\<lambda>c. (- ac_remainder c, collation_key (ac_key c))) (set (allocation_candidates mag shares))"
    by (auto simp: inj_on_def)
  then have "ranked mag shares = ranked mag shares'"
    unfolding ranked_def by (rule sort_key_eq_sort_key [OF mc])
  moreover have "rest mag shares = rest mag shares'"
    using sum_list_mset_cong [OF mc] by (simp add: rest_def)
  ultimately show ?thesis by (simp add: allocation_result_alt)
qed


lemma allocation_share_error:
  "allocation_share s = Inl e \<Longrightarrow> e = MoneyTaxContractError MONEY_ALLOCATION_INVALID"
  by (auto simp: allocation_share_def mt_exact_def res_simps catching_def split: js.splits if_splits sum.splits)

lemma allocation_share_Inr:
  "allocation_share s = Inr (k, w) \<longleftrightarrow>
     has_shape s [''allocationKey'', ''weight''] \<and> fld s ''weight'' = JBig w \<and> 0 \<le> w \<and>
     fld s ''allocationKey'' = JStr k \<and> length k \<le> 64 \<and> pricing_code_format k"
  by (auto simp: allocation_share_def res_simps split: js.splits if_splits)

lemma allocation_shares_error:
  "allocation_shares seen ss = Inl e \<Longrightarrow> e = MoneyTaxContractError MONEY_ALLOCATION_INVALID"
  by (induction seen ss rule: allocation_shares.induct)
    (auto simp: res_simps split: prod.splits dest: allocation_share_error)

lemma allocation_shares_Inr:
  "allocation_shares seen ss = Inr out \<longleftrightarrow>
     map_res allocation_share ss = Inr out \<and> distinct (map fst out) \<and>
     (\<forall>s \<in> set out. fst s \<notin> set seen)"
proof (induction seen ss arbitrary: out rule: allocation_shares.induct)
  case (2 seen s ss)
  show ?case
  proof (cases "allocation_share s")
    case (Inr p)
    obtain k w where p: "p = (k, w)" by (cases p)
    show ?thesis
    proof (cases "k \<in> set seen")
      case True
      then show ?thesis using Inr p by (auto simp: res_simps)
    next
      case False
      have "allocation_shares (k # seen) ss = Inr rest \<longleftrightarrow>
          map_res allocation_share ss = Inr rest \<and> distinct (map fst rest) \<and>
          (\<forall>s \<in> set rest. fst s \<notin> set (k # seen))" for rest
        using False by (intro 2 [OF Inr p [symmetric]]) simp
      with False Inr p show ?thesis by (auto simp: res_simps)
    qed
  qed simp
qed auto

lemma allocation_shares_nonneg:
  assumes "map_res allocation_share ss = Inr out" and "s \<in> set out"
  shows "0 \<le> snd s"
proof -
  from map_res_in [OF assms] obtain j where "allocation_share j = Inr s" by blast
  then show ?thesis by (cases s) (simp add: allocation_share_Inr)
qed

text \<open>\<open>allocateMoney\<close> in closed form: it never overflows.\<close>

definition signed :: "money \<Rightarrow> int" where
  "signed tot = (if amountMinor tot < 0 then -1 else 1)"

definition allocation_of :: "money \<Rightarrow> allocation_candidate \<Rightarrow> money_allocation" where
  "allocation_of tot c = \<lparr>ma_allocationKey = ac_key c,
     ma_amount = \<lparr>amountMinor = signed tot * ac_amount c, currencyCode = currencyCode tot\<rparr>\<rparr>"

lemma allocateMoney_Inr:
  "allocateMoney t sh = Inr out \<longleftrightarrow>
     (\<exists>tot shares. createMoney t = Inr tot \<and> is_array sh \<and>
        map_res allocation_share (elements sh) = Inr shares \<and> shares_ok shares \<and>
        out = map (allocation_of tot) (allocation_result \<bar>amountMinor tot\<bar> shares))"
    (is "_ \<longleftrightarrow> ?R")
proof -
  have body: "map_res (\<lambda>c. bnd (checked (signed tot * ac_amount c) (currencyCode tot))
        (\<lambda>m. Inr \<lparr>ma_allocationKey = ac_key c, ma_amount = m\<rparr>))
      (allocation_result \<bar>amountMinor tot\<bar> shares) =
      Inr (map (allocation_of tot) (allocation_result \<bar>amountMinor tot\<bar> shares))"
    if ok: "shares_ok shares" and t: "valid_money tot" for tot shares
  proof (rule map_res_Inr_id)
    fix c assume "c \<in> set (allocation_result \<bar>amountMinor tot\<bar> shares)"
    from allocation_result_range [OF ok _ this]
    have "0 \<le> ac_amount c" "ac_amount c \<le> \<bar>amountMinor tot\<bar>" by simp_all
    with t have "minimumMinor \<le> signed tot * ac_amount c \<and> signed tot * ac_amount c \<le> maximumMinor"
      by (auto simp: valid_money_def signed_def minimumMinor_def maximumMinor_def)
    with t show "bnd (checked (signed tot * ac_amount c) (currencyCode tot))
        (\<lambda>m. Inr \<lparr>ma_allocationKey = ac_key c, ma_amount = m\<rparr>) = Inr (allocation_of tot c)"
      by (simp add: checked_eq valid_money_def allocation_of_def)
  qed
  have ok: "shares_ok shares \<longleftrightarrow> es \<noteq> [] \<and> distinct (map fst shares) \<and> 0 < sum_list (map snd shares)"
    if "map_res allocation_share es = Inr shares" for es shares
    using that allocation_shares_nonneg [OF that] by (auto simp: shares_ok_def)
  have "allocateMoney t sh = Inr out \<longleftrightarrow>
     (\<exists>tot. createMoney t = Inr tot \<and> is_array sh \<and> elements sh \<noteq> [] \<and>
        (\<exists>shares. map_res allocation_share (elements sh) = Inr shares \<and>
           distinct (map fst shares) \<and> 0 < sum_list (map snd shares) \<and>
           map_res (\<lambda>c. bnd (checked (signed tot * ac_amount c) (currencyCode tot))
             (\<lambda>m. Inr \<lparr>ma_allocationKey = ac_key c, ma_amount = m\<rparr>))
           (allocation_result \<bar>amountMinor tot\<bar> shares) = Inr out))"
    by (auto simp: allocateMoney_def Let_def res_simps allocation_shares_Inr not_le
        simp flip: signed_def)
  also have "\<dots> \<longleftrightarrow> ?R"
  proof (intro iffI; elim exE conjE)
    fix tot shares
    assume h: "createMoney t = Inr tot" "is_array sh" "elements sh \<noteq> []"
      "map_res allocation_share (elements sh) = Inr shares" "distinct (map fst shares)"
      "0 < sum_list (map snd shares)"
    assume m: "map_res (\<lambda>c. bnd (checked (signed tot * ac_amount c) (currencyCode tot))
             (\<lambda>m. Inr \<lparr>ma_allocationKey = ac_key c, ma_amount = m\<rparr>))
           (allocation_result \<bar>amountMinor tot\<bar> shares) = Inr out"
    have "shares_ok shares" using ok h by blast
    with m body [OF this createMoney_valid [OF h(1)]] h show ?R by auto
  next
    fix tot shares
    assume h: "createMoney t = Inr tot" "is_array sh"
      "map_res allocation_share (elements sh) = Inr shares" "shares_ok shares"
      "out = map (allocation_of tot) (allocation_result \<bar>amountMinor tot\<bar> shares)"
    from h(4) ok [OF h(3)] body [OF h(4) createMoney_valid [OF h(1)]] h
    show "\<exists>tot. createMoney t = Inr tot \<and> is_array sh \<and> elements sh \<noteq> [] \<and>
        (\<exists>shares. map_res allocation_share (elements sh) = Inr shares \<and>
           distinct (map fst shares) \<and> 0 < sum_list (map snd shares) \<and>
           map_res (\<lambda>c. bnd (checked (signed tot * ac_amount c) (currencyCode tot))
             (\<lambda>m. Inr \<lparr>ma_allocationKey = ac_key c, ma_amount = m\<rparr>))
           (allocation_result \<bar>amountMinor tot\<bar> shares) = Inr out)"
      by blast
  qed
  finally show ?thesis .
qed


lemma map_res_mset:
  assumes "map_res f xs = Inr ys" and "mset xs = mset xs'"
  shows "\<exists>ys'. map_res f xs' = Inr ys' \<and> mset ys = mset ys'"
proof -
  have ys: "ys = map (\<lambda>x. projr (f x)) xs" if "map_res f xs = Inr ys" for xs ys
    using that by (induction xs arbitrary: ys) (auto simp: res_simps)
  have "map_res f xs' = Inr (map (\<lambda>x. projr (f x)) xs')"
  proof (rule map_res_Inr_id)
    fix x assume "x \<in> set xs'"
    then have "x \<in> set xs" using mset_eq_setD [OF assms(2)] by simp
    then show "f x = Inr (projr (f x))" using map_res_in_src [OF assms(1)] by force
  qed
  with ys [OF assms(1)] assms(2) show ?thesis by (simp add: mset_map)
qed

lemma distinct_map_mset_cong:
  assumes "mset xs = mset ys"
  shows "distinct (map f xs) = distinct (map f ys)"
proof -
  have "mset (map f xs) = mset (map f ys)" using assms by (simp add: mset_map)
  then show ?thesis by (rule mset_eq_imp_distinct_iff)
qed

lemma allocateMoney_error:
  assumes "allocateMoney t sh = Inl e"
  shows "createMoney t = Inl e \<or>
    (\<exists>tot. createMoney t = Inr tot) \<and> e = MoneyTaxContractError MONEY_ALLOCATION_INVALID"
proof (rule ccontr)
  assume neg: "\<not> ?thesis"
  then obtain tot where t: "createMoney t = Inr tot" using assms
    by (cases "createMoney t") (auto simp: allocateMoney_def)
  with assms neg obtain shares where "is_array sh"
    "allocation_shares [] (elements sh) = Inr shares" "0 < sum_list (map snd shares)"
    by (auto simp: allocateMoney_def res_simps not_le dest: allocation_shares_error)
  then have "map_res allocation_share (elements sh) = Inr shares" "shares_ok shares"
    using allocation_shares_nonneg by (auto simp: allocation_shares_Inr shares_ok_def)
  with t \<open>is_array sh\<close> have "\<exists>out. allocateMoney t sh = Inr out"
    by (auto simp: allocateMoney_Inr)
  with assms show False by simp
qed

text \<open>
  C1. \<open>allocateMoney\<close> returns for every total and every non-empty list of well-formed shares with
  distinct keys and a positive weight, without overflow; the allocated amounts add up to the total
  exactly, carry its currency, and are listed once per share in the order of their keys.
\<close>

theorem allocateMoney_conserves:
  assumes "createMoney t = Inr tot" and "map_res allocation_share shs = Inr shares"
    and "distinct (map fst shares)" and "0 < sum_list (map snd shares)"
  shows "\<exists>out. allocateMoney t (JArr shs) = Inr out \<and>
     sum_list (map (\<lambda>a. amountMinor (ma_amount a)) out) = amountMinor tot \<and>
     list_all (\<lambda>a. currencyCode (ma_amount a) = currencyCode tot) out \<and>
     mset (map ma_allocationKey out) = mset (map fst shares) \<and>
     sorted (map (\<lambda>a. collation_key (ma_allocationKey a)) out)"
proof -
  let ?R = "allocation_result \<bar>amountMinor tot\<bar> shares"
  have ok: "shares_ok shares"
    using assms(3,4) allocation_shares_nonneg [OF assms(2)] by (auto simp: shares_ok_def)
  have "sum_list (map (\<lambda>a. amountMinor (ma_amount a)) (map (allocation_of tot) cs)) =
      signed tot * sum_list (map ac_amount cs)" for cs
    by (induction cs) (simp_all add: allocation_of_def algebra_simps)
  then have "sum_list (map (\<lambda>a. amountMinor (ma_amount a)) (map (allocation_of tot) ?R)) = amountMinor tot"
    using allocation_result_sum [OF assms(4)] by (simp add: signed_def)
  moreover have "map ma_allocationKey (map (allocation_of tot) ?R) = map ac_key ?R"
    by (simp add: allocation_of_def)
  moreover have "allocateMoney t (JArr shs) = Inr (map (allocation_of tot) ?R)"
    using assms ok by (auto simp: allocateMoney_Inr)
  moreover have "map (\<lambda>a. collation_key (ma_allocationKey a)) (map (allocation_of tot) ?R) =
      map (\<lambda>c. collation_key (ac_key c)) ?R"
    by (simp add: allocation_of_def)
  moreover have "list_all (\<lambda>a. currencyCode (ma_amount a) = currencyCode tot) (map (allocation_of tot) ?R)"
    by (simp add: list_all_iff allocation_of_def)
  ultimately show ?thesis
    using allocation_result_keys [of "\<bar>amountMinor tot\<bar>" shares] allocation_result_sorted
    by metis
qed

definition example_shares :: "js list" where
  "example_shares =
     [JObj [(''allocationKey'', JStr ''B''), (''weight'', JBig 1)],
      JObj [(''allocationKey'', JStr ''A''), (''weight'', JBig 1)],
      JObj [(''weight'', JBig 1), (''allocationKey'', JStr ''C'')]]"

definition example_total :: js where
  "example_total = money_js \<lparr>amountMinor = - 100, currencyCode = ''CAD''\<rparr>"

lemma example_allocation_inputs:
  "createMoney example_total = Inr \<lparr>amountMinor = - 100, currencyCode = ''CAD''\<rparr>"
  "map_res allocation_share example_shares = Inr [(''B'', 1), (''A'', 1), (''C'', 1)]"
  by code_simp+

theorem allocateMoney_conserves_witness:
  "\<exists>out. allocateMoney example_total (JArr example_shares) = Inr out \<and>
     sum_list (map (\<lambda>a. amountMinor (ma_amount a)) out) = - 100"
  using allocateMoney_conserves [OF example_allocation_inputs] by auto

text \<open>
  C3. The allocation is proportional: every amount differs from the exact share
  \<open>total * weight / weightTotal\<close> by less than one minor unit and never has the sign opposite to
  the total.
\<close>

theorem allocateMoney_proportional:
  assumes "allocateMoney t sh = Inr out" and "a \<in> set out"
  shows "\<exists>tot shares w. createMoney t = Inr tot \<and> map_res allocation_share (elements sh) = Inr shares \<and>
     (ma_allocationKey a, w) \<in> set shares \<and>
     \<bar>amountMinor (ma_amount a) * sum_list (map snd shares) - amountMinor tot * w\<bar>
       < sum_list (map snd shares) \<and>
     0 \<le> amountMinor (ma_amount a) * amountMinor tot"
proof -
  from assms(1) obtain tot shares where t: "createMoney t = Inr tot"
    and shares: "map_res allocation_share (elements sh) = Inr shares" and ok: "shares_ok shares"
    and out: "out = map (allocation_of tot) (allocation_result \<bar>amountMinor tot\<bar> shares)"
    by (auto simp: allocateMoney_Inr)
  from assms(2) out obtain c where c: "c \<in> set (allocation_result \<bar>amountMinor tot\<bar> shares)"
    and a: "a = allocation_of tot c" by auto
  let ?W = "sum_list (map snd shares)"
  have pos: "0 < ?W" using ok by (simp add: shares_ok_def)
  obtain w where w: "(ac_key c, w) \<in> set shares" "\<bar>ac_amount c * ?W - \<bar>amountMinor tot\<bar> * w\<bar> < ?W"
    using allocation_result_quota [OF pos c] by blast
  have "amountMinor (ma_amount a) * ?W - amountMinor tot * w =
      signed tot * (ac_amount c * ?W - \<bar>amountMinor tot\<bar> * w)"
    by (simp add: a allocation_of_def signed_def algebra_simps abs_if)
  moreover have "\<bar>signed tot * z\<bar> = \<bar>z\<bar>" for z by (simp add: signed_def)
  moreover have "0 \<le> amountMinor (ma_amount a) * amountMinor tot"
    using allocation_result_range [OF ok _ c]
    by (simp add: a allocation_of_def signed_def mult_nonneg_nonneg mult_nonneg_nonpos2
        zero_le_mult_iff)
  ultimately show ?thesis
    using t shares w by (intro exI [of _ tot] exI [of _ shares] exI [of _ w]) (simp add: a allocation_of_def)
qed

lemma example_allocation:
  "allocateMoney example_total (JArr example_shares) = Inr
     [\<lparr>ma_allocationKey = ''A'', ma_amount = \<lparr>amountMinor = - 34, currencyCode = ''CAD''\<rparr>\<rparr>,
      \<lparr>ma_allocationKey = ''B'', ma_amount = \<lparr>amountMinor = - 33, currencyCode = ''CAD''\<rparr>\<rparr>,
      \<lparr>ma_allocationKey = ''C'', ma_amount = \<lparr>amountMinor = - 33, currencyCode = ''CAD''\<rparr>\<rparr>]"
  by code_simp

theorem allocateMoney_proportional_witness:
  "\<exists>w. (''A'', w) \<in> set [(''B'', 1), (''A'', 1), (''C'', 1::int)] \<and> \<bar>- 34 * 3 - - 100 * w\<bar> < (3::int)"
  using allocateMoney_proportional [OF example_allocation, of
      "\<lparr>ma_allocationKey = ''A'', ma_amount = \<lparr>amountMinor = - 34, currencyCode = ''CAD''\<rparr>\<rparr>"]
    example_allocation_inputs
  by auto

text \<open>
  C4. The order in which the shares are given does not matter: any permutation of the share list
  yields the same allocation, or the same error.
\<close>

theorem allocateMoney_order_independent:
  assumes "mset shs = mset shs'"
  shows "allocateMoney t (JArr shs) = allocateMoney t (JArr shs')"
proof -
  have step: "allocateMoney t (JArr b) = Inr out"
    if m: "mset a = mset b" and r: "allocateMoney t (JArr a) = Inr out" for a b out
  proof -
    from r obtain tot shares where h: "createMoney t = Inr tot" "map_res allocation_share a = Inr shares"
      "shares_ok shares" "out = map (allocation_of tot) (allocation_result \<bar>amountMinor tot\<bar> shares)"
      by (auto simp: allocateMoney_Inr)
    obtain shares' where s': "map_res allocation_share b = Inr shares'" "mset shares = mset shares'"
      using map_res_mset [OF h(2) m] by blast
    have "shares_ok shares'"
      using h(3) s'(2) sum_list_mset_cong [OF s'(2), of snd] mset_eq_setD [OF s'(2)]
      by (simp add: shares_ok_def distinct_map_mset_cong [OF s'(2)])
    moreover have "allocation_result \<bar>amountMinor tot\<bar> shares = allocation_result \<bar>amountMinor tot\<bar> shares'"
      using h(3) by (intro allocation_result_perm [OF s'(2)]) (simp add: shares_ok_def)
    ultimately show ?thesis using h s' by (auto simp: allocateMoney_Inr)
  qed
  have err: "e = (case createMoney t of Inl e' \<Rightarrow> e' | Inr _ \<Rightarrow> MoneyTaxContractError MONEY_ALLOCATION_INVALID)"
    if l: "allocateMoney t (JArr a) = Inl e" for a e
    using allocateMoney_error [OF l] by auto
  show ?thesis
  proof (cases "allocateMoney t (JArr shs)")
    case (Inl e)
    moreover obtain e' where "allocateMoney t (JArr shs') = Inl e'"
      using step [OF assms [symmetric]] Inl by (cases "allocateMoney t (JArr shs')") auto
    ultimately show ?thesis using err by metis
  next
    case (Inr out)
    with step [OF assms] show ?thesis by simp
  qed
qed

theorem allocateMoney_order_independent_witness:
  "allocateMoney example_total (JArr example_shares) =
   allocateMoney example_total (JArr (rev example_shares))"
proof -
  have "mset example_shares = mset (rev example_shares)" by simp
  then show ?thesis by (rule allocateMoney_order_independent)
qed


section \<open>Rates and tax\<close>

lemma canonical_rate_split:
  assumes "canonical_rate s"
  shows "nat_numeral (rate_whole s)" "length (rate_whole s) \<le> 6"
    "list_all is_digit (rate_fraction s)" "length (rate_fraction s) \<le> 12"
    "rate_fraction s \<noteq> [] \<Longrightarrow> last (rate_fraction s) \<noteq> CHR ''0''"
    "s = (if rate_fraction s = [] then rate_whole s else rate_whole s @ CHR ''.'' # rate_fraction s)"
proof -
  have s: "s = rate_whole s @ rate_rest s" by (simp add: rate_whole_def rate_rest_def)
  have hd: "rate_rest s = c # f \<Longrightarrow> c = CHR ''.''" for c f
    using hd_dropWhile [of "\<lambda>c. c \<noteq> CHR ''.''" s] by (auto simp: rate_rest_def)
  from assms show "nat_numeral (rate_whole s)" "length (rate_whole s) \<le> 6"
    "list_all is_digit (rate_fraction s)" "length (rate_fraction s) \<le> 12"
    "rate_fraction s \<noteq> [] \<Longrightarrow> last (rate_fraction s) \<noteq> CHR ''0''"
    by (auto simp: canonical_rate_def rate_fraction_def split: list.splits)
  show "s = (if rate_fraction s = [] then rate_whole s else rate_whole s @ CHR ''.'' # rate_fraction s)"
    using s hd assms by (auto simp: canonical_rate_def rate_fraction_def split: list.splits)
qed

lemma nat_numeral_digits: "nat_numeral s \<Longrightarrow> list_all is_digit s"
  by (auto simp: nat_numeral_def is_digit_def in_range_def)

lemma nat_numeral_inj:
  assumes "nat_numeral a" and "nat_numeral b" and "dec_val a = dec_val b"
  shows "a = b"
proof -
  have lead: "10 ^ (length s - 1) \<le> dec_val s" if num: "nat_numeral s" "s \<noteq> ''0''" for s
  proof -
    obtain c cs where s: "s = c # cs" using num by (cases s) (auto simp: nat_numeral_def)
    have "c \<noteq> CHR ''0''" "is_digit c" "list_all is_digit cs"
      using num s by (auto simp: nat_numeral_def)
    then have "1 \<le> digit_val c"
      using digit_char_val [of c] digit_val_range [of c] by (cases "digit_val c = 0") auto
    moreover have "dec_val (c # cs) = digit_val c * 10 ^ length cs + dec_val cs" for c cs
      by (induction cs rule: rev_induct) (simp_all add: dec_val_snoc flip: append_Cons, simp add: dec_val_def)
    ultimately show ?thesis
      using s dec_val_range [OF \<open>list_all is_digit cs\<close>] by (simp add: mult_le_cancel_right1 add_increasing2)
  qed
  have zero: "dec_val ''0'' = 0" by code_simp
  have len: "length a = length b"
  proof (cases "a = ''0'' \<or> b = ''0''")
    case True
    then have "dec_val a = 0" "dec_val b = 0" using assms zero by auto
    then have "a = ''0''" "b = ''0''" using lead assms by (metis not_one_le_zero one_le_power order_trans one_le_numeral)+
    then show ?thesis by simp
  next
    case False
    have "10 ^ (length x - 1) < (10::int) ^ length y"
      if "nat_numeral x" "x \<noteq> ''0''" "nat_numeral y" "dec_val x = dec_val y" for x y
      using lead [of x] dec_val_range [OF nat_numeral_digits [OF that(3)]] that by linarith
    then have "length x \<le> length y"
      if "nat_numeral x" "x \<noteq> ''0''" "nat_numeral y" "dec_val x = dec_val y" for x y
      using that by fastforce
    with False assms show ?thesis by (metis order_antisym)
  qed
  have "a = pad_digits (length a) (dec_val a)"
    using pad_digits_dec_val [OF nat_numeral_digits [OF assms(1)]] by simp
  also have "\<dots> = b" using pad_digits_dec_val [OF nat_numeral_digits [OF assms(2)]] len assms(3) by simp
  finally show ?thesis .
qed

lemma taxRateRatio_Inr:
  "taxRateRatio (JStr s) = Inr r \<longleftrightarrow> canonical_rate s \<and>
     r = \<lparr>numerator = dec_val (rate_whole s) * 10 ^ length (rate_fraction s) + dec_val (rate_fraction s),
          denominator = 10 ^ length (rate_fraction s)\<rparr>"
  by (auto simp: taxRateRatio_def res_simps Let_def)

lemma taxRateRatio_range:
  assumes "taxRateRatio (JStr s) = Inr r"
  shows "0 < denominator r" "0 \<le> numerator r"
proof -
  from assms have c: "canonical_rate s" by (simp add: taxRateRatio_Inr)
  from assms show "0 < denominator r" by (simp add: taxRateRatio_Inr)
  from assms show "0 \<le> numerator r"
    using dec_val_range [OF canonical_rate_split(3) [OF c]]
      dec_val_range [OF nat_numeral_digits [OF canonical_rate_split(1) [OF c]]]
    by (simp add: taxRateRatio_Inr)
qed

text \<open>
  The canonical spelling of a rate is unique: two rates that \<open>parseTaxRate\<close> accepts and whose
  ratios are the same rational number are the same string, so comparing rates as strings (as the
  snapshot checks do) is comparing them as numbers.
\<close>

theorem taxRateRatio_injective:
  assumes "taxRateRatio (JStr s) = Inr r" and "taxRateRatio (JStr s') = Inr r'"
    and "numerator r * denominator r' = numerator r' * denominator r"
  shows "s = s'"
proof -
  have key: "length (rate_fraction s2) \<le> length (rate_fraction s1)"
    if r1: "taxRateRatio (JStr s1) = Inr r1" and r2: "taxRateRatio (JStr s2) = Inr r2"
      and eq: "numerator r1 * denominator r2 = numerator r2 * denominator r1" for s1 s2 r1 r2
  proof (rule ccontr)
    let ?k1 = "length (rate_fraction s1)" and ?k2 = "length (rate_fraction s2)"
    assume "\<not> ?k2 \<le> ?k1"
    then obtain j where j: "?k2 = ?k1 + Suc j" by (metis less_imp_Suc_add not_le add_Suc_right)
    have "canonical_rate s2" using r2 by (simp add: taxRateRatio_Inr)
    note c = canonical_rate_split [OF this]
    from j obtain f d where f: "rate_fraction s2 = f @ [d]" by (cases "rate_fraction s2" rule: rev_cases) auto
    have d: "is_digit d" "d \<noteq> CHR ''0''" using c(3,5) f by simp_all
    then have dv: "1 \<le> digit_val d \<and> digit_val d \<le> 9"
      using digit_char_val [of d] digit_val_range [of d] by (cases "digit_val d = 0") auto
    have n2: "numerator r2 = 10 * (dec_val (rate_whole s2) * 10 ^ length f + dec_val f) + digit_val d"
      using r2 f by (simp add: taxRateRatio_Inr dec_val_snoc algebra_simps)
    have "numerator r2 * 10 ^ ?k1 = numerator r1 * 10 ^ Suc j * 10 ^ ?k1"
      using eq r1 r2 j by (simp add: taxRateRatio_Inr power_add algebra_simps)
    then have "numerator r2 = 10 * (numerator r1 * 10 ^ j)" by simp
    with n2 dv show False by presburger
  qed
  have len: "length (rate_fraction s) = length (rate_fraction s')"
    using key [OF assms] key [OF assms(2,1)] assms(3) by simp
  let ?k = "length (rate_fraction s)"
  have c: "canonical_rate s" "canonical_rate s'" using assms by (simp_all add: taxRateRatio_Inr)
  note c1 = canonical_rate_split [OF c(1)] and c2 = canonical_rate_split [OF c(2)]
  have n: "dec_val (rate_whole s) * 10 ^ ?k + dec_val (rate_fraction s) =
      dec_val (rate_whole s') * 10 ^ ?k + dec_val (rate_fraction s')"
    using assms len by (simp add: taxRateRatio_Inr)
  have b: "0 \<le> dec_val (rate_fraction s)" "dec_val (rate_fraction s) < 10 ^ ?k"
    "0 \<le> dec_val (rate_fraction s')" "dec_val (rate_fraction s') < 10 ^ ?k"
    using dec_val_range [OF c1(3)] dec_val_range [OF c2(3)] len by simp_all
  have uniq: "a = a' \<and> x = x'" if e: "a * m + x = a' * m + x'" and r: "0 \<le> x" "x < m" "0 \<le> x'" "x' < m"
    for a a' x x' m :: int
  proof -
    have "a = (a * m + x) div m" using r by simp
    also have "\<dots> = a'" unfolding e using r by simp
    finally show ?thesis using e by simp
  qed
  have w: "dec_val (rate_whole s) = dec_val (rate_whole s')" "dec_val (rate_fraction s) = dec_val (rate_fraction s')"
    using uniq [OF n b] by simp_all
  have "rate_whole s = rate_whole s'" by (rule nat_numeral_inj [OF c1(1) c2(1) w(1)])
  moreover have "rate_fraction s = rate_fraction s'"
    using pad_digits_dec_val [OF c1(3)] pad_digits_dec_val [OF c2(3)] len w(2) by metis
  ultimately show ?thesis using c1(6) c2(6) by metis
qed

theorem taxRateRatio_injective_witness:
  "taxRateRatio (JStr ''0.13'') = Inr \<lparr>numerator = 13, denominator = 100\<rparr> \<and>
   \<not> (\<exists>s. taxRateRatio (JStr s) = Inr \<lparr>numerator = 13, denominator = 100\<rparr> \<and> ''0.13'' \<noteq> s)"
proof -
  have r: "taxRateRatio (JStr ''0.13'') = Inr \<lparr>numerator = 13, denominator = 100\<rparr>" by code_simp
  have "''0.13'' = s" if "taxRateRatio (JStr s) = Inr \<lparr>numerator = 13, denominator = 100\<rparr>" for s
    by (rule taxRateRatio_injective [OF r that]) simp
  with r show ?thesis by blast
qed

lemma tax_minor_Inr:
  assumes "taxRateRatio (JStr (rt_rate rule)) = Inr ratio" and "rt_treatment rule \<noteq> Taxable \<Longrightarrow> numerator ratio = 0"
  shows "\<exists>t. tax_minor rule ratio a = Inr t \<and>
    rounds_to (rt_roundingMode rule) (a * numerator ratio)
       (if rt_priceInclusion rule = Exclusive then denominator ratio
        else denominator ratio + numerator ratio) t"
proof (cases "numerator ratio = 0")
  case True
  then show ?thesis using taxRateRatio_range [OF assms(1)] by (simp add: tax_minor_def rounds_to_def)
next
  case False
  then have "rt_treatment rule = Taxable" using assms(2) by blast
  then show ?thesis
    using False taxRateRatio_range [OF assms(1)] roundRational_returns [of "denominator ratio"]
      roundRational_returns [of "denominator ratio + numerator ratio"]
    by (simp add: tax_minor_def)
qed

lemma validateTaxCalculationInput_Inr:
  assumes "validateTaxCalculationInput input = Inr c"
  shows "valid_money (ti_inputAmount c)" "canonical_rate (rt_rate (ti_resolvedRule c))"
    "rt_treatment (ti_resolvedRule c) \<noteq> Taxable \<Longrightarrow> rt_rate (ti_resolvedRule c) = ''0''"
    "currencyCode (ti_inputAmount c) = cm_currencyCode (ti_currencyMetadata c)"
  using assms
  by (auto simp: validateTaxCalculationInput_def createResolvedTaxRuleSnapshot_def res_simps
      dest!: createMoney_valid)

lemma calculateTax_Inr:
  assumes "calculateTax input = Inr r"
  shows "amountMinor (tr_grossAmount r) = amountMinor (tr_netAmount r) + amountMinor (tr_taxAmount r) \<and>
    (te_priceInclusion (tr_explanation r) = Exclusive \<longrightarrow> tr_netAmount r = tr_inputAmount r) \<and>
    (te_priceInclusion (tr_explanation r) = Inclusive \<longrightarrow> tr_grossAmount r = tr_inputAmount r) \<and>
    (te_treatment (tr_explanation r) \<noteq> Taxable \<longrightarrow> amountMinor (tr_taxAmount r) = 0) \<and>
    (\<exists>ratio. taxRateRatio (JStr (te_rate (tr_explanation r))) = Inr ratio \<and>
       rounds_to (te_roundingMode (tr_explanation r)) (amountMinor (tr_inputAmount r) * numerator ratio)
         (if te_priceInclusion (tr_explanation r) = Exclusive then denominator ratio
          else denominator ratio + numerator ratio) (amountMinor (tr_taxAmount r))) \<and>
    valid_money (tr_netAmount r) \<and> valid_money (tr_taxAmount r) \<and> valid_money (tr_grossAmount r) \<and>
    currencyCode (tr_netAmount r) = currencyCode (tr_inputAmount r) \<and>
    currencyCode (tr_taxAmount r) = currencyCode (tr_inputAmount r) \<and>
    currencyCode (tr_grossAmount r) = currencyCode (tr_inputAmount r)"
proof -
  from assms obtain c ratio t tax net gross where
    c: "validateTaxCalculationInput input = Inr c" and
    ratio: "taxRateRatio (JStr (rt_rate (ti_resolvedRule c))) = Inr ratio" and
    t: "tax_minor (ti_resolvedRule c) ratio (amountMinor (ti_inputAmount c)) = Inr t" and
    tax: "checked t (currencyCode (ti_inputAmount c)) = Inr tax" and
    net: "(if rt_priceInclusion (ti_resolvedRule c) = Inclusive
      then subtractMoney (money_js (ti_inputAmount c)) (money_js tax)
      else createMoney (money_js (ti_inputAmount c))) = Inr net" and
    gross: "(if rt_priceInclusion (ti_resolvedRule c) = Exclusive
      then addMoney (money_js (ti_inputAmount c)) (money_js tax)
      else createMoney (money_js (ti_inputAmount c))) = Inr gross" and
    r: "tr_inputAmount r = ti_inputAmount c" "tr_netAmount r = net" "tr_taxAmount r = tax"
      "tr_grossAmount r = gross" "te_rate (tr_explanation r) = rt_rate (ti_resolvedRule c)"
      "te_treatment (tr_explanation r) = rt_treatment (ti_resolvedRule c)"
      "te_roundingMode (tr_explanation r) = rt_roundingMode (ti_resolvedRule c)"
      "te_priceInclusion (tr_explanation r) = rt_priceInclusion (ti_resolvedRule c)"
    unfolding calculateTax_def Let_def res_simps by auto
  note v = validateTaxCalculationInput_Inr [OF c]
  have zero: "rt_treatment (ti_resolvedRule c) \<noteq> Taxable \<Longrightarrow> numerator ratio = 0"
  proof -
    assume "rt_treatment (ti_resolvedRule c) \<noteq> Taxable"
    then have "taxRateRatio (JStr ''0'') = Inr ratio" using v(3) ratio by simp
    moreover have "taxRateRatio (JStr ''0'') = Inr \<lparr>numerator = 0, denominator = 1\<rparr>" by code_simp
    ultimately show "numerator ratio = 0" by auto
  qed
  have spec: "rounds_to (rt_roundingMode (ti_resolvedRule c)) (amountMinor (ti_inputAmount c) * numerator ratio)
       (if rt_priceInclusion (ti_resolvedRule c) = Exclusive then denominator ratio
        else denominator ratio + numerator ratio) t"
    using tax_minor_Inr [OF ratio zero, of "amountMinor (ti_inputAmount c)"] t by auto
  have tax': "amountMinor tax = t" "currencyCode tax = currencyCode (ti_inputAmount c)" "valid_money tax"
    using tax by (auto simp: res_simps)
  have t0: "rt_treatment (ti_resolvedRule c) \<noteq> Taxable \<Longrightarrow> t = 0" using t by (simp add: tax_minor_def)
  have net': "valid_money net" "currencyCode net = currencyCode (ti_inputAmount c)"
    "amountMinor net = amountMinor (ti_inputAmount c) -
       (if rt_priceInclusion (ti_resolvedRule c) = Inclusive then t else 0)"
    "rt_priceInclusion (ti_resolvedRule c) = Exclusive \<Longrightarrow> net = ti_inputAmount c"
    using net v(1) tax' by (auto simp: subtractMoney_money_js valid_money_def split: if_splits)
  have gross': "valid_money gross" "currencyCode gross = currencyCode (ti_inputAmount c)"
    "amountMinor gross = amountMinor (ti_inputAmount c) +
       (if rt_priceInclusion (ti_resolvedRule c) = Exclusive then t else 0)"
    "rt_priceInclusion (ti_resolvedRule c) = Inclusive \<Longrightarrow> gross = ti_inputAmount c"
    using gross v(1) tax' by (auto simp: addMoney_money_js valid_money_def split: if_splits)
  show ?thesis
    unfolding r using spec ratio tax' net' gross' t0
    by (cases "rt_priceInclusion (ti_resolvedRule c)") auto
qed

text \<open>
  C2. \<open>calculateTax\<close>: the gross amount is the net amount plus the tax, exactly; the input is the net
  amount when tax is exclusive and the gross amount when it is inclusive; and the tax is the exact
  tax \<open>input * rate\<close> (\<open>input * rate / (1 + rate)\<close> when inclusive) rounded in the rule's mode, zero
  for exempt and zero-rated treatments.
\<close>

theorem calculateTax_balances:
  assumes "calculateTax input = Inr r"
  shows "amountMinor (tr_grossAmount r) = amountMinor (tr_netAmount r) + amountMinor (tr_taxAmount r) \<and>
    (te_priceInclusion (tr_explanation r) = Exclusive \<longrightarrow> tr_netAmount r = tr_inputAmount r) \<and>
    (te_priceInclusion (tr_explanation r) = Inclusive \<longrightarrow> tr_grossAmount r = tr_inputAmount r) \<and>
    (te_treatment (tr_explanation r) \<noteq> Taxable \<longrightarrow> amountMinor (tr_taxAmount r) = 0) \<and>
    (\<exists>ratio. taxRateRatio (JStr (te_rate (tr_explanation r))) = Inr ratio \<and>
       rounds_to (te_roundingMode (tr_explanation r)) (amountMinor (tr_inputAmount r) * numerator ratio)
         (if te_priceInclusion (tr_explanation r) = Exclusive then denominator ratio
          else denominator ratio + numerator ratio) (amountMinor (tr_taxAmount r))) \<and>
    valid_money (tr_netAmount r) \<and> valid_money (tr_taxAmount r) \<and> valid_money (tr_grossAmount r) \<and>
    currencyCode (tr_netAmount r) = currencyCode (tr_inputAmount r) \<and>
    currencyCode (tr_taxAmount r) = currencyCode (tr_inputAmount r) \<and>
    currencyCode (tr_grossAmount r) = currencyCode (tr_inputAmount r)"
  using assms by (rule calculateTax_Inr)

definition example_tax_input :: js where
  "example_tax_input = JObj
     [(''calculationReference'', JStr ''01890000-0000-7000-8000-000000000001''),
      (''taxableReference'', JStr ''01890000-0000-7000-8000-000000000002''),
      (''inputAmount'', money_js \<lparr>amountMinor = 1150, currencyCode = ''CAD''\<rparr>),
      (''currencyMetadata'', currency_metadata_js
         \<lparr>cm_currencyCode = ''CAD'', cm_minorUnitExponent = 2, cm_metadataVersion = 1,
          cm_metadataVersionReference = ''01890000-0000-7000-8000-000000000003'',
          cm_metadataDigest = ''sha256:'' @ replicate 64 (CHR ''a'')\<rparr>),
      (''resolvedRule'', resolved_tax_rule_js
         \<lparr>rt_ruleVersionReference = ''01890000-0000-7000-8000-000000000004'',
          rt_ruleVersionDigest = ''sha256:'' @ replicate 64 (CHR ''b''),
          rt_jurisdictionCode = ''CA-ON'', rt_taxComponentCode = ''HST'',
          rt_taxClassificationReference = ''01890000-0000-7000-8000-000000000005'',
          rt_treatment = Taxable, rt_rate = ''0.13'', rt_priceInclusion = Exclusive,
          rt_roundingMode = HalfEven\<rparr>)]"

lemma example_tax: "map_sum (\<lambda>e. e) (\<lambda>r. (amountMinor (tr_netAmount r), amountMinor (tr_taxAmount r),
     amountMinor (tr_grossAmount r))) (calculateTax example_tax_input) = Inr (1150, 150, 1300)"
  by code_simp

theorem calculateTax_balances_witness:
  "\<exists>r. calculateTax example_tax_input = Inr r \<and> amountMinor (tr_taxAmount r) = 150 \<and>
     amountMinor (tr_grossAmount r) = amountMinor (tr_netAmount r) + amountMinor (tr_taxAmount r)"
proof -
  obtain r where r: "calculateTax example_tax_input = Inr r" "amountMinor (tr_taxAmount r) = 150"
    using example_tax by (cases "calculateTax example_tax_input") auto
  with calculateTax_balances [OF r(1)] show ?thesis by blast
qed

end
