(* ===== verification/Window.thy ===== *)
theory Window
  imports JsDate
begin

text \<open>
  Half-open time windows. Effective periods, price entries, promotions, tax snapshots and quotes
  are all in force from their start instant up to, and not including, their end instant, if they
  have one. The locale states that contract once; the components interpret it on their own records.
\<close>

definition windows_overlap :: "int \<Rightarrow> int option \<Rightarrow> int \<Rightarrow> int option \<Rightarrow> bool" where
  "windows_overlap s e s' e' \<longleftrightarrow>
     (case e' of None \<Rightarrow> True | Some u \<Rightarrow> s < u) \<and> (case e of None \<Rightarrow> True | Some u \<Rightarrow> s' < u)"

lemma windows_overlap_sym: "windows_overlap s e s' e' = windows_overlap s' e' s e"
  by (auto simp: windows_overlap_def)

locale half_open_window =
  fixes ok :: "'w \<Rightarrow> bool"
    and win_start :: "'w \<Rightarrow> int"
    and win_end :: "'w \<Rightarrow> int option"
    and active :: "'w \<Rightarrow> string \<Rightarrow> bool"
  assumes nonempty: "ok w \<Longrightarrow> win_end w = Some e \<Longrightarrow> win_start w < e"
    and start_time: "ok w \<Longrightarrow> iso_time (win_start w)"
    and active_iff: "ok w \<Longrightarrow> canonical_instant s \<Longrightarrow>
      active w s \<longleftrightarrow> win_start w \<le> ms_of s \<and> (\<forall>e. win_end w = Some e \<longrightarrow> ms_of s < e)"
begin

lemma active_at_start: "ok w \<Longrightarrow> active w (to_iso (win_start w))"
  using nonempty start_time by (auto simp: active_iff canonical_to_iso)

lemma not_active_at_end:
  "ok w \<Longrightarrow> canonical_instant s \<Longrightarrow> win_end w = Some (ms_of s) \<Longrightarrow> \<not> active w s"
  by (simp add: active_iff)

lemma convex:
  "ok w \<Longrightarrow> canonical_instant s \<Longrightarrow> canonical_instant t \<Longrightarrow> canonical_instant u \<Longrightarrow>
    active w s \<Longrightarrow> active w u \<Longrightarrow> ms_of s \<le> ms_of t \<Longrightarrow> ms_of t \<le> ms_of u \<Longrightarrow> active w t"
  by (auto simp: active_iff)

lemma overlap_iff_common:
  assumes v: "ok v" and w: "ok w"
  shows "windows_overlap (win_start v) (win_end v) (win_start w) (win_end w) \<longleftrightarrow>
    (\<exists>s. canonical_instant s \<and> active v s \<and> active w s)"
proof
  assume o: "windows_overlap (win_start v) (win_end v) (win_start w) (win_end w)"
  let ?t = "max (win_start v) (win_start w)"
  have t: "iso_time ?t" using start_time v w by (simp add: max_def)
  have "active v (to_iso ?t) \<and> active w (to_iso ?t)"
    using o nonempty [OF v] nonempty [OF w] t v w
    by (auto simp: active_iff canonical_to_iso windows_overlap_def)
  with t show "\<exists>s. canonical_instant s \<and> active v s \<and> active w s"
    using canonical_to_iso by blast
next
  assume "\<exists>s. canonical_instant s \<and> active v s \<and> active w s"
  then obtain s where "canonical_instant s" "active v s" "active w s" by blast
  with v w show "windows_overlap (win_start v) (win_end v) (win_start w) (win_end w)"
    by (auto simp: active_iff windows_overlap_def split: option.splits)
qed

text \<open>Consecutive windows: an end that is the next start leaves no gap and no common instant.\<close>

lemma handover:
  assumes "ok v" "ok w" "win_end v = Some (win_start w)" "canonical_instant s"
  shows "\<not> (active v s \<and> active w s)"
    and "active v s \<or> active w s \<longleftrightarrow>
      win_start v \<le> ms_of s \<and> (\<forall>e. win_end w = Some e \<longrightarrow> ms_of s < e)"
  using assms nonempty [OF assms(1,3)] nonempty [OF assms(2)]
  by (auto simp: active_iff)

lemma disjoint_at_most_one:
  assumes "\<And>v. v \<in> set ws \<Longrightarrow> ok v" and "canonical_instant s"
    and "sorted_wrt (\<lambda>v w. \<not> windows_overlap (win_start v) (win_end v) (win_start w) (win_end w)) ws"
  shows "length (filter (\<lambda>w. active w s) ws) \<le> 1"
  using assms
proof (induction ws)
  case (Cons w ws)
  show ?case
  proof (cases "active w s")
    case True
    have "\<not> active v s" if "v \<in> set ws" for v
      using Cons.prems that True overlap_iff_common [of w v] by auto
    then have "filter (\<lambda>w. active w s) ws = []" by (simp add: filter_empty_conv)
    with True show ?thesis by simp
  next
    case False
    with Cons show ?thesis by auto
  qed
qed simp

end

end
