(* ===== verification/EffectivePeriod.thy ===== *)
theory EffectivePeriod
  imports Window "HOL-Library.Char_ord" "HOL-Library.List_Lexorder"
begin

text \<open>
  Effective periods: \<open>packages/bop/effective-period/src/contracts/effective-period.ts\<close> and
  \<open>src/domain/resolve-effective-version.ts\<close>, with \<open>parseCanonicalInstant\<close> of
  \<open>packages/bop/tenant/src/domain/brand-store.ts\<close>. A period has a time zone and zoned boundaries;
  a family of configuration versions is resolved to the one in force at an instant.

  \<open>Intl.DateTimeFormat\<close> (the time-zone database of the runtime) is the parameter \<open>zr\<close>:
  \<open>zr zone t\<close> is the local date and time that the formatter renders for the time value \<open>t\<close>, or
  \<open>None\<close> when the constructor rejects the zone.
\<close>

type_synonym zone_render = "string \<Rightarrow> int \<Rightarrow> string option"

section \<open>Instants\<close>

definition parseCanonicalInstant :: "js \<Rightarrow> string res" where
  "parseCanonicalInstant v =
     bnd (or_throw (str_if instant_format v) (OrganizationContractError ORGANIZATION_INPUT_INVALID)) (\<lambda>s.
     bnd (throw_if (date_parse s = None \<or> \<not> canonical_instant s)
            (OrganizationContractError ORGANIZATION_INPUT_INVALID)) (\<lambda>_.
     Inr s))"

lemma parseCanonicalInstant_Inr [res_simps]:
  "parseCanonicalInstant v = Inr s \<longleftrightarrow> v = JStr s \<and> canonical_instant s"
  by (auto simp: parseCanonicalInstant_def res_simps canonical_instant_format date_parse_canonical)

section \<open>Resolution over plain period values\<close>

record effective_period_value =
  pv_effectiveFrom :: string
  pv_effectiveUntil :: "string option"

record effective_candidate_value =
  cv_timingVersionReference :: string
  cv_period :: effective_period_value

datatype effective_status = Scheduled | Effective | Expired

datatype effective_resolution =
    Unavailable
  | Selected string
  | Conflict "string list"

text \<open>A missing end is positive infinity: every number is below it, \<open>NaN\<close> is not.\<close>

definition before_until :: "int option \<Rightarrow> string option \<Rightarrow> bool" where
  "before_until t until = (case until of None \<Rightarrow> t \<noteq> None | Some u \<Rightarrow> ms_less t (date_parse u))"

definition periodsOverlap :: "effective_period_value \<Rightarrow> effective_period_value \<Rightarrow> bool" where
  "periodsOverlap left right \<longleftrightarrow>
     before_until (date_parse (pv_effectiveFrom left)) (pv_effectiveUntil right) \<and>
     before_until (date_parse (pv_effectiveFrom right)) (pv_effectiveUntil left)"

definition deriveEffectiveStatus :: "effective_period_value \<Rightarrow> string \<Rightarrow> effective_status" where
  "deriveEffectiveStatus period evaluationInstant =
     (let at = date_parse evaluationInstant
      in if ms_less at (date_parse (pv_effectiveFrom period)) then Scheduled
         else if (case pv_effectiveUntil period of None \<Rightarrow> False | Some u \<Rightarrow> ms_le (date_parse u) at)
         then Expired else Effective)"

text \<open>\<open>.sort()\<close> on strings orders them by code unit, as the order of \<open>Char_ord\<close> on lists does.\<close>

definition resolveEffectiveVersion ::
  "effective_candidate_value list \<Rightarrow> string \<Rightarrow> effective_resolution" where
  "resolveEffectiveVersion candidates evaluationInstant =
     (let found = sort (map cv_timingVersionReference
        (filter (\<lambda>c. deriveEffectiveStatus (cv_period c) evaluationInstant = Effective) candidates))
      in case found of [] \<Rightarrow> Unavailable | [r] \<Rightarrow> Selected r | _ \<Rightarrow> Conflict found)"

section \<open>Validators\<close>

datatype scope_kind = BrandScope | StoreScope

definition scope_kinds :: "(string \<times> scope_kind) list" where
  "scope_kinds = [(''Brand'', BrandScope), (''Store'', StoreScope)]"

record effective_scope =
  es_kind :: scope_kind
  es_brandReference :: string
  es_storeReference :: "string option"

record zoned_boundary =
  zb_instant :: string
  zb_localDateTime :: string
  zb_utcOffsetMinutes :: int

record effective_period =
  ep_timeZone :: string
  ep_effectiveFrom :: zoned_boundary
  ep_effectiveUntil :: "zoned_boundary option"

record effective_configuration_version =
  cv_timingVersion :: string
  cv_familyReference :: string
  cv_configurationReference :: string
  cv_releaseReference :: string
  cv_snapshotReference :: string
  cv_snapshotDigest :: string
  cv_configurationType :: string
  cv_purposeCode :: string
  cv_scope :: effective_scope
  cv_version :: int
  cv_effectivePeriod :: effective_period
  cv_periodDigest :: string
  cv_approvalEvidenceReference :: string
  cv_createdAt :: string

record effective_period_approval_evidence =
  ae_evidenceReference :: string
  ae_familyReference :: string
  ae_timingVersionReference :: string
  ae_version :: int
  ae_scope :: effective_scope
  ae_periodDigest :: string
  ae_approvedActorReference :: string
  ae_approvedAt :: string
  ae_validUntil :: string

datatype intent_kind = Activation | Expiry

definition intent_kinds :: "(string \<times> intent_kind) list" where
  "intent_kinds = [(''Activation'', Activation), (''Expiry'', Expiry)]"

record effective_period_intent =
  in_intentReference :: string
  in_timingVersionReference :: string
  in_kind :: intent_kind
  in_dueAt :: string
  in_createdAt :: string

datatype resolution_reason = NO_EFFECTIVE_VERSION | MULTIPLE_EFFECTIVE_VERSIONS

record effective_resolution_record =
  rr_familyReference :: string
  rr_scope :: effective_scope
  rr_evaluationInstant :: string
  rr_candidateSetDigest :: string
  rr_outcome :: string
  rr_selectedTimingVersionReference :: "string option"
  rr_reason :: "resolution_reason option"
  rr_conflictingTimingVersionReferences :: "string list"

text \<open>
  \<open>exact\<close> of this module reads the prototype without a guard, so \<open>null\<close> and \<open>undefined\<close> raise a
  \<open>TypeError\<close>; every other value that is not the closed object raises the given code.
\<close>

definition ep_exact :: "js \<Rightarrow> string list \<Rightarrow> effective_period_code \<Rightarrow> unit res" where
  "ep_exact value fs error =
     (if value = JNull \<or> value = JUndefined then Inl TypeError
      else throw_if (\<not> has_shape value fs) (EffectivePeriodContractError error))"

definition ep_canonical :: "js \<Rightarrow> effective_period_code \<Rightarrow> string res" where
  "ep_canonical value error =
     catching (parseCanonicalInstant value) (\<lambda>_. Inl (EffectivePeriodContractError error))"

definition parseEffectivePeriodReference :: "js \<Rightarrow> string res" where
  "parseEffectivePeriodReference v =
     or_throw (str_if uuid_v7 v) (EffectivePeriodContractError EFFECTIVE_PERIOD_INPUT_INVALID)"

definition parseEffectivePeriodDigest :: "js \<Rightarrow> string res" where
  "parseEffectivePeriodDigest v =
     or_throw (str_if sha256_digest v) (EffectivePeriodContractError EFFECTIVE_PERIOD_INPUT_INVALID)"

definition parseCandidateSetDigest :: "js \<Rightarrow> string res" where
  "parseCandidateSetDigest v = parseEffectivePeriodDigest v"

text \<open>\<open>/^[A-Z][A-Z0-9_]{2,63}$/u\<close>\<close>

definition parseEffectivePeriodCode :: "js \<Rightarrow> string res" where
  "parseEffectivePeriodCode v =
     or_throw (str_if (\<lambda>s. code_format ''_'' s \<and> 3 \<le> length s) v)
       (EffectivePeriodContractError EFFECTIVE_PERIOD_INPUT_INVALID)"

definition parseEffectivePeriodVersion :: "js \<Rightarrow> int res" where
  "parseEffectivePeriodVersion v =
     or_throw (safe_int_in 1 max_safe v) (EffectivePeriodContractError EFFECTIVE_PERIOD_INPUT_INVALID)"

definition parseEffectivePeriodInstant :: "js \<Rightarrow> string res" where
  "parseEffectivePeriodInstant v = ep_canonical v EFFECTIVE_PERIOD_TIME_INVALID"

definition createEffectiveScope :: "js \<Rightarrow> effective_scope res" where
  "createEffectiveScope input =
     bnd (ep_exact input [''kind'', ''brandReference'', ''storeReference'']
            EFFECTIVE_PERIOD_SCOPE_INVALID) (\<lambda>_.
     bnd (parseEffectivePeriodReference (fld input ''brandReference'')) (\<lambda>brand.
     bnd (nullable parseEffectivePeriodReference (fld input ''storeReference'')) (\<lambda>store.
     bnd (or_throw (enum_of scope_kinds (fld input ''kind''))
            (EffectivePeriodContractError EFFECTIVE_PERIOD_SCOPE_INVALID)) (\<lambda>kind.
     bnd (throw_if (kind = BrandScope \<and> store \<noteq> None \<or> kind = StoreScope \<and> store = None)
            (EffectivePeriodContractError EFFECTIVE_PERIOD_SCOPE_INVALID)) (\<lambda>_.
     Inr \<lparr>es_kind = kind, es_brandReference = brand, es_storeReference = store\<rparr>)))))"

definition sameEffectiveScope :: "effective_scope \<Rightarrow> effective_scope \<Rightarrow> bool" where
  "sameEffectiveScope left right \<longleftrightarrow>
     es_kind left = es_kind right \<and> es_brandReference left = es_brandReference right \<and>
     es_storeReference left = es_storeReference right"

text \<open>\<open>/^(\d{4})-(\d{2})-(\d{2})T(\d{2}):(\d{2}):(\d{2})\.(\d{3})$/u\<close>: an instant without its \<open>Z\<close>.\<close>

definition local_format :: "string \<Rightarrow> bool" where
  "local_format s \<longleftrightarrow> instant_format (s @ ''Z'')"

text \<open>
  \<open>Date.UTC\<close> with a zero-based month: years 0 to 99 mean 1900 to 1999, and months outside 0 to 11
  carry into the year.
\<close>

definition date_utc :: "int \<times> int \<times> int \<times> int \<times> int \<times> int \<times> int \<Rightarrow> int" where
  "date_utc p = (case p of (y, mo, d, h, mi, se, ms) \<Rightarrow>
     let full = (if 0 \<le> y \<and> y \<le> 99 then 1900 + y else y); ym = full + mo div 12
     in make_day ym (mo mod 12 + 1) d * ms_per_day + make_time h mi se ms)"

definition local_as_utc :: "string \<Rightarrow> int" where
  "local_as_utc s = (case instant_parts s of (y, m, d, h, mi, se, ms) \<Rightarrow>
     date_utc (y, m - 1, d, h, mi, se, ms))"

definition createBoundary :: "zone_render \<Rightarrow> js \<Rightarrow> string \<Rightarrow> zoned_boundary res" where
  "createBoundary zr input timeZone =
     bnd (ep_exact input [''instant'', ''localDateTime'', ''utcOffsetMinutes'']
            EFFECTIVE_PERIOD_TIME_INVALID) (\<lambda>_.
     bnd (ep_canonical (fld input ''instant'') EFFECTIVE_PERIOD_TIME_INVALID) (\<lambda>inst.
     bnd (or_throw (str_if local_format (fld input ''localDateTime''))
            (EffectivePeriodContractError EFFECTIVE_PERIOD_TIME_INVALID)) (\<lambda>loc.
     bnd (or_throw (safe_int_in (- 840) 840 (fld input ''utcOffsetMinutes''))
            (EffectivePeriodContractError EFFECTIVE_PERIOD_TIME_INVALID)) (\<lambda>off.
     bnd (or_throw (zr timeZone (ms_of inst))
            (EffectivePeriodContractError EFFECTIVE_PERIOD_TIME_INVALID)) (\<lambda>rendered.
     bnd (throw_if (rendered \<noteq> loc \<or> local_as_utc loc - ms_of inst \<noteq> off * 60000 \<or>
                    butlast (to_iso (local_as_utc loc)) \<noteq> loc)
            (EffectivePeriodContractError EFFECTIVE_PERIOD_TIME_INVALID)) (\<lambda>_.
     Inr \<lparr>zb_instant = inst, zb_localDateTime = loc, zb_utcOffsetMinutes = off\<rparr>))))))"

definition createEffectivePeriod :: "zone_render \<Rightarrow> js \<Rightarrow> effective_period res" where
  "createEffectivePeriod zr input =
     bnd (ep_exact input [''timeZone'', ''effectiveFrom'', ''effectiveUntil'']
            EFFECTIVE_PERIOD_TIME_INVALID) (\<lambda>_.
     bnd (or_throw (str_if (\<lambda>s. s \<noteq> []) (fld input ''timeZone''))
            (EffectivePeriodContractError EFFECTIVE_PERIOD_TIME_INVALID)) (\<lambda>zone.
     bnd (createBoundary zr (fld input ''effectiveFrom'') zone) (\<lambda>fr.
     bnd (nullable (\<lambda>v. createBoundary zr v zone) (fld input ''effectiveUntil'')) (\<lambda>un.
     bnd (throw_if (case un of None \<Rightarrow> False
                    | Some u \<Rightarrow> ms_le (date_parse (zb_instant u)) (date_parse (zb_instant fr)))
            (EffectivePeriodContractError EFFECTIVE_PERIOD_TIME_INVALID)) (\<lambda>_.
     Inr \<lparr>ep_timeZone = zone, ep_effectiveFrom = fr, ep_effectiveUntil = un\<rparr>)))))"

definition createEffectiveConfigurationVersion ::
  "zone_render \<Rightarrow> js \<Rightarrow> effective_configuration_version res" where
  "createEffectiveConfigurationVersion zr input =
     bnd (ep_exact input [''timingVersionReference'', ''familyReference'', ''configurationReference'',
            ''releaseReference'', ''snapshotReference'', ''snapshotDigest'', ''configurationType'',
            ''purposeCode'', ''scope'', ''version'', ''period'', ''periodDigest'',
            ''approvalEvidenceReference'', ''createdAt''] EFFECTIVE_PERIOD_INPUT_INVALID) (\<lambda>_.
     bnd (parseEffectivePeriodReference (fld input ''timingVersionReference'')) (\<lambda>tv.
     bnd (parseEffectivePeriodReference (fld input ''familyReference'')) (\<lambda>fam.
     bnd (parseEffectivePeriodReference (fld input ''configurationReference'')) (\<lambda>conf.
     bnd (parseEffectivePeriodReference (fld input ''releaseReference'')) (\<lambda>rel.
     bnd (parseEffectivePeriodReference (fld input ''snapshotReference'')) (\<lambda>snap.
     bnd (parseEffectivePeriodDigest (fld input ''snapshotDigest'')) (\<lambda>dig.
     bnd (parseEffectivePeriodCode (fld input ''configurationType'')) (\<lambda>ty.
     bnd (parseEffectivePeriodCode (fld input ''purposeCode'')) (\<lambda>pc.
     bnd (createEffectiveScope (fld input ''scope'')) (\<lambda>sc.
     bnd (parseEffectivePeriodVersion (fld input ''version'')) (\<lambda>ver.
     bnd (createEffectivePeriod zr (fld input ''period'')) (\<lambda>per.
     bnd (parseEffectivePeriodDigest (fld input ''periodDigest'')) (\<lambda>pd.
     bnd (parseEffectivePeriodReference (fld input ''approvalEvidenceReference'')) (\<lambda>ap.
     bnd (ep_canonical (fld input ''createdAt'') EFFECTIVE_PERIOD_INPUT_INVALID) (\<lambda>cr.
     Inr \<lparr>cv_timingVersion = tv, cv_familyReference = fam, cv_configurationReference = conf,
          cv_releaseReference = rel, cv_snapshotReference = snap, cv_snapshotDigest = dig,
          cv_configurationType = ty, cv_purposeCode = pc, cv_scope = sc, cv_version = ver,
          cv_effectivePeriod = per, cv_periodDigest = pd, cv_approvalEvidenceReference = ap,
          cv_createdAt = cr\<rparr>)))))))))))))))"

definition createEffectivePeriodApprovalEvidence ::
  "js \<Rightarrow> effective_period_approval_evidence res" where
  "createEffectivePeriodApprovalEvidence input =
     bnd (ep_exact input [''evidenceReference'', ''familyReference'', ''timingVersionReference'',
            ''version'', ''scope'', ''periodDigest'', ''decision'', ''approvedActorReference'',
            ''approvedAt'', ''validUntil''] EFFECTIVE_PERIOD_INPUT_INVALID) (\<lambda>_.
     bnd (ep_canonical (fld input ''approvedAt'') EFFECTIVE_PERIOD_INPUT_INVALID) (\<lambda>approvedAt.
     bnd (ep_canonical (fld input ''validUntil'') EFFECTIVE_PERIOD_INPUT_INVALID) (\<lambda>validUntil.
     bnd (throw_if (fld input ''decision'' \<noteq> JStr ''Accepted'' \<or>
                    ms_le (date_parse validUntil) (date_parse approvedAt))
            (EffectivePeriodContractError EFFECTIVE_PERIOD_INPUT_INVALID)) (\<lambda>_.
     bnd (parseEffectivePeriodReference (fld input ''evidenceReference'')) (\<lambda>ev.
     bnd (parseEffectivePeriodReference (fld input ''familyReference'')) (\<lambda>fam.
     bnd (parseEffectivePeriodReference (fld input ''timingVersionReference'')) (\<lambda>tv.
     bnd (parseEffectivePeriodVersion (fld input ''version'')) (\<lambda>ver.
     bnd (createEffectiveScope (fld input ''scope'')) (\<lambda>sc.
     bnd (parseEffectivePeriodDigest (fld input ''periodDigest'')) (\<lambda>pd.
     bnd (parseEffectivePeriodReference (fld input ''approvedActorReference'')) (\<lambda>actor.
     Inr \<lparr>ae_evidenceReference = ev, ae_familyReference = fam, ae_timingVersionReference = tv,
          ae_version = ver, ae_scope = sc, ae_periodDigest = pd, ae_approvedActorReference = actor,
          ae_approvedAt = approvedAt, ae_validUntil = validUntil\<rparr>)))))))))))"

definition createEffectivePeriodIntent :: "js \<Rightarrow> effective_period_intent res" where
  "createEffectivePeriodIntent input =
     bnd (ep_exact input [''intentReference'', ''timingVersionReference'', ''kind'', ''dueAt'',
            ''createdAt''] EFFECTIVE_PERIOD_INPUT_INVALID) (\<lambda>_.
     bnd (or_throw (enum_of intent_kinds (fld input ''kind''))
            (EffectivePeriodContractError EFFECTIVE_PERIOD_INPUT_INVALID)) (\<lambda>kind.
     bnd (parseEffectivePeriodReference (fld input ''intentReference'')) (\<lambda>ref.
     bnd (parseEffectivePeriodReference (fld input ''timingVersionReference'')) (\<lambda>tv.
     bnd (ep_canonical (fld input ''dueAt'') EFFECTIVE_PERIOD_INPUT_INVALID) (\<lambda>due.
     bnd (ep_canonical (fld input ''createdAt'') EFFECTIVE_PERIOD_INPUT_INVALID) (\<lambda>cr.
     Inr \<lparr>in_intentReference = ref, in_timingVersionReference = tv, in_kind = kind,
          in_dueAt = due, in_createdAt = cr\<rparr>))))))"

definition periodValue :: "effective_period \<Rightarrow> effective_period_value" where
  "periodValue p = \<lparr>pv_effectiveFrom = zb_instant (ep_effectiveFrom p),
     pv_effectiveUntil = map_option zb_instant (ep_effectiveUntil p)\<rparr>"

definition deriveConfigurationStatus ::
  "effective_configuration_version \<Rightarrow> js \<Rightarrow> effective_status res" where
  "deriveConfigurationStatus candidate evaluationInstant =
     bnd (ep_canonical evaluationInstant EFFECTIVE_PERIOD_TIME_INVALID) (\<lambda>at.
     Inr (deriveEffectiveStatus (periodValue (cv_effectivePeriod candidate)) at))"

text \<open>Do two configuration versions of the same family and scope overlap?\<close>

definition overlapping_versions ::
  "effective_configuration_version \<Rightarrow> effective_configuration_version \<Rightarrow> bool" where
  "overlapping_versions v c \<longleftrightarrow>
     cv_familyReference v = cv_familyReference c \<and> sameEffectiveScope (cv_scope v) (cv_scope c) \<and>
     periodsOverlap (periodValue (cv_effectivePeriod v)) (periodValue (cv_effectivePeriod c))"

fun validateNoEffectiveOverlap ::
  "effective_configuration_version \<Rightarrow> effective_configuration_version list \<Rightarrow> unit res" where
  "validateNoEffectiveOverlap candidate [] = Inr ()"
| "validateNoEffectiveOverlap candidate (v # vs) =
     (if overlapping_versions v candidate
      then Inl (EffectivePeriodContractError EFFECTIVE_PERIOD_OVERLAP)
      else validateNoEffectiveOverlap candidate vs)"

fun outcome_of :: "effective_resolution \<Rightarrow> string" where
  "outcome_of Unavailable = ''Unavailable''"
| "outcome_of (Selected _) = ''Selected''"
| "outcome_of (Conflict _) = ''Conflict''"

fun reason_of :: "effective_resolution \<Rightarrow> resolution_reason option" where
  "reason_of Unavailable = Some NO_EFFECTIVE_VERSION"
| "reason_of (Selected _) = None"
| "reason_of (Conflict _) = Some MULTIPLE_EFFECTIVE_VERSIONS"

definition resolution_candidate :: "effective_configuration_version \<Rightarrow> effective_candidate_value" where
  "resolution_candidate c = \<lparr>cv_timingVersionReference = cv_timingVersion c,
     cv_period = periodValue (cv_effectivePeriod c)\<rparr>"

text \<open>\<open>input.candidates.map\<close> raises a \<open>TypeError\<close> when the candidates are not an array.\<close>

definition createEffectiveResolutionRecord :: "zone_render \<Rightarrow> js \<Rightarrow> effective_resolution_record res" where
  "createEffectiveResolutionRecord zr input =
     bnd (ep_exact input [''familyReference'', ''scope'', ''evaluationInstant'',
            ''candidateSetDigest'', ''candidates''] EFFECTIVE_PERIOD_CANDIDATES_INVALID) (\<lambda>_.
     bnd (parseEffectivePeriodReference (fld input ''familyReference'')) (\<lambda>fam.
     bnd (createEffectiveScope (fld input ''scope'')) (\<lambda>sc.
     bnd (ep_canonical (fld input ''evaluationInstant'') EFFECTIVE_PERIOD_TIME_INVALID) (\<lambda>at.
     bnd (parseCandidateSetDigest (fld input ''candidateSetDigest'')) (\<lambda>dig.
     bnd (throw_if (\<not> is_array (fld input ''candidates'')) TypeError) (\<lambda>_.
     bnd (map_res (createEffectiveConfigurationVersion zr) (elements (fld input ''candidates''))) (\<lambda>cs.
     bnd (throw_if (list_ex (\<lambda>c. cv_familyReference c \<noteq> fam \<or> \<not> sameEffectiveScope (cv_scope c) sc) cs)
            (EffectivePeriodContractError EFFECTIVE_PERIOD_CANDIDATES_INVALID)) (\<lambda>_.
     let result = resolveEffectiveVersion (map resolution_candidate cs) at in
     bnd (case result of Selected r \<Rightarrow> bnd (parseEffectivePeriodReference (JStr r)) (\<lambda>x. Inr (Some x))
          | _ \<Rightarrow> Inr None) (\<lambda>selected.
     bnd (case result of Conflict rs \<Rightarrow> map_res (\<lambda>r. parseEffectivePeriodReference (JStr r)) rs
          | _ \<Rightarrow> Inr []) (\<lambda>conflicting.
     Inr \<lparr>rr_familyReference = fam, rr_scope = sc, rr_evaluationInstant = at,
          rr_candidateSetDigest = dig, rr_outcome = outcome_of result,
          rr_selectedTimingVersionReference = selected, rr_reason = reason_of result,
          rr_conflictingTimingVersionReferences = conflicting\<rparr>))))))))))"

section \<open>Properties\<close>

text \<open>What \<open>createEffectivePeriod\<close> guarantees of the two instants of a period.\<close>

definition wf_period :: "effective_period_value \<Rightarrow> bool" where
  "wf_period p \<longleftrightarrow> canonical_instant (pv_effectiveFrom p) \<and>
     (case pv_effectiveUntil p of None \<Rightarrow> True
      | Some u \<Rightarrow> canonical_instant u \<and> ms_of (pv_effectiveFrom p) < ms_of u)"

definition period_start :: "effective_period_value \<Rightarrow> int" where
  "period_start p = ms_of (pv_effectiveFrom p)"

definition period_end :: "effective_period_value \<Rightarrow> int option" where
  "period_end p = map_option ms_of (pv_effectiveUntil p)"

definition effective_at :: "effective_period_value \<Rightarrow> string \<Rightarrow> bool" where
  "effective_at p s \<longleftrightarrow> deriveEffectiveStatus p s = Effective"

interpretation period: half_open_window wf_period period_start period_end effective_at
proof
  fix w e
  assume "wf_period w" "period_end w = Some e"
  then show "period_start w < e"
    by (auto simp: wf_period_def period_start_def period_end_def)
next
  fix w
  assume "wf_period w"
  then show "iso_time (period_start w)"
    by (simp add: wf_period_def period_start_def iso_time_ms_of)
next
  fix w s
  assume w: "wf_period w" and s: "canonical_instant s"
  show "effective_at w s \<longleftrightarrow> period_start w \<le> ms_of s \<and> (\<forall>e. period_end w = Some e \<longrightarrow> ms_of s < e)"
    using w s date_parse_canonical [OF s]
    by (auto simp: effective_at_def deriveEffectiveStatus_def wf_period_def period_start_def
        period_end_def date_parse_canonical Let_def split: option.splits)
qed

lemma periodsOverlap_windows:
  "wf_period l \<Longrightarrow> wf_period r \<Longrightarrow>
    periodsOverlap l r \<longleftrightarrow> windows_overlap (period_start l) (period_end l) (period_start r) (period_end r)"
  by (auto simp: periodsOverlap_def before_until_def windows_overlap_def wf_period_def period_start_def
      period_end_def date_parse_canonical split: option.splits)

text \<open>
  C5. \<open>periodsOverlap\<close> is exactly "some instant lies in both periods", for periods whose instants are
  canonical and whose end, if any, is after the start; in particular it does not depend on the order
  of its arguments, and two periods that share only a boundary do not overlap.
\<close>

theorem periodsOverlap_iff_common_instant:
  assumes "wf_period l" and "wf_period r"
  shows "periodsOverlap l r \<longleftrightarrow>
    (\<exists>s. canonical_instant s \<and> deriveEffectiveStatus l s = Effective \<and> deriveEffectiveStatus r s = Effective)"
  using period.overlap_iff_common [OF assms] periodsOverlap_windows [OF assms]
  by (simp add: effective_at_def)

definition example_period_1 :: effective_period_value where
  "example_period_1 = \<lparr>pv_effectiveFrom = ''2026-01-01T00:00:00.000Z'',
     pv_effectiveUntil = Some ''2026-03-01T00:00:00.000Z''\<rparr>"

definition example_period_2 :: effective_period_value where
  "example_period_2 = \<lparr>pv_effectiveFrom = ''2026-03-01T00:00:00.000Z'', pv_effectiveUntil = None\<rparr>"

lemma example_periods: "wf_period example_period_1" "wf_period example_period_2"
  "\<not> periodsOverlap example_period_1 example_period_2"
  by code_simp+

theorem periodsOverlap_iff_common_instant_witness:
  "\<not> (\<exists>s. canonical_instant s \<and> deriveEffectiveStatus example_period_1 s = Effective \<and>
        deriveEffectiveStatus example_period_2 s = Effective)"
  using periodsOverlap_iff_common_instant [OF example_periods(1,2)] example_periods(3) by blast

subsection \<open>Boundaries\<close>

lemma ep_exact_Inr [res_simps]: "ep_exact v fs e = Inr u \<longleftrightarrow> has_shape v fs"
  by (auto simp: ep_exact_def res_simps dest: has_shape_cases)

lemma ep_canonical_Inr [res_simps]: "ep_canonical v e = Inr s \<longleftrightarrow> v = JStr s \<and> canonical_instant s"
  by (simp add: ep_canonical_def res_simps)

lemma ep_parse_Inr [res_simps]:
  "parseEffectivePeriodReference v = Inr s \<longleftrightarrow> v = JStr s \<and> uuid_v7 s"
  "parseEffectivePeriodDigest v = Inr s \<longleftrightarrow> v = JStr s \<and> sha256_digest s"
  "parseEffectivePeriodCode v = Inr s \<longleftrightarrow> v = JStr s \<and> code_format ''_'' s \<and> 3 \<le> length s"
  "parseEffectivePeriodVersion v = Inr n \<longleftrightarrow> v = JNum n \<and> 1 \<le> n \<and> n \<le> max_safe"
  by (auto simp: parseEffectivePeriodReference_def parseEffectivePeriodDigest_def
      parseEffectivePeriodCode_def parseEffectivePeriodVersion_def res_simps max_safe_def)

text \<open>The three readings of a boundary: the instant, the local time and the offset between them.\<close>

definition wf_boundary :: "zone_render \<Rightarrow> string \<Rightarrow> zoned_boundary \<Rightarrow> bool" where
  "wf_boundary zr zone b \<longleftrightarrow>
     canonical_instant (zb_instant b) \<and> canonical_instant (zb_localDateTime b @ ''Z'') \<and>
     zr zone (ms_of (zb_instant b)) = Some (zb_localDateTime b) \<and>
     ms_of (zb_localDateTime b @ ''Z'') = ms_of (zb_instant b) + zb_utcOffsetMinutes b * 60000 \<and>
     - 840 \<le> zb_utcOffsetMinutes b \<and> zb_utcOffsetMinutes b \<le> 840"

lemma last_to_iso: "\<exists>u. to_iso t = u @ ''Z''"
  by (auto simp: to_iso_def Let_def split: prod.splits)

lemma local_written_back:
  assumes "local_format s" and "butlast (to_iso t) = s"
  shows "canonical_instant (s @ ''Z'') \<and> ms_of (s @ ''Z'') = t"
proof -
  obtain u where "to_iso t = u @ ''Z''" using last_to_iso by blast
  with assms(2) have s: "s @ ''Z'' = to_iso t" by simp
  have "length (s @ ''Z'') = 24"
    using assms(1) unfolding local_format_def instant_format_chunks by blast
  then have "iso_time t" using length_to_iso_wide s by metis
  with s show ?thesis by (simp add: canonical_to_iso)
qed

lemma createBoundary_wf: "createBoundary zr v zone = Inr b \<Longrightarrow> wf_boundary zr zone b"
  by (auto simp: createBoundary_def res_simps wf_boundary_def dest: local_written_back)

lemma createEffectivePeriod_wf:
  assumes "createEffectivePeriod zr v = Inr p"
  shows "wf_period (periodValue p) \<and> wf_boundary zr (ep_timeZone p) (ep_effectiveFrom p) \<and>
    (\<forall>u. ep_effectiveUntil p = Some u \<longrightarrow> wf_boundary zr (ep_timeZone p) u)"
proof -
  from assms have b: "wf_boundary zr (ep_timeZone p) (ep_effectiveFrom p)"
    and u: "\<forall>u. ep_effectiveUntil p = Some u \<longrightarrow> wf_boundary zr (ep_timeZone p) u \<and>
      \<not> ms_le (date_parse (zb_instant u)) (date_parse (zb_instant (ep_effectiveFrom p)))"
    by (auto simp: createEffectivePeriod_def res_simps dest: createBoundary_wf)
  then show ?thesis
    by (auto simp: wf_period_def periodValue_def wf_boundary_def date_parse_canonical split: option.splits)
qed

text \<open>
  Every period that \<open>createEffectivePeriod\<close> accepts is well formed: both boundaries are real
  calendar instants whose local time is what the time zone renders for them and whose offset is the
  exact difference of the two readings, and the end, if any, is after the start.
\<close>

theorem createEffectivePeriod_sound:
  assumes "createEffectivePeriod zr v = Inr p"
  shows "wf_period (periodValue p) \<and> wf_boundary zr (ep_timeZone p) (ep_effectiveFrom p) \<and>
    (\<forall>u. ep_effectiveUntil p = Some u \<longrightarrow> wf_boundary zr (ep_timeZone p) u)"
  using assms by (rule createEffectivePeriod_wf)

definition example_zone :: zone_render where
  "example_zone zone t =
     (if zone = ''America/Toronto'' then Some (butlast (to_iso (t - 18000000))) else None)"

definition example_period_js :: js where
  "example_period_js = JObj
     [(''timeZone'', JStr ''America/Toronto''),
      (''effectiveFrom'', JObj [(''instant'', JStr ''2026-01-01T05:00:00.000Z''),
         (''localDateTime'', JStr ''2026-01-01T00:00:00.000''), (''utcOffsetMinutes'', JNum (- 300))]),
      (''effectiveUntil'', JNull)]"

definition example_period :: effective_period where
  "example_period = \<lparr>ep_timeZone = ''America/Toronto'',
     ep_effectiveFrom = \<lparr>zb_instant = ''2026-01-01T05:00:00.000Z'',
       zb_localDateTime = ''2026-01-01T00:00:00.000'', zb_utcOffsetMinutes = - 300\<rparr>,
     ep_effectiveUntil = None\<rparr>"

lemma example_period_created: "createEffectivePeriod example_zone example_period_js = Inr example_period"
  by code_simp

theorem createEffectivePeriod_sound_witness:
  "createEffectivePeriod example_zone example_period_js = Inr example_period \<and>
   wf_period (periodValue example_period)"
  using createEffectivePeriod_sound [OF example_period_created] example_period_created by blast

subsection \<open>Resolution\<close>

lemma validateNoEffectiveOverlap_Inr:
  "validateNoEffectiveOverlap c vs = Inr u \<longleftrightarrow> (\<forall>v \<in> set vs. \<not> overlapping_versions v c)"
  by (induction c vs rule: validateNoEffectiveOverlap.induct) auto

lemma resolveEffectiveVersion_single:
  assumes "length (filter (\<lambda>c. effective_at (cv_period c) at) cs) \<le> 1"
  shows "resolveEffectiveVersion cs at =
    (case filter (\<lambda>c. effective_at (cv_period c) at) cs of
       [] \<Rightarrow> Unavailable | c # _ \<Rightarrow> Selected (cv_timingVersionReference c))"
  using assms
  by (cases "filter (\<lambda>c. effective_at (cv_period c) at) cs")
    (auto simp: resolveEffectiveVersion_def Let_def effective_at_def)

text \<open>
  C40. Versions of one family and scope that are added one after the other, each after
  \<open>validateNoEffectiveOverlap\<close> against all earlier ones, never resolve to a conflict: at every instant
  the resolution selects the single version in force, or reports that there is none.
\<close>

theorem validated_family_never_conflicts:
  assumes wf: "\<And>v. v \<in> set vs \<Longrightarrow> wf_period (periodValue (cv_effectivePeriod v))"
    and family: "\<And>v w. v \<in> set vs \<Longrightarrow> w \<in> set vs \<Longrightarrow>
      cv_familyReference v = cv_familyReference w \<and> sameEffectiveScope (cv_scope v) (cv_scope w)"
    and added: "\<And>i. i < length vs \<Longrightarrow> validateNoEffectiveOverlap (vs ! i) (take i vs) = Inr ()"
    and at: "canonical_instant at"
  shows "resolveEffectiveVersion (map resolution_candidate vs) at =
    (case filter (\<lambda>v. deriveEffectiveStatus (periodValue (cv_effectivePeriod v)) at = Effective) vs of
       [] \<Rightarrow> Unavailable | v # _ \<Rightarrow> Selected (cv_timingVersion v))"
proof -
  let ?p = "\<lambda>v. periodValue (cv_effectivePeriod v)"
  have "sorted_wrt (\<lambda>v w. \<not> windows_overlap (period_start v) (period_end v) (period_start w) (period_end w))
      (map ?p vs)"
  proof (unfold sorted_wrt_iff_nth_less, intro allI impI)
    fix i j assume ij: "i < j" "j < length (map ?p vs)"
    then have "vs ! i \<in> set (take j vs)" by (auto simp: in_set_conv_nth)
    then have "\<not> overlapping_versions (vs ! i) (vs ! j)"
      using added [of j] ij by (auto simp: validateNoEffectiveOverlap_Inr)
    moreover have "vs ! i \<in> set vs" "vs ! j \<in> set vs" using ij by auto
    ultimately show "\<not> windows_overlap (period_start (map ?p vs ! i)) (period_end (map ?p vs ! i))
        (period_start (map ?p vs ! j)) (period_end (map ?p vs ! j))"
      using family [of "vs ! i" "vs ! j"] wf ij
      by (simp add: overlapping_versions_def periodsOverlap_windows)
  qed
  then have "length (filter (\<lambda>p. effective_at p at) (map ?p vs)) \<le> 1"
    using wf at by (intro period.disjoint_at_most_one) auto
  then have "length (filter (\<lambda>c. effective_at (cv_period c) at) (map resolution_candidate vs)) \<le> 1"
    by (simp add: filter_map comp_def resolution_candidate_def)
  from resolveEffectiveVersion_single [OF this] show ?thesis
    by (simp add: filter_map comp_def resolution_candidate_def effective_at_def split: list.split)
qed

definition example_version :: "string \<Rightarrow> effective_period_value \<Rightarrow> effective_configuration_version" where
  "example_version ref p = \<lparr>cv_timingVersion = ref, cv_familyReference = ''F'',
     cv_configurationReference = ''C'', cv_releaseReference = ''R'', cv_snapshotReference = ''S'',
     cv_snapshotDigest = ''D'', cv_configurationType = ''TYPE'', cv_purposeCode = ''PURPOSE'',
     cv_scope = \<lparr>es_kind = BrandScope, es_brandReference = ''B'', es_storeReference = None\<rparr>,
     cv_version = 1,
     cv_effectivePeriod = \<lparr>ep_timeZone = ''UTC'',
       ep_effectiveFrom = \<lparr>zb_instant = pv_effectiveFrom p, zb_localDateTime = [], zb_utcOffsetMinutes = 0\<rparr>,
       ep_effectiveUntil = map_option (\<lambda>u. \<lparr>zb_instant = u, zb_localDateTime = [], zb_utcOffsetMinutes = 0\<rparr>)
         (pv_effectiveUntil p)\<rparr>,
     cv_periodDigest = ''P'', cv_approvalEvidenceReference = ''A'', cv_createdAt = ''T''\<rparr>"

definition example_versions :: "effective_configuration_version list" where
  "example_versions = [example_version ''V2'' example_period_2, example_version ''V1'' example_period_1]"

theorem validated_family_never_conflicts_witness:
  "resolveEffectiveVersion (map resolution_candidate example_versions) ''2026-03-01T00:00:00.000Z'' = Selected ''V2''"
proof -
  have pv: "periodValue (cv_effectivePeriod (example_version r p)) = p" for r p
    by (simp add: periodValue_def example_version_def option.map_comp comp_def option.map_ident)
  have wf: "wf_period (periodValue (cv_effectivePeriod v))" if "v \<in> set example_versions" for v
    using that example_periods by (auto simp: example_versions_def pv)
  have fam: "cv_familyReference v = cv_familyReference w \<and> sameEffectiveScope (cv_scope v) (cv_scope w)"
    if "v \<in> set example_versions" "w \<in> set example_versions" for v w
    using that by (auto simp: example_versions_def example_version_def sameEffectiveScope_def)
  have ov: "\<not> periodsOverlap example_period_2 example_period_1" by code_simp
  have added: "validateNoEffectiveOverlap (example_versions ! i) (take i example_versions) = Inr ()"
    if "i < length example_versions" for i
  proof -
    from that have "i = 0 \<or> i = 1" by (auto simp: example_versions_def)
    then show ?thesis using ov by (auto simp: example_versions_def overlapping_versions_def pv)
  qed
  have at: "canonical_instant ''2026-03-01T00:00:00.000Z''" by code_simp
  have st: "deriveEffectiveStatus example_period_2 ''2026-03-01T00:00:00.000Z'' = Effective" by code_simp
  show ?thesis
    using validated_family_never_conflicts [OF wf fam added at] st
    by (simp add: example_versions_def pv) (simp add: example_version_def)
qed

end
