(* ===== verification/TaxConfiguration.thy ===== *)
theory TaxConfiguration
  imports MoneyTax EffectivePeriod
begin

text \<open>
  Tax configuration: \<open>packages/rms/pricing/src/domain/tax-configuration.ts\<close>. A snapshot holds the
  tax rules of a store with their evidence; rules are grouped by classification, order type and
  charge type, and a group is resolved to an ordered list of tax components at an instant.
\<close>

section \<open>Data\<close>

datatype tax_lifecycle = TaxDraft | TaxPublished

definition tax_lifecycles :: "(string \<times> tax_lifecycle) list" where
  "tax_lifecycles = [(''Draft'', TaxDraft), (''Published'', TaxPublished)]"

datatype order_type = DineIn | Pickup

definition order_types :: "(string \<times> order_type) list" where
  "order_types = [(''DineIn'', DineIn), (''Pickup'', Pickup)]"

fun order_type_str :: "order_type \<Rightarrow> string" where
  "order_type_str DineIn = ''DineIn''"
| "order_type_str Pickup = ''Pickup''"

datatype charge_type = Sellable | ServiceCharge | DeliveryFee | Tip

definition charge_types :: "(string \<times> charge_type) list" where
  "charge_types = [(''Sellable'', Sellable), (''ServiceCharge'', ServiceCharge),
     (''DeliveryFee'', DeliveryFee), (''Tip'', Tip)]"

fun charge_type_str :: "charge_type \<Rightarrow> string" where
  "charge_type_str Sellable = ''Sellable''"
| "charge_type_str ServiceCharge = ''ServiceCharge''"
| "charge_type_str DeliveryFee = ''DeliveryFee''"
| "charge_type_str Tip = ''Tip''"

record tax_registration_evidence =
  re_applicabilityReference :: string
  re_operatingEntityTaxReference :: string
  re_jurisdictionProfileReference :: string
  re_validUntil :: string

record tax_professional_evidence =
  pe_evidenceReference :: string
  pe_snapshotReference :: string
  pe_snapshotDigest :: string
  pe_professionalReviewReference :: string
  pe_fixtureSuiteReference :: string
  pe_fixtureSuiteDigest :: string
  pe_reviewedAt :: string
  pe_validUntil :: string

record tax_configuration_rule =
  tc_ruleReference :: string
  tc_taxClassificationReference :: string
  tc_orderType :: order_type
  tc_chargeType :: charge_type
  tc_taxComponentCode :: string
  tc_treatment :: tax_treatment
  tc_rate :: string
  tc_priceInclusion :: price_inclusion
  tc_roundingMode :: rounding_mode
  tc_calculationOrder :: int
  tc_compoundOnPriorTax :: bool
  tc_exceptionEvidenceReference :: "string option"
  tc_receiptPresentationCode :: string

record tax_configuration_snapshot =
  ts_configurationReference :: string
  ts_versionReference :: string
  ts_brandReference :: string
  ts_storeReference :: string
  ts_stableCode :: string
  ts_aggregateVersion :: int
  ts_versionNumber :: int
  ts_snapshotDigest :: string
  ts_lifecycle :: tax_lifecycle
  ts_jurisdictionCode :: string
  ts_currencyMetadata :: currency_metadata
  ts_effectivePeriod :: effective_period
  ts_registrationEvidence :: "tax_registration_evidence option"
  ts_professionalEvidence :: "tax_professional_evidence option"
  ts_rules :: "tax_configuration_rule list"
  ts_createdAt :: string

record resolved_tax_rule_component =
  rc_calculationOrder :: int
  rc_compoundOnPriorTax :: bool
  rc_receiptPresentationCode :: string
  rc_resolvedRule :: resolved_tax_rule

record tax_configuration_resolution =
  tx_configurationReference :: string
  tx_versionReference :: string
  tx_snapshotDigest :: string
  tx_effectivePeriod :: effective_period
  tx_rules :: "resolved_tax_rule_component list"

section \<open>Validators\<close>

definition tc_fail :: "tax_configuration_code \<Rightarrow> err" where
  "tc_fail code = TaxConfigurationError code"

definition tc_exact :: "js \<Rightarrow> string list \<Rightarrow> tax_configuration_code \<Rightarrow> unit res" where
  "tc_exact value fs code = throw_if (\<not> has_shape value fs) (tc_fail code)"

text \<open>The instants of this module need only parse; they need not be written canonically.\<close>

definition parseable_instant :: "string \<Rightarrow> bool" where
  "parseable_instant s \<longleftrightarrow> instant_format s \<and> date_parse s \<noteq> None"

definition tc_parseInstant :: "js \<Rightarrow> string res" where
  "tc_parseInstant v = or_throw (str_if parseable_instant v) (tc_fail TAX_CONFIGURATION_INPUT_INVALID)"

definition tc_reference :: "js \<Rightarrow> string res" where
  "tc_reference v = catching (parsePricingReference v) (\<lambda>_. Inl (tc_fail TAX_CONFIGURATION_INPUT_INVALID))"

definition tc_digest :: "js \<Rightarrow> string res" where
  "tc_digest v = catching (parsePricingDigest v) (\<lambda>_. Inl (tc_fail TAX_CONFIGURATION_INPUT_INVALID))"

definition tc_code :: "js \<Rightarrow> string res" where
  "tc_code v = catching (parsePricingCode v) (\<lambda>_. Inl (tc_fail TAX_CONFIGURATION_INPUT_INVALID))"

definition createRegistrationEvidence :: "js \<Rightarrow> tax_registration_evidence res" where
  "createRegistrationEvidence input =
     bnd (tc_exact input [''applicabilityReference'', ''operatingEntityTaxReference'',
            ''jurisdictionProfileReference'', ''status'', ''validUntil'']
            TAX_CONFIGURATION_EVIDENCE_INVALID) (\<lambda>_.
     bnd (throw_if (fld input ''status'' \<noteq> JStr ''Verified'')
            (tc_fail TAX_CONFIGURATION_EVIDENCE_INVALID)) (\<lambda>_.
     bnd (tc_reference (fld input ''applicabilityReference'')) (\<lambda>app.
     bnd (tc_reference (fld input ''operatingEntityTaxReference'')) (\<lambda>op.
     bnd (tc_reference (fld input ''jurisdictionProfileReference'')) (\<lambda>jur.
     bnd (tc_parseInstant (fld input ''validUntil'')) (\<lambda>until.
     Inr \<lparr>re_applicabilityReference = app, re_operatingEntityTaxReference = op,
          re_jurisdictionProfileReference = jur, re_validUntil = until\<rparr>))))))"

definition createProfessionalEvidence :: "js \<Rightarrow> tax_professional_evidence res" where
  "createProfessionalEvidence input =
     bnd (tc_exact input [''evidenceReference'', ''snapshotReference'', ''snapshotDigest'',
            ''professionalReviewReference'', ''fixtureSuiteReference'', ''fixtureSuiteDigest'',
            ''result'', ''reviewedAt'', ''validUntil''] TAX_CONFIGURATION_EVIDENCE_INVALID) (\<lambda>_.
     bnd (tc_parseInstant (fld input ''reviewedAt'')) (\<lambda>reviewedAt.
     bnd (tc_parseInstant (fld input ''validUntil'')) (\<lambda>validUntil.
     bnd (throw_if (fld input ''result'' \<noteq> JStr ''Pass'' \<or>
                    ms_le (date_parse validUntil) (date_parse reviewedAt))
            (tc_fail TAX_CONFIGURATION_EVIDENCE_INVALID)) (\<lambda>_.
     bnd (tc_reference (fld input ''evidenceReference'')) (\<lambda>ev.
     bnd (tc_reference (fld input ''snapshotReference'')) (\<lambda>snap.
     bnd (tc_digest (fld input ''snapshotDigest'')) (\<lambda>sdig.
     bnd (tc_reference (fld input ''professionalReviewReference'')) (\<lambda>rev.
     bnd (tc_reference (fld input ''fixtureSuiteReference'')) (\<lambda>fix'.
     bnd (tc_digest (fld input ''fixtureSuiteDigest'')) (\<lambda>fdig.
     Inr \<lparr>pe_evidenceReference = ev, pe_snapshotReference = snap, pe_snapshotDigest = sdig,
          pe_professionalReviewReference = rev, pe_fixtureSuiteReference = fix',
          pe_fixtureSuiteDigest = fdig, pe_reviewedAt = reviewedAt,
          pe_validUntil = validUntil\<rparr>))))))))))"

fun js_bool :: "js \<Rightarrow> bool option" where
  "js_bool (JBool b) = Some b"
| "js_bool _ = None"

definition tc_createRule :: "js \<Rightarrow> tax_configuration_rule res" where
  "tc_createRule input = (let bad = tc_fail TAX_CONFIGURATION_INPUT_INVALID in
     bnd (tc_exact input [''ruleReference'', ''taxClassificationReference'', ''orderType'',
            ''chargeType'', ''taxComponentCode'', ''treatment'', ''rate'', ''priceInclusion'',
            ''roundingMode'', ''calculationOrder'', ''compoundOnPriorTax'',
            ''exceptionEvidenceReference'', ''receiptPresentationCode'']
            TAX_CONFIGURATION_INPUT_INVALID) (\<lambda>_.
     bnd (catching (parseTaxRate (fld input ''rate'')) (\<lambda>_. Inl bad)) (\<lambda>rate.
     bnd (or_throw (enum_of order_types (fld input ''orderType'')) bad) (\<lambda>ot.
     bnd (or_throw (enum_of charge_types (fld input ''chargeType'')) bad) (\<lambda>ct.
     bnd (or_throw (enum_of tax_treatments (fld input ''treatment'')) bad) (\<lambda>tr.
     bnd (or_throw (enum_of price_inclusions (fld input ''priceInclusion'')) bad) (\<lambda>pi.
     bnd (or_throw (enum_of rounding_modes (fld input ''roundingMode'')) bad) (\<lambda>rm.
     bnd (or_throw (safe_int_in 1 16 (fld input ''calculationOrder'')) bad) (\<lambda>order.
     bnd (or_throw (js_bool (fld input ''compoundOnPriorTax'')) bad) (\<lambda>compound.
     bnd (throw_if (order = 1 \<and> compound \<or>
                    tr = Taxable \<and> fld input ''exceptionEvidenceReference'' \<noteq> JNull \<or>
                    tr \<noteq> Taxable \<and>
                      (rate \<noteq> ''0'' \<or> fld input ''exceptionEvidenceReference'' = JNull)) bad) (\<lambda>_.
     bnd (tc_reference (fld input ''ruleReference'')) (\<lambda>rref.
     bnd (tc_reference (fld input ''taxClassificationReference'')) (\<lambda>cls.
     bnd (tc_code (fld input ''taxComponentCode'')) (\<lambda>comp.
     bnd (nullable tc_reference (fld input ''exceptionEvidenceReference'')) (\<lambda>ex.
     bnd (tc_code (fld input ''receiptPresentationCode'')) (\<lambda>receipt.
     Inr \<lparr>tc_ruleReference = rref, tc_taxClassificationReference = cls, tc_orderType = ot,
          tc_chargeType = ct, tc_taxComponentCode = comp, tc_treatment = tr, tc_rate = rate,
          tc_priceInclusion = pi, tc_roundingMode = rm, tc_calculationOrder = order,
          tc_compoundOnPriorTax = compound, tc_exceptionEvidenceReference = ex,
          tc_receiptPresentationCode = receipt\<rparr>))))))))))))))))"

definition groupKey :: "tax_configuration_rule \<Rightarrow> string" where
  "groupKey rule = tc_taxClassificationReference rule @ ''|'' @
     order_type_str (tc_orderType rule) @ ''|'' @ charge_type_str (tc_chargeType rule)"

text \<open>The map from keys to groups, in insertion order, as the loop over the rules fills it.\<close>

fun add_to_group :: "tax_configuration_rule \<Rightarrow> (string \<times> tax_configuration_rule list) list \<Rightarrow>
    (string \<times> tax_configuration_rule list) list" where
  "add_to_group rule [] = [(groupKey rule, [rule])]"
| "add_to_group rule ((k, g) # gs) =
     (if k = groupKey rule then (k, g @ [rule]) # gs else (k, g) # add_to_group rule gs)"

fun group_rules :: "string list \<Rightarrow> (string \<times> tax_configuration_rule list) list \<Rightarrow>
    tax_configuration_rule list \<Rightarrow> (string \<times> tax_configuration_rule list) list res" where
  "group_rules identities groups [] = Inr groups"
| "group_rules identities groups (rule # rules) =
     (if tc_ruleReference rule \<in> set identities then Inl (tc_fail TAX_CONFIGURATION_RULE_CONFLICT)
      else group_rules (tc_ruleReference rule # identities) (add_to_group rule groups) rules)"

definition group_ok :: "tax_configuration_rule list \<Rightarrow> bool" where
  "group_ok g =
     (let ordered = sort_key tc_calculationOrder g
      in map tc_calculationOrder ordered = map (\<lambda>i. int i + 1) [0..<length ordered] \<and>
         distinct (map tc_taxComponentCode ordered) \<and>
         length (remdups (map tc_priceInclusion ordered)) = 1)"

definition validateRuleGroups :: "tax_configuration_rule list \<Rightarrow> unit res" where
  "validateRuleGroups rules =
     bnd (group_rules [] [] rules) (\<lambda>groups.
     throw_if (list_ex (\<lambda>(k, g). \<not> group_ok g) groups) (tc_fail TAX_CONFIGURATION_RULE_CONFLICT))"

text \<open>What a published snapshot may not lack: rules, registration, and professional evidence for it.\<close>

definition evidence_missing :: "tax_lifecycle \<Rightarrow> tax_configuration_rule list \<Rightarrow>
    tax_registration_evidence option \<Rightarrow> tax_professional_evidence option \<Rightarrow> string \<Rightarrow> string \<Rightarrow> bool" where
  "evidence_missing lifecycle rules reg prof vref dig \<longleftrightarrow>
     lifecycle = TaxPublished \<and>
     (rules = [] \<or> reg = None \<or>
      (case prof of None \<Rightarrow> True
       | Some p \<Rightarrow> pe_snapshotReference p \<noteq> vref \<or> pe_snapshotDigest p \<noteq> dig))"

definition createTaxConfigurationSnapshot ::
  "zone_render \<Rightarrow> js \<Rightarrow> tax_configuration_snapshot res" where
  "createTaxConfigurationSnapshot zr input = (let bad = tc_fail TAX_CONFIGURATION_INPUT_INVALID in
     bnd (tc_exact input [''configurationReference'', ''versionReference'', ''brandReference'',
            ''storeReference'', ''stableCode'', ''aggregateVersion'', ''versionNumber'',
            ''snapshotDigest'', ''lifecycle'', ''jurisdictionCode'', ''currencyMetadata'',
            ''effectivePeriod'', ''registrationEvidence'', ''professionalEvidence'', ''rules'',
            ''createdAt''] TAX_CONFIGURATION_INPUT_INVALID) (\<lambda>_.
     bnd (or_throw (enum_of tax_lifecycles (fld input ''lifecycle'')) bad) (\<lambda>lifecycle.
     bnd (or_throw (safe_int_in 1 max_safe (fld input ''aggregateVersion'')) bad) (\<lambda>agg.
     bnd (or_throw (safe_int_in 1 max_safe (fld input ''versionNumber'')) bad) (\<lambda>num.
     bnd (throw_if (\<not> is_array (fld input ''rules'')) bad) (\<lambda>_.
     bnd (tc_reference (fld input ''versionReference'')) (\<lambda>vref.
     bnd (tc_digest (fld input ''snapshotDigest'')) (\<lambda>dig.
     bnd (tc_code (fld input ''jurisdictionCode'')) (\<lambda>jur.
     bnd (catching (createCurrencyMetadataSnapshot (fld input ''currencyMetadata'')) (\<lambda>_. Inl bad)) (\<lambda>meta.
     bnd (catching (createEffectivePeriod zr (fld input ''effectivePeriod'')) (\<lambda>_. Inl bad)) (\<lambda>period.
     bnd (throw_if (jur \<noteq> ''CA-ON'' \<or> cm_currencyCode meta \<noteq> ''CAD'')
            (tc_fail TAX_CONFIGURATION_SCOPE_MISMATCH)) (\<lambda>_.
     bnd (map_res tc_createRule (elements (fld input ''rules''))) (\<lambda>rules.
     bnd (validateRuleGroups rules) (\<lambda>_.
     bnd (nullable createRegistrationEvidence (fld input ''registrationEvidence'')) (\<lambda>reg.
     bnd (nullable createProfessionalEvidence (fld input ''professionalEvidence'')) (\<lambda>prof.
     bnd (throw_if (evidence_missing lifecycle rules reg prof vref dig)
            (tc_fail TAX_CONFIGURATION_EVIDENCE_INVALID)) (\<lambda>_.
     bnd (tc_reference (fld input ''configurationReference'')) (\<lambda>conf.
     bnd (tc_reference (fld input ''brandReference'')) (\<lambda>brand.
     bnd (tc_reference (fld input ''storeReference'')) (\<lambda>store.
     bnd (tc_code (fld input ''stableCode'')) (\<lambda>stable.
     bnd (tc_parseInstant (fld input ''createdAt'')) (\<lambda>created.
     Inr \<lparr>ts_configurationReference = conf, ts_versionReference = vref, ts_brandReference = brand,
          ts_storeReference = store, ts_stableCode = stable, ts_aggregateVersion = agg,
          ts_versionNumber = num, ts_snapshotDigest = dig, ts_lifecycle = lifecycle,
          ts_jurisdictionCode = jur, ts_currencyMetadata = meta, ts_effectivePeriod = period,
          ts_registrationEvidence = reg, ts_professionalEvidence = prof, ts_rules = rules,
          ts_createdAt = created\<rparr>))))))))))))))))))))))"

section \<open>Coverage and resolution\<close>

definition rule_matches :: "js \<Rightarrow> tax_configuration_rule \<Rightarrow> bool" where
  "rule_matches context rule \<longleftrightarrow>
     fld context ''taxClassificationReference'' = JStr (tc_taxClassificationReference rule) \<and>
     fld context ''orderType'' = JStr (order_type_str (tc_orderType rule)) \<and>
     fld context ''chargeType'' = JStr (charge_type_str (tc_chargeType rule))"

text \<open>The loop over the required contexts; \<open>every\<close> reads a context only when there is a rule.\<close>

fun coverage_loop :: "tax_configuration_rule list \<Rightarrow> js list \<Rightarrow> unit res" where
  "coverage_loop rules [] = Inr ()"
| "coverage_loop rules (context # contexts) =
     bnd (if rules = [] then Inr JUndefined else get_prop context ''taxClassificationReference'') (\<lambda>_.
     bnd (throw_if (list_all (\<lambda>rule. \<not> rule_matches context rule) rules)
            (tc_fail TAX_CONFIGURATION_COVERAGE_MISSING)) (\<lambda>_.
     coverage_loop rules contexts))"

definition validateTaxConfigurationCoverage :: "zone_render \<Rightarrow> js \<Rightarrow> js \<Rightarrow> unit res" where
  "validateTaxConfigurationCoverage zr snapshotInput requiredContexts =
     bnd (createTaxConfigurationSnapshot zr snapshotInput) (\<lambda>snapshot.
     bnd (throw_if (\<not> is_array requiredContexts \<or> elements requiredContexts = [])
            (tc_fail TAX_CONFIGURATION_COVERAGE_MISSING)) (\<lambda>_.
     coverage_loop (ts_rules snapshot) (elements requiredContexts)))"

definition resolve_component ::
  "tax_configuration_snapshot \<Rightarrow> tax_configuration_rule \<Rightarrow> resolved_tax_rule_component res" where
  "resolve_component snapshot rule =
     bnd (createResolvedTaxRuleSnapshot (resolved_tax_rule_js
            \<lparr>rt_ruleVersionReference = tc_ruleReference rule,
             rt_ruleVersionDigest = ts_snapshotDigest snapshot,
             rt_jurisdictionCode = ts_jurisdictionCode snapshot,
             rt_taxComponentCode = tc_taxComponentCode rule,
             rt_taxClassificationReference = tc_taxClassificationReference rule,
             rt_treatment = tc_treatment rule, rt_rate = tc_rate rule,
             rt_priceInclusion = tc_priceInclusion rule, rt_roundingMode = tc_roundingMode rule\<rparr>)) (\<lambda>r.
     Inr \<lparr>rc_calculationOrder = tc_calculationOrder rule,
          rc_compoundOnPriorTax = tc_compoundOnPriorTax rule,
          rc_receiptPresentationCode = tc_receiptPresentationCode rule, rc_resolvedRule = r\<rparr>)"

definition evidence_expired :: "tax_configuration_snapshot \<Rightarrow> string \<Rightarrow> bool" where
  "evidence_expired snapshot evaluatedAt \<longleftrightarrow>
     (case ts_registrationEvidence snapshot of None \<Rightarrow> True
      | Some r \<Rightarrow> ms_le (date_parse (re_validUntil r)) (date_parse evaluatedAt)) \<or>
     (case ts_professionalEvidence snapshot of None \<Rightarrow> True
      | Some p \<Rightarrow> ms_le (date_parse (pe_validUntil p)) (date_parse evaluatedAt))"

definition outside_period :: "effective_period \<Rightarrow> string \<Rightarrow> bool" where
  "outside_period period evaluatedAt \<longleftrightarrow>
     ms_less (date_parse evaluatedAt) (date_parse (zb_instant (ep_effectiveFrom period))) \<or>
     (case ep_effectiveUntil period of None \<Rightarrow> False
      | Some u \<Rightarrow> ms_le (date_parse (zb_instant u)) (date_parse evaluatedAt))"

definition resolveTaxConfiguration ::
  "zone_render \<Rightarrow> js \<Rightarrow> js \<Rightarrow> tax_configuration_resolution res" where
  "resolveTaxConfiguration zr snapshotInput context =
     bnd (createTaxConfigurationSnapshot zr snapshotInput) (\<lambda>snapshot.
     bnd (tc_exact context [''brandReference'', ''storeReference'', ''jurisdictionCode'',
            ''currencyCode'', ''taxClassificationReference'', ''orderType'', ''chargeType'',
            ''evaluatedAt''] TAX_CONFIGURATION_INPUT_INVALID) (\<lambda>_.
     bnd (tc_parseInstant (fld context ''evaluatedAt'')) (\<lambda>evaluatedAt.
     bnd (throw_if (ts_lifecycle snapshot \<noteq> TaxPublished \<or>
            fld context ''brandReference'' \<noteq> JStr (ts_brandReference snapshot) \<or>
            fld context ''storeReference'' \<noteq> JStr (ts_storeReference snapshot) \<or>
            fld context ''jurisdictionCode'' \<noteq> JStr (ts_jurisdictionCode snapshot) \<or>
            fld context ''currencyCode'' \<noteq> JStr (cm_currencyCode (ts_currencyMetadata snapshot)))
            (tc_fail TAX_CONFIGURATION_SCOPE_MISMATCH)) (\<lambda>_.
     bnd (throw_if (evidence_expired snapshot evaluatedAt)
            (tc_fail TAX_CONFIGURATION_EVIDENCE_INVALID)) (\<lambda>_.
     bnd (throw_if (outside_period (ts_effectivePeriod snapshot) evaluatedAt)
            (tc_fail TAX_CONFIGURATION_NOT_EFFECTIVE)) (\<lambda>_.
     let matched = sort_key tc_calculationOrder (filter (rule_matches context) (ts_rules snapshot)) in
     bnd (throw_if (matched = []) (tc_fail TAX_CONFIGURATION_COVERAGE_MISSING)) (\<lambda>_.
     bnd (map_res (resolve_component snapshot) matched) (\<lambda>rules.
     Inr \<lparr>tx_configurationReference = ts_configurationReference snapshot,
          tx_versionReference = ts_versionReference snapshot,
          tx_snapshotDigest = ts_snapshotDigest snapshot,
          tx_effectivePeriod = ts_effectivePeriod snapshot,
          tx_rules = rules\<rparr>))))))))"

section \<open>Rule groups\<close>

lemma tc_exact_Inr [res_simps]: "tc_exact v fs e = Inr u \<longleftrightarrow> has_shape v fs"
  by (simp add: tc_exact_def res_simps)

lemma tc_parse_Inr [res_simps]:
  "tc_reference v = Inr s \<longleftrightarrow> v = JStr s \<and> uuid_v7 s"
  "tc_digest v = Inr s \<longleftrightarrow> v = JStr s \<and> sha256_digest s"
  "tc_code v = Inr s \<longleftrightarrow> v = JStr s \<and> length s \<le> 64 \<and> pricing_code_format s"
  "tc_parseInstant v = Inr s \<longleftrightarrow> v = JStr s \<and> parseable_instant s"
  by (simp_all add: tc_reference_def tc_digest_def tc_code_def tc_parseInstant_def res_simps)

lemma add_to_group_lookup:
  "map_of (add_to_group rule gs) k =
     (if k = groupKey rule then Some ((case map_of gs k of None \<Rightarrow> [] | Some g \<Rightarrow> g) @ [rule])
      else map_of gs k)"
  by (induction rule gs rule: add_to_group.induct) auto

lemma add_to_group_keys:
  "distinct (map fst gs) \<Longrightarrow> distinct (map fst (add_to_group rule gs)) \<and>
     set (map fst (add_to_group rule gs)) = insert (groupKey rule) (set (map fst gs))"
  by (induction rule gs rule: add_to_group.induct) auto

lemma group_rules_Inr:
  "group_rules ids gs rules = Inr out \<longleftrightarrow>
     distinct (map tc_ruleReference rules) \<and> tc_ruleReference ` set rules \<inter> set ids = {} \<and>
     out = fold add_to_group rules gs"
  by (induction ids gs rules rule: group_rules.induct) auto

lemma fold_groups:
  assumes "distinct (map fst gs)"
  shows "distinct (map fst (fold add_to_group rules gs)) \<and>
    set (map fst (fold add_to_group rules gs)) = set (map fst gs) \<union> groupKey ` set rules \<and>
    map_of (fold add_to_group rules gs) k =
      (if map_of gs k = None \<and> k \<notin> groupKey ` set rules then None
       else Some ((case map_of gs k of None \<Rightarrow> [] | Some g \<Rightarrow> g) @ filter (\<lambda>r. groupKey r = k) rules))"
  using assms
proof (induction rules arbitrary: gs)
  case Nil
  then show ?case by (auto split: option.splits)
next
  case (Cons r rules)
  from add_to_group_keys [OF Cons.prems, of r] Cons.IH [of "add_to_group r gs"]
  show ?case by (auto simp: add_to_group_lookup split: option.splits)
qed

lemma validateRuleGroups_Inr:
  "validateRuleGroups rules = Inr () \<longleftrightarrow>
     distinct (map tc_ruleReference rules) \<and>
     (\<forall>r \<in> set rules. group_ok (filter (\<lambda>q. groupKey q = groupKey r) rules))"
proof -
  let ?gs = "fold add_to_group rules []"
  have f: "distinct (map fst ?gs)" "set (map fst ?gs) = groupKey ` set rules"
    "map_of ?gs k = (if k \<in> groupKey ` set rules then Some (filter (\<lambda>r. groupKey r = k) rules) else None)" for k
    using fold_groups [of "[]" rules] by auto
  have mem: "(k, g) \<in> set ?gs \<longleftrightarrow> k \<in> groupKey ` set rules \<and> g = filter (\<lambda>r. groupKey r = k) rules" for k g
  proof -
    have "(k, g) \<in> set ?gs \<longleftrightarrow> map_of ?gs k = Some g" using map_of_eq_Some_iff [OF f(1)] by simp
    then show ?thesis unfolding f(3) by auto
  qed
  have "\<not> list_ex (\<lambda>(k, g). \<not> group_ok g) ?gs \<longleftrightarrow>
      (\<forall>r \<in> set rules. group_ok (filter (\<lambda>q. groupKey q = groupKey r) rules))"
  proof (intro iffI ballI)
    fix r assume none: "\<not> list_ex (\<lambda>(k, g). \<not> group_ok g) ?gs" and r: "r \<in> set rules"
    have "(groupKey r, filter (\<lambda>q. groupKey q = groupKey r) rules) \<in> set ?gs" using r by (simp add: mem)
    with none show "group_ok (filter (\<lambda>q. groupKey q = groupKey r) rules)"
      by (fastforce simp: list_ex_iff)
  next
    assume ok: "\<forall>r \<in> set rules. group_ok (filter (\<lambda>q. groupKey q = groupKey r) rules)"
    have "group_ok g" if "(k, g) \<in> set ?gs" for k g using that ok by (auto simp: mem)
    then show "\<not> list_ex (\<lambda>(k, g). \<not> group_ok g) ?gs" by (auto simp: list_ex_iff)
  qed
  then show ?thesis by (auto simp: validateRuleGroups_def res_simps group_rules_Inr)
qed

lemma validateRuleGroups_unit: "validateRuleGroups rules = Inr u \<longleftrightarrow> validateRuleGroups rules = Inr ()"
  by simp

lemma length_uuid: "uuid_v7 s \<Longrightarrow> length s = 36"
  by (auto simp: uuid_v7_def dest: matches_length)

lemma order_type_str_inj [simp]: "order_type_str a = order_type_str b \<longleftrightarrow> a = b"
  by (cases a; cases b) simp_all

lemma charge_type_str_inj [simp]: "charge_type_str a = charge_type_str b \<longleftrightarrow> a = b"
  by (cases a; cases b) simp_all

lemma groupKey_eq:
  assumes "uuid_v7 (tc_taxClassificationReference r)" "uuid_v7 (tc_taxClassificationReference q)"
  shows "groupKey r = groupKey q \<longleftrightarrow>
    tc_taxClassificationReference r = tc_taxClassificationReference q \<and>
    tc_orderType r = tc_orderType q \<and> tc_chargeType r = tc_chargeType q"
proof -
  have "order_type_str a @ ''|'' @ charge_type_str c = order_type_str b @ ''|'' @ charge_type_str d \<longleftrightarrow>
      a = b \<and> c = d" for a b c d
    by (cases a; cases b) simp_all
  with assms show ?thesis by (simp add: groupKey_def length_uuid)
qed

lemma tc_createRule_Inr:
  assumes "tc_createRule v = Inr r"
  shows "uuid_v7 (tc_ruleReference r)" "uuid_v7 (tc_taxClassificationReference r)"
    "length (tc_taxComponentCode r) \<le> 64" "pricing_code_format (tc_taxComponentCode r)"
    "canonical_rate (tc_rate r)" "tc_treatment r \<noteq> Taxable \<Longrightarrow> tc_rate r = ''0''"
    "tc_calculationOrder r = 1 \<Longrightarrow> \<not> tc_compoundOnPriorTax r"
    "1 \<le> tc_calculationOrder r \<and> tc_calculationOrder r \<le> 16"
    "tc_treatment r = Taxable \<longleftrightarrow> tc_exceptionEvidenceReference r = None"
proof -
  note a = assms [unfolded tc_createRule_def Let_def res_simps]
  from a show "uuid_v7 (tc_ruleReference r)" by (elim exE conjE, clarify) simp
  from a show "uuid_v7 (tc_taxClassificationReference r)" by (elim exE conjE, clarify) simp
  from a show "length (tc_taxComponentCode r) \<le> 64" by (elim exE conjE, clarify) simp
  from a show "pricing_code_format (tc_taxComponentCode r)" by (elim exE conjE, clarify) simp
  from a show "canonical_rate (tc_rate r)" by (elim exE conjE, clarify) simp
  from a show "tc_rate r = ''0''" if "tc_treatment r \<noteq> Taxable"
    using that by (elim exE conjE, clarify) simp
  from a show "\<not> tc_compoundOnPriorTax r" if "tc_calculationOrder r = 1"
    using that by (elim exE conjE, clarify) simp
  from a show "1 \<le> tc_calculationOrder r \<and> tc_calculationOrder r \<le> 16"
    by (elim exE conjE, clarify) simp
  from a show "tc_treatment r = Taxable \<longleftrightarrow> tc_exceptionEvidenceReference r = None"
    by (elim exE conjE, clarify) auto
qed

lemma snapshot_parts:
  assumes "createTaxConfigurationSnapshot zr v = Inr s"
  shows "map_res tc_createRule (elements (fld v ''rules'')) = Inr (ts_rules s)"
    "validateRuleGroups (ts_rules s) = Inr ()" "sha256_digest (ts_snapshotDigest s)"
    "ts_jurisdictionCode s = ''CA-ON''" "cm_currencyCode (ts_currencyMetadata s) = ''CAD''"
    "createEffectivePeriod zr (fld v ''effectivePeriod'') = Inr (ts_effectivePeriod s)"
    "ts_lifecycle s = TaxPublished \<Longrightarrow> ts_rules s \<noteq> [] \<and> ts_registrationEvidence s \<noteq> None \<and>
       (\<exists>p. ts_professionalEvidence s = Some p \<and> pe_snapshotReference p = ts_versionReference s \<and>
          pe_snapshotDigest p = ts_snapshotDigest s)"
proof -
  note a = assms [unfolded createTaxConfigurationSnapshot_def Let_def res_simps]
  from a show "map_res tc_createRule (elements (fld v ''rules'')) = Inr (ts_rules s)"
    by (elim exE conjE, clarify) simp
  from a show "validateRuleGroups (ts_rules s) = Inr ()" by (elim exE conjE, clarify) simp
  from a show "sha256_digest (ts_snapshotDigest s)" by (elim exE conjE, clarify) simp
  from a show "ts_jurisdictionCode s = ''CA-ON''" by (elim exE conjE, clarify) simp
  from a show "cm_currencyCode (ts_currencyMetadata s) = ''CAD''" by (elim exE conjE, clarify) simp
  from a show "createEffectivePeriod zr (fld v ''effectivePeriod'') = Inr (ts_effectivePeriod s)"
    by (elim exE conjE, clarify) simp
  from a have "\<not> evidence_missing (ts_lifecycle s) (ts_rules s) (ts_registrationEvidence s)
      (ts_professionalEvidence s) (ts_versionReference s) (ts_snapshotDigest s)"
    by (elim exE conjE, clarify) simp
  then show "ts_rules s \<noteq> [] \<and> ts_registrationEvidence s \<noteq> None \<and>
       (\<exists>p. ts_professionalEvidence s = Some p \<and> pe_snapshotReference p = ts_versionReference s \<and>
          pe_snapshotDigest p = ts_snapshotDigest s)" if "ts_lifecycle s = TaxPublished"
    using that by (auto simp: evidence_missing_def split: option.splits)
qed

lemma resolve_component_Inr:
  assumes "tc_createRule v = Inr r" and "sha256_digest (ts_snapshotDigest s)"
    and "ts_jurisdictionCode s = ''CA-ON''"
  shows "\<exists>c. resolve_component s r = Inr c \<and> rc_calculationOrder c = tc_calculationOrder r \<and>
    rc_compoundOnPriorTax c = tc_compoundOnPriorTax r \<and>
    rc_receiptPresentationCode c = tc_receiptPresentationCode r \<and>
    rt_taxComponentCode (rc_resolvedRule c) = tc_taxComponentCode r \<and>
    rt_rate (rc_resolvedRule c) = tc_rate r \<and> rt_treatment (rc_resolvedRule c) = tc_treatment r \<and>
    rt_priceInclusion (rc_resolvedRule c) = tc_priceInclusion r \<and>
    rt_roundingMode (rc_resolvedRule c) = tc_roundingMode r \<and>
    rt_ruleVersionReference (rc_resolvedRule c) = tc_ruleReference r"
proof -
  note f = tc_createRule_Inr [OF assms(1)]
  have g: "\<not> (tc_treatment r \<noteq> Taxable \<and> tc_rate r \<noteq> ''0'')" using f(6) by blast
  have e: "enum_of tax_treatments (JStr (treatment_str t)) = Some t" for t
    by (cases t) (simp_all add: enum_of_def tax_treatments_def)
  have i: "enum_of price_inclusions (JStr (inclusion_str t)) = Some t" for t
    by (cases t) (simp_all add: enum_of_def price_inclusions_def)
  have m: "enum_of rounding_modes (JStr (mode_str t)) = Some t" for t
    by (cases t) (simp_all add: enum_of_def rounding_modes_def)
  have ca: "parsePricingCode (JStr ''CA-ON'') = Inr ''CA-ON''" by code_simp
  show ?thesis
    using f(1-5) assms(2) ca
    by (simp add: resolve_component_def createResolvedTaxRuleSnapshot_def resolved_tax_rule_js_def
        mt_exact_def parseTaxRate_def parsePricingReference_def parsePricingDigest_def assms(3)
        e i m g del: de_Morgan_conj) (simp add: parsePricingCode_def)
qed

section \<open>Properties\<close>

lemma matched_group:
  assumes uuid: "\<And>r. r \<in> set rules \<Longrightarrow> uuid_v7 (tc_taxClassificationReference r)"
    and q: "q \<in> set rules" "rule_matches ctx q"
  shows "filter (rule_matches ctx) rules = filter (\<lambda>r. groupKey r = groupKey q) rules"
proof (rule filter_cong [OF refl])
  fix r assume "r \<in> set rules"
  then have "groupKey r = groupKey q \<longleftrightarrow>
    tc_taxClassificationReference r = tc_taxClassificationReference q \<and>
    tc_orderType r = tc_orderType q \<and> tc_chargeType r = tc_chargeType q"
    using uuid q(1) by (intro groupKey_eq) auto
  then show "rule_matches ctx r \<longleftrightarrow> groupKey r = groupKey q"
    using q(2) by (auto simp: rule_matches_def)
qed

lemma snapshot_rules:
  assumes "createTaxConfigurationSnapshot zr v = Inr s" and "r \<in> set (ts_rules s)"
  shows "\<exists>j. tc_createRule j = Inr r"
  using map_res_in [OF snapshot_parts(1) [OF assms(1)] assms(2)] by blast

lemma matched_group_ok:
  assumes s: "createTaxConfigurationSnapshot zr v = Inr s"
    and ne: "filter (rule_matches ctx) (ts_rules s) \<noteq> []"
  shows "group_ok (filter (rule_matches ctx) (ts_rules s))"
proof -
  obtain q where q: "q \<in> set (ts_rules s)" "rule_matches ctx q" using ne by (auto simp: filter_empty_conv)
  have "filter (rule_matches ctx) (ts_rules s) = filter (\<lambda>r. groupKey r = groupKey q) (ts_rules s)"
    using snapshot_rules [OF s] q tc_createRule_Inr(2) by (intro matched_group) blast+
  then show ?thesis
    using snapshot_parts(2) [OF s] q(1) by (simp add: validateRuleGroups_Inr)
qed

lemma resolve_components:
  assumes s: "createTaxConfigurationSnapshot zr v = Inr s" and sub: "set rs \<subseteq> set (ts_rules s)"
  shows "\<exists>cs. map_res (resolve_component s) rs = Inr cs \<and>
    map rc_calculationOrder cs = map tc_calculationOrder rs \<and>
    map rc_compoundOnPriorTax cs = map tc_compoundOnPriorTax rs \<and>
    map (\<lambda>c. rt_taxComponentCode (rc_resolvedRule c)) cs = map tc_taxComponentCode rs \<and>
    map (\<lambda>c. rt_priceInclusion (rc_resolvedRule c)) cs = map tc_priceInclusion rs \<and>
    map (\<lambda>c. rt_rate (rc_resolvedRule c)) cs = map tc_rate rs"
  using sub
proof (induction rs)
  case (Cons r rs)
  then obtain j where "tc_createRule j = Inr r" using snapshot_rules [OF s] by auto
  from resolve_component_Inr [OF this snapshot_parts(3,4) [OF s]] Cons show ?case by auto
qed simp

text \<open>When \<open>resolveTaxConfiguration\<close> goes on to select rules.\<close>

definition resolution_context_ok :: "tax_configuration_snapshot \<Rightarrow> js \<Rightarrow> string \<Rightarrow> bool" where
  "resolution_context_ok s ctx at \<longleftrightarrow>
     has_shape ctx [''brandReference'', ''storeReference'', ''jurisdictionCode'', ''currencyCode'',
       ''taxClassificationReference'', ''orderType'', ''chargeType'', ''evaluatedAt''] \<and>
     fld ctx ''evaluatedAt'' = JStr at \<and> parseable_instant at \<and>
     ts_lifecycle s = TaxPublished \<and>
     fld ctx ''brandReference'' = JStr (ts_brandReference s) \<and>
     fld ctx ''storeReference'' = JStr (ts_storeReference s) \<and>
     fld ctx ''jurisdictionCode'' = JStr (ts_jurisdictionCode s) \<and>
     fld ctx ''currencyCode'' = JStr (cm_currencyCode (ts_currencyMetadata s)) \<and>
     \<not> evidence_expired s at \<and>
     deriveEffectiveStatus (periodValue (ts_effectivePeriod s)) at = Effective"

definition matched_rules :: "tax_configuration_snapshot \<Rightarrow> js \<Rightarrow> tax_configuration_rule list" where
  "matched_rules s ctx = sort_key tc_calculationOrder (filter (rule_matches ctx) (ts_rules s))"

lemma outside_period_status:
  "outside_period p at \<longleftrightarrow> deriveEffectiveStatus (periodValue p) at \<noteq> Effective"
  by (auto simp: outside_period_def deriveEffectiveStatus_def periodValue_def Let_def split: option.splits)

lemma resolveTaxConfiguration_Inr:
  assumes s: "createTaxConfigurationSnapshot zr v = Inr s"
  shows "resolveTaxConfiguration zr v ctx = Inr res \<longleftrightarrow>
      (\<exists>at. resolution_context_ok s ctx at) \<and> matched_rules s ctx \<noteq> [] \<and>
      (\<exists>cs. map_res (resolve_component s) (matched_rules s ctx) = Inr cs \<and>
        res = \<lparr>tx_configurationReference = ts_configurationReference s,
          tx_versionReference = ts_versionReference s, tx_snapshotDigest = ts_snapshotDigest s,
          tx_effectivePeriod = ts_effectivePeriod s, tx_rules = cs\<rparr>)"
  unfolding resolveTaxConfiguration_def s bnd_Inr Let_def matched_rules_def [symmetric]
  by (auto simp: res_simps resolution_context_ok_def outside_period_status)

lemma resolveTaxConfiguration_coverage_missing:
  assumes s: "createTaxConfigurationSnapshot zr v = Inr s"
    and e: "resolveTaxConfiguration zr v ctx = Inl (tc_fail TAX_CONFIGURATION_COVERAGE_MISSING)"
  shows "matched_rules s ctx = []"
proof (rule ccontr)
  assume ne: "matched_rules s ctx \<noteq> []"
  have "set (matched_rules s ctx) \<subseteq> set (ts_rules s)" by (auto simp: matched_rules_def)
  from resolve_components [OF s this] obtain cs where
    "map_res (resolve_component s) (matched_rules s ctx) = Inr cs" by blast
  with ne e [unfolded resolveTaxConfiguration_def s bnd_Inr Let_def matched_rules_def [symmetric]]
  show False
    by (auto simp: res_simps tc_fail_def tc_exact_def tc_parseInstant_def)
qed

text \<open>
  C6. \<open>resolveTaxConfiguration\<close> returns exactly when the context names the published snapshot's scope,
  the evidence is valid and the period in force at the evaluation instant, and some rule covers the
  context. The components it returns are numbered 1, 2, 3 and so on without gaps, name each tax
  component once, share one price inclusion, and the first of them does not compound.
\<close>

theorem resolveTaxConfiguration_components:
  assumes s: "createTaxConfigurationSnapshot zr v = Inr s"
  shows "((\<exists>res. resolveTaxConfiguration zr v ctx = Inr res) \<longleftrightarrow>
      (\<exists>at. resolution_context_ok s ctx at) \<and> (\<exists>r \<in> set (ts_rules s). rule_matches ctx r)) \<and>
    (\<forall>res. resolveTaxConfiguration zr v ctx = Inr res \<longrightarrow>
      map rc_calculationOrder (tx_rules res) = map (\<lambda>i. int i + 1) [0..<length (tx_rules res)] \<and>
      tx_rules res \<noteq> [] \<and>
      distinct (map (\<lambda>c. rt_taxComponentCode (rc_resolvedRule c)) (tx_rules res)) \<and>
      (\<exists>inc. list_all (\<lambda>c. rt_priceInclusion (rc_resolvedRule c) = inc) (tx_rules res)) \<and>
      \<not> rc_compoundOnPriorTax (hd (tx_rules res)))"
proof -
  let ?m = "matched_rules s ctx"
  have sub: "set ?m \<subseteq> set (ts_rules s)" by (auto simp: matched_rules_def)
  obtain cs where cs: "map_res (resolve_component s) ?m = Inr cs"
    "map rc_calculationOrder cs = map tc_calculationOrder ?m"
    "map rc_compoundOnPriorTax cs = map tc_compoundOnPriorTax ?m"
    "map (\<lambda>c. rt_taxComponentCode (rc_resolvedRule c)) cs = map tc_taxComponentCode ?m"
    "map (\<lambda>c. rt_priceInclusion (rc_resolvedRule c)) cs = map tc_priceInclusion ?m"
    using resolve_components [OF s sub] by blast
  have len: "length cs = length ?m" using cs(1) by (rule map_res_length)
  have ne: "?m \<noteq> [] \<longleftrightarrow> (\<exists>r \<in> set (ts_rules s). rule_matches ctx r)"
    by (simp add: matched_rules_def filter_empty_conv)
  have "map rc_calculationOrder cs = map (\<lambda>i. int i + 1) [0..<length cs] \<and> cs \<noteq> [] \<and>
      distinct (map (\<lambda>c. rt_taxComponentCode (rc_resolvedRule c)) cs) \<and>
      (\<exists>inc. list_all (\<lambda>c. rt_priceInclusion (rc_resolvedRule c) = inc) cs) \<and>
      \<not> rc_compoundOnPriorTax (hd cs)" if m: "?m \<noteq> []"
  proof -
    have "group_ok (filter (rule_matches ctx) (ts_rules s))"
      using m by (intro matched_group_ok [OF s]) (simp add: matched_rules_def)
    then have g: "map tc_calculationOrder ?m = map (\<lambda>i. int i + 1) [0..<length ?m]"
      "distinct (map tc_taxComponentCode ?m)" "length (remdups (map tc_priceInclusion ?m)) = 1"
      by (simp_all add: group_ok_def matched_rules_def Let_def)
    from g(3) obtain inc where "remdups (map tc_priceInclusion ?m) = [inc]"
      by (metis One_nat_def length_0_conv length_Suc_conv)
    then have "set (map tc_priceInclusion ?m) = {inc}" by (metis list.set(1,2) set_remdups)
    then have inc: "set (map (\<lambda>c. rt_priceInclusion (rc_resolvedRule c)) cs) = {inc}" using cs(5) by simp
    have "cs \<noteq> []" using m len by auto
    moreover have "tc_calculationOrder (hd ?m) = 1"
      using m arg_cong [OF g(1), of hd] by (simp add: hd_map)
    then have "\<not> tc_compoundOnPriorTax (hd ?m)"
      using snapshot_rules [OF s] sub m tc_createRule_Inr(7) by (meson hd_in_set subsetD)
    then have "\<not> rc_compoundOnPriorTax (hd cs)"
      using arg_cong [OF cs(3), of hd] m \<open>cs \<noteq> []\<close> by (simp add: hd_map)
    moreover have "list_all (\<lambda>c. rt_priceInclusion (rc_resolvedRule c) = inc) cs"
      using inc by (auto simp: list_all_iff)
    ultimately show ?thesis using cs(2,4) g(1,2) len by auto
  qed
  then show ?thesis
    unfolding resolveTaxConfiguration_Inr [OF s] ne [symmetric] using cs(1) by auto
qed

definition example_tax_rule :: "string \<Rightarrow> string \<Rightarrow> int \<Rightarrow> bool \<Rightarrow> js" where
  "example_tax_rule ref component order compound = JObj
     [(''ruleReference'', JStr ref),
      (''taxClassificationReference'', JStr ''01890000-0000-7000-8000-000000000005''),
      (''orderType'', JStr ''DineIn''), (''chargeType'', JStr ''Sellable''),
      (''taxComponentCode'', JStr component), (''treatment'', JStr ''Taxable''),
      (''rate'', JStr ''0.13''), (''priceInclusion'', JStr ''Exclusive''),
      (''roundingMode'', JStr ''HalfEven''), (''calculationOrder'', JNum order),
      (''compoundOnPriorTax'', JBool compound), (''exceptionEvidenceReference'', JNull),
      (''receiptPresentationCode'', JStr component)]"

definition example_digest :: string where
  "example_digest = ''sha256:'' @ replicate 64 (CHR ''a'')"

definition example_tax_snapshot :: js where
  "example_tax_snapshot = JObj
     [(''configurationReference'', JStr ''01890000-0000-7000-8000-000000000010''),
      (''versionReference'', JStr ''01890000-0000-7000-8000-000000000011''),
      (''brandReference'', JStr ''01890000-0000-7000-8000-000000000012''),
      (''storeReference'', JStr ''01890000-0000-7000-8000-000000000013''),
      (''stableCode'', JStr ''ON-HST''), (''aggregateVersion'', JNum 1), (''versionNumber'', JNum 1),
      (''snapshotDigest'', JStr example_digest), (''lifecycle'', JStr ''Published''),
      (''jurisdictionCode'', JStr ''CA-ON''),
      (''currencyMetadata'', currency_metadata_js
         \<lparr>cm_currencyCode = ''CAD'', cm_minorUnitExponent = 2, cm_metadataVersion = 1,
          cm_metadataVersionReference = ''01890000-0000-7000-8000-000000000003'',
          cm_metadataDigest = example_digest\<rparr>),
      (''effectivePeriod'', example_period_js),
      (''registrationEvidence'', JObj
         [(''applicabilityReference'', JStr ''01890000-0000-7000-8000-000000000014''),
          (''operatingEntityTaxReference'', JStr ''01890000-0000-7000-8000-000000000015''),
          (''jurisdictionProfileReference'', JStr ''01890000-0000-7000-8000-000000000016''),
          (''status'', JStr ''Verified''), (''validUntil'', JStr ''2027-01-01T00:00:00.000Z'')]),
      (''professionalEvidence'', JObj
         [(''evidenceReference'', JStr ''01890000-0000-7000-8000-000000000017''),
          (''snapshotReference'', JStr ''01890000-0000-7000-8000-000000000011''),
          (''snapshotDigest'', JStr example_digest),
          (''professionalReviewReference'', JStr ''01890000-0000-7000-8000-000000000018''),
          (''fixtureSuiteReference'', JStr ''01890000-0000-7000-8000-000000000019''),
          (''fixtureSuiteDigest'', JStr example_digest), (''result'', JStr ''Pass''),
          (''reviewedAt'', JStr ''2025-12-01T00:00:00.000Z''),
          (''validUntil'', JStr ''2026-12-01T00:00:00.000Z'')]),
      (''rules'', JArr
         [example_tax_rule ''01890000-0000-7000-8000-000000000022'' ''LOCAL'' 2 True,
          example_tax_rule ''01890000-0000-7000-8000-000000000021'' ''HST'' 1 False]),
      (''createdAt'', JStr ''2025-12-02T00:00:00.000Z'')]"

definition example_tax_context :: js where
  "example_tax_context = JObj
     [(''brandReference'', JStr ''01890000-0000-7000-8000-000000000012''),
      (''storeReference'', JStr ''01890000-0000-7000-8000-000000000013''),
      (''jurisdictionCode'', JStr ''CA-ON''), (''currencyCode'', JStr ''CAD''),
      (''taxClassificationReference'', JStr ''01890000-0000-7000-8000-000000000005''),
      (''orderType'', JStr ''DineIn''), (''chargeType'', JStr ''Sellable''),
      (''evaluatedAt'', JStr ''2026-06-01T12:00:00.000Z'')]"

lemma example_tax_resolution:
  "map_sum (\<lambda>e. e) (\<lambda>s. length (ts_rules s))
     (createTaxConfigurationSnapshot example_zone example_tax_snapshot) = Inr 2"
  "map_sum (\<lambda>e. e) (\<lambda>r. map rc_calculationOrder (tx_rules r))
     (resolveTaxConfiguration example_zone example_tax_snapshot example_tax_context) = Inr [1, 2]"
  by code_simp+

theorem resolveTaxConfiguration_components_witness:
  "\<exists>s res. createTaxConfigurationSnapshot example_zone example_tax_snapshot = Inr s \<and>
     resolveTaxConfiguration example_zone example_tax_snapshot example_tax_context = Inr res \<and>
     length (tx_rules res) = 2 \<and> \<not> rc_compoundOnPriorTax (hd (tx_rules res))"
proof -
  obtain s where s: "createTaxConfigurationSnapshot example_zone example_tax_snapshot = Inr s"
    using example_tax_resolution(1) by (cases "createTaxConfigurationSnapshot example_zone example_tax_snapshot") auto
  obtain res where r: "resolveTaxConfiguration example_zone example_tax_snapshot example_tax_context = Inr res"
    and l: "map rc_calculationOrder (tx_rules res) = [1, 2]"
    using example_tax_resolution(2)
    by (cases "resolveTaxConfiguration example_zone example_tax_snapshot example_tax_context") auto
  have "\<not> rc_compoundOnPriorTax (hd (tx_rules res))"
    using resolveTaxConfiguration_components [OF s, of example_tax_context] r by blast
  moreover have "length (tx_rules res) = 2" using arg_cong [OF l, of length] by simp
  ultimately show ?thesis using s r by blast
qed

text \<open>
  Coverage carries over to resolution: once \<open>validateTaxConfigurationCoverage\<close> has passed for a
  list of required contexts, resolving any context with one of those classifications, order types
  and charge types never reports missing coverage.
\<close>

theorem validated_coverage_resolves:
  assumes "validateTaxConfigurationCoverage zr v (JArr reqs) = Inr ()" and "req \<in> set reqs"
    and "fld ctx ''taxClassificationReference'' = fld req ''taxClassificationReference''"
    and "fld ctx ''orderType'' = fld req ''orderType''"
    and "fld ctx ''chargeType'' = fld req ''chargeType''"
  shows "resolveTaxConfiguration zr v ctx \<noteq> Inl (tc_fail TAX_CONFIGURATION_COVERAGE_MISSING)"
proof -
  from assms(1) obtain s where s: "createTaxConfigurationSnapshot zr v = Inr s"
    and loop: "coverage_loop (ts_rules s) reqs = Inr ()"
    by (auto simp: validateTaxConfigurationCoverage_def res_simps)
  have "\<exists>r \<in> set rules. rule_matches c r" if "coverage_loop rules cs = Inr ()" "c \<in> set cs" for rules cs c
    using that by (induction rules cs rule: coverage_loop.induct) (auto simp: res_simps list_all_iff)
  from this [OF loop assms(2)] obtain r where r: "r \<in> set (ts_rules s)" "rule_matches req r" by blast
  then have "rule_matches ctx r" using assms(3-5) by (simp add: rule_matches_def)
  with r have "matched_rules s ctx \<noteq> []" by (auto simp: matched_rules_def filter_empty_conv)
  then show ?thesis using resolveTaxConfiguration_coverage_missing [OF s] by blast
qed

theorem validated_coverage_resolves_witness:
  "validateTaxConfigurationCoverage example_zone example_tax_snapshot (JArr [example_tax_context]) = Inr () \<and>
   resolveTaxConfiguration example_zone example_tax_snapshot example_tax_context \<noteq>
     Inl (tc_fail TAX_CONFIGURATION_COVERAGE_MISSING)"
proof -
  have "validateTaxConfigurationCoverage example_zone example_tax_snapshot (JArr [example_tax_context]) = Inr ()"
    by code_simp
  from validated_coverage_resolves [OF this, of example_tax_context example_tax_context] this
  show ?thesis by simp
qed

end
