(* ===== verification/PriceResolution.thy ===== *)
theory PriceResolution
  imports TaxConfiguration
begin

text \<open>
  Price books and price resolution: \<open>packages/rms/pricing/src/domain/price-resolution.ts\<close>. A price
  book snapshot holds price entries for brand, region, store group and store scopes; a context is
  resolved to the most specific entry in force.
\<close>

section \<open>Data\<close>

datatype price_book_lifecycle = BookDraft | BookPublished | BookArchived

definition price_book_lifecycles :: "(string \<times> price_book_lifecycle) list" where
  "price_book_lifecycles =
     [(''Draft'', BookDraft), (''Published'', BookPublished), (''Archived'', BookArchived)]"

datatype price_scope_kind = PsBrand | PsRegion | PsStoreGroup | PsStore

definition price_scope_kinds :: "(string \<times> price_scope_kind) list" where
  "price_scope_kinds = [(''Brand'', PsBrand), (''Region'', PsRegion),
     (''StoreGroup'', PsStoreGroup), (''Store'', PsStore)]"

record price_entry =
  en_entryReference :: string
  en_sellableReference :: string
  en_scopeKind :: price_scope_kind
  en_scopeReference :: "string option"
  en_channelCode :: "string option"
  en_orderType :: "order_type option"
  en_amount :: money
  en_effectivePeriod :: effective_period
  en_reasonCode :: string

record price_book_snapshot =
  pb_priceBookReference :: string
  pb_versionReference :: string
  pb_brandReference :: string
  pb_stableCode :: string
  pb_aggregateVersion :: int
  pb_versionNumber :: int
  pb_snapshotDigest :: string
  pb_lifecycle :: price_book_lifecycle
  pb_currencyMetadata :: currency_metadata
  pb_entries :: "price_entry list"
  pb_createdAt :: string

record resolved_price =
  rp_priceBookReference :: string
  rp_versionReference :: string
  rp_snapshotDigest :: string
  rp_entryReference :: string
  rp_sellableReference :: string
  rp_amount :: money
  rp_scopeKind :: price_scope_kind
  rp_scopeReference :: "string option"
  rp_channelCode :: "string option"
  rp_orderType :: "order_type option"
  rp_priority :: int
  rp_effectivePeriod :: effective_period
  rp_reasonCode :: string

section \<open>Validators\<close>

definition pr_fail :: "price_resolution_code \<Rightarrow> err" where
  "pr_fail code = PriceResolutionError code"

definition pr_exact :: "js \<Rightarrow> string list \<Rightarrow> unit res" where
  "pr_exact value fs = throw_if (\<not> has_shape value fs) (pr_fail PRICE_INPUT_INVALID)"

definition pr_reference :: "js \<Rightarrow> string res" where
  "pr_reference v = catching (parsePricingReference v) (\<lambda>_. Inl (pr_fail PRICE_INPUT_INVALID))"

definition pr_code :: "js \<Rightarrow> string res" where
  "pr_code v = catching (parsePricingCode v) (\<lambda>_. Inl (pr_fail PRICE_INPUT_INVALID))"

definition pr_digest :: "js \<Rightarrow> string res" where
  "pr_digest v = catching (parsePricingDigest v) (\<lambda>_. Inl (pr_fail PRICE_INPUT_INVALID))"

definition pr_timestamp :: "js \<Rightarrow> string res" where
  "pr_timestamp v = or_throw (str_if parseable_instant v) (pr_fail PRICE_INPUT_INVALID)"

definition pr_period :: "zone_render \<Rightarrow> js \<Rightarrow> effective_period res" where
  "pr_period zr v = catching (createEffectivePeriod zr v) (\<lambda>_. Inl (pr_fail PRICE_INPUT_INVALID))"

definition createEntry :: "zone_render \<Rightarrow> string \<Rightarrow> js \<Rightarrow> price_entry res" where
  "createEntry zr currency input = (let bad = pr_fail PRICE_INPUT_INVALID in
     bnd (pr_exact input [''entryReference'', ''sellableReference'', ''scopeKind'',
            ''scopeReference'', ''channelCode'', ''orderType'', ''amount'', ''effectivePeriod'',
            ''reasonCode'']) (\<lambda>_.
     bnd (or_throw (enum_of price_scope_kinds (fld input ''scopeKind'')) bad) (\<lambda>kind.
     bnd (throw_if (kind = PsBrand \<and> fld input ''scopeReference'' \<noteq> JNull \<or>
                    kind \<noteq> PsBrand \<and> fld input ''scopeReference'' = JNull) bad) (\<lambda>_.
     bnd (nullable (\<lambda>v. or_throw (enum_of order_types v) bad) (fld input ''orderType'')) (\<lambda>ot.
     bnd (createMoney (fld input ''amount'')) (\<lambda>amount.
     bnd (throw_if (amountMinor amount < 0 \<or> currencyCode amount \<noteq> currency)
            (pr_fail PRICE_SCOPE_MISMATCH)) (\<lambda>_.
     bnd (pr_reference (fld input ''entryReference'')) (\<lambda>eref.
     bnd (pr_reference (fld input ''sellableReference'')) (\<lambda>sref.
     bnd (nullable pr_reference (fld input ''scopeReference'')) (\<lambda>scope.
     bnd (nullable pr_code (fld input ''channelCode'')) (\<lambda>channel.
     bnd (pr_period zr (fld input ''effectivePeriod'')) (\<lambda>per.
     bnd (pr_code (fld input ''reasonCode'')) (\<lambda>reason.
     Inr \<lparr>en_entryReference = eref, en_sellableReference = sref, en_scopeKind = kind,
          en_scopeReference = scope, en_channelCode = channel, en_orderType = ot,
          en_amount = amount, en_effectivePeriod = per, en_reasonCode = reason\<rparr>)))))))))))))"

text \<open>The module's own overlap test; \<open>Number.POSITIVE_INFINITY\<close> stands for a missing end.\<close>

definition pr_overlaps :: "effective_period \<Rightarrow> effective_period \<Rightarrow> bool" where
  "pr_overlaps left right \<longleftrightarrow>
     (let leftStart = date_parse (zb_instant (ep_effectiveFrom left));
          rightStart = date_parse (zb_instant (ep_effectiveFrom right))
      in (case ep_effectiveUntil right of None \<Rightarrow> leftStart \<noteq> None
          | Some u \<Rightarrow> ms_less leftStart (date_parse (zb_instant u))) \<and>
         (case ep_effectiveUntil left of None \<Rightarrow> rightStart \<noteq> None
          | Some u \<Rightarrow> ms_less rightStart (date_parse (zb_instant u))))"

definition sameResolutionIdentity :: "price_entry \<Rightarrow> price_entry \<Rightarrow> bool" where
  "sameResolutionIdentity left right \<longleftrightarrow>
     en_sellableReference left = en_sellableReference right \<and>
     en_scopeKind left = en_scopeKind right \<and> en_scopeReference left = en_scopeReference right \<and>
     en_channelCode left = en_channelCode right \<and> en_orderType left = en_orderType right"

text \<open>The nested loop over all pairs of entries.\<close>

fun has_entry_conflict :: "price_entry list \<Rightarrow> bool" where
  "has_entry_conflict [] = False"
| "has_entry_conflict (l # rs) =
     (list_ex (\<lambda>r. sameResolutionIdentity l r \<and>
         pr_overlaps (en_effectivePeriod l) (en_effectivePeriod r)) rs \<or> has_entry_conflict rs)"

definition createPriceBookSnapshot :: "zone_render \<Rightarrow> js \<Rightarrow> price_book_snapshot res" where
  "createPriceBookSnapshot zr input = (let bad = pr_fail PRICE_INPUT_INVALID in
     bnd (pr_exact input [''priceBookReference'', ''versionReference'', ''brandReference'',
            ''stableCode'', ''aggregateVersion'', ''versionNumber'', ''snapshotDigest'',
            ''lifecycle'', ''currencyMetadata'', ''entries'', ''createdAt'']) (\<lambda>_.
     bnd (or_throw (safe_int_in 1 max_safe (fld input ''aggregateVersion'')) bad) (\<lambda>agg.
     bnd (or_throw (safe_int_in 1 max_safe (fld input ''versionNumber'')) bad) (\<lambda>num.
     bnd (or_throw (enum_of price_book_lifecycles (fld input ''lifecycle'')) bad) (\<lambda>lifecycle.
     bnd (throw_if (\<not> is_array (fld input ''entries'')) bad) (\<lambda>_.
     bnd (createCurrencyMetadataSnapshot (fld input ''currencyMetadata'')) (\<lambda>meta.
     bnd (map_res (createEntry zr (cm_currencyCode meta)) (elements (fld input ''entries''))) (\<lambda>entries.
     bnd (throw_if (\<not> distinct (map en_entryReference entries)) (pr_fail PRICE_ENTRY_CONFLICT)) (\<lambda>_.
     bnd (throw_if (has_entry_conflict entries) (pr_fail PRICE_ENTRY_CONFLICT)) (\<lambda>_.
     bnd (throw_if (lifecycle = BookPublished \<and> entries = []) (pr_fail PRICE_COVERAGE_MISSING)) (\<lambda>_.
     bnd (pr_reference (fld input ''priceBookReference'')) (\<lambda>book.
     bnd (pr_reference (fld input ''versionReference'')) (\<lambda>ver.
     bnd (pr_reference (fld input ''brandReference'')) (\<lambda>brand.
     bnd (pr_code (fld input ''stableCode'')) (\<lambda>stable.
     bnd (pr_digest (fld input ''snapshotDigest'')) (\<lambda>dig.
     bnd (pr_timestamp (fld input ''createdAt'')) (\<lambda>created.
     Inr \<lparr>pb_priceBookReference = book, pb_versionReference = ver, pb_brandReference = brand,
          pb_stableCode = stable, pb_aggregateVersion = agg, pb_versionNumber = num,
          pb_snapshotDigest = dig, pb_lifecycle = lifecycle, pb_currencyMetadata = meta,
          pb_entries = entries, pb_createdAt = created\<rparr>)))))))))))))))))"

section \<open>Resolution\<close>

definition isEffective :: "price_entry \<Rightarrow> int \<Rightarrow> bool" where
  "isEffective entry at \<longleftrightarrow>
     ms_le (date_parse (zb_instant (ep_effectiveFrom (en_effectivePeriod entry)))) (Some at) \<and>
     (case ep_effectiveUntil (en_effectivePeriod entry) of None \<Rightarrow> True
      | Some u \<Rightarrow> ms_less (Some at) (date_parse (zb_instant u)))"

definition scopeMatches :: "price_entry \<Rightarrow> js \<Rightarrow> bool" where
  "scopeMatches entry context =
     (case en_scopeKind entry of
        PsBrand \<Rightarrow> en_scopeReference entry = None
      | PsRegion \<Rightarrow> js_opt JStr (en_scopeReference entry) = fld context ''regionReference''
      | PsStoreGroup \<Rightarrow> js_opt JStr (en_scopeReference entry) = fld context ''storeGroupReference''
      | PsStore \<Rightarrow> js_opt JStr (en_scopeReference entry) = fld context ''storeReference'')"

fun scope_base :: "price_scope_kind \<Rightarrow> int" where
  "scope_base PsStore = 1"
| "scope_base PsStoreGroup = 3"
| "scope_base PsRegion = 5"
| "scope_base PsBrand = 7"

definition is_qualified :: "price_entry \<Rightarrow> bool" where
  "is_qualified entry \<longleftrightarrow> en_channelCode entry \<noteq> None \<or> en_orderType entry \<noteq> None"

definition priority :: "price_entry \<Rightarrow> int" where
  "priority entry =
     (let base = scope_base (en_scopeKind entry) in if is_qualified entry then base else base + 1)"

definition entry_matches :: "js \<Rightarrow> int \<Rightarrow> price_entry \<Rightarrow> bool" where
  "entry_matches context at entry \<longleftrightarrow>
     fld context ''sellableReference'' = JStr (en_sellableReference entry) \<and>
     scopeMatches entry context \<and>
     (case en_channelCode entry of None \<Rightarrow> True | Some c \<Rightarrow> fld context ''channelCode'' = JStr c) \<and>
     (case en_orderType entry of None \<Rightarrow> True
      | Some t \<Rightarrow> fld context ''orderType'' = JStr (order_type_str t)) \<and>
     isEffective entry at"

definition resolved_of :: "price_book_snapshot \<Rightarrow> price_entry \<Rightarrow> resolved_price" where
  "resolved_of snapshot e =
     \<lparr>rp_priceBookReference = pb_priceBookReference snapshot,
      rp_versionReference = pb_versionReference snapshot,
      rp_snapshotDigest = pb_snapshotDigest snapshot,
      rp_entryReference = en_entryReference e, rp_sellableReference = en_sellableReference e,
      rp_amount = en_amount e, rp_scopeKind = en_scopeKind e,
      rp_scopeReference = en_scopeReference e, rp_channelCode = en_channelCode e,
      rp_orderType = en_orderType e, rp_priority = priority e,
      rp_effectivePeriod = en_effectivePeriod e, rp_reasonCode = en_reasonCode e\<rparr>"

definition resolvePrice :: "zone_render \<Rightarrow> js \<Rightarrow> js \<Rightarrow> resolved_price res" where
  "resolvePrice zr snapshotInput context =
     bnd (createPriceBookSnapshot zr snapshotInput) (\<lambda>snapshot.
     bnd (pr_exact context [''brandReference'', ''storeReference'', ''storeGroupReference'',
            ''regionReference'', ''sellableReference'', ''channelCode'', ''orderType'',
            ''currencyCode'', ''evaluatedAt'']) (\<lambda>_.
     bnd (pr_timestamp (fld context ''evaluatedAt'')) (\<lambda>evaluatedAt.
     bnd (pr_reference (fld context ''brandReference'')) (\<lambda>brand.
     bnd (throw_if (pb_brandReference snapshot \<noteq> brand \<or>
            fld context ''currencyCode'' \<noteq> JStr (cm_currencyCode (pb_currencyMetadata snapshot)))
            (pr_fail PRICE_SCOPE_MISMATCH)) (\<lambda>_.
     bnd (throw_if (pb_lifecycle snapshot \<noteq> BookPublished) (pr_fail PRICE_BOOK_NOT_PUBLISHED)) (\<lambda>_.
     let found = sort_key priority
           (filter (entry_matches context (ms_of evaluatedAt)) (pb_entries snapshot)) in
     (case found of
        [] \<Rightarrow> Inl (pr_fail PRICE_COVERAGE_MISSING)
      | selected # _ \<Rightarrow>
          bnd (throw_if (length (filter (\<lambda>e. priority e = priority selected) found) \<noteq> 1)
                 (pr_fail PRICE_ENTRY_CONFLICT)) (\<lambda>_.
          Inr (resolved_of snapshot selected)))))))))"

fun resolve_each :: "zone_render \<Rightarrow> js \<Rightarrow> js list \<Rightarrow> unit res" where
  "resolve_each zr snapshot [] = Inr ()"
| "resolve_each zr snapshot (context # contexts) =
     bnd (resolvePrice zr snapshot context) (\<lambda>_. resolve_each zr snapshot contexts)"

definition validatePriceCoverage :: "zone_render \<Rightarrow> js \<Rightarrow> js \<Rightarrow> unit res" where
  "validatePriceCoverage zr snapshot contexts =
     bnd (throw_if (\<not> is_array contexts \<or> elements contexts = []) (pr_fail PRICE_COVERAGE_MISSING)) (\<lambda>_.
     resolve_each zr snapshot (elements contexts))"

datatype coverage_status = Covered | Missing | Conflicting

record price_coverage_result =
  pc_context :: js
  pc_status :: coverage_status
  pc_resolved :: "resolved_price option"

definition analyze_context :: "zone_render \<Rightarrow> js \<Rightarrow> js \<Rightarrow> price_coverage_result res" where
  "analyze_context zr snapshot context =
     catching
       (bnd (resolvePrice zr snapshot context) (\<lambda>r.
        Inr \<lparr>pc_context = context, pc_status = Covered, pc_resolved = Some r\<rparr>))
       (\<lambda>error.
          if error = pr_fail PRICE_COVERAGE_MISSING
          then Inr \<lparr>pc_context = context, pc_status = Missing, pc_resolved = None\<rparr>
          else if error = pr_fail PRICE_ENTRY_CONFLICT
          then Inr \<lparr>pc_context = context, pc_status = Conflicting, pc_resolved = None\<rparr>
          else Inl error)"

definition analyzePriceCoverage :: "zone_render \<Rightarrow> js \<Rightarrow> js \<Rightarrow> price_coverage_result list res" where
  "analyzePriceCoverage zr snapshot contexts =
     bnd (throw_if (\<not> is_array contexts \<or> elements contexts = []) (pr_fail PRICE_COVERAGE_MISSING)) (\<lambda>_.
     map_res (analyze_context zr snapshot) (elements contexts))"

section \<open>Properties of the snapshot\<close>

lemma pr_parse_Inr [res_simps]:
  "pr_exact v fs = Inr u \<longleftrightarrow> has_shape v fs"
  "pr_reference v = Inr s \<longleftrightarrow> v = JStr s \<and> uuid_v7 s"
  "pr_code v = Inr s \<longleftrightarrow> v = JStr s \<and> length s \<le> 64 \<and> pricing_code_format s"
  "pr_digest v = Inr s \<longleftrightarrow> v = JStr s \<and> sha256_digest s"
  "pr_timestamp v = Inr s \<longleftrightarrow> v = JStr s \<and> parseable_instant s"
  "pr_period zr v = Inr p \<longleftrightarrow> createEffectivePeriod zr v = Inr p"
  by (simp_all add: pr_exact_def pr_reference_def pr_code_def pr_digest_def pr_timestamp_def
      pr_period_def res_simps)

text \<open>The module's overlap test is the shared one.\<close>

lemma pr_overlaps_eq: "pr_overlaps l r = periodsOverlap (periodValue l) (periodValue r)"
  by (auto simp: pr_overlaps_def periodsOverlap_def before_until_def periodValue_def Let_def
      split: option.splits)

definition wf_entry :: "string \<Rightarrow> price_entry \<Rightarrow> bool" where
  "wf_entry currency e \<longleftrightarrow>
     wf_period (periodValue (en_effectivePeriod e)) \<and> valid_money (en_amount e) \<and>
     0 \<le> amountMinor (en_amount e) \<and> currencyCode (en_amount e) = currency \<and>
     (en_scopeKind e = PsBrand \<longleftrightarrow> en_scopeReference e = None)"

lemma createEntry_wf:
  assumes "createEntry zr cur v = Inr e"
  shows "wf_entry cur e"
proof -
  note a = assms [unfolded createEntry_def Let_def res_simps]
  from a have "\<exists>p. createEffectivePeriod zr p = Inr (en_effectivePeriod e)"
    by (elim exE conjE, clarify) auto
  then have "wf_period (periodValue (en_effectivePeriod e))" using createEffectivePeriod_wf by blast
  moreover from a have "\<exists>m. createMoney m = Inr (en_amount e)"
    by (elim exE conjE, clarify) auto
  then have "valid_money (en_amount e)" using createMoney_valid by blast
  moreover from a have "0 \<le> amountMinor (en_amount e) \<and> currencyCode (en_amount e) = cur \<and>
     (en_scopeKind e = PsBrand \<longleftrightarrow> en_scopeReference e = None)"
    by (elim exE conjE, clarify) auto
  ultimately show ?thesis by (simp add: wf_entry_def)
qed

lemma isEffective_iff:
  "wf_period (periodValue (en_effectivePeriod e)) \<Longrightarrow>
    isEffective e t \<longleftrightarrow> period_start (periodValue (en_effectivePeriod e)) \<le> t \<and>
      (\<forall>u. period_end (periodValue (en_effectivePeriod e)) = Some u \<longrightarrow> t < u)"
  by (auto simp: isEffective_def wf_period_def period_start_def period_end_def periodValue_def
      date_parse_canonical split: option.splits)

lemma both_effective_overlap:
  assumes "wf_period (periodValue (en_effectivePeriod e))" "wf_period (periodValue (en_effectivePeriod f))"
    and "isEffective e t" "isEffective f t"
  shows "pr_overlaps (en_effectivePeriod e) (en_effectivePeriod f)"
  using assms
  by (auto simp: pr_overlaps_eq periodsOverlap_windows isEffective_iff windows_overlap_def
      split: option.splits)

lemma pr_overlaps_sym: "pr_overlaps l r = pr_overlaps r l"
  by (auto simp: pr_overlaps_def Let_def)

lemma no_entry_conflict:
  assumes "\<not> has_entry_conflict es" and "i < length es" "j < length es" "i \<noteq> j"
    and "sameResolutionIdentity (es ! i) (es ! j)"
  shows "\<not> pr_overlaps (en_effectivePeriod (es ! i)) (en_effectivePeriod (es ! j))"
proof -
  have step: "\<not> (sameResolutionIdentity (es ! i) (es ! j) \<and>
      pr_overlaps (en_effectivePeriod (es ! i)) (en_effectivePeriod (es ! j)))"
    if "\<not> has_entry_conflict es" "i < j" "j < length es" for es i j
    using that
  proof (induction es arbitrary: i j rule: has_entry_conflict.induct)
    case (2 l rs)
    then show ?case by (cases i; cases j) (auto simp: list_ex_iff)
  qed simp
  consider "i < j" | "j < i" using assms(4) by linarith
  then show ?thesis
  proof cases
    case 1
    with step [OF assms(1) 1] assms show ?thesis by blast
  next
    case 2
    have "sameResolutionIdentity (es ! j) (es ! i)"
      using assms(5) by (simp add: sameResolutionIdentity_def)
    with step [OF assms(1) 2] assms pr_overlaps_sym show ?thesis by blast
  qed
qed

lemma price_book_parts:
  assumes "createPriceBookSnapshot zr v = Inr b"
  shows "map_res (createEntry zr (cm_currencyCode (pb_currencyMetadata b))) (elements (fld v ''entries''))
      = Inr (pb_entries b)"
    "distinct (map en_entryReference (pb_entries b))" "\<not> has_entry_conflict (pb_entries b)"
    "pb_lifecycle b = BookPublished \<Longrightarrow> pb_entries b \<noteq> []"
proof -
  note a = assms [unfolded createPriceBookSnapshot_def Let_def res_simps]
  from a show "map_res (createEntry zr (cm_currencyCode (pb_currencyMetadata b)))
      (elements (fld v ''entries'')) = Inr (pb_entries b)"
    by (elim exE conjE, clarify) simp
  from a show "distinct (map en_entryReference (pb_entries b))" by (elim exE conjE, clarify) simp
  from a show "\<not> has_entry_conflict (pb_entries b)" by (elim exE conjE, clarify) simp
  from a show "pb_entries b \<noteq> []" if "pb_lifecycle b = BookPublished"
    using that by (elim exE conjE, clarify) simp
qed

lemma price_book_wf:
  assumes "createPriceBookSnapshot zr v = Inr b" and "e \<in> set (pb_entries b)"
  shows "wf_entry (cm_currencyCode (pb_currencyMetadata b)) e"
  using map_res_in [OF price_book_parts(1) [OF assms(1)] assms(2)] createEntry_wf by blast

section \<open>Properties of resolution\<close>

lemma createPriceBookSnapshot_identity:
  assumes b: "createPriceBookSnapshot zr v = Inr b"
    and ij: "i < length (pb_entries b)" "j < length (pb_entries b)" "i \<noteq> j"
    and t: "isEffective (pb_entries b ! i) t" "isEffective (pb_entries b ! j) t"
  shows "\<not> sameResolutionIdentity (pb_entries b ! i) (pb_entries b ! j)"
  using no_entry_conflict [OF price_book_parts(3) [OF b] ij] t price_book_wf [OF b] ij(1,2)
    both_effective_overlap [of "pb_entries b ! i" "pb_entries b ! j" t]
  by (auto simp: wf_entry_def)

text \<open>
  C8. An accepted price book is free of conflicts: its entries have distinct references, non-negative
  amounts in the book's currency and well-formed periods, no two of them with the same sellable,
  scope, channel and order type are in force at the same time, and a published book is not empty.
\<close>

theorem createPriceBookSnapshot_conflict_free:
  assumes "createPriceBookSnapshot zr v = Inr b"
  shows "distinct (map en_entryReference (pb_entries b)) \<and>
    list_all (wf_entry (cm_currencyCode (pb_currencyMetadata b))) (pb_entries b) \<and>
    (\<forall>i < length (pb_entries b). \<forall>j < length (pb_entries b). \<forall>t.
       i \<noteq> j \<and> isEffective (pb_entries b ! i) t \<and> isEffective (pb_entries b ! j) t \<longrightarrow>
       \<not> sameResolutionIdentity (pb_entries b ! i) (pb_entries b ! j)) \<and>
    (pb_lifecycle b = BookPublished \<longrightarrow> pb_entries b \<noteq> [])"
proof -
  note pp = price_book_parts [OF assms]
  have wf: "wf_entry (cm_currencyCode (pb_currencyMetadata b)) e" if "e \<in> set (pb_entries b)" for e
    using price_book_wf [OF assms that] .
  have "\<not> sameResolutionIdentity (pb_entries b ! i) (pb_entries b ! j)"
    if "i < length (pb_entries b)" "j < length (pb_entries b)" "i \<noteq> j"
      "isEffective (pb_entries b ! i) t" "isEffective (pb_entries b ! j) t" for i j t
    using createPriceBookSnapshot_identity [OF assms that] .
  with wf pp(2,4) show ?thesis by (auto simp: list_all_iff)
qed

definition example_entry :: "string \<Rightarrow> js \<Rightarrow> js \<Rightarrow> js \<Rightarrow> int \<Rightarrow> js" where
  "example_entry ref kind scope channel amount = JObj
     [(''entryReference'', JStr ref),
      (''sellableReference'', JStr ''01890000-0000-7000-8000-000000000030''),
      (''scopeKind'', kind), (''scopeReference'', scope), (''channelCode'', channel),
      (''orderType'', JNull), (''amount'', money_js \<lparr>amountMinor = amount, currencyCode = ''CAD''\<rparr>),
      (''effectivePeriod'', example_period_js), (''reasonCode'', JStr ''LIST'')]"

definition example_price_book :: js where
  "example_price_book = JObj
     [(''priceBookReference'', JStr ''01890000-0000-7000-8000-000000000031''),
      (''versionReference'', JStr ''01890000-0000-7000-8000-000000000032''),
      (''brandReference'', JStr ''01890000-0000-7000-8000-000000000012''),
      (''stableCode'', JStr ''LIST''), (''aggregateVersion'', JNum 1), (''versionNumber'', JNum 1),
      (''snapshotDigest'', JStr example_digest), (''lifecycle'', JStr ''Published''),
      (''currencyMetadata'', currency_metadata_js
         \<lparr>cm_currencyCode = ''CAD'', cm_minorUnitExponent = 2, cm_metadataVersion = 1,
          cm_metadataVersionReference = ''01890000-0000-7000-8000-000000000003'',
          cm_metadataDigest = example_digest\<rparr>),
      (''entries'', JArr
         [example_entry ''01890000-0000-7000-8000-000000000041'' (JStr ''Brand'') JNull JNull 1500,
          example_entry ''01890000-0000-7000-8000-000000000042'' (JStr ''Store'')
            (JStr ''01890000-0000-7000-8000-000000000013'') JNull 1400,
          example_entry ''01890000-0000-7000-8000-000000000043'' (JStr ''Store'')
            (JStr ''01890000-0000-7000-8000-000000000013'') (JStr ''KIOSK'') 1300]),
      (''createdAt'', JStr ''2025-12-02T00:00:00.000Z'')]"

definition example_price_context :: "string \<Rightarrow> js" where
  "example_price_context channel = JObj
     [(''brandReference'', JStr ''01890000-0000-7000-8000-000000000012''),
      (''storeReference'', JStr ''01890000-0000-7000-8000-000000000013''),
      (''storeGroupReference'', JNull), (''regionReference'', JNull),
      (''sellableReference'', JStr ''01890000-0000-7000-8000-000000000030''),
      (''channelCode'', JStr channel), (''orderType'', JStr ''DineIn''),
      (''currencyCode'', JStr ''CAD''), (''evaluatedAt'', JStr ''2026-06-01T12:00:00.000Z'')]"

lemma example_prices:
  "map_sum (\<lambda>e. e) (\<lambda>b. length (pb_entries b)) (createPriceBookSnapshot example_zone example_price_book) = Inr 3"
  "map_sum (\<lambda>e. e) (\<lambda>r. (amountMinor (rp_amount r), rp_priority r))
     (resolvePrice example_zone example_price_book (example_price_context ''KIOSK'')) = Inr (1300, 1)"
  by code_simp+

lemma map_sum_Inr: "map_sum f g x = Inr y \<longleftrightarrow> (\<exists>z. x = Inr z \<and> y = g z)"
  by (cases x) auto

theorem createPriceBookSnapshot_conflict_free_witness:
  "\<exists>b. createPriceBookSnapshot example_zone example_price_book = Inr b \<and> length (pb_entries b) = 3 \<and>
     distinct (map en_entryReference (pb_entries b))"
proof -
  obtain b where b: "createPriceBookSnapshot example_zone example_price_book = Inr b" "length (pb_entries b) = 3"
    using example_prices(1) by (auto simp: map_sum_Inr)
  from createPriceBookSnapshot_conflict_free [OF b(1)] b show ?thesis by blast
qed

text \<open>The list of matching entries, most specific first.\<close>

definition candidates :: "price_book_snapshot \<Rightarrow> js \<Rightarrow> int \<Rightarrow> price_entry list" where
  "candidates b ctx t = filter (entry_matches ctx t) (pb_entries b)"

lemma sort_key_hd:
  assumes "sort_key f xs = y # ys"
  shows "y \<in> set xs \<and> (\<forall>x \<in> set xs. f y \<le> f x)"
proof -
  have "set (y # ys) = set xs" using assms by (metis set_sort)
  moreover have "sorted (map f (y # ys))" using assms by (metis sorted_sort_key)
  ultimately show ?thesis by (auto simp: set_eq_iff)
qed

lemma resolvePrice_Inr:
  assumes b: "createPriceBookSnapshot zr v = Inr b" and r: "resolvePrice zr v ctx = Inr r"
  shows "\<exists>at e. fld ctx ''evaluatedAt'' = JStr at \<and> parseable_instant at \<and>
    pb_lifecycle b = BookPublished \<and> e \<in> set (candidates b ctx (ms_of at)) \<and>
    (\<forall>f \<in> set (candidates b ctx (ms_of at)). priority e \<le> priority f) \<and>
    length (filter (\<lambda>f. priority f = priority e) (candidates b ctx (ms_of at))) = 1 \<and>
    r = resolved_of b e"
proof -
  from r obtain at where at: "fld ctx ''evaluatedAt'' = JStr at" "parseable_instant at"
      "pb_lifecycle b = BookPublished" and
    c: "(case sort_key priority (candidates b ctx (ms_of at)) of
        [] \<Rightarrow> Inl (pr_fail PRICE_COVERAGE_MISSING)
      | e # _ \<Rightarrow> bnd (throw_if (length (filter (\<lambda>f. priority f = priority e)
                     (sort_key priority (candidates b ctx (ms_of at)))) \<noteq> 1)
                 (pr_fail PRICE_ENTRY_CONFLICT)) (\<lambda>_. Inr (resolved_of b e))) = Inr r"
    unfolding resolvePrice_def b bnd_Inr Let_def candidates_def by (auto simp: res_simps)
  then obtain e es where e: "sort_key priority (candidates b ctx (ms_of at)) = e # es"
    by (cases "sort_key priority (candidates b ctx (ms_of at))") auto
  have "length (filter (\<lambda>f. priority f = priority e) (sort_key priority (candidates b ctx (ms_of at)))) =
      length (filter (\<lambda>f. priority f = priority e) (candidates b ctx (ms_of at)))"
    by (metis mset_filter mset_sort size_mset)
  with c e have "length (filter (\<lambda>f. priority f = priority e) (candidates b ctx (ms_of at))) = 1"
    "r = resolved_of b e"
    by (auto simp: res_simps throw_if_def split: if_splits)
  with at sort_key_hd [OF e] show ?thesis by blast
qed

text \<open>
  C7. \<open>resolvePrice\<close> selects the most specific price: the resolved price is an entry of the published
  book that matches the context at the evaluation instant, every other matching entry has a strictly
  larger priority number, and the amount is non-negative and in the currency of the book.
\<close>

theorem resolvePrice_most_specific:
  assumes b: "createPriceBookSnapshot zr v = Inr b" and r: "resolvePrice zr v ctx = Inr r"
  shows "\<exists>at e. fld ctx ''evaluatedAt'' = JStr at \<and> e \<in> set (pb_entries b) \<and>
    entry_matches ctx (ms_of at) e \<and> r = resolved_of b e \<and> pb_lifecycle b = BookPublished \<and>
    (\<forall>f \<in> set (pb_entries b). entry_matches ctx (ms_of at) f \<and> f \<noteq> e \<longrightarrow> priority e < priority f) \<and>
    0 \<le> amountMinor (rp_amount r) \<and> currencyCode (rp_amount r) = cm_currencyCode (pb_currencyMetadata b)"
proof -
  from resolvePrice_Inr [OF b r] obtain at e where
    at: "fld ctx ''evaluatedAt'' = JStr at" "pb_lifecycle b = BookPublished" and
    e: "e \<in> set (candidates b ctx (ms_of at))" "r = resolved_of b e" and
    least: "\<forall>f \<in> set (candidates b ctx (ms_of at)). priority e \<le> priority f" and
    one: "length (filter (\<lambda>f. priority f = priority e) (candidates b ctx (ms_of at))) = 1"
    by blast
  have strict: "priority e < priority f" if f: "f \<in> set (candidates b ctx (ms_of at))" "f \<noteq> e" for f
  proof (rule ccontr)
    assume "\<not> priority e < priority f"
    then have "priority f = priority e" using least f(1) by force
    with f e(1) have "{e, f} \<subseteq> set (filter (\<lambda>f. priority f = priority e) (candidates b ctx (ms_of at)))" by simp
    moreover obtain y where "filter (\<lambda>f. priority f = priority e) (candidates b ctx (ms_of at)) = [y]"
      using one by (metis One_nat_def length_0_conv length_Suc_conv)
    ultimately show False using f(2) by simp
  qed
  have "wf_entry (cm_currencyCode (pb_currencyMetadata b)) e"
    using price_book_wf [OF b] e(1) by (simp add: candidates_def)
  with at e strict show ?thesis
    by (intro exI [of _ at] exI [of _ e]) (auto simp: candidates_def wf_entry_def resolved_of_def)
qed

theorem resolvePrice_most_specific_witness:
  "\<exists>b r e. createPriceBookSnapshot example_zone example_price_book = Inr b \<and>
     resolvePrice example_zone example_price_book (example_price_context ''KIOSK'') = Inr r \<and>
     amountMinor (rp_amount r) = 1300 \<and> e \<in> set (pb_entries b) \<and> r = resolved_of b e"
proof -
  obtain b where b: "createPriceBookSnapshot example_zone example_price_book = Inr b"
    using example_prices(1) by (auto simp: map_sum_Inr)
  obtain r where r: "resolvePrice example_zone example_price_book (example_price_context ''KIOSK'') = Inr r"
    "amountMinor (rp_amount r) = 1300"
    using example_prices(2) by (auto simp: map_sum_Inr)
  from resolvePrice_most_specific [OF b r(1)] b r show ?thesis by blast
qed

lemma priority_eq:
  "priority e = priority f \<longleftrightarrow> en_scopeKind e = en_scopeKind f \<and> is_qualified e = is_qualified f"
  by (cases "en_scopeKind e"; cases "en_scopeKind f") (auto simp: priority_def)

lemma resolvePrice_conflict:
  assumes b: "createPriceBookSnapshot zr v = Inr b"
    and r: "resolvePrice zr v ctx = Inl (pr_fail PRICE_ENTRY_CONFLICT)"
  shows "\<exists>t i j. i < length (pb_entries b) \<and> j < length (pb_entries b) \<and> i \<noteq> j \<and>
    entry_matches ctx t (pb_entries b ! i) \<and> entry_matches ctx t (pb_entries b ! j) \<and>
    priority (pb_entries b ! i) = priority (pb_entries b ! j)"
proof -
  from r obtain at where
    c: "(case sort_key priority (candidates b ctx (ms_of at)) of
        [] \<Rightarrow> Inl (pr_fail PRICE_COVERAGE_MISSING)
      | e # _ \<Rightarrow> bnd (throw_if (length (filter (\<lambda>f. priority f = priority e)
                     (sort_key priority (candidates b ctx (ms_of at)))) \<noteq> 1)
                 (pr_fail PRICE_ENTRY_CONFLICT)) (\<lambda>_. Inr (resolved_of b e))) = Inl (pr_fail PRICE_ENTRY_CONFLICT)"
    unfolding resolvePrice_def b bnd_Inr Let_def candidates_def
    by (auto simp: res_simps pr_fail_def pr_exact_def pr_timestamp_def pr_reference_def)
  then obtain e es where e: "sort_key priority (candidates b ctx (ms_of at)) = e # es"
    by (cases "sort_key priority (candidates b ctx (ms_of at))") (auto simp: pr_fail_def)
  let ?Q = "\<lambda>f. priority f = priority e"
  have "length (filter ?Q (sort_key priority (candidates b ctx (ms_of at)))) =
      length (filter ?Q (candidates b ctx (ms_of at)))"
    by (metis mset_filter mset_sort size_mset)
  with c e have n1: "length (filter ?Q (candidates b ctx (ms_of at))) \<noteq> 1"
    by (auto simp: throw_if_def split: if_splits)
  have "e \<in> set (filter ?Q (candidates b ctx (ms_of at)))" using sort_key_hd [OF e] by simp
  then have "length (filter ?Q (candidates b ctx (ms_of at))) \<noteq> 0"
    by (metis empty_iff length_0_conv list.set(1))
  with n1 have two: "1 < length (filter ?Q (candidates b ctx (ms_of at)))" by linarith
  let ?R = "\<lambda>f. entry_matches ctx (ms_of at) f \<and> ?Q f"
  have "filter ?Q (candidates b ctx (ms_of at)) = filter ?R (pb_entries b)"
    by (simp add: candidates_def conj_commute)
  with two have "1 < card {i. i < length (pb_entries b) \<and> ?R (pb_entries b ! i)}"
    by (simp add: length_filter_conv_card)
  then obtain i j where "i \<noteq> j" "i \<in> {i. i < length (pb_entries b) \<and> ?R (pb_entries b ! i)}"
    "j \<in> {i. i < length (pb_entries b) \<and> ?R (pb_entries b ! i)}"
    by (metis (no_types, lifting) card_le_Suc0_iff_eq card.infinite not_le One_nat_def
        less_Suc_eq_le not_less_eq zero_less_one_class.zero_le_one zero_order(3))
  then show ?thesis by (intro exI [of _ "ms_of at"] exI [of _ i] exI [of _ j]) auto
qed

lemma js_opt_JStr_inj:
  "js_opt JStr a = v \<Longrightarrow> js_opt JStr b = v \<Longrightarrow> a = b"
  by (cases a; cases b) auto

text \<open>
  Resolution against an accepted book is ambiguous only when two matching entries of the same
  scope level are qualified differently (one by channel and one by order type, or one by both): two
  unqualified entries, or two entries with the same qualifiers, never compete.
\<close>

theorem resolvePrice_ambiguity:
  assumes b: "createPriceBookSnapshot zr v = Inr b"
    and r: "resolvePrice zr v ctx = Inl (pr_fail PRICE_ENTRY_CONFLICT)"
  shows "\<exists>e \<in> set (pb_entries b). \<exists>f \<in> set (pb_entries b).
    en_scopeKind e = en_scopeKind f \<and> en_scopeReference e = en_scopeReference f \<and>
    is_qualified e \<and> is_qualified f \<and>
    (en_channelCode e \<noteq> en_channelCode f \<or> en_orderType e \<noteq> en_orderType f)"
proof -
  from resolvePrice_conflict [OF b r] obtain t i j where
    ij: "i < length (pb_entries b)" "j < length (pb_entries b)" "i \<noteq> j" and
    m: "entry_matches ctx t (pb_entries b ! i)" "entry_matches ctx t (pb_entries b ! j)" and
    p: "priority (pb_entries b ! i) = priority (pb_entries b ! j)" by blast
  let ?e = "pb_entries b ! i" and ?f = "pb_entries b ! j"
  have "\<not> sameResolutionIdentity ?e ?f"
    using createPriceBookSnapshot_identity [OF b ij, of t] m by (simp add: entry_matches_def)
  moreover have k: "en_scopeKind ?e = en_scopeKind ?f" "is_qualified ?e = is_qualified ?f"
    using p by (simp_all add: priority_eq)
  moreover have "en_scopeReference ?e = en_scopeReference ?f"
  proof -
    have "scopeMatches ?e ctx" "scopeMatches ?f ctx" using m by (simp_all add: entry_matches_def)
    with k(1) show ?thesis
      by (cases "en_scopeKind ?f") (auto simp: scopeMatches_def dest: js_opt_JStr_inj)
  qed
  moreover have "en_sellableReference ?e = en_sellableReference ?f"
    using m by (auto simp: entry_matches_def)
  ultimately have d: "en_channelCode ?e \<noteq> en_channelCode ?f \<or> en_orderType ?e \<noteq> en_orderType ?f"
    by (auto simp: sameResolutionIdentity_def)
  then have "is_qualified ?e" using k(2) by (auto simp: is_qualified_def)
  with d k \<open>en_scopeReference ?e = en_scopeReference ?f\<close> ij show ?thesis
    by (intro bexI [of _ ?e] bexI [of _ ?f]) auto
qed

section \<open>Coverage\<close>

lemma analyze_context_Inr:
  assumes "analyze_context zr s c = Inr r"
  shows "pc_context r = c \<and> resolvePrice zr s c =
    (case pc_status r of Covered \<Rightarrow> Inr (the (pc_resolved r))
     | Missing \<Rightarrow> Inl (pr_fail PRICE_COVERAGE_MISSING)
     | Conflicting \<Rightarrow> Inl (pr_fail PRICE_ENTRY_CONFLICT))"
  using assms by (cases "resolvePrice zr s c") (auto simp: analyze_context_def split: if_splits)

lemma resolve_each_Inr: "resolve_each zr s cs = Inr u \<longleftrightarrow> (\<forall>c \<in> set cs. \<exists>r. resolvePrice zr s c = Inr r)"
  by (induction zr s cs rule: resolve_each.induct) (auto simp: res_simps)

text \<open>
  The coverage report agrees with resolution: it lists the contexts in order, each with the
  outcome \<open>resolvePrice\<close> has for it, and \<open>validatePriceCoverage\<close> passes on a list of contexts exactly
  when the report marks every one of them as covered.
\<close>

theorem analyzePriceCoverage_agrees:
  assumes "analyzePriceCoverage zr s (JArr cs) = Inr report"
  shows "map pc_context report = cs \<and>
    list_all (\<lambda>r. resolvePrice zr s (pc_context r) =
      (case pc_status r of Covered \<Rightarrow> Inr (the (pc_resolved r))
       | Missing \<Rightarrow> Inl (pr_fail PRICE_COVERAGE_MISSING)
       | Conflicting \<Rightarrow> Inl (pr_fail PRICE_ENTRY_CONFLICT))) report \<and>
    (validatePriceCoverage zr s (JArr cs) = Inr () \<longleftrightarrow> list_all (\<lambda>r. pc_status r = Covered) report)"
proof -
  from assms have ne: "cs \<noteq> []" and "map_res (analyze_context zr s) cs = Inr report"
    by (auto simp: analyzePriceCoverage_def res_simps)
  then have l: "list_all2 (\<lambda>c r. analyze_context zr s c = Inr r) cs report" by (simp add: map_res_Inr_iff)
  then have ctx: "map pc_context report = cs"
    by (induction rule: list_all2_induct) (auto dest: analyze_context_Inr)
  moreover have each: "list_all (\<lambda>r. resolvePrice zr s (pc_context r) =
      (case pc_status r of Covered \<Rightarrow> Inr (the (pc_resolved r))
       | Missing \<Rightarrow> Inl (pr_fail PRICE_COVERAGE_MISSING)
       | Conflicting \<Rightarrow> Inl (pr_fail PRICE_ENTRY_CONFLICT))) report"
    using l by (induction rule: list_all2_induct) (auto dest: analyze_context_Inr)
  moreover have "(\<exists>p. resolvePrice zr s (pc_context r) = Inr p) \<longleftrightarrow> pc_status r = Covered"
    if "r \<in> set report" for r
    using each that by (cases "pc_status r") (auto simp: list_all_iff)
  then have "(\<forall>c \<in> set cs. \<exists>p. resolvePrice zr s c = Inr p) \<longleftrightarrow> list_all (\<lambda>r. pc_status r = Covered) report"
    unfolding ctx [symmetric] by (auto simp: list_all_iff)
  ultimately show ?thesis
    using ne by (simp add: validatePriceCoverage_def resolve_each_Inr)
qed

theorem analyzePriceCoverage_agrees_witness:
  "\<exists>report. analyzePriceCoverage example_zone example_price_book (JArr [example_price_context ''KIOSK'']) = Inr report \<and>
     map pc_context report = [example_price_context ''KIOSK'']"
proof -
  obtain p where p: "resolvePrice example_zone example_price_book (example_price_context ''KIOSK'') = Inr p"
    using example_prices(2) by (auto simp: map_sum_Inr)
  have "analyzePriceCoverage example_zone example_price_book (JArr [example_price_context ''KIOSK'']) =
      Inr [\<lparr>pc_context = example_price_context ''KIOSK'', pc_status = Covered, pc_resolved = Some p\<rparr>]"
    by (simp add: analyzePriceCoverage_def analyze_context_def p)
  from this analyzePriceCoverage_agrees [OF this, THEN conjunct1] show ?thesis
    by (intro exI conjI)
qed

text \<open>A witness for the ambiguity: a channel entry and an order-type entry of the same store.\<close>

definition example_ambiguous_book :: js where
  "example_ambiguous_book = (case example_price_book of
     JObj ps \<Rightarrow> JObj (map (\<lambda>(k, v). if k = ''entries'' then
       (k, JArr [example_entry ''01890000-0000-7000-8000-000000000043'' (JStr ''Brand'') JNull (JStr ''KIOSK'') 1300,
          (case example_entry ''01890000-0000-7000-8000-000000000044'' (JStr ''Brand'') JNull JNull 1200 of
             JObj qs \<Rightarrow> JObj (map (\<lambda>(k, v). if k = ''orderType'' then (k, JStr ''DineIn'') else (k, v)) qs)
           | v \<Rightarrow> v)]) else (k, v)) ps)
   | v \<Rightarrow> v)"

theorem resolvePrice_ambiguity_witness:
  "\<exists>b. createPriceBookSnapshot example_zone example_ambiguous_book = Inr b \<and>
     (\<exists>e \<in> set (pb_entries b). \<exists>f \<in> set (pb_entries b). is_qualified e \<and> is_qualified f \<and>
        (en_channelCode e \<noteq> en_channelCode f \<or> en_orderType e \<noteq> en_orderType f))"
proof -
  have n: "map_sum (\<lambda>e. e) (\<lambda>b. length (pb_entries b)) (createPriceBookSnapshot example_zone example_ambiguous_book) = Inr 2"
    by code_simp
  have r: "resolvePrice example_zone example_ambiguous_book (example_price_context ''KIOSK'') = Inl (pr_fail PRICE_ENTRY_CONFLICT)"
    by code_simp
  from n obtain b where b: "createPriceBookSnapshot example_zone example_ambiguous_book = Inr b"
    by (auto simp: map_sum_Inr)
  from resolvePrice_ambiguity [OF b r] b show ?thesis by blast
qed

end
