(* ===== verification/CheckedSum.thy ===== *)
theory CheckedSum
  imports MoneyTax
begin

text \<open>
  Sums of money built with a checked addition. The locale states what callers rely on: an addition
  that returns adds the amounts and keeps the currency. Its lemmas are about accumulating a list;
  the interpretation is on \<open>addMoney\<close>.
\<close>

text \<open>A running total: \<open>acc = add(acc, x)\<close> for each \<open>x\<close> in order, the first throw ending the loop.\<close>

fun accumulate :: "('m \<Rightarrow> 'm \<Rightarrow> 'm res) \<Rightarrow> 'm \<Rightarrow> 'm list \<Rightarrow> 'm res" where
  "accumulate add acc [] = Inr acc"
| "accumulate add acc (x # xs) = bnd (add acc x) (\<lambda>a. accumulate add a xs)"

lemma accumulate_append:
  "accumulate add a (xs @ ys) = bnd (accumulate add a xs) (\<lambda>b. accumulate add b ys)"
  by (induction xs arbitrary: a) (simp_all add: bnd_assoc)

locale checked_addition =
  fixes add :: "'m \<Rightarrow> 'm \<Rightarrow> 'm res"
    and amount :: "'m \<Rightarrow> int"
    and unit_of :: "'m \<Rightarrow> 'u"
    and ok :: "'m \<Rightarrow> bool"
  assumes add_Inr: "ok a \<Longrightarrow> ok b \<Longrightarrow> add a b = Inr c \<Longrightarrow>
      ok c \<and> amount c = amount a + amount b \<and> unit_of c = unit_of a \<and> unit_of b = unit_of a"
begin

lemma accumulate_sum:
  assumes "accumulate add a xs = Inr r" and "ok a" and "list_all ok xs"
  shows "ok r \<and> amount r = amount a + sum_list (map amount xs) \<and> unit_of r = unit_of a \<and>
    list_all (\<lambda>x. unit_of x = unit_of a) xs"
  using assms
proof (induction xs arbitrary: a)
  case (Cons x xs)
  from Cons.prems obtain b where b: "add a x = Inr b" "accumulate add b xs = Inr r"
    by (auto simp: res_simps)
  with add_Inr [of a x b] Cons.prems have
    "ok b \<and> amount b = amount a + amount x \<and> unit_of b = unit_of a \<and> unit_of x = unit_of a" by simp
  with Cons.IH [OF b(2)] Cons.prems show ?case by simp
qed simp

lemma accumulate_nonneg:
  assumes "accumulate add a xs = Inr r" and "ok a" and "list_all ok xs" and "0 \<le> amount a"
    and "list_all (\<lambda>x. 0 \<le> amount x) xs"
  shows "0 \<le> amount r"
  using accumulate_sum [OF assms(1-3)] assms(4,5)
  by (auto simp: list_all_iff intro!: add_nonneg_nonneg sum_list_nonneg)

end

definition money_add :: "money \<Rightarrow> money \<Rightarrow> money res" where
  "money_add l r = addMoney (money_js l) (money_js r)"

interpretation money_sum: checked_addition money_add amountMinor currencyCode valid_money
proof
  fix a b c
  assume "valid_money a" "valid_money b" "money_add a b = Inr c"
  then show "valid_money c \<and> amountMinor c = amountMinor a + amountMinor b \<and>
      currencyCode c = currencyCode a \<and> currencyCode b = currencyCode a"
    by (auto simp: money_add_def addMoney_money_js valid_money_def split: if_splits)
qed

end
