(* ===== verification/PriceQuote.thy ===== *)
theory PriceQuote
  imports PriceResolution CheckedSum
begin

text \<open>
  Price quotes: \<open>packages/rms/pricing/src/domain/price-quote.ts\<close>. Every line of a cart is priced by
  \<open>resolvePrice\<close> and taxed by the components of \<open>resolveTaxConfiguration\<close>, in their order, with
  compounding; the totals are accumulated with checked addition while the lines are mapped.
\<close>

section \<open>Data\<close>

record price_quote_tax_line =
  ptl_taxAmount :: money
  ptl_explanation :: tax_calculation_explanation
  ptl_calculationOrder :: int
  ptl_compoundOnPriorTax :: bool
  ptl_ruleReference :: string

record price_quote_line =
  pql_lineReference :: string
  pql_sellableReference :: string
  pql_productVersionReference :: string
  pql_menuVersionReference :: string
  pql_quantity :: int
  pql_unitPrice :: money
  pql_subtotal :: money
  pql_discount :: money
  pql_tax :: money
  pql_fee :: money
  pql_total :: money
  pql_resolvedPrice :: resolved_price
  pql_taxResolution :: tax_configuration_resolution
  pql_taxLines :: "price_quote_tax_line list"

record price_quote_snapshot =
  pq_quoteReference :: string
  pq_quoteVersion :: int
  pq_brandReference :: string
  pq_storeReference :: string
  pq_cartReference :: string
  pq_cartVersion :: int
  pq_inputDigest :: string
  pq_currencyMetadata :: currency_metadata
  pq_subtotal :: money
  pq_discount :: money
  pq_tax :: money
  pq_fee :: money
  pq_total :: money
  pq_lines :: "price_quote_line list"
  pq_appliedPromotionReferences :: "string list"
  pq_warnings :: "string list"
  pq_blockingReasons :: "string list"
  pq_createdAt :: string
  pq_expiresAt :: string

section \<open>Operations\<close>

definition pq_fail :: "price_quote_code \<Rightarrow> err" where
  "pq_fail code = PriceQuoteError code"

definition pq_exact :: "js \<Rightarrow> string list \<Rightarrow> unit res" where
  "pq_exact value fs = throw_if (\<not> has_shape value fs) (pq_fail QUOTE_INPUT_INVALID)"

definition pq_at :: "js \<Rightarrow> string res" where
  "pq_at v = or_throw (str_if parseable_instant v) (pq_fail QUOTE_INPUT_INVALID)"

definition pq_reference :: "js \<Rightarrow> string res" where
  "pq_reference v = catching (parsePricingReference v) (\<lambda>_. Inl (pq_fail QUOTE_INPUT_INVALID))"

definition pq_digest :: "js \<Rightarrow> string res" where
  "pq_digest v = catching (parsePricingDigest v) (\<lambda>_. Inl (pq_fail QUOTE_INPUT_INVALID))"

definition zero :: "string \<Rightarrow> money res" where
  "zero currency = createMoney (JObj [(''amountMinor'', JBig 0), (''currencyCode'', JStr currency)])"

definition multiply :: "money \<Rightarrow> int \<Rightarrow> money res" where
  "multiply amount quantity =
     catching
       (createMoney (JObj [(''amountMinor'', JBig (amountMinor amount * quantity)),
                           (''currencyCode'', JStr (currencyCode amount))]))
       (\<lambda>_. Inl (pq_fail QUOTE_CALCULATION_FAILED))"

text \<open>
  \<open>===\<close> on two values of unknown type. Objects are compared by identity, and the two properties
  compared here are read from different objects, so they are equal only when they are the same
  primitive value.
\<close>

fun strict_eq :: "js \<Rightarrow> js \<Rightarrow> bool" where
  "strict_eq JUndefined JUndefined = True"
| "strict_eq JNull JNull = True"
| "strict_eq (JBool a) (JBool b) = (a = b)"
| "strict_eq (JNum a) (JNum b) = (a = b)"
| "strict_eq (JBig a) (JBig b) = (a = b)"
| "strict_eq (JStr a) (JStr b) = (a = b)"
| "strict_eq _ _ = False"

text \<open>The scope comparison of a line: the tax context is read only when the price context agrees.\<close>

definition line_scope :: "string \<Rightarrow> string \<Rightarrow> string \<Rightarrow> string \<Rightarrow> js \<Rightarrow> unit res" where
  "line_scope brand store currency createdAt line =
     (let pc = fld line ''priceContext''; tc = fld line ''taxContext'' in
      bnd (get_prop pc ''brandReference'') (\<lambda>pb.
      bnd (throw_if (pb \<noteq> JStr brand \<or> fld pc ''storeReference'' \<noteq> JStr store)
             (pq_fail QUOTE_SCOPE_MISMATCH)) (\<lambda>_.
      bnd (get_prop tc ''brandReference'') (\<lambda>tb.
      throw_if (tb \<noteq> JStr brand \<or> fld tc ''storeReference'' \<noteq> JStr store \<or>
                \<not> strict_eq (fld pc ''sellableReference'') (fld line ''sellableReference'') \<or>
                fld pc ''currencyCode'' \<noteq> JStr currency \<or> fld tc ''currencyCode'' \<noteq> JStr currency \<or>
                fld pc ''evaluatedAt'' \<noteq> JStr createdAt \<or> fld tc ''evaluatedAt'' \<noteq> JStr createdAt)
        (pq_fail QUOTE_SCOPE_MISMATCH)))))"

text \<open>
  The tax components of a line, with \<open>lineTax\<close> threaded through. \<open>tax_component\<close> is the body of the
  map; it returns the tax line and the new \<open>lineTax\<close>.
\<close>

definition tax_component ::
  "string \<Rightarrow> currency_metadata \<Rightarrow> money \<Rightarrow> money \<Rightarrow> resolved_tax_rule_component \<Rightarrow>
    (price_quote_tax_line \<times> money) res" where
  "tax_component lineReference meta lineSubtotal lineTax component =
     (let rule = rc_resolvedRule component in
      bnd (throw_if (rt_priceInclusion rule \<noteq> Exclusive) (pq_fail QUOTE_UNSUPPORTED_TAX_MODE)) (\<lambda>_.
      bnd (if rc_compoundOnPriorTax component
           then addMoney (money_js lineSubtotal) (money_js lineTax) else Inr lineSubtotal) (\<lambda>basis.
      bnd (calculateTax (JObj
             [(''calculationReference'', JStr (rt_ruleVersionReference rule)),
              (''taxableReference'', JStr lineReference),
              (''inputAmount'', money_js basis),
              (''currencyMetadata'', currency_metadata_js meta),
              (''resolvedRule'', resolved_tax_rule_js rule)])) (\<lambda>calculated.
      bnd (addMoney (money_js lineTax) (money_js (tr_taxAmount calculated))) (\<lambda>lineTax'.
      Inr (\<lparr>ptl_taxAmount = tr_taxAmount calculated,
            ptl_explanation = tr_explanation calculated,
            ptl_calculationOrder = rc_calculationOrder component,
            ptl_compoundOnPriorTax = rc_compoundOnPriorTax component,
            ptl_ruleReference = rt_ruleVersionReference rule\<rparr>, lineTax'))))))"

fun tax_lines ::
  "string \<Rightarrow> currency_metadata \<Rightarrow> money \<Rightarrow> money \<Rightarrow> resolved_tax_rule_component list \<Rightarrow>
    (price_quote_tax_line list \<times> money) res" where
  "tax_lines lineReference meta lineSubtotal lineTax [] = Inr ([], lineTax)"
| "tax_lines lineReference meta lineSubtotal lineTax (c # cs) =
     bnd (tax_component lineReference meta lineSubtotal lineTax c) (\<lambda>(l, lineTax').
     bnd (tax_lines lineReference meta lineSubtotal lineTax' cs) (\<lambda>(ls, lineTax'').
     Inr (l # ls, lineTax'')))"

record quote_scope =
  qs_priceBook :: js
  qs_taxConfiguration :: js
  qs_brandReference :: string
  qs_storeReference :: string
  qs_currencyMetadata :: currency_metadata
  qs_createdAt :: string

text \<open>One line: the body of \<open>input.lines.map\<close>, with the running subtotal and tax and the seen references.\<close>

definition quote_line ::
  "zone_render \<Rightarrow> quote_scope \<Rightarrow> string list \<Rightarrow> money \<Rightarrow> money \<Rightarrow> js \<Rightarrow>
    (price_quote_line \<times> money \<times> money) res" where
  "quote_line zr sc seen subtotal tax line =
     (let meta = qs_currencyMetadata sc; cur = cm_currencyCode meta in
      bnd (pq_exact line [''lineReference'', ''sellableReference'', ''productVersionReference'',
             ''menuVersionReference'', ''quantity'', ''priceContext'', ''taxContext'']) (\<lambda>_.
      bnd (pq_reference (fld line ''lineReference'')) (\<lambda>lref.
      bnd (throw_if (lref \<in> set seen) (pq_fail QUOTE_INPUT_INVALID)) (\<lambda>_.
      bnd (or_throw (safe_int_in 1 999 (fld line ''quantity'')) (pq_fail QUOTE_INPUT_INVALID)) (\<lambda>quantity.
      bnd (line_scope (qs_brandReference sc) (qs_storeReference sc) cur (qs_createdAt sc) line) (\<lambda>_.
      bnd (catching (resolvePrice zr (qs_priceBook sc) (fld line ''priceContext''))
             (\<lambda>_. Inl (pq_fail QUOTE_CALCULATION_FAILED))) (\<lambda>price.
      bnd (catching (resolveTaxConfiguration zr (qs_taxConfiguration sc) (fld line ''taxContext''))
             (\<lambda>_. Inl (pq_fail QUOTE_CALCULATION_FAILED))) (\<lambda>taxResolution.
      bnd (throw_if (currencyCode (rp_amount price) \<noteq> cur) (pq_fail QUOTE_CURRENCY_MISMATCH)) (\<lambda>_.
      bnd (multiply (rp_amount price) quantity) (\<lambda>lineSubtotal.
      bnd (zero cur) (\<lambda>lineTax0.
      bnd (tax_lines lref meta lineSubtotal lineTax0 (tx_rules taxResolution)) (\<lambda>(taxLines, lineTax).
      bnd (addMoney (money_js subtotal) (money_js lineSubtotal)) (\<lambda>subtotal'.
      bnd (addMoney (money_js tax) (money_js lineTax)) (\<lambda>tax'.
      bnd (zero cur) (\<lambda>lineZero.
      bnd (pq_reference (fld line ''sellableReference'')) (\<lambda>sref.
      bnd (pq_reference (fld line ''productVersionReference'')) (\<lambda>pref.
      bnd (pq_reference (fld line ''menuVersionReference'')) (\<lambda>mref.
      bnd (addMoney (money_js lineSubtotal) (money_js lineTax)) (\<lambda>lineTotal.
      Inr (\<lparr>pql_lineReference = lref, pql_sellableReference = sref,
            pql_productVersionReference = pref, pql_menuVersionReference = mref,
            pql_quantity = quantity, pql_unitPrice = rp_amount price, pql_subtotal = lineSubtotal,
            pql_discount = lineZero, pql_tax = lineTax, pql_fee = lineZero, pql_total = lineTotal,
            pql_resolvedPrice = price, pql_taxResolution = taxResolution,
            pql_taxLines = taxLines\<rparr>, subtotal', tax'))))))))))))))))))))"

fun quote_lines ::
  "zone_render \<Rightarrow> quote_scope \<Rightarrow> string list \<Rightarrow> money \<Rightarrow> money \<Rightarrow> js list \<Rightarrow>
    (price_quote_line list \<times> money \<times> money) res" where
  "quote_lines zr sc seen subtotal tax [] = Inr ([], subtotal, tax)"
| "quote_lines zr sc seen subtotal tax (line # lines) =
     bnd (quote_line zr sc seen subtotal tax line) (\<lambda>(l, subtotal', tax').
     bnd (quote_lines zr sc (pql_lineReference l # seen) subtotal' tax' lines) (\<lambda>(ls, subtotal'', tax'').
     Inr (l # ls, subtotal'', tax'')))"

definition createPriceQuote :: "zone_render \<Rightarrow> js \<Rightarrow> price_quote_snapshot res" where
  "createPriceQuote zr input = (let bad = pq_fail QUOTE_INPUT_INVALID in
     bnd (pq_exact input [''quoteReference'', ''brandReference'', ''storeReference'',
            ''cartReference'', ''cartVersion'', ''inputDigest'', ''createdAt'', ''expiresAt'',
            ''currencyMetadata'', ''priceBook'', ''taxConfiguration'', ''lines'']) (\<lambda>_.
     bnd (pq_at (fld input ''createdAt'')) (\<lambda>createdAt.
     bnd (pq_at (fld input ''expiresAt'')) (\<lambda>expiresAt.
     bnd (or_throw (safe_int_in 1 max_safe (fld input ''cartVersion'')) bad) (\<lambda>cartVersion.
     bnd (throw_if (ms_le (date_parse expiresAt) (date_parse createdAt) \<or>
                    \<not> is_array (fld input ''lines'') \<or> elements (fld input ''lines'') = []) bad) (\<lambda>_.
     bnd (pq_reference (fld input ''brandReference'')) (\<lambda>brand.
     bnd (pq_reference (fld input ''storeReference'')) (\<lambda>store.
     bnd (createCurrencyMetadataSnapshot (fld input ''currencyMetadata'')) (\<lambda>meta.
     bnd (zero (cm_currencyCode meta)) (\<lambda>subtotal0.
     bnd (zero (cm_currencyCode meta)) (\<lambda>tax0.
     bnd (quote_lines zr
            \<lparr>qs_priceBook = fld input ''priceBook'', qs_taxConfiguration = fld input ''taxConfiguration'',
             qs_brandReference = brand, qs_storeReference = store, qs_currencyMetadata = meta,
             qs_createdAt = createdAt\<rparr> [] subtotal0 tax0 (elements (fld input ''lines''))) (\<lambda>(lines, subtotal, tax).
     bnd (zero (cm_currencyCode meta)) (\<lambda>amountZero.
     bnd (pq_reference (fld input ''quoteReference'')) (\<lambda>qref.
     bnd (pq_reference (fld input ''cartReference'')) (\<lambda>cref.
     bnd (pq_digest (fld input ''inputDigest'')) (\<lambda>dig.
     bnd (addMoney (money_js subtotal) (money_js tax)) (\<lambda>total.
     Inr \<lparr>pq_quoteReference = qref, pq_quoteVersion = 1, pq_brandReference = brand,
          pq_storeReference = store, pq_cartReference = cref, pq_cartVersion = cartVersion,
          pq_inputDigest = dig, pq_currencyMetadata = meta, pq_subtotal = subtotal,
          pq_discount = amountZero, pq_tax = tax, pq_fee = amountZero, pq_total = total,
          pq_lines = lines, pq_appliedPromotionReferences = [], pq_warnings = [],
          pq_blockingReasons = [], pq_createdAt = createdAt, pq_expiresAt = expiresAt\<rparr>)))))))))))))))))"

section \<open>Lines\<close>

lemma pq_parse_Inr [res_simps]:
  "pq_exact v fs = Inr u \<longleftrightarrow> has_shape v fs"
  "pq_at v = Inr s \<longleftrightarrow> v = JStr s \<and> parseable_instant s"
  "pq_reference v = Inr s \<longleftrightarrow> v = JStr s \<and> uuid_v7 s"
  "pq_digest v = Inr s \<longleftrightarrow> v = JStr s \<and> sha256_digest s"
  by (simp_all add: pq_exact_def pq_at_def pq_reference_def pq_digest_def res_simps)

lemma zero_Inr [res_simps]:
  "zero c = Inr m \<longleftrightarrow> m = \<lparr>amountMinor = 0, currencyCode = c\<rparr> \<and> valid_money m"
  by (simp add: zero_def createMoney_obj)

lemma multiply_Inr [res_simps]:
  "multiply a q = Inr m \<longleftrightarrow>
     m = \<lparr>amountMinor = amountMinor a * q, currencyCode = currencyCode a\<rparr> \<and> valid_money m"
  by (simp add: multiply_def res_simps createMoney_obj)

lemma createMoney_of_js: "createMoney (money_js m) = Inr m' \<Longrightarrow> m' = m"
  by (auto simp: money_js_def createMoney_obj)

lemma enum_of_treatment: "enum_of tax_treatments (JStr (treatment_str t)) = Some t"
  by (cases t) (simp_all add: enum_of_def tax_treatments_def)

lemma enum_of_inclusion: "enum_of price_inclusions (JStr (inclusion_str i)) = Some i"
  by (cases i) (simp_all add: enum_of_def price_inclusions_def)

lemma enum_of_mode: "enum_of rounding_modes (JStr (mode_str m)) = Some m"
  by (cases m) (simp_all add: enum_of_def rounding_modes_def)

lemmas enum_of_strs = enum_of_treatment enum_of_inclusion enum_of_mode

lemma createResolvedTaxRuleSnapshot_of_js:
  assumes "createResolvedTaxRuleSnapshot (resolved_tax_rule_js r) = Inr r'"
  shows "r' = r"
  using assms
  by (auto simp: createResolvedTaxRuleSnapshot_def resolved_tax_rule_js_def enum_of_strs res_simps)

text \<open>The parts of a tax result that repeat its input.\<close>

lemma calculateTax_input:
  assumes "calculateTax (JObj [(''calculationReference'', a), (''taxableReference'', b),
      (''inputAmount'', money_js m), (''currencyMetadata'', meta),
      (''resolvedRule'', resolved_tax_rule_js rule)]) = Inr r"
  shows "tr_inputAmount r = m" "te_rate (tr_explanation r) = rt_rate rule"
    "te_roundingMode (tr_explanation r) = rt_roundingMode rule"
    "te_priceInclusion (tr_explanation r) = rt_priceInclusion rule"
    "te_treatment (tr_explanation r) = rt_treatment rule"
proof -
  from assms obtain c where c: "validateTaxCalculationInput (JObj [(''calculationReference'', a),
      (''taxableReference'', b), (''inputAmount'', money_js m), (''currencyMetadata'', meta),
      (''resolvedRule'', resolved_tax_rule_js rule)]) = Inr c" and
    r: "tr_inputAmount r = ti_inputAmount c" "te_rate (tr_explanation r) = rt_rate (ti_resolvedRule c)"
      "te_roundingMode (tr_explanation r) = rt_roundingMode (ti_resolvedRule c)"
      "te_priceInclusion (tr_explanation r) = rt_priceInclusion (ti_resolvedRule c)"
      "te_treatment (tr_explanation r) = rt_treatment (ti_resolvedRule c)"
    unfolding calculateTax_def Let_def res_simps by auto
  have "ti_inputAmount c = m \<and> ti_resolvedRule c = rule"
    using c by (auto simp: validateTaxCalculationInput_def res_simps
        dest!: createMoney_of_js createResolvedTaxRuleSnapshot_of_js)
  with r show "tr_inputAmount r = m" "te_rate (tr_explanation r) = rt_rate rule"
    "te_roundingMode (tr_explanation r) = rt_roundingMode rule"
    "te_priceInclusion (tr_explanation r) = rt_priceInclusion rule"
    "te_treatment (tr_explanation r) = rt_treatment rule" by simp_all
qed

lemma rounds_to_nonneg:
  assumes "rounds_to mode n d r" and "0 \<le> n" and "0 < d"
  shows "0 \<le> r"
proof (cases "n = 0")
  case True
  with assms have "\<bar>r\<bar> * d < 1 * d" by (simp add: rounds_to_def abs_mult)
  then have "\<bar>r\<bar> < 1" using assms(3) by (metis mult_less_cancel_right_pos)
  then show ?thesis by simp
next
  case False
  with assms show ?thesis by (simp add: rounds_to_def zero_le_mult_iff)
qed

text \<open>The tax of one component: the exact tax on its basis, rounded.\<close>

definition component_tax :: "int \<Rightarrow> resolved_tax_rule_component \<Rightarrow> int \<Rightarrow> bool" where
  "component_tax basis c t \<longleftrightarrow>
     (\<exists>ratio. taxRateRatio (JStr (rt_rate (rc_resolvedRule c))) = Inr ratio \<and>
        rounds_to (rt_roundingMode (rc_resolvedRule c)) (basis * numerator ratio) (denominator ratio) t)"

lemma component_tax_nonneg: "component_tax basis c t \<Longrightarrow> 0 \<le> basis \<Longrightarrow> 0 \<le> t"
  unfolding component_tax_def
  using taxRateRatio_range rounds_to_nonneg by (metis mult_nonneg_nonneg)

definition tax_basis :: "money \<Rightarrow> money \<Rightarrow> resolved_tax_rule_component \<Rightarrow> int" where
  "tax_basis lineSubtotal lineTax c =
     amountMinor lineSubtotal + (if rc_compoundOnPriorTax c then amountMinor lineTax else 0)"

lemma tax_component_Inr:
  assumes "tax_component lref meta s t c = Inr (l, t')" and "valid_money s" "valid_money t"
    and "currencyCode t = currencyCode s"
  shows "money_add t (ptl_taxAmount l) = Inr t' \<and> valid_money (ptl_taxAmount l) \<and> valid_money t' \<and>
    currencyCode t' = currencyCode s \<and>
    currencyCode (ptl_taxAmount l) = currencyCode s \<and> rt_priceInclusion (rc_resolvedRule c) = Exclusive \<and>
    ptl_calculationOrder l = rc_calculationOrder c \<and>
    component_tax (tax_basis s t c) c (amountMinor (ptl_taxAmount l))"
proof -
  let ?rule = "rc_resolvedRule c"
  from assms(1) obtain basis r where excl: "rt_priceInclusion ?rule = Exclusive" and
    b: "(if rc_compoundOnPriorTax c then addMoney (money_js s) (money_js t) else Inr s) = Inr basis" and
    r: "calculateTax (JObj [(''calculationReference'', JStr (rt_ruleVersionReference ?rule)),
        (''taxableReference'', JStr lref), (''inputAmount'', money_js basis),
        (''currencyMetadata'', currency_metadata_js meta), (''resolvedRule'', resolved_tax_rule_js ?rule)]) = Inr r" and
    t': "money_add t (tr_taxAmount r) = Inr t'" and
    l: "ptl_taxAmount l = tr_taxAmount r" "ptl_calculationOrder l = rc_calculationOrder c"
    unfolding tax_component_def Let_def res_simps by (auto simp: money_add_def)
  have basis: "valid_money basis \<and> amountMinor basis = tax_basis s t c \<and> currencyCode basis = currencyCode s"
    using b assms(2-4) money_sum.add_Inr [of s t basis]
    by (auto simp: tax_basis_def money_add_def split: if_splits)
  note i = calculateTax_input [OF r]
  note spec = calculateTax_Inr [OF r, unfolded i]
  have "component_tax (tax_basis s t c) c (amountMinor (tr_taxAmount r))"
    using spec basis excl by (auto simp: component_tax_def)
  moreover have "valid_money (tr_taxAmount r)" "currencyCode (tr_taxAmount r) = currencyCode s"
    using spec basis by auto
  ultimately show ?thesis
    using excl t' l assms(3,4) money_sum.add_Inr [of t "tr_taxAmount r" t'] by auto
qed

text \<open>All components of a line: each is taxed on the subtotal, plus the taxes before it if it compounds.\<close>

fun taxed :: "int \<Rightarrow> int \<Rightarrow> resolved_tax_rule_component list \<Rightarrow> price_quote_tax_line list \<Rightarrow> bool" where
  "taxed s prior [] [] = True"
| "taxed s prior (c # cs) (l # ls) =
     (component_tax (s + (if rc_compoundOnPriorTax c then prior else 0)) c (amountMinor (ptl_taxAmount l)) \<and>
      ptl_calculationOrder l = rc_calculationOrder c \<and>
      taxed s (prior + amountMinor (ptl_taxAmount l)) cs ls)"
| "taxed s prior _ _ = False"

lemma tax_lines_Inr:
  assumes "tax_lines lref meta s t cs = Inr (ls, t')" and "valid_money s" "valid_money t"
    and "currencyCode t = currencyCode s" "0 \<le> amountMinor s" "0 \<le> amountMinor t"
  shows "accumulate money_add t (map ptl_taxAmount ls) = Inr t' \<and>
    list_all (\<lambda>l. valid_money (ptl_taxAmount l) \<and> currencyCode (ptl_taxAmount l) = currencyCode s \<and>
      0 \<le> amountMinor (ptl_taxAmount l)) ls \<and>
    taxed (amountMinor s) (amountMinor t) cs ls"
  using assms
proof (induction lref meta s t cs arbitrary: ls rule: tax_lines.induct)
  case (2 lref meta s t c cs)
  from "2.prems"(1) obtain l t1 ls' where l: "tax_component lref meta s t c = Inr (l, t1)"
    and ls': "tax_lines lref meta s t1 cs = Inr (ls', t')" and ls: "ls = l # ls'"
    by (auto simp: res_simps split: prod.splits)
  note tc = tax_component_Inr [OF l "2.prems"(2-4)]
  have nn: "0 \<le> amountMinor (ptl_taxAmount l)"
    using tc component_tax_nonneg "2.prems"(5,6) by (fastforce simp: tax_basis_def)
  have t1: "amountMinor t1 = amountMinor t + amountMinor (ptl_taxAmount l)"
    using tc money_sum.add_Inr [of t "ptl_taxAmount l" t1] "2.prems"(3) by blast
  have "accumulate money_add t1 (map ptl_taxAmount ls') = Inr t' \<and>
    list_all (\<lambda>l. valid_money (ptl_taxAmount l) \<and> currencyCode (ptl_taxAmount l) = currencyCode s \<and>
      0 \<le> amountMinor (ptl_taxAmount l)) ls' \<and>
    taxed (amountMinor s) (amountMinor t1) cs ls'"
    using "2.IH" [OF l refl ls'] tc "2.prems" t1 nn by simp
  with tc nn t1 ls show ?case by (simp add: tax_basis_def)
qed simp

lemma resolvePrice_amount:
  assumes "resolvePrice zr v ctx = Inr r"
  shows "valid_money (rp_amount r) \<and> 0 \<le> amountMinor (rp_amount r)"
proof -
  obtain b where b: "createPriceBookSnapshot zr v = Inr b"
    using assms by (auto simp: resolvePrice_def res_simps)
  from resolvePrice_Inr [OF b assms] obtain at e where
    "e \<in> set (candidates b ctx at)" "r = resolved_of b e" by blast
  with price_book_wf [OF b] show ?thesis by (auto simp: candidates_def wf_entry_def resolved_of_def)
qed

text \<open>What every line of a quote satisfies.\<close>

definition line_balances :: "string \<Rightarrow> price_quote_line \<Rightarrow> bool" where
  "line_balances cur l \<longleftrightarrow>
     valid_money (pql_subtotal l) \<and> valid_money (pql_tax l) \<and> valid_money (pql_total l) \<and>
     0 \<le> amountMinor (pql_unitPrice l) \<and> 0 \<le> amountMinor (pql_tax l) \<and>
     1 \<le> pql_quantity l \<and> pql_quantity l \<le> 999 \<and>
     amountMinor (pql_subtotal l) = amountMinor (pql_unitPrice l) * pql_quantity l \<and>
     amountMinor (pql_tax l) = sum_list (map (\<lambda>t. amountMinor (ptl_taxAmount t)) (pql_taxLines l)) \<and>
     amountMinor (pql_total l) = amountMinor (pql_subtotal l) + amountMinor (pql_tax l) \<and>
     amountMinor (pql_discount l) = 0 \<and> amountMinor (pql_fee l) = 0 \<and>
     currencyCode (pql_subtotal l) = cur \<and> currencyCode (pql_tax l) = cur \<and> currencyCode (pql_total l) = cur \<and>
     taxed (amountMinor (pql_subtotal l)) 0 (tx_rules (pql_taxResolution l)) (pql_taxLines l)"

lemma quote_line_Inr:
  assumes "quote_line zr sc seen s t j = Inr (l, s', t')"
  shows "line_balances (cm_currencyCode (qs_currencyMetadata sc)) l \<and>
    money_add s (pql_subtotal l) = Inr s' \<and> money_add t (pql_tax l) = Inr t' \<and>
    pql_lineReference l \<notin> set seen"
proof -
  let ?meta = "qs_currencyMetadata sc"
  let ?cur = "cm_currencyCode ?meta"
  from assms obtain q price tx ls sub lt z tot where
    q: "1 \<le> q" "q \<le> 999" and
    price: "resolvePrice zr (qs_priceBook sc) (fld j ''priceContext'') = Inr price" and
    cur: "currencyCode (rp_amount price) = ?cur" and
    sub: "multiply (rp_amount price) q = Inr sub" and z: "zero ?cur = Inr z" and
    ls: "tax_lines (pql_lineReference l) ?meta sub z (tx_rules tx) = Inr (ls, lt)" and
    s': "addMoney (money_js s) (money_js sub) = Inr s'" and t': "addMoney (money_js t) (money_js lt) = Inr t'" and
    tot: "addMoney (money_js sub) (money_js lt) = Inr tot" and
    seen: "pql_lineReference l \<notin> set seen" and
    l: "pql_quantity l = q" "pql_unitPrice l = rp_amount price" "pql_subtotal l = sub" "pql_tax l = lt"
      "pql_total l = tot" "pql_discount l = z" "pql_fee l = z" "pql_taxLines l = ls" "pql_taxResolution l = tx"
    unfolding quote_line_def Let_def res_simps by (elim exE conjE, clarsimp simp: res_simps split: prod.splits)
  note rp = resolvePrice_amount [OF price]
  have sub': "valid_money sub" "amountMinor sub = amountMinor (rp_amount price) * q" "currencyCode sub = ?cur"
    using sub cur by (auto simp: res_simps)
  have z': "valid_money z" "amountMinor z = 0" "currencyCode z = ?cur" using z by (auto simp: res_simps)
  have sub0: "0 \<le> amountMinor sub" using sub'(2) rp q by simp
  note tl = tax_lines_Inr [OF ls sub'(1) z'(1)]
  have tl: "accumulate money_add z (map ptl_taxAmount ls) = Inr lt"
    "list_all valid_money (map ptl_taxAmount ls)" "list_all (\<lambda>x. 0 \<le> amountMinor x) (map ptl_taxAmount ls)"
    "taxed (amountMinor sub) 0 (tx_rules tx) ls"
    using tax_lines_Inr [OF ls sub'(1) z'(1)] sub' z' sub0 by (auto simp: list_all_iff)
  note acc = money_sum.accumulate_sum [OF tl(1) z'(1) tl(2)]
  have lt0: "0 \<le> amountMinor lt"
    using money_sum.accumulate_nonneg [OF tl(1) z'(1) tl(2) _ tl(3)] z'(2) by simp
  have tot': "valid_money tot \<and> amountMinor tot = amountMinor sub + amountMinor lt \<and> currencyCode tot = ?cur"
    using money_sum.add_Inr [of sub lt tot] tot acc sub' by (simp add: money_add_def)
  show ?thesis
    using q rp sub' z' acc lt0 tot' tl(4) seen s' t'
    by (simp add: line_balances_def l money_add_def comp_def)
qed

section \<open>The quote\<close>

lemma quote_lines_Inr:
  assumes "quote_lines zr sc seen s t js = Inr (ls, s', t')"
  shows "accumulate money_add s (map pql_subtotal ls) = Inr s' \<and>
    accumulate money_add t (map pql_tax ls) = Inr t' \<and>
    list_all (line_balances (cm_currencyCode (qs_currencyMetadata sc))) ls \<and>
    distinct (map pql_lineReference ls) \<and> set seen \<inter> set (map pql_lineReference ls) = {} \<and>
    length ls = length js"
  using assms
proof (induction zr sc seen s t js arbitrary: ls rule: quote_lines.induct)
  case (2 zr sc seen s t j js)
  from "2.prems" obtain l s1 t1 ls' where l: "quote_line zr sc seen s t j = Inr (l, s1, t1)"
    and ls': "quote_lines zr sc (pql_lineReference l # seen) s1 t1 js = Inr (ls', s', t')" and ls: "ls = l # ls'"
    by (auto simp: res_simps split: prod.splits)
  from quote_line_Inr [OF l] "2.IH" [OF l refl refl ls'] ls show ?case by auto
qed simp

lemma createPriceQuote_parts:
  assumes "createPriceQuote zr input = Inr q"
  shows "\<exists>sc z. quote_lines zr sc [] z z (elements (fld input ''lines'')) = Inr (pq_lines q, pq_subtotal q, pq_tax q) \<and>
      qs_currencyMetadata sc = pq_currencyMetadata q \<and> qs_createdAt sc = pq_createdAt q \<and>
      zero (cm_currencyCode (pq_currencyMetadata q)) = Inr z \<and> pq_discount q = z \<and> pq_fee q = z"
    "money_add (pq_subtotal q) (pq_tax q) = Inr (pq_total q)"
    "elements (fld input ''lines'') \<noteq> []"
    "parseable_instant (pq_createdAt q) \<and> parseable_instant (pq_expiresAt q) \<and>
       \<not> ms_le (date_parse (pq_expiresAt q)) (date_parse (pq_createdAt q))"
    "fld input ''createdAt'' = JStr (pq_createdAt q)" "fld input ''expiresAt'' = JStr (pq_expiresAt q)"
    "fld input ''quoteReference'' = JStr (pq_quoteReference q)"
    "fld input ''brandReference'' = JStr (pq_brandReference q)"
    "fld input ''storeReference'' = JStr (pq_storeReference q)"
    "fld input ''cartReference'' = JStr (pq_cartReference q)"
    "fld input ''cartVersion'' = JNum (pq_cartVersion q)"
proof -
  from assms obtain sc z subtotal tax lines where
    h: "quote_lines zr sc [] z z (elements (fld input ''lines'')) = Inr (lines, subtotal, tax)"
      "qs_currencyMetadata sc = pq_currencyMetadata q" "qs_createdAt sc = pq_createdAt q"
      "zero (cm_currencyCode (pq_currencyMetadata q)) = Inr z" "pq_discount q = z" "pq_fee q = z"
      "addMoney (money_js subtotal) (money_js tax) = Inr (pq_total q)" "elements (fld input ''lines'') \<noteq> []"
      "parseable_instant (pq_createdAt q)" "parseable_instant (pq_expiresAt q)"
      "\<not> ms_le (date_parse (pq_expiresAt q)) (date_parse (pq_createdAt q))"
      "pq_lines q = lines" "pq_subtotal q = subtotal" "pq_tax q = tax"
      "fld input ''createdAt'' = JStr (pq_createdAt q)" "fld input ''expiresAt'' = JStr (pq_expiresAt q)"
      "fld input ''quoteReference'' = JStr (pq_quoteReference q)"
      "fld input ''brandReference'' = JStr (pq_brandReference q)"
      "fld input ''storeReference'' = JStr (pq_storeReference q)"
      "fld input ''cartReference'' = JStr (pq_cartReference q)"
      "fld input ''cartVersion'' = JNum (pq_cartVersion q)"
    unfolding createPriceQuote_def Let_def res_simps
    by (elim exE conjE, clarsimp simp: res_simps split: prod.splits)
  show "\<exists>sc z. quote_lines zr sc [] z z (elements (fld input ''lines'')) = Inr (pq_lines q, pq_subtotal q, pq_tax q) \<and>
      qs_currencyMetadata sc = pq_currencyMetadata q \<and> qs_createdAt sc = pq_createdAt q \<and>
      zero (cm_currencyCode (pq_currencyMetadata q)) = Inr z \<and> pq_discount q = z \<and> pq_fee q = z"
    using h by (intro exI [of _ sc] exI [of _ z]) simp
  show "money_add (pq_subtotal q) (pq_tax q) = Inr (pq_total q)" using h by (simp add: money_add_def)
  show "elements (fld input ''lines'') \<noteq> []" by (rule h)
  show "parseable_instant (pq_createdAt q) \<and> parseable_instant (pq_expiresAt q) \<and>
       \<not> ms_le (date_parse (pq_expiresAt q)) (date_parse (pq_createdAt q))" using h by blast
  show "fld input ''createdAt'' = JStr (pq_createdAt q)" by (rule h)
  show "fld input ''expiresAt'' = JStr (pq_expiresAt q)" by (rule h)
  show "fld input ''quoteReference'' = JStr (pq_quoteReference q)" by (rule h)
  show "fld input ''brandReference'' = JStr (pq_brandReference q)" by (rule h)
  show "fld input ''storeReference'' = JStr (pq_storeReference q)" by (rule h)
  show "fld input ''cartReference'' = JStr (pq_cartReference q)" by (rule h)
  show "fld input ''cartVersion'' = JNum (pq_cartVersion q)" by (rule h)
qed

lemma createPriceQuote_arith:
  assumes "createPriceQuote zr input = Inr q"
  shows "amountMinor (pq_total q) = amountMinor (pq_subtotal q) + amountMinor (pq_tax q) \<and>
    amountMinor (pq_subtotal q) = sum_list (map (\<lambda>l. amountMinor (pql_subtotal l)) (pq_lines q)) \<and>
    amountMinor (pq_tax q) = sum_list (map (\<lambda>l. amountMinor (pql_tax l)) (pq_lines q)) \<and>
    list_all (line_balances (cm_currencyCode (pq_currencyMetadata q))) (pq_lines q) \<and>
    distinct (map pql_lineReference (pq_lines q)) \<and>
    length (pq_lines q) = length (elements (fld input ''lines'')) \<and> pq_lines q \<noteq> [] \<and>
    amountMinor (pq_discount q) = 0 \<and> amountMinor (pq_fee q) = 0 \<and>
    0 \<le> amountMinor (pq_subtotal q) \<and> 0 \<le> amountMinor (pq_tax q) \<and> valid_money (pq_total q) \<and>
    currencyCode (pq_total q) = cm_currencyCode (pq_currencyMetadata q)"
proof -
  let ?cur = "cm_currencyCode (pq_currencyMetadata q)"
  from createPriceQuote_parts(1) [OF assms] obtain sc z where
    ql: "quote_lines zr sc [] z z (elements (fld input ''lines'')) = Inr (pq_lines q, pq_subtotal q, pq_tax q)" and
    sc: "qs_currencyMetadata sc = pq_currencyMetadata q" and
    z: "zero ?cur = Inr z" "pq_discount q = z" "pq_fee q = z" by blast
  have z': "valid_money z" "amountMinor z = 0" "currencyCode z = ?cur" using z by (auto simp: res_simps)
  note L = quote_lines_Inr [OF ql, unfolded sc]
  have lb: "list_all valid_money (map pql_subtotal (pq_lines q))" "list_all valid_money (map pql_tax (pq_lines q))"
    "list_all (\<lambda>m. 0 \<le> amountMinor m) (map pql_subtotal (pq_lines q))"
    "list_all (\<lambda>m. 0 \<le> amountMinor m) (map pql_tax (pq_lines q))"
    using L by (auto simp: list_all_iff line_balances_def)
  note s = money_sum.accumulate_sum [OF L [THEN conjunct1] z'(1) lb(1)]
    and t = money_sum.accumulate_sum [OF L [THEN conjunct2, THEN conjunct1] z'(1) lb(2)]
  have s0: "0 \<le> amountMinor (pq_subtotal q)"
    using money_sum.accumulate_nonneg [OF L [THEN conjunct1] z'(1) lb(1) _ lb(3)] z'(2) by simp
  have t0: "0 \<le> amountMinor (pq_tax q)"
    using money_sum.accumulate_nonneg [OF L [THEN conjunct2, THEN conjunct1] z'(1) lb(2) _ lb(4)] z'(2) by simp
  have tot: "valid_money (pq_total q) \<and> amountMinor (pq_total q) = amountMinor (pq_subtotal q) + amountMinor (pq_tax q) \<and>
      currencyCode (pq_total q) = ?cur"
    using money_sum.add_Inr [OF _ _ createPriceQuote_parts(2) [OF assms]] s t z' by simp
  have ne: "pq_lines q \<noteq> []" using L createPriceQuote_parts(3) [OF assms] by auto
  show ?thesis using L s t s0 t0 tot ne z(2,3) z' by (simp add: comp_def)
qed

text \<open>
  C9. The arithmetic of a quote: its total is subtotal plus tax; subtotal and tax are the sums over
  the lines; every line has subtotal equal to unit price times quantity, tax equal to the sum of its tax lines,
  total equal to subtotal plus tax, and tax lines computed one after the other on the subtotal, plus
  the taxes before them when they compound. Nothing is negative, nothing has overflowed, and all
  amounts are in the currency of the quote; line references are distinct.
\<close>

theorem createPriceQuote_totals:
  assumes "createPriceQuote zr input = Inr q"
  shows "amountMinor (pq_total q) = amountMinor (pq_subtotal q) + amountMinor (pq_tax q) \<and>
    amountMinor (pq_subtotal q) = sum_list (map (\<lambda>l. amountMinor (pql_subtotal l)) (pq_lines q)) \<and>
    amountMinor (pq_tax q) = sum_list (map (\<lambda>l. amountMinor (pql_tax l)) (pq_lines q)) \<and>
    list_all (line_balances (cm_currencyCode (pq_currencyMetadata q))) (pq_lines q) \<and>
    distinct (map pql_lineReference (pq_lines q)) \<and>
    length (pq_lines q) = length (elements (fld input ''lines'')) \<and> pq_lines q \<noteq> [] \<and>
    amountMinor (pq_discount q) = 0 \<and> amountMinor (pq_fee q) = 0 \<and>
    0 \<le> amountMinor (pq_subtotal q) \<and> 0 \<le> amountMinor (pq_tax q) \<and> valid_money (pq_total q) \<and>
    currencyCode (pq_total q) = cm_currencyCode (pq_currencyMetadata q)"
  using createPriceQuote_arith [OF assms] by blast

definition example_quote_input :: js where
  "example_quote_input = JObj
     [(''quoteReference'', JStr ''01890000-0000-7000-8000-000000000051''),
      (''brandReference'', JStr ''01890000-0000-7000-8000-000000000012''),
      (''storeReference'', JStr ''01890000-0000-7000-8000-000000000013''),
      (''cartReference'', JStr ''01890000-0000-7000-8000-000000000052''), (''cartVersion'', JNum 3),
      (''inputDigest'', JStr example_digest), (''createdAt'', JStr ''2026-06-01T12:00:00.000Z''),
      (''expiresAt'', JStr ''2026-06-01T12:15:00.000Z''),
      (''currencyMetadata'', currency_metadata_js
         \<lparr>cm_currencyCode = ''CAD'', cm_minorUnitExponent = 2, cm_metadataVersion = 1,
          cm_metadataVersionReference = ''01890000-0000-7000-8000-000000000003'',
          cm_metadataDigest = example_digest\<rparr>),
      (''priceBook'', example_price_book), (''taxConfiguration'', example_tax_snapshot),
      (''lines'', JArr [JObj
         [(''lineReference'', JStr ''01890000-0000-7000-8000-000000000053''),
          (''sellableReference'', JStr ''01890000-0000-7000-8000-000000000030''),
          (''productVersionReference'', JStr ''01890000-0000-7000-8000-000000000054''),
          (''menuVersionReference'', JStr ''01890000-0000-7000-8000-000000000055''),
          (''quantity'', JNum 2), (''priceContext'', example_price_context ''KIOSK''),
          (''taxContext'', example_tax_context)]])]"

text \<open>Two at 13.00: 26.00, 13 per cent is 3.38, and 13 per cent of 29.38 compounds to 3.82.\<close>

lemma example_quote:
  "map_sum (\<lambda>e. e) (\<lambda>q. (cm_currencyCode (pq_currencyMetadata q), amountMinor (pq_subtotal q), amountMinor (pq_tax q), amountMinor (pq_total q),
       map (\<lambda>l. map (\<lambda>t. amountMinor (ptl_taxAmount t)) (pql_taxLines l)) (pq_lines q)))
     (createPriceQuote example_zone example_quote_input) = Inr (''CAD'', 2600, 720, 3320, [[338, 382]])"
  by code_simp

theorem createPriceQuote_totals_witness:
  "\<exists>q. createPriceQuote example_zone example_quote_input = Inr q \<and> amountMinor (pq_total q) = 3320 \<and>
     amountMinor (pq_total q) = amountMinor (pq_subtotal q) + amountMinor (pq_tax q)"
proof -
  obtain q where q: "createPriceQuote example_zone example_quote_input = Inr q" "amountMinor (pq_total q) = 3320"
    using example_quote by (auto simp: map_sum_Inr)
  from createPriceQuote_totals [OF q(1)] q show ?thesis by blast
qed

end
