(* ===== verification/PriceQuoteLifecycle.thy ===== *)
theory PriceQuoteLifecycle
  imports PriceQuote
begin

text \<open>
  Quote validity and requoting: \<open>packages/rms/pricing/src/domain/price-quote-lifecycle.ts\<close>. A quote is
  current from its creation up to, not including, its expiry; an expired quote is replaced by a new
  one, and the change of the total decides whether the customer has to confirm again.
\<close>

datatype quote_validity = QuoteCurrent | QuoteExpired

datatype quote_change = Unchanged | Decreased | ReconfirmationRequired

record requote_result =
  rq_previousQuoteReference :: js
  rq_replacementQuote :: price_quote_snapshot
  rq_change :: quote_change
  rq_totalChange :: money
  rq_requiresReconfirmation :: bool
  rq_evaluatedAt :: string

definition ql_fail :: "price_quote_lifecycle_code \<Rightarrow> err" where
  "ql_fail code = PriceQuoteLifecycleError code"

definition ql_at :: "js \<Rightarrow> string res" where
  "ql_at v = or_throw (str_if canonical_instant v) (ql_fail QUOTE_LIFECYCLE_INPUT_INVALID)"

definition evaluatePriceQuoteValidity :: "js \<Rightarrow> js \<Rightarrow> quote_validity res" where
  "evaluatePriceQuoteValidity quote evaluatedAt =
     bnd (ql_at evaluatedAt) (\<lambda>now.
     bnd (bnd (get_prop quote ''createdAt'') ql_at) (\<lambda>created.
     bnd (bnd (get_prop quote ''expiresAt'') ql_at) (\<lambda>expires.
     bnd (throw_if (ms_of expires \<le> ms_of created \<or> ms_of now < ms_of created)
            (ql_fail QUOTE_LIFECYCLE_INPUT_INVALID)) (\<lambda>_.
     Inr (if ms_of now < ms_of expires then QuoteCurrent else QuoteExpired)))))"

text \<open>\<open>a.amountMinor - b.amountMinor\<close>: subtracting anything but a bigint from a bigint is a \<open>TypeError\<close>.\<close>

fun bigint_minus :: "int \<Rightarrow> js \<Rightarrow> int res" where
  "bigint_minus a (JBig b) = Inr (a - b)"
| "bigint_minus a _ = Inl TypeError"

definition change_of :: "int \<Rightarrow> quote_change" where
  "change_of d = (if 0 < d then ReconfirmationRequired else if d < 0 then Decreased else Unchanged)"

definition requote_scope_mismatch :: "js \<Rightarrow> js \<Rightarrow> string \<Rightarrow> bool" where
  "requote_scope_mismatch replacement previous evaluatedAt \<longleftrightarrow>
     fld replacement ''createdAt'' \<noteq> JStr evaluatedAt \<or>
     \<not> strict_eq (fld replacement ''brandReference'') (fld previous ''brandReference'') \<or>
     \<not> strict_eq (fld replacement ''storeReference'') (fld previous ''storeReference'') \<or>
     \<not> strict_eq (fld replacement ''cartReference'') (fld previous ''cartReference'') \<or>
     \<not> strict_eq (fld replacement ''cartVersion'') (fld previous ''cartVersion'')"

definition requote_envelope :: "js \<Rightarrow> bool" where
  "requote_envelope input \<longleftrightarrow> is_plain input \<and> length (own_keys input) = 3 \<and>
     list_all (\<lambda>k. k \<in> {''previousQuote'', ''replacementInput'', ''evaluatedAt''}) (own_keys input)"

definition requoteExpiredPriceQuote :: "zone_render \<Rightarrow> js \<Rightarrow> requote_result res" where
  "requoteExpiredPriceQuote zr input =
     bnd (throw_if (\<not> requote_envelope input) (ql_fail QUOTE_LIFECYCLE_INPUT_INVALID)) (\<lambda>_.
     let previous = fld input ''previousQuote''; replacement = fld input ''replacementInput'' in
     bnd (ql_at (fld input ''evaluatedAt'')) (\<lambda>evaluatedAt.
     bnd (evaluatePriceQuoteValidity previous (JStr evaluatedAt)) (\<lambda>validity.
     bnd (throw_if (validity \<noteq> QuoteExpired) (ql_fail QUOTE_NOT_EXPIRED)) (\<lambda>_.
     bnd (get_prop replacement ''createdAt'') (\<lambda>_.
     bnd (throw_if (requote_scope_mismatch replacement previous evaluatedAt)
            (ql_fail QUOTE_REQUOTE_SCOPE_MISMATCH)) (\<lambda>_.
     bnd (throw_if (strict_eq (fld replacement ''quoteReference'') (fld previous ''quoteReference''))
            (ql_fail QUOTE_REQUOTE_REFERENCE_REUSED)) (\<lambda>_.
     bnd (createPriceQuote zr replacement) (\<lambda>quote.
     bnd (get_prop (fld previous ''currencyMetadata'') ''currencyCode'') (\<lambda>cur.
     bnd (throw_if (cur \<noteq> JStr (cm_currencyCode (pq_currencyMetadata quote)))
            (ql_fail QUOTE_REQUOTE_SCOPE_MISMATCH)) (\<lambda>_.
     bnd (get_prop (fld previous ''total'') ''amountMinor'') (\<lambda>previousMinor.
     bnd (bigint_minus (amountMinor (pq_total quote)) previousMinor) (\<lambda>changeMinor.
     bnd (createMoney (JObj [(''amountMinor'', JBig changeMinor),
            (''currencyCode'', JStr (cm_currencyCode (pq_currencyMetadata quote)))])) (\<lambda>totalChange.
     Inr \<lparr>rq_previousQuoteReference = fld previous ''quoteReference'',
          rq_replacementQuote = quote, rq_change = change_of changeMinor,
          rq_totalChange = totalChange,
          rq_requiresReconfirmation = (change_of changeMinor = ReconfirmationRequired),
          rq_evaluatedAt = evaluatedAt\<rparr>)))))))))))))"

section \<open>Validity\<close>

lemma ql_at_Inr [res_simps]: "ql_at v = Inr s \<longleftrightarrow> v = JStr s \<and> canonical_instant s"
  by (simp add: ql_at_def res_simps)

text \<open>A quote with the two instants its validity depends on, both canonical and in order.\<close>

definition quote_window_ok :: "js \<Rightarrow> bool" where
  "quote_window_ok q \<longleftrightarrow>
     (case (fld q ''createdAt'', fld q ''expiresAt'') of
        (JStr c, JStr e) \<Rightarrow> canonical_instant c \<and> canonical_instant e \<and> ms_of c < ms_of e
      | _ \<Rightarrow> False)"

fun js_string :: "js \<Rightarrow> string" where
  "js_string (JStr s) = s"
| "js_string _ = []"

definition quote_start :: "js \<Rightarrow> int" where
  "quote_start q = ms_of (js_string (fld q ''createdAt''))"

definition quote_end :: "js \<Rightarrow> int option" where
  "quote_end q = Some (ms_of (js_string (fld q ''expiresAt'')))"

lemma quote_window_okE:
  assumes "quote_window_ok q"
  obtains c e where "fld q ''createdAt'' = JStr c" "fld q ''expiresAt'' = JStr e"
    "canonical_instant c" "canonical_instant e" "ms_of c < ms_of e"
    "get_prop q ''createdAt'' = Inr (JStr c)" "get_prop q ''expiresAt'' = Inr (JStr e)"
  using assms by (cases q) (auto simp: quote_window_ok_def split: js.splits)

lemma evaluate_ok:
  assumes "quote_window_ok q" and "canonical_instant s"
  shows "evaluatePriceQuoteValidity q (JStr s) =
    (if ms_of s < quote_start q then Inl (ql_fail QUOTE_LIFECYCLE_INPUT_INVALID)
     else if \<exists>e. quote_end q = Some e \<and> ms_of s < e then Inr QuoteCurrent else Inr QuoteExpired)"
  using assms(1)
  by (rule quote_window_okE)
    (simp add: evaluatePriceQuoteValidity_def ql_at_def assms(2) quote_start_def quote_end_def throw_if_def)

interpretation quote_window: half_open_window quote_window_ok quote_start quote_end
  "\<lambda>q s. evaluatePriceQuoteValidity q (JStr s) = Inr QuoteCurrent"
proof
  fix w e
  assume "quote_window_ok w" "quote_end w = Some e"
  then show "quote_start w < e"
    by (auto elim!: quote_window_okE simp: quote_start_def quote_end_def)
next
  fix w
  assume "quote_window_ok w"
  then show "iso_time (quote_start w)"
    by (auto elim!: quote_window_okE simp: quote_start_def iso_time_ms_of)
next
  fix w s
  assume w: "quote_window_ok w" and s: "canonical_instant s"
  show "evaluatePriceQuoteValidity w (JStr s) = Inr QuoteCurrent \<longleftrightarrow>
      quote_start w \<le> ms_of s \<and> (\<forall>e. quote_end w = Some e \<longrightarrow> ms_of s < e)"
    by (auto simp: evaluate_ok [OF w s] quote_end_def)
qed

text \<open>
  Quote validity is a half-open window: a quote with canonical instants in order is current
  exactly from its creation up to, but not including, its expiry, expired from then on, and
  evaluating it before its creation is an error; in particular it is current at its creation and
  expired at its expiry.
\<close>

theorem quote_validity_window:
  assumes "quote_window_ok q" and "canonical_instant s"
  shows "(evaluatePriceQuoteValidity q (JStr s) = Inr QuoteCurrent \<longleftrightarrow>
       quote_start q \<le> ms_of s \<and> quote_end q \<noteq> None \<and> ms_of s < the (quote_end q)) \<and>
    (evaluatePriceQuoteValidity q (JStr s) = Inr QuoteExpired \<longleftrightarrow> the (quote_end q) \<le> ms_of s) \<and>
    (evaluatePriceQuoteValidity q (JStr s) = Inl (ql_fail QUOTE_LIFECYCLE_INPUT_INVALID) \<longleftrightarrow>
       ms_of s < quote_start q) \<and>
    evaluatePriceQuoteValidity q (JStr (to_iso (quote_start q))) = Inr QuoteCurrent"
proof -
  have "quote_start q < the (quote_end q)"
    using quote_window.nonempty [OF assms(1)] by (simp add: quote_end_def)
  then show ?thesis
    using quote_window.active_at_start [OF assms(1)]
    by (auto simp: evaluate_ok [OF assms] quote_end_def)
qed

definition example_window :: js where
  "example_window = JObj [(''createdAt'', JStr ''2026-06-01T12:00:00.000Z''),
     (''expiresAt'', JStr ''2026-06-01T12:15:00.000Z'')]"

theorem quote_validity_window_witness:
  "evaluatePriceQuoteValidity example_window (JStr ''2026-06-01T12:14:59.999Z'') = Inr QuoteCurrent \<and>
   evaluatePriceQuoteValidity example_window (JStr ''2026-06-01T12:15:00.000Z'') = Inr QuoteExpired"
proof -
  have w: "quote_window_ok example_window" by code_simp
  have s: "canonical_instant ''2026-06-01T12:14:59.999Z''" "canonical_instant ''2026-06-01T12:15:00.000Z''"
    by code_simp+
  have b: "quote_start example_window \<le> ms_of ''2026-06-01T12:14:59.999Z''"
    "ms_of ''2026-06-01T12:14:59.999Z'' < the (quote_end example_window)"
    "the (quote_end example_window) \<le> ms_of ''2026-06-01T12:15:00.000Z''"
    by code_simp+
  have "quote_end example_window \<noteq> None" by (simp add: quote_end_def)
  with quote_validity_window [OF w s(1)] quote_validity_window [OF w s(2)] b show ?thesis by blast
qed

section \<open>Requoting\<close>

lemma strict_eq_JStr: "strict_eq (JStr s) v \<longleftrightarrow> v = JStr s"
  by (cases v) auto

lemma bigint_minus_Inr [res_simps]: "bigint_minus a v = Inr d \<longleftrightarrow> (\<exists>b. v = JBig b \<and> d = a - b)"
  by (cases v) auto

lemma requote_parts:
  assumes "requoteExpiredPriceQuote zr input = Inr r"
  shows "\<exists>b. evaluatePriceQuoteValidity (fld input ''previousQuote'') (JStr (rq_evaluatedAt r)) = Inr QuoteExpired \<and>
    createPriceQuote zr (fld input ''replacementInput'') = Inr (rq_replacementQuote r) \<and>
    \<not> requote_scope_mismatch (fld input ''replacementInput'') (fld input ''previousQuote'') (rq_evaluatedAt r) \<and>
    \<not> strict_eq (fld (fld input ''replacementInput'') ''quoteReference'')
        (fld (fld input ''previousQuote'') ''quoteReference'') \<and>
    fld (fld (fld input ''previousQuote'') ''total'') ''amountMinor'' = JBig b \<and>
    rq_change r = change_of (amountMinor (pq_total (rq_replacementQuote r)) - b) \<and>
    amountMinor (rq_totalChange r) = amountMinor (pq_total (rq_replacementQuote r)) - b \<and>
    valid_money (rq_totalChange r) \<and>
    currencyCode (rq_totalChange r) = cm_currencyCode (pq_currencyMetadata (rq_replacementQuote r)) \<and>
    rq_requiresReconfirmation r = (rq_change r = ReconfirmationRequired)"
proof -
  let ?p = "fld input ''previousQuote''" and ?n = "fld input ''replacementInput''"
  have "\<exists>at q b.
      evaluatePriceQuoteValidity ?p (JStr at) = Inr QuoteExpired \<and> createPriceQuote zr ?n = Inr q \<and>
      get_prop (fld ?p ''total'') ''amountMinor'' = Inr (JBig b) \<and>
      \<not> requote_scope_mismatch ?n ?p at \<and>
      \<not> strict_eq (fld ?n ''quoteReference'') (fld ?p ''quoteReference'') \<and>
      valid_money \<lparr>amountMinor = amountMinor (pq_total q) - b, currencyCode = cm_currencyCode (pq_currencyMetadata q)\<rparr> \<and>
      r = \<lparr>rq_previousQuoteReference = fld ?p ''quoteReference'', rq_replacementQuote = q,
        rq_change = change_of (amountMinor (pq_total q) - b),
        rq_totalChange = \<lparr>amountMinor = amountMinor (pq_total q) - b,
          currencyCode = cm_currencyCode (pq_currencyMetadata q)\<rparr>,
        rq_requiresReconfirmation = (change_of (amountMinor (pq_total q) - b) = ReconfirmationRequired),
        rq_evaluatedAt = at\<rparr>"
    using assms unfolding requoteExpiredPriceQuote_def Let_def res_simps createMoney_obj not_not
    by (elim exE conjE, clarify) (intro exI conjI, (assumption | rule refl)+)
  then obtain at q b where
    h: "evaluatePriceQuoteValidity ?p (JStr at) = Inr QuoteExpired" "createPriceQuote zr ?n = Inr q"
      "\<not> requote_scope_mismatch ?n ?p at"
      "\<not> strict_eq (fld ?n ''quoteReference'') (fld ?p ''quoteReference'')"
      "get_prop (fld ?p ''total'') ''amountMinor'' = Inr (JBig b)"
      "valid_money (rq_totalChange r)" and
    r: "rq_evaluatedAt r = at" "rq_replacementQuote r = q" "rq_change r = change_of (amountMinor (pq_total q) - b)"
      "rq_totalChange r = \<lparr>amountMinor = amountMinor (pq_total q) - b, currencyCode = cm_currencyCode (pq_currencyMetadata q)\<rparr>"
      "rq_requiresReconfirmation r = (rq_change r = ReconfirmationRequired)"
    by (elim exE conjE) simp
  have "fld (fld ?p ''total'') ''amountMinor'' = JBig b"
    using h(5) by (cases "fld ?p ''total''") auto
  with h r show ?thesis by (intro exI [of _ b]) simp
qed

text \<open>
  Requoting: a requote is granted only for a quote that has expired at the evaluation instant; the
  replacement is created at that instant for the same cart version under another reference, the
  reported change is the exact difference of the totals, and the customer must confirm again
  exactly when the total has risen.
\<close>

theorem requoteExpiredPriceQuote_sound:
  assumes "requoteExpiredPriceQuote zr input = Inr r"
  shows "\<exists>old. fld (fld (fld input ''previousQuote'') ''total'') ''amountMinor'' = JBig old \<and>
    evaluatePriceQuoteValidity (fld input ''previousQuote'') (JStr (rq_evaluatedAt r)) = Inr QuoteExpired \<and>
    pq_createdAt (rq_replacementQuote r) = rq_evaluatedAt r \<and>
    fld (fld input ''previousQuote'') ''cartReference'' = JStr (pq_cartReference (rq_replacementQuote r)) \<and>
    fld (fld input ''previousQuote'') ''cartVersion'' = JNum (pq_cartVersion (rq_replacementQuote r)) \<and>
    fld (fld input ''previousQuote'') ''quoteReference'' \<noteq> JStr (pq_quoteReference (rq_replacementQuote r)) \<and>
    amountMinor (rq_totalChange r) = amountMinor (pq_total (rq_replacementQuote r)) - old \<and>
    (rq_requiresReconfirmation r \<longleftrightarrow> old < amountMinor (pq_total (rq_replacementQuote r))) \<and>
    (rq_change r = Decreased \<longleftrightarrow> amountMinor (pq_total (rq_replacementQuote r)) < old)"
proof -
  from requote_parts [OF assms] obtain b where
    v: "evaluatePriceQuoteValidity (fld input ''previousQuote'') (JStr (rq_evaluatedAt r)) = Inr QuoteExpired" and
    q: "createPriceQuote zr (fld input ''replacementInput'') = Inr (rq_replacementQuote r)" and
    m: "\<not> requote_scope_mismatch (fld input ''replacementInput'') (fld input ''previousQuote'') (rq_evaluatedAt r)" and
    n: "\<not> strict_eq (fld (fld input ''replacementInput'') ''quoteReference'')
        (fld (fld input ''previousQuote'') ''quoteReference'')" and
    b: "fld (fld (fld input ''previousQuote'') ''total'') ''amountMinor'' = JBig b" and
    c: "rq_change r = change_of (amountMinor (pq_total (rq_replacementQuote r)) - b)"
      "amountMinor (rq_totalChange r) = amountMinor (pq_total (rq_replacementQuote r)) - b"
      "rq_requiresReconfirmation r = (rq_change r = ReconfirmationRequired)" by blast
  have num: "strict_eq (JNum n) w \<longleftrightarrow> w = JNum n" for n w by (cases w) auto
  note p = createPriceQuote_parts(5,7,10,11) [OF q]
  show ?thesis
    using v b c m n unfolding requote_scope_mismatch_def p
    by (intro exI [of _ b]) (auto simp: strict_eq_JStr num change_of_def)
qed

definition example_requote :: js where
  "example_requote = JObj
     [(''previousQuote'', JObj
        [(''quoteReference'', JStr ''01890000-0000-7000-8000-000000000050''),
         (''brandReference'', JStr ''01890000-0000-7000-8000-000000000012''),
         (''storeReference'', JStr ''01890000-0000-7000-8000-000000000013''),
         (''cartReference'', JStr ''01890000-0000-7000-8000-000000000052''), (''cartVersion'', JNum 3),
         (''currencyMetadata'', JObj [(''currencyCode'', JStr ''CAD'')]),
         (''total'', money_js \<lparr>amountMinor = 3000, currencyCode = ''CAD''\<rparr>),
         (''createdAt'', JStr ''2026-06-01T11:00:00.000Z''),
         (''expiresAt'', JStr ''2026-06-01T11:15:00.000Z'')]),
      (''replacementInput'', example_quote_input),
      (''evaluatedAt'', JStr ''2026-06-01T12:00:00.000Z'')]"

lemma example_requote_checks:
  "requote_envelope example_requote"
  "ql_at (fld example_requote ''evaluatedAt'') = Inr ''2026-06-01T12:00:00.000Z''"
  "evaluatePriceQuoteValidity (fld example_requote ''previousQuote'') (JStr ''2026-06-01T12:00:00.000Z'') = Inr QuoteExpired"
  "get_prop (fld example_requote ''replacementInput'') ''createdAt'' = Inr (JStr ''2026-06-01T12:00:00.000Z'')"
  "\<not> requote_scope_mismatch (fld example_requote ''replacementInput'') (fld example_requote ''previousQuote'')
     ''2026-06-01T12:00:00.000Z''"
  "\<not> strict_eq (fld (fld example_requote ''replacementInput'') ''quoteReference'')
     (fld (fld example_requote ''previousQuote'') ''quoteReference'')"
  "get_prop (fld (fld example_requote ''previousQuote'') ''currencyMetadata'') ''currencyCode'' = Inr (JStr ''CAD'')"
  "get_prop (fld (fld example_requote ''previousQuote'') ''total'') ''amountMinor'' = Inr (JBig 3000)"
  by code_simp+

theorem requoteExpiredPriceQuote_sound_witness:
  "\<exists>r. requoteExpiredPriceQuote example_zone example_requote = Inr r \<and> rq_requiresReconfirmation r \<and>
     amountMinor (rq_totalChange r) = 320"
proof -
  obtain q where q: "createPriceQuote example_zone example_quote_input = Inr q"
    "cm_currencyCode (pq_currencyMetadata q) = ''CAD''" "amountMinor (pq_total q) = 3320"
    using example_quote by (auto simp: map_sum_Inr)
  have f: "fld example_requote ''replacementInput'' = example_quote_input"
    by (simp add: example_requote_def)
  have m: "createMoney (JObj [(''amountMinor'', JBig 320), (''currencyCode'', JStr ''CAD'')]) =
      Inr \<lparr>amountMinor = 320, currencyCode = ''CAD''\<rparr>" by code_simp
  obtain r where r: "requoteExpiredPriceQuote example_zone example_requote = Inr r" "rq_replacementQuote r = q"
    using example_requote_checks q m unfolding f
    by (simp add: requoteExpiredPriceQuote_def f)
  from requoteExpiredPriceQuote_sound [OF r(1)] obtain old where
    "fld (fld (fld example_requote ''previousQuote'') ''total'') ''amountMinor'' = JBig old"
    "amountMinor (rq_totalChange r) = amountMinor (pq_total q) - old"
    "rq_requiresReconfirmation r \<longleftrightarrow> old < amountMinor (pq_total q)" using r(2) by blast
  moreover from this have "old = 3000" by (simp add: example_requote_def money_js_def)
  ultimately show ?thesis using r(1) q(3) by auto
qed

end
