(* ===== verification/Promotion.thy ===== *)
theory Promotion
  imports PriceResolution
begin

text \<open>
  Promotions: \<open>packages/rms/pricing/src/domain/promotion.ts\<close>. Published promotions in force are turned
  into candidate discounts for a basket; stackable candidates, the best candidate of every stacking
  group and each exclusive candidate on its own form the plans, and the best plan is applied.
\<close>

section \<open>Data\<close>

datatype promotion_lifecycle = PromoDraft | PromoPublished | PromoPaused | PromoArchived

definition promotion_lifecycles :: "(string \<times> promotion_lifecycle) list" where
  "promotion_lifecycles = [(''Draft'', PromoDraft), (''Published'', PromoPublished),
     (''Paused'', PromoPaused), (''Archived'', PromoArchived)]"

datatype promotion_type =
    ItemPercentage | ItemFixed | OrderPercentage | OrderFixed | Threshold | BuyXGetY | HappyHour
  | Coupon | ManualDiscount

definition promotion_types :: "(string \<times> promotion_type) list" where
  "promotion_types = [(''ItemPercentage'', ItemPercentage), (''ItemFixed'', ItemFixed),
     (''OrderPercentage'', OrderPercentage), (''OrderFixed'', OrderFixed), (''Threshold'', Threshold),
     (''BuyXGetY'', BuyXGetY), (''HappyHour'', HappyHour), (''Coupon'', Coupon),
     (''ManualDiscount'', ManualDiscount)]"

datatype promotion_stacking = ExclusiveStacking | SameGroupExclusive | Stackable

definition promotion_stackings :: "(string \<times> promotion_stacking) list" where
  "promotion_stackings = [(''Exclusive'', ExclusiveStacking),
     (''SameGroupExclusive'', SameGroupExclusive), (''Stackable'', Stackable)]"

datatype benefit_scope = ItemScope | OrderScope

definition benefit_scopes :: "(string \<times> benefit_scope) list" where
  "benefit_scopes = [(''Item'', ItemScope), (''Order'', OrderScope)]"

datatype benefit_calculation = Percentage | Fixed

definition benefit_calculations :: "(string \<times> benefit_calculation) list" where
  "benefit_calculations = [(''Percentage'', Percentage), (''Fixed'', Fixed)]"

record promotion_benefit =
  be_scope :: benefit_scope
  be_calculation :: benefit_calculation
  be_value :: string
  be_maximumDiscountMinor :: "string option"

record promotion_snapshot =
  pm_promotionReference :: string
  pm_versionReference :: string
  pm_brandReference :: string
  pm_stableCode :: string
  pm_aggregateVersion :: int
  pm_versionNumber :: int
  pm_snapshotDigest :: string
  pm_lifecycle :: promotion_lifecycle
  pm_promotionType :: promotion_type
  pm_currencyCode :: string
  pm_eligibleSellableReferences :: "string list"
  pm_eligibleCategoryReferences :: "string list"
  pm_eligibleSegmentReference :: "string option"
  pm_thresholdMinor :: "string option"
  pm_benefit :: promotion_benefit
  pm_stacking :: promotion_stacking
  pm_stackingGroupCode :: "string option"
  pm_priority :: int
  pm_budgetMinor :: string
  pm_usageMinor :: string
  pm_usageCount :: int
  pm_redemptionLimit :: int
  pm_effectivePeriod :: effective_period
  pm_customerCopyCode :: string
  pm_createdAt :: string

text \<open>A line of the normalised basket: its amount is already a bigint.\<close>

record basket_line =
  bl_lineReference :: string
  bl_sellableReference :: string
  bl_categoryReferences :: "string list"
  bl_amountMinor :: int

record promotion_basket =
  ba_basketReference :: string
  ba_brandReference :: string
  ba_currencyCode :: string
  ba_segmentReference :: "string option"
  ba_evaluatedAt :: string
  ba_lines :: "basket_line list"

record eligible_entry =
  ee_promotion :: promotion_snapshot
  ee_discount :: money

datatype selection_decision = SelectedPromotion | NotSelected

record promotion_selection =
  ps_promotionReference :: string
  ps_versionReference :: string
  ps_discount :: money
  ps_decision :: selection_decision
  ps_reasonCode :: string

record promotion_simulation =
  si_basketReference :: string
  si_subtotal :: money
  si_discount :: money
  si_total :: money
  si_selections :: "promotion_selection list"

section \<open>Validators\<close>

definition pm_fail :: "promotion_code \<Rightarrow> err" where
  "pm_fail code = PromotionError code"

definition pm_instant :: "js \<Rightarrow> string res" where
  "pm_instant v = or_throw (str_if parseable_instant v) (pm_fail PROMOTION_INPUT_INVALID)"

text \<open>\<open>minor\<close>: a canonical numeral in a string, within the 64-bit range.\<close>

definition minor :: "js \<Rightarrow> int res" where
  "minor v =
     bnd (or_throw (str_if nat_numeral v) (pm_fail PROMOTION_INPUT_INVALID)) (\<lambda>s.
     catching (parseAmountMinor (JBig (dec_val s))) (\<lambda>_. Inl (pm_fail PROMOTION_INPUT_INVALID)))"

text \<open>
  \<open>references\<close>: an array of distinct references. A repeated value that is not a reference fails with
  the same error as a value that is not a reference.
\<close>

definition references :: "js \<Rightarrow> string list res" where
  "references v =
     bnd (throw_if (\<not> is_array v) (pm_fail PROMOTION_INPUT_INVALID)) (\<lambda>_.
     bnd (catching (map_res parsePricingReference (elements v))
            (\<lambda>_. Inl (pm_fail PROMOTION_INPUT_INVALID))) (\<lambda>rs.
     bnd (throw_if (\<not> distinct rs) (pm_fail PROMOTION_INPUT_INVALID)) (\<lambda>_. Inr rs)))"

text \<open>
  The value of a benefit: a rate in (0, 1] or a positive amount. \<open>{...input}\<close> keeps the four fields,
  all of which have been read.
\<close>

definition benefit_value :: "benefit_calculation \<Rightarrow> js \<Rightarrow> string res" where
  "benefit_value calc v =
     (case calc of
        Percentage \<Rightarrow>
          bnd (catching (parseTaxRate v) (\<lambda>_. Inl (pm_fail PROMOTION_INPUT_INVALID))) (\<lambda>rate.
          bnd (taxRateRatio (JStr rate)) (\<lambda>ratio.
          bnd (throw_if (numerator ratio \<le> 0 \<or> denominator ratio < numerator ratio)
                 (pm_fail PROMOTION_INPUT_INVALID)) (\<lambda>_. Inr rate)))
      | Fixed \<Rightarrow>
          bnd (minor v) (\<lambda>m.
          bnd (throw_if (m \<le> 0) (pm_fail PROMOTION_INPUT_INVALID)) (\<lambda>_.
          or_throw (str_if (\<lambda>_. True) v) (pm_fail PROMOTION_INPUT_INVALID))))"

text \<open>A field checked with \<open>minor\<close> and kept as the string it is, or \<open>null\<close>.\<close>

definition minor_text :: "js \<Rightarrow> string option res" where
  "minor_text v = nullable (\<lambda>w. bnd (minor w) (\<lambda>_.
     or_throw (str_if (\<lambda>_. True) w) (pm_fail PROMOTION_INPUT_INVALID))) v"

definition benefit :: "js \<Rightarrow> promotion_benefit res" where
  "benefit input =
     bnd (throw_if (\<not> is_plain input \<or> length (own_keys input) \<noteq> 4)
            (pm_fail PROMOTION_INPUT_INVALID)) (\<lambda>_.
     bnd (or_throw (enum_of benefit_scopes (fld input ''scope'')) (pm_fail PROMOTION_INPUT_INVALID)) (\<lambda>scope.
     bnd (or_throw (enum_of benefit_calculations (fld input ''calculation''))
            (pm_fail PROMOTION_INPUT_INVALID)) (\<lambda>calc.
     bnd (benefit_value calc (fld input ''value'')) (\<lambda>value.
     bnd (minor_text (fld input ''maximumDiscountMinor'')) (\<lambda>maximum.
     Inr \<lparr>be_scope = scope, be_calculation = calc, be_value = value,
          be_maximumDiscountMinor = maximum\<rparr>)))))"

definition createPromotionSnapshot :: "zone_render \<Rightarrow> js \<Rightarrow> promotion_snapshot res" where
  "createPromotionSnapshot zr input = (let bad = pm_fail PROMOTION_INPUT_INVALID in
     bnd (throw_if (\<not> is_plain input \<or> length (own_keys input) \<noteq> 25) bad) (\<lambda>_.
     bnd (or_throw (safe_int_in 1 max_safe (fld input ''aggregateVersion'')) bad) (\<lambda>agg.
     bnd (or_throw (safe_int_in 1 max_safe (fld input ''versionNumber'')) bad) (\<lambda>num.
     bnd (or_throw (safe_int_in 0 1000 (fld input ''priority'')) bad) (\<lambda>prio.
     bnd (or_throw (safe_int_in 0 max_safe (fld input ''usageCount'')) bad) (\<lambda>count.
     bnd (or_throw (safe_int_in 1 max_safe (fld input ''redemptionLimit'')) bad) (\<lambda>limit.
     bnd (or_throw (enum_of promotion_lifecycles (fld input ''lifecycle'')) bad) (\<lambda>lifecycle.
     bnd (or_throw (enum_of promotion_types (fld input ''promotionType'')) bad) (\<lambda>ty.
     bnd (or_throw (enum_of promotion_stackings (fld input ''stacking'')) bad) (\<lambda>stacking.
     bnd (minor (fld input ''budgetMinor'')) (\<lambda>budget.
     bnd (minor (fld input ''usageMinor'')) (\<lambda>usage.
     bnd (throw_if (budget \<le> 0 \<or> budget < usage \<or> limit < count) bad) (\<lambda>_.
     bnd (benefit (fld input ''benefit'')) (\<lambda>parsedBenefit.
     bnd (throw_if ((stacking = SameGroupExclusive) \<noteq> (fld input ''stackingGroupCode'' \<noteq> JNull))
            (pm_fail PROMOTION_STACKING_CONFLICT)) (\<lambda>_.
     bnd (minor_text (fld input ''thresholdMinor'')) (\<lambda>threshold.
     bnd (catching (createEffectivePeriod zr (fld input ''effectivePeriod'')) (\<lambda>_. Inl bad)) (\<lambda>period.
     bnd (parsePricingReference (fld input ''promotionReference'')) (\<lambda>pref.
     bnd (parsePricingReference (fld input ''versionReference'')) (\<lambda>vref.
     bnd (parsePricingReference (fld input ''brandReference'')) (\<lambda>brand.
     bnd (parsePricingCode (fld input ''stableCode'')) (\<lambda>stable.
     bnd (parsePricingDigest (fld input ''snapshotDigest'')) (\<lambda>dig.
     bnd (parseCurrencyCode (fld input ''currencyCode'')) (\<lambda>currency.
     bnd (references (fld input ''eligibleSellableReferences'')) (\<lambda>sellables.
     bnd (references (fld input ''eligibleCategoryReferences'')) (\<lambda>categories.
     bnd (nullable parsePricingReference (fld input ''eligibleSegmentReference'')) (\<lambda>segment.
     bnd (nullable parsePricingCode (fld input ''stackingGroupCode'')) (\<lambda>grp.
     bnd (parsePricingCode (fld input ''customerCopyCode'')) (\<lambda>copy.
     bnd (pm_instant (fld input ''createdAt'')) (\<lambda>created.
     Inr \<lparr>pm_promotionReference = pref, pm_versionReference = vref, pm_brandReference = brand,
          pm_stableCode = stable, pm_aggregateVersion = agg, pm_versionNumber = num,
          pm_snapshotDigest = dig, pm_lifecycle = lifecycle, pm_promotionType = ty,
          pm_currencyCode = currency, pm_eligibleSellableReferences = sellables,
          pm_eligibleCategoryReferences = categories, pm_eligibleSegmentReference = segment,
          pm_thresholdMinor = threshold, pm_benefit = parsedBenefit, pm_stacking = stacking,
          pm_stackingGroupCode = grp, pm_priority = prio, pm_budgetMinor = int_str budget,
          pm_usageMinor = int_str usage, pm_usageCount = count, pm_redemptionLimit = limit,
          pm_effectivePeriod = period, pm_customerCopyCode = copy,
          pm_createdAt = created\<rparr>)))))))))))))))))))))))))))))"

section \<open>Candidate discounts\<close>

definition minimum :: "money \<Rightarrow> money \<Rightarrow> money res" where
  "minimum left right =
     bnd (compareMoney (money_js left) (money_js right)) (\<lambda>c. Inr (if c \<le> 0 then left else right))"

definition new_money :: "int \<Rightarrow> string \<Rightarrow> money res" where
  "new_money amount currency =
     createMoney (JObj [(''amountMinor'', JBig amount), (''currencyCode'', JStr currency)])"

definition line_eligible :: "promotion_snapshot \<Rightarrow> basket_line \<Rightarrow> bool" where
  "line_eligible promotion line \<longleftrightarrow>
     pm_eligibleSellableReferences promotion = [] \<and> pm_eligibleCategoryReferences promotion = [] \<or>
     bl_sellableReference line \<in> set (pm_eligibleSellableReferences promotion) \<or>
     list_ex (\<lambda>r. r \<in> set (pm_eligibleCategoryReferences promotion)) (bl_categoryReferences line)"

text \<open>
  The sum over the eligible lines. The amounts of the normalised lines are bigints and are passed to
  \<open>minor\<close> once more.
\<close>

fun sum_minor :: "int \<Rightarrow> basket_line list \<Rightarrow> int res" where
  "sum_minor acc [] = Inr acc"
| "sum_minor acc (l # ls) = bnd (minor (JBig (bl_amountMinor l))) (\<lambda>m. sum_minor (acc + m) ls)"

definition promotion_applies :: "promotion_snapshot \<Rightarrow> promotion_basket \<Rightarrow> bool" where
  "promotion_applies promotion basket \<longleftrightarrow>
     pm_lifecycle promotion = PromoPublished \<and>
     pm_brandReference promotion = ba_brandReference basket \<and>
     pm_currencyCode promotion = ba_currencyCode basket \<and>
     \<not> outside_period (pm_effectivePeriod promotion) (ba_evaluatedAt basket) \<and>
     (pm_eligibleSegmentReference promotion = None \<or>
      pm_eligibleSegmentReference promotion = ba_segmentReference basket)"

definition below_threshold :: "promotion_snapshot \<Rightarrow> money \<Rightarrow> bool res" where
  "below_threshold promotion subtotal =
     (case pm_thresholdMinor promotion of None \<Rightarrow> Inr False
      | Some t \<Rightarrow> bnd (minor (JStr t)) (\<lambda>m. Inr (amountMinor subtotal < m)))"

text \<open>From the base amount on: percentage or fixed value, capped by the base, the maximum and the budget.\<close>

definition uncapped_discount :: "promotion_benefit \<Rightarrow> string \<Rightarrow> money \<Rightarrow> money res" where
  "uncapped_discount b cur base =
     (case be_calculation b of
        Percentage \<Rightarrow>
          bnd (parseTaxRate (JStr (be_value b))) (\<lambda>rate.
          multiplyMoneyByTaxRate (money_js base) (JStr rate) HalfUp)
      | Fixed \<Rightarrow> bnd (minor (JStr (be_value b))) (\<lambda>m. new_money m cur))"

definition cap_by_maximum :: "promotion_benefit \<Rightarrow> string \<Rightarrow> money \<Rightarrow> money res" where
  "cap_by_maximum b cur discount =
     (case be_maximumDiscountMinor b of
        None \<Rightarrow> Inr discount
      | Some t \<Rightarrow> bnd (minor (JStr t)) (\<lambda>m. bnd (new_money m cur) (minimum discount)))"

definition capped_discount :: "promotion_snapshot \<Rightarrow> promotion_basket \<Rightarrow> int \<Rightarrow> money option res" where
  "capped_discount promotion basket baseMinor = (let b = pm_benefit promotion; cur = ba_currencyCode basket in
     bnd (new_money baseMinor cur) (\<lambda>base.
     bnd (uncapped_discount b cur base) (\<lambda>discount0.
     bnd (minimum discount0 base) (\<lambda>discount1.
     bnd (cap_by_maximum b cur discount1) (\<lambda>discount2.
     bnd (minor (JStr (pm_budgetMinor promotion))) (\<lambda>budget.
     bnd (minor (JStr (pm_usageMinor promotion))) (\<lambda>usage.
     if budget - usage \<le> 0 then Inr None
     else bnd (new_money (budget - usage) cur) (\<lambda>remaining.
          bnd (minimum discount2 remaining) (\<lambda>d. Inr (Some d))))))))))"

definition candidateDiscount ::
  "promotion_snapshot \<Rightarrow> promotion_basket \<Rightarrow> money \<Rightarrow> money option res" where
  "candidateDiscount promotion basket subtotal =
     (if \<not> promotion_applies promotion basket then Inr None
      else bnd (below_threshold promotion subtotal) (\<lambda>below.
      if below \<or> pm_redemptionLimit promotion \<le> pm_usageCount promotion then Inr None
      else bnd (case be_scope (pm_benefit promotion) of
                  OrderScope \<Rightarrow> Inr (amountMinor subtotal)
                | ItemScope \<Rightarrow> sum_minor 0 (filter (line_eligible promotion) (ba_lines basket))) (\<lambda>baseMinor.
      if baseMinor \<le> 0 then Inr None else capped_discount promotion basket baseMinor)))"

section \<open>Plans\<close>

text \<open>The distinct values of a list in the order of their first occurrence (\<open>[...new Set(xs)]\<close>).\<close>

definition first_occurrences :: "'a list \<Rightarrow> 'a list" where
  "first_occurrences xs = rev (remdups (rev xs))"

definition by_best :: "eligible_entry list \<Rightarrow> eligible_entry list" where
  "by_best = sort_key (\<lambda>e. (- amountMinor (ee_discount e), collation_key (pm_stableCode (ee_promotion e))))"

definition stacking_of :: "eligible_entry \<Rightarrow> promotion_stacking" where
  "stacking_of e = pm_stacking (ee_promotion e)"

definition group_of :: "eligible_entry \<Rightarrow> string option" where
  "group_of e = pm_stackingGroupCode (ee_promotion e)"

definition group_best :: "eligible_entry list \<Rightarrow> eligible_entry list" where
  "group_best eligible =
     concat (map (\<lambda>g. take 1 (by_best (filter (\<lambda>e. group_of e = g) eligible)))
       (first_occurrences (map group_of (filter (\<lambda>e. stacking_of e = SameGroupExclusive) eligible))))"

definition compatible_plan :: "eligible_entry list \<Rightarrow> eligible_entry list" where
  "compatible_plan eligible =
     filter (\<lambda>e. stacking_of e = Stackable) eligible @ group_best eligible"

definition plans :: "eligible_entry list \<Rightarrow> eligible_entry list list" where
  "plans eligible = filter (\<lambda>p. p \<noteq> [])
     (compatible_plan eligible # map (\<lambda>e. [e]) (filter (\<lambda>e. stacking_of e = ExclusiveStacking) eligible))"

definition plan_total :: "eligible_entry list \<Rightarrow> int" where
  "plan_total plan = sum_list (map (\<lambda>e. amountMinor (ee_discount e)) plan)"

fun join :: "string \<Rightarrow> string list \<Rightarrow> string" where
  "join sep [] = []"
| "join sep [x] = x"
| "join sep (x # y # ys) = x @ sep @ join sep (y # ys)"

definition plan_code :: "eligible_entry list \<Rightarrow> string" where
  "plan_code plan = join ''|'' (map (\<lambda>e. pm_stableCode (ee_promotion e)) plan)"

definition selected_plan :: "eligible_entry list \<Rightarrow> eligible_entry list" where
  "selected_plan eligible =
     (case sort_key (\<lambda>p. (- plan_total p, collation_key (plan_code p))) (plans eligible) of
        [] \<Rightarrow> [] | p # _ \<Rightarrow> p)"

section \<open>Simulation\<close>

definition normalized_line :: "js \<Rightarrow> basket_line res" where
  "normalized_line line =
     bnd (bnd (get_prop line ''lineReference'') parsePricingReference) (\<lambda>lref.
     bnd (parsePricingReference (fld line ''sellableReference'')) (\<lambda>sref.
     bnd (references (fld line ''categoryReferences'')) (\<lambda>cats.
     bnd (minor (fld line ''amountMinor'')) (\<lambda>amount.
     Inr \<lparr>bl_lineReference = lref, bl_sellableReference = sref, bl_categoryReferences = cats,
          bl_amountMinor = amount\<rparr>))))"

text \<open>\<open>snapshots.map(...).filter(discount !== null)\<close>.\<close>

fun eligible_entries ::
  "promotion_basket \<Rightarrow> money \<Rightarrow> promotion_snapshot list \<Rightarrow> eligible_entry list res" where
  "eligible_entries basket subtotal [] = Inr []"
| "eligible_entries basket subtotal (p # ps) =
     bnd (candidateDiscount p basket subtotal) (\<lambda>d.
     bnd (eligible_entries basket subtotal ps) (\<lambda>rest.
     Inr (case d of None \<Rightarrow> rest | Some m \<Rightarrow> \<lparr>ee_promotion = p, ee_discount = m\<rparr> # rest)))"

definition selection_of :: "string list \<Rightarrow> eligible_entry \<Rightarrow> promotion_selection" where
  "selection_of selectedIds e =
     (let sel = pm_promotionReference (ee_promotion e) \<in> set selectedIds in
      \<lparr>ps_promotionReference = pm_promotionReference (ee_promotion e),
       ps_versionReference = pm_versionReference (ee_promotion e),
       ps_discount = ee_discount e,
       ps_decision = (if sel then SelectedPromotion else NotSelected),
       ps_reasonCode = (if sel then ''SELECTED'' else ''STACKING_NOT_SELECTED'')\<rparr>)"

definition simulatePromotions :: "zone_render \<Rightarrow> js \<Rightarrow> js \<Rightarrow> promotion_simulation res" where
  "simulatePromotions zr snapshotInputs basket =
     bnd (throw_if (\<not> is_array snapshotInputs \<or> \<not> is_array (fld basket ''lines'') \<or>
                    elements (fld basket ''lines'') = []) (pm_fail PROMOTION_INPUT_INVALID)) (\<lambda>_.
     bnd (map_res (createPromotionSnapshot zr) (elements snapshotInputs)) (\<lambda>snapshots.
     bnd (parseCurrencyCode (fld basket ''currencyCode'')) (\<lambda>currency.
     bnd (pm_instant (fld basket ''evaluatedAt'')) (\<lambda>evaluatedAt.
     bnd (map_res normalized_line (elements (fld basket ''lines''))) (\<lambda>lines.
     bnd (new_money (sum_list (map bl_amountMinor lines)) currency) (\<lambda>subtotal.
     bnd (parsePricingReference (fld basket ''basketReference'')) (\<lambda>bref.
     bnd (parsePricingReference (fld basket ''brandReference'')) (\<lambda>brand.
     bnd (nullable parsePricingReference (fld basket ''segmentReference'')) (\<lambda>segment.
     bnd (eligible_entries
            \<lparr>ba_basketReference = bref, ba_brandReference = brand, ba_currencyCode = currency,
             ba_segmentReference = segment, ba_evaluatedAt = evaluatedAt, ba_lines = lines\<rparr>
            subtotal snapshots) (\<lambda>eligible.
     let selected = selected_plan eligible;
         selectedIds = map (\<lambda>e. pm_promotionReference (ee_promotion e)) selected in
     bnd (new_money (plan_total selected) currency) (\<lambda>discount0.
     bnd (minimum discount0 subtotal) (\<lambda>discount.
     bnd (subtractMoney (money_js subtotal) (money_js discount)) (\<lambda>total.
     Inr \<lparr>si_basketReference = bref, si_subtotal = subtotal, si_discount = discount, si_total = total,
          si_selections = map (selection_of selectedIds)
            (sort_key (\<lambda>e. collation_key (pm_stableCode (ee_promotion e))) eligible)\<rparr>)))))))))))))"

section \<open>Bounds of a candidate discount\<close>

lemma pm_fail_neq [simp]: "pm_fail a = pm_fail b \<longleftrightarrow> a = b"
  by (simp add: pm_fail_def)

lemma minor_Inr [res_simps]:
  "minor v = Inr m \<longleftrightarrow> (\<exists>s. v = JStr s \<and> nat_numeral s \<and> m = dec_val s \<and> dec_val s \<le> maximumMinor)"
proof -
  have nonneg: "minimumMinor \<le> dec_val s" if "nat_numeral s" for s
  proof -
    have "0 \<le> dec_val s" using dec_val_range [OF nat_numeral_digits [OF that]] by simp
    then show ?thesis by (simp add: minimumMinor_def)
  qed
  have "minor v = Inr m \<longleftrightarrow> (\<exists>s. (v = JStr s \<and> nat_numeral s) \<and>
      dec_val s = m \<and> minimumMinor \<le> m \<and> m \<le> maximumMinor)"
    unfolding minor_def res_simps by simp
  also have "\<dots> \<longleftrightarrow> (\<exists>s. v = JStr s \<and> nat_numeral s \<and> m = dec_val s \<and> dec_val s \<le> maximumMinor)"
    using nonneg by blast
  finally show ?thesis .
qed

lemma minor_JBig [simp]: "minor (JBig a) = Inl (pm_fail PROMOTION_INPUT_INVALID)"
  by (simp add: minor_def)

lemma minor_int_str [simp]: "0 \<le> a \<Longrightarrow> a \<le> maximumMinor \<Longrightarrow> minor (JStr (int_str a)) = Inr a"
  by (simp add: minor_Inr int_str_def nat_str_numeral dec_val_nat_str)

lemma new_money_Inr [res_simps]:
  "new_money a c = Inr m \<longleftrightarrow> m = \<lparr>amountMinor = a, currencyCode = c\<rparr> \<and> valid_money m"
  by (simp add: new_money_def createMoney_obj)

lemma minimum_Inr:
  "valid_money l \<Longrightarrow> valid_money r \<Longrightarrow>
   minimum l r = Inr m \<longleftrightarrow>
     currencyCode l = currencyCode r \<and> m = (if amountMinor l \<le> amountMinor r then l else r)"
  by (auto simp: minimum_def compareMoney_def res_simps)

lemma sum_minor_nonempty: "ls \<noteq> [] \<Longrightarrow> sum_minor acc ls = Inl (pm_fail PROMOTION_INPUT_INVALID)"
  by (cases ls) simp_all

text \<open>What \<open>createPromotionSnapshot\<close> guarantees about the money side of a promotion.\<close>

definition positive_benefit :: "promotion_benefit \<Rightarrow> bool" where
  "positive_benefit b \<longleftrightarrow>
     (case be_calculation b of
        Percentage \<Rightarrow> (case taxRateRatio (JStr (be_value b)) of Inl _ \<Rightarrow> False
          | Inr q \<Rightarrow> 0 < numerator q \<and> numerator q \<le> denominator q)
      | Fixed \<Rightarrow> nat_numeral (be_value b) \<and> 0 < dec_val (be_value b))"

definition funded :: "promotion_snapshot \<Rightarrow> bool" where
  "funded p \<longleftrightarrow>
     (\<exists>budget usage. pm_budgetMinor p = int_str budget \<and> pm_usageMinor p = int_str usage \<and>
        0 < budget \<and> 0 \<le> usage \<and> usage \<le> budget \<and> budget \<le> maximumMinor) \<and>
     pm_usageCount p \<le> pm_redemptionLimit p"

definition well_grouped :: "promotion_snapshot \<Rightarrow> bool" where
  "well_grouped p \<longleftrightarrow> (pm_stacking p = SameGroupExclusive) = (pm_stackingGroupCode p \<noteq> None)"

lemma benefit_value_positive:
  "benefit_value calc v = Inr s \<Longrightarrow>
   positive_benefit \<lparr>be_scope = sc, be_calculation = calc, be_value = s, be_maximumDiscountMinor = mx\<rparr>"
  by (cases calc) (auto simp: benefit_value_def positive_benefit_def res_simps)

lemma benefit_positive: "benefit v = Inr b \<Longrightarrow> positive_benefit b"
  unfolding benefit_def res_simps by (elim exE conjE) (use benefit_value_positive in blast)

lemma minor_Inr_range: "minor v = Inr m \<Longrightarrow> 0 \<le> m \<and> m \<le> maximumMinor"
  by (auto simp: minor_Inr dest: dec_val_range [OF nat_numeral_digits])

lemma createPromotionSnapshot_funded:
  assumes "pm_budgetMinor p = int_str budget" and "pm_usageMinor p = int_str usage"
    and "0 < budget" and "0 \<le> usage" and "usage \<le> budget" and "budget \<le> maximumMinor"
    and "pm_usageCount p \<le> pm_redemptionLimit p"
  shows "funded p"
  using assms unfolding funded_def by blast

lemma createPromotionSnapshot_parts:
  assumes "createPromotionSnapshot zr input = Inr p"
  shows "positive_benefit (pm_benefit p)" and "funded p" and "well_grouped p"
proof -
  note a = assms [unfolded createPromotionSnapshot_def Let_def bnd_eq_Inr]
  from a show "positive_benefit (pm_benefit p)"
    by (elim exE conjE) (drule Inr_inject, hypsubst, simp only: promotion_snapshot.simps, erule benefit_positive)
  from a have "\<exists>budget usage u. minor (fld input ''budgetMinor'') = Inr budget \<and>
      minor (fld input ''usageMinor'') = Inr usage \<and>
      throw_if (budget \<le> 0 \<or> budget < usage \<or> pm_redemptionLimit p < pm_usageCount p)
        (pm_fail PROMOTION_INPUT_INVALID) = Inr u \<and>
      pm_budgetMinor p = int_str budget \<and> pm_usageMinor p = int_str usage"
    by (elim exE conjE) (drule Inr_inject, hypsubst, simp only: promotion_snapshot.simps,
        intro exI conjI, (assumption | rule refl)+)
  then obtain budget usage where "minor (fld input ''budgetMinor'') = Inr budget"
    "minor (fld input ''usageMinor'') = Inr usage" "0 < budget" "usage \<le> budget"
    "pm_budgetMinor p = int_str budget" "pm_usageMinor p = int_str usage"
    "pm_usageCount p \<le> pm_redemptionLimit p"
    by (auto simp: throw_if_eq_Inr)
  then show "funded p"
    using createPromotionSnapshot_funded minor_Inr_range by blast
  from a have "\<exists>u. throw_if ((pm_stacking p = SameGroupExclusive) \<noteq>
      (fld input ''stackingGroupCode'' \<noteq> JNull)) (pm_fail PROMOTION_STACKING_CONFLICT) = Inr u \<and>
      nullable parsePricingCode (fld input ''stackingGroupCode'') = Inr (pm_stackingGroupCode p)"
    by (elim exE conjE) (drule Inr_inject, hypsubst, simp only: promotion_snapshot.simps, blast)
  then show "well_grouped p"
    by (auto simp: well_grouped_def nullable_Inr throw_if_eq_Inr)
qed

lemma funded_remaining:
  assumes "funded p" and "minor (JStr (pm_budgetMinor p)) = Inr budget"
    and "minor (JStr (pm_usageMinor p)) = Inr usage"
  shows "0 \<le> usage" and "usage \<le> budget"
proof -
  from assms(1) obtain b u where "pm_budgetMinor p = int_str b" "pm_usageMinor p = int_str u"
    "0 < b" "0 \<le> u" "u \<le> b" "b \<le> maximumMinor" unfolding funded_def by blast
  with assms(2,3) show "0 \<le> usage" and "usage \<le> budget" by simp_all
qed

text \<open>The discount before the caps is not negative.\<close>

lemma uncapped_nonneg:
  assumes "positive_benefit b" and "0 < amountMinor base" and "valid_money base"
    and "uncapped_discount b cur base = Inr d"
  shows "0 \<le> amountMinor d \<and> valid_money d"
proof (cases "be_calculation b")
  case Percentage
  with assms(3,4) obtain ratio r where
    ratio: "taxRateRatio (JStr (be_value b)) = Inr ratio" and
    r: "roundRational (amountMinor base * numerator ratio) (denominator ratio) HalfUp = Inr r" and
    d: "checked r (currencyCode base) = Inr d"
    by (auto simp: uncapped_discount_def multiplyMoneyByTaxRate_def bnd_eq_Inr parse_Inr)
  from assms(1) ratio Percentage have pos: "0 < numerator ratio" "0 < denominator ratio"
    by (auto simp: positive_benefit_def)
  have "0 < amountMinor base * numerator ratio" using assms(2) pos by simp
  moreover have "0 \<le> r * (amountMinor base * numerator ratio)"
    using roundRational_returns [OF pos(2), of "amountMinor base * numerator ratio" HalfUp] r
    by (auto simp: rounds_to_def)
  ultimately have "0 \<le> r" by (metis linorder_not_less zero_le_mult_iff)
  with d show ?thesis by (auto simp: checked_Inr)
next
  case Fixed
  with assms show ?thesis by (auto simp: uncapped_discount_def res_simps positive_benefit_def)
qed

lemma cap_by_maximum_Inr:
  assumes "cap_by_maximum b cur d1 = Inr d2" and "0 \<le> amountMinor d1" and "valid_money d1"
  shows "0 \<le> amountMinor d2 \<and> amountMinor d2 \<le> amountMinor d1 \<and> currencyCode d2 = currencyCode d1 \<and>
    valid_money d2 \<and> (case be_maximumDiscountMinor b of None \<Rightarrow> True | Some m \<Rightarrow> amountMinor d2 \<le> dec_val m)"
  using assms by (cases "be_maximumDiscountMinor b")
    (auto simp: cap_by_maximum_def bnd_eq_Inr new_money_Inr minor_Inr minimum_Inr
      dest!: dec_val_range [OF nat_numeral_digits] split: if_splits)

lemma capped_discount_bounds:
  assumes "positive_benefit (pm_benefit p)" and "funded p" and "0 < baseMinor"
    and "capped_discount p basket baseMinor = Inr (Some d)"
  shows "0 \<le> amountMinor d \<and> amountMinor d \<le> baseMinor \<and>
    currencyCode d = ba_currencyCode basket \<and> valid_money d \<and>
    dec_val (pm_usageMinor p) + amountMinor d \<le> dec_val (pm_budgetMinor p) \<and>
    (case be_maximumDiscountMinor (pm_benefit p) of None \<Rightarrow> True | Some m \<Rightarrow> amountMinor d \<le> dec_val m)"
proof -
  let ?b = "pm_benefit p" and ?cur = "ba_currencyCode basket"
  from assms(4) obtain base d0 d1 d2 budget usage where
    base: "new_money baseMinor ?cur = Inr base" and
    d0: "uncapped_discount ?b ?cur base = Inr d0" and
    d1: "minimum d0 base = Inr d1" and
    d2: "cap_by_maximum ?b ?cur d1 = Inr d2" and
    bu: "minor (JStr (pm_budgetMinor p)) = Inr budget" "minor (JStr (pm_usageMinor p)) = Inr usage" and
    rest: "(if budget - usage \<le> 0 then Inr None
     else bnd (new_money (budget - usage) ?cur) (\<lambda>remaining.
          bnd (minimum d2 remaining) (\<lambda>d. Inr (Some d)))) = Inr (Some d)"
    unfolding capped_discount_def Let_def bnd_eq_Inr by (elim exE conjE) simp
  from base have b: "base = \<lparr>amountMinor = baseMinor, currencyCode = ?cur\<rparr>" "valid_money base"
    by (auto simp: new_money_Inr)
  have v0: "0 \<le> amountMinor d0" "valid_money d0"
    using uncapped_nonneg [OF assms(1) _ b(2) d0] b assms(3) by simp_all
  then have v1: "0 \<le> amountMinor d1" "amountMinor d1 \<le> baseMinor" "currencyCode d1 = ?cur" "valid_money d1"
    using d1 b assms(3) by (auto simp: minimum_Inr split: if_splits)
  note v2 = cap_by_maximum_Inr [OF d2 v1(1,4)]
  have "d = (if amountMinor d2 \<le> budget - usage then d2
             else \<lparr>amountMinor = budget - usage, currencyCode = ?cur\<rparr>) \<and> 0 < budget - usage \<and> valid_money d"
    using rest v2 by (auto simp: bnd_eq_Inr new_money_Inr minimum_Inr split: if_splits)
  moreover have "dec_val (pm_budgetMinor p) = budget" "dec_val (pm_usageMinor p) = usage"
    using bu by (simp_all add: minor_Inr)
  ultimately show ?thesis using v1 v2 by (auto split: option.splits if_splits)
qed

text \<open>An item-scoped promotion never yields a discount: an eligible line makes \<open>minor\<close> throw.\<close>

lemma candidateDiscount_order:
  assumes "candidateDiscount p basket subtotal = Inr (Some d)"
  shows "be_scope (pm_benefit p) = OrderScope \<and> 0 < amountMinor subtotal \<and> promotion_applies p basket \<and>
    capped_discount p basket (amountMinor subtotal) = Inr (Some d)"
proof (cases "be_scope (pm_benefit p)")
  case ItemScope
  with assms show ?thesis
    by (cases "filter (line_eligible p) (ba_lines basket) = []")
      (auto simp: candidateDiscount_def bnd_eq_Inr sum_minor_nonempty split: if_splits)
next
  case OrderScope
  with assms show ?thesis by (auto simp: candidateDiscount_def bnd_eq_Inr split: if_splits)
qed

lemma candidateDiscount_range:
  assumes "createPromotionSnapshot zr input = Inr p"
    and "candidateDiscount p basket subtotal = Inr (Some d)"
  shows "0 \<le> amountMinor d \<and> amountMinor d \<le> amountMinor subtotal \<and>
    currencyCode d = ba_currencyCode basket \<and> valid_money d \<and>
    dec_val (pm_usageMinor p) + amountMinor d \<le> dec_val (pm_budgetMinor p) \<and>
    (case be_maximumDiscountMinor (pm_benefit p) of None \<Rightarrow> True | Some m \<Rightarrow> amountMinor d \<le> dec_val m)"
  using candidateDiscount_order [OF assms(2)] createPromotionSnapshot_parts [OF assms(1)]
    capped_discount_bounds by blast

section \<open>The selected plan is the best admissible one\<close>

abbreviation amount_of :: "eligible_entry \<Rightarrow> int" where
  "amount_of e \<equiv> amountMinor (ee_discount e)"

text \<open>
  The stacking rules, independent of how plans are built: a plan uses every candidate at most once, an
  exclusive candidate stands alone, and of one stacking group at most one candidate is taken.
\<close>

definition admissible :: "eligible_entry list \<Rightarrow> eligible_entry list \<Rightarrow> bool" where
  "admissible eligible plan \<longleftrightarrow>
     mset plan \<subseteq># mset eligible \<and>
     (list_ex (\<lambda>e. stacking_of e = ExclusiveStacking) plan \<longrightarrow> length plan = 1) \<and>
     distinct (map group_of (filter (\<lambda>e. stacking_of e = SameGroupExclusive) plan))"

text \<open>Candidates as \<open>simulatePromotions\<close> collects them.\<close>

definition candidate_list :: "eligible_entry list \<Rightarrow> bool" where
  "candidate_list eligible \<longleftrightarrow>
     list_all (\<lambda>e. well_grouped (ee_promotion e) \<and> 0 \<le> amount_of e) eligible"

lemma by_best_hd:
  assumes "xs \<noteq> []"
  obtains b where "take 1 (by_best xs) = [b]" and "b \<in> set xs" and "\<And>e. e \<in> set xs \<Longrightarrow> amount_of e \<le> amount_of b"
proof -
  obtain b bs where bb: "by_best xs = b # bs"
    using assms by (cases "by_best xs") (auto simp: by_best_def)
  note h = sort_key_hd [OF bb [unfolded by_best_def]]
  have "amount_of e \<le> amount_of b" if "e \<in> set xs" for e
    using h that by (auto simp: less_eq_prod_def)
  with bb h that [of b] show thesis by simp
qed

definition best_of :: "eligible_entry list \<Rightarrow> string option \<Rightarrow> eligible_entry" where
  "best_of eligible g = hd (by_best (filter (\<lambda>e. group_of e = g) eligible))"

definition sge_groups :: "eligible_entry list \<Rightarrow> string option list" where
  "sge_groups eligible =
     first_occurrences (map group_of (filter (\<lambda>e. stacking_of e = SameGroupExclusive) eligible))"

lemma sge_groups_props: "distinct (sge_groups es)"
  "set (sge_groups es) = group_of ` {e \<in> set es. stacking_of e = SameGroupExclusive}"
  by (auto simp: sge_groups_def first_occurrences_def)

lemma best_of_props:
  assumes "e \<in> set es" and "group_of e = g"
  shows "take 1 (by_best (filter (\<lambda>e. group_of e = g) es)) = [best_of es g]"
    and "best_of es g \<in> set es" and "group_of (best_of es g) = g" and "amount_of e \<le> amount_of (best_of es g)"
proof -
  have "filter (\<lambda>e. group_of e = g) es \<noteq> []" using assms by (auto simp: filter_empty_conv)
  then obtain b where b: "take 1 (by_best (filter (\<lambda>e. group_of e = g) es)) = [b]"
    "b \<in> set (filter (\<lambda>e. group_of e = g) es)"
    "\<And>e. e \<in> set (filter (\<lambda>e. group_of e = g) es) \<Longrightarrow> amount_of e \<le> amount_of b"
    by (rule by_best_hd) blast
  moreover from this(1) have "best_of es g = b"
    unfolding best_of_def by (cases "by_best (filter (\<lambda>e. group_of e = g) es)") simp_all
  ultimately show "take 1 (by_best (filter (\<lambda>e. group_of e = g) es)) = [best_of es g]"
    and "best_of es g \<in> set es" and "group_of (best_of es g) = g" and "amount_of e \<le> amount_of (best_of es g)"
    using assms by auto
qed

lemma group_best_eq: "group_best es = map (best_of es) (sge_groups es)"
proof -
  have "take 1 (by_best (filter (\<lambda>e. group_of e = g) es)) = [best_of es g]" if "g \<in> set (sge_groups es)" for g
    using that best_of_props(1) [of _ es g] by (auto simp: sge_groups_props)
  then have "concat (map (\<lambda>g. take 1 (by_best (filter (\<lambda>e. group_of e = g) es))) (sge_groups es)) =
      concat (map (\<lambda>g. [best_of es g]) (sge_groups es))"
    by (metis (mono_tags, lifting) map_eq_conv)
  then show ?thesis unfolding group_best_def sge_groups_def [symmetric] by simp
qed

lemma plan_total_simps [simp]: "plan_total [] = 0" "plan_total (e # es) = amount_of e + plan_total es"
  "plan_total (es @ fs) = plan_total es + plan_total fs"
  by (simp_all add: plan_total_def)

lemma plan_total_mset_le:
  assumes "mset xs \<subseteq># mset ys" and "\<And>e. e \<in> set ys \<Longrightarrow> 0 \<le> amount_of e"
  shows "plan_total xs \<le> plan_total ys"
proof -
  from assms(1) obtain m where m: "mset ys = mset xs + m" by (auto simp: mset_subset_eq_exists_conv)
  have "plan_total zs = sum_mset (image_mset amount_of (mset zs))" for zs
    unfolding plan_total_def mset_map [symmetric] by (rule sum_mset_sum_list [symmetric])
  moreover have "0 \<le> sum_mset (image_mset amount_of m)"
  proof -
    have "0 \<le> amount_of e" if "e \<in># m" for e
      using assms(2) that m by (metis set_mset_mset union_iff)
    then show ?thesis by (induction m) auto
  qed
  ultimately show ?thesis using m by simp
qed

text \<open>The group part of an admissible plan earns at most what the best of every group earn.\<close>

lemma group_part_le:
  assumes d: "distinct (map group_of xs)" and sub: "set xs \<subseteq> {e \<in> set es. stacking_of e = SameGroupExclusive}"
    and nonneg: "\<And>e. e \<in> set es \<Longrightarrow> 0 \<le> amount_of e"
  shows "plan_total xs \<le> plan_total (group_best es)"
proof -
  let ?w = "\<lambda>g. amount_of (best_of es g)"
  have "plan_total xs \<le> sum_list (map ?w (map group_of xs))"
    using sub by (induction xs) (auto intro!: add_mono best_of_props(4))
  also have "\<dots> = sum ?w (set (map group_of xs))" using d by (rule sum_list_distinct_conv_sum_set)
  also have "\<dots> \<le> sum ?w (set (sge_groups es))"
  proof (rule sum_mono2)
    show "set (map group_of xs) \<subseteq> set (sge_groups es)" using sub by (auto simp: sge_groups_props)
    show "0 \<le> ?w g" if "g \<in> set (sge_groups es) - set (map group_of xs)" for g
      using that nonneg best_of_props(2) by (fastforce simp: sge_groups_props)
  qed simp
  also have "\<dots> = sum_list (map ?w (sge_groups es))"
    by (simp add: sum_list_distinct_conv_sum_set sge_groups_props(1))
  also have "\<dots> = plan_total (group_best es)" by (simp add: group_best_eq plan_total_def o_def)
  finally show ?thesis .
qed

lemma well_grouped_entry:
  "candidate_list es \<Longrightarrow> e \<in> set es \<Longrightarrow>
    (stacking_of e = SameGroupExclusive) = (group_of e \<noteq> None) \<and> 0 \<le> amount_of e"
  by (auto simp: candidate_list_def list_all_iff well_grouped_def stacking_of_def group_of_def)

lemma group_best_mem:
  assumes "candidate_list es" and "e \<in> set (group_best es)"
  shows "e \<in> set es \<and> stacking_of e = SameGroupExclusive"
proof -
  from assms(2) obtain f where f: "f \<in> set es" "stacking_of f = SameGroupExclusive"
    "e = best_of es (group_of f)"
    by (auto simp: group_best_eq sge_groups_props)
  then show ?thesis
    using best_of_props(2,3) [OF f(1), of "group_of f"] well_grouped_entry [OF assms(1)] by metis
qed

lemma group_best_groups: "candidate_list es \<Longrightarrow> map group_of (group_best es) = sge_groups es"
  unfolding group_best_eq map_map o_def
  by (rule map_idI) (auto simp: sge_groups_props intro: best_of_props(3))

lemma mset_subset_of_distinct: "distinct xs \<Longrightarrow> set xs \<subseteq> set ys \<Longrightarrow> mset xs \<subseteq># mset ys"
  by (rule mset_subset_eqI) (auto simp: distinct_count_atmost_1)

lemma compatible_plan_admissible:
  assumes "candidate_list es"
  shows "admissible es (compatible_plan es)"
proof -
  let ?sge = "\<lambda>e. stacking_of e = SameGroupExclusive"
  have groups: "distinct (map group_of (group_best es))"
    using group_best_groups [OF assms] sge_groups_props(1) [of es] by metis
  then have "mset (group_best es) \<subseteq># mset (filter ?sge es)"
    using group_best_mem [OF assms] by (intro mset_subset_of_distinct) (auto simp: distinct_map)
  moreover have "mset (filter (\<lambda>e. stacking_of e = Stackable) es) + mset (filter ?sge es) \<subseteq># mset es"
    by (rule mset_subset_eqI) simp
  ultimately have "mset (compatible_plan es) \<subseteq># mset es"
    unfolding compatible_plan_def mset_append by (meson mset_subset_eq_mono_add_left_cancel subset_mset.order_trans)
  moreover have "filter ?sge (compatible_plan es) = group_best es"
    using group_best_mem [OF assms] by (auto simp: compatible_plan_def filter_id_conv)
  moreover have "\<not> list_ex (\<lambda>e. stacking_of e = ExclusiveStacking) (compatible_plan es)"
    using group_best_mem [OF assms] by (fastforce simp: compatible_plan_def list_ex_iff)
  ultimately show ?thesis using groups by (simp add: admissible_def)
qed

lemma plans_admissible:
  assumes "candidate_list es" and "plan \<in> set (plans es)"
  shows "admissible es plan"
proof (cases "plan = compatible_plan es")
  case True
  then show ?thesis using compatible_plan_admissible [OF assms(1)] by simp
next
  case False
  with assms(2) obtain e where "plan = [e]" "e \<in> set es" by (auto simp: plans_def split: if_splits)
  then show ?thesis by (simp add: admissible_def)
qed

lemma selected_plan_cases:
  "(plans es = [] \<and> selected_plan es = []) \<or> selected_plan es \<in> set (plans es)"
  using sort_key_hd by (fastforce simp: selected_plan_def split: list.splits)

lemma selected_plan_best:
  assumes "plan \<in> set (plans es)"
  shows "plan_total plan \<le> plan_total (selected_plan es)"
proof -
  let ?k = "\<lambda>p. (- plan_total p, collation_key (plan_code p))"
  obtain p ps where h: "sort_key ?k (plans es) = p # ps"
    using assms by (cases "sort_key ?k (plans es)") auto
  have "?k p \<le> ?k plan" using sort_key_hd [OF h] assms by blast
  moreover have "selected_plan es = p" by (simp add: selected_plan_def h)
  ultimately show ?thesis by (auto simp: less_eq_prod_def)
qed

lemma plan_total_split:
  "\<not> list_ex (\<lambda>e. stacking_of e = ExclusiveStacking) plan \<Longrightarrow>
   plan_total plan = plan_total (filter (\<lambda>e. stacking_of e = Stackable) plan) +
     plan_total (filter (\<lambda>e. stacking_of e = SameGroupExclusive) plan)"
proof (induction plan)
  case (Cons e plan)
  then show ?case by (cases "stacking_of e") simp_all
qed simp

lemma admissible_le_compatible:
  assumes c: "candidate_list es" and adm: "admissible es plan"
    and no: "\<not> list_ex (\<lambda>e. stacking_of e = ExclusiveStacking) plan"
  shows "plan_total plan \<le> plan_total (compatible_plan es)"
proof -
  have sub: "mset plan \<subseteq># mset es" using adm by (simp add: admissible_def)
  have nonneg: "0 \<le> amount_of e" if "e \<in> set es" for e using well_grouped_entry [OF c that] by simp
  have "plan_total (filter (\<lambda>e. stacking_of e = Stackable) plan) \<le>
      plan_total (filter (\<lambda>e. stacking_of e = Stackable) es)"
    by (rule plan_total_mset_le) (use sub nonneg in \<open>auto intro: multiset_filter_mono\<close>)
  moreover have "set plan \<subseteq> set es" using sub set_mset_mono [of "mset plan" "mset es"] by simp
  then have "plan_total (filter (\<lambda>e. stacking_of e = SameGroupExclusive) plan) \<le> plan_total (group_best es)"
    using adm nonneg by (intro group_part_le) (auto simp: admissible_def)
  ultimately show ?thesis unfolding plan_total_split [OF no] by (simp add: compatible_plan_def)
qed

lemma selected_plan_nonneg: "candidate_list es \<Longrightarrow> 0 \<le> plan_total (selected_plan es)"
  using selected_plan_cases [of es] selected_plan_best [of _ es] plans_admissible [of es "selected_plan es"]
    plan_total_mset_le [of "[]" "selected_plan es"] well_grouped_entry [of es]
    set_mset_mono [of "mset (selected_plan es)" "mset es"]
  by (fastforce simp: admissible_def)

lemma selected_plan_optimal:
  assumes c: "candidate_list es" and adm: "admissible es plan"
  shows "plan_total plan \<le> plan_total (selected_plan es)"
proof (cases "list_ex (\<lambda>e. stacking_of e = ExclusiveStacking) plan")
  case True
  with adm obtain e where e: "plan = [e]" "stacking_of e = ExclusiveStacking"
    by (auto simp: admissible_def length_Suc_conv)
  moreover from e adm have "e \<in> set es" by (simp add: admissible_def)
  ultimately have "plan \<in> set (plans es)" by (auto simp: plans_def)
  then show ?thesis by (rule selected_plan_best)
next
  case False
  note le = admissible_le_compatible [OF c adm False]
  show ?thesis
  proof (cases "compatible_plan es = []")
    case True
    then show ?thesis using le selected_plan_nonneg [OF c] by simp
  next
    case False
    then have "compatible_plan es \<in> set (plans es)" by (simp add: plans_def)
    then show ?thesis using le selected_plan_best by fastforce
  qed
qed

lemma selected_plan_admissible: "candidate_list es \<Longrightarrow> admissible es (selected_plan es)"
  using selected_plan_cases [of es] plans_admissible [of es] by (auto simp: admissible_def)

section \<open>Simulation\<close>

lemma eligible_entries_Inr:
  "eligible_entries basket subtotal ps = Inr es \<Longrightarrow> e \<in> set es \<Longrightarrow>
   ee_promotion e \<in> set ps \<and> candidateDiscount (ee_promotion e) basket subtotal = Inr (Some (ee_discount e))"
  by (induction ps arbitrary: es) (auto simp: bnd_eq_Inr split: option.splits)

lemma eligible_candidate_list:
  assumes "map_res (createPromotionSnapshot zr) inputs = Inr ps"
    and "eligible_entries basket subtotal ps = Inr es"
  shows "candidate_list es"
  unfolding candidate_list_def list_all_iff
proof
  fix e assume "e \<in> set es"
  note h = eligible_entries_Inr [OF assms(2) this]
  then obtain input where c: "createPromotionSnapshot zr input = Inr (ee_promotion e)"
    using map_res_in [OF assms(1)] by blast
  show "well_grouped (ee_promotion e) \<and> 0 \<le> amount_of e"
    using candidateDiscount_range [OF c] createPromotionSnapshot_parts(3) [OF c] h by blast
qed

lemma normalized_line_nonneg: "normalized_line v = Inr l \<Longrightarrow> 0 \<le> bl_amountMinor l"
  by (auto simp: normalized_line_def bnd_eq_Inr dest!: minor_Inr_range)

text \<open>What a successful simulation has computed.\<close>

lemma simulatePromotions_Inr:
  assumes "simulatePromotions zr snapshots basket = Inr r"
  shows "\<exists>es. candidate_list es \<and>
    si_selections r = map (selection_of (map (\<lambda>e. pm_promotionReference (ee_promotion e)) (selected_plan es)))
        (sort_key (\<lambda>e. collation_key (pm_stableCode (ee_promotion e))) es) \<and>
    0 \<le> amountMinor (si_subtotal r) \<and> valid_money (si_subtotal r) \<and> valid_money (si_discount r) \<and>
    amountMinor (si_discount r) = min (plan_total (selected_plan es)) (amountMinor (si_subtotal r)) \<and>
    currencyCode (si_discount r) = currencyCode (si_subtotal r) \<and>
    subtractMoney (money_js (si_subtotal r)) (money_js (si_discount r)) = Inr (si_total r)"
proof -
  have "\<exists>ps currency lines b es discount0.
      map_res (createPromotionSnapshot zr) (elements snapshots) = Inr ps \<and>
      map_res normalized_line (elements (fld basket ''lines'')) = Inr lines \<and>
      new_money (sum_list (map bl_amountMinor lines)) currency = Inr (si_subtotal r) \<and>
      eligible_entries b (si_subtotal r) ps = Inr es \<and>
      new_money (plan_total (selected_plan es)) currency = Inr discount0 \<and>
      minimum discount0 (si_subtotal r) = Inr (si_discount r) \<and>
      subtractMoney (money_js (si_subtotal r)) (money_js (si_discount r)) = Inr (si_total r) \<and>
      si_selections r = map (selection_of (map (\<lambda>e. pm_promotionReference (ee_promotion e)) (selected_plan es)))
        (sort_key (\<lambda>e. collation_key (pm_stableCode (ee_promotion e))) es)"
    using assms unfolding simulatePromotions_def Let_def bnd_eq_Inr
    by (elim exE conjE) (drule Inr_inject, hypsubst, simp only: promotion_simulation.simps,
        intro exI conjI, (assumption | rule refl)+)
  then obtain ps currency lines b es discount0 where
    ps: "map_res (createPromotionSnapshot zr) (elements snapshots) = Inr ps" and
    lines: "map_res normalized_line (elements (fld basket ''lines'')) = Inr lines" and
    sub: "new_money (sum_list (map bl_amountMinor lines)) currency = Inr (si_subtotal r)" and
    es: "eligible_entries b (si_subtotal r) ps = Inr es" and
    d0: "new_money (plan_total (selected_plan es)) currency = Inr discount0" and
    d: "minimum discount0 (si_subtotal r) = Inr (si_discount r)" and
    rest: "subtractMoney (money_js (si_subtotal r)) (money_js (si_discount r)) = Inr (si_total r)"
      "si_selections r = map (selection_of (map (\<lambda>e. pm_promotionReference (ee_promotion e)) (selected_plan es)))
        (sort_key (\<lambda>e. collation_key (pm_stableCode (ee_promotion e))) es)"
    by blast
  have "0 \<le> sum_list (map bl_amountMinor lines)"
    by (rule sum_list_nonneg) (use map_res_in [OF lines] normalized_line_nonneg in fastforce)
  then have s: "0 \<le> amountMinor (si_subtotal r)" "valid_money (si_subtotal r)" "valid_money discount0"
    "amountMinor discount0 = plan_total (selected_plan es)"
    using sub d0 by (auto simp: new_money_Inr)
  then show ?thesis
    using rest eligible_candidate_list [OF ps es] d by (auto simp: minimum_Inr min_def)
qed

section \<open>Properties\<close>

text \<open>An example: a stackable and an exclusive promotion, and a basket of two lines.\<close>

definition example_promotion :: "string \<Rightarrow> string \<Rightarrow> string \<Rightarrow> string \<Rightarrow> string \<Rightarrow> js \<Rightarrow> js" where
  "example_promotion ref code scope calc value0 stacking = JObj
     [(''promotionReference'', JStr ref), (''versionReference'', JStr ref),
      (''brandReference'', JStr ''01890000-0000-7000-8000-000000000001''),
      (''stableCode'', JStr code), (''aggregateVersion'', JNum 1), (''versionNumber'', JNum 1),
      (''snapshotDigest'', JStr example_digest),
      (''lifecycle'', JStr ''Published''), (''promotionType'', JStr ''OrderPercentage''),
      (''currencyCode'', JStr ''CAD''), (''eligibleSellableReferences'', JArr []),
      (''eligibleCategoryReferences'', JArr []), (''eligibleSegmentReference'', JNull),
      (''thresholdMinor'', JNull),
      (''benefit'', JObj [(''scope'', JStr scope), (''calculation'', JStr calc), (''value'', JStr value0),
         (''maximumDiscountMinor'', JNull)]),
      (''stacking'', stacking), (''stackingGroupCode'', JNull), (''priority'', JNum 1),
      (''budgetMinor'', JStr ''100000''), (''usageMinor'', JStr ''0''), (''usageCount'', JNum 0),
      (''redemptionLimit'', JNum 10), (''effectivePeriod'', example_period_js),
      (''customerCopyCode'', JStr ''COPY''), (''createdAt'', JStr ''2026-01-01T00:00:00.000Z'')]"

definition example_promotions :: js where
  "example_promotions = JArr
     [example_promotion ''01890000-0000-7000-8000-0000000000a1'' ''TEN_PERCENT'' ''Order'' ''Percentage''
        ''0.1'' (JStr ''Stackable''),
      example_promotion ''01890000-0000-7000-8000-0000000000a2'' ''FIVE_OFF'' ''Order'' ''Fixed''
        ''500'' (JStr ''Exclusive'')]"

definition example_item_promotions :: js where
  "example_item_promotions = JArr
     [example_promotion ''01890000-0000-7000-8000-0000000000a3'' ''ITEM_TEN'' ''Item'' ''Percentage''
        ''0.1'' (JStr ''Stackable'')]"

definition example_basket :: js where
  "example_basket = JObj
     [(''basketReference'', JStr ''01890000-0000-7000-8000-0000000000b1''),
      (''brandReference'', JStr ''01890000-0000-7000-8000-000000000001''),
      (''currencyCode'', JStr ''CAD''), (''segmentReference'', JNull),
      (''evaluatedAt'', JStr ''2026-05-01T00:00:00.000Z''),
      (''lines'', JArr
         [JObj [(''lineReference'', JStr ''01890000-0000-7000-8000-0000000000c1''),
                (''sellableReference'', JStr ''01890000-0000-7000-8000-000000000030''),
                (''categoryReferences'', JArr []), (''amountMinor'', JStr ''1999'')],
          JObj [(''lineReference'', JStr ''01890000-0000-7000-8000-0000000000c2''),
                (''sellableReference'', JStr ''01890000-0000-7000-8000-000000000031''),
                (''categoryReferences'', JArr []), (''amountMinor'', JStr ''2001'')]])]"

definition example_promotion_snapshot :: "string \<Rightarrow> string \<Rightarrow> benefit_scope \<Rightarrow> benefit_calculation \<Rightarrow> string \<Rightarrow>
    promotion_stacking \<Rightarrow> promotion_snapshot" where
  "example_promotion_snapshot ref code scope calc value0 stacking =
     \<lparr>pm_promotionReference = ref, pm_versionReference = ref,
      pm_brandReference = ''01890000-0000-7000-8000-000000000001'', pm_stableCode = code,
      pm_aggregateVersion = 1, pm_versionNumber = 1,
      pm_snapshotDigest = example_digest, pm_lifecycle = PromoPublished,
      pm_promotionType = OrderPercentage, pm_currencyCode = ''CAD'', pm_eligibleSellableReferences = [],
      pm_eligibleCategoryReferences = [], pm_eligibleSegmentReference = None, pm_thresholdMinor = None,
      pm_benefit = \<lparr>be_scope = scope, be_calculation = calc, be_value = value0,
        be_maximumDiscountMinor = None\<rparr>,
      pm_stacking = stacking, pm_stackingGroupCode = None, pm_priority = 1, pm_budgetMinor = ''100000'',
      pm_usageMinor = ''0'', pm_usageCount = 0, pm_redemptionLimit = 10,
      pm_effectivePeriod = example_period, pm_customerCopyCode = ''COPY'',
      pm_createdAt = ''2026-01-01T00:00:00.000Z''\<rparr>"

definition example_stackable :: promotion_snapshot where
  "example_stackable =
     example_promotion_snapshot ''01890000-0000-7000-8000-0000000000a1'' ''TEN_PERCENT'' OrderScope Percentage
        ''0.1'' Stackable"

definition example_exclusive :: promotion_snapshot where
  "example_exclusive =
     example_promotion_snapshot ''01890000-0000-7000-8000-0000000000a2'' ''FIVE_OFF'' OrderScope Fixed
        ''500'' ExclusiveStacking"

definition example_item_snapshot :: promotion_snapshot where
  "example_item_snapshot =
     example_promotion_snapshot ''01890000-0000-7000-8000-0000000000a3'' ''ITEM_TEN'' ItemScope Percentage
        ''0.1'' Stackable"

definition example_lines :: "basket_line list" where
  "example_lines =
     [\<lparr>bl_lineReference = ''01890000-0000-7000-8000-0000000000c1'',
       bl_sellableReference = ''01890000-0000-7000-8000-000000000030'', bl_categoryReferences = [],
       bl_amountMinor = 1999\<rparr>,
      \<lparr>bl_lineReference = ''01890000-0000-7000-8000-0000000000c2'',
       bl_sellableReference = ''01890000-0000-7000-8000-000000000031'', bl_categoryReferences = [],
       bl_amountMinor = 2001\<rparr>]"

definition example_normalized :: promotion_basket where
  "example_normalized = \<lparr>ba_basketReference = ''01890000-0000-7000-8000-0000000000b1'',
     ba_brandReference = ''01890000-0000-7000-8000-000000000001'', ba_currencyCode = ''CAD'',
     ba_segmentReference = None, ba_evaluatedAt = ''2026-05-01T00:00:00.000Z'', ba_lines = example_lines\<rparr>"

abbreviation example_subtotal :: money where
  "example_subtotal \<equiv> \<lparr>amountMinor = 4000, currencyCode = ''CAD''\<rparr>"

definition example_entries :: "eligible_entry list" where
  "example_entries =
     [\<lparr>ee_promotion = example_stackable, ee_discount = \<lparr>amountMinor = 400, currencyCode = ''CAD''\<rparr>\<rparr>,
      \<lparr>ee_promotion = example_exclusive, ee_discount = \<lparr>amountMinor = 500, currencyCode = ''CAD''\<rparr>\<rparr>]"

lemma example_constants:
  "minor (JStr ''100000'') = Inr 100000" "minor (JStr ''0'') = Inr 0"
  "parsePricingReference (JStr ''01890000-0000-7000-8000-000000000001'') =
     Inr ''01890000-0000-7000-8000-000000000001''"
  "parsePricingDigest (JStr example_digest) = Inr example_digest"
  "parseCurrencyCode (JStr ''CAD'') = Inr ''CAD''" "parsePricingCode (JStr ''COPY'') = Inr ''COPY''"
  "pm_instant (JStr ''2026-01-01T00:00:00.000Z'') = Inr ''2026-01-01T00:00:00.000Z''"
  "enum_of promotion_lifecycles (JStr ''Published'') = Some PromoPublished"
  "enum_of promotion_types (JStr ''OrderPercentage'') = Some OrderPercentage"
  "references (JArr []) = Inr []" "minor_text JNull = Inr None"
  by code_simp+

lemma example_numerals: "int_str 100000 = ''100000''" "int_str 0 = ''0''"
  by (simp_all add: int_str_def nat_str.simps digit_char_code)

lemma example_promotion_created:
  assumes "parsePricingReference (JStr ref) = Inr ref" and "parsePricingCode (JStr code) = Inr code"
    and "benefit (JObj [(''scope'', JStr sc), (''calculation'', JStr ca), (''value'', JStr v),
         (''maximumDiscountMinor'', JNull)]) =
         Inr \<lparr>be_scope = scope, be_calculation = calc, be_value = v, be_maximumDiscountMinor = None\<rparr>"
    and "enum_of promotion_stackings st = Some stacking" and "stacking \<noteq> SameGroupExclusive"
  shows "createPromotionSnapshot example_zone (example_promotion ref code sc ca v st) =
    Inr (example_promotion_snapshot ref code scope calc v stacking)"
  using assms unfolding createPromotionSnapshot_def Let_def example_promotion_def
  by (simp add: example_constants example_numerals example_period_created max_safe_def example_promotion_snapshot_def)

lemma example_benefits:
  "benefit (JObj [(''scope'', JStr ''Order''), (''calculation'', JStr ''Percentage''), (''value'', JStr ''0.1''),
      (''maximumDiscountMinor'', JNull)]) =
   Inr \<lparr>be_scope = OrderScope, be_calculation = Percentage, be_value = ''0.1'', be_maximumDiscountMinor = None\<rparr>"
  "benefit (JObj [(''scope'', JStr ''Order''), (''calculation'', JStr ''Fixed''), (''value'', JStr ''500''),
      (''maximumDiscountMinor'', JNull)]) =
   Inr \<lparr>be_scope = OrderScope, be_calculation = Fixed, be_value = ''500'', be_maximumDiscountMinor = None\<rparr>"
  "benefit (JObj [(''scope'', JStr ''Item''), (''calculation'', JStr ''Percentage''), (''value'', JStr ''0.1''),
      (''maximumDiscountMinor'', JNull)]) =
   Inr \<lparr>be_scope = ItemScope, be_calculation = Percentage, be_value = ''0.1'', be_maximumDiscountMinor = None\<rparr>"
  "enum_of promotion_stackings (JStr ''Stackable'') = Some Stackable"
  "enum_of promotion_stackings (JStr ''Exclusive'') = Some ExclusiveStacking"
  by code_simp+

lemma example_stackable_created:
  "createPromotionSnapshot example_zone (elements example_promotions ! 0) = Inr example_stackable"
  unfolding example_promotions_def example_stackable_def elements.simps nth_Cons_0
  by (rule example_promotion_created; (rule example_benefits)?) (code_simp | simp)+

lemma example_exclusive_created:
  "createPromotionSnapshot example_zone (elements example_promotions ! 1) = Inr example_exclusive"
  unfolding example_promotions_def example_exclusive_def elements.simps nth_Cons_0 One_nat_def nth_Cons_Suc
  by (rule example_promotion_created; (rule example_benefits)?) (code_simp | simp)+

lemma example_item_created:
  "createPromotionSnapshot example_zone (elements example_item_promotions ! 0) = Inr example_item_snapshot"
  unfolding example_item_promotions_def example_item_snapshot_def elements.simps nth_Cons_0
  by (rule example_promotion_created; (rule example_benefits)?) (code_simp | simp)+

lemma example_snapshots_created:
  "map_res (createPromotionSnapshot example_zone) (elements example_promotions) = Inr [example_stackable, example_exclusive]"
  "map_res (createPromotionSnapshot example_zone) (elements example_item_promotions) = Inr [example_item_snapshot]"
  using example_stackable_created example_exclusive_created example_item_created
  by (simp_all add: example_promotions_def example_item_promotions_def)

lemma example_lines_read: "map_res normalized_line (elements (fld example_basket ''lines'')) = Inr example_lines"
  by code_simp

lemma example_candidates:
  "candidateDiscount example_stackable example_normalized example_subtotal =
     Inr (Some \<lparr>amountMinor = 400, currencyCode = ''CAD''\<rparr>)"
  "candidateDiscount example_exclusive example_normalized example_subtotal =
     Inr (Some \<lparr>amountMinor = 500, currencyCode = ''CAD''\<rparr>)"
  "candidateDiscount example_item_snapshot example_normalized example_subtotal =
     Inl (PromotionError PROMOTION_INPUT_INVALID)"
  by code_simp+

lemma example_selected: "selected_plan example_entries = [example_entries ! 1]"
  by code_simp

lemma example_basket_read:
  "is_array (fld example_basket ''lines'')" "elements (fld example_basket ''lines'') \<noteq> []"
  "parseCurrencyCode (fld example_basket ''currencyCode'') = Inr ''CAD''"
  "pm_instant (fld example_basket ''evaluatedAt'') = Inr ''2026-05-01T00:00:00.000Z''"
  "new_money (sum_list (map bl_amountMinor example_lines)) ''CAD'' = Inr example_subtotal"
  "parsePricingReference (fld example_basket ''basketReference'') = Inr ''01890000-0000-7000-8000-0000000000b1''"
  "parsePricingReference (fld example_basket ''brandReference'') = Inr ''01890000-0000-7000-8000-000000000001''"
  "nullable parsePricingReference (fld example_basket ''segmentReference'') = Inr None"
  by code_simp+

definition example_result :: promotion_simulation where
  "example_result =
     \<lparr>si_basketReference = ''01890000-0000-7000-8000-0000000000b1'', si_subtotal = example_subtotal,
      si_discount = \<lparr>amountMinor = 500, currencyCode = ''CAD''\<rparr>,
      si_total = \<lparr>amountMinor = 3500, currencyCode = ''CAD''\<rparr>,
      si_selections =
        [selection_of [''01890000-0000-7000-8000-0000000000a2''] (example_entries ! 1),
         selection_of [''01890000-0000-7000-8000-0000000000a2''] (example_entries ! 0)]\<rparr>"

lemma example_totals:
  "new_money (plan_total [example_entries ! 1]) ''CAD'' = Inr \<lparr>amountMinor = 500, currencyCode = ''CAD''\<rparr>"
  "minimum \<lparr>amountMinor = 500, currencyCode = ''CAD''\<rparr> example_subtotal =
     Inr \<lparr>amountMinor = 500, currencyCode = ''CAD''\<rparr>"
  "subtractMoney (money_js example_subtotal) (money_js \<lparr>amountMinor = 500, currencyCode = ''CAD''\<rparr>) =
     Inr \<lparr>amountMinor = 3500, currencyCode = ''CAD''\<rparr>"
  "map (\<lambda>e. pm_promotionReference (ee_promotion e)) [example_entries ! 1] = [''01890000-0000-7000-8000-0000000000a2'']"
  "sort_key (\<lambda>e. collation_key (pm_stableCode (ee_promotion e))) example_entries =
     [example_entries ! 1, example_entries ! 0]"
  by code_simp+

lemma example_eligible:
  "eligible_entries example_normalized example_subtotal [example_stackable, example_exclusive] = Inr example_entries"
  by (simp add: example_candidates example_entries_def)

lemma example_simulation: "simulatePromotions example_zone example_promotions example_basket = Inr example_result"
proof -
  have "is_array example_promotions" by (simp add: example_promotions_def)
  then show ?thesis
    unfolding simulatePromotions_def Let_def example_snapshots_created example_basket_read bnd_Inr
      example_lines_read example_normalized_def [symmetric] example_eligible example_selected
      example_totals
    by (simp add: example_basket_read example_result_def)
qed

lemma example_item_simulation:
  "simulatePromotions example_zone example_item_promotions example_basket =
   Inl (PromotionError PROMOTION_INPUT_INVALID)"
proof -
  have "is_array example_item_promotions" by (simp add: example_item_promotions_def)
  then show ?thesis
    unfolding simulatePromotions_def Let_def example_snapshots_created example_basket_read bnd_Inr
      example_lines_read example_normalized_def [symmetric]
    by (simp add: example_basket_read example_candidates)
qed

text \<open>
  C11. A successful simulation never discounts more than the subtotal and never less than nothing, and
  its total is the subtotal less the discount, in one currency.
\<close>

theorem simulatePromotions_bounds:
  assumes "simulatePromotions zr snapshots basket = Inr r"
  shows "0 \<le> amountMinor (si_discount r) \<and> amountMinor (si_discount r) \<le> amountMinor (si_subtotal r) \<and>
    amountMinor (si_total r) = amountMinor (si_subtotal r) - amountMinor (si_discount r) \<and>
    currencyCode (si_total r) = currencyCode (si_subtotal r)"
proof -
  from simulatePromotions_Inr [OF assms] obtain es where
    es: "candidate_list es" and
    r: "0 \<le> amountMinor (si_subtotal r)" "valid_money (si_subtotal r)" "valid_money (si_discount r)"
      "amountMinor (si_discount r) = min (plan_total (selected_plan es)) (amountMinor (si_subtotal r))"
      "subtractMoney (money_js (si_subtotal r)) (money_js (si_discount r)) = Inr (si_total r)"
    by blast
  then show ?thesis
    using selected_plan_nonneg [OF es] by (auto simp: subtractMoney_money_js min_def dest!: sym [of _ "si_total r"] split: if_splits)
qed

theorem simulatePromotions_bounds_witness:
  "simulatePromotions example_zone example_promotions example_basket = Inr example_result \<and>
   amountMinor (si_total example_result) = amountMinor (si_subtotal example_result) - amountMinor (si_discount example_result)"
  using simulatePromotions_bounds [OF example_simulation] example_simulation by blast

text \<open>
  C10. The plan that is applied is the best the stacking rules admit: it is an admissible choice of
  candidates, and no admissible choice (whatever way it is put together) saves more.
\<close>

theorem selected_plan_is_optimal:
  assumes "candidate_list eligible"
  shows "admissible eligible (selected_plan eligible) \<and>
    (\<forall>plan. admissible eligible plan \<longrightarrow> plan_total plan \<le> plan_total (selected_plan eligible))"
  using assms selected_plan_admissible selected_plan_optimal by blast

theorem selected_plan_is_optimal_witness:
  "candidate_list example_entries \<and> plan_total (selected_plan example_entries) = 500 \<and>
   \<not> (\<exists>plan. admissible example_entries plan \<and> 500 < plan_total plan)"
proof -
  have c: "candidate_list example_entries" by code_simp
  moreover have t: "plan_total (selected_plan example_entries) = 500" by code_simp
  ultimately show ?thesis using selected_plan_is_optimal [OF c] by auto
qed

text \<open>
  The discount of a candidate is between nothing and the subtotal, stays within the promotion's
  maximum and, added to what the promotion has already spent, within its budget.
\<close>

theorem candidateDiscount_within_limits:
  assumes "createPromotionSnapshot zr input = Inr p"
    and "candidateDiscount p basket subtotal = Inr (Some d)"
  shows "0 \<le> amountMinor d \<and> amountMinor d \<le> amountMinor subtotal \<and>
    dec_val (pm_usageMinor p) + amountMinor d \<le> dec_val (pm_budgetMinor p) \<and>
    (case be_maximumDiscountMinor (pm_benefit p) of None \<Rightarrow> True | Some m \<Rightarrow> amountMinor d \<le> dec_val m)"
  using candidateDiscount_range [OF assms] by blast

theorem candidateDiscount_within_limits_witness:
  "createPromotionSnapshot example_zone (elements example_promotions ! 0) = Inr example_stackable \<and>
   dec_val (pm_usageMinor example_stackable) + 400 \<le> dec_val (pm_budgetMinor example_stackable)"
  using candidateDiscount_within_limits [OF example_stackable_created example_candidates(1)]
    example_stackable_created by simp

lemma eligible_entries_fail:
  assumes "p \<in> set ps" and "candidateDiscount p basket subtotal = Inl e"
  shows "eligible_entries basket subtotal ps \<noteq> Inr es"
  using assms by (induction ps arbitrary: es) (auto simp: bnd_eq_Inr)

text \<open>
  C12. A promotion scoped to items is never applied: when such a promotion is in force for a basket (published,
  of its brand and currency, in its period, for its segment, threshold met, redemptions left) and one of the
  lines is eligible, its candidate fails with \<open>PROMOTION_INPUT_INVALID\<close> (the amounts of the normalised lines are
  bigints, and \<open>minor\<close> accepts strings only), and no list of promotions that contains it has candidates at all.
\<close>

theorem item_scoped_candidate_fails:
  assumes "be_scope (pm_benefit p) = ItemScope" and "promotion_applies p basket"
    and "below_threshold p subtotal = Inr False" and "pm_usageCount p < pm_redemptionLimit p"
    and "line \<in> set (ba_lines basket)" and "line_eligible p line"
  shows "candidateDiscount p basket subtotal = Inl (PromotionError PROMOTION_INPUT_INVALID) \<and>
    (\<forall>ps es. p \<in> set ps \<longrightarrow> eligible_entries basket subtotal ps \<noteq> Inr es)"
proof -
  have "filter (line_eligible p) (ba_lines basket) \<noteq> []" using assms(5,6) by (auto simp: filter_empty_conv)
  with assms have c: "candidateDiscount p basket subtotal = Inl (PromotionError PROMOTION_INPUT_INVALID)"
    by (simp add: candidateDiscount_def sum_minor_nonempty pm_fail_def)
  with eligible_entries_fail [of p _ basket subtotal] show ?thesis by auto
qed

theorem item_scoped_candidate_fails_witness:
  "candidateDiscount example_item_snapshot example_normalized example_subtotal =
     Inl (PromotionError PROMOTION_INPUT_INVALID) \<and>
   simulatePromotions example_zone example_item_promotions example_basket =
     Inl (PromotionError PROMOTION_INPUT_INVALID)"
proof -
  have h: "be_scope (pm_benefit example_item_snapshot) = ItemScope"
    "promotion_applies example_item_snapshot example_normalized"
    "below_threshold example_item_snapshot example_subtotal = Inr False"
    "pm_usageCount example_item_snapshot < pm_redemptionLimit example_item_snapshot"
    "hd example_lines \<in> set (ba_lines example_normalized)" "line_eligible example_item_snapshot (hd example_lines)"
    by code_simp+
  show ?thesis using item_scoped_candidate_fails [OF h] example_item_simulation by blast
qed

end
