(* ===== verification/Codec.thy ===== *)
theory Codec
  imports Prelude
begin

text \<open>
  The contract between a boundary parser and the value it returns: what a parser accepts is valid, and
  a valid value, handed back as a JavaScript object, is accepted again unchanged. Aggregates that are
  spread into a new object and re-parsed (\<open>parse({...current, field})\<close>) rest on it.
\<close>

locale codec =
  fixes parse :: "js \<Rightarrow> 'a res" and print :: "'a \<Rightarrow> js" and valid :: "'a \<Rightarrow> bool"
  assumes parse_valid: "parse v = Inr x \<Longrightarrow> valid x"
    and parse_print: "valid x \<Longrightarrow> parse (print x) = Inr x"
    and print_not_null: "print x \<noteq> JNull"
begin

lemma reparse: "parse v = Inr x \<Longrightarrow> parse (print x) = Inr x"
  using parse_valid parse_print by blast

lemma print_inj: "valid x \<Longrightarrow> valid y \<Longrightarrow> print x = print y \<Longrightarrow> x = y"
  using parse_print by (metis Inr_inject)

lemma valid_iff: "valid x \<longleftrightarrow> (\<exists>v. parse v = Inr x)"
  using parse_valid parse_print by blast

lemma list_valid: "map_res parse vs = Inr xs \<Longrightarrow> list_all valid xs"
  using map_res_in parse_valid by (fastforce simp: list_all_iff)

lemma list_parse_print: "list_all valid xs \<Longrightarrow> map_res parse (map print xs) = Inr xs"
  by (induction xs) (simp_all add: parse_print)

lemma nullable_valid: "nullable parse v = Inr o' \<Longrightarrow> pred_option valid o'"
  using parse_valid by (cases "v = JNull") (auto simp: nullable_def bnd_eq_Inr)

lemma nullable_parse_print: "pred_option valid o' \<Longrightarrow> nullable parse (js_opt print o') = Inr o'"
  using parse_print print_not_null by (cases o') (simp_all add: nullable_def)

end

text \<open>Parsers of strings by format are codecs.\<close>

lemma string_codec:
  assumes "\<And>v s. parse v = Inr s \<longleftrightarrow> v = JStr s \<and> P s"
  shows "codec parse JStr P"
  using assms by unfold_locales simp_all

lemma pred_option_simps [simp]: "pred_option P None" "pred_option P (Some x) = P x"
  by (simp_all add: pred_option_def)

lemma js_opt_JNull: "(\<And>x. f x \<noteq> JNull) \<Longrightarrow> js_opt f o' = JNull \<longleftrightarrow> o' = None"
  by (cases o') simp_all

end
