(* ===== verification/OrderingValues.thy ===== *)
theory OrderingValues
  imports Codec JsDate
begin

text \<open>
  The value types of the ordering module: references, instants, hashes, codes and quantities, as
  \<open>packages/rms/ordering/src/domain/cart.ts\<close> parses them, and the JavaScript operations the ordering
  aggregates use on instants and strings.
\<close>

section \<open>Cart errors and shapes\<close>

definition cart_invalid :: err where
  "cart_invalid = CartError CART_INPUT_INVALID"

definition cart_closed :: "js \<Rightarrow> string list \<Rightarrow> unit res" where
  "cart_closed v keys = throw_if (\<not> has_shape v keys) cart_invalid"

definition parseOrderingReference :: "js \<Rightarrow> string res" where
  "parseOrderingReference v = or_throw (str_if uuid_v7 v) cart_invalid"

definition parseOrderingInstant :: "js \<Rightarrow> string res" where
  "parseOrderingInstant v = or_throw (str_if canonical_instant v) cart_invalid"

definition parseOrderingHash :: "js \<Rightarrow> string res" where
  "parseOrderingHash v = or_throw (str_if sha256_digest v) cart_invalid"

definition cart_code_value :: "js \<Rightarrow> string res" where
  "cart_code_value v = or_throw (str_if (code_format ''_'') v) cart_invalid"

definition cart_quantity :: "js \<Rightarrow> int res" where
  "cart_quantity v = or_throw (safe_int_in 1 999 v) cart_invalid"

lemma ordering_parse_Inr [res_simps]:
  "cart_closed v ks = Inr u \<longleftrightarrow> has_shape v ks"
  "parseOrderingReference v = Inr s \<longleftrightarrow> v = JStr s \<and> uuid_v7 s"
  "parseOrderingInstant v = Inr s \<longleftrightarrow> v = JStr s \<and> canonical_instant s"
  "parseOrderingHash v = Inr s \<longleftrightarrow> v = JStr s \<and> sha256_digest s"
  "cart_code_value v = Inr s \<longleftrightarrow> v = JStr s \<and> code_format ''_'' s"
  by (simp_all add: cart_closed_def parseOrderingReference_def parseOrderingInstant_def
      parseOrderingHash_def cart_code_value_def res_simps)

lemma cart_quantity_Inr [res_simps]: "cart_quantity v = Inr n \<longleftrightarrow> v = JNum n \<and> 1 \<le> n \<and> n \<le> 999"
  by (auto simp: cart_quantity_def res_simps max_safe_def)

interpretation ref: codec parseOrderingReference JStr uuid_v7
  by (rule string_codec) (simp add: ordering_parse_Inr)

interpretation inst: codec parseOrderingInstant JStr canonical_instant
  by (rule string_codec) (simp add: ordering_parse_Inr)

interpretation qty: codec cart_quantity JNum "\<lambda>n. 1 \<le> n \<and> n \<le> 999"
  by unfold_locales (simp_all add: cart_quantity_Inr)

section \<open>Dates\<close>

text \<open>
  \<open>new Date(t).toISOString()\<close>: \<open>NaN\<close> and times beyond \<open>8.64e15\<close> milliseconds are a \<open>RangeError\<close>.
\<close>

definition date_to_iso :: "int option \<Rightarrow> string res" where
  "date_to_iso t =
     (case t of None \<Rightarrow> Inl RangeError
      | Some ms \<Rightarrow> if \<bar>ms\<bar> \<le> 8640000000000000 then Inr (to_iso ms) else Inl RangeError)"

text \<open>\<open>Math.min\<close> on time values: \<open>NaN\<close> wins.\<close>

fun ms_min :: "int option \<Rightarrow> int option \<Rightarrow> int option" where
  "ms_min (Some a) (Some b) = Some (min a b)"
| "ms_min _ _ = None"

lemma date_to_iso_time [simp]: "iso_time t \<Longrightarrow> date_to_iso (Some t) = Inr (to_iso t)"
  by (auto simp: date_to_iso_def iso_time_iff abs_le_iff)

lemma iso_time_between: "iso_time a \<Longrightarrow> a \<le> t \<Longrightarrow> t \<le> b \<Longrightarrow> iso_time b \<Longrightarrow> iso_time t"
  by (simp add: iso_time_iff)

section \<open>Strings\<close>

text \<open>
  \<open>String(v)\<close>, as far as a comparison with a non-empty list of names without commas can tell: a
  string is itself, an array of one element is the string of that element, and no other value of the
  model reads as such a name.
\<close>

fun names_string :: "js \<Rightarrow> string option" where
  "names_string (JStr s) = Some s"
| "names_string (JArr [v]) = names_string v"
| "names_string _ = None"

definition named_in :: "string list \<Rightarrow> js \<Rightarrow> bool" where
  "named_in names v = (case names_string v of None \<Rightarrow> False | Some s \<Rightarrow> s \<in> set names)"

lemma named_in_JStr [simp]: "named_in names (JStr s) \<longleftrightarrow> s \<in> set names"
  by (simp add: named_in_def)

end
