(* ===== verification/CartLifecycle.thy ===== *)
theory CartLifecycle
  imports OrderingValues
begin

text \<open>
  The life of a cart: \<open>packages/rms/ordering/src/domain/cart-lifecycle.ts\<close>. An active lifecycle has an
  idle and an absolute deadline; every observed activity moves the idle deadline, an abandonment or an
  expiry ends it. The operations build a new object by spreading the old one and parse it again.
\<close>

section \<open>Data\<close>

text \<open>
  \<open>status\<close> and \<open>terminalReason\<close> keep the value that was read: both are checked through \<open>String(...)\<close>,
  so the parser does not force them to be strings.
\<close>

record cart_lifecycle =
  cl_status :: js
  cl_policyVersionReference :: string
  cl_policyDigest :: string
  cl_idleTimeoutSeconds :: int
  cl_absoluteTimeoutSeconds :: int
  cl_idleExpiresAt :: string
  cl_absoluteExpiresAt :: string
  cl_terminalAt :: "string option"
  cl_terminalReason :: js

definition maximumTimeoutSeconds :: int where
  "maximumTimeoutSeconds = 365 * 24 * 60 * 60"

definition cart_lifecycle_js :: "cart_lifecycle \<Rightarrow> js" where
  "cart_lifecycle_js l = JObj
     [(''status'', cl_status l), (''policyVersionReference'', JStr (cl_policyVersionReference l)),
      (''policyDigest'', JStr (cl_policyDigest l)), (''idleTimeoutSeconds'', JNum (cl_idleTimeoutSeconds l)),
      (''absoluteTimeoutSeconds'', JNum (cl_absoluteTimeoutSeconds l)),
      (''idleExpiresAt'', JStr (cl_idleExpiresAt l)), (''absoluteExpiresAt'', JStr (cl_absoluteExpiresAt l)),
      (''terminalAt'', js_opt JStr (cl_terminalAt l)), (''terminalReason'', cl_terminalReason l)]"

section \<open>Parsing\<close>

definition cart_duration :: "js \<Rightarrow> int res" where
  "cart_duration v = or_throw (safe_int_in 1 maximumTimeoutSeconds v) cart_invalid"

definition terminalReason :: "js \<Rightarrow> js res" where
  "terminalReason v =
     (if v = JNull then Inr JNull
      else if \<not> named_in [''CUSTOMER_ABANDONED'', ''IDLE_TIMEOUT'', ''ABSOLUTE_TIMEOUT''] v
      then Inl cart_invalid else Inr v)"

text \<open>The consistency condition of \<open>parseCartLifecycle\<close>, on values that have been parsed.\<close>

definition lifecycle_inconsistent ::
  "js \<Rightarrow> int \<Rightarrow> int \<Rightarrow> string \<Rightarrow> string \<Rightarrow> string option \<Rightarrow> js \<Rightarrow> bool" where
  "lifecycle_inconsistent status idle absolute idleExpiresAt absoluteExpiresAt terminalAt reason \<longleftrightarrow>
     idle > absolute \<or>
     ms_of idleExpiresAt > ms_of absoluteExpiresAt \<or>
     (status = JStr ''Active'' \<and> (terminalAt \<noteq> None \<or> reason \<noteq> JNull)) \<or>
     (status = JStr ''Abandoned'' \<and> (terminalAt = None \<or> reason \<noteq> JStr ''CUSTOMER_ABANDONED'')) \<or>
     (status = JStr ''Expired'' \<and>
        (terminalAt = None \<or> reason \<notin> {JStr ''IDLE_TIMEOUT'', JStr ''ABSOLUTE_TIMEOUT''})) \<or>
     (terminalAt \<noteq> None \<and> ms_of (the terminalAt) < ms_of idleExpiresAt \<and> status = JStr ''Expired'')"

text \<open>\<open>parseCartLifecycle\<close> on a value that is not \<open>null\<close>.\<close>

definition parse_lifecycle :: "js \<Rightarrow> cart_lifecycle res" where
  "parse_lifecycle v =
     bnd (cart_closed v [''status'', ''policyVersionReference'', ''policyDigest'', ''idleTimeoutSeconds'',
            ''absoluteTimeoutSeconds'', ''idleExpiresAt'', ''absoluteExpiresAt'', ''terminalAt'',
            ''terminalReason'']) (\<lambda>_.
     bnd (throw_if (\<not> named_in [''Active'', ''Abandoned'', ''Expired''] (fld v ''status'')) cart_invalid) (\<lambda>_.
     bnd (cart_duration (fld v ''idleTimeoutSeconds'')) (\<lambda>idle.
     bnd (cart_duration (fld v ''absoluteTimeoutSeconds'')) (\<lambda>absolute.
     bnd (parseOrderingInstant (fld v ''idleExpiresAt'')) (\<lambda>idleExpiresAt.
     bnd (parseOrderingInstant (fld v ''absoluteExpiresAt'')) (\<lambda>absoluteExpiresAt.
     bnd (nullable parseOrderingInstant (fld v ''terminalAt'')) (\<lambda>terminalAt.
     bnd (terminalReason (fld v ''terminalReason'')) (\<lambda>reason.
     bnd (throw_if (lifecycle_inconsistent (fld v ''status'') idle absolute idleExpiresAt absoluteExpiresAt
                      terminalAt reason) cart_invalid) (\<lambda>_.
     bnd (parseOrderingReference (fld v ''policyVersionReference'')) (\<lambda>policy.
     bnd (parseOrderingHash (fld v ''policyDigest'')) (\<lambda>dig.
     Inr \<lparr>cl_status = fld v ''status'', cl_policyVersionReference = policy, cl_policyDigest = dig,
          cl_idleTimeoutSeconds = idle, cl_absoluteTimeoutSeconds = absolute,
          cl_idleExpiresAt = idleExpiresAt, cl_absoluteExpiresAt = absoluteExpiresAt,
          cl_terminalAt = terminalAt, cl_terminalReason = reason\<rparr>)))))))))))"

definition parseCartLifecycle :: "js \<Rightarrow> cart_lifecycle option res" where
  "parseCartLifecycle v = nullable parse_lifecycle v"

section \<open>Operations\<close>

definition createActiveCartLifecycle :: "js \<Rightarrow> cart_lifecycle res" where
  "createActiveCartLifecycle v =
     bnd (cart_closed v [''policyVersionReference'', ''policyDigest'', ''idleTimeoutSeconds'',
            ''absoluteTimeoutSeconds'', ''startedAt'']) (\<lambda>_.
     bnd (cart_duration (fld v ''idleTimeoutSeconds'')) (\<lambda>idle.
     bnd (cart_duration (fld v ''absoluteTimeoutSeconds'')) (\<lambda>absolute.
     bnd (throw_if (idle > absolute) cart_invalid) (\<lambda>_.
     bnd (parseOrderingInstant (fld v ''startedAt'')) (\<lambda>startedAt.
     bnd (date_to_iso (Some (ms_of startedAt + idle * 1000))) (\<lambda>idleExpiresAt.
     bnd (date_to_iso (Some (ms_of startedAt + absolute * 1000))) (\<lambda>absoluteExpiresAt.
     parse_lifecycle (JObj
       [(''status'', JStr ''Active''), (''policyVersionReference'', fld v ''policyVersionReference''),
        (''policyDigest'', fld v ''policyDigest''), (''idleTimeoutSeconds'', JNum idle),
        (''absoluteTimeoutSeconds'', JNum absolute), (''idleExpiresAt'', JStr idleExpiresAt),
        (''absoluteExpiresAt'', JStr absoluteExpiresAt), (''terminalAt'', JNull),
        (''terminalReason'', JNull)]))))))))"

definition assertCartLifecycleActive :: "cart_lifecycle option \<Rightarrow> string \<Rightarrow> cart_lifecycle res" where
  "assertCartLifecycleActive lifecycle observedAt =
     bnd (or_throw lifecycle (CartError CART_LIFECYCLE_UNAVAILABLE)) (\<lambda>l.
     bnd (throw_if (cl_status l = JStr ''Abandoned'') (CartError CART_ABANDONED)) (\<lambda>_.
     bnd (throw_if (cl_status l = JStr ''Expired'') (CartError CART_EXPIRED)) (\<lambda>_.
     bnd (throw_if (ms_le (date_parse (cl_idleExpiresAt l)) (date_parse observedAt) \<or>
                    ms_le (date_parse (cl_absoluteExpiresAt l)) (date_parse observedAt))
            (CartError CART_EXPIRED)) (\<lambda>_.
     Inr l))))"

definition advanceCartLifecycle :: "cart_lifecycle option \<Rightarrow> string \<Rightarrow> cart_lifecycle res" where
  "advanceCartLifecycle lifecycleValue observedAt =
     bnd (assertCartLifecycleActive lifecycleValue observedAt) (\<lambda>l.
     bnd (date_to_iso (ms_min (map_option (\<lambda>t. t + cl_idleTimeoutSeconds l * 1000) (date_parse observedAt))
                              (date_parse (cl_absoluteExpiresAt l)))) (\<lambda>idleExpiresAt.
     parse_lifecycle (cart_lifecycle_js (l\<lparr>cl_idleExpiresAt := idleExpiresAt\<rparr>))))"

datatype requested_end = EndAbandoned | EndExpired

definition terminateCartLifecycle :: "cart_lifecycle option \<Rightarrow> requested_end \<Rightarrow> string \<Rightarrow> cart_lifecycle res" where
  "terminateCartLifecycle lifecycleValue status terminalAt =
     bnd (assertCartLifecycleActive lifecycleValue terminalAt) (\<lambda>l.
     bnd (throw_if (status = EndExpired) (CartError CART_EXPIRATION_NOT_DUE)) (\<lambda>_.
     parse_lifecycle (cart_lifecycle_js
       (l\<lparr>cl_status := JStr ''Abandoned'', cl_terminalAt := Some terminalAt,
          cl_terminalReason := JStr ''CUSTOMER_ABANDONED''\<rparr>))))"

definition expireCartLifecycle :: "cart_lifecycle option \<Rightarrow> string \<Rightarrow> cart_lifecycle res" where
  "expireCartLifecycle lifecycleValue evaluatedAt =
     bnd (or_throw lifecycleValue (CartError CART_LIFECYCLE_UNAVAILABLE)) (\<lambda>l.
     bnd (throw_if (cl_status l = JStr ''Abandoned'') (CartError CART_ABANDONED)) (\<lambda>_.
     bnd (throw_if (cl_status l = JStr ''Expired'') (CartError CART_EXPIRED)) (\<lambda>_.
     let absoluteDue = ms_le (date_parse (cl_absoluteExpiresAt l)) (date_parse evaluatedAt);
         idleDue = ms_le (date_parse (cl_idleExpiresAt l)) (date_parse evaluatedAt) in
     bnd (throw_if (\<not> absoluteDue \<and> \<not> idleDue) (CartError CART_EXPIRATION_NOT_DUE)) (\<lambda>_.
     parse_lifecycle (cart_lifecycle_js
       (l\<lparr>cl_status := JStr ''Expired'', cl_terminalAt := Some evaluatedAt,
          cl_terminalReason := JStr (if absoluteDue then ''ABSOLUTE_TIMEOUT'' else ''IDLE_TIMEOUT'')\<rparr>))))))"

section \<open>Valid lifecycles\<close>

lemma cart_duration_Inr [res_simps]:
  "cart_duration v = Inr n \<longleftrightarrow> v = JNum n \<and> 1 \<le> n \<and> n \<le> maximumTimeoutSeconds"
  by (auto simp: cart_duration_def res_simps max_safe_def maximumTimeoutSeconds_def)

lemma terminalReason_Inr [res_simps]:
  "terminalReason v = Inr w \<longleftrightarrow> w = v \<and>
     (v = JNull \<or> named_in [''CUSTOMER_ABANDONED'', ''IDLE_TIMEOUT'', ''ABSOLUTE_TIMEOUT''] v)"
  by (auto simp: terminalReason_def)

definition valid_lifecycle :: "cart_lifecycle \<Rightarrow> bool" where
  "valid_lifecycle l \<longleftrightarrow>
     named_in [''Active'', ''Abandoned'', ''Expired''] (cl_status l) \<and>
     uuid_v7 (cl_policyVersionReference l) \<and> sha256_digest (cl_policyDigest l) \<and>
     1 \<le> cl_idleTimeoutSeconds l \<and> cl_absoluteTimeoutSeconds l \<le> maximumTimeoutSeconds \<and>
     canonical_instant (cl_idleExpiresAt l) \<and> canonical_instant (cl_absoluteExpiresAt l) \<and>
     pred_option canonical_instant (cl_terminalAt l) \<and>
     (cl_terminalReason l = JNull \<or>
      named_in [''CUSTOMER_ABANDONED'', ''IDLE_TIMEOUT'', ''ABSOLUTE_TIMEOUT''] (cl_terminalReason l)) \<and>
     \<not> lifecycle_inconsistent (cl_status l) (cl_idleTimeoutSeconds l) (cl_absoluteTimeoutSeconds l)
         (cl_idleExpiresAt l) (cl_absoluteExpiresAt l) (cl_terminalAt l) (cl_terminalReason l)"

lemma cart_lifecycle_js_fld [simp]:
  "fld (cart_lifecycle_js l) ''status'' = cl_status l"
  "fld (cart_lifecycle_js l) ''policyVersionReference'' = JStr (cl_policyVersionReference l)"
  "fld (cart_lifecycle_js l) ''policyDigest'' = JStr (cl_policyDigest l)"
  "fld (cart_lifecycle_js l) ''idleTimeoutSeconds'' = JNum (cl_idleTimeoutSeconds l)"
  "fld (cart_lifecycle_js l) ''absoluteTimeoutSeconds'' = JNum (cl_absoluteTimeoutSeconds l)"
  "fld (cart_lifecycle_js l) ''idleExpiresAt'' = JStr (cl_idleExpiresAt l)"
  "fld (cart_lifecycle_js l) ''absoluteExpiresAt'' = JStr (cl_absoluteExpiresAt l)"
  "fld (cart_lifecycle_js l) ''terminalAt'' = js_opt JStr (cl_terminalAt l)"
  "fld (cart_lifecycle_js l) ''terminalReason'' = cl_terminalReason l"
  by (simp_all add: cart_lifecycle_js_def)

lemma parse_lifecycle_valid: "parse_lifecycle v = Inr l \<Longrightarrow> valid_lifecycle l"
  unfolding parse_lifecycle_def bnd_eq_Inr
  by (elim exE conjE) (drule Inr_inject, hypsubst, auto simp: valid_lifecycle_def cart_duration_Inr
      terminalReason_Inr throw_if_eq_Inr ordering_parse_Inr dest: inst.nullable_valid)

lemma parse_lifecycle_print:
  assumes "valid_lifecycle l"
  shows "parse_lifecycle (cart_lifecycle_js l) = Inr l"
proof -
  have shape: "has_shape (cart_lifecycle_js l) [''status'', ''policyVersionReference'', ''policyDigest'',
     ''idleTimeoutSeconds'', ''absoluteTimeoutSeconds'', ''idleExpiresAt'', ''absoluteExpiresAt'',
     ''terminalAt'', ''terminalReason'']"
    by (simp add: cart_lifecycle_js_def)
  have "1 \<le> cl_idleTimeoutSeconds l" "cl_idleTimeoutSeconds l \<le> cl_absoluteTimeoutSeconds l"
    "cl_absoluteTimeoutSeconds l \<le> maximumTimeoutSeconds"
    using assms by (auto simp: valid_lifecycle_def lifecycle_inconsistent_def)
  then have dur: "cart_duration (JNum (cl_idleTimeoutSeconds l)) = Inr (cl_idleTimeoutSeconds l)"
    "cart_duration (JNum (cl_absoluteTimeoutSeconds l)) = Inr (cl_absoluteTimeoutSeconds l)"
    by (simp_all add: cart_duration_Inr)
  have reason: "terminalReason (cl_terminalReason l) = Inr (cl_terminalReason l)"
    using assms by (auto simp: valid_lifecycle_def terminalReason_Inr)
  show ?thesis
    using assms shape unfolding valid_lifecycle_def parse_lifecycle_def
    by (simp add: dur reason cart_closed_def inst.nullable_parse_print inst.parse_print
        parseOrderingReference_def parseOrderingHash_def)
qed

interpretation lifecycle: codec parse_lifecycle cart_lifecycle_js valid_lifecycle
proof unfold_locales
  show "cart_lifecycle_js l \<noteq> JNull" for l by (simp add: cart_lifecycle_js_def)
qed (fact parse_lifecycle_valid parse_lifecycle_print)+

section \<open>What the operations do on valid lifecycles\<close>

lemma valid_deadlines:
  assumes "valid_lifecycle l"
  shows "canonical_instant (cl_idleExpiresAt l)" "canonical_instant (cl_absoluteExpiresAt l)"
    "ms_of (cl_idleExpiresAt l) \<le> ms_of (cl_absoluteExpiresAt l)"
    "date_parse (cl_idleExpiresAt l) = Some (ms_of (cl_idleExpiresAt l))"
    "date_parse (cl_absoluteExpiresAt l) = Some (ms_of (cl_absoluteExpiresAt l))"
    "1 \<le> cl_idleTimeoutSeconds l"
  using assms by (auto simp: valid_lifecycle_def lifecycle_inconsistent_def date_parse_canonical)

lemma assert_active_eq:
  assumes "valid_lifecycle l" and "canonical_instant t" and "cl_status l = JStr ''Active''"
  shows "assertCartLifecycleActive (Some l) t =
    (if ms_of t < ms_of (cl_idleExpiresAt l) then Inr l else Inl (CartError CART_EXPIRED))"
  using valid_deadlines [OF assms(1)] date_parse_canonical [OF assms(2)] assms(3)
  by (auto simp: assertCartLifecycleActive_def throw_if_def)

lemma ended_operations:
  assumes "cl_status l = JStr st" and "st \<in> {''Abandoned'', ''Expired''}"
  shows "assertCartLifecycleActive (Some l) t = Inl (CartError (if st = ''Abandoned'' then CART_ABANDONED else CART_EXPIRED))"
    and "expireCartLifecycle (Some l) t = Inl (CartError (if st = ''Abandoned'' then CART_ABANDONED else CART_EXPIRED))"
  using assms by (auto simp: assertCartLifecycleActive_def expireCartLifecycle_def)

lemma advance_eq:
  assumes v: "valid_lifecycle l" and t: "canonical_instant t" and a: "cl_status l = JStr ''Active''"
  shows "advanceCartLifecycle (Some l) t =
    (if ms_of t < ms_of (cl_idleExpiresAt l)
     then Inr (l\<lparr>cl_idleExpiresAt := to_iso (min (ms_of t + cl_idleTimeoutSeconds l * 1000)
                                              (ms_of (cl_absoluteExpiresAt l)))\<rparr>)
     else Inl (CartError CART_EXPIRED))"
proof (cases "ms_of t < ms_of (cl_idleExpiresAt l)")
  case True
  let ?m = "min (ms_of t + cl_idleTimeoutSeconds l * 1000) (ms_of (cl_absoluteExpiresAt l))"
  note d = valid_deadlines [OF v]
  have m: "iso_time ?m"
    by (rule iso_time_between [OF iso_time_ms_of [OF t] _ _ iso_time_ms_of [OF d(2)]])
      (use True d in \<open>simp_all add: min_def\<close>)
  have "valid_lifecycle (l\<lparr>cl_idleExpiresAt := to_iso ?m\<rparr>)"
    using v a m by (auto simp: valid_lifecycle_def lifecycle_inconsistent_def canonical_to_iso)
  then show ?thesis
    using True m d date_parse_canonical [OF t]
    by (simp add: advanceCartLifecycle_def assert_active_eq [OF v t a] parse_lifecycle_print)
next
  case False
  then show ?thesis by (simp add: advanceCartLifecycle_def assert_active_eq [OF v t a])
qed

lemma terminate_eq:
  assumes v: "valid_lifecycle l" and t: "canonical_instant t" and a: "cl_status l = JStr ''Active''"
  shows "terminateCartLifecycle (Some l) EndAbandoned t =
    (if ms_of t < ms_of (cl_idleExpiresAt l)
     then Inr (l\<lparr>cl_status := JStr ''Abandoned'', cl_terminalAt := Some t,
                 cl_terminalReason := JStr ''CUSTOMER_ABANDONED''\<rparr>)
     else Inl (CartError CART_EXPIRED))"
proof -
  have "valid_lifecycle (l\<lparr>cl_status := JStr ''Abandoned'', cl_terminalAt := Some t,
      cl_terminalReason := JStr ''CUSTOMER_ABANDONED''\<rparr>)"
    using v t by (auto simp: valid_lifecycle_def lifecycle_inconsistent_def)
  then show ?thesis
    by (simp add: terminateCartLifecycle_def assert_active_eq [OF v t a] parse_lifecycle_print)
qed

lemma expire_eq:
  assumes v: "valid_lifecycle l" and t: "canonical_instant t" and a: "cl_status l = JStr ''Active''"
  shows "expireCartLifecycle (Some l) t =
    (if ms_of t < ms_of (cl_idleExpiresAt l) then Inl (CartError CART_EXPIRATION_NOT_DUE)
     else Inr (l\<lparr>cl_status := JStr ''Expired'', cl_terminalAt := Some t,
                 cl_terminalReason := JStr (if ms_of (cl_absoluteExpiresAt l) \<le> ms_of t
                   then ''ABSOLUTE_TIMEOUT'' else ''IDLE_TIMEOUT'')\<rparr>))"
proof (cases "ms_of t < ms_of (cl_idleExpiresAt l)")
  case True
  then show ?thesis
    using valid_deadlines [OF v] date_parse_canonical [OF t] a by (simp add: expireCartLifecycle_def)
next
  case False
  let ?r = "if ms_of (cl_absoluteExpiresAt l) \<le> ms_of t then ''ABSOLUTE_TIMEOUT'' else ''IDLE_TIMEOUT''"
  have "valid_lifecycle (l\<lparr>cl_status := JStr ''Expired'', cl_terminalAt := Some t, cl_terminalReason := JStr ?r\<rparr>)"
    using False v t by (auto simp: valid_lifecycle_def lifecycle_inconsistent_def)
  then show ?thesis
    using False valid_deadlines [OF v] date_parse_canonical [OF t] a
    by (simp add: expireCartLifecycle_def parse_lifecycle_print)
qed

section \<open>The abstract cart\<close>

text \<open>
  What the lifecycle promises, without records and parsing: an open cart with two deadlines, or an
  ended one with its reason and time. An activity or an abandonment must come before the idle deadline,
  an expiry at it or later.
\<close>

datatype end_reason = ByCustomer | ByIdleTimeout | ByAbsoluteTimeout

datatype cart_phase = Open int int | Ended end_reason int

datatype cart_event = Activity string | Abandonment string | Expiry string

fun event_time :: "cart_event \<Rightarrow> string" where
  "event_time (Activity t) = t"
| "event_time (Abandonment t) = t"
| "event_time (Expiry t) = t"

fun spec_step :: "int \<Rightarrow> cart_phase \<Rightarrow> cart_event \<Rightarrow> cart_phase option" where
  "spec_step idle (Open i a) (Activity t) =
     (if ms_of t < i then Some (Open (min (ms_of t + idle * 1000) a) a) else None)"
| "spec_step idle (Open i a) (Abandonment t) = (if ms_of t < i then Some (Ended ByCustomer (ms_of t)) else None)"
| "spec_step idle (Open i a) (Expiry t) =
     (if i \<le> ms_of t then Some (Ended (if a \<le> ms_of t then ByAbsoluteTimeout else ByIdleTimeout) (ms_of t))
      else None)"
| "spec_step idle (Ended r t) e = None"

text \<open>The code's operations as one step function, and the phase a lifecycle record stands for.\<close>

fun cart_operation :: "cart_lifecycle \<Rightarrow> cart_event \<Rightarrow> cart_lifecycle res" where
  "cart_operation l (Activity t) = advanceCartLifecycle (Some l) t"
| "cart_operation l (Abandonment t) = terminateCartLifecycle (Some l) EndAbandoned t"
| "cart_operation l (Expiry t) = expireCartLifecycle (Some l) t"

definition reason_of :: "js \<Rightarrow> end_reason" where
  "reason_of v = (if v = JStr ''CUSTOMER_ABANDONED'' then ByCustomer
     else if v = JStr ''ABSOLUTE_TIMEOUT'' then ByAbsoluteTimeout else ByIdleTimeout)"

definition phase_of :: "cart_lifecycle \<Rightarrow> cart_phase" where
  "phase_of l =
     (if cl_status l = JStr ''Active''
      then Open (ms_of (cl_idleExpiresAt l)) (ms_of (cl_absoluteExpiresAt l))
      else Ended (reason_of (cl_terminalReason l)) (ms_of (the (cl_terminalAt l))))"

definition plain_status :: "cart_lifecycle \<Rightarrow> bool" where
  "plain_status l \<longleftrightarrow> cl_status l \<in> {JStr ''Active'', JStr ''Abandoned'', JStr ''Expired''}"

lemma cart_operation_active:
  assumes v: "valid_lifecycle l" and t: "canonical_instant (event_time e)" and a: "cl_status l = JStr ''Active''"
  shows "map_option phase_of (case cart_operation l e of Inl _ \<Rightarrow> None | Inr l' \<Rightarrow> Some l') =
    spec_step (cl_idleTimeoutSeconds l) (phase_of l) e"
proof (cases e)
  case (Activity t')
  with t have t': "canonical_instant t'" by simp
  note d = valid_deadlines [OF v]
  have "iso_time (min (ms_of t' + cl_idleTimeoutSeconds l * 1000) (ms_of (cl_absoluteExpiresAt l)))"
    if "ms_of t' < ms_of (cl_idleExpiresAt l)"
    by (rule iso_time_between [OF iso_time_ms_of [OF t'] _ _ iso_time_ms_of [OF d(2)]])
      (use that d in \<open>simp_all add: min_def\<close>)
  with Activity a show ?thesis by (simp add: advance_eq [OF v t' a] phase_of_def)
next
  case (Abandonment t')
  with t have t': "canonical_instant t'" by simp
  from Abandonment a show ?thesis by (simp add: terminate_eq [OF v t' a] phase_of_def reason_of_def)
next
  case (Expiry t')
  with t have t': "canonical_instant t'" by simp
  from Expiry a show ?thesis by (simp add: expire_eq [OF v t' a] phase_of_def reason_of_def)
qed

lemma cart_operation_refines:
  assumes v: "valid_lifecycle l" and p: "plain_status l" and t: "canonical_instant (event_time e)"
  shows "map_option phase_of (case cart_operation l e of Inl _ \<Rightarrow> None | Inr l' \<Rightarrow> Some l') =
    spec_step (cl_idleTimeoutSeconds l) (phase_of l) e"
proof (cases "cl_status l = JStr ''Active''")
  case True
  then show ?thesis by (rule cart_operation_active [OF v t])
next
  case False
  with p obtain st where st: "cl_status l = JStr st" "st \<in> {''Abandoned'', ''Expired''}"
    by (auto simp: plain_status_def)
  note e = ended_operations [OF st]
  from False show ?thesis
    by (cases e) (simp_all add: e advanceCartLifecycle_def terminateCartLifecycle_def phase_of_def)
qed

section \<open>Runs\<close>

inductive cart_step :: "cart_lifecycle \<Rightarrow> cart_event \<Rightarrow> cart_lifecycle \<Rightarrow> bool" where
  activity: "advanceCartLifecycle (Some l) t = Inr l' \<Longrightarrow> cart_step l (Activity t) l'"
| abandonment: "terminateCartLifecycle (Some l) EndAbandoned t = Inr l' \<Longrightarrow> cart_step l (Abandonment t) l'"
| expiry: "expireCartLifecycle (Some l) t = Inr l' \<Longrightarrow> cart_step l (Expiry t) l'"

inductive_cases cart_stepE: "cart_step l e l'"
inductive_simps cart_step_simps [simp]:
  "cart_step l (Activity t) l'" "cart_step l (Abandonment t) l'" "cart_step l (Expiry t) l'"

inductive cart_run :: "cart_lifecycle \<Rightarrow> cart_event list \<Rightarrow> cart_lifecycle \<Rightarrow> bool" where
  start: "cart_run l [] l"
| step: "cart_run l es l' \<Longrightarrow> cart_step l' e l'' \<Longrightarrow> cart_run l (es @ [e]) l''"

fun is_activity :: "cart_event \<Rightarrow> bool" where
  "is_activity (Activity _) = True"
| "is_activity _ = False"

text \<open>What no operation changes.\<close>

definition same_policy :: "cart_lifecycle \<Rightarrow> cart_lifecycle \<Rightarrow> bool" where
  "same_policy l l' \<longleftrightarrow>
     cl_policyVersionReference l' = cl_policyVersionReference l \<and> cl_policyDigest l' = cl_policyDigest l \<and>
     cl_idleTimeoutSeconds l' = cl_idleTimeoutSeconds l \<and>
     cl_absoluteTimeoutSeconds l' = cl_absoluteTimeoutSeconds l \<and>
     cl_absoluteExpiresAt l' = cl_absoluteExpiresAt l"

lemma nullable_string_field:
  "nullable parseOrderingInstant v = Inr x \<Longrightarrow> v = js_opt JStr x"
  by (auto simp: nullable_Inr ordering_parse_Inr)

lemma parse_lifecycle_fields:
  "parse_lifecycle v = Inr l \<Longrightarrow>
   fld v ''status'' = cl_status l \<and> fld v ''policyVersionReference'' = JStr (cl_policyVersionReference l) \<and>
   fld v ''policyDigest'' = JStr (cl_policyDigest l) \<and>
   fld v ''idleTimeoutSeconds'' = JNum (cl_idleTimeoutSeconds l) \<and>
   fld v ''absoluteTimeoutSeconds'' = JNum (cl_absoluteTimeoutSeconds l) \<and>
   fld v ''idleExpiresAt'' = JStr (cl_idleExpiresAt l) \<and>
   fld v ''absoluteExpiresAt'' = JStr (cl_absoluteExpiresAt l) \<and>
   fld v ''terminalAt'' = js_opt JStr (cl_terminalAt l) \<and> fld v ''terminalReason'' = cl_terminalReason l"
  unfolding parse_lifecycle_def bnd_eq_Inr
  by (elim exE conjE) (drule Inr_inject, hypsubst,
      simp add: cart_duration_Inr terminalReason_Inr ordering_parse_Inr nullable_string_field)

lemma js_opt_JStr_eq [simp]: "js_opt JStr a = js_opt JStr b \<longleftrightarrow> a = b"
  by (cases a; cases b) simp_all

lemma reparsed:
  assumes "parse_lifecycle (cart_lifecycle_js l) = Inr l'"
  shows "l' = l \<and> valid_lifecycle l"
proof -
  have "l' = l" using parse_lifecycle_fields [OF assms] by simp
  then show ?thesis using parse_lifecycle_valid [OF assms] by simp
qed

lemma assert_active_Inr: "assertCartLifecycleActive l' t = Inr l \<Longrightarrow>
  l' = Some l \<and> cl_status l \<noteq> JStr ''Abandoned'' \<and> cl_status l \<noteq> JStr ''Expired''"
  by (auto simp: assertCartLifecycleActive_def bnd_eq_Inr or_throw_Inr throw_if_eq_Inr)

lemma cart_step_effect:
  assumes "cart_step l e l'"
  shows "valid_lifecycle l' \<and> same_policy l l' \<and> \<not> (cl_status l = JStr ''Abandoned'' \<or> cl_status l = JStr ''Expired'') \<and>
    cl_status l' = (case e of Activity _ \<Rightarrow> cl_status l | Abandonment _ \<Rightarrow> JStr ''Abandoned''
                    | Expiry _ \<Rightarrow> JStr ''Expired'')"
  using assms
  by (elim cart_stepE)
    (auto simp: advanceCartLifecycle_def terminateCartLifecycle_def expireCartLifecycle_def Let_def
      bnd_eq_Inr throw_if_eq_Inr same_policy_def dest!: reparsed assert_active_Inr)

lemma canonical_to_iso_iff: "canonical_instant (to_iso t) \<longleftrightarrow> iso_time t"
  using canonical_to_iso length_to_iso_wide canonical_instant_format matches_length
  by (fastforce simp: instant_format_chunks)

lemma created_lifecycle:
  assumes "createActiveCartLifecycle v = Inr l"
  shows "\<exists>s. fld v ''startedAt'' = JStr s \<and> canonical_instant s \<and> valid_lifecycle l \<and>
    cl_status l = JStr ''Active'' \<and>
    ms_of (cl_idleExpiresAt l) = ms_of s + cl_idleTimeoutSeconds l * 1000 \<and>
    ms_of (cl_absoluteExpiresAt l) = ms_of s + cl_absoluteTimeoutSeconds l * 1000"
proof -
  from assms obtain idle absolute s ie ae where
    s: "fld v ''startedAt'' = JStr s" "canonical_instant s" and
    d: "date_to_iso (Some (ms_of s + idle * 1000)) = Inr ie"
      "date_to_iso (Some (ms_of s + absolute * 1000)) = Inr ae" and
    p: "parse_lifecycle (JObj
       [(''status'', JStr ''Active''), (''policyVersionReference'', fld v ''policyVersionReference''),
        (''policyDigest'', fld v ''policyDigest''), (''idleTimeoutSeconds'', JNum idle),
        (''absoluteTimeoutSeconds'', JNum absolute), (''idleExpiresAt'', JStr ie),
        (''absoluteExpiresAt'', JStr ae), (''terminalAt'', JNull),
        (''terminalReason'', JNull)]) = Inr l"
    unfolding createActiveCartLifecycle_def bnd_eq_Inr ordering_parse_Inr by (elim exE conjE) blast
  have iso: "ie = to_iso (ms_of s + idle * 1000)" "ae = to_iso (ms_of s + absolute * 1000)"
    using d by (simp_all add: date_to_iso_def split: if_splits)
  have l: "cl_status l = JStr ''Active''" "cl_idleTimeoutSeconds l = idle" "cl_absoluteTimeoutSeconds l = absolute"
    "cl_idleExpiresAt l = ie" "cl_absoluteExpiresAt l = ae"
    using parse_lifecycle_fields [OF p] by simp_all
  have v: "valid_lifecycle l" by (rule parse_lifecycle_valid [OF p])
  then have "iso_time (ms_of s + idle * 1000)" "iso_time (ms_of s + absolute * 1000)"
    using valid_deadlines(1,2) [OF v] by (simp_all add: l iso canonical_to_iso_iff)
  then show ?thesis using s v l by (simp add: iso)
qed

text \<open>The status a history of events leads to: an end, if there is one, is the last event.\<close>

definition status_after :: "cart_event list \<Rightarrow> js \<Rightarrow> bool" where
  "status_after es st \<longleftrightarrow>
     (if list_all is_activity es then st = JStr ''Active''
      else list_all is_activity (butlast es) \<and>
        st = (case last es of Expiry _ \<Rightarrow> JStr ''Expired'' | _ \<Rightarrow> JStr ''Abandoned''))"

lemma status_after_cases: "status_after es st \<Longrightarrow>
  st = JStr ''Active'' \<and> list_all is_activity es \<or> st = JStr ''Abandoned'' \<or> st = JStr ''Expired''"
  by (auto simp: status_after_def split: if_splits cart_event.splits)

lemma cart_run_invariant:
  assumes "cart_run l0 es l" and "valid_lifecycle l0" and "cl_status l0 = JStr ''Active''"
  shows "valid_lifecycle l \<and> same_policy l0 l \<and> status_after es (cl_status l)"
  using assms
proof (induction rule: cart_run.induct)
  case (start l)
  then show ?case by (simp add: same_policy_def status_after_def)
next
  case (step l es l' e l'')
  then have ih: "same_policy l l'" "status_after es (cl_status l')" by blast+
  note eff = cart_step_effect [OF step.hyps(2)]
  then have act: "cl_status l' = JStr ''Active''" "list_all is_activity es"
    using status_after_cases [OF ih(2)] by blast+
  then have "status_after (es @ [e]) (cl_status l'')"
    using eff by (cases e) (simp_all add: status_after_def)
  then show ?case using ih(1) eff by (simp add: same_policy_def)
qed

section \<open>Properties\<close>

definition example_lifecycle_input :: js where
  "example_lifecycle_input = JObj
     [(''policyVersionReference'', JStr ''01890000-0000-7000-8000-000000000001''),
      (''policyDigest'', JStr (''sha256:'' @ replicate 64 (CHR ''b''))),
      (''idleTimeoutSeconds'', JNum 1800), (''absoluteTimeoutSeconds'', JNum 3600),
      (''startedAt'', JStr ''2026-06-01T12:00:00.000Z'')]"

definition example_lifecycle :: cart_lifecycle where
  "example_lifecycle =
     \<lparr>cl_status = JStr ''Active'', cl_policyVersionReference = ''01890000-0000-7000-8000-000000000001'',
      cl_policyDigest = ''sha256:'' @ replicate 64 (CHR ''b''), cl_idleTimeoutSeconds = 1800,
      cl_absoluteTimeoutSeconds = 3600, cl_idleExpiresAt = ''2026-06-01T12:30:00.000Z'',
      cl_absoluteExpiresAt = ''2026-06-01T13:00:00.000Z'', cl_terminalAt = None, cl_terminalReason = JNull\<rparr>"

lemma example_lifecycle_created: "createActiveCartLifecycle example_lifecycle_input = Inr example_lifecycle"
  by code_simp

lemma example_lifecycle_valid: "valid_lifecycle example_lifecycle"
  using created_lifecycle [OF example_lifecycle_created] by blast

lemma example_times:
  "canonical_instant ''2026-06-01T12:29:00.000Z''" "canonical_instant ''2026-06-01T12:59:00.000Z''"
  "ms_of ''2026-06-01T12:29:00.000Z'' = 1780316940000" "ms_of ''2026-06-01T12:59:00.000Z'' = 1780318740000"
  "ms_of ''2026-06-01T12:30:00.000Z'' = 1780317000000" "ms_of ''2026-06-01T13:00:00.000Z'' = 1780318800000"
  "to_iso 1780318740000 = ''2026-06-01T12:59:00.000Z''"
  by code_simp+

lemma example_lifecycle_run:
  "cart_run example_lifecycle [Activity ''2026-06-01T12:29:00.000Z'', Expiry ''2026-06-01T12:59:00.000Z'']
     (example_lifecycle\<lparr>cl_idleExpiresAt := ''2026-06-01T12:59:00.000Z'', cl_status := JStr ''Expired'',
        cl_terminalAt := Some ''2026-06-01T12:59:00.000Z'', cl_terminalReason := JStr ''IDLE_TIMEOUT''\<rparr>)"
proof -
  let ?l = "example_lifecycle\<lparr>cl_idleExpiresAt := ''2026-06-01T12:59:00.000Z''\<rparr>"
  have a: "cl_status example_lifecycle = JStr ''Active''" "cl_status ?l = JStr ''Active''"
    by (simp_all add: example_lifecycle_def)
  have adv: "advanceCartLifecycle (Some example_lifecycle) ''2026-06-01T12:29:00.000Z'' = Inr ?l"
    using advance_eq [OF example_lifecycle_valid example_times(1) a(1)]
    by (simp add: example_lifecycle_def example_times)
  then have step1: "cart_run example_lifecycle [Activity ''2026-06-01T12:29:00.000Z''] ?l"
    using cart_run.step [OF cart_run.start, of example_lifecycle "Activity ''2026-06-01T12:29:00.000Z''"] by simp
  have v: "valid_lifecycle ?l"
    using cart_step_effect [of example_lifecycle "Activity ''2026-06-01T12:29:00.000Z''" ?l] adv by simp
  have "cart_step ?l (Expiry ''2026-06-01T12:59:00.000Z'')
      (?l\<lparr>cl_status := JStr ''Expired'', cl_terminalAt := Some ''2026-06-01T12:59:00.000Z'',
        cl_terminalReason := JStr ''IDLE_TIMEOUT''\<rparr>)"
    using expire_eq [OF v example_times(2) a(2)] by (simp add: example_lifecycle_def example_times)
  from cart_run.step [OF step1 this] show ?thesis by simp
qed

text \<open>
  C13. The lifecycle operations implement the abstract cart: on every valid lifecycle and at every
  canonical instant, activity, abandonment and expiry succeed exactly when the abstract cart allows the
  event, and the record they return stands for the abstract successor.
\<close>

theorem cart_lifecycle_refines_spec:
  assumes "valid_lifecycle l" and "plain_status l" and "canonical_instant (event_time e)"
  shows "map_option phase_of (case cart_operation l e of Inl _ \<Rightarrow> None | Inr l' \<Rightarrow> Some l') =
    spec_step (cl_idleTimeoutSeconds l) (phase_of l) e"
  using assms by (rule cart_operation_refines)

theorem cart_lifecycle_refines_spec_witness:
  "map_option phase_of (case cart_operation example_lifecycle (Activity ''2026-06-01T12:45:00.000Z'')
      of Inl _ \<Rightarrow> None | Inr l' \<Rightarrow> Some l') = None"
proof -
  have p: "plain_status example_lifecycle" by (simp add: plain_status_def example_lifecycle_def)
  have t: "canonical_instant (event_time (Activity ''2026-06-01T12:45:00.000Z''))" by code_simp
  have "spec_step (cl_idleTimeoutSeconds example_lifecycle) (phase_of example_lifecycle)
      (Activity ''2026-06-01T12:45:00.000Z'') = None" by code_simp
  with cart_lifecycle_refines_spec [OF example_lifecycle_valid p t] show ?thesis by simp
qed

text \<open>
  No cart is stuck and none is in two states: at every canonical instant an active lifecycle
  either accepts activity and abandonment and refuses to expire, or, from its idle deadline on, accepts
  only the expiry.
\<close>

theorem cart_never_stuck:
  assumes "valid_lifecycle l" and "cl_status l = JStr ''Active''" and "canonical_instant t"
  shows "if ms_of t < ms_of (cl_idleExpiresAt l)
    then (\<exists>l'. advanceCartLifecycle (Some l) t = Inr l') \<and>
      (\<exists>l'. terminateCartLifecycle (Some l) EndAbandoned t = Inr l') \<and>
      expireCartLifecycle (Some l) t = Inl (CartError CART_EXPIRATION_NOT_DUE)
    else advanceCartLifecycle (Some l) t = Inl (CartError CART_EXPIRED) \<and>
      terminateCartLifecycle (Some l) EndAbandoned t = Inl (CartError CART_EXPIRED) \<and>
      (\<exists>l'. expireCartLifecycle (Some l) t = Inr l')"
  by (simp add: advance_eq [OF assms(1,3,2)] terminate_eq [OF assms(1,3,2)] expire_eq [OF assms(1,3,2)])

theorem cart_never_stuck_witness:
  "\<exists>l'. expireCartLifecycle (Some example_lifecycle) ''2026-06-01T12:30:00.000Z'' = Inr l'"
proof -
  have a: "cl_status example_lifecycle = JStr ''Active''" by (simp add: example_lifecycle_def)
  have t: "canonical_instant ''2026-06-01T12:30:00.000Z''" by code_simp
  have "\<not> ms_of ''2026-06-01T12:30:00.000Z'' < ms_of (cl_idleExpiresAt example_lifecycle)"
    by (simp add: example_lifecycle_def)
  with cart_never_stuck [OF example_lifecycle_valid a t] show ?thesis by (simp only: if_False)
qed

text \<open>
  Over any sequence of operations on a created lifecycle: the policy and the absolute deadline
  never change, the idle deadline never passes the absolute one (start plus the absolute timeout), and
  an abandonment or expiry is the last thing that happens and decides the final status.
\<close>

theorem cart_lifecycle_run_invariant:
  assumes "createActiveCartLifecycle v = Inr l0" and "cart_run l0 es l"
  shows "\<exists>s. fld v ''startedAt'' = JStr s \<and> valid_lifecycle l \<and> same_policy l0 l \<and>
    ms_of (cl_idleExpiresAt l) \<le> ms_of s + cl_absoluteTimeoutSeconds l * 1000 \<and>
    status_after es (cl_status l)"
proof -
  from created_lifecycle [OF assms(1)] obtain s where s: "fld v ''startedAt'' = JStr s"
    "valid_lifecycle l0" "cl_status l0 = JStr ''Active''"
    "ms_of (cl_absoluteExpiresAt l0) = ms_of s + cl_absoluteTimeoutSeconds l0 * 1000" by blast
  note inv = cart_run_invariant [OF assms(2) s(2,3)]
  then have v: "valid_lifecycle l" and p: "same_policy l0 l" by blast+
  have "ms_of (cl_idleExpiresAt l) \<le> ms_of s + cl_absoluteTimeoutSeconds l * 1000"
    using valid_deadlines(3) [OF v] p s(4) by (simp add: same_policy_def)
  then show ?thesis using s(1) inv by blast
qed

theorem cart_lifecycle_run_invariant_witness:
  "createActiveCartLifecycle example_lifecycle_input = Inr example_lifecycle \<and>
   valid_lifecycle (example_lifecycle\<lparr>cl_idleExpiresAt := ''2026-06-01T12:59:00.000Z'',
     cl_status := JStr ''Expired'', cl_terminalAt := Some ''2026-06-01T12:59:00.000Z'',
     cl_terminalReason := JStr ''IDLE_TIMEOUT''\<rparr>)"
  using cart_lifecycle_run_invariant [OF example_lifecycle_created example_lifecycle_run]
    example_lifecycle_created by blast

definition example_odd_lifecycle :: cart_lifecycle where
  "example_odd_lifecycle =
     example_lifecycle\<lparr>cl_status := JArr [JStr ''Expired''], cl_terminalReason := JStr ''IDLE_TIMEOUT''\<rparr>"

text \<open>
  The status is checked through \<open>String(...)\<close>: an array holding a status name is accepted, no clause of
  the consistency condition applies to it, and the cart counts as active. The parser of a stored cart so
  lets through an ended cart that is open again.
\<close>

theorem array_status_is_active:
  "parseCartLifecycle (cart_lifecycle_js example_odd_lifecycle) = Inr (Some example_odd_lifecycle) \<and>
   assertCartLifecycleActive (Some example_odd_lifecycle) ''2026-06-01T12:10:00.000Z'' = Inr example_odd_lifecycle"
proof
  have "valid_lifecycle example_odd_lifecycle"
    using example_lifecycle_valid
    by (simp add: valid_lifecycle_def example_odd_lifecycle_def lifecycle_inconsistent_def named_in_def)
  then show "parseCartLifecycle (cart_lifecycle_js example_odd_lifecycle) = Inr (Some example_odd_lifecycle)"
    by (simp add: parseCartLifecycle_def nullable_def lifecycle.parse_print lifecycle.print_not_null)
  show "assertCartLifecycleActive (Some example_odd_lifecycle) ''2026-06-01T12:10:00.000Z'' = Inr example_odd_lifecycle"
    by code_simp
qed

end
