(* ===== verification/Cart.thy ===== *)
theory Cart
  imports CartLifecycle
begin

text \<open>
  The cart aggregate: \<open>packages/rms/ordering/src/domain/cart.ts\<close>. Items with their option selections,
  customer note and catalog evidence, and the aggregate that holds them; every value enters through a
  closed-shape parser.
\<close>

section \<open>Data\<close>

datatype cart_order_type = DineIn | Pickup

definition cart_order_types :: "(string \<times> cart_order_type) list" where
  "cart_order_types = [(''DineIn'', DineIn), (''Pickup'', Pickup)]"

datatype cart_source_channel = ApiChannel | PosChannel | QrChannel | WebChannel

definition cart_source_channels :: "(string \<times> cart_source_channel) list" where
  "cart_source_channels =
     [(''Api'', ApiChannel), (''Pos'', PosChannel), (''Qr'', QrChannel), (''Web'', WebChannel)]"

record cart_option_selection =
  co_optionReference :: string
  co_quantity :: int

record cart_selection_rule_evidence =
  ce_bindingReference :: string
  ce_optionSetVersionReference :: string

record catalog_selection_evidence =
  cs_menuVersionReference :: string
  cs_productVersionReference :: string
  cs_catalogChannelCode :: string
  cs_catalogOrderTypeCode :: string
  cs_ruleEvidence :: "cart_selection_rule_evidence list"
  cs_validatedAt :: string

record cart_item =
  ci_cartItemReference :: string
  ci_cartReference :: string
  ci_sellableReference :: string
  ci_quantity :: int
  ci_optionSelections :: "cart_option_selection list"
  ci_customerNote :: "string option"
  ci_catalogSelectionEvidence :: "catalog_selection_evidence option"
  ci_addedByActorReference :: string
  ci_addedByParticipantReference :: "string option"
  ci_addedAt :: string

record cart_aggregate =
  ca_cartReference :: string
  ca_brandReference :: string
  ca_storeReference :: string
  ca_orderType :: cart_order_type
  ca_sourceChannel :: cart_source_channel
  ca_diningSessionReference :: "string option"
  ca_createdByActorReference :: string
  ca_aggregateVersion :: int
  ca_createdAt :: string
  ca_updatedAt :: string
  ca_lifecycle :: "cart_lifecycle option"
  ca_items :: "cart_item list"

section \<open>Customer notes\<close>

definition control_character :: "char \<Rightarrow> bool" where
  "control_character c \<longleftrightarrow>
     in_range 0 8 c \<or> in_range 11 12 c \<or> in_range 14 31 c \<or> of_char c = (127 :: nat)"

definition note_ok :: "string \<Rightarrow> bool" where
  "note_ok s \<longleftrightarrow> 1 \<le> length s \<and> length s \<le> 500 \<and> list_all (\<lambda>c. \<not> control_character c) s"

definition parse_note :: "js \<Rightarrow> string res" where
  "parse_note v =
     bnd (or_throw (str_if (\<lambda>_. True) v) cart_invalid) (\<lambda>s.
     bnd (throw_if (\<not> note_ok (js_trim s)) cart_invalid) (\<lambda>_. Inr (js_trim s)))"

definition parseCustomerNote :: "js \<Rightarrow> string option res" where
  "parseCustomerNote v = nullable parse_note v"

section \<open>Parsers\<close>

definition parseCartSelectionRuleEvidence :: "js \<Rightarrow> cart_selection_rule_evidence res" where
  "parseCartSelectionRuleEvidence v =
     bnd (cart_closed v [''bindingReference'', ''optionSetVersionReference'']) (\<lambda>_.
     bnd (parseOrderingReference (fld v ''bindingReference'')) (\<lambda>b.
     bnd (parseOrderingReference (fld v ''optionSetVersionReference'')) (\<lambda>os.
     Inr \<lparr>ce_bindingReference = b, ce_optionSetVersionReference = os\<rparr>)))"

text \<open>\<open>!Array.isArray(x) || x.length > 100\<close>.\<close>

definition cart_array :: "js \<Rightarrow> js list res" where
  "cart_array v = bnd (throw_if (\<not> is_array v \<or> 100 < length (elements v)) cart_invalid)
     (\<lambda>_. Inr (elements v))"

definition parse_evidence :: "js \<Rightarrow> catalog_selection_evidence res" where
  "parse_evidence v =
     bnd (cart_closed v [''menuVersionReference'', ''productVersionReference'', ''catalogChannelCode'',
            ''catalogOrderTypeCode'', ''ruleEvidence'', ''validatedAt'']) (\<lambda>_.
     bnd (cart_array (fld v ''ruleEvidence'')) (\<lambda>raw.
     bnd (map_res parseCartSelectionRuleEvidence raw) (\<lambda>rules.
     bnd (throw_if (\<not> distinct (map ce_bindingReference rules)) cart_invalid) (\<lambda>_.
     bnd (parseOrderingReference (fld v ''menuVersionReference'')) (\<lambda>menu.
     bnd (parseOrderingReference (fld v ''productVersionReference'')) (\<lambda>product.
     bnd (cart_code_value (fld v ''catalogChannelCode'')) (\<lambda>channel.
     bnd (cart_code_value (fld v ''catalogOrderTypeCode'')) (\<lambda>orderType.
     bnd (parseOrderingInstant (fld v ''validatedAt'')) (\<lambda>validatedAt.
     Inr \<lparr>cs_menuVersionReference = menu, cs_productVersionReference = product,
          cs_catalogChannelCode = channel, cs_catalogOrderTypeCode = orderType,
          cs_ruleEvidence = rules, cs_validatedAt = validatedAt\<rparr>)))))))))"

definition parseCatalogSelectionEvidence :: "js \<Rightarrow> catalog_selection_evidence option res" where
  "parseCatalogSelectionEvidence v = nullable parse_evidence v"

definition parseCartOptionSelection :: "js \<Rightarrow> cart_option_selection res" where
  "parseCartOptionSelection v =
     bnd (cart_closed v [''optionReference'', ''quantity'']) (\<lambda>_.
     bnd (parseOrderingReference (fld v ''optionReference'')) (\<lambda>ref.
     bnd (cart_quantity (fld v ''quantity'')) (\<lambda>q.
     Inr \<lparr>co_optionReference = ref, co_quantity = q\<rparr>)))"

definition parseCartItem :: "js \<Rightarrow> cart_item res" where
  "parseCartItem v =
     bnd (cart_closed v [''cartItemReference'', ''cartReference'', ''sellableReference'', ''quantity'',
            ''optionSelections'', ''customerNote'', ''catalogSelectionEvidence'', ''addedByActorReference'',
            ''addedByParticipantReference'', ''addedAt'']) (\<lambda>_.
     bnd (cart_array (fld v ''optionSelections'')) (\<lambda>raw.
     bnd (map_res parseCartOptionSelection raw) (\<lambda>selections.
     bnd (throw_if (\<not> distinct (map co_optionReference selections)) cart_invalid) (\<lambda>_.
     bnd (parseOrderingReference (fld v ''cartItemReference'')) (\<lambda>iref.
     bnd (parseOrderingReference (fld v ''cartReference'')) (\<lambda>cref.
     bnd (parseOrderingReference (fld v ''sellableReference'')) (\<lambda>sref.
     bnd (cart_quantity (fld v ''quantity'')) (\<lambda>q.
     bnd (parseCustomerNote (fld v ''customerNote'')) (\<lambda>note.
     bnd (parseCatalogSelectionEvidence (fld v ''catalogSelectionEvidence'')) (\<lambda>evidence.
     bnd (parseOrderingReference (fld v ''addedByActorReference'')) (\<lambda>actor.
     bnd (nullable parseOrderingReference (fld v ''addedByParticipantReference'')) (\<lambda>participant.
     bnd (parseOrderingInstant (fld v ''addedAt'')) (\<lambda>addedAt.
     Inr \<lparr>ci_cartItemReference = iref, ci_cartReference = cref, ci_sellableReference = sref,
          ci_quantity = q, ci_optionSelections = selections, ci_customerNote = note,
          ci_catalogSelectionEvidence = evidence, ci_addedByActorReference = actor,
          ci_addedByParticipantReference = participant, ci_addedAt = addedAt\<rparr>)))))))))))))"

text \<open>The time and lifecycle condition of the aggregate, and the condition on its items.\<close>

definition lifecycle_out_of_step :: "string \<Rightarrow> string \<Rightarrow> cart_lifecycle \<Rightarrow> bool" where
  "lifecycle_out_of_step createdAt updatedAt l \<longleftrightarrow>
     ms_of (cl_idleExpiresAt l) \<le> ms_of createdAt \<or>
     ms_of (cl_absoluteExpiresAt l) \<le> ms_of createdAt \<or>
     (cl_status l = JStr ''Active'' \<and>
        (ms_of (cl_idleExpiresAt l) \<le> ms_of updatedAt \<or> ms_of (cl_absoluteExpiresAt l) \<le> ms_of updatedAt)) \<or>
     (cl_status l \<noteq> JStr ''Active'' \<and> cl_terminalAt l \<noteq> Some updatedAt)"

definition cart_times_bad ::
  "cart_order_type \<Rightarrow> string \<Rightarrow> string \<Rightarrow> cart_lifecycle option \<Rightarrow> string option \<Rightarrow> bool" where
  "cart_times_bad orderType createdAt updatedAt lifecycle session \<longleftrightarrow>
     ms_of updatedAt < ms_of createdAt \<or>
     (orderType = DineIn) \<noteq> (session \<noteq> None) \<or>
     (lifecycle \<noteq> None \<and> lifecycle_out_of_step createdAt updatedAt (the lifecycle))"

definition cart_items_bad :: "cart_order_type \<Rightarrow> string \<Rightarrow> cart_item list \<Rightarrow> bool" where
  "cart_items_bad orderType cartReference items \<longleftrightarrow>
     list_ex (\<lambda>i. ci_cartReference i \<noteq> cartReference \<or>
                  orderType = DineIn \<and> ci_addedByParticipantReference i = None) items \<or>
     \<not> distinct (map ci_cartItemReference items)"

definition parseCartAggregate :: "js \<Rightarrow> cart_aggregate res" where
  "parseCartAggregate v =
     bnd (cart_closed v [''cartReference'', ''brandReference'', ''storeReference'', ''orderType'',
            ''sourceChannel'', ''diningSessionReference'', ''createdByActorReference'',
            ''aggregateVersion'', ''createdAt'', ''updatedAt'', ''lifecycle'', ''items'']) (\<lambda>_.
     bnd (or_throw (enum_of cart_order_types (fld v ''orderType'')) cart_invalid) (\<lambda>orderType.
     bnd (or_throw (enum_of cart_source_channels (fld v ''sourceChannel'')) cart_invalid) (\<lambda>channel.
     bnd (cart_array (fld v ''items'')) (\<lambda>raw.
     bnd (parseOrderingReference (fld v ''cartReference'')) (\<lambda>cref.
     bnd (parseOrderingInstant (fld v ''createdAt'')) (\<lambda>createdAt.
     bnd (parseOrderingInstant (fld v ''updatedAt'')) (\<lambda>updatedAt.
     bnd (parseCartLifecycle (fld v ''lifecycle'')) (\<lambda>lifecycle.
     bnd (nullable parseOrderingReference (fld v ''diningSessionReference'')) (\<lambda>session.
     bnd (throw_if (cart_times_bad orderType createdAt updatedAt lifecycle session) cart_invalid) (\<lambda>_.
     bnd (map_res parseCartItem raw) (\<lambda>items.
     bnd (throw_if (cart_items_bad orderType cref items) cart_invalid) (\<lambda>_.
     bnd (parseOrderingReference (fld v ''brandReference'')) (\<lambda>brand.
     bnd (parseOrderingReference (fld v ''storeReference'')) (\<lambda>store.
     bnd (parseOrderingReference (fld v ''createdByActorReference'')) (\<lambda>actor.
     bnd (cart_quantity (fld v ''aggregateVersion'')) (\<lambda>version.
     Inr \<lparr>ca_cartReference = cref, ca_brandReference = brand, ca_storeReference = store,
          ca_orderType = orderType, ca_sourceChannel = channel, ca_diningSessionReference = session,
          ca_createdByActorReference = actor, ca_aggregateVersion = version, ca_createdAt = createdAt,
          ca_updatedAt = updatedAt, ca_lifecycle = lifecycle, ca_items = items\<rparr>))))))))))))))))"

section \<open>Parsers as codecs\<close>

lemma dropWhile_hd: "dropWhile P xs = ys \<Longrightarrow> ys \<noteq> [] \<Longrightarrow> \<not> P (hd ys)"
  using hd_dropWhile by blast

lemma js_trim_idem [simp]: "js_trim (js_trim s) = js_trim s"
proof -
  define y where "y = dropWhile js_space s"
  define x where "x = js_trim s"
  have x: "x = rev (dropWhile js_space (rev y))" by (simp add: x_def y_def js_trim_def)
  have "rev y = takeWhile js_space (rev y) @ dropWhile js_space (rev y)" by simp
  then have y: "y = x @ rev (takeWhile js_space (rev y))" using x by (metis rev_append rev_rev_ident)
  have "dropWhile js_space x = x"
  proof (cases x)
    case (Cons c cs)
    then have "hd y = c" using y by (metis append_Cons list.sel(1))
    moreover have "y \<noteq> []" using y Cons by auto
    ultimately have "\<not> js_space c" using dropWhile_hd [of js_space s y] y_def by simp
    with Cons show ?thesis by simp
  qed simp
  moreover have "dropWhile js_space (rev x) = rev x" by (simp add: x)
  ultimately have "js_trim x = x" by (simp add: js_trim_def)
  then show ?thesis by (simp add: x_def)
qed

definition valid_note :: "string \<Rightarrow> bool" where
  "valid_note s \<longleftrightarrow> note_ok s \<and> js_trim s = s"

interpretation customer_note: codec parse_note JStr valid_note
  by unfold_locales (auto simp: parse_note_def valid_note_def bnd_eq_Inr throw_if_eq_Inr or_throw_Inr str_if_Some)

definition rule_evidence_js :: "cart_selection_rule_evidence \<Rightarrow> js" where
  "rule_evidence_js e = JObj [(''bindingReference'', JStr (ce_bindingReference e)),
     (''optionSetVersionReference'', JStr (ce_optionSetVersionReference e))]"

definition valid_rule_evidence :: "cart_selection_rule_evidence \<Rightarrow> bool" where
  "valid_rule_evidence e \<longleftrightarrow> uuid_v7 (ce_bindingReference e) \<and> uuid_v7 (ce_optionSetVersionReference e)"

interpretation rule_evidence: codec parseCartSelectionRuleEvidence rule_evidence_js valid_rule_evidence
  by unfold_locales (auto simp: parseCartSelectionRuleEvidence_def rule_evidence_js_def
      valid_rule_evidence_def bnd_eq_Inr ordering_parse_Inr)

definition evidence_js :: "catalog_selection_evidence \<Rightarrow> js" where
  "evidence_js e = JObj
     [(''menuVersionReference'', JStr (cs_menuVersionReference e)),
      (''productVersionReference'', JStr (cs_productVersionReference e)),
      (''catalogChannelCode'', JStr (cs_catalogChannelCode e)),
      (''catalogOrderTypeCode'', JStr (cs_catalogOrderTypeCode e)),
      (''ruleEvidence'', JArr (map rule_evidence_js (cs_ruleEvidence e))),
      (''validatedAt'', JStr (cs_validatedAt e))]"

definition valid_evidence :: "catalog_selection_evidence \<Rightarrow> bool" where
  "valid_evidence e \<longleftrightarrow>
     uuid_v7 (cs_menuVersionReference e) \<and> uuid_v7 (cs_productVersionReference e) \<and>
     code_format ''_'' (cs_catalogChannelCode e) \<and> code_format ''_'' (cs_catalogOrderTypeCode e) \<and>
     length (cs_ruleEvidence e) \<le> 100 \<and> list_all valid_rule_evidence (cs_ruleEvidence e) \<and>
     distinct (map ce_bindingReference (cs_ruleEvidence e)) \<and> canonical_instant (cs_validatedAt e)"

lemma cart_array_Inr [res_simps]: "cart_array v = Inr xs \<longleftrightarrow> v = JArr xs \<and> length xs \<le> 100"
  by (auto simp: cart_array_def bnd_eq_Inr throw_if_eq_Inr is_array_iff)

lemma cart_array_JArr [simp]: "length xs \<le> 100 \<Longrightarrow> cart_array (JArr xs) = Inr xs"
  by (simp add: cart_array_Inr)

lemmas cart_Inr = throw_if_eq_Inr ordering_parse_Inr cart_quantity_Inr cart_array_Inr or_throw_Inr

interpretation evidence: codec parse_evidence evidence_js valid_evidence
proof unfold_locales
  show "valid_evidence e" if "parse_evidence v = Inr e" for v e
    using that unfolding parse_evidence_def bnd_eq_Inr
    by (elim exE conjE) (drule Inr_inject, hypsubst,
      auto simp: valid_evidence_def cart_Inr rule_evidence.list_valid dest: map_res_length)
  show "parse_evidence (evidence_js e) = Inr e" if "valid_evidence e" for e
    using that by (simp add: parse_evidence_def evidence_js_def valid_evidence_def bnd_eq_Inr cart_Inr
        rule_evidence.list_parse_print)
qed (simp add: evidence_js_def)

definition option_selection_js :: "cart_option_selection \<Rightarrow> js" where
  "option_selection_js s = JObj [(''optionReference'', JStr (co_optionReference s)), (''quantity'', JNum (co_quantity s))]"

definition valid_option_selection :: "cart_option_selection \<Rightarrow> bool" where
  "valid_option_selection s \<longleftrightarrow> uuid_v7 (co_optionReference s) \<and> 1 \<le> co_quantity s \<and> co_quantity s \<le> 999"

interpretation option_selection: codec parseCartOptionSelection option_selection_js valid_option_selection
  by unfold_locales (auto simp: parseCartOptionSelection_def option_selection_js_def
      valid_option_selection_def bnd_eq_Inr cart_Inr)

definition cart_item_js :: "cart_item \<Rightarrow> js" where
  "cart_item_js i = JObj
     [(''cartItemReference'', JStr (ci_cartItemReference i)), (''cartReference'', JStr (ci_cartReference i)),
      (''sellableReference'', JStr (ci_sellableReference i)), (''quantity'', JNum (ci_quantity i)),
      (''optionSelections'', JArr (map option_selection_js (ci_optionSelections i))),
      (''customerNote'', js_opt JStr (ci_customerNote i)),
      (''catalogSelectionEvidence'', js_opt evidence_js (ci_catalogSelectionEvidence i)),
      (''addedByActorReference'', JStr (ci_addedByActorReference i)),
      (''addedByParticipantReference'', js_opt JStr (ci_addedByParticipantReference i)),
      (''addedAt'', JStr (ci_addedAt i))]"

definition valid_item :: "cart_item \<Rightarrow> bool" where
  "valid_item i \<longleftrightarrow>
     uuid_v7 (ci_cartItemReference i) \<and> uuid_v7 (ci_cartReference i) \<and> uuid_v7 (ci_sellableReference i) \<and>
     1 \<le> ci_quantity i \<and> ci_quantity i \<le> 999 \<and> length (ci_optionSelections i) \<le> 100 \<and>
     list_all valid_option_selection (ci_optionSelections i) \<and>
     distinct (map co_optionReference (ci_optionSelections i)) \<and>
     pred_option valid_note (ci_customerNote i) \<and>
     pred_option valid_evidence (ci_catalogSelectionEvidence i) \<and>
     uuid_v7 (ci_addedByActorReference i) \<and> pred_option uuid_v7 (ci_addedByParticipantReference i) \<and>
     canonical_instant (ci_addedAt i)"

interpretation item: codec parseCartItem cart_item_js valid_item
proof unfold_locales
  show "valid_item i" if "parseCartItem v = Inr i" for v i
    using that unfolding parseCartItem_def bnd_eq_Inr parseCustomerNote_def parseCatalogSelectionEvidence_def
    by (elim exE conjE) (drule Inr_inject, hypsubst,
      auto simp: valid_item_def cart_Inr option_selection.list_valid customer_note.nullable_valid
        evidence.nullable_valid ref.nullable_valid dest: map_res_length)
  show "parseCartItem (cart_item_js i) = Inr i" if "valid_item i" for i
    using that by (simp add: parseCartItem_def cart_item_js_def valid_item_def bnd_eq_Inr cart_Inr
        parseCustomerNote_def parseCatalogSelectionEvidence_def option_selection.list_parse_print
        customer_note.nullable_parse_print evidence.nullable_parse_print ref.nullable_parse_print)
qed (simp add: cart_item_js_def)

definition order_type_name :: "cart_order_type \<Rightarrow> string" where
  "order_type_name t = (case t of DineIn \<Rightarrow> ''DineIn'' | Pickup \<Rightarrow> ''Pickup'')"

definition channel_name :: "cart_source_channel \<Rightarrow> string" where
  "channel_name c = (case c of ApiChannel \<Rightarrow> ''Api'' | PosChannel \<Rightarrow> ''Pos'' | QrChannel \<Rightarrow> ''Qr'' | WebChannel \<Rightarrow> ''Web'')"

lemma cart_enum_names [simp]:
  "enum_of cart_order_types (JStr (order_type_name t)) = Some t"
  "enum_of cart_source_channels (JStr (channel_name c)) = Some c"
  by (cases t, simp_all add: enum_of_def cart_order_types_def order_type_name_def)
    (cases c, simp_all add: enum_of_def cart_source_channels_def channel_name_def)

definition cart_js :: "cart_aggregate \<Rightarrow> js" where
  "cart_js c = JObj
     [(''cartReference'', JStr (ca_cartReference c)), (''brandReference'', JStr (ca_brandReference c)),
      (''storeReference'', JStr (ca_storeReference c)), (''orderType'', JStr (order_type_name (ca_orderType c))),
      (''sourceChannel'', JStr (channel_name (ca_sourceChannel c))),
      (''diningSessionReference'', js_opt JStr (ca_diningSessionReference c)),
      (''createdByActorReference'', JStr (ca_createdByActorReference c)),
      (''aggregateVersion'', JNum (ca_aggregateVersion c)), (''createdAt'', JStr (ca_createdAt c)),
      (''updatedAt'', JStr (ca_updatedAt c)), (''lifecycle'', js_opt cart_lifecycle_js (ca_lifecycle c)),
      (''items'', JArr (map cart_item_js (ca_items c)))]"

definition valid_cart :: "cart_aggregate \<Rightarrow> bool" where
  "valid_cart c \<longleftrightarrow>
     uuid_v7 (ca_cartReference c) \<and> uuid_v7 (ca_brandReference c) \<and> uuid_v7 (ca_storeReference c) \<and>
     uuid_v7 (ca_createdByActorReference c) \<and> pred_option uuid_v7 (ca_diningSessionReference c) \<and>
     1 \<le> ca_aggregateVersion c \<and> ca_aggregateVersion c \<le> 999 \<and>
     canonical_instant (ca_createdAt c) \<and> canonical_instant (ca_updatedAt c) \<and>
     pred_option valid_lifecycle (ca_lifecycle c) \<and>
     \<not> cart_times_bad (ca_orderType c) (ca_createdAt c) (ca_updatedAt c) (ca_lifecycle c)
         (ca_diningSessionReference c) \<and>
     length (ca_items c) \<le> 100 \<and> list_all valid_item (ca_items c) \<and>
     \<not> cart_items_bad (ca_orderType c) (ca_cartReference c) (ca_items c)"

interpretation cart: codec parseCartAggregate cart_js valid_cart
proof unfold_locales
  show "valid_cart c" if "parseCartAggregate v = Inr c" for v c
    using that unfolding parseCartAggregate_def bnd_eq_Inr parseCartLifecycle_def
    by (elim exE conjE) (drule Inr_inject, hypsubst,
      auto simp: valid_cart_def cart_Inr item.list_valid lifecycle.nullable_valid ref.nullable_valid
        dest: map_res_length)
  show "parseCartAggregate (cart_js c) = Inr c" if "valid_cart c" for c
    using that by (simp add: parseCartAggregate_def cart_js_def valid_cart_def bnd_eq_Inr cart_Inr
        parseCartLifecycle_def item.list_parse_print lifecycle.nullable_parse_print ref.nullable_parse_print)
qed (simp add: cart_js_def)

text \<open>
  Parsing a printed cart whose parts are valid gives the cart back, or fails: the parser of a spread
  object can reject it but never changes it.
\<close>

lemma cart_reparsed:
  assumes "list_all valid_item (ca_items c)" and "pred_option valid_lifecycle (ca_lifecycle c)"
    and "parseCartAggregate (cart_js c) = Inr c'"
  shows "c' = c \<and> valid_cart c"
proof -
  have opt: "x = y" if "nullable parseOrderingReference (js_opt JStr y) = Inr x" for x y
    using that by (cases y) (auto simp: nullable_Inr ordering_parse_Inr)
  have "c' = c"
    using assms unfolding parseCartAggregate_def bnd_eq_Inr
    by (elim exE conjE) (drule Inr_inject, hypsubst,
      simp add: cart_js_def cart_Inr parseCartLifecycle_def item.list_parse_print
        lifecycle.nullable_parse_print opt)
  then show ?thesis using cart.parse_valid [OF assms(3)] by simp
qed

end
