(* ===== verification/CartItemCommands.thy ===== *)
theory CartItemCommands
  imports Cart
begin

text \<open>
  Changing the items of a cart:
  \<open>packages/rms/ordering/src/application/cart-item-command-service.ts\<close>. The three commands \<open>add\<close>,
  \<open>update\<close> and \<open>remove\<close>, from the loaded aggregate and the authorised session on: the version check,
  the deadline check, the catalog's answer, the new aggregate and its re-parsing. What the ports
  return (the catalog's answer, the generated reference, the usable guest session) is an argument.
\<close>

section \<open>The guest session\<close>

text \<open>What the service reads of a usable guest session of \<open>@bop/identity\<close>.\<close>

record cart_session =
  ss_brandReference :: js
  ss_storeReference :: js
  ss_sessionReference :: js
  ss_channel :: js
  ss_diningState :: js
  ss_diningSessionReference :: js
  ss_diningParticipantReference :: js

definition cart_unavailable :: err where
  "cart_unavailable = CartError CART_DEPENDENCY_UNAVAILABLE"

definition session_mismatch :: "cart_session \<Rightarrow> cart_aggregate \<Rightarrow> string \<Rightarrow> string option \<Rightarrow> bool" where
  "session_mismatch s c sessionReference diningSession \<longleftrightarrow>
     ss_channel s \<noteq> JStr (order_type_name (ca_orderType c)) \<or>
     ca_sourceChannel c \<notin> {QrChannel, WebChannel} \<or>
     (ca_orderType c = Pickup \<and>
        (sessionReference \<noteq> ca_createdByActorReference c \<or> ss_diningState s \<noteq> JStr ''ContextOnly'' \<or>
         ss_diningSessionReference s \<noteq> JNull \<or> ss_diningParticipantReference s \<noteq> JNull)) \<or>
     (ca_orderType c = DineIn \<and>
        (ss_diningState s \<noteq> JStr ''DiningBound'' \<or> diningSession \<noteq> ca_diningSessionReference c \<or>
         ss_diningParticipantReference s = JNull))"

text \<open>\<open>authorizeSession\<close> on the session that \<open>createGuestSession\<close> and \<open>assertGuestSessionUsable\<close> returned.\<close>

definition authorizeSession :: "cart_session res \<Rightarrow> cart_aggregate \<Rightarrow> cart_session res" where
  "authorizeSession usable c = catching
     (bnd usable (\<lambda>s.
      bnd (parseOrderingReference (ss_brandReference s)) (\<lambda>brand.
      bnd (parseOrderingReference (ss_storeReference s)) (\<lambda>store.
      bnd (parseOrderingReference (ss_sessionReference s)) (\<lambda>sref.
      bnd (nullable parseOrderingReference (ss_diningSessionReference s)) (\<lambda>dining.
      bnd (throw_if (brand \<noteq> ca_brandReference c \<or> store \<noteq> ca_storeReference c \<or>
                     session_mismatch s c sref dining) TypeError) (\<lambda>_.
      Inr s)))))))
     (\<lambda>_. Inl (CartError CART_PERMISSION_DENIED))"

definition canMutateItem :: "cart_item \<Rightarrow> cart_aggregate \<Rightarrow> cart_session \<Rightarrow> bool res" where
  "canMutateItem i c s =
     (case ca_orderType c of
        DineIn \<Rightarrow> bnd (nullable parseOrderingReference (ss_diningParticipantReference s))
                    (\<lambda>p. Inr (ci_addedByParticipantReference i = p))
      | Pickup \<Rightarrow> bnd (parseOrderingReference (ss_sessionReference s))
                    (\<lambda>a. Inr (ci_addedByActorReference i = a)))"

section \<open>Arguments\<close>

text \<open>\<open>selections\<close> and \<open>itemQuantity\<close> parse a whole item with fixed other fields and return one field.\<close>

definition probe_item :: "js \<Rightarrow> js \<Rightarrow> js" where
  "probe_item q sel = JObj
     [(''cartItemReference'', JStr ''018f5000-0000-7000-8000-000000000001''),
      (''cartReference'', JStr ''018f5000-0000-7000-8000-000000000002''),
      (''sellableReference'', JStr ''018f5000-0000-7000-8000-000000000003''),
      (''quantity'', q), (''optionSelections'', sel), (''customerNote'', JNull),
      (''catalogSelectionEvidence'', JNull),
      (''addedByActorReference'', JStr ''018f5000-0000-7000-8000-000000000004''),
      (''addedByParticipantReference'', JNull), (''addedAt'', JStr ''2026-08-02T00:00:00.000Z'')]"

definition selections :: "js \<Rightarrow> cart_option_selection list res" where
  "selections v = bnd (parseCartItem (probe_item (JNum 1) v)) (\<lambda>i. Inr (ci_optionSelections i))"

definition itemQuantity :: "js \<Rightarrow> int res" where
  "itemQuantity v = bnd (parseCartItem (probe_item v (JArr []))) (\<lambda>i. Inr (ci_quantity i))"

definition sameSelections :: "cart_option_selection list \<Rightarrow> cart_option_selection list \<Rightarrow> bool" where
  "sameSelections left right \<longleftrightarrow>
     length left = length right \<and>
     list_all2 (\<lambda>a b. co_optionReference a = co_optionReference b \<and> co_quantity a = co_quantity b) left right"

section \<open>The catalog's answer\<close>

definition rejection_reasons :: "string list" where
  "rejection_reasons = [''SELLABLE_UNAVAILABLE'', ''OPTION_NOT_ENABLED'', ''OPTION_QUANTITY_INVALID'',
     ''RULE_UNSATISFIED'', ''OPTION_CONFLICT'']"

text \<open>An accepted answer repeats the question and carries fresh evidence.\<close>

definition accepted_evidence ::
  "js \<Rightarrow> cart_aggregate \<Rightarrow> string \<Rightarrow> cart_option_selection list \<Rightarrow> string \<Rightarrow> catalog_selection_evidence res" where
  "accepted_evidence r c sellable sels observedAt =
     bnd (cart_closed r [''status'', ''brandReference'', ''storeReference'', ''sourceChannel'', ''orderType'',
            ''sellableReference'', ''optionSelections'', ''observedAt'', ''menuVersionReference'',
            ''productVersionReference'', ''catalogChannelCode'', ''catalogOrderTypeCode'', ''ruleEvidence'',
            ''validatedAt'']) (\<lambda>_.
     bnd (throw_if (fld r ''status'' \<noteq> JStr ''Accepted'') TypeError) (\<lambda>_.
     bnd (parseOrderingReference (fld r ''brandReference'')) (\<lambda>brand.
     bnd (parseOrderingReference (fld r ''storeReference'')) (\<lambda>store.
     bnd (parseOrderingReference (fld r ''sellableReference'')) (\<lambda>sref.
     bnd (parseOrderingInstant (fld r ''observedAt'')) (\<lambda>seen.
     bnd (selections (fld r ''optionSelections'')) (\<lambda>sels'.
     bnd (throw_if (brand \<noteq> ca_brandReference c \<or> store \<noteq> ca_storeReference c \<or>
                    fld r ''sourceChannel'' \<noteq> JStr (channel_name (ca_sourceChannel c)) \<or>
                    fld r ''orderType'' \<noteq> JStr (order_type_name (ca_orderType c)) \<or>
                    sref \<noteq> sellable \<or> seen \<noteq> observedAt \<or> \<not> sameSelections sels sels') TypeError) (\<lambda>_.
     bnd (parse_evidence (JObj
            [(''menuVersionReference'', fld r ''menuVersionReference''),
             (''productVersionReference'', fld r ''productVersionReference''),
             (''catalogChannelCode'', fld r ''catalogChannelCode''),
             (''catalogOrderTypeCode'', fld r ''catalogOrderTypeCode''),
             (''ruleEvidence'', fld r ''ruleEvidence''), (''validatedAt'', fld r ''validatedAt'')])) (\<lambda>e.
     bnd (throw_if (cs_validatedAt e \<noteq> observedAt) TypeError) (\<lambda>_. Inr e))))))))))"

text \<open>
  \<open>catalogEvidence\<close> on what \<open>ports.catalog.validateSelection\<close> returned or threw. Every failure but a
  well-formed rejection is the same error.
\<close>

definition catalogEvidence ::
  "js res \<Rightarrow> cart_aggregate \<Rightarrow> string \<Rightarrow> cart_option_selection list \<Rightarrow> string \<Rightarrow> catalog_selection_evidence res" where
  "catalogEvidence answer c sellable sels observedAt =
     (case answer of
        Inl _ \<Rightarrow> Inl cart_unavailable
      | Inr r \<Rightarrow>
          if fld r ''status'' = JStr ''Rejected''
          then if has_shape r [''status'', ''reason''] \<and> named_in rejection_reasons (fld r ''reason'')
               then Inl (CartError CART_SELECTION_INVALID) else Inl cart_unavailable
          else catching (accepted_evidence r c sellable sels observedAt) (\<lambda>_. Inl cart_unavailable))"

section \<open>Commands\<close>

text \<open>The next aggregate: \<open>parseCartAggregate({...current, ...})\<close> with the lifecycle advanced.\<close>

definition next_cart :: "cart_aggregate \<Rightarrow> int \<Rightarrow> string \<Rightarrow> cart_item list \<Rightarrow> cart_aggregate res" where
  "next_cart c expectedVersion requestedAt items =
     bnd (advanceCartLifecycle (ca_lifecycle c) requestedAt) (\<lambda>l.
     parseCartAggregate (cart_js (c\<lparr>ca_aggregateVersion := expectedVersion + 1,
       ca_updatedAt := requestedAt, ca_lifecycle := Some l, ca_items := items\<rparr>)))"

definition current_version :: "cart_aggregate \<Rightarrow> int \<Rightarrow> string \<Rightarrow> unit res" where
  "current_version c expectedVersion requestedAt =
     bnd (throw_if (ca_aggregateVersion c \<noteq> expectedVersion) (CartError CART_VERSION_CONFLICT)) (\<lambda>_.
     bnd (assertCartLifecycleActive (ca_lifecycle c) requestedAt) (\<lambda>_. Inr ()))"

definition addCartItem ::
  "cart_aggregate \<Rightarrow> cart_session \<Rightarrow> int \<Rightarrow> string \<Rightarrow> string \<Rightarrow> string \<Rightarrow> int \<Rightarrow> cart_option_selection list \<Rightarrow>
    string option \<Rightarrow> js res \<Rightarrow> js \<Rightarrow> cart_aggregate res" where
  "addCartItem c s expectedVersion requestedAt cartReference sellable quantity sels custNote answer generated =
     bnd (current_version c expectedVersion requestedAt) (\<lambda>_.
     bnd (throw_if (100 \<le> length (ca_items c)) (CartError CART_ITEM_LIMIT_REACHED)) (\<lambda>_.
     bnd (catalogEvidence answer c sellable sels requestedAt) (\<lambda>evidence.
     bnd (parseOrderingReference generated) (\<lambda>iref.
     bnd (parseCartItem (JObj
            [(''cartItemReference'', JStr iref), (''cartReference'', JStr cartReference),
             (''sellableReference'', JStr sellable), (''quantity'', JNum quantity),
             (''optionSelections'', JArr (map option_selection_js sels)),
             (''customerNote'', js_opt JStr custNote), (''catalogSelectionEvidence'', evidence_js evidence),
             (''addedByActorReference'', ss_sessionReference s),
             (''addedByParticipantReference'',
                if ca_orderType c = DineIn then ss_diningParticipantReference s else JNull),
             (''addedAt'', JStr requestedAt)])) (\<lambda>i.
     next_cart c expectedVersion requestedAt (ca_items c @ [i]))))))"

text \<open>\<open>items.find(...)\<close> with the ownership check that \<open>update\<close> and \<open>remove\<close> share.\<close>

definition owned_item :: "cart_aggregate \<Rightarrow> cart_session \<Rightarrow> string \<Rightarrow> cart_item res" where
  "owned_item c s itemReference =
     bnd (or_throw (find (\<lambda>i. ci_cartItemReference i = itemReference) (ca_items c))
            (CartError CART_ITEM_NOT_FOUND)) (\<lambda>i.
     bnd (canMutateItem i c s) (\<lambda>can.
     bnd (throw_if (\<not> can) (CartError CART_PERMISSION_DENIED)) (\<lambda>_. Inr i)))"

definition updateCartItem ::
  "cart_aggregate \<Rightarrow> cart_session \<Rightarrow> int \<Rightarrow> string \<Rightarrow> string \<Rightarrow> int \<Rightarrow> cart_option_selection list \<Rightarrow>
    string option \<Rightarrow> js res \<Rightarrow> cart_aggregate res" where
  "updateCartItem c s expectedVersion requestedAt itemReference quantity sels custNote answer =
     bnd (current_version c expectedVersion requestedAt) (\<lambda>_.
     bnd (owned_item c s itemReference) (\<lambda>i.
     bnd (catalogEvidence answer c (ci_sellableReference i) sels requestedAt) (\<lambda>evidence.
     bnd (parseCartItem (cart_item_js (i\<lparr>ci_quantity := quantity, ci_optionSelections := sels,
            ci_customerNote := custNote, ci_catalogSelectionEvidence := Some evidence\<rparr>))) (\<lambda>replacement.
     next_cart c expectedVersion requestedAt
       (map (\<lambda>x. if ci_cartItemReference x = itemReference then replacement else x) (ca_items c))))))"

definition removeCartItem ::
  "cart_aggregate \<Rightarrow> cart_session \<Rightarrow> int \<Rightarrow> string \<Rightarrow> string \<Rightarrow> cart_aggregate res" where
  "removeCartItem c s expectedVersion requestedAt itemReference =
     bnd (current_version c expectedVersion requestedAt) (\<lambda>_.
     bnd (owned_item c s itemReference) (\<lambda>_.
     next_cart c expectedVersion requestedAt
       (filter (\<lambda>x. ci_cartItemReference x \<noteq> itemReference) (ca_items c))))"

datatype cart_command =
    AddItem string string int "cart_option_selection list" "string option" "js res" js
  | UpdateItem string int "cart_option_selection list" "string option" "js res"
  | RemoveItem string

fun run_cart_command :: "cart_aggregate \<Rightarrow> cart_session \<Rightarrow> int \<Rightarrow> string \<Rightarrow> cart_command \<Rightarrow> cart_aggregate res" where
  "run_cart_command c s v t (AddItem cref sellable q sels cn answer generated) =
     addCartItem c s v t cref sellable q sels cn answer generated"
| "run_cart_command c s v t (UpdateItem iref q sels cn answer) = updateCartItem c s v t iref q sels cn answer"
| "run_cart_command c s v t (RemoveItem iref) = removeCartItem c s v t iref"

section \<open>Effects\<close>

text \<open>The fields no command touches.\<close>

definition same_cart_identity :: "cart_aggregate \<Rightarrow> cart_aggregate \<Rightarrow> bool" where
  "same_cart_identity c c' \<longleftrightarrow>
     ca_cartReference c' = ca_cartReference c \<and> ca_brandReference c' = ca_brandReference c \<and>
     ca_storeReference c' = ca_storeReference c \<and> ca_orderType c' = ca_orderType c \<and>
     ca_sourceChannel c' = ca_sourceChannel c \<and>
     ca_diningSessionReference c' = ca_diningSessionReference c \<and>
     ca_createdByActorReference c' = ca_createdByActorReference c \<and> ca_createdAt c' = ca_createdAt c"

lemma next_cart_Inr:
  assumes "next_cart c v t items = Inr c'" and "list_all valid_item items"
  shows "valid_cart c' \<and> same_cart_identity c c' \<and> ca_aggregateVersion c' = v + 1 \<and> ca_updatedAt c' = t \<and>
    ca_items c' = items \<and> (\<exists>l. advanceCartLifecycle (ca_lifecycle c) t = Inr l \<and> ca_lifecycle c' = Some l)"
proof -
  from assms(1) obtain l where l: "advanceCartLifecycle (ca_lifecycle c) t = Inr l" and
    p: "parseCartAggregate (cart_js (c\<lparr>ca_aggregateVersion := v + 1, ca_updatedAt := t,
      ca_lifecycle := Some l, ca_items := items\<rparr>)) = Inr c'"
    by (auto simp: next_cart_def bnd_eq_Inr)
  have "valid_lifecycle l"
    using l by (auto simp: advanceCartLifecycle_def bnd_eq_Inr dest: parse_lifecycle_valid)
  with cart_reparsed [OF _ _ p] assms(2) l show ?thesis by (simp add: same_cart_identity_def)
qed

text \<open>What the parser of an item reads from the fields it copies.\<close>

lemma parseCartItem_fields:
  "parseCartItem v = Inr i \<Longrightarrow>
   fld v ''cartItemReference'' = JStr (ci_cartItemReference i) \<and> fld v ''cartReference'' = JStr (ci_cartReference i) \<and>
   fld v ''sellableReference'' = JStr (ci_sellableReference i) \<and> fld v ''quantity'' = JNum (ci_quantity i) \<and>
   fld v ''addedByActorReference'' = JStr (ci_addedByActorReference i) \<and>
   nullable parseOrderingReference (fld v ''addedByParticipantReference'') = Inr (ci_addedByParticipantReference i) \<and>
   fld v ''addedAt'' = JStr (ci_addedAt i)"
  unfolding parseCartItem_def bnd_eq_Inr
  by (elim exE conjE) (drule Inr_inject, hypsubst, simp add: cart_Inr)

lemma nullable_ref_js: "nullable parseOrderingReference (js_opt JStr x) = Inr y \<Longrightarrow> y = x"
  by (cases x) (auto simp: nullable_Inr ordering_parse_Inr)

text \<open>An item belongs to the session that added it: by participant in a dining cart, by actor otherwise.\<close>

definition owned_by :: "cart_aggregate \<Rightarrow> cart_session \<Rightarrow> cart_item \<Rightarrow> bool" where
  "owned_by c s i \<longleftrightarrow> canMutateItem i c s = Inr True"

lemma owned_by_cong:
  "ci_addedByActorReference i = ci_addedByActorReference j \<Longrightarrow>
   ci_addedByParticipantReference i = ci_addedByParticipantReference j \<Longrightarrow>
   owned_by c s i = owned_by c s j"
  by (simp add: owned_by_def canMutateItem_def split: cart_order_type.split)

lemma owned_item_Inr:
  "owned_item c s r = Inr i \<Longrightarrow>
   i \<in> set (ca_items c) \<and> ci_cartItemReference i = r \<and> owned_by c s i"
  by (auto simp: owned_item_def bnd_eq_Inr or_throw_Inr throw_if_eq_Inr owned_by_def find_Some_iff)

lemma current_version_Inr:
  "current_version c v t = Inr u \<Longrightarrow> ca_aggregateVersion c = v"
  by (auto simp: current_version_def bnd_eq_Inr throw_if_eq_Inr)

lemma addCartItem_Inr:
  assumes "addCartItem c s v t cref sellable q sels cn answer generated = Inr c'" and "valid_cart c"
  shows "\<exists>i. ca_items c' = ca_items c @ [i] \<and> ci_sellableReference i = sellable \<and> ci_quantity i = q \<and>
    ci_addedAt i = t \<and> owned_by c s i \<and> length (ca_items c) < 100 \<and>
    valid_cart c' \<and> same_cart_identity c c' \<and> ca_aggregateVersion c' = ca_aggregateVersion c + 1 \<and>
    ca_updatedAt c' = t"
proof -
  from assms(1) obtain e iref i where
    v: "current_version c v t = Inr ()" "length (ca_items c) < 100" and
    i: "parseCartItem (JObj
            [(''cartItemReference'', JStr iref), (''cartReference'', JStr cref),
             (''sellableReference'', JStr sellable), (''quantity'', JNum q),
             (''optionSelections'', JArr (map option_selection_js sels)),
             (''customerNote'', js_opt JStr cn), (''catalogSelectionEvidence'', evidence_js e),
             (''addedByActorReference'', ss_sessionReference s),
             (''addedByParticipantReference'',
                if ca_orderType c = DineIn then ss_diningParticipantReference s else JNull),
             (''addedAt'', JStr t)]) = Inr i" and
    n: "next_cart c v t (ca_items c @ [i]) = Inr c'"
    unfolding addCartItem_def bnd_eq_Inr throw_if_eq_Inr by auto
  note f = parseCartItem_fields [OF i]
  have "owned_by c s i"
    using f item.parse_valid [OF i]
    by (cases "ca_orderType c") (auto simp: owned_by_def canMutateItem_def valid_item_def bnd_eq_Inr
        ordering_parse_Inr parseOrderingReference_def)
  moreover have "list_all valid_item (ca_items c @ [i])"
    using assms(2) item.parse_valid [OF i] by (simp add: valid_cart_def)
  ultimately show ?thesis
    using next_cart_Inr [OF n] v current_version_Inr [OF v(1)] f by (intro exI [of _ i]) auto
qed

lemma updateCartItem_Inr:
  assumes "updateCartItem c s v t r q sels cn answer = Inr c'" and "valid_cart c"
  shows "\<exists>i j. i \<in> set (ca_items c) \<and> ci_cartItemReference i = r \<and> owned_by c s i \<and> owned_by c s j \<and>
    ci_cartItemReference j = r \<and> ci_quantity j = q \<and> ci_sellableReference j = ci_sellableReference i \<and>
    ca_items c' = map (\<lambda>x. if ci_cartItemReference x = r then j else x) (ca_items c) \<and>
    valid_cart c' \<and> same_cart_identity c c' \<and> ca_aggregateVersion c' = ca_aggregateVersion c + 1 \<and>
    ca_updatedAt c' = t"
proof -
  from assms(1) obtain i e j where
    v: "current_version c v t = Inr ()" and o: "owned_item c s r = Inr i" and
    j: "parseCartItem (cart_item_js (i\<lparr>ci_quantity := q, ci_optionSelections := sels,
            ci_customerNote := cn, ci_catalogSelectionEvidence := Some e\<rparr>)) = Inr j" and
    n: "next_cart c v t (map (\<lambda>x. if ci_cartItemReference x = r then j else x) (ca_items c)) = Inr c'"
    unfolding updateCartItem_def bnd_eq_Inr by auto
  have jf: "ci_cartItemReference j = ci_cartItemReference i" "ci_quantity j = q"
    "ci_sellableReference j = ci_sellableReference i"
    "ci_addedByActorReference j = ci_addedByActorReference i"
    "ci_addedByParticipantReference j = ci_addedByParticipantReference i"
    using parseCartItem_fields [OF j] by (auto simp: cart_item_js_def dest: nullable_ref_js)
  have "list_all valid_item (map (\<lambda>x. if ci_cartItemReference x = r then j else x) (ca_items c))"
    using assms(2) item.parse_valid [OF j] by (auto simp: valid_cart_def list_all_iff)
  then show ?thesis
    using next_cart_Inr [OF n] current_version_Inr [OF v] owned_item_Inr [OF o] jf owned_by_cong [of j i]
    by (intro exI [of _ i] exI [of _ j]) auto
qed

lemma removeCartItem_Inr:
  assumes "removeCartItem c s v t r = Inr c'" and "valid_cart c"
  shows "\<exists>i. i \<in> set (ca_items c) \<and> ci_cartItemReference i = r \<and> owned_by c s i \<and>
    ca_items c' = filter (\<lambda>x. ci_cartItemReference x \<noteq> r) (ca_items c) \<and>
    valid_cart c' \<and> same_cart_identity c c' \<and> ca_aggregateVersion c' = ca_aggregateVersion c + 1 \<and>
    ca_updatedAt c' = t"
proof -
  from assms(1) obtain i where
    v: "current_version c v t = Inr ()" and o: "owned_item c s r = Inr i" and
    n: "next_cart c v t (filter (\<lambda>x. ci_cartItemReference x \<noteq> r) (ca_items c)) = Inr c'"
    unfolding removeCartItem_def bnd_eq_Inr by auto
  have "list_all valid_item (filter (\<lambda>x. ci_cartItemReference x \<noteq> r) (ca_items c))"
    using assms(2) by (simp add: valid_cart_def list_all_iff)
  then show ?thesis
    using next_cart_Inr [OF n] current_version_Inr [OF v] owned_item_Inr [OF o] by blast
qed

text \<open>All commands at once.\<close>

lemma run_cart_command_Inr:
  assumes "run_cart_command c s v t cmd = Inr c'" and "valid_cart c"
  shows "valid_cart c' \<and> same_cart_identity c c' \<and> ca_aggregateVersion c' = ca_aggregateVersion c + 1 \<and>
    ca_updatedAt c' = t \<and> ca_aggregateVersion c = v"
proof -
  have "ca_aggregateVersion c = v"
    using assms(1) by (cases cmd)
      (auto simp: addCartItem_def updateCartItem_def removeCartItem_def bnd_eq_Inr dest: current_version_Inr)
  with assms show ?thesis
    by (cases cmd) (auto dest: addCartItem_Inr updateCartItem_Inr removeCartItem_Inr)
qed

lemma unique_item:
  "valid_cart c \<Longrightarrow> i \<in> set (ca_items c) \<Longrightarrow> j \<in> set (ca_items c) \<Longrightarrow>
   ci_cartItemReference i = ci_cartItemReference j \<Longrightarrow> i = j"
  by (auto simp: valid_cart_def cart_items_bad_def distinct_map dest: inj_onD)

lemma foreign_items:
  assumes "run_cart_command c s v t cmd = Inr c'" and c: "valid_cart c"
  shows "filter (\<lambda>i. \<not> owned_by c s i) (ca_items c') = filter (\<lambda>i. \<not> owned_by c s i) (ca_items c)"
proof (cases cmd)
  case (AddItem cref sellable q sels cn answer generated)
  with assms(1) have "addCartItem c s v t cref sellable q sels cn answer generated = Inr c'" by simp
  from addCartItem_Inr [OF this c] show ?thesis by auto
next
  case (UpdateItem r q sels cn answer)
  with assms(1) have "updateCartItem c s v t r q sels cn answer = Inr c'" by simp
  from updateCartItem_Inr [OF this c] obtain i j where
    h: "i \<in> set (ca_items c)" "ci_cartItemReference i = r" "owned_by c s i" "owned_by c s j" and
    items: "ca_items c' = map (\<lambda>x. if ci_cartItemReference x = r then j else x) (ca_items c)" by blast
  have "filter (\<lambda>i. \<not> owned_by c s i) (map (\<lambda>x. if ci_cartItemReference x = r then j else x) xs) =
      filter (\<lambda>i. \<not> owned_by c s i) xs" if "set xs \<subseteq> set (ca_items c)" for xs
    using that
  proof (induction xs)
    case (Cons x xs)
    then have "x = i" if "ci_cartItemReference x = r" using that unique_item [OF c, of x i] h(1,2) by simp
    with Cons h(3,4) show ?case by auto
  qed simp
  then show ?thesis by (simp add: items)
next
  case (RemoveItem r)
  with assms(1) have "removeCartItem c s v t r = Inr c'" by simp
  from removeCartItem_Inr [OF this c] obtain i where
    h: "i \<in> set (ca_items c)" "ci_cartItemReference i = r" "owned_by c s i" and
    items: "ca_items c' = filter (\<lambda>x. ci_cartItemReference x \<noteq> r) (ca_items c)" by blast
  have "x = i" if "x \<in> set (ca_items c)" "ci_cartItemReference x = r" for x
    using unique_item [OF c that(1) h(1)] that(2) h(2) by simp
  then show ?thesis using h(3) by (auto simp: items filter_filter intro!: filter_cong)
qed

text \<open>
  The next cart without some of its items: valid as long as its version stays within the bound of
  \<open>quantity\<close>, which the parser also applies to \<open>aggregateVersion\<close>.
\<close>

definition removed_cart :: "cart_aggregate \<Rightarrow> cart_lifecycle \<Rightarrow> int \<Rightarrow> string \<Rightarrow> (cart_item \<Rightarrow> bool) \<Rightarrow> cart_aggregate" where
  "removed_cart c l v t P = c\<lparr>ca_aggregateVersion := v + 1, ca_updatedAt := t,
     ca_lifecycle := Some (l\<lparr>cl_idleExpiresAt := to_iso (min (ms_of t + cl_idleTimeoutSeconds l * 1000)
                                                        (ms_of (cl_absoluteExpiresAt l)))\<rparr>),
     ca_items := filter P (ca_items c)\<rparr>"

lemma next_cart_removed:
  assumes c: "valid_cart c" and l: "ca_lifecycle c = Some l" and a: "cl_status l = JStr ''Active''"
    and t: "canonical_instant t" "ms_of (ca_createdAt c) \<le> ms_of t" "ms_of t < ms_of (cl_idleExpiresAt l)"
    and v: "0 \<le> v"
  shows "next_cart c v t (filter P (ca_items c)) =
    (if v < 999 then Inr (removed_cart c l v t P) else Inl cart_invalid)"
proof -
  let ?m = "min (ms_of t + cl_idleTimeoutSeconds l * 1000) (ms_of (cl_absoluteExpiresAt l))"
  let ?l = "l\<lparr>cl_idleExpiresAt := to_iso ?m\<rparr>" and ?c = "removed_cart c l v t P"
  have vl: "valid_lifecycle l" using c l by (simp add: valid_cart_def)
  note d = valid_deadlines [OF vl]
  have adv: "advanceCartLifecycle (Some l) t = Inr ?l" using advance_eq [OF vl t(1) a] t(3) by simp
  have vl': "valid_lifecycle ?l" using cart_step_effect [of l "Activity t" ?l] adv by simp
  have m: "iso_time ?m"
    by (rule iso_time_between [OF iso_time_ms_of [OF t(1)] _ _ iso_time_ms_of [OF d(2)]])
      (use t(3) d in \<open>simp_all add: min_def\<close>)
  have "\<not> lifecycle_out_of_step (ca_createdAt c) t ?l"
    using t d m a by (auto simp: lifecycle_out_of_step_def min_def)
  moreover have "length (filter P (ca_items c)) \<le> 100"
    using c length_filter_le [of P "ca_items c"] unfolding valid_cart_def by linarith
  ultimately have parts: "valid_cart (?c\<lparr>ca_aggregateVersion := 1\<rparr>)"
    using c t vl' by (auto simp: removed_cart_def valid_cart_def cart_times_bad_def cart_items_bad_def
        list_all_iff list_ex_iff distinct_map_filter)
  have next_eq: "next_cart c v t (filter P (ca_items c)) = parseCartAggregate (cart_js ?c)"
    by (simp add: next_cart_def l adv removed_cart_def)
  show ?thesis
  proof (cases "v < 999")
    case True
    then have "valid_cart ?c" using parts v by (simp add: valid_cart_def removed_cart_def)
    with True show ?thesis by (simp add: next_eq cart.parse_print)
  next
    case False
    then have "cart_quantity (JNum (ca_aggregateVersion ?c)) = Inl cart_invalid"
      by (simp add: cart_quantity_def removed_cart_def)
    with False parts show ?thesis
      unfolding next_eq by (simp add: parseCartAggregate_def cart_js_def valid_cart_def bnd_eq_Inl cart_Inr
          parseCartLifecycle_def item.list_parse_print lifecycle.nullable_parse_print ref.nullable_parse_print
          cart_closed_def parseOrderingReference_def parseOrderingInstant_def)
  qed
qed

lemma removeCartItem_eq:
  assumes c: "valid_cart c" and l: "ca_lifecycle c = Some l" "cl_status l = JStr ''Active''"
    and t: "canonical_instant t" "ms_of (ca_createdAt c) \<le> ms_of t" "ms_of t < ms_of (cl_idleExpiresAt l)"
    and i: "i \<in> set (ca_items c)" "ci_cartItemReference i = r" "owned_by c s i"
  shows "removeCartItem c s (ca_aggregateVersion c) t r =
    (if ca_aggregateVersion c < 999
     then Inr (removed_cart c l (ca_aggregateVersion c) t (\<lambda>x. ci_cartItemReference x \<noteq> r))
     else Inl cart_invalid)"
proof -
  have vl: "valid_lifecycle l" using c l(1) by (simp add: valid_cart_def)
  have cv: "current_version c (ca_aggregateVersion c) t = Inr ()"
    using assert_active_eq [OF vl t(1) l(2)] t(3) l(1) by (simp add: current_version_def)
  have "find (\<lambda>i. ci_cartItemReference i = r) (ca_items c) = Some i"
  proof (cases "find (\<lambda>i. ci_cartItemReference i = r) (ca_items c)")
    case None
    then show ?thesis using i by (simp add: find_None_iff)
  next
    case (Some j)
    then have "j \<in> set (ca_items c)" "ci_cartItemReference j = r" by (auto simp: find_Some_iff)
    then show ?thesis using Some unique_item [OF c i(1)] i(2) by simp
  qed
  then have o: "owned_item c s r = Inr i" using i(3) by (simp add: owned_item_def owned_by_def)
  have "0 \<le> ca_aggregateVersion c" using c by (simp add: valid_cart_def)
  from next_cart_removed [OF c l t this] show ?thesis by (simp add: removeCartItem_def cv o)
qed

section \<open>Properties\<close>

text \<open>A dining cart with one item of each of two participants.\<close>

definition example_item :: "string \<Rightarrow> string \<Rightarrow> cart_item" where
  "example_item ref participant =
     \<lparr>ci_cartItemReference = ref, ci_cartReference = ''01890000-0000-7000-8000-000000000040'',
      ci_sellableReference = ''01890000-0000-7000-8000-000000000030'', ci_quantity = 2,
      ci_optionSelections = [], ci_customerNote = Some ''no onions'', ci_catalogSelectionEvidence = None,
      ci_addedByActorReference = ''01890000-0000-7000-8000-000000000041'',
      ci_addedByParticipantReference = Some participant, ci_addedAt = ''2026-06-01T12:05:00.000Z''\<rparr>"

definition example_cart :: "int \<Rightarrow> cart_aggregate" where
  "example_cart version =
     \<lparr>ca_cartReference = ''01890000-0000-7000-8000-000000000040'',
      ca_brandReference = ''01890000-0000-7000-8000-000000000012'',
      ca_storeReference = ''01890000-0000-7000-8000-000000000013'', ca_orderType = DineIn,
      ca_sourceChannel = QrChannel,
      ca_diningSessionReference = Some ''01890000-0000-7000-8000-000000000042'',
      ca_createdByActorReference = ''01890000-0000-7000-8000-000000000041'', ca_aggregateVersion = version,
      ca_createdAt = ''2026-06-01T12:00:00.000Z'', ca_updatedAt = ''2026-06-01T12:05:00.000Z'',
      ca_lifecycle = Some example_lifecycle,
      ca_items =
        [example_item ''01890000-0000-7000-8000-000000000051'' ''01890000-0000-7000-8000-000000000061'',
         example_item ''01890000-0000-7000-8000-000000000052'' ''01890000-0000-7000-8000-000000000062'']\<rparr>"

definition example_session :: cart_session where
  "example_session =
     \<lparr>ss_brandReference = JStr ''01890000-0000-7000-8000-000000000012'',
      ss_storeReference = JStr ''01890000-0000-7000-8000-000000000013'',
      ss_sessionReference = JStr ''01890000-0000-7000-8000-000000000041'', ss_channel = JStr ''DineIn'',
      ss_diningState = JStr ''DiningBound'',
      ss_diningSessionReference = JStr ''01890000-0000-7000-8000-000000000042'',
      ss_diningParticipantReference = JStr ''01890000-0000-7000-8000-000000000061''\<rparr>"

lemma example_cart_facts:
  "uuid_v7 ''01890000-0000-7000-8000-000000000040''" "uuid_v7 ''01890000-0000-7000-8000-000000000012''"
  "uuid_v7 ''01890000-0000-7000-8000-000000000013''" "uuid_v7 ''01890000-0000-7000-8000-000000000041''"
  "uuid_v7 ''01890000-0000-7000-8000-000000000042''" "uuid_v7 ''01890000-0000-7000-8000-000000000030''"
  "uuid_v7 ''01890000-0000-7000-8000-000000000051''" "uuid_v7 ''01890000-0000-7000-8000-000000000052''"
  "uuid_v7 ''01890000-0000-7000-8000-000000000061''" "uuid_v7 ''01890000-0000-7000-8000-000000000062''"
  "canonical_instant ''2026-06-01T12:00:00.000Z''" "canonical_instant ''2026-06-01T12:05:00.000Z''"
  "canonical_instant ''2026-06-01T12:10:00.000Z''" "valid_note ''no onions''"
  "ms_of ''2026-06-01T12:00:00.000Z'' = 1780315200000" "ms_of ''2026-06-01T12:05:00.000Z'' = 1780315500000"
  "ms_of ''2026-06-01T12:10:00.000Z'' = 1780315800000"
  by code_simp+

lemma example_cart_valid: "1 \<le> version \<Longrightarrow> version \<le> 999 \<Longrightarrow> valid_cart (example_cart version)"
  using example_lifecycle_valid
  by (simp add: valid_cart_def example_cart_def example_item_def valid_item_def example_cart_facts
      cart_times_bad_def cart_items_bad_def lifecycle_out_of_step_def example_lifecycle_def example_times)

lemma example_owned: "owned_by (example_cart version) example_session (hd (ca_items (example_cart version)))"
  by (simp add: owned_by_def canMutateItem_def example_cart_def example_item_def example_session_def
      nullable_def parseOrderingReference_def example_cart_facts)

lemma example_removal:
  assumes "1 \<le> version" and "version \<le> 999"
  shows "removeCartItem (example_cart version) example_session version ''2026-06-01T12:10:00.000Z''
     ''01890000-0000-7000-8000-000000000051'' =
    (if version < 999
     then Inr (removed_cart (example_cart version) example_lifecycle version ''2026-06-01T12:10:00.000Z''
       (\<lambda>x. ci_cartItemReference x \<noteq> ''01890000-0000-7000-8000-000000000051''))
     else Inl cart_invalid)"
  using removeCartItem_eq [OF example_cart_valid [OF assms] _ _ example_cart_facts(13) _ _ _ _ example_owned,
      of example_lifecycle "''01890000-0000-7000-8000-000000000051''"] example_times
  by (simp add: example_cart_def example_lifecycle_def example_item_def example_cart_facts)

text \<open>
  C16. Parsing is a normalisation: handing a parsed cart back as an object gives the same cart, and two
  parsed carts with the same object are the same.
\<close>

theorem parseCartAggregate_roundtrip:
  assumes "parseCartAggregate v = Inr c" and "parseCartAggregate w = Inr d"
  shows "parseCartAggregate (cart_js c) = Inr c \<and> (cart_js c = cart_js d) = (c = d)"
  using assms cart.reparse cart.parse_valid cart.print_inj by metis

theorem parseCartAggregate_roundtrip_witness:
  "parseCartAggregate (cart_js (example_cart 1)) = Inr (example_cart 1) \<and>
   cart_js (example_cart 1) \<noteq> cart_js (example_cart 2)"
proof -
  have p: "parseCartAggregate (cart_js (example_cart 1)) = Inr (example_cart 1)"
    "parseCartAggregate (cart_js (example_cart 2)) = Inr (example_cart 2)"
    using example_cart_valid [of 1] example_cart_valid [of 2] by (simp_all add: cart.parse_print)
  have "example_cart 1 \<noteq> example_cart 2" by (simp add: example_cart_def)
  with parseCartAggregate_roundtrip [OF p] show ?thesis by blast
qed

text \<open>
  A command that succeeds turns a valid cart into a valid cart: the version it was asked for is the
  current one and rises by one, the update time is the time of the request, and the identity of the cart
  (references, order type, channel, dining session, creation) does not change.
\<close>

theorem cart_command_preserves:
  assumes "valid_cart c" and "run_cart_command c s v t cmd = Inr c'"
  shows "valid_cart c' \<and> v = ca_aggregateVersion c \<and> ca_aggregateVersion c' = v + 1 \<and>
    ca_updatedAt c' = t \<and> same_cart_identity c c'"
  using run_cart_command_Inr [OF assms(2,1)] by auto

theorem cart_command_preserves_witness:
  "\<exists>c'. run_cart_command (example_cart 7) example_session 7 ''2026-06-01T12:10:00.000Z''
      (RemoveItem ''01890000-0000-7000-8000-000000000051'') = Inr c' \<and> valid_cart c' \<and> ca_aggregateVersion c' = 8"
proof -
  have v: "valid_cart (example_cart 7)" by (rule example_cart_valid) simp_all
  have r: "run_cart_command (example_cart 7) example_session 7 ''2026-06-01T12:10:00.000Z''
      (RemoveItem ''01890000-0000-7000-8000-000000000051'') =
      Inr (removed_cart (example_cart 7) example_lifecycle 7 ''2026-06-01T12:10:00.000Z''
       (\<lambda>x. ci_cartItemReference x \<noteq> ''01890000-0000-7000-8000-000000000051''))"
    using example_removal [of 7] by simp
  from cart_command_preserves [OF v r] r show ?thesis by simp
qed

text \<open>
  A session changes only its own items: whatever command succeeds, the items of other participants
  (of other actors in a pickup cart) are the same afterwards, in the same order.
\<close>

theorem cart_command_foreign_items:
  assumes "valid_cart c" and "run_cart_command c s v t cmd = Inr c'"
  shows "filter (\<lambda>i. \<not> owned_by c s i) (ca_items c') = filter (\<lambda>i. \<not> owned_by c s i) (ca_items c)"
  using foreign_items [OF assms(2,1)] .

theorem cart_command_foreign_items_witness:
  "\<exists>c'. run_cart_command (example_cart 7) example_session 7 ''2026-06-01T12:10:00.000Z''
      (RemoveItem ''01890000-0000-7000-8000-000000000051'') = Inr c' \<and>
    filter (\<lambda>i. \<not> owned_by (example_cart 7) example_session i) (ca_items c') =
    filter (\<lambda>i. \<not> owned_by (example_cart 7) example_session i) (ca_items (example_cart 7))"
proof -
  have v: "valid_cart (example_cart 7)" by (rule example_cart_valid) simp_all
  have r: "run_cart_command (example_cart 7) example_session 7 ''2026-06-01T12:10:00.000Z''
      (RemoveItem ''01890000-0000-7000-8000-000000000051'') =
      Inr (removed_cart (example_cart 7) example_lifecycle 7 ''2026-06-01T12:10:00.000Z''
       (\<lambda>x. ci_cartItemReference x \<noteq> ''01890000-0000-7000-8000-000000000051''))"
    using example_removal [of 7] by simp
  from cart_command_foreign_items [OF v r] r show ?thesis by blast
qed




text \<open>
  C14. An item can always be removed by its owner while the cart is active, up to version 998; at version 999
  the cart is stuck: the parser bounds \<open>aggregateVersion\<close> by the bound of a quantity, so the same removal is
  refused as invalid input.
\<close>

theorem remove_own_item:
  assumes "valid_cart c" and "ca_lifecycle c = Some l" and "cl_status l = JStr ''Active''"
    and "canonical_instant t" and "ms_of (ca_createdAt c) \<le> ms_of t" and "ms_of t < ms_of (cl_idleExpiresAt l)"
    and "i \<in> set (ca_items c)" and "owned_by c s i"
  shows "if ca_aggregateVersion c < 999
    then \<exists>c'. removeCartItem c s (ca_aggregateVersion c) t (ci_cartItemReference i) = Inr c' \<and>
      ca_items c' = filter (\<lambda>x. ci_cartItemReference x \<noteq> ci_cartItemReference i) (ca_items c)
    else removeCartItem c s (ca_aggregateVersion c) t (ci_cartItemReference i) = Inl (CartError CART_INPUT_INVALID)"
  using removeCartItem_eq [OF assms(1-7) refl assms(8)] by (simp add: removed_cart_def cart_invalid_def)

theorem remove_own_item_witness:
  "removeCartItem (example_cart 999) example_session 999 ''2026-06-01T12:10:00.000Z''
     ''01890000-0000-7000-8000-000000000051'' = Inl (CartError CART_INPUT_INVALID)"
proof -
  let ?c = "example_cart 999"
  have v: "valid_cart ?c" by (rule example_cart_valid) simp_all
  have h: "ca_lifecycle ?c = Some example_lifecycle" "cl_status example_lifecycle = JStr ''Active''"
    "canonical_instant ''2026-06-01T12:10:00.000Z''" "ms_of (ca_createdAt ?c) \<le> ms_of ''2026-06-01T12:10:00.000Z''"
    "ms_of ''2026-06-01T12:10:00.000Z'' < ms_of (cl_idleExpiresAt example_lifecycle)"
    "hd (ca_items ?c) \<in> set (ca_items ?c)"
    by (simp_all add: example_cart_def example_lifecycle_def example_cart_facts example_times)
  have "ca_aggregateVersion ?c = 999" "ci_cartItemReference (hd (ca_items ?c)) = ''01890000-0000-7000-8000-000000000051''"
    by (simp_all add: example_cart_def example_item_def)
  with remove_own_item [OF v h example_owned] show ?thesis by simp
qed

end
