(* ===== verification/CartQuote.thy ===== *)
theory CartQuote
  imports Cart
begin

text \<open>
  Attaching a price quote to a cart: \<open>packages/rms/ordering/src/domain/cart-quote-attachment.ts\<close> and the
  verification of the quote in \<open>application/cart-quote-attachment-service.ts\<close>. The service trusts
  nothing in the quote: it checks scope, validity, the arithmetic of every line and of the totals, and
  that the lines are exactly the items of the cart.
\<close>

section \<open>Data\<close>

record cart_quote_money =
  qm_amountMinor :: int
  qm_currencyCode :: string

record cart_quote_line =
  qe_lineReference :: string
  qe_sellableReference :: string
  qe_productVersionReference :: string
  qe_menuVersionReference :: string
  qe_quantity :: int

record cart_quote_attachment =
  at_operationReference :: string
  at_operationIntentHash :: string
  at_guestSessionReference :: string
  at_cartReference :: string
  at_brandReference :: string
  at_storeReference :: string
  at_cartVersion :: int
  at_quoteReference :: string
  at_quoteVersion :: int
  at_quoteInputDigest :: string
  at_currencyCode :: string
  at_currencyMetadataVersion :: int
  at_currencyMetadataVersionReference :: string
  at_subtotal :: cart_quote_money
  at_discount :: cart_quote_money
  at_tax :: cart_quote_money
  at_fee :: cart_quote_money
  at_total :: cart_quote_money
  at_lines :: "cart_quote_line list"
  at_warnings :: "string list"
  at_quoteCreatedAt :: string
  at_quoteExpiresAt :: string
  at_attachedAt :: string
  at_idempotencyExpiresAt :: string

section \<open>Parsers of the attachment\<close>

definition quote_invalid :: err where
  "quote_invalid = CartError CART_QUOTE_INVALID"

definition quote_exact :: "js \<Rightarrow> string list \<Rightarrow> unit res" where
  "quote_exact v names = throw_if (\<not> has_shape v names) quote_invalid"

definition quote_positive :: "js \<Rightarrow> int res" where
  "quote_positive v = or_throw (safe_int_in 1 max_safe v) quote_invalid"

definition quote_currency :: "js \<Rightarrow> string res" where
  "quote_currency v = or_throw (str_if currency_format v) quote_invalid"

text \<open>\<open>typeof amountMinor === "bigint"\<close> within bounds.\<close>

fun bigint_in :: "int \<Rightarrow> int \<Rightarrow> js \<Rightarrow> int option" where
  "bigint_in lo hi (JBig n) = (if lo \<le> n \<and> n \<le> hi then Some n else None)"
| "bigint_in lo hi _ = None"

definition int64_min :: int where "int64_min = - (2 ^ 63)"
definition int64_max :: int where "int64_max = 2 ^ 63 - 1"

definition quote_money :: "js \<Rightarrow> string \<Rightarrow> cart_quote_money res" where
  "quote_money v expectedCurrency =
     bnd (quote_exact v [''amountMinor'', ''currencyCode'']) (\<lambda>_.
     bnd (or_throw (bigint_in int64_min int64_max (fld v ''amountMinor'')) quote_invalid) (\<lambda>a.
     bnd (quote_currency (fld v ''currencyCode'')) (\<lambda>c.
     bnd (throw_if (c \<noteq> expectedCurrency) quote_invalid) (\<lambda>_.
     Inr \<lparr>qm_amountMinor = a, qm_currencyCode = c\<rparr>))))"

definition quote_evidence_line :: "js \<Rightarrow> cart_quote_line res" where
  "quote_evidence_line v =
     bnd (quote_exact v [''lineReference'', ''sellableReference'', ''productVersionReference'',
            ''menuVersionReference'', ''quantity'']) (\<lambda>_.
     bnd (quote_positive (fld v ''quantity'')) (\<lambda>q.
     bnd (throw_if (999 < q) quote_invalid) (\<lambda>_.
     bnd (parseOrderingReference (fld v ''lineReference'')) (\<lambda>lref.
     bnd (parseOrderingReference (fld v ''sellableReference'')) (\<lambda>sref.
     bnd (parseOrderingReference (fld v ''productVersionReference'')) (\<lambda>pref.
     bnd (parseOrderingReference (fld v ''menuVersionReference'')) (\<lambda>mref.
     Inr \<lparr>qe_lineReference = lref, qe_sellableReference = sref, qe_productVersionReference = pref,
          qe_menuVersionReference = mref, qe_quantity = q\<rparr>)))))))"

definition quote_array :: "js \<Rightarrow> js list res" where
  "quote_array v = bnd (throw_if (\<not> is_array v \<or> 100 < length (elements v)) quote_invalid) (\<lambda>_. Inr (elements v))"

definition quote_warning :: "js \<Rightarrow> string res" where
  "quote_warning v = or_throw (str_if (code_format ''_'') v) quote_invalid"

definition quote_warnings :: "js \<Rightarrow> string list res" where
  "quote_warnings v = bnd (quote_array v) (map_res quote_warning)"

definition attachment_times_bad :: "string \<Rightarrow> string \<Rightarrow> string \<Rightarrow> string \<Rightarrow> bool" where
  "attachment_times_bad quoteCreatedAt quoteExpiresAt attachedAt idempotencyExpiresAt \<longleftrightarrow>
     ms_of quoteExpiresAt \<le> ms_of quoteCreatedAt \<or> ms_of attachedAt < ms_of quoteCreatedAt \<or>
     ms_of quoteExpiresAt \<le> ms_of attachedAt \<or>
     ms_of idempotencyExpiresAt \<noteq> ms_of attachedAt + 24 * 60 * 60 * 1000"

definition amounts_bad ::
  "cart_quote_money \<Rightarrow> cart_quote_money \<Rightarrow> cart_quote_money \<Rightarrow> cart_quote_money \<Rightarrow> cart_quote_money \<Rightarrow> bool" where
  "amounts_bad subtotal discount tax fee total0 \<longleftrightarrow>
     list_ex (\<lambda>m. qm_amountMinor m < 0) [subtotal, discount, tax, fee, total0] \<or>
     qm_amountMinor subtotal - qm_amountMinor discount + qm_amountMinor tax + qm_amountMinor fee \<noteq>
       qm_amountMinor total0"

definition parseCartQuoteAttachment :: "js \<Rightarrow> cart_quote_attachment res" where
  "parseCartQuoteAttachment v =
     bnd (quote_exact v [''operationReference'', ''operationIntentHash'', ''guestSessionReference'',
            ''cartReference'', ''brandReference'', ''storeReference'', ''cartVersion'', ''quoteReference'',
            ''quoteVersion'', ''quoteInputDigest'', ''currencyCode'', ''currencyMetadataVersion'',
            ''currencyMetadataVersionReference'', ''subtotal'', ''discount'', ''tax'', ''fee'', ''total'',
            ''lines'', ''warnings'', ''quoteCreatedAt'', ''quoteExpiresAt'', ''attachedAt'',
            ''idempotencyExpiresAt'']) (\<lambda>_.
     bnd (throw_if (fld v ''quoteVersion'' \<noteq> JNum 1) quote_invalid) (\<lambda>_.
     bnd (quote_array (fld v ''lines'')) (\<lambda>raw.
     bnd (quote_currency (fld v ''currencyCode'')) (\<lambda>cur.
     bnd (map_res quote_evidence_line raw) (\<lambda>lines.
     bnd (throw_if (\<not> distinct (map qe_lineReference lines)) quote_invalid) (\<lambda>_.
     bnd (parseOrderingInstant (fld v ''quoteCreatedAt'')) (\<lambda>createdAt.
     bnd (parseOrderingInstant (fld v ''quoteExpiresAt'')) (\<lambda>expiresAt.
     bnd (parseOrderingInstant (fld v ''attachedAt'')) (\<lambda>attachedAt.
     bnd (parseOrderingInstant (fld v ''idempotencyExpiresAt'')) (\<lambda>idempotencyExpiresAt.
     bnd (throw_if (attachment_times_bad createdAt expiresAt attachedAt idempotencyExpiresAt) quote_invalid) (\<lambda>_.
     bnd (quote_money (fld v ''subtotal'') cur) (\<lambda>subtotal.
     bnd (quote_money (fld v ''discount'') cur) (\<lambda>discount.
     bnd (quote_money (fld v ''tax'') cur) (\<lambda>tax.
     bnd (quote_money (fld v ''fee'') cur) (\<lambda>fee.
     bnd (quote_money (fld v ''total'') cur) (\<lambda>total0.
     bnd (throw_if (amounts_bad subtotal discount tax fee total0) quote_invalid) (\<lambda>_.
     bnd (parseOrderingReference (fld v ''operationReference'')) (\<lambda>operation.
     bnd (parseOrderingHash (fld v ''operationIntentHash'')) (\<lambda>intent.
     bnd (parseOrderingReference (fld v ''guestSessionReference'')) (\<lambda>guest.
     bnd (parseOrderingReference (fld v ''cartReference'')) (\<lambda>cart.
     bnd (parseOrderingReference (fld v ''brandReference'')) (\<lambda>brand.
     bnd (parseOrderingReference (fld v ''storeReference'')) (\<lambda>store.
     bnd (quote_positive (fld v ''cartVersion'')) (\<lambda>cartVersion.
     bnd (parseOrderingReference (fld v ''quoteReference'')) (\<lambda>quote.
     bnd (parseOrderingHash (fld v ''quoteInputDigest'')) (\<lambda>dig.
     bnd (quote_positive (fld v ''currencyMetadataVersion'')) (\<lambda>metaVersion.
     bnd (parseOrderingReference (fld v ''currencyMetadataVersionReference'')) (\<lambda>metaRef.
     bnd (quote_warnings (fld v ''warnings'')) (\<lambda>warnings.
     Inr \<lparr>at_operationReference = operation, at_operationIntentHash = intent,
          at_guestSessionReference = guest, at_cartReference = cart, at_brandReference = brand,
          at_storeReference = store, at_cartVersion = cartVersion, at_quoteReference = quote,
          at_quoteVersion = 1, at_quoteInputDigest = dig, at_currencyCode = cur,
          at_currencyMetadataVersion = metaVersion, at_currencyMetadataVersionReference = metaRef,
          at_subtotal = subtotal, at_discount = discount, at_tax = tax, at_fee = fee, at_total = total0,
          at_lines = lines, at_warnings = warnings, at_quoteCreatedAt = createdAt,
          at_quoteExpiresAt = expiresAt, at_attachedAt = attachedAt,
          at_idempotencyExpiresAt = idempotencyExpiresAt\<rparr>)))))))))))))))))))))))))))))"

section \<open>Verifying a quote against the cart\<close>

record verified_line =
  vl_evidence :: cart_quote_line
  vl_subtotal :: int
  vl_discount :: int
  vl_tax :: int
  vl_fee :: int
  vl_total :: int

text \<open>The service's \<open>money\<close>: the amount of a non-negative 64-bit money in the given currency.\<close>

definition verified_money :: "js \<Rightarrow> string \<Rightarrow> int res" where
  "verified_money v cur =
     bnd (quote_exact v [''amountMinor'', ''currencyCode'']) (\<lambda>_.
     bnd (or_throw (bigint_in int64_min int64_max (fld v ''amountMinor'')) quote_invalid) (\<lambda>a.
     bnd (throw_if (a < 0 \<or> fld v ''currencyCode'' \<noteq> JStr cur) quote_invalid) (\<lambda>_. Inr a)))"

definition verifiedLine :: "js \<Rightarrow> string \<Rightarrow> verified_line res" where
  "verifiedLine v cur =
     bnd (quote_exact v [''lineReference'', ''sellableReference'', ''productVersionReference'',
            ''menuVersionReference'', ''quantity'', ''unitPrice'', ''subtotal'', ''discount'', ''tax'', ''fee'',
            ''total'', ''resolvedPrice'', ''taxResolution'', ''taxLines'']) (\<lambda>_.
     bnd (quote_positive (fld v ''quantity'')) (\<lambda>q.
     bnd (throw_if (999 < q) quote_invalid) (\<lambda>_.
     bnd (verified_money (fld v ''unitPrice'') cur) (\<lambda>unitPrice.
     bnd (verified_money (fld v ''subtotal'') cur) (\<lambda>subtotal.
     bnd (verified_money (fld v ''discount'') cur) (\<lambda>discount.
     bnd (verified_money (fld v ''tax'') cur) (\<lambda>tax.
     bnd (verified_money (fld v ''fee'') cur) (\<lambda>fee.
     bnd (verified_money (fld v ''total'') cur) (\<lambda>total0.
     bnd (throw_if (unitPrice * q \<noteq> subtotal \<or> subtotal - discount + tax + fee \<noteq> total0) quote_invalid) (\<lambda>_.
     bnd (parseOrderingReference (fld v ''lineReference'')) (\<lambda>lref.
     bnd (parseOrderingReference (fld v ''sellableReference'')) (\<lambda>sref.
     bnd (parseOrderingReference (fld v ''productVersionReference'')) (\<lambda>pref.
     bnd (parseOrderingReference (fld v ''menuVersionReference'')) (\<lambda>mref.
     Inr \<lparr>vl_evidence = \<lparr>qe_lineReference = lref, qe_sellableReference = sref,
            qe_productVersionReference = pref, qe_menuVersionReference = mref, qe_quantity = q\<rparr>,
          vl_subtotal = subtotal, vl_discount = discount, vl_tax = tax, vl_fee = fee,
          vl_total = total0\<rparr>))))))))))))))"

text \<open>The scope of the quote, its currency metadata, and one item against the quoted lines.\<close>

definition quote_scope_ok :: "js \<Rightarrow> cart_aggregate \<Rightarrow> string \<Rightarrow> string \<Rightarrow> unit res" where
  "quote_scope_ok v c createdAt requestedAt =
     bnd (throw_if (fld v ''quoteVersion'' \<noteq> JNum 1) quote_invalid) (\<lambda>_.
     bnd (parseOrderingReference (fld v ''brandReference'')) (\<lambda>brand.
     bnd (parseOrderingReference (fld v ''storeReference'')) (\<lambda>store.
     bnd (parseOrderingReference (fld v ''cartReference'')) (\<lambda>cref.
     throw_if (brand \<noteq> ca_brandReference c \<or> store \<noteq> ca_storeReference c \<or> cref \<noteq> ca_cartReference c \<or>
               fld v ''cartVersion'' \<noteq> JNum (ca_aggregateVersion c) \<or> ms_of requestedAt < ms_of createdAt)
       quote_invalid))))"

definition names_digest :: "js \<Rightarrow> bool" where
  "names_digest v = (case names_string v of None \<Rightarrow> False | Some s \<Rightarrow> sha256_digest s)"

definition quote_metadata :: "js \<Rightarrow> string res" where
  "quote_metadata v =
     bnd (quote_exact v [''currencyCode'', ''minorUnitExponent'', ''metadataVersion'',
            ''metadataVersionReference'', ''metadataDigest'']) (\<lambda>_.
     bnd (or_throw (str_if currency_format (fld v ''currencyCode'')) quote_invalid) (\<lambda>cur.
     bnd (or_throw (safe_int_in 0 6 (fld v ''minorUnitExponent'')) quote_invalid) (\<lambda>_.
     bnd (throw_if (\<not> names_digest (fld v ''metadataDigest'')) quote_invalid) (\<lambda>_. Inr cur))))"

definition item_quoted :: "cart_quote_line list \<Rightarrow> cart_item \<Rightarrow> bool" where
  "item_quoted lines i \<longleftrightarrow>
     (case ci_catalogSelectionEvidence i of None \<Rightarrow> False
      | Some e \<Rightarrow>
          list_ex (\<lambda>l. qe_lineReference l = ci_cartItemReference i \<and>
            qe_sellableReference l = ci_sellableReference i \<and> qe_quantity l = ci_quantity i \<and>
            qe_productVersionReference l = cs_productVersionReference e \<and>
            qe_menuVersionReference l = cs_menuVersionReference e) lines)"

definition sums_match :: "verified_line list \<Rightarrow> int \<Rightarrow> int \<Rightarrow> int \<Rightarrow> int \<Rightarrow> int \<Rightarrow> bool" where
  "sums_match lines subtotal discount tax fee total0 \<longleftrightarrow>
     sum_list (map vl_subtotal lines) = subtotal \<and> sum_list (map vl_discount lines) = discount \<and>
     sum_list (map vl_tax lines) = tax \<and> sum_list (map vl_fee lines) = fee \<and>
     sum_list (map vl_total lines) = total0"

definition quote_money_js :: "int \<Rightarrow> string \<Rightarrow> js" where
  "quote_money_js a cur = JObj [(''amountMinor'', JBig a), (''currencyCode'', JStr cur)]"

definition quote_line_js :: "cart_quote_line \<Rightarrow> js" where
  "quote_line_js l = JObj
     [(''lineReference'', JStr (qe_lineReference l)), (''sellableReference'', JStr (qe_sellableReference l)),
      (''productVersionReference'', JStr (qe_productVersionReference l)),
      (''menuVersionReference'', JStr (qe_menuVersionReference l)), (''quantity'', JNum (qe_quantity l))]"

definition verifyQuote_body ::
  "js \<Rightarrow> cart_aggregate \<Rightarrow> string \<Rightarrow> string \<Rightarrow> string \<Rightarrow> string \<Rightarrow> cart_quote_attachment res" where
  "verifyQuote_body v c operation intent guest requestedAt =
     bnd (quote_exact v [''quoteReference'', ''quoteVersion'', ''brandReference'', ''storeReference'',
            ''cartReference'', ''cartVersion'', ''inputDigest'', ''currencyMetadata'', ''subtotal'', ''discount'',
            ''tax'', ''fee'', ''total'', ''lines'', ''appliedPromotionReferences'', ''warnings'',
            ''blockingReasons'', ''createdAt'', ''expiresAt'']) (\<lambda>_.
     bnd (parseOrderingReference (fld v ''quoteReference'')) (\<lambda>quote.
     bnd (parseOrderingInstant (fld v ''createdAt'')) (\<lambda>createdAt.
     bnd (parseOrderingInstant (fld v ''expiresAt'')) (\<lambda>expiresAt.
     bnd (quote_scope_ok v c createdAt requestedAt) (\<lambda>_.
     bnd (throw_if (ms_of expiresAt \<le> ms_of requestedAt) (CartError CART_QUOTE_EXPIRED)) (\<lambda>_.
     bnd (throw_if (\<not> names_digest (fld v ''inputDigest'')) quote_invalid) (\<lambda>_.
     bnd (quote_metadata (fld v ''currencyMetadata'')) (\<lambda>cur.
     bnd (verified_money (fld v ''subtotal'') cur) (\<lambda>subtotal.
     bnd (verified_money (fld v ''discount'') cur) (\<lambda>discount.
     bnd (verified_money (fld v ''tax'') cur) (\<lambda>tax.
     bnd (verified_money (fld v ''fee'') cur) (\<lambda>fee.
     bnd (verified_money (fld v ''total'') cur) (\<lambda>total0.
     bnd (throw_if (subtotal - discount + tax + fee \<noteq> total0) quote_invalid) (\<lambda>_.
     bnd (quote_array (fld v ''blockingReasons'')) (\<lambda>reasons.
     bnd (throw_if (reasons \<noteq> []) quote_invalid) (\<lambda>_.
     bnd (bnd (quote_array (fld v ''appliedPromotionReferences'')) (map_res parseOrderingReference)) (\<lambda>_.
     bnd (bnd (quote_array (fld v ''lines'')) (map_res (\<lambda>l. verifiedLine l cur))) (\<lambda>verified.
     let lines = map vl_evidence verified in
     bnd (throw_if (length lines \<noteq> length (ca_items c) \<or> lines = []) quote_invalid) (\<lambda>_.
     bnd (throw_if (\<not> distinct (map qe_lineReference lines)) quote_invalid) (\<lambda>_.
     bnd (throw_if (\<not> sums_match verified subtotal discount tax fee total0) quote_invalid) (\<lambda>_.
     bnd (throw_if (\<not> list_all (item_quoted lines) (ca_items c)) quote_invalid) (\<lambda>_.
     bnd (quote_positive (fld (fld v ''currencyMetadata'') ''metadataVersion'')) (\<lambda>metaVersion.
     bnd (quote_warnings (fld v ''warnings'')) (\<lambda>warnings.
     bnd (date_to_iso (Some (ms_of requestedAt + 24 * 60 * 60 * 1000))) (\<lambda>idempotencyExpiresAt.
     parseCartQuoteAttachment (JObj
       [(''operationReference'', JStr operation), (''operationIntentHash'', JStr intent),
        (''guestSessionReference'', JStr guest), (''cartReference'', JStr (ca_cartReference c)),
        (''brandReference'', JStr (ca_brandReference c)), (''storeReference'', JStr (ca_storeReference c)),
        (''cartVersion'', JNum (ca_aggregateVersion c)), (''quoteReference'', JStr quote),
        (''quoteVersion'', JNum 1), (''quoteInputDigest'', fld v ''inputDigest''), (''currencyCode'', JStr cur),
        (''currencyMetadataVersion'', JNum metaVersion),
        (''currencyMetadataVersionReference'', fld (fld v ''currencyMetadata'') ''metadataVersionReference''),
        (''subtotal'', quote_money_js subtotal cur), (''discount'', quote_money_js discount cur),
        (''tax'', quote_money_js tax cur), (''fee'', quote_money_js fee cur),
        (''total'', quote_money_js total0 cur), (''lines'', JArr (map quote_line_js lines)),
        (''warnings'', JArr (map JStr warnings)), (''quoteCreatedAt'', JStr createdAt),
        (''quoteExpiresAt'', JStr expiresAt), (''attachedAt'', JStr requestedAt),
        (''idempotencyExpiresAt'', JStr idempotencyExpiresAt)]))))))))))))))))))))))))))"

text \<open>Every failure is one code, except an expired quote.\<close>

definition verifyQuote ::
  "js \<Rightarrow> cart_aggregate \<Rightarrow> string \<Rightarrow> string \<Rightarrow> string \<Rightarrow> string \<Rightarrow> cart_quote_attachment res" where
  "verifyQuote v c operation intent guest requestedAt =
     catching (verifyQuote_body v c operation intent guest requestedAt)
       (\<lambda>e. Inl (if e = CartError CART_QUOTE_EXPIRED then e else CartError CART_QUOTE_INVALID))"

section \<open>What a verified quote guarantees\<close>

lemma quote_parse_Inr [res_simps]:
  "quote_exact v ks = Inr u \<longleftrightarrow> has_shape v ks"
  "quote_currency v = Inr s \<longleftrightarrow> v = JStr s \<and> currency_format s"
  "quote_array v = Inr xs \<longleftrightarrow> v = JArr xs \<and> length xs \<le> 100"
  by (auto simp: quote_exact_def quote_currency_def quote_array_def res_simps is_array_iff)

lemma quote_positive_Inr [res_simps]: "quote_positive v = Inr n \<longleftrightarrow> v = JNum n \<and> 1 \<le> n \<and> n \<le> max_safe"
  by (auto simp: quote_positive_def res_simps max_safe_def)

lemma bigint_in_Some [res_simps]: "bigint_in lo hi v = Some n \<longleftrightarrow> v = JBig n \<and> lo \<le> n \<and> n \<le> hi"
  by (cases v) auto

lemma quote_money_Inr [res_simps]:
  "quote_money (quote_money_js a cur) cur' = Inr m \<longleftrightarrow>
     cur' = cur \<and> m = \<lparr>qm_amountMinor = a, qm_currencyCode = cur\<rparr> \<and> int64_min \<le> a \<and> a \<le> int64_max \<and>
     currency_format cur"
  by (auto simp: quote_money_def quote_money_js_def res_simps)

lemma verified_money_Inr [res_simps]:
  "verified_money (quote_money_js a cur) cur' = Inr m \<longleftrightarrow>
     cur' = cur \<and> m = a \<and> 0 \<le> a \<and> int64_min \<le> a \<and> a \<le> int64_max"
  by (auto simp: verified_money_def quote_money_js_def res_simps)

lemma verified_money_range: "verified_money v cur = Inr a \<Longrightarrow> 0 \<le> a \<and> a \<le> int64_max"
  by (auto simp: verified_money_def res_simps)

definition valid_quote_line :: "cart_quote_line \<Rightarrow> bool" where
  "valid_quote_line l \<longleftrightarrow> uuid_v7 (qe_lineReference l) \<and> uuid_v7 (qe_sellableReference l) \<and>
     uuid_v7 (qe_productVersionReference l) \<and> uuid_v7 (qe_menuVersionReference l) \<and>
     1 \<le> qe_quantity l \<and> qe_quantity l \<le> 999"

interpretation quote_line: codec quote_evidence_line quote_line_js valid_quote_line
  by unfold_locales (auto simp: quote_evidence_line_def quote_line_js_def valid_quote_line_def bnd_eq_Inr
      throw_if_eq_Inr quote_parse_Inr quote_positive_Inr ordering_parse_Inr max_safe_def)

lemma verifiedLine_Inr:
  assumes "verifiedLine v cur = Inr l"
  shows "valid_quote_line (vl_evidence l) \<and> vl_subtotal l - vl_discount l + vl_tax l + vl_fee l = vl_total l"
  using assms unfolding verifiedLine_def bnd_eq_Inr
  by (elim exE conjE) (drule Inr_inject, hypsubst, auto simp: valid_quote_line_def throw_if_eq_Inr
      quote_positive_Inr ordering_parse_Inr)

text \<open>What the attachment parser reads from the object the service builds.\<close>

lemma parseCartQuoteAttachment_fields:
  "parseCartQuoteAttachment v = Inr a \<Longrightarrow>
   fld v ''cartReference'' = JStr (at_cartReference a) \<and> fld v ''cartVersion'' = JNum (at_cartVersion a) \<and>
   fld v ''quoteReference'' = JStr (at_quoteReference a) \<and>
   fld v ''quoteCreatedAt'' = JStr (at_quoteCreatedAt a) \<and> fld v ''quoteExpiresAt'' = JStr (at_quoteExpiresAt a) \<and>
   fld v ''attachedAt'' = JStr (at_attachedAt a) \<and> fld v ''currencyCode'' = JStr (at_currencyCode a) \<and>
   quote_money (fld v ''subtotal'') (at_currencyCode a) = Inr (at_subtotal a) \<and>
   quote_money (fld v ''discount'') (at_currencyCode a) = Inr (at_discount a) \<and>
   quote_money (fld v ''tax'') (at_currencyCode a) = Inr (at_tax a) \<and>
   quote_money (fld v ''fee'') (at_currencyCode a) = Inr (at_fee a) \<and>
   quote_money (fld v ''total'') (at_currencyCode a) = Inr (at_total a) \<and>
   map_res quote_evidence_line (elements (fld v ''lines'')) = Inr (at_lines a) \<and>
   \<not> attachment_times_bad (at_quoteCreatedAt a) (at_quoteExpiresAt a) (at_attachedAt a) (at_idempotencyExpiresAt a) \<and>
   \<not> amounts_bad (at_subtotal a) (at_discount a) (at_tax a) (at_fee a) (at_total a)"
  unfolding parseCartQuoteAttachment_def bnd_eq_Inr
  by (elim exE conjE) (drule Inr_inject, hypsubst,
    simp add: ordering_parse_Inr quote_positive_Inr quote_parse_Inr throw_if_eq_Inr)

lemma same_lines:
  assumes "distinct (map f xs)" and "length xs = length ys" and "distinct (map g ys)"
    and "\<And>y. y \<in> set ys \<Longrightarrow> \<exists>x \<in> set xs. f x = g y"
  shows "set (map f xs) = set (map g ys)"
proof -
  have sub: "set (map g ys) \<subseteq> set (map f xs)" using assms(4) by (auto simp: image_iff) metis
  moreover have "card (set (map g ys)) = card (set (map f xs))"
    using assms(1-3) by (simp only: distinct_card length_map)
  ultimately show ?thesis by (metis card_subset_eq finite_set)
qed

text \<open>The lines of a verified quote are the items of the cart, one to one.\<close>

definition quotes_items :: "cart_quote_line list \<Rightarrow> cart_item list \<Rightarrow> bool" where
  "quotes_items lines items \<longleftrightarrow>
     distinct (map qe_lineReference lines) \<and>
     set (map qe_lineReference lines) = set (map ci_cartItemReference items) \<and>
     list_all (item_quoted lines) items"

text \<open>The checks a verified quote has passed.\<close>

lemma unit_res: "r = Inr u \<Longrightarrow> r = (Inr () :: unit res)"
  by simp


lemma verifyQuote_body_steps:
  assumes "verifyQuote_body v c operation intent guest requestedAt = Inr a"
  shows "\<exists>cur subtotal discount tax fee total0 raw verified metaVersion warnings quote createdAt expiresAt
      idempotencyExpiresAt.
    parseOrderingReference (fld v ''quoteReference'') = Inr quote \<and>
    quote_array (fld v ''lines'') = Inr raw \<and>
    map_res (\<lambda>l. verifiedLine l cur) raw = Inr verified \<and>
    throw_if (length (map vl_evidence verified) \<noteq> length (ca_items c) \<or> map vl_evidence verified = [])
      quote_invalid = Inr () \<and>
    throw_if (\<not> distinct (map qe_lineReference (map vl_evidence verified))) quote_invalid = Inr () \<and>
    throw_if (\<not> sums_match verified subtotal discount tax fee total0) quote_invalid = Inr () \<and>
    throw_if (\<not> list_all (item_quoted (map vl_evidence verified)) (ca_items c)) quote_invalid = Inr () \<and>
     parseCartQuoteAttachment (JObj
       [(''operationReference'', JStr operation), (''operationIntentHash'', JStr intent),
        (''guestSessionReference'', JStr guest), (''cartReference'', JStr (ca_cartReference c)),
        (''brandReference'', JStr (ca_brandReference c)), (''storeReference'', JStr (ca_storeReference c)),
        (''cartVersion'', JNum (ca_aggregateVersion c)), (''quoteReference'', JStr quote),
        (''quoteVersion'', JNum 1), (''quoteInputDigest'', fld v ''inputDigest''), (''currencyCode'', JStr cur),
        (''currencyMetadataVersion'', JNum metaVersion),
        (''currencyMetadataVersionReference'', fld (fld v ''currencyMetadata'') ''metadataVersionReference''),
        (''subtotal'', quote_money_js subtotal cur), (''discount'', quote_money_js discount cur),
        (''tax'', quote_money_js tax cur), (''fee'', quote_money_js fee cur),
        (''total'', quote_money_js total0 cur), (''lines'', JArr (map quote_line_js (map vl_evidence verified))),
        (''warnings'', JArr (map JStr warnings)), (''quoteCreatedAt'', JStr createdAt),
        (''quoteExpiresAt'', JStr expiresAt), (''attachedAt'', JStr requestedAt),
        (''idempotencyExpiresAt'', JStr idempotencyExpiresAt)]) = Inr a"
  using assms unfolding verifyQuote_body_def Let_def bnd_eq_Inr
  by (elim exE conjE) (intro exI conjI, (assumption | rule unit_res)+)

lemma verifyQuote_body_Inr:
  assumes "verifyQuote_body v c operation intent guest t = Inr a" and "valid_cart c"
  shows "quotes_items (at_lines a) (ca_items c) \<and> ca_items c \<noteq> [] \<and>
    at_cartReference a = ca_cartReference c \<and> at_cartVersion a = ca_aggregateVersion c \<and>
    fld v ''quoteReference'' = JStr (at_quoteReference a) \<and>
    ms_of (at_quoteCreatedAt a) \<le> ms_of t \<and> ms_of t < ms_of (at_quoteExpiresAt a) \<and> at_attachedAt a = t \<and>
    \<not> amounts_bad (at_subtotal a) (at_discount a) (at_tax a) (at_fee a) (at_total a)"
proof -
  from verifyQuote_body_steps [OF assms(1)]
  obtain cur subtotal discount tax fee total0 raw verified metaVersion warnings quote createdAt expiresAt idem where
    lines: "map_res (\<lambda>l. verifiedLine l cur) raw = Inr verified" and
    q1: "throw_if (length (map vl_evidence verified) \<noteq> length (ca_items c) \<or> map vl_evidence verified = [])
      quote_invalid = Inr ()" and
    q2: "throw_if (\<not> distinct (map qe_lineReference (map vl_evidence verified))) quote_invalid = Inr ()" and
    q3: "throw_if (\<not> list_all (item_quoted (map vl_evidence verified)) (ca_items c)) quote_invalid = Inr ()" and
    qref: "parseOrderingReference (fld v ''quoteReference'') = Inr quote" and
    p: "parseCartQuoteAttachment (JObj
       [(''operationReference'', JStr operation), (''operationIntentHash'', JStr intent),
        (''guestSessionReference'', JStr guest), (''cartReference'', JStr (ca_cartReference c)),
        (''brandReference'', JStr (ca_brandReference c)), (''storeReference'', JStr (ca_storeReference c)),
        (''cartVersion'', JNum (ca_aggregateVersion c)), (''quoteReference'', JStr quote),
        (''quoteVersion'', JNum 1), (''quoteInputDigest'', fld v ''inputDigest''), (''currencyCode'', JStr cur),
        (''currencyMetadataVersion'', JNum metaVersion),
        (''currencyMetadataVersionReference'', fld (fld v ''currencyMetadata'') ''metadataVersionReference''),
        (''subtotal'', quote_money_js subtotal cur), (''discount'', quote_money_js discount cur),
        (''tax'', quote_money_js tax cur), (''fee'', quote_money_js fee cur),
        (''total'', quote_money_js total0 cur), (''lines'', JArr (map quote_line_js (map vl_evidence verified))),
        (''warnings'', JArr (map JStr warnings)), (''quoteCreatedAt'', JStr createdAt),
        (''quoteExpiresAt'', JStr expiresAt), (''attachedAt'', JStr t),
        (''idempotencyExpiresAt'', JStr idem)]) = Inr a"
    by (elim exE conjE) (rule that; assumption)
  from q1 q2 q3 have len: "length (map vl_evidence verified) = length (ca_items c)" "map vl_evidence verified \<noteq> []" and
    dist: "distinct (map qe_lineReference (map vl_evidence verified))" and
    all: "list_all (item_quoted (map vl_evidence verified)) (ca_items c)"
    by (simp_all only: throw_if_eq_Inr not_not de_Morgan_disj simp_thms)
  note f = parseCartQuoteAttachment_fields [OF p, simplified]
  have "list_all valid_quote_line (map vl_evidence verified)"
    using map_res_in [OF lines] verifiedLine_Inr by (fastforce simp: list_all_iff)
  from quote_line.list_parse_print [OF this] f have L: "at_lines a = map vl_evidence verified" by simp
  have "distinct (map ci_cartItemReference (ca_items c))"
    using assms(2) by (simp add: valid_cart_def cart_items_bad_def)
  moreover have "\<exists>l \<in> set (at_lines a). qe_lineReference l = ci_cartItemReference i" if "i \<in> set (ca_items c)" for i
    using all that by (auto simp: list_all_iff item_quoted_def list_ex_iff L split: option.splits)
  ultimately have "set (map qe_lineReference (at_lines a)) = set (map ci_cartItemReference (ca_items c))"
    using dist len(1) by (intro same_lines) (simp_all add: L)
  then have "quotes_items (at_lines a) (ca_items c)"
    unfolding quotes_items_def using dist all by (simp add: L)
  moreover have "ca_items c \<noteq> []" using len by auto
  ultimately show ?thesis
    using f qref by (auto simp: attachment_times_bad_def ordering_parse_Inr)
qed

end
