(* ===== verification/QuotePipeline.thy ===== *)
theory QuotePipeline
  imports CartQuote CartItemCommands PriceQuote
begin

text \<open>
  From pricing to ordering: the snapshot \<open>createPriceQuote\<close> builds
  (\<open>packages/rms/pricing/src/domain/price-quote.ts\<close>) is what the attachment service of the ordering
  module verifies (\<open>packages/rms/ordering/src/application/cart-quote-attachment-service.ts\<close>). The two
  modules check the same arithmetic independently; here they are put together.
\<close>

section \<open>When a quote is accepted\<close>

definition valid_metadata :: "currency_metadata \<Rightarrow> bool" where
  "valid_metadata m \<longleftrightarrow> currency_format (cm_currencyCode m) \<and> 0 \<le> cm_minorUnitExponent m \<and>
     cm_minorUnitExponent m \<le> 6 \<and> 1 \<le> cm_metadataVersion m \<and> cm_metadataVersion m \<le> max_safe \<and>
     uuid_v7 (cm_metadataVersionReference m) \<and> sha256_digest (cm_metadataDigest m)"

interpretation metadata: codec createCurrencyMetadataSnapshot currency_metadata_js valid_metadata
  by unfold_locales (auto simp: createCurrencyMetadataSnapshot_def currency_metadata_js_def valid_metadata_def
      bnd_eq_Inr or_throw_Inr parse_Inr safe_int_in_Some mt_exact_def throw_if_eq_Inr max_safe_def)

lemma verifyQuote_body_accepts:
  assumes shape: "has_shape v [''quoteReference'', ''quoteVersion'', ''brandReference'', ''storeReference'',
            ''cartReference'', ''cartVersion'', ''inputDigest'', ''currencyMetadata'', ''subtotal'', ''discount'',
            ''tax'', ''fee'', ''total'', ''lines'', ''appliedPromotionReferences'', ''warnings'',
            ''blockingReasons'', ''createdAt'', ''expiresAt'']"
    and refs: "fld v ''quoteReference'' = JStr quote" "uuid_v7 quote" "fld v ''quoteVersion'' = JNum 1"
      "fld v ''brandReference'' = JStr (ca_brandReference c)" "fld v ''storeReference'' = JStr (ca_storeReference c)"
      "fld v ''cartReference'' = JStr (ca_cartReference c)" "fld v ''cartVersion'' = JNum (ca_aggregateVersion c)"
      "fld v ''inputDigest'' = JStr dig" "sha256_digest dig"
    and cart: "uuid_v7 (ca_brandReference c)" "uuid_v7 (ca_storeReference c)" "uuid_v7 (ca_cartReference c)"
      "1 \<le> ca_aggregateVersion c" "ca_aggregateVersion c \<le> max_safe"
    and times: "fld v ''createdAt'' = JStr createdAt" "canonical_instant createdAt"
      "fld v ''expiresAt'' = JStr expiresAt" "canonical_instant expiresAt" "canonical_instant t"
      "ms_of createdAt \<le> ms_of t" "ms_of t < ms_of expiresAt" "iso_time (ms_of t + 24 * 60 * 60 * 1000)"
    and meta: "fld v ''currencyMetadata'' = currency_metadata_js m"
      "valid_metadata m"
    and amounts: "fld v ''subtotal'' = quote_money_js subtotal (cm_currencyCode m)"
      "fld v ''discount'' = quote_money_js discount (cm_currencyCode m)"
      "fld v ''tax'' = quote_money_js tax (cm_currencyCode m)"
      "fld v ''fee'' = quote_money_js fee (cm_currencyCode m)"
      "fld v ''total'' = quote_money_js total0 (cm_currencyCode m)"
      "list_all (\<lambda>a. 0 \<le> a \<and> a \<le> int64_max) [subtotal, discount, tax, fee, total0]"
      "subtotal - discount + tax + fee = total0"
    and lists: "fld v ''blockingReasons'' = JArr []" "fld v ''appliedPromotionReferences'' = JArr []"
      "fld v ''warnings'' = JArr []" "fld v ''lines'' = JArr raw" "length raw \<le> 100"
    and lines: "map_res (\<lambda>l. verifiedLine l (cm_currencyCode m)) raw = Inr verified"
      "length raw = length (ca_items c)" "raw \<noteq> []"
      "distinct (map qe_lineReference (map vl_evidence verified))"
      "sums_match verified subtotal discount tax fee total0"
      "list_all (item_quoted (map vl_evidence verified)) (ca_items c)"
    and call: "uuid_v7 operation" "sha256_digest intent" "uuid_v7 guest"
  shows "\<exists>a. verifyQuote v c operation intent guest t = Inr a \<and>
    at_lines a = map vl_evidence verified \<and> at_quoteReference a = quote \<and>
    qm_amountMinor (at_total a) = total0 \<and> qm_currencyCode (at_total a) = cm_currencyCode m"
proof -
  have m: "currency_format (cm_currencyCode m)" "0 \<le> cm_minorUnitExponent m" "cm_minorUnitExponent m \<le> 6"
    "1 \<le> cm_metadataVersion m" "cm_metadataVersion m \<le> max_safe" "uuid_v7 (cm_metadataVersionReference m)"
    "sha256_digest (cm_metadataDigest m)"
    using meta(2) by (simp_all add: valid_metadata_def)
  have range: "int64_min \<le> a" if "0 \<le> a" for a :: int using that by (simp add: int64_min_def)
  have ev: "list_all valid_quote_line (map vl_evidence verified)"
    using map_res_in [OF lines(1)] verifiedLine_Inr by (fastforce simp: list_all_iff)
  have len: "length verified = length raw" using lines(1) by (rule map_res_length)
  have metaOk: "quote_metadata (currency_metadata_js m) = Inr (cm_currencyCode m)"
    using m by (simp add: quote_metadata_def currency_metadata_js_def quote_exact_def names_digest_def max_safe_def)
  have vm: "verified_money (quote_money_js a (cm_currencyCode m)) (cm_currencyCode m) = Inr a"
    if "0 \<le> a" "a \<le> int64_max" for a using that range by (simp add: verified_money_Inr)
  have qm: "quote_money (quote_money_js a (cm_currencyCode m)) (cm_currencyCode m) =
      Inr \<lparr>qm_amountMinor = a, qm_currencyCode = cm_currencyCode m\<rparr>"
    if "0 \<le> a" "a \<le> int64_max" for a using that range m by (simp add: quote_money_Inr)
  have scope: "quote_scope_ok v c createdAt t = Inr ()"
    using refs cart times by (simp add: quote_scope_ok_def parseOrderingReference_def)
  have am: "0 \<le> subtotal \<and> subtotal \<le> int64_max" "0 \<le> discount \<and> discount \<le> int64_max" "0 \<le> tax \<and> tax \<le> int64_max"
    "0 \<le> fee \<and> fee \<le> int64_max" "0 \<le> total0 \<and> total0 \<le> int64_max"
    using amounts(6) by simp_all
  have iso: "canonical_instant (to_iso (ms_of t + 86400000))" "ms_of (to_iso (ms_of t + 86400000)) = ms_of t + 86400000"
    "date_to_iso (Some (ms_of t + 86400000)) = Inr (to_iso (ms_of t + 86400000))"
    using times(8) by (simp_all add: canonical_to_iso)
  have ne: "map vl_evidence verified \<noteq> []" using len lines(3) by auto
  have nn: "verified \<noteq> []" using len lines(3) by auto
  have mv: "fld (currency_metadata_js m) ''metadataVersion'' = JNum (cm_metadataVersion m)"
    "fld (currency_metadata_js m) ''metadataVersionReference'' = JStr (cm_metadataVersionReference m)"
    "quote_positive (JNum (cm_metadataVersion m)) = Inr (cm_metadataVersion m)"
    "quote_warnings (JArr []) = Inr []"
    using m by (simp_all add: currency_metadata_js_def quote_positive_Inr quote_warnings_def quote_array_def)
  have items: "length (ca_items c) \<le> 100" using lists lines by simp
  have checks: "(100 < length (ca_items c)) = False" "(ms_of expiresAt \<le> ms_of t) = False"
    using items times by simp_all
  let ?money = "\<lambda>a. \<lparr>qm_amountMinor = a, qm_currencyCode = cm_currencyCode m\<rparr>"
  have parse: "parseCartQuoteAttachment (JObj
       [(''operationReference'', JStr operation), (''operationIntentHash'', JStr intent),
        (''guestSessionReference'', JStr guest), (''cartReference'', JStr (ca_cartReference c)),
        (''brandReference'', JStr (ca_brandReference c)), (''storeReference'', JStr (ca_storeReference c)),
        (''cartVersion'', JNum (ca_aggregateVersion c)), (''quoteReference'', JStr quote),
        (''quoteVersion'', JNum 1), (''quoteInputDigest'', JStr dig), (''currencyCode'', JStr (cm_currencyCode m)),
        (''currencyMetadataVersion'', JNum (cm_metadataVersion m)),
        (''currencyMetadataVersionReference'', JStr (cm_metadataVersionReference m)),
        (''subtotal'', quote_money_js subtotal (cm_currencyCode m)),
        (''discount'', quote_money_js discount (cm_currencyCode m)),
        (''tax'', quote_money_js tax (cm_currencyCode m)), (''fee'', quote_money_js fee (cm_currencyCode m)),
        (''total'', quote_money_js total0 (cm_currencyCode m)),
        (''lines'', JArr (map quote_line_js (map vl_evidence verified))),
        (''warnings'', JArr []), (''quoteCreatedAt'', JStr createdAt),
        (''quoteExpiresAt'', JStr expiresAt), (''attachedAt'', JStr t),
        (''idempotencyExpiresAt'', JStr (to_iso (ms_of t + 86400000)))]) =
      Inr \<lparr>at_operationReference = operation, at_operationIntentHash = intent,
          at_guestSessionReference = guest, at_cartReference = ca_cartReference c,
          at_brandReference = ca_brandReference c, at_storeReference = ca_storeReference c,
          at_cartVersion = ca_aggregateVersion c, at_quoteReference = quote,
          at_quoteVersion = 1, at_quoteInputDigest = dig, at_currencyCode = cm_currencyCode m,
          at_currencyMetadataVersion = cm_metadataVersion m,
          at_currencyMetadataVersionReference = cm_metadataVersionReference m,
          at_subtotal = ?money subtotal, at_discount = ?money discount, at_tax = ?money tax, at_fee = ?money fee,
          at_total = ?money total0, at_lines = map vl_evidence verified, at_warnings = [],
          at_quoteCreatedAt = createdAt, at_quoteExpiresAt = expiresAt, at_attachedAt = t,
          at_idempotencyExpiresAt = to_iso (ms_of t + 86400000)\<rparr>"
    using m cart refs times iso call items len lines(2) am amounts(7) lines(4) quote_line.list_parse_print [OF ev]
    by (simp add: parseCartQuoteAttachment_def quote_exact_def quote_array_def quote_currency_def
        parseOrderingReference_def parseOrderingInstant_def parseOrderingHash_def qm mv attachment_times_bad_def
        amounts_bad_def not_le quote_positive_Inr [THEN iffD2] del: map_map)
  have "\<exists>a. verifyQuote_body v c operation intent guest t = Inr a \<and>
    at_lines a = map vl_evidence verified \<and> at_quoteReference a = quote \<and>
    qm_amountMinor (at_total a) = total0 \<and> qm_currencyCode (at_total a) = cm_currencyCode m"
    unfolding verifyQuote_body_def Let_def
    by (simp add: quote_exact_def shape refs parseOrderingReference_def parseOrderingInstant_def times
      scope names_digest_def meta(1) metaOk mv amounts am vm quote_array_def lists lines nn iso len checks
      parse del: map_map)
  then show ?thesis by (auto simp: verifyQuote_def)
qed

section \<open>What pricing hands over\<close>

text \<open>
  The object form of a quote: the shapes and values of the snapshot \<open>createPriceQuote\<close> returns. Of a line's
  \<open>resolvedPrice\<close>, \<open>taxResolution\<close> and \<open>taxLines\<close> only their presence matters: the ordering module does
  not read them.
\<close>

definition line_object :: "price_quote_line \<Rightarrow> js \<Rightarrow> bool" where
  "line_object l v \<longleftrightarrow>
     has_shape v [''lineReference'', ''sellableReference'', ''productVersionReference'',
       ''menuVersionReference'', ''quantity'', ''unitPrice'', ''subtotal'', ''discount'', ''tax'', ''fee'',
       ''total'', ''resolvedPrice'', ''taxResolution'', ''taxLines''] \<and>
     fld v ''lineReference'' = JStr (pql_lineReference l) \<and>
     fld v ''sellableReference'' = JStr (pql_sellableReference l) \<and>
     fld v ''productVersionReference'' = JStr (pql_productVersionReference l) \<and>
     fld v ''menuVersionReference'' = JStr (pql_menuVersionReference l) \<and>
     fld v ''quantity'' = JNum (pql_quantity l) \<and> fld v ''unitPrice'' = money_js (pql_unitPrice l) \<and>
     fld v ''subtotal'' = money_js (pql_subtotal l) \<and> fld v ''discount'' = money_js (pql_discount l) \<and>
     fld v ''tax'' = money_js (pql_tax l) \<and> fld v ''fee'' = money_js (pql_fee l) \<and>
     fld v ''total'' = money_js (pql_total l)"

definition quote_object :: "price_quote_snapshot \<Rightarrow> js \<Rightarrow> bool" where
  "quote_object q v \<longleftrightarrow>
     has_shape v [''quoteReference'', ''quoteVersion'', ''brandReference'', ''storeReference'',
            ''cartReference'', ''cartVersion'', ''inputDigest'', ''currencyMetadata'', ''subtotal'', ''discount'',
            ''tax'', ''fee'', ''total'', ''lines'', ''appliedPromotionReferences'', ''warnings'',
            ''blockingReasons'', ''createdAt'', ''expiresAt''] \<and>
     fld v ''quoteReference'' = JStr (pq_quoteReference q) \<and> fld v ''quoteVersion'' = JNum (pq_quoteVersion q) \<and>
     fld v ''brandReference'' = JStr (pq_brandReference q) \<and> fld v ''storeReference'' = JStr (pq_storeReference q) \<and>
     fld v ''cartReference'' = JStr (pq_cartReference q) \<and> fld v ''cartVersion'' = JNum (pq_cartVersion q) \<and>
     fld v ''inputDigest'' = JStr (pq_inputDigest q) \<and>
     fld v ''currencyMetadata'' = currency_metadata_js (pq_currencyMetadata q) \<and>
     fld v ''subtotal'' = money_js (pq_subtotal q) \<and> fld v ''discount'' = money_js (pq_discount q) \<and>
     fld v ''tax'' = money_js (pq_tax q) \<and> fld v ''fee'' = money_js (pq_fee q) \<and>
     fld v ''total'' = money_js (pq_total q) \<and>
     (\<exists>ls. fld v ''lines'' = JArr ls \<and> list_all2 line_object (pq_lines q) ls) \<and>
     fld v ''appliedPromotionReferences'' = JArr (map JStr (pq_appliedPromotionReferences q)) \<and>
     fld v ''warnings'' = JArr (map JStr (pq_warnings q)) \<and>
     fld v ''blockingReasons'' = JArr (map JStr (pq_blockingReasons q)) \<and>
     fld v ''createdAt'' = JStr (pq_createdAt q) \<and> fld v ''expiresAt'' = JStr (pq_expiresAt q)"

text \<open>What the ordering module reads of a line.\<close>

definition evidence_of :: "price_quote_line \<Rightarrow> cart_quote_line" where
  "evidence_of l = \<lparr>qe_lineReference = pql_lineReference l, qe_sellableReference = pql_sellableReference l,
     qe_productVersionReference = pql_productVersionReference l,
     qe_menuVersionReference = pql_menuVersionReference l, qe_quantity = pql_quantity l\<rparr>"

definition verified_of :: "price_quote_line \<Rightarrow> verified_line" where
  "verified_of l = \<lparr>vl_evidence = evidence_of l, vl_subtotal = amountMinor (pql_subtotal l),
     vl_discount = amountMinor (pql_discount l), vl_tax = amountMinor (pql_tax l),
     vl_fee = amountMinor (pql_fee l), vl_total = amountMinor (pql_total l)\<rparr>"

text \<open>The references and currencies of a priced line.\<close>

definition line_refs :: "string \<Rightarrow> price_quote_line \<Rightarrow> bool" where
  "line_refs cur l \<longleftrightarrow> uuid_v7 (pql_lineReference l) \<and> uuid_v7 (pql_sellableReference l) \<and>
     uuid_v7 (pql_productVersionReference l) \<and> uuid_v7 (pql_menuVersionReference l) \<and>
     valid_money (pql_unitPrice l) \<and> currencyCode (pql_unitPrice l) = cur \<and>
     currencyCode (pql_discount l) = cur \<and> currencyCode (pql_fee l) = cur"

lemma quote_line_refs:
  assumes "quote_line zr sc seen s t j = Inr (l, s', t')"
  shows "line_refs (cm_currencyCode (qs_currencyMetadata sc)) l"
  using assms unfolding quote_line_def Let_def res_simps
  by (elim exE conjE, clarsimp simp: res_simps line_refs_def resolvePrice_amount split: prod.splits)

lemma quote_lines_refs:
  "quote_lines zr sc seen s t js = Inr (ls, s', t') \<Longrightarrow>
   list_all (line_refs (cm_currencyCode (qs_currencyMetadata sc))) ls"
proof (induction zr sc seen s t js arbitrary: ls rule: quote_lines.induct)
  case (2 zr sc seen s t j js)
  from "2.prems" obtain l s1 t1 ls' where l: "quote_line zr sc seen s t j = Inr (l, s1, t1)"
    and ls': "quote_lines zr sc (pql_lineReference l # seen) s1 t1 js = Inr (ls', s', t')" and ls: "ls = l # ls'"
    by (auto simp: res_simps split: prod.splits)
  from quote_line_refs [OF l] "2.IH" [OF l refl refl ls'] ls show ?case by simp
qed simp

lemma createPriceQuote_values:
  assumes "createPriceQuote zr input = Inr q"
  shows "uuid_v7 (pq_quoteReference q) \<and> sha256_digest (pq_inputDigest q) \<and> pq_quoteVersion q = 1 \<and>
    valid_metadata (pq_currencyMetadata q) \<and> pq_appliedPromotionReferences q = [] \<and> pq_warnings q = [] \<and>
    pq_blockingReasons q = [] \<and> currencyCode (pq_discount q) = cm_currencyCode (pq_currencyMetadata q) \<and>
    currencyCode (pq_fee q) = cm_currencyCode (pq_currencyMetadata q)"
  using assms unfolding createPriceQuote_def Let_def bnd_eq_Inr
  by (elim exE conjE, clarsimp simp: bnd_eq_Inr pq_parse_Inr zero_Inr metadata.parse_valid split: prod.splits)

lemma createPriceQuote_lines:
  assumes "createPriceQuote zr input = Inr q"
  shows "list_all (line_refs (cm_currencyCode (pq_currencyMetadata q))) (pq_lines q) \<and>
    currencyCode (pq_subtotal q) = cm_currencyCode (pq_currencyMetadata q) \<and>
    currencyCode (pq_tax q) = cm_currencyCode (pq_currencyMetadata q)"
proof -
  from createPriceQuote_parts(1) [OF assms] obtain sc z where
    ql: "quote_lines zr sc [] z z (elements (fld input ''lines'')) = Inr (pq_lines q, pq_subtotal q, pq_tax q)" and
    sc: "qs_currencyMetadata sc = pq_currencyMetadata q" and
    z: "zero (cm_currencyCode (pq_currencyMetadata q)) = Inr z" by blast
  note L = quote_lines_Inr [OF ql, unfolded sc]
  have z': "valid_money z" "currencyCode z = cm_currencyCode (pq_currencyMetadata q)"
    using z by (auto simp: zero_Inr)
  have v: "list_all valid_money (map pql_subtotal (pq_lines q))" "list_all valid_money (map pql_tax (pq_lines q))"
    using L by (auto simp: list_all_iff line_balances_def)
  show ?thesis
    using quote_lines_refs [OF ql] sc z' money_sum.accumulate_sum [OF L [THEN conjunct1] z'(1) v(1)]
      money_sum.accumulate_sum [OF L [THEN conjunct2, THEN conjunct1] z'(1) v(2)] by simp
qed

lemma verified_line_object:
  assumes "line_object l v" and "line_balances cur l" and "line_refs cur l"
  shows "verifiedLine v cur = Inr (verified_of l)"
proof -
  have js: "money_js m = quote_money_js (amountMinor m) (currencyCode m)" for m
    by (simp add: money_js_def quote_money_js_def)
  have q: "quote_positive (JNum (pql_quantity l)) = Inr (pql_quantity l)" "pql_quantity l \<le> 999"
    using assms(2) by (simp_all add: quote_positive_Inr line_balances_def max_safe_def)
  have am: "verified_money (money_js m) cur = Inr (amountMinor m)"
    if "m \<in> {pql_unitPrice l, pql_subtotal l, pql_discount l, pql_tax l, pql_fee l, pql_total l}" for m
  proof -
    have "0 \<le> amountMinor m \<and> amountMinor m \<le> int64_max \<and> currencyCode m = cur"
      using that assms by (auto simp: line_balances_def line_refs_def valid_money_def int64_max_def maximumMinor_def)
    then show ?thesis by (auto simp: js verified_money_Inr int64_min_def)
  qed
  have ar: "amountMinor (pql_unitPrice l) * pql_quantity l = amountMinor (pql_subtotal l)"
    "amountMinor (pql_subtotal l) - amountMinor (pql_discount l) + amountMinor (pql_tax l) + amountMinor (pql_fee l) =
      amountMinor (pql_total l)"
    using assms(2) by (simp_all add: line_balances_def)
  have refs: "uuid_v7 (pql_lineReference l)" "uuid_v7 (pql_sellableReference l)"
    "uuid_v7 (pql_productVersionReference l)" "uuid_v7 (pql_menuVersionReference l)"
    using assms(3) by (simp_all add: line_refs_def)
  show ?thesis
    using assms(1) q am ar refs
    by (simp add: verifiedLine_def line_object_def quote_exact_def verified_of_def
        evidence_of_def parseOrderingReference_def)
qed

lemma verified_lines_object:
  assumes "list_all2 line_object ls vs" and "list_all (line_balances cur) ls" and "list_all (line_refs cur) ls"
  shows "map_res (\<lambda>l. verifiedLine l cur) vs = Inr (map verified_of ls)"
  using assms by (induction ls vs rule: list_all2_induct) (simp_all add: verified_line_object)

lemma balanced_sums:
  "list_all (line_balances cur) ls \<Longrightarrow>
   sum_list (map (\<lambda>l. amountMinor (pql_discount l)) ls) = 0 \<and> sum_list (map (\<lambda>l. amountMinor (pql_fee l)) ls) = 0 \<and>
   sum_list (map (\<lambda>l. amountMinor (pql_total l)) ls) =
     sum_list (map (\<lambda>l. amountMinor (pql_subtotal l)) ls) + sum_list (map (\<lambda>l. amountMinor (pql_tax l)) ls)"
  by (induction ls) (simp_all add: line_balances_def)

text \<open>The cart a quote was made for: its scope and version, and its items are the priced lines.\<close>

definition quoted_cart :: "price_quote_snapshot \<Rightarrow> cart_aggregate \<Rightarrow> bool" where
  "quoted_cart q c \<longleftrightarrow>
     ca_brandReference c = pq_brandReference q \<and> ca_storeReference c = pq_storeReference q \<and>
     ca_cartReference c = pq_cartReference q \<and> ca_aggregateVersion c = pq_cartVersion q \<and>
     length (ca_items c) = length (pq_lines q) \<and>
     list_all (item_quoted (map evidence_of (pq_lines q))) (ca_items c)"

lemma created_quote_accepted:
  assumes "createPriceQuote zr input = Inr q" and "quote_object q v" and "valid_cart c" and "quoted_cart q c"
    and "canonical_instant (pq_createdAt q)" and "canonical_instant (pq_expiresAt q)" and "canonical_instant t"
    and "ms_of (pq_createdAt q) \<le> ms_of t" and "ms_of t < ms_of (pq_expiresAt q)"
    and "iso_time (ms_of t + 24 * 60 * 60 * 1000)"
    and "uuid_v7 operation" and "sha256_digest intent" and "uuid_v7 guest"
  shows "\<exists>a. verifyQuote v c operation intent guest t = Inr a \<and> at_lines a = map evidence_of (pq_lines q) \<and>
    at_quoteReference a = pq_quoteReference q \<and> qm_amountMinor (at_total a) = amountMinor (pq_total q) \<and>
    qm_currencyCode (at_total a) = currencyCode (pq_total q)"
proof -
  let ?cur = "cm_currencyCode (pq_currencyMetadata q)"
  note A = createPriceQuote_arith [OF assms(1)] and V = createPriceQuote_values [OF assms(1)]
    and L = createPriceQuote_lines [OF assms(1)]
  have js: "money_js m = quote_money_js (amountMinor m) (currencyCode m)" for m
    by (simp add: money_js_def quote_money_js_def)
  from assms(2) obtain ls where ls: "fld v ''lines'' = JArr ls" "list_all2 line_object (pq_lines q) ls"
    by (auto simp: quote_object_def)
  have len: "length ls = length (pq_lines q)" using ls(2) by (simp add: list_all2_lengthD)
  have items: "length (ca_items c) \<le> 100" "length (ca_items c) = length (pq_lines q)"
    using assms(3,4) by (simp_all add: valid_cart_def quoted_cart_def)
  have lines: "map_res (\<lambda>l. verifiedLine l ?cur) ls = Inr (map verified_of (pq_lines q))"
    using verified_lines_object [OF ls(2)] A L by blast
  have ev: "map vl_evidence (map verified_of (pq_lines q)) = map evidence_of (pq_lines q)"
    by (simp add: verified_of_def comp_def)
  have refs: "map qe_lineReference (map evidence_of (pq_lines q)) = map pql_lineReference (pq_lines q)"
    by (simp add: evidence_of_def comp_def)
  have le: "0 \<le> amountMinor (pq_total q)" "amountMinor (pq_total q) \<le> int64_max"
    using A by (simp_all add: valid_money_def maximumMinor_def int64_max_def)
  have amounts: "list_all (\<lambda>a. 0 \<le> a \<and> a \<le> int64_max) [amountMinor (pq_subtotal q), amountMinor (pq_discount q),
      amountMinor (pq_tax q), amountMinor (pq_fee q), amountMinor (pq_total q)]"
    using A le by (simp add: int64_max_def)
  have sums: "sums_match (map verified_of (pq_lines q)) (amountMinor (pq_subtotal q)) (amountMinor (pq_discount q))
      (amountMinor (pq_tax q)) (amountMinor (pq_fee q)) (amountMinor (pq_total q))"
    using A balanced_sums by (fastforce simp: sums_match_def verified_of_def comp_def)
  have Q: "quote_object q v" by (rule assms(2))
  note Q = Q [unfolded quote_object_def js] and C = assms(3) [unfolded valid_cart_def] and
    S = assms(4) [unfolded quoted_cart_def]
  have cur: "currencyCode (pq_total q) = ?cur" "currencyCode (pq_subtotal q) = ?cur" "currencyCode (pq_tax q) = ?cur"
    "currencyCode (pq_discount q) = ?cur" "currencyCode (pq_fee q) = ?cur"
    using A V L by blast+
  have ar: "amountMinor (pq_subtotal q) - amountMinor (pq_discount q) + amountMinor (pq_tax q) + amountMinor (pq_fee q) =
      amountMinor (pq_total q)"
    using A by simp
  have all: "distinct (map qe_lineReference (map vl_evidence (map verified_of (pq_lines q))))"
    "list_all (item_quoted (map vl_evidence (map verified_of (pq_lines q)))) (ca_items c)"
    unfolding ev refs using A S by blast+
  have lens: "length ls \<le> 100" "length ls = length (ca_items c)" "ls \<noteq> []" using len items A by auto
  have "\<exists>a. verifyQuote v c operation intent guest t = Inr a \<and>
    at_lines a = map vl_evidence (map verified_of (pq_lines q)) \<and> at_quoteReference a = pq_quoteReference q \<and>
    qm_amountMinor (at_total a) = amountMinor (pq_total q) \<and> qm_currencyCode (at_total a) = ?cur"
    by (rule verifyQuote_body_accepts [where m = "pq_currencyMetadata q" and dig = "pq_inputDigest q" and quote = "pq_quoteReference q", OF _ _ _ _ _ _ _ _ _ _ _ _ _ _ _ _
          assms(5) _ assms(6-10) _ _ _ _ _ _ _ amounts _ _ _ _ ls(1) lens(1) lines lens(2,3) all(1) sums all(2) assms(11-13)])
      (use Q C S V ar cur in \<open>simp_all add: max_safe_def\<close>)
  then show ?thesis unfolding ev cur .
qed

section \<open>Attaching a quote\<close>

definition example_quoted_cart :: cart_aggregate where
  "example_quoted_cart =
     (example_cart 3)\<lparr>ca_cartReference := ''01890000-0000-7000-8000-000000000052'',
        ca_items := [(example_item ''01890000-0000-7000-8000-000000000053'' ''01890000-0000-7000-8000-000000000061'')
          \<lparr>ci_cartReference := ''01890000-0000-7000-8000-000000000052'',
           ci_catalogSelectionEvidence := Some
             \<lparr>cs_menuVersionReference = ''01890000-0000-7000-8000-000000000055'',
              cs_productVersionReference = ''01890000-0000-7000-8000-000000000054'',
              cs_catalogChannelCode = ''KIOSK'', cs_catalogOrderTypeCode = ''DINE_IN'', cs_ruleEvidence = [],
              cs_validatedAt = ''2026-06-01T12:05:00.000Z''\<rparr>\<rparr>]\<rparr>"

definition example_line_object :: "price_quote_line \<Rightarrow> js" where
  "example_line_object l = JObj
     [(''lineReference'', JStr (pql_lineReference l)), (''sellableReference'', JStr (pql_sellableReference l)),
      (''productVersionReference'', JStr (pql_productVersionReference l)),
      (''menuVersionReference'', JStr (pql_menuVersionReference l)), (''quantity'', JNum (pql_quantity l)),
      (''unitPrice'', money_js (pql_unitPrice l)), (''subtotal'', money_js (pql_subtotal l)),
      (''discount'', money_js (pql_discount l)), (''tax'', money_js (pql_tax l)), (''fee'', money_js (pql_fee l)),
      (''total'', money_js (pql_total l)), (''resolvedPrice'', JNull), (''taxResolution'', JNull),
      (''taxLines'', JNull)]"

definition example_object :: "price_quote_snapshot \<Rightarrow> js" where
  "example_object q = JObj
     [(''quoteReference'', JStr (pq_quoteReference q)), (''quoteVersion'', JNum (pq_quoteVersion q)),
      (''brandReference'', JStr (pq_brandReference q)), (''storeReference'', JStr (pq_storeReference q)),
      (''cartReference'', JStr (pq_cartReference q)), (''cartVersion'', JNum (pq_cartVersion q)),
      (''inputDigest'', JStr (pq_inputDigest q)),
      (''currencyMetadata'', currency_metadata_js (pq_currencyMetadata q)),
      (''subtotal'', money_js (pq_subtotal q)), (''discount'', money_js (pq_discount q)),
      (''tax'', money_js (pq_tax q)), (''fee'', money_js (pq_fee q)), (''total'', money_js (pq_total q)),
      (''lines'', JArr (map example_line_object (pq_lines q))),
      (''appliedPromotionReferences'', JArr (map JStr (pq_appliedPromotionReferences q))),
      (''warnings'', JArr (map JStr (pq_warnings q))), (''blockingReasons'', JArr (map JStr (pq_blockingReasons q))),
      (''createdAt'', JStr (pq_createdAt q)), (''expiresAt'', JStr (pq_expiresAt q))]"

lemma example_object: "quote_object q (example_object q)"
  by (simp add: quote_object_def example_object_def line_object_def example_line_object_def list_all2_conv_all_nth)

lemma example_quote_fields:
  "map_sum (\<lambda>e. e) (\<lambda>q. (pq_brandReference q, pq_storeReference q, pq_cartReference q, pq_cartVersion q,
       pq_createdAt q, pq_expiresAt q, amountMinor (pq_total q), map evidence_of (pq_lines q)))
     (createPriceQuote example_zone example_quote_input) = Inr
       (''01890000-0000-7000-8000-000000000012'', ''01890000-0000-7000-8000-000000000013'',
        ''01890000-0000-7000-8000-000000000052'', 3, ''2026-06-01T12:00:00.000Z'', ''2026-06-01T12:15:00.000Z'', 3320,
        [\<lparr>qe_lineReference = ''01890000-0000-7000-8000-000000000053'',
          qe_sellableReference = ''01890000-0000-7000-8000-000000000030'',
          qe_productVersionReference = ''01890000-0000-7000-8000-000000000054'',
          qe_menuVersionReference = ''01890000-0000-7000-8000-000000000055'', qe_quantity = 2\<rparr>])"
  by code_simp

lemma example_quoted_facts:
  "uuid_v7 ''01890000-0000-7000-8000-000000000053''" "uuid_v7 ''01890000-0000-7000-8000-000000000054''"
  "uuid_v7 ''01890000-0000-7000-8000-000000000055''" "code_format ''_'' ''KIOSK''" "code_format ''_'' ''DINE_IN''"
  "canonical_instant ''2026-06-01T12:15:00.000Z''" "ms_of ''2026-06-01T12:15:00.000Z'' = 1780316100000"
  "sha256_digest example_digest"
  by code_simp+

lemma example_quoted_cart_valid: "valid_cart example_quoted_cart"
  using example_lifecycle_valid
  by (simp add: valid_cart_def example_quoted_cart_def example_cart_def example_item_def valid_item_def valid_evidence_def
      example_cart_facts example_quoted_facts cart_times_bad_def cart_items_bad_def lifecycle_out_of_step_def
      example_lifecycle_def example_times)

lemma example_attachment:
  "\<exists>q a. createPriceQuote example_zone example_quote_input = Inr q \<and> quoted_cart q example_quoted_cart \<and>
     canonical_instant (pq_createdAt q) \<and> canonical_instant (pq_expiresAt q) \<and>
     ms_of (pq_createdAt q) \<le> 1780315800000 \<and> 1780315800000 < ms_of (pq_expiresAt q) \<and>
     amountMinor (pq_total q) = 3320 \<and>
     verifyQuote (example_object q) example_quoted_cart ''01890000-0000-7000-8000-000000000061'' example_digest
       ''01890000-0000-7000-8000-000000000062'' ''2026-06-01T12:10:00.000Z'' = Inr a"
proof -
  from example_quote_fields obtain q where q: "createPriceQuote example_zone example_quote_input = Inr q"
    "pq_brandReference q = ''01890000-0000-7000-8000-000000000012''"
    "pq_storeReference q = ''01890000-0000-7000-8000-000000000013''"
    "pq_cartReference q = ''01890000-0000-7000-8000-000000000052''" "pq_cartVersion q = 3"
    "pq_createdAt q = ''2026-06-01T12:00:00.000Z''" "pq_expiresAt q = ''2026-06-01T12:15:00.000Z''"
    "amountMinor (pq_total q) = 3320"
    "map evidence_of (pq_lines q) = [\<lparr>qe_lineReference = ''01890000-0000-7000-8000-000000000053'',
          qe_sellableReference = ''01890000-0000-7000-8000-000000000030'',
          qe_productVersionReference = ''01890000-0000-7000-8000-000000000054'',
          qe_menuVersionReference = ''01890000-0000-7000-8000-000000000055'', qe_quantity = 2\<rparr>]"
    by (auto simp: map_sum_Inr)
  from q(9) have "length (pq_lines q) = 1" by (metis length_map One_nat_def length_Cons list.size(3))
  then have c: "quoted_cart q example_quoted_cart"
    using q by (simp add: quoted_cart_def example_quoted_cart_def example_cart_def example_item_def item_quoted_def)
  have t: "canonical_instant (pq_createdAt q)" "canonical_instant (pq_expiresAt q)"
    "ms_of (pq_createdAt q) \<le> ms_of ''2026-06-01T12:10:00.000Z''"
    "ms_of ''2026-06-01T12:10:00.000Z'' < ms_of (pq_expiresAt q)"
    "iso_time (ms_of ''2026-06-01T12:10:00.000Z'' + 24 * 60 * 60 * 1000)"
    using q by (simp_all add: example_cart_facts example_quoted_facts iso_time_iff)
  from created_quote_accepted [OF q(1) example_object example_quoted_cart_valid c t(1,2) example_cart_facts(13) t(3-5)
      example_cart_facts(9) example_quoted_facts(8) example_cart_facts(10)]
  obtain a where "verifyQuote (example_object q) example_quoted_cart ''01890000-0000-7000-8000-000000000061''
      example_digest ''01890000-0000-7000-8000-000000000062'' ''2026-06-01T12:10:00.000Z'' = Inr a" by blast
  with q c t show ?thesis by (auto simp: example_cart_facts)
qed

text \<open>
  C17. A quote is attached only if it fits the cart: whatever object is verified, when the service accepts it
  the quoted lines are the items of the cart, one line per item with the same sellable, quantity and catalog
  versions; the attachment names the cart at its current version; the amounts are non-negative and balance;
  and the request lies in the half-open validity window of the quote.
\<close>

theorem verifyQuote_sound:
  assumes "verifyQuote v c operation intent guest t = Inr a" and "valid_cart c"
  shows "quotes_items (at_lines a) (ca_items c) \<and> ca_items c \<noteq> [] \<and>
    at_cartReference a = ca_cartReference c \<and> at_cartVersion a = ca_aggregateVersion c \<and>
    qm_amountMinor (at_total a) = qm_amountMinor (at_subtotal a) - qm_amountMinor (at_discount a) +
      qm_amountMinor (at_tax a) + qm_amountMinor (at_fee a) \<and>
    0 \<le> qm_amountMinor (at_subtotal a) \<and> 0 \<le> qm_amountMinor (at_discount a) \<and> 0 \<le> qm_amountMinor (at_tax a) \<and>
    0 \<le> qm_amountMinor (at_fee a) \<and> 0 \<le> qm_amountMinor (at_total a) \<and>
    ms_of (at_quoteCreatedAt a) \<le> ms_of t \<and> ms_of t < ms_of (at_quoteExpiresAt a) \<and> at_attachedAt a = t"
  using verifyQuote_body_Inr [of v c operation intent guest t a] assms
  by (auto simp: verifyQuote_def catching_eq_Inr amounts_bad_def)

theorem verifyQuote_sound_witness:
  "\<exists>v a. verifyQuote v example_quoted_cart ''01890000-0000-7000-8000-000000000061'' example_digest
      ''01890000-0000-7000-8000-000000000062'' ''2026-06-01T12:10:00.000Z'' = Inr a \<and>
    quotes_items (at_lines a) (ca_items example_quoted_cart) \<and> at_cartVersion a = ca_aggregateVersion example_quoted_cart"
  using example_attachment verifyQuote_sound [OF _ example_quoted_cart_valid] by blast

text \<open>
  C18. Pricing and ordering agree: every quote \<open>createPriceQuote\<close> produces for a cart, handed over as an object,
  is accepted by the attachment service while it is valid, for the lines and the total pricing computed. The
  only further condition is the one the two modules do not share: the quote's instants have to be in the
  canonical form the ordering module insists on (pricing accepts any parseable instant).
\<close>

theorem created_quote_attaches:
  assumes "createPriceQuote zr input = Inr q" and "quote_object q v" and "valid_cart c" and "quoted_cart q c"
    and "canonical_instant (pq_createdAt q)" and "canonical_instant (pq_expiresAt q)" and "canonical_instant t"
    and "ms_of (pq_createdAt q) \<le> ms_of t" and "ms_of t < ms_of (pq_expiresAt q)"
    and "iso_time (ms_of t + 24 * 60 * 60 * 1000)"
    and "uuid_v7 operation" and "sha256_digest intent" and "uuid_v7 guest"
  shows "\<exists>a. verifyQuote v c operation intent guest t = Inr a \<and> at_lines a = map evidence_of (pq_lines q) \<and>
    at_quoteReference a = pq_quoteReference q \<and> qm_amountMinor (at_total a) = amountMinor (pq_total q) \<and>
    qm_currencyCode (at_total a) = currencyCode (pq_total q)"
  using created_quote_accepted [OF assms] .

theorem created_quote_attaches_witness:
  "\<exists>q a. createPriceQuote example_zone example_quote_input = Inr q \<and>
     verifyQuote (example_object q) example_quoted_cart ''01890000-0000-7000-8000-000000000061'' example_digest
       ''01890000-0000-7000-8000-000000000062'' ''2026-06-01T12:10:00.000Z'' = Inr a \<and>
     qm_amountMinor (at_total a) = 3320"
proof -
  from example_attachment obtain q where q: "createPriceQuote example_zone example_quote_input = Inr q"
    "quoted_cart q example_quoted_cart" "canonical_instant (pq_createdAt q)" "canonical_instant (pq_expiresAt q)"
    "ms_of (pq_createdAt q) \<le> ms_of ''2026-06-01T12:10:00.000Z''"
    "ms_of ''2026-06-01T12:10:00.000Z'' < ms_of (pq_expiresAt q)" "amountMinor (pq_total q) = 3320"
    by (auto simp: example_cart_facts)
  have i: "iso_time (ms_of ''2026-06-01T12:10:00.000Z'' + 24 * 60 * 60 * 1000)"
    by (simp add: example_cart_facts iso_time_iff)
  from created_quote_attaches [OF q(1) example_object example_quoted_cart_valid q(2-4) example_cart_facts(13) q(5,6) i
      example_cart_facts(9) example_quoted_facts(8) example_cart_facts(10)] q(1,7)
  show ?thesis by auto
qed

end
