(* ===== verification/OrderAmendment.thy ===== *)
theory OrderAmendment
  imports OrderingValues TaxConfiguration
begin

text \<open>
  Amendments of a placed order: \<open>packages/rms/ordering/src/domain/order-amendment.ts\<close>. An amendment
  records one change of an order with its re-priced totals; it waits for the kitchen, then for an approval
  where one is required, and ends applied, rejected or aborted.
\<close>

section \<open>Data\<close>

datatype amendment_kind = AddItem | ReduceItem | VoidItem | ReplaceItemConfiguration | UpdateNote

datatype amendment_status = PendingKitchen | PendingApproval | Applied | Rejected | Aborted

datatype kitchen_status = KitchenNotStarted | KitchenInProgress | KitchenCompleted

datatype fulfillment_status = FulfillmentNotStarted | FulfillmentInProgress | Fulfilled

datatype amendment_action = ConfirmKitchen | RejectKitchen | Approve | Abort

definition amendment_kinds :: "(string \<times> amendment_kind) list" where
  "amendment_kinds = [(''AddItem'', AddItem), (''ReduceItem'', ReduceItem), (''VoidItem'', VoidItem),
     (''ReplaceItemConfiguration'', ReplaceItemConfiguration), (''UpdateNote'', UpdateNote)]"

definition amendment_statuses :: "(string \<times> amendment_status) list" where
  "amendment_statuses = [(''PendingKitchen'', PendingKitchen), (''PendingApproval'', PendingApproval),
     (''Applied'', Applied), (''Rejected'', Rejected), (''Aborted'', Aborted)]"

definition kitchen_statuses :: "(string \<times> kitchen_status) list" where
  "kitchen_statuses = [(''NotStarted'', KitchenNotStarted), (''InProgress'', KitchenInProgress),
     (''Completed'', KitchenCompleted)]"

definition fulfillment_statuses :: "(string \<times> fulfillment_status) list" where
  "fulfillment_statuses = [(''NotStarted'', FulfillmentNotStarted), (''InProgress'', FulfillmentInProgress),
     (''Fulfilled'', Fulfilled)]"

record amendment_change =
  ac_kind :: amendment_kind
  ac_targetOrderItemReference :: "string option"
  ac_replacementSnapshotDigest :: "string option"
  ac_quantityDelta :: int
  ac_noteCode :: "string option"

record order_amendment =
  am_amendmentReference :: string
  am_orderReference :: string
  am_tenantReference :: string
  am_brandReference :: string
  am_storeReference :: string
  am_requestedByActorReference :: string
  am_reasonCode :: string
  am_change :: amendment_change
  am_expectedOrderVersion :: int
  am_quoteReference :: string
  am_quoteVersion :: int
  am_quoteInputDigest :: string
  am_currencyCode :: string
  am_originalTotalMinor :: string
  am_revisedTotalMinor :: string
  am_deltaMinor :: string
  am_kitchenStatus :: kitchen_status
  am_fulfillmentStatus :: fulfillment_status
  am_approvalRequired :: bool
  am_customerNoticeCode :: string
  am_status :: amendment_status
  am_aggregateVersion :: int
  am_decidedByActorReference :: "string option"
  am_requestedAt :: string
  am_decidedAt :: "string option"

section \<open>Parsers\<close>

definition amendment_invalid :: err where
  "amendment_invalid = OrderAmendmentError ORDER_AMENDMENT_INPUT_INVALID"

definition parseAmendmentReference :: "js \<Rightarrow> string res" where
  "parseAmendmentReference v = or_throw (str_if uuid_v7 v) amendment_invalid"

definition parseAmendmentDigest :: "js \<Rightarrow> string res" where
  "parseAmendmentDigest v = or_throw (str_if sha256_digest v) amendment_invalid"

definition parseAmendmentCode :: "js \<Rightarrow> string res" where
  "parseAmendmentCode v = or_throw (str_if (code_format ''_-'') v) amendment_invalid"

definition amendment_at :: "js \<Rightarrow> string res" where
  "amendment_at v = or_throw (str_if parseable_instant v) amendment_invalid"

definition amendment_version :: "js \<Rightarrow> int res" where
  "amendment_version v = or_throw (safe_int_in 1 max_safe v) amendment_invalid"

text \<open>\<open>BigInt\<close> of a string matching \<open>/^-?(?:0|[1-9][0-9]{0,29})$/u\<close>; \<open>"-0"\<close> is accepted and reads as zero.\<close>

definition money_numeral :: "string \<Rightarrow> bool" where
  "money_numeral s \<longleftrightarrow> nat_numeral s \<and> length s \<le> 30"

fun money_text :: "string \<Rightarrow> int option" where
  "money_text [] = None"
| "money_text (c # s) =
     (if c = CHR ''-'' then (if money_numeral s then Some (- dec_val s) else None)
      else if money_numeral (c # s) then Some (dec_val (c # s)) else None)"

definition amendment_money :: "js \<Rightarrow> int res" where
  "amendment_money v = (case v of JStr s \<Rightarrow> or_throw (money_text s) amendment_invalid | _ \<Rightarrow> Inl amendment_invalid)"

definition amendment_plain :: "js \<Rightarrow> string list \<Rightarrow> unit res" where
  "amendment_plain v keys = throw_if (\<not> has_shape v keys) amendment_invalid"

text \<open>Which parts a change of each kind has.\<close>

definition change_shape_ok ::
  "amendment_kind \<Rightarrow> string option \<Rightarrow> string option \<Rightarrow> int \<Rightarrow> string option \<Rightarrow> bool" where
  "change_shape_ok kind target replacement quantity notec \<longleftrightarrow>
     (kind = AddItem \<and> target = None \<and> replacement \<noteq> None \<and> 0 < quantity \<and> notec = None) \<or>
     (kind = ReduceItem \<and> target \<noteq> None \<and> replacement = None \<and> quantity < 0 \<and> notec = None) \<or>
     (kind = VoidItem \<and> target \<noteq> None \<and> replacement = None \<and> quantity < 0 \<and> notec = None) \<or>
     (kind = ReplaceItemConfiguration \<and> target \<noteq> None \<and> replacement \<noteq> None \<and> quantity = 0 \<and> notec = None) \<or>
     (kind = UpdateNote \<and> target \<noteq> None \<and> replacement = None \<and> quantity = 0 \<and> notec \<noteq> None)"

definition createAmendmentChange :: "js \<Rightarrow> amendment_change res" where
  "createAmendmentChange v =
     bnd (amendment_plain v [''kind'', ''targetOrderItemReference'', ''replacementSnapshotDigest'',
            ''quantityDelta'', ''noteCode'']) (\<lambda>_.
     bnd (or_throw (enum_of amendment_kinds (fld v ''kind'')) amendment_invalid) (\<lambda>kind.
     bnd (or_throw (safe_int_in (- max_safe) max_safe (fld v ''quantityDelta'')) amendment_invalid) (\<lambda>quantity.
     bnd (nullable parseAmendmentReference (fld v ''targetOrderItemReference'')) (\<lambda>target.
     bnd (nullable parseAmendmentDigest (fld v ''replacementSnapshotDigest'')) (\<lambda>replacement.
     bnd (nullable parseAmendmentCode (fld v ''noteCode'')) (\<lambda>notec.
     bnd (throw_if (\<not> change_shape_ok kind target replacement quantity notec \<or> 999 < \<bar>quantity\<bar>) amendment_invalid) (\<lambda>_.
     Inr \<lparr>ac_kind = kind, ac_targetOrderItemReference = target, ac_replacementSnapshotDigest = replacement,
          ac_quantityDelta = quantity, ac_noteCode = notec\<rparr>)))))))"

definition destructive :: "amendment_kind \<Rightarrow> bool" where
  "destructive kind \<longleftrightarrow> kind = ReduceItem \<or> kind = VoidItem \<or> kind = ReplaceItemConfiguration"

text \<open>\<open>status.startsWith("Pending")\<close>.\<close>

definition pending :: "amendment_status \<Rightarrow> bool" where
  "pending s \<longleftrightarrow> s = PendingKitchen \<or> s = PendingApproval"

definition decision_bad :: "amendment_status \<Rightarrow> string option \<Rightarrow> string option \<Rightarrow> bool" where
  "decision_bad status decidedBy decidedAt \<longleftrightarrow>
     (pending status \<and> (decidedBy \<noteq> None \<or> decidedAt \<noteq> None)) \<or>
     (\<not> pending status \<and> (decidedBy = None \<or> decidedAt = None))"

fun js_bool :: "js \<Rightarrow> bool option" where
  "js_bool (JBool b) = Some b"
| "js_bool _ = None"

definition createOrderAmendment :: "js \<Rightarrow> order_amendment res" where
  "createOrderAmendment v =
     bnd (amendment_plain v [''amendmentReference'', ''orderReference'', ''tenantReference'', ''brandReference'',
            ''storeReference'', ''requestedByActorReference'', ''reasonCode'', ''change'', ''expectedOrderVersion'',
            ''quoteReference'', ''quoteVersion'', ''quoteInputDigest'', ''currencyCode'', ''originalTotalMinor'',
            ''revisedTotalMinor'', ''deltaMinor'', ''kitchenStatus'', ''fulfillmentStatus'', ''approvalRequired'',
            ''customerNoticeCode'', ''status'', ''aggregateVersion'', ''decidedByActorReference'', ''requestedAt'',
            ''decidedAt'']) (\<lambda>_.
     bnd (createAmendmentChange (fld v ''change'')) (\<lambda>change.
     bnd (or_throw (enum_of kitchen_statuses (fld v ''kitchenStatus'')) amendment_invalid) (\<lambda>kitchen.
     bnd (or_throw (enum_of fulfillment_statuses (fld v ''fulfillmentStatus'')) amendment_invalid) (\<lambda>fulfillment.
     bnd (or_throw (js_bool (fld v ''approvalRequired'')) amendment_invalid) (\<lambda>approvalRequired.
     bnd (or_throw (str_if currency_format (fld v ''currencyCode'')) amendment_invalid) (\<lambda>currency.
     bnd (or_throw (enum_of amendment_statuses (fld v ''status'')) amendment_invalid) (\<lambda>status.
     bnd (amendment_money (fld v ''originalTotalMinor'')) (\<lambda>original.
     bnd (amendment_money (fld v ''revisedTotalMinor'')) (\<lambda>revised.
     bnd (amendment_money (fld v ''deltaMinor'')) (\<lambda>delta.
     bnd (throw_if (revised - original \<noteq> delta \<or> revised < 0) amendment_invalid) (\<lambda>_.
     bnd (throw_if (fulfillment = Fulfilled) (OrderAmendmentError ORDER_AMENDMENT_ORDER_INELIGIBLE)) (\<lambda>_.
     bnd (throw_if (destructive (ac_kind change) \<and> kitchen = KitchenCompleted)
            (OrderAmendmentError ORDER_AMENDMENT_KITCHEN_REJECTED)) (\<lambda>_.
     bnd (parseAmendmentReference (fld v ''requestedByActorReference'')) (\<lambda>requestedBy.
     bnd (nullable parseAmendmentReference (fld v ''decidedByActorReference'')) (\<lambda>decidedBy.
     bnd (amendment_at (fld v ''requestedAt'')) (\<lambda>requestedAt.
     bnd (nullable amendment_at (fld v ''decidedAt'')) (\<lambda>decidedAt.
     bnd (throw_if (decision_bad status decidedBy decidedAt) amendment_invalid) (\<lambda>_.
     bnd (parseAmendmentReference (fld v ''amendmentReference'')) (\<lambda>aref.
     bnd (parseAmendmentReference (fld v ''orderReference'')) (\<lambda>oref.
     bnd (parseAmendmentReference (fld v ''tenantReference'')) (\<lambda>tref.
     bnd (parseAmendmentReference (fld v ''brandReference'')) (\<lambda>bref.
     bnd (parseAmendmentReference (fld v ''storeReference'')) (\<lambda>sref.
     bnd (parseAmendmentCode (fld v ''reasonCode'')) (\<lambda>reason.
     bnd (amendment_version (fld v ''expectedOrderVersion'')) (\<lambda>orderVersion.
     bnd (parseAmendmentReference (fld v ''quoteReference'')) (\<lambda>qref.
     bnd (amendment_version (fld v ''quoteVersion'')) (\<lambda>quoteVersion.
     bnd (parseAmendmentDigest (fld v ''quoteInputDigest'')) (\<lambda>dig.
     bnd (parseAmendmentCode (fld v ''customerNoticeCode'')) (\<lambda>noticec.
     bnd (amendment_version (fld v ''aggregateVersion'')) (\<lambda>version.
     Inr \<lparr>am_amendmentReference = aref, am_orderReference = oref, am_tenantReference = tref,
          am_brandReference = bref, am_storeReference = sref, am_requestedByActorReference = requestedBy,
          am_reasonCode = reason, am_change = change, am_expectedOrderVersion = orderVersion,
          am_quoteReference = qref, am_quoteVersion = quoteVersion, am_quoteInputDigest = dig,
          am_currencyCode = currency, am_originalTotalMinor = int_str original,
          am_revisedTotalMinor = int_str revised, am_deltaMinor = int_str delta, am_kitchenStatus = kitchen,
          am_fulfillmentStatus = fulfillment, am_approvalRequired = approvalRequired,
          am_customerNoticeCode = noticec, am_status = status, am_aggregateVersion = version,
          am_decidedByActorReference = decidedBy, am_requestedAt = requestedAt,
          am_decidedAt = decidedAt\<rparr>))))))))))))))))))))))))))))))"

section \<open>Transitions\<close>

definition initialAmendmentStatus :: "amendment_kind \<Rightarrow> kitchen_status \<Rightarrow> bool \<Rightarrow> amendment_status res" where
  "initialAmendmentStatus kind kitchen approvalRequired =
     (if destructive kind \<and> kitchen = KitchenCompleted
      then Inl (OrderAmendmentError ORDER_AMENDMENT_KITCHEN_REJECTED)
      else if destructive kind \<and> kitchen = KitchenInProgress then Inr PendingKitchen
      else Inr (if approvalRequired then PendingApproval else Applied))"

text \<open>The amendment as the object that is spread into \<open>createOrderAmendment\<close>.\<close>

definition kind_name :: "amendment_kind \<Rightarrow> string" where
  "kind_name k = (case k of AddItem \<Rightarrow> ''AddItem'' | ReduceItem \<Rightarrow> ''ReduceItem'' | VoidItem \<Rightarrow> ''VoidItem''
     | ReplaceItemConfiguration \<Rightarrow> ''ReplaceItemConfiguration'' | UpdateNote \<Rightarrow> ''UpdateNote'')"

definition amendment_status_name :: "amendment_status \<Rightarrow> string" where
  "amendment_status_name s = (case s of PendingKitchen \<Rightarrow> ''PendingKitchen'' | PendingApproval \<Rightarrow> ''PendingApproval''
     | Applied \<Rightarrow> ''Applied'' | Rejected \<Rightarrow> ''Rejected'' | Aborted \<Rightarrow> ''Aborted'')"

definition kitchen_status_name :: "kitchen_status \<Rightarrow> string" where
  "kitchen_status_name s = (case s of KitchenNotStarted \<Rightarrow> ''NotStarted'' | KitchenInProgress \<Rightarrow> ''InProgress''
     | KitchenCompleted \<Rightarrow> ''Completed'')"

definition fulfillment_status_name :: "fulfillment_status \<Rightarrow> string" where
  "fulfillment_status_name s = (case s of FulfillmentNotStarted \<Rightarrow> ''NotStarted''
     | FulfillmentInProgress \<Rightarrow> ''InProgress'' | Fulfilled \<Rightarrow> ''Fulfilled'')"

definition amendment_change_js :: "amendment_change \<Rightarrow> js" where
  "amendment_change_js c = JObj
     [(''kind'', JStr (kind_name (ac_kind c))),
      (''targetOrderItemReference'', js_opt JStr (ac_targetOrderItemReference c)),
      (''replacementSnapshotDigest'', js_opt JStr (ac_replacementSnapshotDigest c)),
      (''quantityDelta'', JNum (ac_quantityDelta c)), (''noteCode'', js_opt JStr (ac_noteCode c))]"

definition amendment_js :: "order_amendment \<Rightarrow> js" where
  "amendment_js a = JObj
     [(''amendmentReference'', JStr (am_amendmentReference a)), (''orderReference'', JStr (am_orderReference a)),
      (''tenantReference'', JStr (am_tenantReference a)), (''brandReference'', JStr (am_brandReference a)),
      (''storeReference'', JStr (am_storeReference a)),
      (''requestedByActorReference'', JStr (am_requestedByActorReference a)),
      (''reasonCode'', JStr (am_reasonCode a)), (''change'', amendment_change_js (am_change a)),
      (''expectedOrderVersion'', JNum (am_expectedOrderVersion a)), (''quoteReference'', JStr (am_quoteReference a)),
      (''quoteVersion'', JNum (am_quoteVersion a)), (''quoteInputDigest'', JStr (am_quoteInputDigest a)),
      (''currencyCode'', JStr (am_currencyCode a)), (''originalTotalMinor'', JStr (am_originalTotalMinor a)),
      (''revisedTotalMinor'', JStr (am_revisedTotalMinor a)), (''deltaMinor'', JStr (am_deltaMinor a)),
      (''kitchenStatus'', JStr (kitchen_status_name (am_kitchenStatus a))),
      (''fulfillmentStatus'', JStr (fulfillment_status_name (am_fulfillmentStatus a))),
      (''approvalRequired'', JBool (am_approvalRequired a)), (''customerNoticeCode'', JStr (am_customerNoticeCode a)),
      (''status'', JStr (amendment_status_name (am_status a))), (''aggregateVersion'', JNum (am_aggregateVersion a)),
      (''decidedByActorReference'', js_opt JStr (am_decidedByActorReference a)),
      (''requestedAt'', JStr (am_requestedAt a)), (''decidedAt'', js_opt JStr (am_decidedAt a))]"

text \<open>The status an action leads to.\<close>

definition next_status :: "order_amendment \<Rightarrow> amendment_action \<Rightarrow> string \<Rightarrow> amendment_status res" where
  "next_status a action actor =
     (if action = ConfirmKitchen \<and> am_status a = PendingKitchen
      then Inr (if am_approvalRequired a then PendingApproval else Applied)
      else if action = RejectKitchen \<and> am_status a = PendingKitchen then Inr Rejected
      else if action = Approve \<and> am_status a = PendingApproval
      then (if actor = am_requestedByActorReference a
            then Inl (OrderAmendmentError ORDER_AMENDMENT_SEPARATION_REQUIRED) else Inr Applied)
      else if action = Abort \<and> pending (am_status a) then Inr Aborted
      else Inl (OrderAmendmentError ORDER_AMENDMENT_TRANSITION_INVALID))"

definition decided :: "order_amendment \<Rightarrow> amendment_status \<Rightarrow> string \<Rightarrow> string \<Rightarrow> order_amendment" where
  "decided a status actor t = a\<lparr>am_status := status, am_aggregateVersion := am_aggregateVersion a + 1,
     am_decidedByActorReference := (if status = PendingApproval then None else Some actor),
     am_decidedAt := (if status = PendingApproval then None else Some t)\<rparr>"

definition transitionOrderAmendment ::
  "order_amendment \<Rightarrow> amendment_action \<Rightarrow> string \<Rightarrow> string \<Rightarrow> order_amendment res" where
  "transitionOrderAmendment a action actor occurredAt =
     bnd (amendment_at (JStr occurredAt)) (\<lambda>t.
     bnd (next_status a action actor) (\<lambda>status.
     createOrderAmendment (amendment_js (decided a status actor t))))"

section \<open>Valid amendments\<close>

lemma amendment_parse_Inr [res_simps]:
  "amendment_plain v ks = Inr u \<longleftrightarrow> has_shape v ks"
  "parseAmendmentReference v = Inr s \<longleftrightarrow> v = JStr s \<and> uuid_v7 s"
  "parseAmendmentDigest v = Inr s \<longleftrightarrow> v = JStr s \<and> sha256_digest s"
  "parseAmendmentCode v = Inr s \<longleftrightarrow> v = JStr s \<and> code_format ''_-'' s"
  "amendment_at v = Inr s \<longleftrightarrow> v = JStr s \<and> parseable_instant s"
  by (simp_all add: amendment_plain_def parseAmendmentReference_def parseAmendmentDigest_def
      parseAmendmentCode_def amendment_at_def res_simps)

lemma amendment_version_Inr [res_simps]: "amendment_version v = Inr n \<longleftrightarrow> v = JNum n \<and> 1 \<le> n \<and> n \<le> max_safe"
  by (auto simp: amendment_version_def res_simps max_safe_def)

lemma js_bool_Some [res_simps]: "js_bool v = Some b \<longleftrightarrow> v = JBool b"
  by (cases v) auto

lemma amendment_enum_names:
  "enum_of amendment_kinds (JStr (kind_name k)) = Some k"
  "enum_of amendment_statuses (JStr (amendment_status_name s)) = Some s"
  "enum_of kitchen_statuses (JStr (kitchen_status_name ks)) = Some ks"
  "enum_of fulfillment_statuses (JStr (fulfillment_status_name fs)) = Some fs"
  by (cases k; cases s; cases ks; cases fs; simp add: enum_of_def amendment_kinds_def kind_name_def amendment_statuses_def
      amendment_status_name_def kitchen_statuses_def kitchen_status_name_def fulfillment_statuses_def
      fulfillment_status_name_def)+

interpretation aref: codec parseAmendmentReference JStr uuid_v7
  by (rule string_codec) (simp add: amendment_parse_Inr)

interpretation adig: codec parseAmendmentDigest JStr sha256_digest
  by (rule string_codec) (simp add: amendment_parse_Inr)

interpretation acode: codec parseAmendmentCode JStr "code_format ''_-''"
  by (rule string_codec) (simp add: amendment_parse_Inr)

interpretation amendment_at: codec amendment_at JStr parseable_instant
  by (rule string_codec) (simp add: amendment_parse_Inr)

text \<open>Totals are canonical numerals of at most 30 digits.\<close>

definition valid_total :: "string \<Rightarrow> bool" where
  "valid_total s \<longleftrightarrow> (case money_text s of None \<Rightarrow> False | Some n \<Rightarrow> int_str n = s)"

definition total_value :: "string \<Rightarrow> int" where
  "total_value s = (case money_text s of None \<Rightarrow> 0 | Some n \<Rightarrow> n)"

lemma nat_str_dec_val:
  assumes "nat_numeral s"
  shows "nat_str (nat (dec_val s)) = s"
  using nat_numeral_inj [OF nat_str_numeral assms] dec_val_range [OF nat_numeral_digits [OF assms]]
  by (simp add: dec_val_nat_str)

lemma int_str_text:
  assumes "money_text s = Some n"
  shows "money_text (int_str n) = Some n"
proof -
  obtain d where d: "nat_numeral d" "length d \<le> 30" "n = dec_val d \<or> n = - dec_val d"
    using assms by (cases s) (auto simp: money_numeral_def split: if_splits)
  have pos: "0 \<le> dec_val d" using dec_val_range [OF nat_numeral_digits [OF d(1)]] by simp
  have minus: "hd x \<noteq> CHR ''-''" if "nat_numeral x" for x
    using nat_numeral_digits [OF that] that by (cases x) (auto simp: nat_numeral_def is_digit_def in_range_def)
  have digits: "money_text x = Some (dec_val x)" if "nat_numeral x" "length x \<le> 30" for x
    using minus [OF that(1)] that by (cases x) (auto simp: money_numeral_def nat_numeral_def)
  show ?thesis
  proof (cases "n < 0")
    case True
    with d pos have "int_str n = CHR ''-'' # d" by (auto simp: int_str_def nat_str_dec_val)
    with d True pos show ?thesis by (auto simp: money_numeral_def)
  next
    case False
    have "int_str n = d"
    proof (cases "dec_val d = 0")
      case True
      with d False nat_str_dec_val [OF d(1)] show ?thesis by (auto simp: int_str_def)
    next
      case nz: False
      with d False pos nat_str_dec_val [OF d(1)] show ?thesis by (auto simp: int_str_def)
    qed
    with digits [OF d(1,2)] d False pos show ?thesis by auto
  qed
qed

lemma amendment_money_Inr [res_simps]: "amendment_money v = Inr n \<longleftrightarrow> (\<exists>s. v = JStr s \<and> money_text s = Some n)"
  by (cases v) (simp_all add: amendment_money_def or_throw_Inr)

lemma parsed_total: "amendment_money v = Inr n \<Longrightarrow> valid_total (int_str n) \<and> total_value (int_str n) = n"
  using int_str_text by (auto simp: amendment_money_Inr valid_total_def total_value_def)

lemma printed_total: "valid_total s \<Longrightarrow> amendment_money (JStr s) = Inr (total_value s) \<and> int_str (total_value s) = s"
  by (auto simp: amendment_money_Inr valid_total_def total_value_def split: option.splits)

definition valid_change :: "amendment_change \<Rightarrow> bool" where
  "valid_change c \<longleftrightarrow>
     change_shape_ok (ac_kind c) (ac_targetOrderItemReference c) (ac_replacementSnapshotDigest c)
       (ac_quantityDelta c) (ac_noteCode c) \<and> \<bar>ac_quantityDelta c\<bar> \<le> 999 \<and>
     pred_option uuid_v7 (ac_targetOrderItemReference c) \<and>
     pred_option sha256_digest (ac_replacementSnapshotDigest c) \<and> pred_option (code_format ''_-'') (ac_noteCode c)"

definition valid_amendment :: "order_amendment \<Rightarrow> bool" where
  "valid_amendment a \<longleftrightarrow>
     uuid_v7 (am_amendmentReference a) \<and> uuid_v7 (am_orderReference a) \<and> uuid_v7 (am_tenantReference a) \<and>
     uuid_v7 (am_brandReference a) \<and> uuid_v7 (am_storeReference a) \<and> uuid_v7 (am_requestedByActorReference a) \<and>
     uuid_v7 (am_quoteReference a) \<and> pred_option uuid_v7 (am_decidedByActorReference a) \<and>
     code_format ''_-'' (am_reasonCode a) \<and> code_format ''_-'' (am_customerNoticeCode a) \<and>
     sha256_digest (am_quoteInputDigest a) \<and> valid_change (am_change a) \<and>
     1 \<le> am_expectedOrderVersion a \<and> am_expectedOrderVersion a \<le> max_safe \<and>
     1 \<le> am_quoteVersion a \<and> am_quoteVersion a \<le> max_safe \<and>
     1 \<le> am_aggregateVersion a \<and> am_aggregateVersion a \<le> max_safe \<and> currency_format (am_currencyCode a) \<and>
     valid_total (am_originalTotalMinor a) \<and> valid_total (am_revisedTotalMinor a) \<and> valid_total (am_deltaMinor a) \<and>
     total_value (am_revisedTotalMinor a) - total_value (am_originalTotalMinor a) = total_value (am_deltaMinor a) \<and>
     0 \<le> total_value (am_revisedTotalMinor a) \<and> am_fulfillmentStatus a \<noteq> Fulfilled \<and>
     \<not> (destructive (ac_kind (am_change a)) \<and> am_kitchenStatus a = KitchenCompleted) \<and>
     parseable_instant (am_requestedAt a) \<and> pred_option parseable_instant (am_decidedAt a) \<and>
     \<not> decision_bad (am_status a) (am_decidedByActorReference a) (am_decidedAt a)"

interpretation change: codec createAmendmentChange amendment_change_js valid_change
proof unfold_locales
  show "valid_change c" if "createAmendmentChange v = Inr c" for v c
    using that unfolding createAmendmentChange_def bnd_eq_Inr
    by (elim exE conjE) (drule Inr_inject, hypsubst, auto simp: valid_change_def throw_if_eq_Inr not_less
      aref.nullable_valid adig.nullable_valid acode.nullable_valid)
  show "createAmendmentChange (amendment_change_js c) = Inr c" if "valid_change c" for c
    using that by (auto simp: createAmendmentChange_def amendment_change_js_def valid_change_def amendment_parse_Inr
        bnd_eq_Inr or_throw_Inr throw_if_eq_Inr amendment_enum_names aref.nullable_parse_print adig.nullable_parse_print
        acode.nullable_parse_print max_safe_def abs_le_iff)
qed (simp add: amendment_change_js_def)

interpretation amendment: codec createOrderAmendment amendment_js valid_amendment
proof unfold_locales
  show "valid_amendment a" if "createOrderAmendment v = Inr a" for v a
    using that unfolding createOrderAmendment_def bnd_eq_Inr
    by (elim exE conjE) (drule Inr_inject, hypsubst, simp add: valid_amendment_def throw_if_eq_Inr amendment_parse_Inr
      amendment_version_Inr or_throw_Inr str_if_Some parsed_total
      aref.nullable_valid amendment_at.nullable_valid change.parse_valid)
  show "createOrderAmendment (amendment_js a) = Inr a" if "valid_amendment a" for a
    using that by (simp add: createOrderAmendment_def amendment_js_def valid_amendment_def amendment_parse_Inr
        amendment_version_Inr bnd_eq_Inr or_throw_Inr throw_if_eq_Inr amendment_enum_names printed_total change.parse_print
        aref.nullable_parse_print amendment_at.nullable_parse_print)
qed (simp add: amendment_js_def)

section \<open>Runs\<close>

lemma nullable_printed:
  "nullable parseAmendmentReference (js_opt JStr x) = Inr y \<longleftrightarrow> y = x \<and> pred_option uuid_v7 x"
  "nullable parseAmendmentDigest (js_opt JStr x) = Inr y \<longleftrightarrow> y = x \<and> pred_option sha256_digest x"
  "nullable parseAmendmentCode (js_opt JStr x) = Inr y \<longleftrightarrow> y = x \<and> pred_option (code_format ''_-'') x"
  "nullable amendment_at (js_opt JStr x) = Inr y \<longleftrightarrow> y = x \<and> pred_option parseable_instant x"
  by (cases x; auto simp: nullable_Inr amendment_parse_Inr)+

lemma change_reparsed: "createAmendmentChange (amendment_change_js c) = Inr c' \<Longrightarrow> c' = c"
  unfolding createAmendmentChange_def amendment_change_js_def bnd_eq_Inr
  by (elim exE conjE) (drule Inr_inject, hypsubst,
    simp add: nullable_printed or_throw_Inr amendment_enum_names split: if_splits)

lemma change_reparsed_iff: "createAmendmentChange (amendment_change_js c) = Inr c' \<longleftrightarrow> c' = c \<and> valid_change c"
  using change_reparsed change.parse_valid change.parse_print by blast

lemma amendment_reparsed:
  assumes "createOrderAmendment (amendment_js x) = Inr y"
    and "valid_total (am_originalTotalMinor x)" "valid_total (am_revisedTotalMinor x)" "valid_total (am_deltaMinor x)"
  shows "y = x"
  using assms unfolding createOrderAmendment_def amendment_js_def bnd_eq_Inr
  by (elim exE conjE) (drule Inr_inject, hypsubst, cases x,
    clarsimp simp: nullable_printed or_throw_Inr amendment_enum_names amendment_parse_Inr amendment_version_Inr
      printed_total change_reparsed_iff split: if_splits)

text \<open>An event of an amendment: an action, its actor and its time.\<close>

type_synonym amendment_event = "amendment_action \<times> string \<times> string"

inductive amendment_step :: "order_amendment \<Rightarrow> amendment_event \<Rightarrow> order_amendment \<Rightarrow> bool" where
  transition: "transitionOrderAmendment a action actor t = Inr a' \<Longrightarrow> amendment_step a (action, actor, t) a'"

inductive amendment_run :: "order_amendment \<Rightarrow> amendment_event list \<Rightarrow> order_amendment \<Rightarrow> bool" where
  start: "amendment_run a [] a"
| next_event: "amendment_run a es b \<Longrightarrow> amendment_step b e c \<Longrightarrow> amendment_run a (es @ [e]) c"

inductive_cases amendment_stepE: "amendment_step a (action, actor, t) a'"

inductive_simps amendment_run_Nil: "amendment_run a [] a'"

lemma transition_Inr:
  assumes "transitionOrderAmendment a action actor t = Inr a'" and "valid_amendment a"
  obtains s where "next_status a action actor = Inr s" and "a' = decided a s actor t" and "valid_amendment a'"
proof -
  from assms(1) obtain s where s: "next_status a action actor = Inr s"
    "createOrderAmendment (amendment_js (decided a s actor t)) = Inr a'"
    by (auto simp: transitionOrderAmendment_def bnd_eq_Inr amendment_parse_Inr)
  moreover have "a' = decided a s actor t"
    using amendment_reparsed [OF s(2)] assms(2) by (simp add: decided_def valid_amendment_def)
  ultimately show thesis using that amendment.parse_valid by blast
qed

lemma transition_returns:
  assumes "valid_amendment a" and "next_status a action actor = Inr s" and "parseable_instant t" and "uuid_v7 actor"
    and "am_aggregateVersion a < max_safe"
  shows "transitionOrderAmendment a action actor t = Inr (decided a s actor t)"
proof -
  have "pending s \<longleftrightarrow> s = PendingApproval"
    using assms(2) by (auto simp: next_status_def pending_def split: if_splits)
  then have "valid_amendment (decided a s actor t)"
    using assms by (simp add: valid_amendment_def decided_def decision_bad_def)
  from amendment.parse_print [OF this] assms show ?thesis
    by (simp add: transitionOrderAmendment_def amendment_at_def)
qed

text \<open>How many events an amendment still has before it.\<close>

definition amendment_rank :: "order_amendment \<Rightarrow> nat" where
  "amendment_rank a = (case am_status a of
     PendingKitchen \<Rightarrow> (if am_approvalRequired a then 2 else 1) | PendingApproval \<Rightarrow> 1 | _ \<Rightarrow> 0)"

lemma next_status_rank:
  "next_status a action actor = Inr s \<Longrightarrow> amendment_rank (decided a s actor t) < amendment_rank a"
  by (cases "am_status a")
    (auto simp: next_status_def amendment_rank_def decided_def pending_def split: if_splits)

lemma run_valid: "amendment_run a es a' \<Longrightarrow> valid_amendment a \<Longrightarrow> valid_amendment a'"
  by (induction rule: amendment_run.induct) (auto elim!: amendment_step.cases elim: transition_Inr)

text \<open>What no event changes.\<close>

definition same_amendment :: "order_amendment \<Rightarrow> order_amendment \<Rightarrow> bool" where
  "same_amendment a b \<longleftrightarrow> b = a\<lparr>am_status := am_status b, am_aggregateVersion := am_aggregateVersion b,
     am_decidedByActorReference := am_decidedByActorReference b, am_decidedAt := am_decidedAt b\<rparr>"

lemma same_amendment_trans: "same_amendment a b \<Longrightarrow> same_amendment b c \<Longrightarrow> same_amendment a c"
  unfolding same_amendment_def by (cases a; cases b; cases c) simp

lemma run_bound:
  assumes "amendment_run a es a'" and "valid_amendment a"
  shows "amendment_rank a' + length es \<le> amendment_rank a \<and>
    am_aggregateVersion a' = am_aggregateVersion a + int (length es) \<and> same_amendment a a'"
  using assms
proof (induction rule: amendment_run.induct)
  case (start a)
  then show ?case by (simp add: same_amendment_def)
next
  case (next_event a es b e c)
  have b: "valid_amendment b" using run_valid [OF next_event.hyps(1) next_event.prems] .
  from next_event.hyps(2) obtain action actor t where "transitionOrderAmendment b action actor t = Inr c"
    by (auto elim: amendment_step.cases)
  from transition_Inr [OF this b] obtain s where s: "next_status b action actor = Inr s" "c = decided b s actor t"
    by blast
  have "same_amendment b c" using s(2) by (simp add: same_amendment_def decided_def)
  with next_event.IH [OF next_event.prems] next_status_rank [OF s(1), of t] s(2) show ?case
    by (auto intro: same_amendment_trans simp: decided_def)
qed

text \<open>Four eyes: an amendment that needs an approval is applied only by someone else.\<close>

definition four_eyes :: "order_amendment \<Rightarrow> bool" where
  "four_eyes a \<longleftrightarrow> (am_approvalRequired a \<and> am_status a = Applied \<longrightarrow>
     am_decidedByActorReference a \<noteq> None \<and> am_decidedByActorReference a \<noteq> Some (am_requestedByActorReference a))"

lemma run_four_eyes:
  assumes "amendment_run a es a'" and "valid_amendment a" and "four_eyes a"
  shows "four_eyes a'"
  using assms
proof (induction rule: amendment_run.induct)
  case (next_event a es b e c)
  have b: "valid_amendment b" using run_valid [OF next_event.hyps(1) next_event.prems(1)] .
  from next_event.hyps(2) obtain action actor t where "transitionOrderAmendment b action actor t = Inr c"
    by (auto elim: amendment_step.cases)
  from transition_Inr [OF this b] obtain s where s: "next_status b action actor = Inr s" "c = decided b s actor t"
    by blast
  then show ?case by (auto simp: four_eyes_def decided_def next_status_def split: if_splits)
qed

text \<open>What waits for the kitchen goes on only once the kitchen has confirmed it.\<close>

lemma run_confirmed:
  assumes "amendment_run a es a'" and "valid_amendment a" and "am_status a = PendingKitchen"
  shows "(am_status a' = PendingKitchen \<longrightarrow> es = []) \<and>
    (am_status a' = PendingApproval \<or> am_status a' = Applied \<longrightarrow> (\<exists>actor t es'. es = (ConfirmKitchen, actor, t) # es'))"
  using assms
proof (induction rule: amendment_run.induct)
  case (next_event a es b e c)
  have b: "valid_amendment b" using run_valid [OF next_event.hyps(1) next_event.prems(1)] .
  from next_event.hyps(2) obtain action actor t where e: "e = (action, actor, t)"
    "transitionOrderAmendment b action actor t = Inr c" by (auto elim: amendment_step.cases)
  from transition_Inr [OF e(2) b] obtain s where s: "next_status b action actor = Inr s" "c = decided b s actor t"
    by blast
  with next_event.IH [OF next_event.prems] e(1) show ?case
    by (auto simp: decided_def next_status_def split: if_splits)
qed simp

definition example_amendment :: order_amendment where
  "example_amendment =
     \<lparr>am_amendmentReference = ''01890000-0000-7000-8000-000000000101'',
      am_orderReference = ''01890000-0000-7000-8000-000000000102'',
      am_tenantReference = ''01890000-0000-7000-8000-000000000103'',
      am_brandReference = ''01890000-0000-7000-8000-000000000104'',
      am_storeReference = ''01890000-0000-7000-8000-000000000105'',
      am_requestedByActorReference = ''01890000-0000-7000-8000-000000000106'', am_reasonCode = ''GUEST_REQUEST'',
      am_change = \<lparr>ac_kind = ReduceItem, ac_targetOrderItemReference = Some ''01890000-0000-7000-8000-000000000107'',
        ac_replacementSnapshotDigest = None, ac_quantityDelta = -1, ac_noteCode = None\<rparr>,
      am_expectedOrderVersion = 3, am_quoteReference = ''01890000-0000-7000-8000-000000000108'', am_quoteVersion = 1,
      am_quoteInputDigest = ''sha256:0000000000000000000000000000000000000000000000000000000000000000'',
      am_currencyCode = ''CAD'', am_originalTotalMinor = ''2600'', am_revisedTotalMinor = ''1300'',
      am_deltaMinor = ''-1300'', am_kitchenStatus = KitchenInProgress,
      am_fulfillmentStatus = FulfillmentNotStarted, am_approvalRequired = True,
      am_customerNoticeCode = ''ITEM_REDUCED'', am_status = PendingKitchen, am_aggregateVersion = 1,
      am_decidedByActorReference = None, am_requestedAt = ''2026-06-01T12:05:00.000Z'', am_decidedAt = None\<rparr>"

lemma example_amendment_facts:
  "uuid_v7 ''01890000-0000-7000-8000-000000000101''" "uuid_v7 ''01890000-0000-7000-8000-000000000102''"
  "uuid_v7 ''01890000-0000-7000-8000-000000000103''" "uuid_v7 ''01890000-0000-7000-8000-000000000104''"
  "uuid_v7 ''01890000-0000-7000-8000-000000000105''" "uuid_v7 ''01890000-0000-7000-8000-000000000106''"
  "uuid_v7 ''01890000-0000-7000-8000-000000000107''" "uuid_v7 ''01890000-0000-7000-8000-000000000108''"
  "uuid_v7 ''01890000-0000-7000-8000-000000000109''" "code_format ''_-'' ''GUEST_REQUEST''"
  "code_format ''_-'' ''ITEM_REDUCED''" "currency_format ''CAD''"
  "sha256_digest ''sha256:0000000000000000000000000000000000000000000000000000000000000000''"
  "parseable_instant ''2026-06-01T12:05:00.000Z''" "parseable_instant ''2026-06-01T12:10:00.000Z''"
  "money_text ''2600'' = Some 2600" "money_text ''1300'' = Some 1300" "money_text ''-1300'' = Some (-1300)"
  by code_simp+

lemma example_totals_printed: "int_str 2600 = ''2600''" "int_str 1300 = ''1300''" "int_str (-1300) = ''-1300''"
  by (simp_all add: int_str_def nat_str.simps digit_char_code)

lemma example_amendment_valid: "valid_amendment example_amendment"
  by (simp add: valid_amendment_def example_amendment_def example_amendment_facts valid_change_def change_shape_ok_def
      valid_total_def total_value_def example_totals_printed max_safe_def decision_bad_def pending_def
      del: money_text.simps)

definition confirmed_example :: order_amendment where
  "confirmed_example = decided example_amendment PendingApproval ''01890000-0000-7000-8000-000000000109''
     ''2026-06-01T12:10:00.000Z''"

definition approved_example :: order_amendment where
  "approved_example = decided confirmed_example Applied ''01890000-0000-7000-8000-000000000109''
     ''2026-06-01T12:10:00.000Z''"

definition example_events :: "amendment_event list" where
  "example_events =
     [(ConfirmKitchen, ''01890000-0000-7000-8000-000000000109'', ''2026-06-01T12:10:00.000Z''),
      (Approve, ''01890000-0000-7000-8000-000000000109'', ''2026-06-01T12:10:00.000Z'')]"

lemma example_amendment_run: "amendment_run example_amendment example_events approved_example"
proof -
  have 1: "amendment_step example_amendment
      (ConfirmKitchen, ''01890000-0000-7000-8000-000000000109'', ''2026-06-01T12:10:00.000Z'') confirmed_example"
    unfolding confirmed_example_def
    by (rule amendment_step.transition, rule transition_returns [OF example_amendment_valid])
      (simp_all add: example_amendment_facts next_status_def, simp_all add: example_amendment_def max_safe_def)
  then have v: "valid_amendment confirmed_example"
    using run_valid [OF amendment_run.next_event [OF amendment_run.start] example_amendment_valid] by blast
  have 2: "amendment_step confirmed_example
      (Approve, ''01890000-0000-7000-8000-000000000109'', ''2026-06-01T12:10:00.000Z'') approved_example"
    unfolding approved_example_def
    by (rule amendment_step.transition, rule transition_returns [OF v])
      (simp_all add: example_amendment_facts next_status_def confirmed_example_def decided_def,
       simp_all add: example_amendment_def max_safe_def)
  show ?thesis
    using amendment_run.next_event [OF amendment_run.next_event [OF amendment_run.start 1] 2]
    by (simp add: example_events_def)
qed

text \<open>
  C19. Amendments come to an end: from any valid amendment at most two events are possible (the kitchen's, then
  an approval), each raises the version by one and changes nothing but the status and the decision; a decided
  amendment admits no further event, and a pending one can always be aborted.
\<close>

theorem amendment_run_terminates:
  assumes "amendment_run a es a'" and "valid_amendment a"
  shows "length es \<le> 2 \<and> am_aggregateVersion a' = am_aggregateVersion a + int (length es) \<and> same_amendment a a' \<and>
    (\<not> pending (am_status a') \<longrightarrow> \<not> amendment_step a' e b) \<and>
    (pending (am_status a') \<and> uuid_v7 actor \<and> parseable_instant t \<and> am_aggregateVersion a' < max_safe \<longrightarrow>
      amendment_step a' (Abort, actor, t) (decided a' Aborted actor t))"
proof -
  have v: "valid_amendment a'" using run_valid assms by blast
  have "amendment_rank a \<le> 2" by (simp add: amendment_rank_def split: amendment_status.splits)
  moreover have "\<not> amendment_step a' e b" if "\<not> pending (am_status a')"
    using that by (auto elim!: amendment_step.cases simp: transitionOrderAmendment_def next_status_def pending_def bnd_eq_Inr)
  moreover have "amendment_step a' (Abort, actor, t) (decided a' Aborted actor t)"
    if "pending (am_status a')" "uuid_v7 actor" "parseable_instant t" "am_aggregateVersion a' < max_safe"
    using transition_returns [OF v _ that(3,2,4), of Abort Aborted] that(1)
    by (auto simp: next_status_def intro: amendment_step.transition)
  ultimately show ?thesis using run_bound [OF assms] by linarith
qed

theorem amendment_run_terminates_witness:
  "length example_events \<le> 2 \<and> am_aggregateVersion approved_example = 3 \<and>
   \<not> amendment_step approved_example (Abort, ''01890000-0000-7000-8000-000000000109'', ''2026-06-01T12:10:00.000Z'')
     approved_example"
  using amendment_run_terminates [OF example_amendment_run example_amendment_valid]
  by (simp add: approved_example_def confirmed_example_def decided_def pending_def example_amendment_def)

text \<open>
  Separation of duties: an amendment that starts in the status the code assigns and needs an approval is
  applied only by an actor other than the one who requested it; and if it takes something away that the
  kitchen has begun, the kitchen's confirmation comes first.
\<close>

theorem amendment_four_eyes:
  assumes "amendment_run a es a'" and "valid_amendment a"
    and "initialAmendmentStatus (ac_kind (am_change a)) (am_kitchenStatus a) (am_approvalRequired a) = Inr (am_status a)"
    and "am_status a' = Applied"
  shows "(am_approvalRequired a' \<longrightarrow>
      am_decidedByActorReference a' \<notin> {None, Some (am_requestedByActorReference a')}) \<and>
    (destructive (ac_kind (am_change a)) \<and> am_kitchenStatus a = KitchenInProgress \<longrightarrow>
      (\<exists>actor t es'. es = (ConfirmKitchen, actor, t) # es'))"
proof -
  have "four_eyes a" using assms(3) by (auto simp: four_eyes_def initialAmendmentStatus_def split: if_splits)
  from run_four_eyes [OF assms(1,2) this] run_confirmed [OF assms(1,2)] assms(3,4) show ?thesis
    by (auto simp: four_eyes_def initialAmendmentStatus_def split: if_splits)
qed

theorem amendment_four_eyes_witness:
  "am_decidedByActorReference approved_example \<noteq> Some (am_requestedByActorReference approved_example)"
proof -
  have "initialAmendmentStatus (ac_kind (am_change example_amendment)) (am_kitchenStatus example_amendment)
      (am_approvalRequired example_amendment) = Inr (am_status example_amendment)"
    by (simp add: initialAmendmentStatus_def destructive_def example_amendment_def)
  from amendment_four_eyes [OF example_amendment_run example_amendment_valid this]
  show ?thesis by (simp add: approved_example_def confirmed_example_def decided_def example_amendment_def)
qed

end
