(* ===== verification/JsonText.thy ===== *)
theory JsonText
  imports Prelude
begin

text \<open>
  The JSON texts that the command services hash: \<open>JSON.stringify\<close> of objects of strings, integers, \<open>null\<close>
  and lists. Each text can be read back in one way only, so a hash of it stands for the values.
\<close>

section \<open>Texts\<close>

definition char_code :: "char \<Rightarrow> nat" where
  "char_code c = of_char c"

definition hex_digit :: "nat \<Rightarrow> char" where
  "hex_digit n = ''0123456789abcdef'' ! (n mod 16)"

text \<open>
  The quote, the backslash and the characters below 32 are escaped, the other characters stand for
  themselves.
\<close>

definition json_char :: "char \<Rightarrow> string" where
  "json_char c =
     (if c = CHR 0x22 then [CHR 0x5C, CHR 0x22]
      else if c = CHR 0x5C then [CHR 0x5C, CHR 0x5C]
      else if c = CHR 0x08 then [CHR 0x5C, CHR ''b'']
      else if c = CHR 0x09 then [CHR 0x5C, CHR ''t'']
      else if c = CHR 0x0A then [CHR 0x5C, CHR ''n'']
      else if c = CHR 0x0C then [CHR 0x5C, CHR ''f'']
      else if c = CHR 0x0D then [CHR 0x5C, CHR ''r'']
      else if char_code c < 32
      then [CHR 0x5C, CHR ''u'', CHR ''0'', CHR ''0'', hex_digit (char_code c div 16), hex_digit (char_code c)]
      else [c])"

definition json_text :: "string \<Rightarrow> string" where
  "json_text s = CHR 0x22 # concat (map json_char s) @ [CHR 0x22]"

fun json_list :: "string list \<Rightarrow> string" where
  "json_list [] = []"
| "json_list [x] = x"
| "json_list (x # y # xs) = x @ CHR '','' # json_list (y # xs)"

definition json_array :: "string list \<Rightarrow> string" where
  "json_array xs = CHR ''['' # json_list xs @ [CHR '']'']"

definition json_object :: "(string \<times> string) list \<Rightarrow> string" where
  "json_object ps = CHR ''{'' # json_list (map (\<lambda>(k, v). json_text k @ CHR '':'' # v) ps) @ [CHR ''}'']"

section \<open>Reading back\<close>

definition hex_value :: "char \<Rightarrow> nat" where
  "hex_value c = (if is_digit c then char_code c - 48 else char_code c - 87)"

text \<open>The character that an escape sequence, or a plain character, starts with.\<close>

fun unescape :: "string \<Rightarrow> (nat \<times> string) option" where
  "unescape [] = None"
| "unescape (c # r) =
     (if c \<noteq> CHR 0x5C then Some (char_code c, r)
      else case r of
        [] \<Rightarrow> None
      | d # r' \<Rightarrow>
          if d = CHR ''u'' then Some (16 * hex_value (r' ! 2) + hex_value (r' ! 3), drop 4 r')
          else if d = CHR ''b'' then Some (8, r') else if d = CHR ''t'' then Some (9, r')
          else if d = CHR ''n'' then Some (10, r') else if d = CHR ''f'' then Some (12, r')
          else if d = CHR ''r'' then Some (13, r') else Some (char_code d, r'))"

lemma char_code_inj: "char_code c = char_code d \<Longrightarrow> c = d"
  by (simp add: char_code_def)

lemma small_code: "(n :: nat) < 32 \<Longrightarrow> n \<in> {0, 1, 2, 3, 4, 5, 6, 7, 8, 9, 10, 11, 12, 13, 14, 15, 16, 17, 18, 19, 20,
  21, 22, 23, 24, 25, 26, 27, 28, 29, 30, 31}"
  by simp arith

lemma hex_small: "n < 32 \<Longrightarrow> 16 * hex_value (hex_digit (n div 16)) + hex_value (hex_digit n) = n"
  by (drule small_code, elim insertE emptyE; simp add: hex_value_def hex_digit_def is_digit_def in_range_def char_code_def)

lemma unescape_json_char: "unescape (json_char c @ r) = Some (char_code c, r)"
  using hex_small [of "char_code c"] by (simp add: json_char_def char_code_def)

lemma json_char_inj: "json_char c @ r = json_char d @ r' \<Longrightarrow> c = d \<and> r = r'"
  using unescape_json_char [of c r] unescape_json_char [of d r'] char_code_inj by auto

lemma json_char_no_quote: "json_char c @ r \<noteq> CHR 0x22 # r'"
  by (simp add: json_char_def)

lemma json_chars_inj:
  "concat (map json_char s) @ CHR 0x22 # r = concat (map json_char t) @ CHR 0x22 # r' \<Longrightarrow> s = t \<and> r = r'"
proof (induction s arbitrary: t)
  case Nil
  then show ?case using json_char_no_quote by (cases t) (force dest: sym)+
next
  case (Cons c s)
  show ?case
  proof (cases t)
    case Nil
    with Cons.prems show ?thesis
      using json_char_no_quote [of c "concat (map json_char s) @ CHR 0x22 # r" r'] by simp
  next
    case (Cons d t')
    with Cons.prems json_char_inj [of c "concat (map json_char s) @ CHR 0x22 # r" d
        "concat (map json_char t') @ CHR 0x22 # r'"] Cons.IH [of t'] show ?thesis by simp
  qed
qed

lemma json_text_code [simp]: "json_text s @ r = json_text t @ r' \<longleftrightarrow> s = t \<and> r = r'"
  using json_chars_inj [of s r t r'] by (auto simp: json_text_def)

lemma json_text_inj [simp]: "json_text s = json_text t \<longleftrightarrow> s = t"
  using json_text_code [of s "[]" t "[]"] by simp

text \<open>Integers end where no digit follows.\<close>

fun delimited :: "string \<Rightarrow> bool" where
  "delimited [] = True"
| "delimited (c # r) = (\<not> is_digit c)"

lemma take_digits: "list_all is_digit s \<Longrightarrow> delimited r \<Longrightarrow> takeWhile is_digit (s @ r) = s"
  by (induction s) (cases r; auto)+

lemma nat_str_code:
  assumes "delimited r" and "delimited r'" and "nat_str n @ r = nat_str m @ r'"
  shows "n = m \<and> r = r'"
proof -
  have "nat_str n = nat_str m"
    using take_digits [OF nat_str_digits assms(1), of n] take_digits [OF nat_str_digits assms(2), of m] assms(3) by simp
  moreover from this have "n = m" using dec_val_nat_str by (metis of_nat_eq_iff)
  ultimately show ?thesis using assms(3) by simp
qed

lemma nat_str_head: "nat_str n @ r \<noteq> CHR ''-'' # r'"
  using nat_str_digits [of n] by (cases "nat_str n") (auto simp: is_digit_def in_range_def)

lemma int_str_code [simp]:
  assumes "delimited r" and "delimited r'"
  shows "int_str n @ r = int_str m @ r' \<longleftrightarrow> n = m \<and> r = r'"
proof
  assume h: "int_str n @ r = int_str m @ r'"
  have "n < 0 \<longleftrightarrow> m < 0"
    using h nat_str_head [of "nat n" r "nat_str (nat (- m)) @ r'"] nat_str_head [of "nat m" r' "nat_str (nat (- n)) @ r"]
    by (simp add: int_str_def split: if_splits)
  then show "n = m \<and> r = r'"
    using h nat_str_code [OF assms, of "nat n" "nat m"] nat_str_code [OF assms, of "nat (- n)" "nat (- m)"]
    by (cases "n < 0") (simp_all add: int_str_def nat_eq_iff not_less)
qed simp

lemma separators [simp]:
  "\<not> is_digit (CHR '','')" "\<not> is_digit (CHR ''}'')" "\<not> is_digit (CHR '']'')"
  by (simp_all add: is_digit_def in_range_def)

text \<open>Lists of texts that can be told apart.\<close>

lemma json_array_code:
  assumes "\<And>x y r r'. enc x @ r = enc y @ r' \<longleftrightarrow> x = y \<and> r = r'" and "\<And>x. enc x \<noteq> [] \<and> hd (enc x) \<noteq> CHR '']''"
  shows "json_array (map enc xs) @ r = json_array (map enc ys) @ r' \<longleftrightarrow> xs = ys \<and> r = r'"
proof -
  have head: "enc x @ t \<noteq> CHR '']'' # t'" for x t t'
    using assms(2) [of x] by (cases "enc x") auto
  have cons: "json_list (map enc (x # xs)) = enc x @ (if xs = [] then [] else CHR '','' # json_list (map enc xs))" for x xs
    by (cases xs) auto
  have "json_list (map enc xs) @ CHR '']'' # r = json_list (map enc ys) @ CHR '']'' # r' \<Longrightarrow> xs = ys \<and> r = r'"
  proof (induction xs arbitrary: ys)
    case Nil
    show ?case
    proof (cases ys)
      case (Cons y ys')
      with Nil head [of y] show ?thesis by (simp only: Cons cons) (auto dest: sym)
    qed (use Nil in simp)
  next
    case (Cons x xs)
    show ?case
    proof (cases ys)
      case Nil
      with Cons.prems head [of x] show ?thesis by (simp only: Nil cons) auto
    next
      case (Cons y ys')
      with Cons.prems have "enc x @ (if xs = [] then [] else CHR '','' # json_list (map enc xs)) @ CHR '']'' # r =
          enc y @ (if ys' = [] then [] else CHR '','' # json_list (map enc ys')) @ CHR '']'' # r'"
        by (simp only: cons append_assoc)
      with assms(1) have "x = y" "(if xs = [] then [] else CHR '','' # json_list (map enc xs)) @ CHR '']'' # r =
          (if ys' = [] then [] else CHR '','' # json_list (map enc ys')) @ CHR '']'' # r'" by blast+
      with Cons.IH [of ys'] Cons show ?thesis by (auto split: if_splits)
    qed
  qed
  then show ?thesis by (auto simp: json_array_def)
qed

end
