(* ===== verification/AuditRecords.thy ===== *)
theory AuditRecords
  imports OrderingValues JsonText
begin

text \<open>
  Audit records: \<open>packages/bop/audit/src/contracts/validate-audit-record.ts\<close>. Every command handler
  carries an audit record for its effect and has it validated before it commits: closed set of fields,
  stable codes, a time not in the future, and summaries that hold neither secrets nor payloads.
\<close>

section \<open>Formats\<close>

text \<open>The lower case of an ASCII letter: upper-case letters differ in one bit.\<close>

fun lower_char :: "char \<Rightarrow> char" where
  "lower_char (Char b0 b1 b2 b3 b4 b5 b6 b7) =
     (if is_upper (Char b0 b1 b2 b3 b4 b5 b6 b7) then Char b0 b1 b2 b3 b4 True b6 b7
      else Char b0 b1 b2 b3 b4 b5 b6 b7)"

definition is_lower :: "char \<Rightarrow> bool" where
  "is_lower c \<longleftrightarrow> in_range 97 122 c"

lemma is_lower_code [code]:
  "is_lower (Char b0 b1 b2 b3 b4 b5 b6 b7) \<longleftrightarrow> b5 \<and> is_upper (Char b0 b1 b2 b3 b4 False b6 b7)"
  by (cases b0; cases b1; cases b2; cases b3; cases b4; cases b5; cases b6; cases b7)
    (simp_all add: is_lower_def is_upper_def in_range_def)

definition is_alnum :: "char \<Rightarrow> bool" where
  "is_alnum c \<longleftrightarrow> is_upper c \<or> is_lower c \<or> is_digit c"

text \<open>The pattern of a version 7 UUID with the flag \<open>i\<close>.\<close>

definition uuid_v7_any_case :: "string \<Rightarrow> bool" where
  "uuid_v7_any_case s \<longleftrightarrow> uuid_v7 (map lower_char s)"

text \<open>\<open>/^[A-Z][A-Z0-9_]{0,127}$/u\<close> and \<open>/^[A-Z][A-Za-z0-9]{0,127}$/u\<close>.\<close>

definition stable_code_format :: "string \<Rightarrow> bool" where
  "stable_code_format s \<longleftrightarrow>
     (case s of [] \<Rightarrow> False
      | c # cs \<Rightarrow> is_upper c \<and> length cs \<le> 127 \<and> list_all (\<lambda>d. is_upper d \<or> is_digit d \<or> d = CHR ''_'') cs)"

definition target_type_format :: "string \<Rightarrow> bool" where
  "target_type_format s \<longleftrightarrow>
     (case s of [] \<Rightarrow> False | c # cs \<Rightarrow> is_upper c \<and> length cs \<le> 127 \<and> list_all is_alnum cs)"

text \<open>A pattern searched anywhere in a string: a predicate on the rest of the string at each position.\<close>

fun found :: "(string \<Rightarrow> bool) \<Rightarrow> string \<Rightarrow> bool" where
  "found P [] = P []"
| "found P (c # s) = (P (c # s) \<or> found P s)"

definition starts :: "string \<Rightarrow> string \<Rightarrow> bool" where
  "starts p s \<longleftrightarrow> take (length p) s = p"

text \<open>\<open>a.?b\<close>: two words with at most one character between them, other than a line terminator.\<close>

definition starts_split :: "string \<Rightarrow> string \<Rightarrow> string \<Rightarrow> bool" where
  "starts_split a b s \<longleftrightarrow> starts (a @ b) s \<or>
     (starts a s \<and>
      (case drop (length a) s of [] \<Rightarrow> False
       | c # r \<Rightarrow> c \<notin> {CHR 0x0A, CHR 0x0D} \<and> starts b r))"

definition prohibited_key :: "string \<Rightarrow> bool" where
  "prohibited_key k \<longleftrightarrow>
     found (\<lambda>s. list_ex (\<lambda>w. starts w s)
         [''secret'', ''token'', ''password'', ''credential'', ''authorization'', ''cookie'', ''session'',
          ''pan'', ''cvv'', ''health'', ''allerg''] \<or>
       starts_split ''card'' ''number'' s \<or> starts_split ''provider'' ''payload'' s \<or>
       starts_split ''request'' ''body'' s) (map lower_char k)"

text \<open>\<open>\s\<close> below 256, and the word characters of \<open>\b\<close>.\<close>

definition is_space :: "char \<Rightarrow> bool" where
  "is_space c \<longleftrightarrow> c \<in> {CHR 0x09, CHR 0x0A, CHR 0x0B, CHR 0x0C, CHR 0x0D, CHR '' '', CHR 0xA0}"

definition is_word :: "char \<Rightarrow> bool" where
  "is_word c \<longleftrightarrow> is_alnum c \<or> c = CHR ''_''"

text \<open>\<open>Bearer\s+[A-Za-z0-9._~-]+\<close> at the start of a string.\<close>

definition bearer_here :: "string \<Rightarrow> bool" where
  "bearer_here s \<longleftrightarrow> starts ''Bearer'' s \<and>
     (let r = drop 6 s; t = dropWhile is_space r in
      r \<noteq> [] \<and> is_space (hd r) \<and> t \<noteq> [] \<and> (is_alnum (hd t) \<or> hd t \<in> set ''._~-''))"

text \<open>The word boundary in front of \<open>Bearer\<close>: the character before is not a word character.\<close>

fun bearer_found :: "bool \<Rightarrow> string \<Rightarrow> bool" where
  "bearer_found boundary [] = False"
| "bearer_found boundary (c # s) = (boundary \<and> bearer_here (c # s) \<or> bearer_found (\<not> is_word c) s)"

definition live_key_here :: "string \<Rightarrow> bool" where
  "live_key_here s \<longleftrightarrow>
     list_ex (\<lambda>p. starts p s \<and> (case drop (length p) s of [] \<Rightarrow> False | c # _ \<Rightarrow> is_alnum c))
       [''sk_live_'', ''sk_test_'']"

definition private_key_here :: "string \<Rightarrow> bool" where
  "private_key_here s \<longleftrightarrow> starts ''-----BEGIN '' s \<and>
     (let r = drop 11 s; n = length (takeWhile (\<lambda>c. is_upper c \<or> c = CHR '' '') r) in
      list_ex (\<lambda>j. starts ''PRIVATE KEY-----'' (drop j r)) [1..<n + 1])"

definition prohibited_value :: "string \<Rightarrow> bool" where
  "prohibited_value s \<longleftrightarrow> bearer_found True s \<or> found live_key_here s \<or> found private_key_here s"

section \<open>Summaries\<close>

definition audit_invalid :: "string \<Rightarrow> err" where
  "audit_invalid field = InvalidAuditRecordError field"

text \<open>
  \<open>inspectJson\<close>: the number of fields seen so far is threaded through. A value that is neither JSON nor
  a plain object fails; reading the prototype of \<open>undefined\<close> raises a \<open>TypeError\<close>. The numbers of a summary
  are integers; a \<open>JNonInt\<close> here stands for \<open>NaN\<close> or an infinity, which the code rejects.
\<close>

fun inspect_json :: "string \<Rightarrow> nat \<Rightarrow> js \<Rightarrow> nat \<Rightarrow> nat res"
  and inspect_items :: "string \<Rightarrow> nat \<Rightarrow> js list \<Rightarrow> nat \<Rightarrow> nat res"
  and inspect_entries :: "string \<Rightarrow> nat \<Rightarrow> (string \<times> js) list \<Rightarrow> nat \<Rightarrow> nat res" where
  "inspect_json field depth v fs =
     (if 8 < depth then Inl (audit_invalid field) else
      (case v of
        JStr s \<Rightarrow> if 2048 < length s \<or> prohibited_value s then Inl (audit_invalid field) else Inr fs
      | JNull \<Rightarrow> Inr fs
      | JBool b \<Rightarrow> Inr fs
      | JNum n \<Rightarrow> Inr fs
      | JArr vs \<Rightarrow> inspect_items field (depth + 1) vs fs
      | JObj ps \<Rightarrow> inspect_entries field (depth + 1) ps fs
      | JUndefined \<Rightarrow> Inl TypeError
      | _ \<Rightarrow> Inl (audit_invalid field)))"
| "inspect_items field depth [] fs = Inr fs"
| "inspect_items field depth (v # vs) fs = bnd (inspect_json field depth v fs) (inspect_items field depth vs)"
| "inspect_entries field depth [] fs = Inr fs"
| "inspect_entries field depth ((k, v) # ps) fs =
     (if 128 < fs + 1 \<or> k = [] \<or> 64 < length k \<or> prohibited_key k then Inl (audit_invalid field)
      else bnd (inspect_json field depth v (fs + 1)) (inspect_entries field depth ps))"

text \<open>
  The number of UTF-8 bytes of \<open>JSON.stringify\<close>: quotes, the short escapes and \<open>\u00XX\<close> for the
  other control characters, two bytes from 128 on; integers below \<open>10^21\<close> are written in decimal.
\<close>

definition json_char_bytes :: "char \<Rightarrow> nat" where
  "json_char_bytes c =
     (if c \<in> {CHR 0x22, CHR 0x5C, CHR 0x08, CHR 0x09, CHR 0x0A, CHR 0x0C, CHR 0x0D} then 2
      else if char_code c < 32 then 6 else if char_code c < 128 then 1 else 2)"

definition json_string_bytes :: "string \<Rightarrow> nat" where
  "json_string_bytes s = 2 + sum_list (map json_char_bytes s)"

fun json_bytes :: "js \<Rightarrow> nat"
  and json_list_bytes :: "js list \<Rightarrow> nat"
  and json_entries_bytes :: "(string \<times> js) list \<Rightarrow> nat" where
  "json_bytes (JStr s) = json_string_bytes s"
| "json_bytes (JBool b) = (if b then 4 else 5)"
| "json_bytes (JNum n) = length (int_str n)"
| "json_bytes (JArr vs) = 2 + json_list_bytes vs + (length vs - 1)"
| "json_bytes (JObj ps) = 2 + json_entries_bytes ps + (length ps - 1)"
| "json_bytes _ = 4"
| "json_list_bytes [] = 0"
| "json_list_bytes (v # vs) = json_bytes v + json_list_bytes vs"
| "json_entries_bytes [] = 0"
| "json_entries_bytes ((k, v) # ps) = json_string_bytes k + 1 + json_bytes v + json_entries_bytes ps"

definition audit_summary :: "string \<Rightarrow> js \<Rightarrow> nat res" where
  "audit_summary field v =
     (if v = JUndefined then Inr 0
      else bnd (inspect_json field 1 v 0) (\<lambda>_.
           let bytes = json_bytes v in
           if 16384 < bytes then Inl (audit_invalid field) else Inr bytes))"

section \<open>Records\<close>

definition audit_fields :: "string list" where
  "audit_fields =
     [''actionCode'', ''actor'', ''afterSummary'', ''auditId'', ''beforeSummary'', ''brandId'', ''correlationId'',
      ''correctsAuditId'', ''dataClassification'', ''deviceNetworkReference'', ''occurredAt'', ''reasonCode'',
      ''retentionPolicyCode'', ''retentionPolicyVersion'', ''sourceChannel'', ''storeId'', ''targetId'', ''targetType'']"

definition requireUuid :: "string \<Rightarrow> js \<Rightarrow> unit res" where
  "requireUuid field v = throw_if (str_if uuid_v7_any_case v = None) (audit_invalid field)"

definition optionalUuid :: "string \<Rightarrow> js \<Rightarrow> unit res" where
  "optionalUuid field v = (if v = JUndefined then Inr () else requireUuid field v)"

text \<open>\<open>pattern.test(v)\<close> reads \<open>v\<close> as a string first.\<close>

definition reads_as :: "(string \<Rightarrow> bool) \<Rightarrow> js \<Rightarrow> bool" where
  "reads_as P v = (case names_string v of None \<Rightarrow> False | Some s \<Rightarrow> P s)"

definition audit_actor :: "js \<Rightarrow> unit res" where
  "audit_actor v =
     (if fld v ''type'' = JStr ''System''
      then throw_if (length (own_keys v) \<noteq> 1) (audit_invalid ''actor'')
      else if fld v ''type'' = JStr ''User'' \<or> fld v ''type'' = JStr ''Service''
      then bnd (throw_if (length (own_keys v) \<noteq> 2) (audit_invalid ''actor'')) (\<lambda>_.
           requireUuid ''actor.reference'' (fld v ''reference''))
      else Inl (audit_invalid ''actor''))"

text \<open>\<open>occurredAt\<close>: a canonical instant, at most five minutes after \<open>now\<close>; \<open>endsWith\<close> needs a string.\<close>

definition audit_occurred :: "js \<Rightarrow> int \<Rightarrow> unit res" where
  "audit_occurred v now = (case v of
     JStr s \<Rightarrow> throw_if (\<not> (canonical_instant s \<and> ms_of s \<le> now + 300000)) (audit_invalid ''occurredAt'')
   | _ \<Rightarrow> Inl TypeError)"

definition validateAuditRecord :: "js \<Rightarrow> int \<Rightarrow> js res" where
  "validateAuditRecord v now =
     bnd (throw_if (\<not> is_plain v) (audit_invalid ''record'')) (\<lambda>_.
     bnd (throw_if (\<not> list_all (\<lambda>k. k \<in> set audit_fields) (own_keys v)) (audit_invalid ''record'')) (\<lambda>_.
     bnd (requireUuid ''auditId'' (fld v ''auditId'')) (\<lambda>_.
     bnd (requireUuid ''brandId'' (fld v ''brandId'')) (\<lambda>_.
     bnd (optionalUuid ''storeId'' (fld v ''storeId'')) (\<lambda>_.
     bnd (audit_actor (fld v ''actor'')) (\<lambda>_.
     bnd (throw_if (\<not> reads_as stable_code_format (fld v ''actionCode'')) (audit_invalid ''actionCode'')) (\<lambda>_.
     bnd (throw_if (\<not> reads_as target_type_format (fld v ''targetType'')) (audit_invalid ''targetType'')) (\<lambda>_.
     bnd (requireUuid ''targetId'' (fld v ''targetId'')) (\<lambda>_.
     bnd (audit_summary ''beforeSummary'' (fld v ''beforeSummary'')) (\<lambda>before.
     bnd (audit_summary ''afterSummary'' (fld v ''afterSummary'')) (\<lambda>after.
     bnd (throw_if (32768 < before + after) (audit_invalid ''summaries'')) (\<lambda>_.
     bnd (throw_if (\<not> reads_as stable_code_format (fld v ''reasonCode'')) (audit_invalid ''reasonCode'')) (\<lambda>_.
     bnd (requireUuid ''correlationId'' (fld v ''correlationId'')) (\<lambda>_.
     bnd (audit_occurred (fld v ''occurredAt'') now) (\<lambda>_.
     bnd (throw_if (\<not> reads_as stable_code_format (fld v ''sourceChannel'')) (audit_invalid ''sourceChannel'')) (\<lambda>_.
     bnd (optionalUuid ''deviceNetworkReference'' (fld v ''deviceNetworkReference'')) (\<lambda>_.
     bnd (throw_if (fld v ''dataClassification'' \<notin>
              set (map JStr [''Public'', ''Internal'', ''Confidential'', ''Restricted''])) (audit_invalid ''dataClassification'')) (\<lambda>_.
     bnd (throw_if (\<not> reads_as stable_code_format (fld v ''retentionPolicyCode''))
            (audit_invalid ''retentionPolicyCode'')) (\<lambda>_.
     bnd (or_throw (safe_int_in 1 max_safe (fld v ''retentionPolicyVersion'')) (audit_invalid ''retentionPolicyVersion'')) (\<lambda>_.
     bnd (optionalUuid ''correctsAuditId'' (fld v ''correctsAuditId'')) (\<lambda>_.
     bnd (throw_if (fld v ''correctsAuditId'' \<noteq> JUndefined \<and> fld v ''correctsAuditId'' = fld v ''auditId'')
            (audit_invalid ''correctsAuditId'')) (\<lambda>_.
     Inr v))))))))))))))))))))))"

lemma validateAuditRecord_Inr: "validateAuditRecord v now = Inr w \<Longrightarrow> w = v \<and> is_plain v"
  unfolding validateAuditRecord_def bnd_eq_Inr throw_if_eq_Inr by (elim exE conjE) simp

section \<open>What an accepted summary holds\<close>

text \<open>All strings and all field names of a value, at any depth, and how deep it is nested.\<close>

fun json_texts :: "js \<Rightarrow> string list" and json_list_texts :: "js list \<Rightarrow> string list"
  and json_entries_texts :: "(string \<times> js) list \<Rightarrow> string list" where
  "json_texts (JStr s) = [s]"
| "json_texts (JArr vs) = json_list_texts vs"
| "json_texts (JObj ps) = json_entries_texts ps"
| "json_texts _ = []"
| "json_list_texts [] = []"
| "json_list_texts (v # vs) = json_texts v @ json_list_texts vs"
| "json_entries_texts [] = []"
| "json_entries_texts ((k, v) # ps) = json_texts v @ json_entries_texts ps"

fun json_names :: "js \<Rightarrow> string list" and json_list_names :: "js list \<Rightarrow> string list"
  and json_entries_names :: "(string \<times> js) list \<Rightarrow> string list" where
  "json_names (JArr vs) = json_list_names vs"
| "json_names (JObj ps) = json_entries_names ps"
| "json_names _ = []"
| "json_list_names [] = []"
| "json_list_names (v # vs) = json_names v @ json_list_names vs"
| "json_entries_names [] = []"
| "json_entries_names ((k, v) # ps) = k # json_names v @ json_entries_names ps"

fun json_depth :: "js \<Rightarrow> nat" and json_list_depth :: "js list \<Rightarrow> nat"
  and json_entries_depth :: "(string \<times> js) list \<Rightarrow> nat" where
  "json_depth (JArr vs) = json_list_depth vs"
| "json_depth (JObj ps) = json_entries_depth ps"
| "json_depth _ = 0"
| "json_list_depth [] = 0"
| "json_list_depth (v # vs) = max (1 + json_depth v) (json_list_depth vs)"
| "json_entries_depth [] = 0"
| "json_entries_depth ((k, v) # ps) = max (1 + json_depth v) (json_entries_depth ps)"

definition clean_text :: "string \<Rightarrow> bool" where
  "clean_text s \<longleftrightarrow> length s \<le> 2048 \<and> \<not> prohibited_value s"

definition clean_name :: "string \<Rightarrow> bool" where
  "clean_name k \<longleftrightarrow> k \<noteq> [] \<and> length k \<le> 64 \<and> \<not> prohibited_key k"

lemma inspected:
  "inspect_json field d v fs = Inr fs' \<Longrightarrow> fs \<le> 128 \<Longrightarrow>
     list_all clean_text (json_texts v) \<and> list_all clean_name (json_names v) \<and>
     fs' = fs + length (json_names v) \<and> fs' \<le> 128 \<and> d + json_depth v \<le> 8"
  "inspect_items field d vs fs = Inr fs' \<Longrightarrow> fs \<le> 128 \<Longrightarrow>
     list_all clean_text (json_list_texts vs) \<and> list_all clean_name (json_list_names vs) \<and>
     fs' = fs + length (json_list_names vs) \<and> fs' \<le> 128 \<and> (vs \<noteq> [] \<longrightarrow> d + json_list_depth vs \<le> 9)"
  "inspect_entries field d ps fs = Inr fs' \<Longrightarrow> fs \<le> 128 \<Longrightarrow>
     list_all clean_text (json_entries_texts ps) \<and> list_all clean_name (json_entries_names ps) \<and>
     fs' = fs + length (json_entries_names ps) \<and> fs' \<le> 128 \<and> (ps \<noteq> [] \<longrightarrow> d + json_entries_depth ps \<le> 9)"
proof (induction field d v fs and field d vs fs and field d ps fs arbitrary: fs' and fs' and fs'
    rule: inspect_json_inspect_items_inspect_entries.induct)
  case (1 field depth v fs)
  from "1.prems" have d: "depth \<le> 8" by (simp split: if_splits)
  show ?case
  proof (cases v)
    case (JArr vs)
    with "1.prems" d have "inspect_items field (depth + 1) vs fs = Inr fs'" by simp
    with "1.IH"(1) [OF _ JArr] "1.prems"(2) d have "list_all clean_text (json_list_texts vs) \<and>
        list_all clean_name (json_list_names vs) \<and> fs' = fs + length (json_list_names vs) \<and> fs' \<le> 128 \<and>
        (vs \<noteq> [] \<longrightarrow> depth + 1 + json_list_depth vs \<le> 9)" by (simp add: not_less)
    with JArr d show ?thesis by (cases vs) simp_all
  next
    case (JObj ps)
    with "1.prems" d have "inspect_entries field (depth + 1) ps fs = Inr fs'" by simp
    with "1.IH"(2) [OF _ JObj] "1.prems"(2) d have "list_all clean_text (json_entries_texts ps) \<and>
        list_all clean_name (json_entries_names ps) \<and> fs' = fs + length (json_entries_names ps) \<and> fs' \<le> 128 \<and>
        (ps \<noteq> [] \<longrightarrow> depth + 1 + json_entries_depth ps \<le> 9)" by (simp add: not_less)
    with JObj d show ?thesis by (cases ps) simp_all
  qed (use "1.prems" d in \<open>auto simp: clean_text_def split: if_splits\<close>)
next
  case (3 field depth v vs fs)
  from "3.prems" obtain m where m: "inspect_json field depth v fs = Inr m" "inspect_items field depth vs m = Inr fs'"
    by (auto simp: bnd_eq_Inr)
  from "3.IH"(1) [OF m(1) "3.prems"(2)] "3.IH"(2) [OF m(1) m(2)] show ?case by (cases vs) auto
next
  case (5 field depth k v ps fs)
  from "5.prems" obtain m where k: "fs + 1 \<le> 128" "clean_name k" and
    m: "inspect_json field depth v (fs + 1) = Inr m" "inspect_entries field depth ps m = Inr fs'"
    by (auto simp: bnd_eq_Inr clean_name_def split: if_splits)
  have c: "\<not> (128 < fs + 1 \<or> k = [] \<or> 64 < length k \<or> prohibited_key k)"
    using k by (auto simp: clean_name_def)
  from "5.IH"(1) [OF c m(1) k(1)] "5.IH"(2) [OF c m(1) m(2)] k show ?case by (cases ps) auto
qed simp_all

definition clean_summary :: "js \<Rightarrow> bool" where
  "clean_summary v \<longleftrightarrow> v = JUndefined \<or>
     (list_all clean_text (json_texts v) \<and> list_all clean_name (json_names v) \<and>
      length (json_names v) \<le> 128 \<and> json_depth v \<le> 7 \<and> json_bytes v \<le> 16384)"

lemma audit_summary_clean: "audit_summary field v = Inr n \<Longrightarrow> clean_summary v"
  by (auto simp: audit_summary_def clean_summary_def bnd_eq_Inr Let_def simp del: inspect_json.simps
      dest!: inspected(1) split: if_splits)

lemma validateAuditRecord_summaries:
  "validateAuditRecord v now = Inr w \<Longrightarrow>
   \<exists>b a. audit_summary ''beforeSummary'' (fld v ''beforeSummary'') = Inr b \<and>
     audit_summary ''afterSummary'' (fld v ''afterSummary'') = Inr a \<and>
     audit_occurred (fld v ''occurredAt'') now = Inr ()"
  unfolding validateAuditRecord_def bnd_eq_Inr by (elim exE conjE) simp

section \<open>Properties\<close>

text \<open>
  C23. No secret reaches the audit log through a summary: in a record that the validator accepts, the
  summaries before and after hold, at any depth of nesting, no string in which a bearer token, a live
  key or a private key is found and no field name that suggests a credential, a card, a payload or
  health data; they have at most 128 fields, 8 levels and 16 KiB, and the record is not from the future.
\<close>

theorem accepted_audit_is_clean:
  assumes "validateAuditRecord v now = Inr w"
  shows "w = v \<and> clean_summary (fld v ''beforeSummary'') \<and> clean_summary (fld v ''afterSummary'') \<and>
    (\<exists>t. fld v ''occurredAt'' = JStr t \<and> canonical_instant t \<and> ms_of t \<le> now + 300000)"
proof -
  from validateAuditRecord_summaries [OF assms] obtain b a where
    "audit_summary ''beforeSummary'' (fld v ''beforeSummary'') = Inr b"
    "audit_summary ''afterSummary'' (fld v ''afterSummary'') = Inr a"
    and o: "audit_occurred (fld v ''occurredAt'') now = Inr ()" by blast
  then show ?thesis
    using audit_summary_clean validateAuditRecord_Inr [OF assms]
    by (auto simp: audit_occurred_def throw_if_eq_Inr split: js.splits)
qed

definition example_audit :: js where
  "example_audit = JObj
     [(''auditId'', JStr ''01890000-0000-7000-8000-0000000000a1''),
      (''brandId'', JStr ''01890000-0000-7000-8000-000000000012''),
      (''actor'', JObj [(''type'', JStr ''User''), (''reference'', JStr ''01890000-0000-7000-8000-000000000041'')]),
      (''actionCode'', JStr ''PRICE_CHANGED''), (''targetType'', JStr ''PriceBook''),
      (''targetId'', JStr ''01890000-0000-7000-8000-000000000040''),
      (''afterSummary'', JObj [(''entry'', JArr [JStr ''Noodles'', JNum 1250])]), (''reasonCode'', JStr ''SEASONAL''),
      (''correlationId'', JStr ''01890000-0000-7000-8000-0000000000a2''),
      (''occurredAt'', JStr ''2026-06-01T12:00:00.000Z''), (''sourceChannel'', JStr ''CONSOLE''),
      (''dataClassification'', JStr ''Internal''), (''retentionPolicyCode'', JStr ''PRICING''),
      (''retentionPolicyVersion'', JNum 1)]"

lemma example_audit_formats:
  "uuid_v7_any_case ''01890000-0000-7000-8000-0000000000a1''" "uuid_v7_any_case ''01890000-0000-7000-8000-000000000012''"
  "uuid_v7_any_case ''01890000-0000-7000-8000-000000000041''" "uuid_v7_any_case ''01890000-0000-7000-8000-000000000040''"
  "uuid_v7_any_case ''01890000-0000-7000-8000-0000000000a2''" "stable_code_format ''PRICE_CHANGED''"
  "stable_code_format ''SEASONAL''" "stable_code_format ''CONSOLE''" "stable_code_format ''PRICING''"
  "target_type_format ''PriceBook''" "canonical_instant ''2026-06-01T12:00:00.000Z''"
  "ms_of ''2026-06-01T12:00:00.000Z'' = 1780315200000"
  "audit_summary ''afterSummary'' (JObj [(''entry'', JArr [JStr ''Noodles'', JNum 1250])]) = Inr 26"
  by code_simp+

lemma example_audit_valid: "validateAuditRecord example_audit 1780315200000 = Inr example_audit"
  by (simp add: validateAuditRecord_def example_audit_def requireUuid_def optionalUuid_def audit_actor_def
      audit_summary_def [of "''beforeSummary''"] audit_occurred_def reads_as_def audit_fields_def
      example_audit_formats max_safe_def)

theorem accepted_audit_is_clean_witness:
  "clean_summary (JObj [(''entry'', JArr [JStr ''Noodles'', JNum 1250])])"
  using accepted_audit_is_clean [OF example_audit_valid] by (simp add: example_audit_def)

end
