(* ===== verification/OrderAmendmentService.thy ===== *)
theory OrderAmendmentService
  imports OrderAmendment AuditRecords
begin

text \<open>
  The order amendment workflow: \<open>packages/rms/ordering/src/application/order-amendment-service.ts\<close>.
  A request is submitted with a quote of its new total, or an amendment that is pending is confirmed,
  rejected, approved or aborted; the result is committed with the audit record and, once it is applied,
  with an event. The answers of the ports have the types the port interface declares.
\<close>

section \<open>Ports and records\<close>

datatype amendment_request = Submit | Decide amendment_action

definition request_actions :: "(string \<times> amendment_request) list" where
  "request_actions = [(''Submit'', Submit), (''ConfirmKitchen'', Decide ConfirmKitchen),
     (''RejectKitchen'', Decide RejectKitchen), (''Approve'', Decide Approve), (''Abort'', Decide Abort)]"

record order_amended_event =
  ev_amendmentReference :: string
  ev_orderReference :: string
  ev_brandReference :: string
  ev_storeReference :: string
  ev_aggregateVersion :: string
  ev_amendmentKind :: amendment_kind
  ev_quoteReference :: string
  ev_quoteVersion :: string
  ev_deltaMinor :: string
  ev_currencyCode :: string
  ev_occurredAt :: string

record amendment_operation =
  ao_operationReference :: string
  ao_operationIntentHash :: string
  ao_amendment :: order_amendment
  ao_audit :: js
  ao_event :: "order_amended_event option"

record amendment_authorization =
  az_tenantReference :: string
  az_brandReference :: string
  az_storeReference :: string
  az_actorReference :: string
  az_purpose :: string
  az_permissionEffect :: string
  az_permissionAction :: string
  az_permissionScopeKind :: string
  az_audit :: js

record amendment_source =
  so_aggregateVersion :: js
  so_canonicalPhase :: string
  so_closureStatus :: string
  so_currencyCode :: string
  so_totalMinor :: string
  so_targetEligible :: bool

record amendment_impact =
  im_kitchenStatus :: kitchen_status
  im_fulfillmentStatus :: fulfillment_status
  im_approvalRequired :: bool
  im_customerNoticeCode :: string

record amendment_quote =
  aq_quoteReference :: string
  aq_quoteVersion :: js
  aq_quoteInputDigest :: string
  aq_originalTotalMinor :: string
  aq_revisedTotalMinor :: string
  aq_currencyCode :: string

text \<open>
  \<open>mp_hashIntent\<close> is the hash of \<open>JSON.stringify\<close> of the raw input, which may throw. The two questions of a
  submission are asked together; if both are refused, the answer of the impact port is the one reported.
\<close>

record amendment_ports =
  mp_authorize :: "amendment_request \<Rightarrow> string \<Rightarrow> string \<Rightarrow> string \<Rightarrow> amendment_authorization option res"
  mp_source :: "string \<Rightarrow> string \<Rightarrow> string \<Rightarrow> amendment_change \<Rightarrow> amendment_source res"
  mp_assess :: "string \<Rightarrow> amendment_change \<Rightarrow> int \<Rightarrow> amendment_impact res"
  mp_reprice :: "string \<Rightarrow> int \<Rightarrow> amendment_change \<Rightarrow> string \<Rightarrow> string \<Rightarrow> amendment_quote res"
  mp_hashIntent :: "js \<Rightarrow> js res"
  mp_equals :: "string \<Rightarrow> string \<Rightarrow> bool"
  mp_resolveOperation :: "string \<Rightarrow> amendment_operation option res"
  mp_load :: "string \<Rightarrow> order_amendment option res"
  mp_commit :: "amendment_operation \<Rightarrow> unit res"

datatype amendment_outcome = AmendmentApplied order_amendment | AmendmentAlreadyApplied order_amendment

section \<open>Guards\<close>

definition workflow_error :: "order_amendment_workflow_code \<Rightarrow> err" where
  "workflow_error code = OrderAmendmentWorkflowError code"

definition workflow_invalid :: err where
  "workflow_invalid = workflow_error AMENDMENT_INPUT_INVALID"

definition workflow_positive :: "js \<Rightarrow> int res" where
  "workflow_positive v = or_throw (safe_int_in 1 max_safe v) workflow_invalid"

definition workflow_instant :: "js \<Rightarrow> string res" where
  "workflow_instant v = or_throw (str_if parseable_instant v) workflow_invalid"

fun workflow_dependency :: "err \<Rightarrow> err" where
  "workflow_dependency (OrderAmendmentWorkflowError code) = OrderAmendmentWorkflowError code"
| "workflow_dependency _ = workflow_error AMENDMENT_DEPENDENCY_UNAVAILABLE"

definition workflow_asked :: "'a res \<Rightarrow> 'a res" where
  "workflow_asked m = catching m (\<lambda>e. Inl (workflow_dependency e))"

definition expectedPermission :: "amendment_request \<Rightarrow> string" where
  "expectedPermission action =
     (if action = Decide Approve then ''ordering.order.amend.approve''
      else if action = Decide ConfirmKitchen \<or> action = Decide RejectKitchen then ''kitchen.amendment.resolve''
      else ''ordering.order.amend'')"

definition amendment_action_code :: "amendment_request \<Rightarrow> string" where
  "amendment_action_code action =
     (case action of
        Submit \<Rightarrow> ''ORDER_AMENDMENT_SUBMIT''
      | Decide a \<Rightarrow> (case a of ConfirmKitchen \<Rightarrow> ''ORDER_AMENDMENT_CONFIRMKITCHEN''
          | RejectKitchen \<Rightarrow> ''ORDER_AMENDMENT_REJECTKITCHEN'' | Approve \<Rightarrow> ''ORDER_AMENDMENT_APPROVE''
          | Abort \<Rightarrow> ''ORDER_AMENDMENT_ABORT''))"

text \<open>The evidence must allow the action in the store, and the audit record must name actor and amendment.\<close>

definition amendment_denied ::
  "amendment_authorization \<Rightarrow> js \<Rightarrow> amendment_request \<Rightarrow> string \<Rightarrow> string \<Rightarrow> bool" where
  "amendment_denied e audit action amendmentReference occurredAt \<longleftrightarrow>
     az_purpose e \<noteq> ''order-amendment'' \<or> az_permissionEffect e \<noteq> ''Allow'' \<or>
     az_permissionAction e \<noteq> expectedPermission action \<or> az_permissionScopeKind e \<noteq> ''Store'' \<or>
     fld audit ''brandId'' \<noteq> JStr (az_brandReference e) \<or> fld audit ''storeId'' \<noteq> JStr (az_storeReference e) \<or>
     fld (fld audit ''actor'') ''type'' = JStr ''System'' \<or>
     fld (fld audit ''actor'') ''reference'' \<noteq> JStr (az_actorReference e) \<or>
     fld audit ''actionCode'' \<noteq> JStr (amendment_action_code action) \<or>
     fld audit ''targetType'' \<noteq> JStr ''OrderAmendment'' \<or> fld audit ''targetId'' \<noteq> JStr amendmentReference \<or>
     fld audit ''occurredAt'' \<noteq> JStr occurredAt"

definition authorize_amendment ::
  "amendment_ports \<Rightarrow> amendment_request \<Rightarrow> string \<Rightarrow> string \<Rightarrow> string \<Rightarrow> amendment_authorization res" where
  "authorize_amendment ports action amendmentReference orderReference occurredAt =
     bnd (workflow_asked (mp_authorize ports action amendmentReference orderReference occurredAt)) (\<lambda>answer.
     bnd (or_throw answer (workflow_error AMENDMENT_PERMISSION_DENIED)) (\<lambda>e.
     catching
       (bnd (validateAuditRecord (az_audit e) (ms_of occurredAt)) (\<lambda>audit.
        bnd (throw_if (amendment_denied e audit action amendmentReference occurredAt)
               (workflow_error AMENDMENT_PERMISSION_DENIED)) (\<lambda>_.
        Inr (e\<lparr>az_audit := audit\<rparr>))))
       (\<lambda>_. Inl (workflow_error AMENDMENT_PERMISSION_DENIED))))"

definition appliedEvent :: "order_amendment \<Rightarrow> string \<Rightarrow> order_amended_event option" where
  "appliedEvent a occurredAt =
     (if am_status a = Applied
      then Some \<lparr>ev_amendmentReference = am_amendmentReference a, ev_orderReference = am_orderReference a,
        ev_brandReference = am_brandReference a, ev_storeReference = am_storeReference a,
        ev_aggregateVersion = int_str (am_aggregateVersion a), ev_amendmentKind = ac_kind (am_change a),
        ev_quoteReference = am_quoteReference a, ev_quoteVersion = int_str (am_quoteVersion a),
        ev_deltaMinor = am_deltaMinor a, ev_currencyCode = am_currencyCode a, ev_occurredAt = occurredAt\<rparr>
      else None)"

section \<open>Submission\<close>

definition source_ineligible :: "amendment_source \<Rightarrow> bool" where
  "source_ineligible s \<longleftrightarrow>
     so_closureStatus s = ''Closed'' \<or> so_canonicalPhase s \<in> {''Fulfilled'', ''Closed''} \<or> \<not> so_targetEligible s"

definition quote_mismatch :: "amendment_source \<Rightarrow> amendment_quote \<Rightarrow> bool" where
  "quote_mismatch s q \<longleftrightarrow>
     aq_originalTotalMinor q \<noteq> so_totalMinor s \<or> aq_currencyCode q \<noteq> so_currencyCode s \<or>
     \<not> money_numeral (so_totalMinor s) \<or> \<not> money_numeral (aq_revisedTotalMinor q) \<or>
     \<not> currency_format (so_currencyCode s) \<or> safe_int_in 1 max_safe (aq_quoteVersion q) = None"

definition submitAmendment ::
  "amendment_ports \<Rightarrow> amendment_authorization \<Rightarrow> js \<Rightarrow> string \<Rightarrow> string \<Rightarrow> int \<Rightarrow> string \<Rightarrow> order_amendment res" where
  "submitAmendment ports auth input amendmentReference orderReference expectedOrderVersion occurredAt =
     bnd (throw_if (fld input ''expectedAmendmentVersion'' \<noteq> JNull \<or> fld input ''reasonCode'' = JNull \<or>
                    fld input ''change'' = JNull) workflow_invalid) (\<lambda>_.
     bnd (parseAmendmentCode (fld input ''reasonCode'')) (\<lambda>reasonCode.
     bnd (createAmendmentChange (fld input ''change'')) (\<lambda>change.
     bnd (workflow_asked (mp_source ports orderReference (az_brandReference auth) (az_storeReference auth) change)) (\<lambda>source.
     bnd (throw_if (so_aggregateVersion source \<noteq> JNum expectedOrderVersion) (workflow_error AMENDMENT_VERSION_CONFLICT)) (\<lambda>_.
     bnd (throw_if (source_ineligible source) (workflow_error AMENDMENT_ORDER_INELIGIBLE)) (\<lambda>_.
     bnd (workflow_asked (mp_assess ports orderReference change expectedOrderVersion)) (\<lambda>impact.
     bnd (workflow_asked (mp_reprice ports orderReference expectedOrderVersion change (so_totalMinor source)
            (so_currencyCode source))) (\<lambda>quote.
     bnd (throw_if (quote_mismatch source quote) (workflow_error AMENDMENT_QUOTE_INVALID)) (\<lambda>_.
     bnd (initialAmendmentStatus (ac_kind change) (im_kitchenStatus impact) (im_approvalRequired impact)) (\<lambda>status.
     createOrderAmendment (JObj
       [(''amendmentReference'', JStr amendmentReference), (''orderReference'', JStr orderReference),
        (''tenantReference'', JStr (az_tenantReference auth)), (''brandReference'', JStr (az_brandReference auth)),
        (''storeReference'', JStr (az_storeReference auth)),
        (''requestedByActorReference'', JStr (az_actorReference auth)), (''reasonCode'', JStr reasonCode),
        (''change'', amendment_change_js change), (''expectedOrderVersion'', JNum expectedOrderVersion),
        (''quoteReference'', JStr (aq_quoteReference quote)), (''quoteVersion'', aq_quoteVersion quote),
        (''quoteInputDigest'', JStr (aq_quoteInputDigest quote)), (''currencyCode'', JStr (aq_currencyCode quote)),
        (''originalTotalMinor'', JStr (aq_originalTotalMinor quote)),
        (''revisedTotalMinor'', JStr (aq_revisedTotalMinor quote)),
        (''deltaMinor'', JStr (int_str (dec_val (aq_revisedTotalMinor quote) - dec_val (aq_originalTotalMinor quote)))),
        (''kitchenStatus'', JStr (kitchen_status_name (im_kitchenStatus impact))),
        (''fulfillmentStatus'', JStr (fulfillment_status_name (im_fulfillmentStatus impact))),
        (''approvalRequired'', JBool (im_approvalRequired impact)),
        (''customerNoticeCode'', JStr (im_customerNoticeCode impact)),
        (''status'', JStr (amendment_status_name status)), (''aggregateVersion'', JNum 1),
        (''decidedByActorReference'', if status = Applied then JStr (az_actorReference auth) else JNull),
        (''requestedAt'', JStr occurredAt), (''decidedAt'', if status = Applied then JStr occurredAt else JNull)])))))))))))"

section \<open>Decisions\<close>

text \<open>The expected version is read only when order and order version agree.\<close>

definition decideAmendment ::
  "amendment_ports \<Rightarrow> amendment_authorization \<Rightarrow> js \<Rightarrow> amendment_action \<Rightarrow> string \<Rightarrow> string \<Rightarrow> int \<Rightarrow> string \<Rightarrow>
   order_amendment res" where
  "decideAmendment ports auth input action amendmentReference orderReference expectedOrderVersion occurredAt =
     bnd (throw_if (fld input ''reasonCode'' \<noteq> JNull \<or> fld input ''change'' \<noteq> JNull \<or>
                    fld input ''expectedAmendmentVersion'' = JNull) workflow_invalid) (\<lambda>_.
     bnd (workflow_asked (mp_load ports amendmentReference)) (\<lambda>loaded.
     bnd (or_throw loaded (workflow_error AMENDMENT_VERSION_CONFLICT)) (\<lambda>current.
     bnd (throw_if (am_orderReference current \<noteq> orderReference \<or> am_expectedOrderVersion current \<noteq> expectedOrderVersion)
            (workflow_error AMENDMENT_VERSION_CONFLICT)) (\<lambda>_.
     bnd (workflow_positive (fld input ''expectedAmendmentVersion'')) (\<lambda>expected.
     bnd (throw_if (am_aggregateVersion current \<noteq> expected) (workflow_error AMENDMENT_VERSION_CONFLICT)) (\<lambda>_.
     bnd (throw_if (am_tenantReference current \<noteq> az_tenantReference auth \<or>
                    am_brandReference current \<noteq> az_brandReference auth \<or>
                    am_storeReference current \<noteq> az_storeReference auth) (workflow_error AMENDMENT_PERMISSION_DENIED)) (\<lambda>_.
     transitionOrderAmendment current action (az_actorReference auth) occurredAt)))))))"

section \<open>The workflow\<close>

datatype amendment_plan = ReplayAmendment order_amendment | CommitAmendment amendment_operation

definition plan_amendment :: "amendment_ports \<Rightarrow> js \<Rightarrow> amendment_plan res" where
  "plan_amendment ports input =
     bnd (throw_if (\<not> is_plain input \<or> length (own_keys input) \<noteq> 9) workflow_invalid) (\<lambda>_.
     bnd (or_throw (enum_of request_actions (fld input ''action'')) workflow_invalid) (\<lambda>action.
     bnd (workflow_instant (fld input ''occurredAt'')) (\<lambda>occurredAt.
     bnd (parseAmendmentReference (fld input ''operationReference'')) (\<lambda>operation.
     bnd (parseAmendmentReference (fld input ''amendmentReference'')) (\<lambda>aref.
     bnd (parseAmendmentReference (fld input ''orderReference'')) (\<lambda>oref.
     bnd (workflow_positive (fld input ''expectedOrderVersion'')) (\<lambda>orderVersion.
     bnd (bnd (mp_hashIntent ports input) parseAmendmentDigest) (\<lambda>intent.
     bnd (workflow_asked (mp_resolveOperation ports operation)) (\<lambda>prior.
     case prior of
       Some r \<Rightarrow>
         bnd (throw_if (\<not> mp_equals ports (ao_operationIntentHash r) intent)
                (workflow_error AMENDMENT_IDEMPOTENCY_CONFLICT)) (\<lambda>_.
         Inr (ReplayAmendment (ao_amendment r)))
     | None \<Rightarrow>
         bnd (authorize_amendment ports action aref oref occurredAt) (\<lambda>auth.
         bnd (case action of
                Submit \<Rightarrow> submitAmendment ports auth input aref oref orderVersion occurredAt
              | Decide a \<Rightarrow> decideAmendment ports auth input a aref oref orderVersion occurredAt) (\<lambda>amendment.
         Inr (CommitAmendment \<lparr>ao_operationReference = operation, ao_operationIntentHash = intent,
           ao_amendment = amendment, ao_audit = az_audit auth, ao_event = appliedEvent amendment occurredAt\<rparr>))))))))))))"

definition execute_amendment :: "amendment_ports \<Rightarrow> js \<Rightarrow> amendment_outcome res" where
  "execute_amendment ports input =
     bnd (plan_amendment ports input) (\<lambda>p.
     case p of
       ReplayAmendment a \<Rightarrow> Inr (AmendmentAlreadyApplied a)
     | CommitAmendment op \<Rightarrow>
         bnd (workflow_asked (mp_commit ports op)) (\<lambda>_. Inr (AmendmentApplied (ao_amendment op))))"

section \<open>Plans\<close>

lemma workflow_asked_Inr [res_simps]: "workflow_asked m = Inr x \<longleftrightarrow> m = Inr x"
  by (cases m) (simp_all add: workflow_asked_def)

definition amendment_scope :: "order_amendment \<Rightarrow> amendment_authorization \<Rightarrow> bool" where
  "amendment_scope a auth \<longleftrightarrow> am_tenantReference a = az_tenantReference auth \<and>
     am_brandReference a = az_brandReference auth \<and> am_storeReference a = az_storeReference auth"

lemma authorize_amendment_Inr:
  "authorize_amendment ports action aref oref t = Inr auth \<Longrightarrow>
   \<exists>e. mp_authorize ports action aref oref t = Inr (Some e) \<and> auth = e\<lparr>az_audit := az_audit auth\<rparr> \<and>
     az_permissionEffect e = ''Allow'' \<and> az_permissionAction e = expectedPermission action \<and>
     validateAuditRecord (az_audit e) (ms_of t) = Inr (az_audit auth) \<and>
     \<not> amendment_denied e (az_audit auth) action aref t"
  by (auto simp: authorize_amendment_def bnd_eq_Inr workflow_asked_Inr or_throw_Inr catching_throw_Inr throw_if_eq_Inr
      amendment_denied_def)

lemma createOrderAmendment_fields:
  "createOrderAmendment v = Inr a \<Longrightarrow>
   fld v ''amendmentReference'' = JStr (am_amendmentReference a) \<and>
   fld v ''requestedByActorReference'' = JStr (am_requestedByActorReference a) \<and>
   enum_of amendment_statuses (fld v ''status'') = Some (am_status a) \<and>
   fld v ''approvalRequired'' = JBool (am_approvalRequired a) \<and>
   fld v ''aggregateVersion'' = JNum (am_aggregateVersion a) \<and>
   fld v ''tenantReference'' = JStr (am_tenantReference a) \<and> fld v ''brandReference'' = JStr (am_brandReference a) \<and>
   fld v ''storeReference'' = JStr (am_storeReference a)"
  unfolding createOrderAmendment_def bnd_eq_Inr
  by (elim exE conjE) (drule Inr_inject, hypsubst,
    simp add: amendment_parse_Inr amendment_version_Inr or_throw_Inr js_bool_Some)

text \<open>A submission starts an amendment at version 1; one that needs an approval does not start applied.\<close>

definition submitted :: "order_amendment \<Rightarrow> bool" where
  "submitted a \<longleftrightarrow> valid_amendment a \<and> am_aggregateVersion a = 1 \<and>
     (am_approvalRequired a \<longrightarrow> am_status a \<noteq> Applied) \<and>
     (am_status a = PendingKitchen \<or> am_status a = PendingApproval \<or> am_status a = Applied)"

lemma submit_Inr:
  assumes "submitAmendment ports auth input aref oref v t = Inr a"
  shows "submitted a \<and> am_amendmentReference a = aref \<and> am_requestedByActorReference a = az_actorReference auth \<and>
    amendment_scope a auth"
proof -
  from assms obtain status w and change :: amendment_change and impact :: amendment_impact where
    st: "initialAmendmentStatus (ac_kind change) (im_kitchenStatus impact) (im_approvalRequired impact) = Inr status" and
    c: "createOrderAmendment w = Inr a" and
    w: "fld w ''amendmentReference'' = JStr aref" "fld w ''requestedByActorReference'' = JStr (az_actorReference auth)"
      "fld w ''status'' = JStr (amendment_status_name status)" "fld w ''approvalRequired'' = JBool (im_approvalRequired impact)"
      "fld w ''aggregateVersion'' = JNum 1" "fld w ''tenantReference'' = JStr (az_tenantReference auth)"
      "fld w ''brandReference'' = JStr (az_brandReference auth)" "fld w ''storeReference'' = JStr (az_storeReference auth)"
    unfolding submitAmendment_def bnd_eq_Inr by (elim exE conjE) (rule that, assumption, assumption, simp_all)
  from st have "status = PendingKitchen \<or> status = PendingApproval \<or> status = Applied"
    "im_approvalRequired impact \<longrightarrow> status \<noteq> Applied"
    by (auto simp: initialAmendmentStatus_def split: if_splits)
  with createOrderAmendment_fields [OF c] amendment.parse_valid [OF c] w show ?thesis
    by (auto simp: submitted_def amendment_scope_def amendment_enum_names)
qed

lemma decide_Inr:
  assumes "decideAmendment ports auth input action aref oref v t = Inr a"
  obtains current where "mp_load ports aref = Inr (Some current)" "am_orderReference current = oref"
    "am_expectedOrderVersion current = v" "fld input ''expectedAmendmentVersion'' = JNum (am_aggregateVersion current)"
    "amendment_scope current auth" "transitionOrderAmendment current action (az_actorReference auth) t = Inr a"
proof -
  from assms obtain current where "mp_load ports aref = Inr (Some current)" "am_orderReference current = oref"
    "am_expectedOrderVersion current = v" "workflow_positive (fld input ''expectedAmendmentVersion'') = Inr (am_aggregateVersion current)"
    "amendment_scope current auth" "transitionOrderAmendment current action (az_actorReference auth) t = Inr a"
    by (auto simp: decideAmendment_def bnd_eq_Inr workflow_asked_Inr or_throw_Inr throw_if_eq_Inr amendment_scope_def)
  moreover from this(4) have "fld input ''expectedAmendmentVersion'' = JNum (am_aggregateVersion current)"
    by (simp add: workflow_positive_def or_throw_Inr safe_int_in_Some max_safe_def)
  ultimately show thesis using that by blast
qed

lemma plan_amendment_Commit:
  assumes "plan_amendment ports input = Inr (CommitAmendment op)"
  obtains action t aref oref v auth where "enum_of request_actions (fld input ''action'') = Some action"
    "authorize_amendment ports action aref oref t = Inr auth"
    "(case action of Submit \<Rightarrow> submitAmendment ports auth input aref oref v t
      | Decide a \<Rightarrow> decideAmendment ports auth input a aref oref v t) = Inr (ao_amendment op)"
    "ao_event op = appliedEvent (ao_amendment op) t" "ao_audit op = az_audit auth"
    "mp_resolveOperation ports (ao_operationReference op) = Inr None"
  using assms unfolding plan_amendment_def
  by (auto simp: bnd_eq_Inr workflow_asked_Inr or_throw_Inr throw_if_eq_Inr split: option.splits)

section \<open>The repository\<close>

text \<open>
  The constraints of \<open>migrations/1300-rms-ordering/1300_009_create_order_amendment.sql\<close>: an operation is
  recorded once, an amendment is created once, and a version of an amendment is recorded once.
\<close>

record amendment_store =
  st_amendments :: "string \<Rightarrow> order_amendment option"
  st_operations :: "string \<Rightarrow> amendment_operation option"

definition empty_store :: amendment_store where
  "empty_store = \<lparr>st_amendments = \<lambda>r. None, st_operations = \<lambda>o'. None\<rparr>"

definition accepts :: "amendment_store \<Rightarrow> amendment_operation \<Rightarrow> bool" where
  "accepts st op \<longleftrightarrow> st_operations st (ao_operationReference op) = None \<and>
     (let a = ao_amendment op in
      case st_amendments st (am_amendmentReference a) of
        None \<Rightarrow> am_aggregateVersion a = 1
      | Some b \<Rightarrow> am_aggregateVersion a = am_aggregateVersion b + 1)"

definition store_operation :: "amendment_operation \<Rightarrow> amendment_store \<Rightarrow> amendment_store" where
  "store_operation op st =
     \<lparr>st_amendments = (st_amendments st)(am_amendmentReference (ao_amendment op) \<mapsto> ao_amendment op),
      st_operations = (st_operations st)(ao_operationReference op \<mapsto> op)\<rparr>"

definition reading :: "amendment_store \<Rightarrow> amendment_ports \<Rightarrow> amendment_ports" where
  "reading st ports = ports\<lparr>mp_load := \<lambda>r. Inr (st_amendments st r),
     mp_resolveOperation := \<lambda>o'. Inr (st_operations st o')\<rparr>"

text \<open>
  Concurrent requests: each reads some earlier state of the repository (its snapshot) and commits to the
  latest one, if that accepts. The history lists all states, the latest first.
\<close>

inductive amendment_history :: "amendment_store list \<Rightarrow> bool" where
  nothing: "amendment_history [empty_store]"
| request: "amendment_history (st # hist) \<Longrightarrow> snapshot \<in> set (st # hist) \<Longrightarrow>
    plan_amendment (reading snapshot ports) input = Inr (CommitAmendment op) \<Longrightarrow> accepts st op \<Longrightarrow>
    amendment_history (store_operation op st # st # hist)"

inductive_cases amendment_historyE: "amendment_history (st # hist)"

definition lawful :: "string \<Rightarrow> order_amendment \<Rightarrow> bool" where
  "lawful r a \<longleftrightarrow> (\<exists>a0 es. submitted a0 \<and> am_amendmentReference a0 = r \<and> amendment_run a0 es a)"

lemma lawful_facts:
  assumes "lawful r a"
  shows "valid_amendment a" "am_amendmentReference a = r"
proof -
  from assms obtain a0 es where a: "submitted a0" "am_amendmentReference a0 = r" "amendment_run a0 es a"
    by (auto simp: lawful_def)
  then have "valid_amendment a0" by (simp add: submitted_def)
  with run_valid [OF a(3)] run_bound [OF a(3)] a(2) show "valid_amendment a" "am_amendmentReference a = r"
    by (simp, cases a, simp add: same_amendment_def)
qed

text \<open>
  Older states agree with the latest one: an amendment is never lost, a version stands for one state, and
  what an amendment has become is reached from what it was by its own transitions.
\<close>

definition follows :: "amendment_store \<Rightarrow> amendment_store \<Rightarrow> bool" where
  "follows st old \<longleftrightarrow> (\<forall>r b. st_amendments old r = Some b \<longrightarrow>
     (\<exists>a es. st_amendments st r = Some a \<and> am_aggregateVersion b \<le> am_aggregateVersion a \<and>
        (am_aggregateVersion b = am_aggregateVersion a \<longrightarrow> b = a) \<and> amendment_run b es a))"

lemma followsD:
  "follows st old \<Longrightarrow> st_amendments old r = Some b \<Longrightarrow> st_amendments st r = Some a \<Longrightarrow>
   am_aggregateVersion b = am_aggregateVersion a \<Longrightarrow> b = a"
  by (fastforce simp: follows_def)

lemma history_invariant:
  assumes "amendment_history h" and "h = st # hist"
  shows "(\<forall>old \<in> set h. follows st old) \<and> (\<forall>r a. \<forall>s \<in> set h. st_amendments s r = Some a \<longrightarrow> lawful r a)"
  using assms
proof (induction arbitrary: st hist rule: amendment_history.induct)
  case nothing
  then show ?case by (auto simp: follows_def empty_store_def)
next
  case (request st' hist' snapshot ports input op)
  from request.IH [OF refl] have ih: "\<And>old. old \<in> set (st' # hist') \<Longrightarrow> follows st' old"
    "\<And>r a s. s \<in> set (st' # hist') \<Longrightarrow> st_amendments s r = Some a \<Longrightarrow> lawful r a" by blast+
  let ?a = "ao_amendment op" let ?r = "am_amendmentReference ?a"
  have new: "lawful ?r ?a \<and> (\<forall>b. st_amendments st' ?r = Some b \<longrightarrow>
      am_aggregateVersion b < am_aggregateVersion ?a \<and> (\<exists>e. amendment_step b e ?a))"
  proof (rule plan_amendment_Commit [OF request.hyps(3)])
    fix action t aref oref v auth
    assume a: "(case action of Submit \<Rightarrow> submitAmendment (reading snapshot ports) auth input aref oref v t
      | Decide a \<Rightarrow> decideAmendment (reading snapshot ports) auth input a aref oref v t) = Inr ?a"
    have later: "am_aggregateVersion ?a = am_aggregateVersion b + 1" if "st_amendments st' ?r = Some b" for b
      using request.hyps(4) that by (auto simp: accepts_def Let_def)
    show ?thesis
    proof (cases action)
      case Submit
      with a submit_Inr [of "reading snapshot ports" auth input aref oref v t ?a] have s: "submitted ?a" by simp
      have "st_amendments st' ?r = None"
      proof (cases "st_amendments st' ?r")
        case (Some b)
        then have "valid_amendment b" using ih(2) [of st' ?r b] lawful_facts by auto
        with later [OF Some] s show ?thesis by (simp add: submitted_def valid_amendment_def)
      qed
      with s show ?thesis unfolding lawful_def using amendment_run.start by fastforce
    next
      case (Decide d)
      with a have "decideAmendment (reading snapshot ports) auth input d aref oref v t = Inr ?a" by simp
      then show ?thesis
      proof (rule decide_Inr)
        fix current
        assume load: "mp_load (reading snapshot ports) aref = Inr (Some current)"
          and tr: "transitionOrderAmendment current d (az_actorReference auth) t = Inr ?a"
        from load have cur: "st_amendments snapshot aref = Some current" by (simp add: reading_def)
        have l: "lawful aref current" by (rule ih(2) [OF request.hyps(2) cur])
        note v = lawful_facts [OF l]
        from transition_Inr [OF tr v(1)] obtain s where s: "?a = decided current s (az_actorReference auth) t" by blast
        then have r: "?r = aref" "am_aggregateVersion ?a = am_aggregateVersion current + 1"
          using v(2) by (simp_all add: decided_def)
        from l obtain a0 es where a0: "submitted a0" "am_amendmentReference a0 = aref" "amendment_run a0 es current"
          by (auto simp: lawful_def)
        with amendment_run.next_event [OF a0(3) amendment_step.transition [OF tr]] r(1) have "lawful ?r ?a"
          unfolding lawful_def by blast
        moreover have "current = b" if b: "st_amendments st' ?r = Some b" for b
        proof -
          have "am_aggregateVersion current = am_aggregateVersion b" using later [OF b] r(2) by simp
          with followsD [OF ih(1) [OF request.hyps(2)] cur] b r(1) show ?thesis by simp
        qed
        ultimately show ?thesis using amendment_step.transition [OF tr] later by fastforce
      qed
    qed
  qed
  have st: "st = store_operation op st'" "hist = st' # hist'" using request.prems by simp_all
  have "follows st old" if old: "old \<in> set (st' # hist')" for old
    unfolding follows_def
  proof (intro allI impI)
    fix r b assume b: "st_amendments old r = Some b"
    with ih(1) [OF old] obtain a es where a: "st_amendments st' r = Some a" "am_aggregateVersion b \<le> am_aggregateVersion a"
      "am_aggregateVersion b = am_aggregateVersion a \<longrightarrow> b = a" "amendment_run b es a" unfolding follows_def by blast
    show "\<exists>a es. st_amendments st r = Some a \<and> am_aggregateVersion b \<le> am_aggregateVersion a \<and>
        (am_aggregateVersion b = am_aggregateVersion a \<longrightarrow> b = a) \<and> amendment_run b es a"
    proof (cases "r = ?r")
      case True
      with new a(1) obtain e where "am_aggregateVersion a < am_aggregateVersion ?a" "amendment_step a e ?a" by auto
      with amendment_run.next_event [OF a(4)] a(2) True show ?thesis by (fastforce simp: st store_operation_def)
    next
      case False
      with a show ?thesis by (auto simp: st store_operation_def)
    qed
  qed
  moreover have "follows st st" using amendment_run.start by (fastforce simp: follows_def)
  moreover have latest: "lawful r a" if "st_amendments st r = Some a" for r a
    using that new ih(2) [of st' r a] by (auto simp: st store_operation_def split: if_splits)
  ultimately have "follows st old" if "old \<in> set (st # st' # hist')" for old
    using that by (metis set_ConsD)
  moreover have "lawful r a" if "s \<in> set (st # st' # hist')" "st_amendments s r = Some a" for r a s
    using that ih(2) latest by (metis set_ConsD)
  ultimately show ?case unfolding st(1) [symmetric] by blast
qed

section \<open>An example: the guest asks for one item less\<close>

definition example_authorization :: amendment_authorization where
  "example_authorization =
     \<lparr>az_tenantReference = ''01890000-0000-7000-8000-000000000103'',
      az_brandReference = ''01890000-0000-7000-8000-000000000104'',
      az_storeReference = ''01890000-0000-7000-8000-000000000105'',
      az_actorReference = ''01890000-0000-7000-8000-000000000106'', az_purpose = ''order-amendment'',
      az_permissionEffect = ''Allow'', az_permissionAction = ''ordering.order.amend'',
      az_permissionScopeKind = ''Store'',
      az_audit = JObj
        [(''auditId'', JStr ''01890000-0000-7000-8000-000000000109''),
         (''brandId'', JStr ''01890000-0000-7000-8000-000000000104''),
         (''storeId'', JStr ''01890000-0000-7000-8000-000000000105''),
         (''actor'', JObj [(''type'', JStr ''User''), (''reference'', JStr ''01890000-0000-7000-8000-000000000106'')]),
         (''actionCode'', JStr ''ORDER_AMENDMENT_SUBMIT''), (''targetType'', JStr ''OrderAmendment''),
         (''targetId'', JStr ''01890000-0000-7000-8000-000000000101''), (''reasonCode'', JStr ''GUEST_REQUEST''),
         (''correlationId'', JStr ''01890000-0000-7000-8000-000000000109''),
         (''occurredAt'', JStr ''2026-06-01T12:05:00.000Z''), (''sourceChannel'', JStr ''POS''),
         (''dataClassification'', JStr ''Internal''), (''retentionPolicyCode'', JStr ''ORDERING''),
         (''retentionPolicyVersion'', JNum 1)]\<rparr>"

definition example_amendment_ports :: amendment_ports where
  "example_amendment_ports =
     \<lparr>mp_authorize = \<lambda>action a o' t. Inr (Some example_authorization),
      mp_source = \<lambda>o' b s c. Inr \<lparr>so_aggregateVersion = JNum 3, so_canonicalPhase = ''InPreparation'',
        so_closureStatus = ''Open'', so_currencyCode = ''CAD'', so_totalMinor = ''2600'', so_targetEligible = True\<rparr>,
      mp_assess = \<lambda>o' c v. Inr \<lparr>im_kitchenStatus = KitchenInProgress, im_fulfillmentStatus = FulfillmentNotStarted,
        im_approvalRequired = True, im_customerNoticeCode = ''ITEM_REDUCED''\<rparr>,
      mp_reprice = \<lambda>o' v c t cur. Inr \<lparr>aq_quoteReference = ''01890000-0000-7000-8000-000000000108'',
        aq_quoteVersion = JNum 1,
        aq_quoteInputDigest = ''sha256:0000000000000000000000000000000000000000000000000000000000000000'',
        aq_originalTotalMinor = ''2600'', aq_revisedTotalMinor = ''1300'', aq_currencyCode = ''CAD''\<rparr>,
      mp_hashIntent = \<lambda>v. Inr (JStr ''sha256:0000000000000000000000000000000000000000000000000000000000000000''),
      mp_equals = (=), mp_resolveOperation = \<lambda>o'. Inr None, mp_load = \<lambda>r. Inr None, mp_commit = \<lambda>op. Inr ()\<rparr>"

definition example_submission :: js where
  "example_submission = JObj
     [(''action'', JStr ''Submit''), (''operationReference'', JStr ''01890000-0000-7000-8000-000000000109''),
      (''amendmentReference'', JStr ''01890000-0000-7000-8000-000000000101''),
      (''orderReference'', JStr ''01890000-0000-7000-8000-000000000102''), (''expectedOrderVersion'', JNum 3),
      (''expectedAmendmentVersion'', JNull), (''reasonCode'', JStr ''GUEST_REQUEST''),
      (''change'', amendment_change_js (am_change example_amendment)), (''occurredAt'', JStr ''2026-06-01T12:05:00.000Z'')]"

definition example_submit_operation :: amendment_operation where
  "example_submit_operation =
     \<lparr>ao_operationReference = ''01890000-0000-7000-8000-000000000109'',
      ao_operationIntentHash = ''sha256:0000000000000000000000000000000000000000000000000000000000000000'',
      ao_amendment = example_amendment, ao_audit = az_audit example_authorization, ao_event = None\<rparr>"

lemma submit_audit_formats:
  "uuid_v7_any_case ''01890000-0000-7000-8000-000000000109''" "uuid_v7_any_case ''01890000-0000-7000-8000-000000000104''"
  "uuid_v7_any_case ''01890000-0000-7000-8000-000000000105''" "uuid_v7_any_case ''01890000-0000-7000-8000-000000000106''"
  "uuid_v7_any_case ''01890000-0000-7000-8000-000000000101''" "stable_code_format ''ORDER_AMENDMENT_SUBMIT''"
  "stable_code_format ''GUEST_REQUEST''" "stable_code_format ''POS''" "stable_code_format ''ORDERING''"
  "target_type_format ''OrderAmendment''" "canonical_instant ''2026-06-01T12:05:00.000Z''"
  "ms_of ''2026-06-01T12:05:00.000Z'' = 1780315500000" "dec_val ''2600'' = 2600" "dec_val ''1300'' = 1300"
  "money_numeral ''2600''" "money_numeral ''1300''"
  by code_simp+

lemma example_authorized:
  "authorize_amendment (reading st example_amendment_ports) Submit ''01890000-0000-7000-8000-000000000101'' o'
     ''2026-06-01T12:05:00.000Z'' = Inr example_authorization"
proof -
  have "validateAuditRecord (az_audit example_authorization) 1780315500000 = Inr (az_audit example_authorization)"
    by (simp add: validateAuditRecord_def example_authorization_def requireUuid_def optionalUuid_def audit_actor_def
        audit_summary_def audit_occurred_def reads_as_def audit_fields_def submit_audit_formats max_safe_def)
  moreover have "\<not> amendment_denied example_authorization (az_audit example_authorization) Submit
      ''01890000-0000-7000-8000-000000000101'' ''2026-06-01T12:05:00.000Z''"
    by (simp add: amendment_denied_def example_authorization_def expectedPermission_def amendment_action_code_def)
  ultimately show ?thesis
    by (simp add: authorize_amendment_def reading_def example_amendment_ports_def workflow_asked_def submit_audit_formats)
qed

lemma example_submitted:
  "submitAmendment (reading st example_amendment_ports) example_authorization example_submission
     ''01890000-0000-7000-8000-000000000101'' ''01890000-0000-7000-8000-000000000102'' 3
     ''2026-06-01T12:05:00.000Z'' = Inr example_amendment"
proof -
  have c: "createAmendmentChange (amendment_change_js (am_change example_amendment)) = Inr (am_change example_amendment)"
    using example_amendment_valid by (simp add: valid_amendment_def change.parse_print)
  have kind: "ac_kind (am_change example_amendment) = ReduceItem" by (simp add: example_amendment_def)
  have "amendment_change_js (am_change example_amendment) \<noteq> JNull" by (rule change.print_not_null)
  with c amendment.parse_print [OF example_amendment_valid] show ?thesis
    by (simp add: submitAmendment_def reading_def example_amendment_ports_def example_submission_def workflow_asked_def
        source_ineligible_def quote_mismatch_def submit_audit_formats example_amendment_facts parseAmendmentCode_def
        initialAmendmentStatus_def destructive_def kind example_totals_printed max_safe_def amendment_js_def)
      (simp add: example_amendment_def example_authorization_def)
qed

lemma example_ports_facts:
  "mp_hashIntent (reading empty_store example_amendment_ports) v =
     Inr (JStr ''sha256:0000000000000000000000000000000000000000000000000000000000000000'')"
  "mp_resolveOperation (reading empty_store example_amendment_ports) o' = Inr None"
  by (simp_all add: reading_def example_amendment_ports_def empty_store_def)

lemma example_submit_plan:
  "plan_amendment (reading empty_store example_amendment_ports) example_submission =
     Inr (CommitAmendment example_submit_operation)"
proof -
  have "plan_amendment (reading empty_store example_amendment_ports) example_submission =
      bnd (authorize_amendment (reading empty_store example_amendment_ports) Submit
            ''01890000-0000-7000-8000-000000000101'' ''01890000-0000-7000-8000-000000000102'' ''2026-06-01T12:05:00.000Z'') (\<lambda>auth.
      bnd (submitAmendment (reading empty_store example_amendment_ports) auth example_submission
             ''01890000-0000-7000-8000-000000000101'' ''01890000-0000-7000-8000-000000000102'' 3 ''2026-06-01T12:05:00.000Z'') (\<lambda>a.
      Inr (CommitAmendment \<lparr>ao_operationReference = ''01890000-0000-7000-8000-000000000109'',
        ao_operationIntentHash = ''sha256:0000000000000000000000000000000000000000000000000000000000000000'',
        ao_amendment = a, ao_audit = az_audit auth, ao_event = appliedEvent a ''2026-06-01T12:05:00.000Z''\<rparr>)))"
    by (simp add: plan_amendment_def example_submission_def enum_of_def request_actions_def workflow_instant_def
        example_amendment_facts parseAmendmentReference_def parseAmendmentDigest_def workflow_positive_def max_safe_def
        workflow_asked_def example_ports_facts)
  also have "appliedEvent example_amendment ''2026-06-01T12:05:00.000Z'' = None"
    by (simp add: appliedEvent_def example_amendment_def)
  ultimately show ?thesis by (simp add: example_authorized example_submitted example_submit_operation_def)
qed

text \<open>The kitchen confirms it five minutes later.\<close>

definition example_kitchen_authorization :: amendment_authorization where
  "example_kitchen_authorization = example_authorization
     \<lparr>az_actorReference := ''01890000-0000-7000-8000-000000000109'', az_permissionAction := ''kitchen.amendment.resolve'',
      az_audit := JObj
        [(''auditId'', JStr ''01890000-0000-7000-8000-000000000108''),
         (''brandId'', JStr ''01890000-0000-7000-8000-000000000104''),
         (''storeId'', JStr ''01890000-0000-7000-8000-000000000105''),
         (''actor'', JObj [(''type'', JStr ''User''), (''reference'', JStr ''01890000-0000-7000-8000-000000000109'')]),
         (''actionCode'', JStr ''ORDER_AMENDMENT_CONFIRMKITCHEN''), (''targetType'', JStr ''OrderAmendment''),
         (''targetId'', JStr ''01890000-0000-7000-8000-000000000101''), (''reasonCode'', JStr ''GUEST_REQUEST''),
         (''correlationId'', JStr ''01890000-0000-7000-8000-000000000109''),
         (''occurredAt'', JStr ''2026-06-01T12:10:00.000Z''), (''sourceChannel'', JStr ''POS''),
         (''dataClassification'', JStr ''Internal''), (''retentionPolicyCode'', JStr ''ORDERING''),
         (''retentionPolicyVersion'', JNum 1)]\<rparr>"

definition example_kitchen_ports :: amendment_ports where
  "example_kitchen_ports = example_amendment_ports
     \<lparr>mp_authorize := \<lambda>action a o' t. Inr (Some example_kitchen_authorization)\<rparr>"

definition example_confirmation :: js where
  "example_confirmation = JObj
     [(''action'', JStr ''ConfirmKitchen''), (''operationReference'', JStr ''01890000-0000-7000-8000-000000000108''),
      (''amendmentReference'', JStr ''01890000-0000-7000-8000-000000000101''),
      (''orderReference'', JStr ''01890000-0000-7000-8000-000000000102''), (''expectedOrderVersion'', JNum 3),
      (''expectedAmendmentVersion'', JNum 1), (''reasonCode'', JNull), (''change'', JNull),
      (''occurredAt'', JStr ''2026-06-01T12:10:00.000Z'')]"

definition example_confirm_operation :: amendment_operation where
  "example_confirm_operation =
     \<lparr>ao_operationReference = ''01890000-0000-7000-8000-000000000108'',
      ao_operationIntentHash = ''sha256:0000000000000000000000000000000000000000000000000000000000000000'',
      ao_amendment = confirmed_example, ao_audit = az_audit example_kitchen_authorization, ao_event = None\<rparr>"

definition submitted_store :: amendment_store where
  "submitted_store = store_operation example_submit_operation empty_store"

lemma confirm_audit_formats:
  "uuid_v7_any_case ''01890000-0000-7000-8000-000000000108''" "stable_code_format ''ORDER_AMENDMENT_CONFIRMKITCHEN''"
  "canonical_instant ''2026-06-01T12:10:00.000Z''" "ms_of ''2026-06-01T12:10:00.000Z'' = 1780315800000"
  by code_simp+

lemma example_confirm_authorized:
  "authorize_amendment (reading st example_kitchen_ports) (Decide ConfirmKitchen)
     ''01890000-0000-7000-8000-000000000101'' o' ''2026-06-01T12:10:00.000Z'' = Inr example_kitchen_authorization"
proof -
  have "validateAuditRecord (az_audit example_kitchen_authorization) 1780315800000 =
      Inr (az_audit example_kitchen_authorization)"
    by (simp add: validateAuditRecord_def example_kitchen_authorization_def requireUuid_def optionalUuid_def audit_actor_def
        audit_summary_def audit_occurred_def reads_as_def audit_fields_def submit_audit_formats confirm_audit_formats
        max_safe_def)
  moreover have "\<not> amendment_denied example_kitchen_authorization (az_audit example_kitchen_authorization)
      (Decide ConfirmKitchen) ''01890000-0000-7000-8000-000000000101'' ''2026-06-01T12:10:00.000Z''"
    by (simp add: amendment_denied_def example_kitchen_authorization_def example_authorization_def
        expectedPermission_def amendment_action_code_def)
  ultimately show ?thesis
    by (simp add: authorize_amendment_def reading_def example_kitchen_ports_def workflow_asked_def confirm_audit_formats)
qed

lemma example_loaded:
  "st_amendments submitted_store ''01890000-0000-7000-8000-000000000101'' = Some example_amendment"
  by (simp add: submitted_store_def store_operation_def example_submit_operation_def example_amendment_def)

lemma example_decided:
  "decideAmendment (reading submitted_store example_kitchen_ports) example_kitchen_authorization example_confirmation
     ConfirmKitchen ''01890000-0000-7000-8000-000000000101'' ''01890000-0000-7000-8000-000000000102'' 3
     ''2026-06-01T12:10:00.000Z'' = Inr confirmed_example"
proof -
  have "transitionOrderAmendment example_amendment ConfirmKitchen ''01890000-0000-7000-8000-000000000109''
      ''2026-06-01T12:10:00.000Z'' = Inr confirmed_example"
    unfolding confirmed_example_def
    by (rule transition_returns [OF example_amendment_valid])
      (simp_all add: example_amendment_facts next_status_def, simp_all add: example_amendment_def max_safe_def)
  moreover have "mp_load (reading submitted_store example_kitchen_ports) ''01890000-0000-7000-8000-000000000101'' =
      Inr (Some example_amendment)"
    by (simp add: reading_def example_loaded)
  ultimately show ?thesis
    by (simp add: decideAmendment_def example_confirmation_def workflow_asked_def workflow_positive_def max_safe_def
        or_throw_def example_kitchen_authorization_def example_authorization_def)
      (simp add: example_amendment_def)
qed

lemma example_confirm_plan:
  "plan_amendment (reading submitted_store example_kitchen_ports) example_confirmation =
     Inr (CommitAmendment example_confirm_operation)"
proof -
  have "mp_resolveOperation (reading submitted_store example_kitchen_ports) ''01890000-0000-7000-8000-000000000108'' =
      Inr None"
    by (simp add: reading_def submitted_store_def store_operation_def example_submit_operation_def empty_store_def)
  moreover have "mp_hashIntent (reading submitted_store example_kitchen_ports) v =
      Inr (JStr ''sha256:0000000000000000000000000000000000000000000000000000000000000000'')" for v
    by (simp add: reading_def example_kitchen_ports_def example_amendment_ports_def)
  ultimately have "plan_amendment (reading submitted_store example_kitchen_ports) example_confirmation =
      bnd (authorize_amendment (reading submitted_store example_kitchen_ports) (Decide ConfirmKitchen)
            ''01890000-0000-7000-8000-000000000101'' ''01890000-0000-7000-8000-000000000102'' ''2026-06-01T12:10:00.000Z'') (\<lambda>auth.
      bnd (decideAmendment (reading submitted_store example_kitchen_ports) auth example_confirmation ConfirmKitchen
             ''01890000-0000-7000-8000-000000000101'' ''01890000-0000-7000-8000-000000000102'' 3 ''2026-06-01T12:10:00.000Z'') (\<lambda>a.
      Inr (CommitAmendment \<lparr>ao_operationReference = ''01890000-0000-7000-8000-000000000108'',
        ao_operationIntentHash = ''sha256:0000000000000000000000000000000000000000000000000000000000000000'',
        ao_amendment = a, ao_audit = az_audit auth, ao_event = appliedEvent a ''2026-06-01T12:10:00.000Z''\<rparr>)))"
    by (simp add: plan_amendment_def example_confirmation_def enum_of_def request_actions_def workflow_instant_def
        example_amendment_facts parseAmendmentReference_def parseAmendmentDigest_def workflow_positive_def max_safe_def
        workflow_asked_def)
  also have "appliedEvent confirmed_example ''2026-06-01T12:10:00.000Z'' = None"
    by (simp add: appliedEvent_def confirmed_example_def decided_def)
  ultimately show ?thesis by (simp add: example_confirm_authorized example_decided example_confirm_operation_def)
qed

lemma example_history:
  "amendment_history [store_operation example_confirm_operation submitted_store, submitted_store, empty_store]"
proof -
  have "amendment_history [submitted_store, empty_store]"
    unfolding submitted_store_def
    by (rule amendment_history.request [OF amendment_history.nothing _ example_submit_plan])
      (simp_all add: accepts_def empty_store_def example_submit_operation_def example_amendment_def)
  then show ?thesis
    by (rule amendment_history.request [OF _ _ example_confirm_plan])
      (simp_all add: accepts_def submitted_store_def store_operation_def empty_store_def example_submit_operation_def
        example_confirm_operation_def confirmed_example_def decided_def example_amendment_def)
qed

section \<open>Properties\<close>

lemma lawful_four_eyes:
  assumes "lawful r a"
  shows "four_eyes a"
proof -
  from assms obtain a0 es where a: "submitted a0" "amendment_run a0 es a" by (auto simp: lawful_def)
  then have "valid_amendment a0" "four_eyes a0" by (auto simp: submitted_def four_eyes_def)
  with run_four_eyes [OF a(2)] show ?thesis by simp
qed

lemma decided_stays:
  assumes "amendment_run b es a" and "valid_amendment b" and "\<not> pending (am_status b)"
  shows "a = b"
proof -
  have "amendment_rank b = 0" using assms(3) by (simp add: amendment_rank_def pending_def split: amendment_status.split)
  with run_bound [OF assms(1,2)] have "es = []" by simp
  with assms(1) show ?thesis by (simp add: amendment_run_Nil)
qed

text \<open>
  C26. The workflow is safe under concurrent requests: let any number of requests be planned, each on some
  earlier state of the repository, and committed when the uniqueness constraints of the repository accept
  them. Then every amendment that was ever stored is still there; what it is now is reached from what it
  was by its own transitions and is a valid amendment; a decided amendment has not changed since; and an
  amendment that needs an approval is applied only by someone other than its requester.
\<close>

theorem amendment_history_safe:
  assumes "amendment_history (st # hist)" and "old \<in> set hist" and "st_amendments old r = Some b"
  shows "\<exists>a es. st_amendments st r = Some a \<and> amendment_run b es a \<and> valid_amendment a \<and> am_amendmentReference a = r \<and>
    (a = b \<or> pending (am_status b)) \<and> four_eyes a"
proof -
  from history_invariant [OF assms(1) refl] assms(2) have f: "follows st old"
    and l: "\<And>r a. st_amendments st r = Some a \<Longrightarrow> lawful r a" "\<And>r a. st_amendments old r = Some a \<Longrightarrow> lawful r a"
    by auto
  from f assms(3) obtain a es where a: "st_amendments st r = Some a" "amendment_run b es a"
    unfolding follows_def by blast
  from lawful_facts [OF l(1) [OF a(1)]] lawful_facts [OF l(2) [OF assms(3)]] lawful_four_eyes [OF l(1) [OF a(1)]]
    decided_stays [OF a(2)] a show ?thesis by blast
qed

theorem amendment_history_safe_witness:
  "\<exists>st :: amendment_store. st_amendments st ''01890000-0000-7000-8000-000000000101'' = Some confirmed_example \<and>
     (\<exists>es. amendment_run example_amendment es confirmed_example) \<and> four_eyes confirmed_example"
proof -
  have old: "submitted_store \<in> set [submitted_store, empty_store]" by simp
  have "am_amendmentReference confirmed_example = ''01890000-0000-7000-8000-000000000101''"
    by (simp add: confirmed_example_def decided_def example_amendment_def)
  then have now: "st_amendments (store_operation example_confirm_operation submitted_store)
      ''01890000-0000-7000-8000-000000000101'' = Some confirmed_example"
    by (simp add: store_operation_def example_confirm_operation_def)
  from amendment_history_safe [OF example_history old example_loaded] obtain es
    where "amendment_run example_amendment es confirmed_example" "four_eyes confirmed_example"
    unfolding now option.inject by blast
  with now show ?thesis by blast
qed

text \<open>
  C27. Nothing is committed without a permission of its own: for any ports, an operation that the workflow
  hands to the repository rests on an answer of the authorisation port that allows, in the store, exactly
  the permission of the action (the kitchen's for its decisions, the approver's for an approval); the
  amendment lies in the tenant, brand and store of that answer; the audit record names its actor; an
  approver is not the requester; and an event is recorded exactly when the amendment is applied.
\<close>

theorem amendment_commit_sound:
  assumes "plan_amendment ports input = Inr (CommitAmendment op)"
  shows "\<exists>action aref oref t e. enum_of request_actions (fld input ''action'') = Some action \<and>
    mp_authorize ports action aref oref t = Inr (Some e) \<and> az_permissionEffect e = ''Allow'' \<and>
    az_permissionAction e = expectedPermission action \<and> az_permissionScopeKind e = ''Store'' \<and>
    amendment_scope (ao_amendment op) e \<and>
    fld (fld (ao_audit op) ''actor'') ''reference'' = JStr (az_actorReference e) \<and>
    fld (ao_audit op) ''targetId'' = JStr aref \<and>
    (action = Submit \<longrightarrow> am_requestedByActorReference (ao_amendment op) = az_actorReference e) \<and>
    (action = Decide Approve \<longrightarrow> am_requestedByActorReference (ao_amendment op) \<noteq> az_actorReference e) \<and>
    (ao_event op \<noteq> None \<longleftrightarrow> am_status (ao_amendment op) = Applied)"
proof (rule plan_amendment_Commit [OF assms])
  fix action t aref oref v auth
  assume action: "enum_of request_actions (fld input ''action'') = Some action"
    and auth: "authorize_amendment ports action aref oref t = Inr auth"
    and a: "(case action of Submit \<Rightarrow> submitAmendment ports auth input aref oref v t
      | Decide a \<Rightarrow> decideAmendment ports auth input a aref oref v t) = Inr (ao_amendment op)"
    and op: "ao_event op = appliedEvent (ao_amendment op) t" "ao_audit op = az_audit auth"
  from authorize_amendment_Inr [OF auth] obtain e where e: "mp_authorize ports action aref oref t = Inr (Some e)"
    "auth = e\<lparr>az_audit := az_audit auth\<rparr>" "\<not> amendment_denied e (az_audit auth) action aref t" by blast
  then have same: "az_actorReference auth = az_actorReference e" "amendment_scope a auth = amendment_scope a e" for a
    by (cases e; cases auth; simp add: amendment_scope_def)+
  have "amendment_scope (ao_amendment op) auth \<and>
      (action = Submit \<longrightarrow> am_requestedByActorReference (ao_amendment op) = az_actorReference auth) \<and>
      (action = Decide Approve \<longrightarrow> am_requestedByActorReference (ao_amendment op) \<noteq> az_actorReference auth)"
  proof (cases action)
    case Submit
    with a submit_Inr [of ports auth input aref oref v t] show ?thesis by simp
  next
    case (Decide d)
    with a have "decideAmendment ports auth input d aref oref v t = Inr (ao_amendment op)" by simp
    then show ?thesis
    proof (rule decide_Inr)
      fix current
      assume c: "amendment_scope current auth"
        and tr: "transitionOrderAmendment current d (az_actorReference auth) t = Inr (ao_amendment op)"
      from tr obtain s where s: "next_status current d (az_actorReference auth) = Inr s"
        "createOrderAmendment (amendment_js (decided current s (az_actorReference auth) t)) = Inr (ao_amendment op)"
        by (auto simp: transitionOrderAmendment_def bnd_eq_Inr amendment_parse_Inr)
      from createOrderAmendment_fields [OF s(2)] c s(1) Decide show ?thesis
        by (auto simp: amendment_js_def decided_def amendment_scope_def next_status_def split: if_splits)
    qed
  qed
  with action e op same show ?thesis
    by (auto simp: amendment_denied_def appliedEvent_def intro!: exI)
qed

theorem amendment_commit_sound_witness:
  "amendment_scope example_amendment example_authorization"
  using amendment_commit_sound [OF example_submit_plan]
  by (auto simp: reading_def example_amendment_ports_def example_submit_operation_def)

end
