(* ===== verification/GuestSession.thy ===== *)
theory GuestSession
  imports OrderingValues AuditRecords
begin

text \<open>
  Guest sessions: \<open>packages/bop/identity/src/contracts/guest-session.ts\<close>, with the value parsers of
  \<open>identity-actor.ts\<close> it uses. A guest session is bound to a store, slides its idle deadline, has an
  absolute one, and is cut short when its order closes.
\<close>

section \<open>Data\<close>

datatype guest_channel = GuestDineIn | GuestPickup

datatype guest_status = GuestActive | GuestRevoked | GuestExpired

datatype guest_dining_state = ContextOnly | DiningBound

datatype guest_revocation_reason =
    Rotated | BindingChanged | Logout | StoreUnavailable | QrRevoked | OrderClosed | DiningSessionClosed
  | RiskChanged | Administrative

definition guest_channels :: "(string \<times> guest_channel) list" where
  "guest_channels = [(''DineIn'', GuestDineIn), (''Pickup'', GuestPickup)]"

definition guest_statuses :: "(string \<times> guest_status) list" where
  "guest_statuses = [(''Active'', GuestActive), (''Revoked'', GuestRevoked), (''Expired'', GuestExpired)]"

definition guest_dining_states :: "(string \<times> guest_dining_state) list" where
  "guest_dining_states = [(''ContextOnly'', ContextOnly), (''DiningBound'', DiningBound)]"

definition guest_reasons :: "(string \<times> guest_revocation_reason) list" where
  "guest_reasons =
     [(''Rotated'', Rotated), (''BindingChanged'', BindingChanged), (''Logout'', Logout),
      (''StoreUnavailable'', StoreUnavailable), (''QrRevoked'', QrRevoked), (''OrderClosed'', OrderClosed),
      (''DiningSessionClosed'', DiningSessionClosed), (''RiskChanged'', RiskChanged),
      (''Administrative'', Administrative)]"

record guest_admission_evidence =
  ga_evidenceReference :: string
  ga_entryRequestReference :: string
  ga_brandReference :: string
  ga_storeReference :: string
  ga_publicStoreReference :: string
  ga_publicTableReference :: "string option"
  ga_channel :: guest_channel
  ga_locale :: string
  ga_qrReference :: string
  ga_qrRevocationVersion :: int
  ga_evaluatedAt :: string
  ga_validUntil :: string

record guest_dining_admission_evidence =
  gd_admissionReference :: string
  gd_operationReference :: string
  gd_storeReference :: string
  gd_publicTableReference :: string
  gd_diningSessionReference :: string
  gd_diningParticipantReference :: string
  gd_evaluatedAt :: string
  gd_validUntil :: string

record guest_session =
  gs_sessionReference :: string
  gs_status :: guest_status
  gs_version :: int
  gs_brandReference :: string
  gs_storeReference :: string
  gs_publicStoreReference :: string
  gs_publicTableReference :: "string option"
  gs_channel :: guest_channel
  gs_locale :: string
  gs_qrReference :: string
  gs_qrRevocationVersion :: int
  gs_diningState :: guest_dining_state
  gs_diningSessionReference :: "string option"
  gs_diningParticipantReference :: "string option"
  gs_createdAt :: string
  gs_lastSeenAt :: string
  gs_idleExpiresAt :: string
  gs_absoluteExpiresAt :: string
  gs_orderClosedAt :: "string option"
  gs_closureExpiresAt :: "string option"
  gs_rotatedFromGuestSessionReference :: "string option"
  gs_revocationReason :: "guest_revocation_reason option"
  gs_revokedAt :: "string option"

record guest_session_record =
  gr_session :: guest_session
  gr_sessionSelectorHash :: string
  gr_csrfSelectorHash :: string
  gr_operationReference :: string
  gr_operationIntentHash :: string

section \<open>Value parsers\<close>

definition guest_invalid :: err where
  "guest_invalid = GuestSessionError GUEST_SESSION_INPUT_INVALID"

definition parseOpaqueUuidV7 :: "js \<Rightarrow> identity_contract_code \<Rightarrow> string res" where
  "parseOpaqueUuidV7 v code = or_throw (str_if uuid_v7 v) (IdentityContractError code)"

definition identity_instant :: "js \<Rightarrow> string res" where
  "identity_instant v = or_throw (str_if canonical_instant v) (IdentityContractError TIMESTAMP_INVALID)"

definition readClosedRecord :: "js \<Rightarrow> string list \<Rightarrow> identity_contract_code \<Rightarrow> unit res" where
  "readClosedRecord v keys code = throw_if (\<not> has_shape v keys) (IdentityContractError code)"

definition guest_uuid :: "js \<Rightarrow> string res" where
  "guest_uuid v = catching (parseOpaqueUuidV7 v IDENTITY_INPUT_INVALID) (\<lambda>_. Inl guest_invalid)"

definition guest_instant :: "js \<Rightarrow> string res" where
  "guest_instant v = catching (identity_instant v) (\<lambda>_. Inl guest_invalid)"

definition guest_closed :: "js \<Rightarrow> string list \<Rightarrow> unit res" where
  "guest_closed v keys = catching (readClosedRecord v keys IDENTITY_INPUT_INVALID) (\<lambda>_. Inl guest_invalid)"

text \<open>\<open>/^[0-9a-f]{64}$/u\<close>, and the characters of a raw credential.\<close>

definition parseGuestSelectorHash :: "js \<Rightarrow> string res" where
  "parseGuestSelectorHash v = or_throw (str_if (matches (replicate 64 is_hex)) v) guest_invalid"

definition parseGuestRawCredential :: "js \<Rightarrow> string res" where
  "parseGuestRawCredential v =
     or_throw (str_if (matches (replicate 43 (\<lambda>c. is_alnum c \<or> c \<in> set ''_-''))) v) guest_invalid"

text \<open>
  \<open>/^[a-z]{2,3}(?:-[A-Z][a-z]{3})?(?:-[A-Z]{2}|\d{3})?$/u\<close>. The hyphen belongs to the first alternative
  only: a numeric region follows without one.
\<close>

definition locale_region :: "string \<Rightarrow> bool" where
  "locale_region r \<longleftrightarrow> r = [] \<or> matches [lit (CHR ''-''), is_upper, is_upper] r \<or> matches (replicate 3 is_digit) r"

definition locale_script :: "string \<Rightarrow> bool" where
  "locale_script r \<longleftrightarrow> locale_region r \<or>
     (matches [lit (CHR ''-''), is_upper, is_lower, is_lower, is_lower] (take 5 r) \<and> locale_region (drop 5 r))"

definition locale_format :: "string \<Rightarrow> bool" where
  "locale_format s \<longleftrightarrow>
     list_ex (\<lambda>n. n \<le> length s \<and> list_all is_lower (take n s) \<and> locale_script (drop n s)) [2, 3]"

section \<open>Admission evidence\<close>

definition guest_table :: "guest_channel \<Rightarrow> js \<Rightarrow> string option res" where
  "guest_table channel v =
     bnd (nullable guest_uuid v) (\<lambda>table.
     bnd (throw_if ((channel = GuestDineIn) \<noteq> (table \<noteq> None)) guest_invalid) (\<lambda>_. Inr table))"

definition parseGuestAdmissionEvidence :: "js \<Rightarrow> guest_admission_evidence res" where
  "parseGuestAdmissionEvidence v =
     bnd (guest_closed v [''decision'', ''evidenceReference'', ''entryRequestReference'', ''brandReference'',
            ''storeReference'', ''publicStoreReference'', ''publicTableReference'', ''channel'', ''locale'',
            ''qrReference'', ''qrRevocationVersion'', ''evaluatedAt'', ''validUntil'']) (\<lambda>_.
     bnd (throw_if (fld v ''decision'' \<noteq> JStr ''Allowed'') guest_invalid) (\<lambda>_.
     bnd (or_throw (enum_of guest_channels (fld v ''channel'')) guest_invalid) (\<lambda>channel.
     bnd (or_throw (str_if locale_format (fld v ''locale'')) guest_invalid) (\<lambda>loc.
     bnd (or_throw (safe_int_in 1 max_safe (fld v ''qrRevocationVersion'')) guest_invalid) (\<lambda>qrVersion.
     bnd (guest_table channel (fld v ''publicTableReference'')) (\<lambda>table.
     bnd (guest_instant (fld v ''evaluatedAt'')) (\<lambda>evaluatedAt.
     bnd (guest_instant (fld v ''validUntil'')) (\<lambda>validUntil.
     bnd (throw_if (ms_of validUntil \<le> ms_of evaluatedAt) guest_invalid) (\<lambda>_.
     bnd (guest_uuid (fld v ''evidenceReference'')) (\<lambda>evidence.
     bnd (guest_uuid (fld v ''entryRequestReference'')) (\<lambda>entry.
     bnd (guest_uuid (fld v ''brandReference'')) (\<lambda>brand.
     bnd (guest_uuid (fld v ''storeReference'')) (\<lambda>store.
     bnd (guest_uuid (fld v ''publicStoreReference'')) (\<lambda>publicStore.
     bnd (guest_uuid (fld v ''qrReference'')) (\<lambda>qr.
     Inr \<lparr>ga_evidenceReference = evidence, ga_entryRequestReference = entry, ga_brandReference = brand,
          ga_storeReference = store, ga_publicStoreReference = publicStore, ga_publicTableReference = table,
          ga_channel = channel, ga_locale = loc, ga_qrReference = qr, ga_qrRevocationVersion = qrVersion,
          ga_evaluatedAt = evaluatedAt, ga_validUntil = validUntil\<rparr>)))))))))))))))"

definition parseGuestDiningAdmissionEvidence :: "js \<Rightarrow> guest_dining_admission_evidence res" where
  "parseGuestDiningAdmissionEvidence v =
     bnd (guest_closed v [''decision'', ''admissionReference'', ''operationReference'', ''storeReference'',
            ''publicTableReference'', ''diningSessionReference'', ''diningParticipantReference'', ''evaluatedAt'',
            ''validUntil'']) (\<lambda>_.
     bnd (throw_if (fld v ''decision'' \<noteq> JStr ''Allowed'') guest_invalid) (\<lambda>_.
     bnd (guest_instant (fld v ''evaluatedAt'')) (\<lambda>evaluatedAt.
     bnd (guest_instant (fld v ''validUntil'')) (\<lambda>validUntil.
     bnd (throw_if (ms_of validUntil \<le> ms_of evaluatedAt) guest_invalid) (\<lambda>_.
     bnd (guest_uuid (fld v ''admissionReference'')) (\<lambda>admission.
     bnd (guest_uuid (fld v ''operationReference'')) (\<lambda>operation.
     bnd (guest_uuid (fld v ''storeReference'')) (\<lambda>store.
     bnd (guest_uuid (fld v ''publicTableReference'')) (\<lambda>table.
     bnd (guest_uuid (fld v ''diningSessionReference'')) (\<lambda>dining.
     bnd (guest_uuid (fld v ''diningParticipantReference'')) (\<lambda>participant.
     Inr \<lparr>gd_admissionReference = admission, gd_operationReference = operation, gd_storeReference = store,
          gd_publicTableReference = table, gd_diningSessionReference = dining,
          gd_diningParticipantReference = participant, gd_evaluatedAt = evaluatedAt,
          gd_validUntil = validUntil\<rparr>)))))))))))"

section \<open>Sessions\<close>

definition guest_dining_bad ::
  "guest_channel \<Rightarrow> guest_dining_state \<Rightarrow> string option \<Rightarrow> string option \<Rightarrow> bool" where
  "guest_dining_bad channel state dining participant \<longleftrightarrow>
     (state = ContextOnly \<and> (dining \<noteq> None \<or> participant \<noteq> None)) \<or>
     (state = DiningBound \<and> (channel \<noteq> GuestDineIn \<or> dining = None \<or> participant = None))"

definition guest_times_bad ::
  "string \<Rightarrow> string \<Rightarrow> string \<Rightarrow> string \<Rightarrow> string option \<Rightarrow> string option \<Rightarrow> bool" where
  "guest_times_bad createdAt lastSeenAt idleExpiresAt absoluteExpiresAt orderClosedAt closureExpiresAt \<longleftrightarrow>
     ms_of lastSeenAt < ms_of createdAt \<or>
     ms_of idleExpiresAt \<noteq> ms_of lastSeenAt + 4 * 60 * 60 * 1000 \<or>
     ms_of absoluteExpiresAt \<noteq> ms_of createdAt + 24 * 60 * 60 * 1000 \<or>
     (orderClosedAt = None) \<noteq> (closureExpiresAt = None) \<or>
     (case (orderClosedAt, closureExpiresAt) of
        (Some closed, Some expires) \<Rightarrow> ms_of expires \<noteq> ms_of closed + 2 * 60 * 60 * 1000
      | _ \<Rightarrow> False)"

text \<open>The revocation reason and time a status allows, with the reason read.\<close>

definition guest_revocation ::
  "guest_status \<Rightarrow> js \<Rightarrow> string option \<Rightarrow> string \<Rightarrow> guest_revocation_reason option res" where
  "guest_revocation status v revokedAt createdAt =
     (if status = GuestRevoked
      then bnd (or_throw (enum_of guest_reasons v) guest_invalid) (\<lambda>r.
           case revokedAt of
             None \<Rightarrow> Inl guest_invalid
           | Some t \<Rightarrow> if ms_of t < ms_of createdAt then Inl guest_invalid else Inr (Some r))
      else if v = JNull \<and> revokedAt = None then Inr None else Inl guest_invalid)"

definition createGuestSession :: "js \<Rightarrow> guest_session res" where
  "createGuestSession v =
     bnd (guest_closed v [''sessionReference'', ''status'', ''version'', ''brandReference'', ''storeReference'',
            ''publicStoreReference'', ''publicTableReference'', ''channel'', ''locale'', ''qrReference'',
            ''qrRevocationVersion'', ''diningState'', ''diningSessionReference'', ''diningParticipantReference'',
            ''createdAt'', ''lastSeenAt'', ''idleExpiresAt'', ''absoluteExpiresAt'', ''orderClosedAt'',
            ''closureExpiresAt'', ''rotatedFromGuestSessionReference'', ''revocationReason'', ''revokedAt'']) (\<lambda>_.
     bnd (or_throw (enum_of guest_statuses (fld v ''status'')) guest_invalid) (\<lambda>status.
     bnd (or_throw (safe_int_in 1 max_safe (fld v ''version'')) guest_invalid) (\<lambda>version.
     bnd (or_throw (enum_of guest_channels (fld v ''channel'')) guest_invalid) (\<lambda>channel.
     bnd (or_throw (enum_of guest_dining_states (fld v ''diningState'')) guest_invalid) (\<lambda>diningState.
     bnd (or_throw (str_if locale_format (fld v ''locale'')) guest_invalid) (\<lambda>loc.
     bnd (or_throw (safe_int_in 1 max_safe (fld v ''qrRevocationVersion'')) guest_invalid) (\<lambda>qrVersion.
     bnd (guest_table channel (fld v ''publicTableReference'')) (\<lambda>table.
     bnd (nullable guest_uuid (fld v ''diningSessionReference'')) (\<lambda>dining.
     bnd (nullable guest_uuid (fld v ''diningParticipantReference'')) (\<lambda>participant.
     bnd (throw_if (guest_dining_bad channel diningState dining participant) guest_invalid) (\<lambda>_.
     bnd (guest_instant (fld v ''createdAt'')) (\<lambda>createdAt.
     bnd (guest_instant (fld v ''lastSeenAt'')) (\<lambda>lastSeenAt.
     bnd (guest_instant (fld v ''idleExpiresAt'')) (\<lambda>idleExpiresAt.
     bnd (guest_instant (fld v ''absoluteExpiresAt'')) (\<lambda>absoluteExpiresAt.
     bnd (nullable guest_instant (fld v ''orderClosedAt'')) (\<lambda>orderClosedAt.
     bnd (nullable guest_instant (fld v ''closureExpiresAt'')) (\<lambda>closureExpiresAt.
     bnd (nullable guest_instant (fld v ''revokedAt'')) (\<lambda>revokedAt.
     bnd (throw_if (guest_times_bad createdAt lastSeenAt idleExpiresAt absoluteExpiresAt orderClosedAt closureExpiresAt)
            guest_invalid) (\<lambda>_.
     bnd (guest_revocation status (fld v ''revocationReason'') revokedAt createdAt) (\<lambda>reason.
     bnd (guest_uuid (fld v ''sessionReference'')) (\<lambda>session.
     bnd (guest_uuid (fld v ''brandReference'')) (\<lambda>brand.
     bnd (guest_uuid (fld v ''storeReference'')) (\<lambda>store.
     bnd (guest_uuid (fld v ''publicStoreReference'')) (\<lambda>publicStore.
     bnd (guest_uuid (fld v ''qrReference'')) (\<lambda>qr.
     bnd (nullable guest_uuid (fld v ''rotatedFromGuestSessionReference'')) (\<lambda>rotatedFrom.
     Inr \<lparr>gs_sessionReference = session, gs_status = status, gs_version = version, gs_brandReference = brand,
          gs_storeReference = store, gs_publicStoreReference = publicStore, gs_publicTableReference = table,
          gs_channel = channel, gs_locale = loc, gs_qrReference = qr, gs_qrRevocationVersion = qrVersion,
          gs_diningState = diningState, gs_diningSessionReference = dining,
          gs_diningParticipantReference = participant, gs_createdAt = createdAt, gs_lastSeenAt = lastSeenAt,
          gs_idleExpiresAt = idleExpiresAt, gs_absoluteExpiresAt = absoluteExpiresAt,
          gs_orderClosedAt = orderClosedAt, gs_closureExpiresAt = closureExpiresAt,
          gs_rotatedFromGuestSessionReference = rotatedFrom, gs_revocationReason = reason,
          gs_revokedAt = revokedAt\<rparr>))))))))))))))))))))))))))"

definition createGuestSessionRecord :: "js \<Rightarrow> guest_session_record res" where
  "createGuestSessionRecord v =
     bnd (guest_closed v [''session'', ''sessionSelectorHash'', ''csrfSelectorHash'', ''operationReference'',
            ''operationIntentHash'']) (\<lambda>_.
     bnd (createGuestSession (fld v ''session'')) (\<lambda>session.
     bnd (parseGuestSelectorHash (fld v ''sessionSelectorHash'')) (\<lambda>selector.
     bnd (parseGuestSelectorHash (fld v ''csrfSelectorHash'')) (\<lambda>csrf.
     bnd (guest_uuid (fld v ''operationReference'')) (\<lambda>operation.
     bnd (parseGuestSelectorHash (fld v ''operationIntentHash'')) (\<lambda>intent.
     Inr \<lparr>gr_session = session, gr_sessionSelectorHash = selector, gr_csrfSelectorHash = csrf,
          gr_operationReference = operation, gr_operationIntentHash = intent\<rparr>))))))"

text \<open>The earliest of the deadlines that apply.\<close>

definition guest_expiry :: "guest_session \<Rightarrow> int" where
  "guest_expiry s =
     (let m = min (ms_of (gs_idleExpiresAt s)) (ms_of (gs_absoluteExpiresAt s)) in
      case gs_closureExpiresAt s of None \<Rightarrow> m | Some c \<Rightarrow> min m (ms_of c))"

definition assertGuestSessionUsable :: "guest_session \<Rightarrow> js \<Rightarrow> guest_session res" where
  "assertGuestSessionUsable s v =
     bnd (guest_instant v) (\<lambda>observedAt.
     bnd (throw_if (gs_status s \<noteq> GuestActive \<or> guest_expiry s \<le> ms_of observedAt)
            (GuestSessionError GUEST_SESSION_UNAVAILABLE)) (\<lambda>_. Inr s))"

section \<open>Valid sessions\<close>

lemma guest_parse_Inr [res_simps]:
  "guest_closed v ks = Inr u \<longleftrightarrow> has_shape v ks"
  "guest_uuid v = Inr s \<longleftrightarrow> v = JStr s \<and> uuid_v7 s"
  "guest_instant v = Inr s \<longleftrightarrow> v = JStr s \<and> canonical_instant s"
  by (simp_all add: guest_closed_def readClosedRecord_def guest_uuid_def parseOpaqueUuidV7_def guest_instant_def
      identity_instant_def res_simps)

interpretation guuid: codec guest_uuid JStr uuid_v7
  by (rule string_codec) (simp add: guest_parse_Inr)

interpretation ginst: codec guest_instant JStr canonical_instant
  by (rule string_codec) (simp add: guest_parse_Inr)

definition guest_channel_name :: "guest_channel \<Rightarrow> string" where
  "guest_channel_name c = (case c of GuestDineIn \<Rightarrow> ''DineIn'' | GuestPickup \<Rightarrow> ''Pickup'')"

definition guest_status_name :: "guest_status \<Rightarrow> string" where
  "guest_status_name s = (case s of GuestActive \<Rightarrow> ''Active'' | GuestRevoked \<Rightarrow> ''Revoked'' | GuestExpired \<Rightarrow> ''Expired'')"

definition guest_dining_state_name :: "guest_dining_state \<Rightarrow> string" where
  "guest_dining_state_name s = (case s of ContextOnly \<Rightarrow> ''ContextOnly'' | DiningBound \<Rightarrow> ''DiningBound'')"

definition guest_reason_name :: "guest_revocation_reason \<Rightarrow> string" where
  "guest_reason_name r = (case r of Rotated \<Rightarrow> ''Rotated'' | BindingChanged \<Rightarrow> ''BindingChanged'' | Logout \<Rightarrow> ''Logout''
     | StoreUnavailable \<Rightarrow> ''StoreUnavailable'' | QrRevoked \<Rightarrow> ''QrRevoked'' | OrderClosed \<Rightarrow> ''OrderClosed''
     | DiningSessionClosed \<Rightarrow> ''DiningSessionClosed'' | RiskChanged \<Rightarrow> ''RiskChanged'' | Administrative \<Rightarrow> ''Administrative'')"

definition guest_session_js :: "guest_session \<Rightarrow> js" where
  "guest_session_js s = JObj
     [(''sessionReference'', JStr (gs_sessionReference s)), (''status'', JStr (guest_status_name (gs_status s))),
      (''version'', JNum (gs_version s)), (''brandReference'', JStr (gs_brandReference s)),
      (''storeReference'', JStr (gs_storeReference s)), (''publicStoreReference'', JStr (gs_publicStoreReference s)),
      (''publicTableReference'', js_opt JStr (gs_publicTableReference s)),
      (''channel'', JStr (guest_channel_name (gs_channel s))), (''locale'', JStr (gs_locale s)),
      (''qrReference'', JStr (gs_qrReference s)), (''qrRevocationVersion'', JNum (gs_qrRevocationVersion s)),
      (''diningState'', JStr (guest_dining_state_name (gs_diningState s))),
      (''diningSessionReference'', js_opt JStr (gs_diningSessionReference s)),
      (''diningParticipantReference'', js_opt JStr (gs_diningParticipantReference s)),
      (''createdAt'', JStr (gs_createdAt s)), (''lastSeenAt'', JStr (gs_lastSeenAt s)),
      (''idleExpiresAt'', JStr (gs_idleExpiresAt s)), (''absoluteExpiresAt'', JStr (gs_absoluteExpiresAt s)),
      (''orderClosedAt'', js_opt JStr (gs_orderClosedAt s)), (''closureExpiresAt'', js_opt JStr (gs_closureExpiresAt s)),
      (''rotatedFromGuestSessionReference'', js_opt JStr (gs_rotatedFromGuestSessionReference s)),
      (''revocationReason'', js_opt (\<lambda>r. JStr (guest_reason_name r)) (gs_revocationReason s)),
      (''revokedAt'', js_opt JStr (gs_revokedAt s))]"

definition guest_revocation_ok ::
  "guest_status \<Rightarrow> guest_revocation_reason option \<Rightarrow> string option \<Rightarrow> string \<Rightarrow> bool" where
  "guest_revocation_ok status reason revokedAt createdAt \<longleftrightarrow>
     (if status = GuestRevoked
      then reason \<noteq> None \<and> (case revokedAt of None \<Rightarrow> False | Some t \<Rightarrow> ms_of createdAt \<le> ms_of t)
      else reason = None \<and> revokedAt = None)"

definition valid_guest_session :: "guest_session \<Rightarrow> bool" where
  "valid_guest_session s \<longleftrightarrow>
     uuid_v7 (gs_sessionReference s) \<and> uuid_v7 (gs_brandReference s) \<and> uuid_v7 (gs_storeReference s) \<and>
     uuid_v7 (gs_publicStoreReference s) \<and> uuid_v7 (gs_qrReference s) \<and>
     pred_option uuid_v7 (gs_publicTableReference s) \<and> pred_option uuid_v7 (gs_diningSessionReference s) \<and>
     pred_option uuid_v7 (gs_diningParticipantReference s) \<and>
     pred_option uuid_v7 (gs_rotatedFromGuestSessionReference s) \<and>
     1 \<le> gs_version s \<and> gs_version s \<le> max_safe \<and>
     1 \<le> gs_qrRevocationVersion s \<and> gs_qrRevocationVersion s \<le> max_safe \<and>
     locale_format (gs_locale s) \<and> (gs_channel s = GuestDineIn \<longleftrightarrow> gs_publicTableReference s \<noteq> None) \<and>
     \<not> guest_dining_bad (gs_channel s) (gs_diningState s) (gs_diningSessionReference s) (gs_diningParticipantReference s) \<and>
     canonical_instant (gs_createdAt s) \<and> canonical_instant (gs_lastSeenAt s) \<and>
     canonical_instant (gs_idleExpiresAt s) \<and> canonical_instant (gs_absoluteExpiresAt s) \<and>
     pred_option canonical_instant (gs_orderClosedAt s) \<and> pred_option canonical_instant (gs_closureExpiresAt s) \<and>
     pred_option canonical_instant (gs_revokedAt s) \<and>
     \<not> guest_times_bad (gs_createdAt s) (gs_lastSeenAt s) (gs_idleExpiresAt s) (gs_absoluteExpiresAt s)
         (gs_orderClosedAt s) (gs_closureExpiresAt s) \<and>
     guest_revocation_ok (gs_status s) (gs_revocationReason s) (gs_revokedAt s) (gs_createdAt s)"

lemma guest_enum_names:
  "enum_of guest_channels (JStr (guest_channel_name c)) = Some c"
  "enum_of guest_statuses (JStr (guest_status_name st)) = Some st"
  "enum_of guest_dining_states (JStr (guest_dining_state_name d)) = Some d"
  "enum_of guest_reasons (JStr (guest_reason_name r)) = Some r"
  apply (cases c; simp add: enum_of_def guest_channels_def guest_channel_name_def)
  apply (cases st; simp add: enum_of_def guest_statuses_def guest_status_name_def)
  apply (cases d; simp add: enum_of_def guest_dining_states_def guest_dining_state_name_def)
  apply (cases r; simp add: enum_of_def guest_reasons_def guest_reason_name_def)
  done

lemma guest_version_Inr [res_simps]:
  "or_throw (safe_int_in 1 max_safe v) e = Inr n \<longleftrightarrow> v = JNum n \<and> 1 \<le> n \<and> n \<le> max_safe"
  by (auto simp: or_throw_Inr safe_int_in_Some max_safe_def)

lemma guest_table_Inr [res_simps]:
  "guest_table c v = Inr t \<longleftrightarrow> nullable guest_uuid v = Inr t \<and> (c = GuestDineIn \<longleftrightarrow> t \<noteq> None)"
  by (auto simp: guest_table_def bnd_eq_Inr throw_if_eq_Inr)

lemma guest_table_valid: "guest_table c v = Inr t \<Longrightarrow> pred_option uuid_v7 t \<and> (c = GuestDineIn \<longleftrightarrow> t \<noteq> None)"
  using guuid.nullable_valid by (auto simp: guest_table_Inr)

lemma guest_revocation_Inr: "guest_revocation st v t c = Inr r \<Longrightarrow> guest_revocation_ok st r t c"
  by (auto simp: guest_revocation_def guest_revocation_ok_def bnd_eq_Inr split: if_splits option.splits)

lemma guest_revocation_printed:
  "guest_revocation_ok st r t c \<Longrightarrow> guest_revocation st (js_opt (\<lambda>r. JStr (guest_reason_name r)) r) t c = Inr r"
  by (auto simp: guest_revocation_ok_def guest_revocation_def guest_enum_names not_less split: if_splits option.splits)

interpretation guest: codec createGuestSession guest_session_js valid_guest_session
proof unfold_locales
  show "valid_guest_session s" if "createGuestSession v = Inr s" for v s
    using that unfolding createGuestSession_def bnd_eq_Inr
    by (elim exE conjE) (drule Inr_inject, hypsubst, drule guest_revocation_Inr, drule guest_table_valid,
      simp add: valid_guest_session_def throw_if_eq_Inr guest_parse_Inr safe_int_in_Some
        or_throw_Inr str_if_Some guuid.nullable_valid ginst.nullable_valid)
  show "createGuestSession (guest_session_js s) = Inr s" if "valid_guest_session s" for s
    using that by (simp add: createGuestSession_def guest_session_js_def valid_guest_session_def guest_parse_Inr
        guest_version_Inr guest_table_Inr bnd_eq_Inr or_throw_Inr throw_if_eq_Inr guest_enum_names
        guest_revocation_printed guuid.nullable_parse_print ginst.nullable_parse_print)
qed (simp add: guest_session_js_def)

lemma assertGuestSessionUsable_Inr [res_simps]:
  "assertGuestSessionUsable s v = Inr s' \<longleftrightarrow>
     s' = s \<and> gs_status s = GuestActive \<and> (\<exists>t. v = JStr t \<and> canonical_instant t \<and> ms_of t < guest_expiry s)"
  by (auto simp: assertGuestSessionUsable_def bnd_eq_Inr throw_if_eq_Inr guest_parse_Inr not_le)

end
