(* ===== verification/CartLifecycleCommands.thy ===== *)
theory CartLifecycleCommands
  imports CartItemCommands GuestSession
begin

text \<open>
  The commands that end a cart: \<open>packages/rms/ordering/src/application/cart-lifecycle-command-service.ts\<close>.
  A request is authorised, an operation that was recorded before is replayed, and otherwise the loaded
  cart is ended and handed to the repository together with the operation record and the audit evidence.
  The ports (authorisation, hash, repository) are functions given by the caller; a rejected promise is
  the \<open>Inl\<close> of their answer.
\<close>

section \<open>Data\<close>

datatype lifecycle_action = Abandon | Expire

definition action_name :: "lifecycle_action \<Rightarrow> string" where
  "action_name a = (case a of Abandon \<Rightarrow> ''Abandon'' | Expire \<Rightarrow> ''Expire'')"

text \<open>\<open>action\<close> keeps the value that was read: it is checked through \<open>String(...)\<close>.\<close>

record lifecycle_operation =
  lo_action :: js
  lo_operationReference :: string
  lo_operationIntentHash :: string
  lo_guestSessionReference :: "string option"
  lo_cartReference :: string
  lo_result :: cart_aggregate
  lo_occurredAt :: string
  lo_expiresAt :: string

text \<open>An authorisation is the pair of its \<open>guestSession\<close> and its \<open>audit\<close> evidence.\<close>

record lifecycle_ports =
  lp_authorize :: "lifecycle_action \<Rightarrow> string \<Rightarrow> string \<Rightarrow> string \<Rightarrow> (js \<times> js) option res"
  lp_hashIntent :: "string \<Rightarrow> string"
  lp_equals :: "string \<Rightarrow> string \<Rightarrow> bool"
  lp_resolveOperation :: "string \<Rightarrow> js res"
  lp_load :: "string \<Rightarrow> js res"
  lp_commit :: "lifecycle_operation \<Rightarrow> int \<Rightarrow> js \<Rightarrow> js res"

datatype lifecycle_outcome = Applied cart_aggregate | AlreadyApplied cart_aggregate

record lifecycle_request =
  lr_cartReference :: string
  lr_expectedAggregateVersion :: int
  lr_operationReference :: string
  lr_observedAt :: string

section \<open>Helpers of the service\<close>

definition cart_denied :: err where
  "cart_denied = CartError CART_PERMISSION_DENIED"

definition cart_dependency :: err where
  "cart_dependency = CartError CART_DEPENDENCY_UNAVAILABLE"

definition cart_version :: "js \<Rightarrow> int res" where
  "cart_version v = or_throw (safe_int_in 1 max_safe v) cart_invalid"

text \<open>\<open>.catch(failure)\<close>: the errors of the cart's life pass, every other one is a missing dependency.\<close>

definition lifecycle_failure :: "err \<Rightarrow> err" where
  "lifecycle_failure e =
     (if e \<in> set (map CartError [CART_VERSION_CONFLICT, CART_IDEMPOTENCY_CONFLICT, CART_EXPIRATION_NOT_DUE,
            CART_EXPIRED, CART_ABANDONED, CART_LIFECYCLE_UNAVAILABLE])
      then e else cart_dependency)"

definition asked :: "'a res \<Rightarrow> 'a res" where
  "asked m = catching m (\<lambda>e. Inl (lifecycle_failure e))"

text \<open>
  The guest session must be usable now and belong to the cart. Its references have been parsed by
  \<open>createGuestSession\<close>, in the format \<open>parseOrderingReference\<close> asks for again.
\<close>

definition guest_outside_cart :: "guest_session \<Rightarrow> cart_aggregate \<Rightarrow> bool" where
  "guest_outside_cart s c \<longleftrightarrow>
     gs_brandReference s \<noteq> ca_brandReference c \<or> gs_storeReference s \<noteq> ca_storeReference c \<or>
     guest_channel_name (gs_channel s) \<noteq> order_type_name (ca_orderType c) \<or>
     ca_sourceChannel c \<notin> {QrChannel, WebChannel} \<or>
     (ca_orderType c = Pickup \<and>
        (gs_sessionReference s \<noteq> ca_createdByActorReference c \<or> gs_diningState s \<noteq> ContextOnly \<or>
         gs_diningSessionReference s \<noteq> None \<or> gs_diningParticipantReference s \<noteq> None)) \<or>
     (ca_orderType c = DineIn \<and>
        (gs_diningState s \<noteq> DiningBound \<or> gs_diningSessionReference s = None \<or>
         gs_diningSessionReference s \<noteq> ca_diningSessionReference c \<or> gs_diningParticipantReference s = None))"

definition guestForCart :: "js \<Rightarrow> cart_aggregate \<Rightarrow> string \<Rightarrow> guest_session res" where
  "guestForCart v cart observedAt =
     catching
       (bnd (createGuestSession v) (\<lambda>s0.
        bnd (assertGuestSessionUsable s0 (JStr observedAt)) (\<lambda>s.
        bnd (throw_if (guest_outside_cart s cart) cart_denied) (\<lambda>_. Inr s))))
       (\<lambda>_. Inl cart_denied)"

definition lifecycle_audit_describes :: "js \<Rightarrow> lifecycle_action \<Rightarrow> cart_aggregate \<Rightarrow> string \<Rightarrow> bool" where
  "lifecycle_audit_describes p action cart observedAt \<longleftrightarrow>
     fld p ''brandId'' = JStr (ca_brandReference cart) \<and> fld p ''storeId'' = JStr (ca_storeReference cart) \<and>
     fld (fld p ''actor'') ''type'' = JStr ''System'' \<and>
     fld p ''actionCode'' = JStr (case action of Abandon \<Rightarrow> ''ORDERING_CART_ABANDON'' | Expire \<Rightarrow> ''ORDERING_CART_EXPIRE'') \<and>
     fld p ''targetType'' = JStr ''OrderingCart'' \<and> fld p ''targetId'' = JStr (ca_cartReference cart) \<and>
     fld p ''beforeSummary'' = JUndefined \<and> fld p ''afterSummary'' = JUndefined \<and>
     fld p ''reasonCode'' = JStr (case action of Abandon \<Rightarrow> ''AUTHORIZED_CART_ABANDONMENT'' | Expire \<Rightarrow> ''CART_DEADLINE_REACHED'') \<and>
     fld p ''occurredAt'' = JStr observedAt \<and>
     fld p ''sourceChannel'' = JStr (case action of Abandon \<Rightarrow> ''CUSTOMER_PWA'' | Expire \<Rightarrow> ''SYSTEM'') \<and>
     fld p ''dataClassification'' = JStr ''Restricted''"

definition lifecycle_audit :: "js \<Rightarrow> lifecycle_action \<Rightarrow> cart_aggregate \<Rightarrow> string \<Rightarrow> js res" where
  "lifecycle_audit evidence action cart observedAt =
     catching
       (bnd (validateAuditRecord evidence (ms_of observedAt)) (\<lambda>p.
        bnd (throw_if (\<not> lifecycle_audit_describes p action cart observedAt) cart_denied) (\<lambda>_. Inr p)))
       (\<lambda>_. Inl cart_denied)"

definition dayMilliseconds :: int where
  "dayMilliseconds = 24 * 60 * 60 * 1000"

definition idempotencyExpiry :: "string \<Rightarrow> string res" where
  "idempotencyExpiry observedAt =
     bnd (date_to_iso (map_option (\<lambda>t. t + dayMilliseconds) (date_parse observedAt))) (\<lambda>s.
     parseOrderingInstant (JStr s))"

section \<open>Operation records\<close>

definition lifecycle_record_bad :: "js \<Rightarrow> cart_aggregate \<Rightarrow> string \<Rightarrow> string \<Rightarrow> string \<Rightarrow> bool" where
  "lifecycle_record_bad action result cartReference occurredAt expiresAt \<longleftrightarrow>
     \<not> named_in [''Abandon'', ''Expire''] action \<or>
     cartReference \<noteq> ca_cartReference result \<or>
     ms_of expiresAt \<noteq> ms_of occurredAt + dayMilliseconds \<or>
     (case ca_lifecycle result of
        None \<Rightarrow> True
      | Some l \<Rightarrow> (action = JStr ''Abandon'' \<and> cl_status l \<noteq> JStr ''Abandoned'') \<or>
                  (action = JStr ''Expire'' \<and> cl_status l \<noteq> JStr ''Expired''))"

definition parseLifecycleRecord :: "js \<Rightarrow> lifecycle_operation res" where
  "parseLifecycleRecord v =
     catching
       (bnd (cart_closed v [''action'', ''operationReference'', ''operationIntentHash'', ''guestSessionReference'',
               ''cartReference'', ''result'', ''occurredAt'', ''expiresAt'']) (\<lambda>_.
        bnd (parseCartAggregate (fld v ''result'')) (\<lambda>result.
        bnd (parseOrderingReference (fld v ''operationReference'')) (\<lambda>operation.
        bnd (parseOrderingInstant (fld v ''occurredAt'')) (\<lambda>occurredAt.
        bnd (parseOrderingInstant (fld v ''expiresAt'')) (\<lambda>expiresAt.
        bnd (parseOrderingReference (fld v ''cartReference'')) (\<lambda>cref.
        bnd (throw_if (lifecycle_record_bad (fld v ''action'') result cref occurredAt expiresAt) cart_dependency) (\<lambda>_.
        bnd (parseOrderingHash (fld v ''operationIntentHash'')) (\<lambda>intent.
        bnd (nullable parseOrderingReference (fld v ''guestSessionReference'')) (\<lambda>guest.
        Inr \<lparr>lo_action = fld v ''action'', lo_operationReference = operation, lo_operationIntentHash = intent,
             lo_guestSessionReference = guest, lo_cartReference = ca_cartReference result, lo_result = result,
             lo_occurredAt = occurredAt, lo_expiresAt = expiresAt\<rparr>))))))))))
       (\<lambda>_. Inl cart_dependency)"

section \<open>Execution\<close>

definition lifecycle_input :: "lifecycle_action \<Rightarrow> js \<Rightarrow> lifecycle_request res" where
  "lifecycle_input action v =
     (let timeField = (if action = Abandon then ''requestedAt'' else ''evaluatedAt'') in
      bnd (cart_closed v [''cartReference'', ''expectedAggregateVersion'', ''operationReference'', timeField]) (\<lambda>_.
      bnd (parseOrderingReference (fld v ''cartReference'')) (\<lambda>cref.
      bnd (cart_version (fld v ''expectedAggregateVersion'')) (\<lambda>expected.
      bnd (parseOrderingReference (fld v ''operationReference'')) (\<lambda>operation.
      bnd (parseOrderingInstant (fld v timeField)) (\<lambda>observedAt.
      Inr \<lparr>lr_cartReference = cref, lr_expectedAggregateVersion = expected, lr_operationReference = operation,
           lr_observedAt = observedAt\<rparr>))))))"

text \<open>The text that is hashed: the action and \<open>JSON.stringify\<close> of the four values.\<close>

definition lifecycle_intent :: "lifecycle_action \<Rightarrow> lifecycle_request \<Rightarrow> string" where
  "lifecycle_intent action r = action_name action @ '':'' @ json_object
     [(''cartReference'', json_text (lr_cartReference r)),
      (''expectedAggregateVersion'', int_str (lr_expectedAggregateVersion r)),
      (''operationReference'', json_text (lr_operationReference r)), (''observedAt'', json_text (lr_observedAt r))]"

text \<open>The branch for an operation that the repository already knows.\<close>

definition replay_lifecycle ::
  "lifecycle_ports \<Rightarrow> lifecycle_action \<Rightarrow> lifecycle_request \<Rightarrow> string \<Rightarrow> js \<Rightarrow> js \<Rightarrow> js \<Rightarrow> cart_aggregate res" where
  "replay_lifecycle ports action req intent guest evidence prior =
     bnd (parseLifecycleRecord prior) (\<lambda>r.
     bnd (if guest = JNull then Inr None
          else bnd (guestForCart guest (lo_result r) (lr_observedAt req)) (\<lambda>s. Inr (Some (gs_sessionReference s)))) (\<lambda>session.
     bnd (throw_if
            (lo_action r \<noteq> JStr (action_name action) \<or> lo_cartReference r \<noteq> lr_cartReference req \<or>
             ca_aggregateVersion (lo_result r) \<noteq> lr_expectedAggregateVersion req + 1 \<or>
             lo_guestSessionReference r \<noteq> session \<or> \<not> lp_equals ports (lo_operationIntentHash r) intent \<or>
             ms_of (lo_expiresAt r) \<le> ms_of (lr_observedAt req))
            (CartError CART_IDEMPOTENCY_CONFLICT)) (\<lambda>_.
     bnd (throw_if ((action = Abandon) \<noteq> (guest \<noteq> JNull)) cart_denied) (\<lambda>_.
     bnd (lifecycle_audit evidence action (lo_result r) (lr_observedAt req)) (\<lambda>_.
     Inr (lo_result r))))))"

definition ended_lifecycle :: "lifecycle_action \<Rightarrow> cart_lifecycle option \<Rightarrow> string \<Rightarrow> cart_lifecycle res" where
  "ended_lifecycle action l observedAt =
     (case action of
        Abandon \<Rightarrow> terminateCartLifecycle l EndAbandoned observedAt
      | Expire \<Rightarrow> expireCartLifecycle l observedAt)"

definition ended_cart :: "lifecycle_action \<Rightarrow> cart_aggregate \<Rightarrow> int \<Rightarrow> string \<Rightarrow> cart_aggregate res" where
  "ended_cart action cart expected observedAt =
     bnd (ended_lifecycle action (ca_lifecycle cart) observedAt) (\<lambda>l.
     parseCartAggregate (cart_js
       (cart\<lparr>ca_aggregateVersion := expected + 1, ca_updatedAt := observedAt, ca_lifecycle := Some l\<rparr>)))"

text \<open>The branch that ends the cart: the record and the audit evidence of the commit.\<close>

definition new_lifecycle_operation ::
  "lifecycle_action \<Rightarrow> lifecycle_request \<Rightarrow> string \<Rightarrow> js \<Rightarrow> js \<Rightarrow> js \<Rightarrow> (lifecycle_operation \<times> js) res" where
  "new_lifecycle_operation action req intent guest evidence loaded =
     bnd (throw_if (loaded = JNull) (CartError CART_UNAVAILABLE)) (\<lambda>_.
     bnd (parseCartAggregate loaded) (\<lambda>cart.
     bnd (throw_if (ca_aggregateVersion cart \<noteq> lr_expectedAggregateVersion req) (CartError CART_VERSION_CONFLICT)) (\<lambda>_.
     bnd (if action = Abandon
          then bnd (throw_if (guest = JNull) cart_denied) (\<lambda>_.
               bnd (guestForCart guest cart (lr_observedAt req)) (\<lambda>s. Inr (Some (gs_sessionReference s))))
          else bnd (throw_if (guest \<noteq> JNull) cart_denied) (\<lambda>_. Inr None)) (\<lambda>session.
     bnd (lifecycle_audit evidence action cart (lr_observedAt req)) (\<lambda>auditRecord.
     bnd (ended_cart action cart (lr_expectedAggregateVersion req) (lr_observedAt req)) (\<lambda>result.
     bnd (idempotencyExpiry (lr_observedAt req)) (\<lambda>expiresAt.
     Inr (\<lparr>lo_action = JStr (action_name action), lo_operationReference = lr_operationReference req,
           lo_operationIntentHash = intent, lo_guestSessionReference = session,
           lo_cartReference = lr_cartReference req, lo_result = result,
           lo_occurredAt = lr_observedAt req, lo_expiresAt = expiresAt\<rparr>, auditRecord))))))))"

definition save_lifecycle :: "lifecycle_ports \<Rightarrow> lifecycle_operation \<Rightarrow> int \<Rightarrow> js \<Rightarrow> cart_aggregate res" where
  "save_lifecycle ports op expected auditRecord =
     bnd (asked (lp_commit ports op expected auditRecord)) (\<lambda>saved.
     bnd (parseLifecycleRecord saved) (\<lambda>verified.
     bnd (throw_if
            (lo_operationReference verified \<noteq> lo_operationReference op \<or>
             lo_cartReference verified \<noteq> lo_cartReference op \<or>
             ca_aggregateVersion (lo_result verified) \<noteq> ca_aggregateVersion (lo_result op) \<or>
             \<not> lp_equals ports (lo_operationIntentHash verified) (lo_operationIntentHash op))
            cart_dependency) (\<lambda>_.
     Inr (lo_result verified))))"

text \<open>
  Everything before the repository is written: the aggregate of an operation that is already recorded, or
  the record, the expected version and the audit evidence to commit.
\<close>

datatype lifecycle_plan = Replay cart_aggregate | Commit lifecycle_operation int js

definition plan_lifecycle :: "lifecycle_ports \<Rightarrow> lifecycle_action \<Rightarrow> js \<Rightarrow> lifecycle_plan res" where
  "plan_lifecycle ports action v =
     bnd (lifecycle_input action v) (\<lambda>req.
     bnd (parseOrderingHash (JStr (lp_hashIntent ports (lifecycle_intent action req)))) (\<lambda>intent.
     bnd (asked (lp_authorize ports action (lr_cartReference req) (lr_operationReference req) (lr_observedAt req))) (\<lambda>authorization.
     bnd (or_throw authorization cart_denied) (\<lambda>(guest, evidence).
     bnd (asked (lp_resolveOperation ports (lr_operationReference req))) (\<lambda>prior.
     if prior \<noteq> JNull
     then bnd (replay_lifecycle ports action req intent guest evidence prior) (\<lambda>c. Inr (Replay c))
     else bnd (asked (lp_load ports (lr_cartReference req))) (\<lambda>loaded.
          bnd (new_lifecycle_operation action req intent guest evidence loaded) (\<lambda>(op, auditRecord).
          Inr (Commit op (lr_expectedAggregateVersion req) auditRecord))))))))"

definition execute_lifecycle :: "lifecycle_ports \<Rightarrow> lifecycle_action \<Rightarrow> js \<Rightarrow> lifecycle_outcome res" where
  "execute_lifecycle ports action v =
     bnd (plan_lifecycle ports action v) (\<lambda>p.
     case p of
       Replay c \<Rightarrow> Inr (AlreadyApplied c)
     | Commit op expected auditRecord \<Rightarrow>
         bnd (save_lifecycle ports op expected auditRecord) (\<lambda>c. Inr (Applied c)))"

definition createCartLifecycleCommandService ::
  "lifecycle_ports \<Rightarrow> (js \<Rightarrow> lifecycle_outcome res) \<times> (js \<Rightarrow> lifecycle_outcome res)" where
  "createCartLifecycleCommandService ports =
     (\<lambda>v. execute_lifecycle ports Abandon v, \<lambda>v. execute_lifecycle ports Expire v)"

section \<open>Effects\<close>

text \<open>What ending a cart changes: the version, the time of the last update and the lifecycle.\<close>

definition ends_cart :: "lifecycle_action \<Rightarrow> string \<Rightarrow> cart_aggregate \<Rightarrow> cart_aggregate \<Rightarrow> bool" where
  "ends_cart action t c c' \<longleftrightarrow>
     valid_cart c' \<and> same_cart_identity c c' \<and> ca_items c' = ca_items c \<and>
     ca_aggregateVersion c' = ca_aggregateVersion c + 1 \<and> ca_updatedAt c' = t \<and>
     (\<exists>l l'. ca_lifecycle c = Some l \<and> ca_lifecycle c' = Some l' \<and> same_policy l l' \<and>
        cl_status l \<notin> {JStr ''Abandoned'', JStr ''Expired''} \<and> cl_terminalAt l' = Some t \<and>
        (case action of
           Abandon \<Rightarrow> cl_status l' = JStr ''Abandoned'' \<and> ms_of t < ms_of (cl_idleExpiresAt l)
         | Expire \<Rightarrow> cl_status l' = JStr ''Expired'' \<and> ms_of (cl_idleExpiresAt l) \<le> ms_of t))"

text \<open>Who asked: the guest of the cart for an abandonment, nobody for an expiry.\<close>

definition lifecycle_authorized ::
  "lifecycle_action \<Rightarrow> string \<Rightarrow> cart_aggregate \<Rightarrow> js \<Rightarrow> string option \<Rightarrow> bool" where
  "lifecycle_authorized action t c guest session \<longleftrightarrow>
     (case action of
        Abandon \<Rightarrow> \<exists>s. guest \<noteq> JNull \<and> createGuestSession guest = Inr s \<and> gs_status s = GuestActive \<and>
          ms_of t < guest_expiry s \<and> \<not> guest_outside_cart s c \<and> session = Some (gs_sessionReference s)
      | Expire \<Rightarrow> guest = JNull \<and> session = None)"

lemma lifecycle_input_Inr:
  "lifecycle_input a v = Inr r \<Longrightarrow> uuid_v7 (lr_cartReference r) \<and> uuid_v7 (lr_operationReference r) \<and>
     canonical_instant (lr_observedAt r)"
  by (auto simp: lifecycle_input_def Let_def bnd_eq_Inr ordering_parse_Inr)

lemma asked_Inr [res_simps]: "asked m = Inr x \<longleftrightarrow> m = Inr x"
  by (cases m) (simp_all add: asked_def)

lemma guestForCart_Inr [res_simps]:
  "guestForCart v c t = Inr s \<longleftrightarrow> createGuestSession v = Inr s \<and> gs_status s = GuestActive \<and>
     canonical_instant t \<and> ms_of t < guest_expiry s \<and> \<not> guest_outside_cart s c"
  by (auto simp: guestForCart_def catching_throw_Inr bnd_eq_Inr throw_if_eq_Inr assertGuestSessionUsable_Inr)

lemma lifecycle_audit_Inr [res_simps]:
  "lifecycle_audit e a c t = Inr w \<longleftrightarrow>
     validateAuditRecord e (ms_of t) = Inr w \<and> lifecycle_audit_describes w a c t"
  by (auto simp: lifecycle_audit_def catching_throw_Inr bnd_eq_Inr throw_if_eq_Inr)

text \<open>The checks on session and audit read only the identity of the cart.\<close>

lemma same_identity_checks:
  assumes "same_cart_identity c c'"
  shows "guest_outside_cart s c' = guest_outside_cart s c"
    and "lifecycle_audit_describes w a c' t = lifecycle_audit_describes w a c t"
  using assms by (simp_all add: same_cart_identity_def guest_outside_cart_def lifecycle_audit_describes_def)

lemma idempotencyExpiry_Inr:
  assumes "idempotencyExpiry t = Inr e" and "canonical_instant t"
  shows "canonical_instant e \<and> ms_of e = ms_of t + dayMilliseconds"
proof -
  have "date_to_iso (Some (ms_of t + dayMilliseconds)) = Inr e" and e: "canonical_instant e"
    using assms by (auto simp: idempotencyExpiry_def bnd_eq_Inr ordering_parse_Inr date_parse_canonical)
  then have "e = to_iso (ms_of t + dayMilliseconds)"
    by (simp add: date_to_iso_def split: if_splits)
  with e show ?thesis by (simp add: canonical_to_iso_iff)
qed

lemma terminate_Inr:
  "terminateCartLifecycle (Some l) EndAbandoned t = Inr l' \<Longrightarrow> valid_lifecycle l \<Longrightarrow> canonical_instant t \<Longrightarrow>
   cl_terminalAt l' = Some t \<and> ms_of t < ms_of (cl_idleExpiresAt l)"
  using valid_deadlines [of l]
  by (auto simp: terminateCartLifecycle_def assertCartLifecycleActive_def bnd_eq_Inr throw_if_eq_Inr
      date_parse_canonical dest!: reparsed)

lemma expire_Inr:
  "expireCartLifecycle (Some l) t = Inr l' \<Longrightarrow> valid_lifecycle l \<Longrightarrow> canonical_instant t \<Longrightarrow>
   cl_terminalAt l' = Some t \<and> ms_of (cl_idleExpiresAt l) \<le> ms_of t"
  using valid_deadlines [of l]
  by (auto simp: expireCartLifecycle_def Let_def bnd_eq_Inr throw_if_eq_Inr date_parse_canonical dest!: reparsed)

lemma ended_lifecycle_Inr:
  assumes "ended_lifecycle a lo t = Inr l'" and "pred_option valid_lifecycle lo" and "canonical_instant t"
  shows "\<exists>l. lo = Some l \<and> valid_lifecycle l' \<and> same_policy l l' \<and>
    cl_status l \<notin> {JStr ''Abandoned'', JStr ''Expired''} \<and> cl_terminalAt l' = Some t \<and>
    (case a of Abandon \<Rightarrow> cl_status l' = JStr ''Abandoned'' \<and> ms_of t < ms_of (cl_idleExpiresAt l)
     | Expire \<Rightarrow> cl_status l' = JStr ''Expired'' \<and> ms_of (cl_idleExpiresAt l) \<le> ms_of t)"
proof (cases lo)
  case None
  then show ?thesis
    using assms(1) by (cases a) (simp_all add: ended_lifecycle_def terminateCartLifecycle_def
      assertCartLifecycleActive_def expireCartLifecycle_def)
next
  case (Some l)
  show ?thesis
  proof (cases a)
    case Abandon
    with assms Some have "cart_step l (Abandonment t) l'" "terminateCartLifecycle (Some l) EndAbandoned t = Inr l'"
      by (simp_all add: ended_lifecycle_def)
    from cart_step_effect [OF this(1)] terminate_Inr [OF this(2)] assms Some Abandon show ?thesis by auto
  next
    case Expire
    with assms Some have "cart_step l (Expiry t) l'" "expireCartLifecycle (Some l) t = Inr l'"
      by (simp_all add: ended_lifecycle_def)
    from cart_step_effect [OF this(1)] expire_Inr [OF this(2)] assms Some Expire show ?thesis by auto
  qed
qed

lemma ended_cart_Inr:
  assumes "ended_cart a c (ca_aggregateVersion c) t = Inr c'" and v: "valid_cart c" and t: "canonical_instant t"
  shows "ends_cart a t c c'"
proof -
  from assms(1) obtain l' where l': "ended_lifecycle a (ca_lifecycle c) t = Inr l'" and
    p: "parseCartAggregate (cart_js (c\<lparr>ca_aggregateVersion := ca_aggregateVersion c + 1, ca_updatedAt := t,
      ca_lifecycle := Some l'\<rparr>)) = Inr c'"
    by (auto simp: ended_cart_def bnd_eq_Inr)
  have lv: "pred_option valid_lifecycle (ca_lifecycle c)" "list_all valid_item (ca_items c)"
    using v by (simp_all add: valid_cart_def)
  obtain l where l: "ca_lifecycle c = Some l" "valid_lifecycle l'" "same_policy l l'"
    "cl_status l \<notin> {JStr ''Abandoned'', JStr ''Expired''}" "cl_terminalAt l' = Some t"
    "case a of Abandon \<Rightarrow> cl_status l' = JStr ''Abandoned'' \<and> ms_of t < ms_of (cl_idleExpiresAt l)
     | Expire \<Rightarrow> cl_status l' = JStr ''Expired'' \<and> ms_of (cl_idleExpiresAt l) \<le> ms_of t"
    using ended_lifecycle_Inr [OF l' lv(1) t] by blast
  from cart_reparsed [OF _ _ p] lv(2) l(2) have
    c': "c' = c\<lparr>ca_aggregateVersion := ca_aggregateVersion c + 1, ca_updatedAt := t, ca_lifecycle := Some l'\<rparr>"
    and "valid_cart c'"
    by simp_all
  with l show ?thesis by (auto simp: ends_cart_def same_cart_identity_def)
qed

lemma new_lifecycle_operation_Inr:
  assumes "new_lifecycle_operation a req intent guest evidence loaded = Inr (op, au)"
    and t: "canonical_instant (lr_observedAt req)"
  obtains c where "loaded \<noteq> JNull" "parseCartAggregate loaded = Inr c" "ca_aggregateVersion c = lr_expectedAggregateVersion req"
    "lifecycle_authorized a (lr_observedAt req) c guest (lo_guestSessionReference op)"
    "validateAuditRecord evidence (ms_of (lr_observedAt req)) = Inr au"
    "lifecycle_audit_describes au a c (lr_observedAt req)"
    "ends_cart a (lr_observedAt req) c (lo_result op)"
    "lo_action op = JStr (action_name a)" "lo_operationReference op = lr_operationReference req"
    "lo_operationIntentHash op = intent" "lo_cartReference op = lr_cartReference req"
    "lo_occurredAt op = lr_observedAt req" "canonical_instant (lo_expiresAt op)"
    "ms_of (lo_expiresAt op) = ms_of (lr_observedAt req) + dayMilliseconds"
proof -
  from assms(1) obtain c session result expiresAt where
    c: "loaded \<noteq> JNull" "parseCartAggregate loaded = Inr c" "ca_aggregateVersion c = lr_expectedAggregateVersion req" and
    s: "(if a = Abandon
          then bnd (throw_if (guest = JNull) cart_denied) (\<lambda>_.
               bnd (guestForCart guest c (lr_observedAt req)) (\<lambda>s. Inr (Some (gs_sessionReference s))))
          else bnd (throw_if (guest \<noteq> JNull) cart_denied) (\<lambda>_. Inr None)) = Inr session" and
    w: "lifecycle_audit evidence a c (lr_observedAt req) = Inr au" and
    r: "ended_cart a c (lr_expectedAggregateVersion req) (lr_observedAt req) = Inr result" and
    e: "idempotencyExpiry (lr_observedAt req) = Inr expiresAt" and
    op: "op = \<lparr>lo_action = JStr (action_name a), lo_operationReference = lr_operationReference req,
           lo_operationIntentHash = intent, lo_guestSessionReference = session,
           lo_cartReference = lr_cartReference req, lo_result = result,
           lo_occurredAt = lr_observedAt req, lo_expiresAt = expiresAt\<rparr>"
    unfolding new_lifecycle_operation_def bnd_eq_Inr throw_if_eq_Inr by (elim exE conjE) simp
  have "lifecycle_authorized a (lr_observedAt req) c guest session"
    using s t by (cases a) (auto simp: lifecycle_authorized_def bnd_eq_Inr throw_if_eq_Inr guestForCart_Inr)
  moreover have "ends_cart a (lr_observedAt req) c result"
    using ended_cart_Inr [OF _ cart.parse_valid [OF c(2)] t] r c(3) by simp
  ultimately show ?thesis
    using that c w idempotencyExpiry_Inr [OF e t] by (simp add: op lifecycle_audit_Inr)
qed

section \<open>Records as JavaScript objects\<close>

definition lifecycle_operation_js :: "lifecycle_operation \<Rightarrow> js" where
  "lifecycle_operation_js op = JObj
     [(''action'', lo_action op), (''operationReference'', JStr (lo_operationReference op)),
      (''operationIntentHash'', JStr (lo_operationIntentHash op)),
      (''guestSessionReference'', js_opt JStr (lo_guestSessionReference op)),
      (''cartReference'', JStr (lo_cartReference op)), (''result'', cart_js (lo_result op)),
      (''occurredAt'', JStr (lo_occurredAt op)), (''expiresAt'', JStr (lo_expiresAt op))]"

definition valid_lifecycle_operation :: "lifecycle_operation \<Rightarrow> bool" where
  "valid_lifecycle_operation op \<longleftrightarrow>
     valid_cart (lo_result op) \<and> uuid_v7 (lo_operationReference op) \<and> sha256_digest (lo_operationIntentHash op) \<and>
     canonical_instant (lo_occurredAt op) \<and> canonical_instant (lo_expiresAt op) \<and>
     pred_option uuid_v7 (lo_guestSessionReference op) \<and> lo_cartReference op = ca_cartReference (lo_result op) \<and>
     \<not> lifecycle_record_bad (lo_action op) (lo_result op) (lo_cartReference op) (lo_occurredAt op) (lo_expiresAt op)"

lemma valid_cart_reference: "valid_cart c \<Longrightarrow> uuid_v7 (ca_cartReference c)"
  by (simp add: valid_cart_def)

interpretation lifecycle_operation: codec parseLifecycleRecord lifecycle_operation_js valid_lifecycle_operation
proof unfold_locales
  show "valid_lifecycle_operation op" if "parseLifecycleRecord v = Inr op" for v op
    using that unfolding parseLifecycleRecord_def catching_throw_Inr bnd_eq_Inr
    by (elim exE conjE) (drule Inr_inject, hypsubst, auto simp: valid_lifecycle_operation_def cart_Inr
      lifecycle_record_bad_def cart.parse_valid ref.nullable_valid)
  show "parseLifecycleRecord (lifecycle_operation_js op) = Inr op" if "valid_lifecycle_operation op" for op
    using that by (auto simp: parseLifecycleRecord_def lifecycle_operation_js_def valid_lifecycle_operation_def
      bnd_eq_Inr catching_throw_Inr cart_Inr cart.parse_print ref.nullable_parse_print valid_cart_reference)
qed (simp add: lifecycle_operation_js_def)

section \<open>Plans\<close>

lemma plan_lifecycle_Commit:
  assumes "plan_lifecycle ports a v = Inr (Commit op n au)"
  obtains req guest evidence loaded where "lifecycle_input a v = Inr req"
    "sha256_digest (lp_hashIntent ports (lifecycle_intent a req))"
    "lp_authorize ports a (lr_cartReference req) (lr_operationReference req) (lr_observedAt req) = Inr (Some (guest, evidence))"
    "lp_resolveOperation ports (lr_operationReference req) = Inr JNull"
    "lp_load ports (lr_cartReference req) = Inr loaded" "n = lr_expectedAggregateVersion req"
    "new_lifecycle_operation a req (lp_hashIntent ports (lifecycle_intent a req)) guest evidence loaded = Inr (op, au)"
  using assms unfolding plan_lifecycle_def
  by (auto simp: bnd_eq_Inr asked_Inr or_throw_Inr ordering_parse_Inr split: if_splits prod.splits)

lemma guest_session_reference: "createGuestSession v = Inr s \<Longrightarrow> uuid_v7 (gs_sessionReference s)"
  by (drule guest.parse_valid) (simp add: valid_guest_session_def)

lemma lifecycle_authorized_session:
  "lifecycle_authorized a t c guest session \<Longrightarrow> canonical_instant t \<Longrightarrow> same_cart_identity c c' \<Longrightarrow>
   (if guest = JNull then Inr None
    else bnd (guestForCart guest c' t) (\<lambda>s. Inr (Some (gs_sessionReference s)))) = Inr session \<and>
   (a = Abandon \<longleftrightarrow> guest \<noteq> JNull) \<and> pred_option uuid_v7 session"
  by (cases a) (auto simp: lifecycle_authorized_def bnd_eq_Inr guestForCart_Inr same_identity_checks
      guest_session_reference)

lemma committed_record_valid:
  assumes "ends_cart a t c (lo_result op)" "lo_cartReference op = ca_cartReference c"
    "lo_action op = JStr (action_name a)" "uuid_v7 (lo_operationReference op)"
    "sha256_digest (lo_operationIntentHash op)" "lo_occurredAt op = t" "canonical_instant t"
    "canonical_instant (lo_expiresAt op)" "ms_of (lo_expiresAt op) = ms_of t + dayMilliseconds"
    "pred_option uuid_v7 (lo_guestSessionReference op)"
  shows "valid_lifecycle_operation op"
  using assms by (cases a) (auto simp: valid_lifecycle_operation_def lifecycle_record_bad_def ends_cart_def
      same_cart_identity_def action_name_def)

section \<open>Properties\<close>

text \<open>
  A repository that holds the example cart, a scheduler that expires it at 12:59, and a hash that maps
  every intent to one digest.
\<close>

definition example_expiry_audit :: js where
  "example_expiry_audit = JObj
     [(''auditId'', JStr ''01890000-0000-7000-8000-0000000000a1''),
      (''brandId'', JStr ''01890000-0000-7000-8000-000000000012''),
      (''storeId'', JStr ''01890000-0000-7000-8000-000000000013''),
      (''actor'', JObj [(''type'', JStr ''System'')]), (''actionCode'', JStr ''ORDERING_CART_EXPIRE''),
      (''targetType'', JStr ''OrderingCart''), (''targetId'', JStr ''01890000-0000-7000-8000-000000000040''),
      (''reasonCode'', JStr ''CART_DEADLINE_REACHED''),
      (''correlationId'', JStr ''01890000-0000-7000-8000-0000000000a2''),
      (''occurredAt'', JStr ''2026-06-01T12:59:00.000Z''), (''sourceChannel'', JStr ''SYSTEM''),
      (''dataClassification'', JStr ''Restricted''), (''retentionPolicyCode'', JStr ''ORDERING''),
      (''retentionPolicyVersion'', JNum 1)]"

definition example_intent_hash :: string where
  "example_intent_hash = ''sha256:'' @ replicate 64 (CHR ''c'')"

definition example_lifecycle_ports :: lifecycle_ports where
  "example_lifecycle_ports =
     \<lparr>lp_authorize = \<lambda>a c o' t. Inr (Some (JNull, example_expiry_audit)),
      lp_hashIntent = \<lambda>s. example_intent_hash, lp_equals = (=),
      lp_resolveOperation = \<lambda>o'. Inr JNull, lp_load = \<lambda>c. Inr (cart_js (example_cart 1)),
      lp_commit = \<lambda>op n a. Inr (lifecycle_operation_js op)\<rparr>"

definition example_expire_request :: js where
  "example_expire_request = JObj
     [(''cartReference'', JStr ''01890000-0000-7000-8000-000000000040''), (''expectedAggregateVersion'', JNum 1),
      (''operationReference'', JStr ''01890000-0000-7000-8000-0000000000a3''),
      (''evaluatedAt'', JStr ''2026-06-01T12:59:00.000Z'')]"

definition example_expired_cart :: cart_aggregate where
  "example_expired_cart =
     (example_cart 1)\<lparr>ca_aggregateVersion := 2, ca_updatedAt := ''2026-06-01T12:59:00.000Z'',
       ca_lifecycle := Some (example_lifecycle\<lparr>cl_status := JStr ''Expired'',
         cl_terminalAt := Some ''2026-06-01T12:59:00.000Z'', cl_terminalReason := JStr ''IDLE_TIMEOUT''\<rparr>)\<rparr>"

definition example_expiry_operation :: lifecycle_operation where
  "example_expiry_operation =
     \<lparr>lo_action = JStr ''Expire'', lo_operationReference = ''01890000-0000-7000-8000-0000000000a3'',
      lo_operationIntentHash = example_intent_hash, lo_guestSessionReference = None,
      lo_cartReference = ''01890000-0000-7000-8000-000000000040'', lo_result = example_expired_cart,
      lo_occurredAt = ''2026-06-01T12:59:00.000Z'', lo_expiresAt = ''2026-06-02T12:59:00.000Z''\<rparr>"

lemma expiry_audit_formats:
  "uuid_v7_any_case ''01890000-0000-7000-8000-0000000000a1''" "uuid_v7_any_case ''01890000-0000-7000-8000-000000000012''"
  "uuid_v7_any_case ''01890000-0000-7000-8000-000000000013''" "uuid_v7_any_case ''01890000-0000-7000-8000-000000000040''"
  "uuid_v7_any_case ''01890000-0000-7000-8000-0000000000a2''" "stable_code_format ''ORDERING_CART_EXPIRE''"
  "stable_code_format ''CART_DEADLINE_REACHED''" "stable_code_format ''SYSTEM''" "stable_code_format ''ORDERING''"
  "target_type_format ''OrderingCart''"
  by code_simp+

lemma example_expiry_audit_valid:
  "validateAuditRecord example_expiry_audit 1780318740000 = Inr example_expiry_audit"
  by (simp add: validateAuditRecord_def example_expiry_audit_def requireUuid_def optionalUuid_def audit_actor_def
      audit_summary_def audit_occurred_def reads_as_def audit_fields_def expiry_audit_formats example_times
      max_safe_def)

lemma example_expiry_facts:
  "uuid_v7 ''01890000-0000-7000-8000-0000000000a3''" "sha256_digest example_intent_hash"
  "idempotencyExpiry ''2026-06-01T12:59:00.000Z'' = Inr ''2026-06-02T12:59:00.000Z''"
  by code_simp+

lemma example_expired:
  "ended_cart Expire (example_cart 1) 1 ''2026-06-01T12:59:00.000Z'' = Inr example_expired_cart"
proof -
  have a: "cl_status example_lifecycle = JStr ''Active''" by (simp add: example_lifecycle_def)
  have e: "expireCartLifecycle (Some example_lifecycle) ''2026-06-01T12:59:00.000Z'' =
      Inr (example_lifecycle\<lparr>cl_status := JStr ''Expired'',
         cl_terminalAt := Some ''2026-06-01T12:59:00.000Z'', cl_terminalReason := JStr ''IDLE_TIMEOUT''\<rparr>)"
    using expire_eq [OF example_lifecycle_valid example_times(2) a] by (simp add: example_lifecycle_def example_times)
  have l: "valid_lifecycle (example_lifecycle\<lparr>cl_status := JStr ''Expired'',
         cl_terminalAt := Some ''2026-06-01T12:59:00.000Z'', cl_terminalReason := JStr ''IDLE_TIMEOUT''\<rparr>)"
    using cart_step_effect [of example_lifecycle "Expiry ''2026-06-01T12:59:00.000Z''"] e by simp
  have "valid_cart example_expired_cart"
    using l example_cart_valid [of 1]
    by (simp add: valid_cart_def example_expired_cart_def example_cart_def example_item_def valid_item_def
        example_cart_facts cart_times_bad_def cart_items_bad_def lifecycle_out_of_step_def example_lifecycle_def
        example_times)
  then show ?thesis
    using e by (simp add: ended_cart_def ended_lifecycle_def example_expired_cart_def example_cart_def
      cart.parse_print)
qed

lemma example_expiry_plan:
  "plan_lifecycle example_lifecycle_ports Expire example_expire_request =
     Inr (Commit example_expiry_operation 1 example_expiry_audit)"
proof -
  have "lifecycle_input Expire example_expire_request =
      Inr \<lparr>lr_cartReference = ''01890000-0000-7000-8000-000000000040'', lr_expectedAggregateVersion = 1,
           lr_operationReference = ''01890000-0000-7000-8000-0000000000a3'',
           lr_observedAt = ''2026-06-01T12:59:00.000Z''\<rparr>"
    by code_simp
  moreover have "parseCartAggregate (cart_js (example_cart 1)) = Inr (example_cart 1)"
    by (simp add: cart.parse_print example_cart_valid)
  moreover have "lifecycle_audit example_expiry_audit Expire (example_cart 1) ''2026-06-01T12:59:00.000Z'' =
      Inr example_expiry_audit"
    by (simp add: lifecycle_audit_def example_times example_expiry_audit_valid lifecycle_audit_describes_def
        example_cart_def) (simp add: example_expiry_audit_def)
  moreover have "ca_aggregateVersion (example_cart 1) = 1" by (simp add: example_cart_def)
  ultimately show ?thesis
    by (simp add: plan_lifecycle_def new_lifecycle_operation_def example_lifecycle_ports_def asked_def
        cart.print_not_null parseOrderingHash_def example_expiry_facts example_expired
        example_expiry_operation_def action_name_def)
qed

text \<open>
  C20. A cart is ended only by its own rules: whatever the lifecycle service hands to the repository, for
  any ports, is derived from the cart the repository loaded at the expected version, it keeps that cart's
  identity, items and policy, raises the version by one, and ends a lifecycle that had not ended before:
  an abandonment strictly before the idle deadline and by a usable guest session of that cart, an expiry
  at the idle deadline or later and without a guest. The audit evidence names that cart and action.
\<close>

theorem lifecycle_commit_sound:
  assumes "plan_lifecycle ports action v = Inr (Commit op expected au)"
  shows "\<exists>req guest evidence loaded c.
    lifecycle_input action v = Inr req \<and>
    lp_authorize ports action (lr_cartReference req) (lr_operationReference req) (lr_observedAt req)
      = Inr (Some (guest, evidence)) \<and>
    lp_load ports (lr_cartReference req) = Inr loaded \<and> parseCartAggregate loaded = Inr c \<and>
    expected = ca_aggregateVersion c \<and> ends_cart action (lr_observedAt req) c (lo_result op) \<and>
    lifecycle_authorized action (lr_observedAt req) c guest (lo_guestSessionReference op) \<and>
    lifecycle_audit_describes au action c (lr_observedAt req)"
proof (rule plan_lifecycle_Commit [OF assms])
  fix req guest evidence loaded
  assume req: "lifecycle_input action v = Inr req"
    and ports: "lp_authorize ports action (lr_cartReference req) (lr_operationReference req) (lr_observedAt req)
      = Inr (Some (guest, evidence))" "lp_load ports (lr_cartReference req) = Inr loaded"
    and n: "expected = lr_expectedAggregateVersion req"
    and op: "new_lifecycle_operation action req (lp_hashIntent ports (lifecycle_intent action req)) guest evidence
      loaded = Inr (op, au)"
  from lifecycle_input_Inr [OF req] have t: "canonical_instant (lr_observedAt req)" by simp
  show ?thesis
    by (rule new_lifecycle_operation_Inr [OF op t]) (intro exI conjI, (rule req ports | assumption | simp add: n)+)
qed

theorem lifecycle_commit_sound_witness:
  "ends_cart Expire ''2026-06-01T12:59:00.000Z'' (example_cart 1) example_expired_cart"
proof -
  have "lifecycle_input Expire example_expire_request =
      Inr \<lparr>lr_cartReference = ''01890000-0000-7000-8000-000000000040'', lr_expectedAggregateVersion = 1,
           lr_operationReference = ''01890000-0000-7000-8000-0000000000a3'',
           lr_observedAt = ''2026-06-01T12:59:00.000Z''\<rparr>"
    by code_simp
  then show ?thesis
    using lifecycle_commit_sound [OF example_expiry_plan]
    by (auto simp: example_lifecycle_ports_def cart.parse_print example_cart_valid example_expiry_operation_def)
qed

text \<open>
  A command is idempotent: once the repository has recorded an operation, running the same command
  again answers \<open>AlreadyApplied\<close> with the recorded aggregate and commits nothing, although the cart has
  moved on. It is used for a repository that loads the cart it is asked for, and a hash comparison that
  accepts a hash as equal to itself.
\<close>

theorem lifecycle_replay:
  assumes "plan_lifecycle ports action v = Inr (Commit op expected au)"
    and "lo_cartReference op = ca_cartReference (lo_result op)"
    and "lp_equals ports (lo_operationIntentHash op) (lo_operationIntentHash op)"
    and "recorded (lo_operationReference op) = Inr (lifecycle_operation_js op)"
  shows "execute_lifecycle (ports\<lparr>lp_resolveOperation := recorded\<rparr>) action v = Inr (AlreadyApplied (lo_result op))"
proof (rule plan_lifecycle_Commit [OF assms(1)])
  fix req guest evidence loaded
  assume req: "lifecycle_input action v = Inr req"
    and hash: "sha256_digest (lp_hashIntent ports (lifecycle_intent action req))"
    and auth: "lp_authorize ports action (lr_cartReference req) (lr_operationReference req) (lr_observedAt req)
      = Inr (Some (guest, evidence))"
    and n: "expected = lr_expectedAggregateVersion req"
    and op: "new_lifecycle_operation action req (lp_hashIntent ports (lifecycle_intent action req)) guest evidence
      loaded = Inr (op, au)"
  from lifecycle_input_Inr [OF req] have r: "uuid_v7 (lr_operationReference req)" "canonical_instant (lr_observedAt req)"
    by simp_all
  show ?thesis
  proof (rule new_lifecycle_operation_Inr [OF op r(2)])
    fix c
    assume c: "ca_aggregateVersion c = lr_expectedAggregateVersion req"
      "lifecycle_authorized action (lr_observedAt req) c guest (lo_guestSessionReference op)"
      "validateAuditRecord evidence (ms_of (lr_observedAt req)) = Inr au"
      "lifecycle_audit_describes au action c (lr_observedAt req)"
      and e: "ends_cart action (lr_observedAt req) c (lo_result op)"
      and op': "lo_action op = JStr (action_name action)" "lo_operationReference op = lr_operationReference req"
      "lo_operationIntentHash op = lp_hashIntent ports (lifecycle_intent action req)"
      "lo_cartReference op = lr_cartReference req" "lo_occurredAt op = lr_observedAt req"
      "canonical_instant (lo_expiresAt op)"
      "ms_of (lo_expiresAt op) = ms_of (lr_observedAt req) + dayMilliseconds"
    have same: "same_cart_identity c (lo_result op)" "ca_aggregateVersion (lo_result op) = ca_aggregateVersion c + 1"
      using e by (simp_all add: ends_cart_def)
    note s = lifecycle_authorized_session [OF c(2) r(2) same(1)]
    have "valid_lifecycle_operation op"
      using committed_record_valid [OF e] assms(2) same(1) op' hash r s by (simp add: same_cart_identity_def)
    then have p: "parseLifecycleRecord (lifecycle_operation_js op) = Inr op"
      by (rule lifecycle_operation.parse_print)
    have audit: "lifecycle_audit evidence action (lo_result op) (lr_observedAt req) = Inr au"
      using c same_identity_checks(2) [OF same(1)] by (simp add: lifecycle_audit_Inr)
    have "replay_lifecycle ports action req (lp_hashIntent ports (lifecycle_intent action req)) guest evidence
        (lifecycle_operation_js op) = Inr (lo_result op)"
      using s assms(3) op' c(1) same(2) audit
      by (simp add: replay_lifecycle_def p dayMilliseconds_def throw_if_def)
    moreover have "replay_lifecycle (ports\<lparr>lp_resolveOperation := recorded\<rparr>) = replay_lifecycle ports"
      by (intro ext) (simp add: replay_lifecycle_def)
    ultimately show ?thesis
      using req hash auth assms(4) op'(2)
      by (simp add: execute_lifecycle_def plan_lifecycle_def parseOrderingHash_def asked_def
          lifecycle_operation.print_not_null)
  qed
qed

theorem lifecycle_replay_witness:
  "execute_lifecycle (example_lifecycle_ports\<lparr>lp_resolveOperation := \<lambda>o'. Inr (lifecycle_operation_js example_expiry_operation)\<rparr>)
     Expire example_expire_request = Inr (AlreadyApplied example_expired_cart)"
  using lifecycle_replay [OF example_expiry_plan, of "\<lambda>o'. Inr (lifecycle_operation_js example_expiry_operation)"]
  by (simp add: example_expiry_operation_def example_expired_cart_def example_cart_def example_lifecycle_ports_def)

end
