(* ===== verification/QuoteAttachment.thy ===== *)
theory QuoteAttachment
  imports CartQuote CartLifecycleCommands
begin

text \<open>
  Attaching a price quote to a cart: \<open>createCartQuoteAttachmentService\<close> of
  \<open>packages/rms/ordering/src/application/cart-quote-attachment-service.ts\<close>. The service authorises the
  guest, replays a recorded operation, and otherwise asks pricing for a quote of the loaded cart, verifies
  it (\<open>verifyQuote\<close> in the theory CartQuote) and stores the attachment. Ports are functions of the caller.
\<close>

section \<open>Ports\<close>

record pricing_cart_line =
  pl_lineReference :: string
  pl_sellableReference :: string
  pl_quantity :: int
  pl_optionSelections :: "cart_option_selection list"
  pl_catalogSelectionEvidence :: "catalog_selection_evidence option"

record pricing_cart_input =
  pc_brandReference :: string
  pc_storeReference :: string
  pc_cartReference :: string
  pc_cartVersion :: int
  pc_sourceChannel :: cart_source_channel
  pc_orderType :: cart_order_type
  pc_lines :: "pricing_cart_line list"
  pc_requestedAt :: string

record attachment_ports =
  ap_quoteCart :: "pricing_cart_input \<Rightarrow> js res"
  ap_authorize :: "string \<Rightarrow> string \<Rightarrow> string \<Rightarrow> (js \<times> js) option res"
  ap_hashIntent :: "string \<Rightarrow> string"
  ap_equals :: "string \<Rightarrow> string \<Rightarrow> bool"
  ap_resolveOperation :: "string \<Rightarrow> js res"
  ap_loadCart :: "string \<Rightarrow> js res"
  ap_attach :: "cart_quote_attachment \<Rightarrow> int \<Rightarrow> js \<Rightarrow> js res"

datatype attachment_outcome = Attached cart_quote_attachment | AlreadyAttached cart_quote_attachment

record attachment_request =
  ar_cartReference :: string
  ar_expectedCartVersion :: int
  ar_operationReference :: string
  ar_requestedAt :: string

section \<open>Scope of a session, audit evidence\<close>

text \<open>
  What \<open>sessionScope\<close> and \<open>audit\<close> read of a cart or of an attachment; an attachment has neither an order
  type nor a channel.
\<close>

record session_scope =
  sc_brandReference :: string
  sc_storeReference :: string
  sc_cartReference :: string
  sc_orderType :: "cart_order_type option"
  sc_sourceChannel :: "cart_source_channel option"
  sc_createdByActorReference :: "string option"
  sc_diningSessionReference :: "string option"

definition cart_scope :: "cart_aggregate \<Rightarrow> session_scope" where
  "cart_scope c =
     \<lparr>sc_brandReference = ca_brandReference c, sc_storeReference = ca_storeReference c,
      sc_cartReference = ca_cartReference c, sc_orderType = Some (ca_orderType c),
      sc_sourceChannel = Some (ca_sourceChannel c),
      sc_createdByActorReference = Some (ca_createdByActorReference c),
      sc_diningSessionReference = ca_diningSessionReference c\<rparr>"

definition attachment_scope :: "cart_quote_attachment \<Rightarrow> session_scope" where
  "attachment_scope a =
     \<lparr>sc_brandReference = at_brandReference a, sc_storeReference = at_storeReference a,
      sc_cartReference = at_cartReference a, sc_orderType = None, sc_sourceChannel = None,
      sc_createdByActorReference = None, sc_diningSessionReference = None\<rparr>"

definition outside_scope :: "guest_session \<Rightarrow> session_scope \<Rightarrow> bool" where
  "outside_scope s sc \<longleftrightarrow>
     gs_brandReference s \<noteq> sc_brandReference sc \<or> gs_storeReference s \<noteq> sc_storeReference sc \<or>
     (case sc_sourceChannel sc of None \<Rightarrow> False | Some ch \<Rightarrow> ch \<notin> {QrChannel, WebChannel}) \<or>
     (case sc_orderType sc of None \<Rightarrow> False | Some ot \<Rightarrow> guest_channel_name (gs_channel s) \<noteq> order_type_name ot) \<or>
     (sc_orderType sc = Some Pickup \<and>
        (Some (gs_sessionReference s) \<noteq> sc_createdByActorReference sc \<or> gs_diningState s \<noteq> ContextOnly \<or>
         gs_diningSessionReference s \<noteq> None \<or> gs_diningParticipantReference s \<noteq> None)) \<or>
     (sc_orderType sc = Some DineIn \<and>
        (gs_diningState s \<noteq> DiningBound \<or> gs_diningSessionReference s = None \<or>
         gs_diningSessionReference s \<noteq> sc_diningSessionReference sc \<or> gs_diningParticipantReference s = None))"

definition sessionScope :: "guest_session \<Rightarrow> session_scope \<Rightarrow> string \<Rightarrow> guest_session res" where
  "sessionScope sessionValue sc observedAt =
     catching
       (bnd (createGuestSession (guest_session_js sessionValue)) (\<lambda>s0.
        bnd (assertGuestSessionUsable s0 (JStr observedAt)) (\<lambda>s.
        bnd (throw_if (outside_scope s sc) cart_denied) (\<lambda>_. Inr s))))
       (\<lambda>_. Inl cart_denied)"

definition attach_audit_describes :: "js \<Rightarrow> session_scope \<Rightarrow> string \<Rightarrow> bool" where
  "attach_audit_describes p sc at \<longleftrightarrow>
     fld p ''brandId'' = JStr (sc_brandReference sc) \<and> fld p ''storeId'' = JStr (sc_storeReference sc) \<and>
     fld (fld p ''actor'') ''type'' = JStr ''System'' \<and>
     fld p ''actionCode'' = JStr ''ORDERING_CART_ATTACH_QUOTE'' \<and>
     fld p ''targetType'' = JStr ''OrderingCart'' \<and> fld p ''targetId'' = JStr (sc_cartReference sc) \<and>
     fld p ''beforeSummary'' = JUndefined \<and> fld p ''afterSummary'' = JUndefined \<and>
     fld p ''reasonCode'' = JStr ''AUTHORIZED_CART_QUOTE'' \<and> fld p ''occurredAt'' = JStr at \<and>
     fld p ''sourceChannel'' = JStr ''CUSTOMER_PWA'' \<and> fld p ''dataClassification'' = JStr ''Restricted''"

definition attach_audit :: "js \<Rightarrow> session_scope \<Rightarrow> string \<Rightarrow> js res" where
  "attach_audit evidence sc at =
     catching
       (bnd (validateAuditRecord evidence (ms_of at)) (\<lambda>p.
        bnd (throw_if (\<not> attach_audit_describes p sc at) cart_denied) (\<lambda>_. Inr p)))
       (\<lambda>_. Inl cart_denied)"

text \<open>\<open>.catch(dependency)\<close>: cart errors pass.\<close>

fun attach_dependency :: "err \<Rightarrow> err" where
  "attach_dependency (CartError code) = CartError code"
| "attach_dependency _ = cart_dependency"

definition asked_for :: "'a res \<Rightarrow> 'a res" where
  "asked_for m = catching m (\<lambda>e. Inl (attach_dependency e))"

section \<open>The handler\<close>

definition attach_input :: "js \<Rightarrow> attachment_request res" where
  "attach_input v =
     bnd (cart_closed v [''cartReference'', ''expectedCartVersion'', ''operationReference'', ''requestedAt'']) (\<lambda>_.
     bnd (parseOrderingReference (fld v ''cartReference'')) (\<lambda>cref.
     bnd (cart_version (fld v ''expectedCartVersion'')) (\<lambda>expected.
     bnd (parseOrderingReference (fld v ''operationReference'')) (\<lambda>operation.
     bnd (parseOrderingInstant (fld v ''requestedAt'')) (\<lambda>requestedAt.
     Inr \<lparr>ar_cartReference = cref, ar_expectedCartVersion = expected, ar_operationReference = operation,
          ar_requestedAt = requestedAt\<rparr>)))))"

definition attach_intent :: "attachment_request \<Rightarrow> string" where
  "attach_intent r = ''AttachQuote:'' @ json_object
     [(''cartReference'', json_text (ar_cartReference r)), (''expectedCartVersion'', int_str (ar_expectedCartVersion r)),
      (''operationReference'', json_text (ar_operationReference r)), (''requestedAt'', json_text (ar_requestedAt r))]"

definition usable_guest :: "js \<Rightarrow> string \<Rightarrow> guest_session res" where
  "usable_guest v requestedAt =
     catching (bnd (createGuestSession v) (\<lambda>s. assertGuestSessionUsable s (JStr requestedAt))) (\<lambda>_. Inl cart_denied)"

text \<open>An operation the repository knows: every error but the conflict is a missing dependency.\<close>

definition replay_attachment ::
  "attachment_ports \<Rightarrow> attachment_request \<Rightarrow> string \<Rightarrow> guest_session \<Rightarrow> js \<Rightarrow> js \<Rightarrow> cart_quote_attachment res" where
  "replay_attachment ports req intent session evidence prior =
     catching
       (bnd (parseCartQuoteAttachment prior) (\<lambda>a.
        bnd (sessionScope session (attachment_scope a) (ar_requestedAt req)) (\<lambda>_.
        bnd (throw_if
               (at_cartReference a \<noteq> ar_cartReference req \<or> at_cartVersion a \<noteq> ar_expectedCartVersion req \<or>
                at_guestSessionReference a \<noteq> gs_sessionReference session \<or>
                \<not> ap_equals ports (at_operationIntentHash a) intent \<or>
                ms_of (at_idempotencyExpiresAt a) \<le> ms_of (ar_requestedAt req))
               (CartError CART_IDEMPOTENCY_CONFLICT)) (\<lambda>_.
        bnd (attach_audit evidence (attachment_scope a) (ar_requestedAt req)) (\<lambda>_. Inr a)))))
       (\<lambda>e. Inl (if e = CartError CART_IDEMPOTENCY_CONFLICT then e else cart_dependency))"

definition pricing_line :: "cart_item \<Rightarrow> pricing_cart_line" where
  "pricing_line i =
     \<lparr>pl_lineReference = ci_cartItemReference i, pl_sellableReference = ci_sellableReference i,
      pl_quantity = ci_quantity i, pl_optionSelections = ci_optionSelections i,
      pl_catalogSelectionEvidence = ci_catalogSelectionEvidence i\<rparr>"

definition pricing_input :: "cart_aggregate \<Rightarrow> string \<Rightarrow> pricing_cart_input" where
  "pricing_input c requestedAt =
     \<lparr>pc_brandReference = ca_brandReference c, pc_storeReference = ca_storeReference c,
      pc_cartReference = ca_cartReference c, pc_cartVersion = ca_aggregateVersion c,
      pc_sourceChannel = ca_sourceChannel c, pc_orderType = ca_orderType c,
      pc_lines = map pricing_line (ca_items c), pc_requestedAt = requestedAt\<rparr>"

definition new_attachment ::
  "attachment_ports \<Rightarrow> attachment_request \<Rightarrow> string \<Rightarrow> guest_session \<Rightarrow> js \<Rightarrow> js \<Rightarrow>
   (cart_quote_attachment \<times> js) res" where
  "new_attachment ports req intent session evidence loaded =
     bnd (throw_if (loaded = JNull) (CartError CART_UNAVAILABLE)) (\<lambda>_.
     bnd (parseCartAggregate loaded) (\<lambda>cart.
     bnd (throw_if (ca_aggregateVersion cart \<noteq> ar_expectedCartVersion req) (CartError CART_VERSION_CONFLICT)) (\<lambda>_.
     bnd (assertCartLifecycleActive (ca_lifecycle cart) (ar_requestedAt req)) (\<lambda>_.
     bnd (sessionScope session (cart_scope cart) (ar_requestedAt req)) (\<lambda>_.
     bnd (attach_audit evidence (cart_scope cart) (ar_requestedAt req)) (\<lambda>auditRecord.
     bnd (throw_if (ca_items cart = [] \<or> list_ex (\<lambda>i. ci_catalogSelectionEvidence i = None) (ca_items cart))
            quote_invalid) (\<lambda>_.
     bnd (asked_for (ap_quoteCart ports (pricing_input cart (ar_requestedAt req)))) (\<lambda>quote.
     bnd (verifyQuote quote cart (ar_operationReference req) intent (gs_sessionReference session) (ar_requestedAt req))
       (\<lambda>a. Inr (a, auditRecord))))))))))"

definition save_attachment ::
  "attachment_ports \<Rightarrow> attachment_request \<Rightarrow> string \<Rightarrow> cart_quote_attachment \<Rightarrow> js \<Rightarrow> cart_quote_attachment res" where
  "save_attachment ports req intent a auditRecord =
     bnd (asked_for (ap_attach ports a (ar_expectedCartVersion req) auditRecord)) (\<lambda>saved.
     catching
       (bnd (parseCartQuoteAttachment saved) (\<lambda>result.
        bnd (throw_if
               (at_operationReference result \<noteq> ar_operationReference req \<or>
                at_quoteReference result \<noteq> at_quoteReference a \<or> at_cartReference result \<noteq> ar_cartReference req \<or>
                at_cartVersion result \<noteq> ar_expectedCartVersion req \<or>
                \<not> ap_equals ports (at_operationIntentHash result) intent)
               cart_dependency) (\<lambda>_. Inr result)))
       (\<lambda>_. Inl cart_dependency))"

datatype attachment_plan =
    ReplayAttachment cart_quote_attachment
  | SaveAttachment attachment_request string cart_quote_attachment js

definition plan_attachment :: "attachment_ports \<Rightarrow> js \<Rightarrow> attachment_plan res" where
  "plan_attachment ports v =
     bnd (attach_input v) (\<lambda>req.
     bnd (parseOrderingHash (JStr (ap_hashIntent ports (attach_intent req)))) (\<lambda>intent.
     bnd (asked_for (ap_authorize ports (ar_cartReference req) (ar_operationReference req) (ar_requestedAt req))) (\<lambda>authorized.
     bnd (or_throw authorized cart_denied) (\<lambda>(guest, evidence).
     bnd (usable_guest guest (ar_requestedAt req)) (\<lambda>session.
     bnd (asked_for (ap_resolveOperation ports (ar_operationReference req))) (\<lambda>prior.
     if prior \<noteq> JNull
     then bnd (replay_attachment ports req intent session evidence prior) (\<lambda>a. Inr (ReplayAttachment a))
     else bnd (asked_for (ap_loadCart ports (ar_cartReference req))) (\<lambda>loaded.
          bnd (new_attachment ports req intent session evidence loaded) (\<lambda>(a, auditRecord).
          Inr (SaveAttachment req intent a auditRecord)))))))))"

definition attach :: "attachment_ports \<Rightarrow> js \<Rightarrow> attachment_outcome res" where
  "attach ports v =
     bnd (plan_attachment ports v) (\<lambda>p.
     case p of
       ReplayAttachment a \<Rightarrow> Inr (AlreadyAttached a)
     | SaveAttachment req intent a auditRecord \<Rightarrow>
         bnd (save_attachment ports req intent a auditRecord) (\<lambda>r. Inr (Attached r)))"

section \<open>Attachments as JavaScript objects\<close>

definition quote_money_object :: "cart_quote_money \<Rightarrow> js" where
  "quote_money_object m = quote_money_js (qm_amountMinor m) (qm_currencyCode m)"

definition attachment_js :: "cart_quote_attachment \<Rightarrow> js" where
  "attachment_js a = JObj
     [(''operationReference'', JStr (at_operationReference a)), (''operationIntentHash'', JStr (at_operationIntentHash a)),
      (''guestSessionReference'', JStr (at_guestSessionReference a)), (''cartReference'', JStr (at_cartReference a)),
      (''brandReference'', JStr (at_brandReference a)), (''storeReference'', JStr (at_storeReference a)),
      (''cartVersion'', JNum (at_cartVersion a)), (''quoteReference'', JStr (at_quoteReference a)),
      (''quoteVersion'', JNum (at_quoteVersion a)), (''quoteInputDigest'', JStr (at_quoteInputDigest a)),
      (''currencyCode'', JStr (at_currencyCode a)), (''currencyMetadataVersion'', JNum (at_currencyMetadataVersion a)),
      (''currencyMetadataVersionReference'', JStr (at_currencyMetadataVersionReference a)),
      (''subtotal'', quote_money_object (at_subtotal a)), (''discount'', quote_money_object (at_discount a)),
      (''tax'', quote_money_object (at_tax a)), (''fee'', quote_money_object (at_fee a)),
      (''total'', quote_money_object (at_total a)), (''lines'', JArr (map quote_line_js (at_lines a))),
      (''warnings'', JArr (map JStr (at_warnings a))), (''quoteCreatedAt'', JStr (at_quoteCreatedAt a)),
      (''quoteExpiresAt'', JStr (at_quoteExpiresAt a)), (''attachedAt'', JStr (at_attachedAt a)),
      (''idempotencyExpiresAt'', JStr (at_idempotencyExpiresAt a))]"

definition valid_quote_money :: "string \<Rightarrow> cart_quote_money \<Rightarrow> bool" where
  "valid_quote_money cur m \<longleftrightarrow> int64_min \<le> qm_amountMinor m \<and> qm_amountMinor m \<le> int64_max \<and>
     qm_currencyCode m = cur \<and> currency_format cur"

definition valid_attachment :: "cart_quote_attachment \<Rightarrow> bool" where
  "valid_attachment a \<longleftrightarrow>
     list_all uuid_v7 [at_operationReference a, at_guestSessionReference a, at_cartReference a, at_brandReference a,
       at_storeReference a, at_quoteReference a, at_currencyMetadataVersionReference a] \<and>
     sha256_digest (at_operationIntentHash a) \<and> sha256_digest (at_quoteInputDigest a) \<and>
     1 \<le> at_cartVersion a \<and> at_cartVersion a \<le> max_safe \<and> at_quoteVersion a = 1 \<and>
     1 \<le> at_currencyMetadataVersion a \<and> at_currencyMetadataVersion a \<le> max_safe \<and>
     list_all (valid_quote_money (at_currencyCode a)) [at_subtotal a, at_discount a, at_tax a, at_fee a, at_total a] \<and>
     \<not> amounts_bad (at_subtotal a) (at_discount a) (at_tax a) (at_fee a) (at_total a) \<and>
     length (at_lines a) \<le> 100 \<and> list_all valid_quote_line (at_lines a) \<and> distinct (map qe_lineReference (at_lines a)) \<and>
     length (at_warnings a) \<le> 100 \<and> list_all (code_format ''_'') (at_warnings a) \<and>
     list_all canonical_instant [at_quoteCreatedAt a, at_quoteExpiresAt a, at_attachedAt a, at_idempotencyExpiresAt a] \<and>
     \<not> attachment_times_bad (at_quoteCreatedAt a) (at_quoteExpiresAt a) (at_attachedAt a) (at_idempotencyExpiresAt a)"

lemma quote_warning_Inr [res_simps]: "quote_warning v = Inr s \<longleftrightarrow> v = JStr s \<and> code_format ''_'' s"
  by (simp add: quote_warning_def or_throw_Inr str_if_Some)

interpretation warning: codec quote_warning JStr "code_format ''_''"
  by (rule string_codec) (simp add: quote_warning_Inr)

lemma quote_warnings_Inr:
  "quote_warnings v = Inr ws \<Longrightarrow> length ws \<le> 100 \<and> list_all (code_format ''_'') ws"
  by (auto simp: quote_warnings_def bnd_eq_Inr quote_parse_Inr dest: map_res_length warning.list_valid)

lemma quote_warnings_printed:
  "length ws \<le> 100 \<Longrightarrow> list_all (code_format ''_'') ws \<Longrightarrow> quote_warnings (JArr (map JStr ws)) = Inr ws"
  by (simp add: quote_warnings_def bnd_eq_Inr quote_parse_Inr warning.list_parse_print)

lemma quote_money_valid: "quote_money v cur = Inr m \<Longrightarrow> valid_quote_money cur m"
  by (auto simp: quote_money_def valid_quote_money_def bnd_eq_Inr quote_parse_Inr or_throw_Inr bigint_in_Some throw_if_eq_Inr)

lemma quote_money_printed: "valid_quote_money cur m \<Longrightarrow> quote_money (quote_money_object m) cur = Inr m"
  by (auto simp: valid_quote_money_def quote_money_object_def quote_money_Inr)

interpretation attachment: codec parseCartQuoteAttachment attachment_js valid_attachment
proof unfold_locales
  show "valid_attachment a" if "parseCartQuoteAttachment v = Inr a" for v a
    using that unfolding parseCartQuoteAttachment_def bnd_eq_Inr
    by (elim exE conjE) (drule Inr_inject, hypsubst, drule quote_warnings_Inr, (drule quote_money_valid)+,
      auto simp: valid_attachment_def throw_if_eq_Inr ordering_parse_Inr quote_parse_Inr quote_positive_Inr
        quote_line.list_valid dest: map_res_length)
  show "parseCartQuoteAttachment (attachment_js a) = Inr a" if "valid_attachment a" for a
    using that by (cases a) (simp add: parseCartQuoteAttachment_def attachment_js_def valid_attachment_def bnd_eq_Inr
        ordering_parse_Inr quote_parse_Inr quote_positive_Inr throw_if_eq_Inr quote_line.list_parse_print
        quote_warnings_printed quote_money_printed, auto simp: valid_quote_money_def)
qed (simp add: attachment_js_def)

section \<open>Plans\<close>

lemma asked_for_Inr [res_simps]: "asked_for m = Inr x \<longleftrightarrow> m = Inr x"
  by (cases m) (simp_all add: asked_for_def)

lemma attach_input_Inr:
  "attach_input v = Inr r \<Longrightarrow> uuid_v7 (ar_cartReference r) \<and> uuid_v7 (ar_operationReference r) \<and>
     canonical_instant (ar_requestedAt r)"
  by (auto simp: attach_input_def bnd_eq_Inr ordering_parse_Inr)

lemma usable_guest_Inr [res_simps]:
  "usable_guest v t = Inr s \<longleftrightarrow> createGuestSession v = Inr s \<and> gs_status s = GuestActive \<and>
     canonical_instant t \<and> ms_of t < guest_expiry s"
  by (auto simp: usable_guest_def catching_throw_Inr bnd_eq_Inr assertGuestSessionUsable_Inr)

lemma sessionScope_usable:
  assumes "usable_guest v t = Inr s"
  shows "sessionScope s sc t = (if outside_scope s sc then Inl cart_denied else Inr s)"
  using assms guest.reparse [of v s]
  by (auto simp: usable_guest_Inr sessionScope_def assertGuestSessionUsable_def guest_instant_def identity_instant_def throw_if_def)

lemma attach_audit_Inr [res_simps]:
  "attach_audit e sc t = Inr w \<longleftrightarrow> validateAuditRecord e (ms_of t) = Inr w \<and> attach_audit_describes w sc t"
  by (auto simp: attach_audit_def catching_throw_Inr bnd_eq_Inr throw_if_eq_Inr)

lemma parseCartQuoteAttachment_scope:
  "parseCartQuoteAttachment v = Inr a \<Longrightarrow>
   fld v ''operationReference'' = JStr (at_operationReference a) \<and>
   fld v ''operationIntentHash'' = JStr (at_operationIntentHash a) \<and>
   fld v ''guestSessionReference'' = JStr (at_guestSessionReference a) \<and>
   fld v ''cartReference'' = JStr (at_cartReference a) \<and>
   fld v ''brandReference'' = JStr (at_brandReference a) \<and> fld v ''storeReference'' = JStr (at_storeReference a) \<and>
   fld v ''cartVersion'' = JNum (at_cartVersion a) \<and> fld v ''attachedAt'' = JStr (at_attachedAt a)"
  unfolding parseCartQuoteAttachment_def bnd_eq_Inr
  by (elim exE conjE) (drule Inr_inject, hypsubst,
    simp add: ordering_parse_Inr quote_positive_Inr quote_parse_Inr throw_if_eq_Inr)

lemma verifyQuote_Inr: "verifyQuote v c op intent guest t = Inr a \<longleftrightarrow> verifyQuote_body v c op intent guest t = Inr a"
  by (simp add: verifyQuote_def catching_throw_Inr catching_eq_Inr)

lemma verified_attachment:
  assumes "verifyQuote v c op intent guest t = Inr a"
  shows "at_operationReference a = op \<and> at_operationIntentHash a = intent \<and> at_guestSessionReference a = guest \<and>
    at_cartReference a = ca_cartReference c \<and> at_brandReference a = ca_brandReference c \<and>
    at_storeReference a = ca_storeReference c \<and> at_cartVersion a = ca_aggregateVersion c \<and> at_attachedAt a = t \<and>
    valid_attachment a \<and> ms_of (at_idempotencyExpiresAt a) = ms_of t + dayMilliseconds"
proof -
  from verifyQuote_body_steps [OF assms [unfolded verifyQuote_Inr]]
  obtain cur subtotal discount tax fee total0 metaVersion warnings quote createdAt expiresAt idem
      and verified :: "verified_line list" where
    p: "parseCartQuoteAttachment (JObj
       [(''operationReference'', JStr op), (''operationIntentHash'', JStr intent),
        (''guestSessionReference'', JStr guest), (''cartReference'', JStr (ca_cartReference c)),
        (''brandReference'', JStr (ca_brandReference c)), (''storeReference'', JStr (ca_storeReference c)),
        (''cartVersion'', JNum (ca_aggregateVersion c)), (''quoteReference'', JStr quote),
        (''quoteVersion'', JNum 1), (''quoteInputDigest'', fld v ''inputDigest''), (''currencyCode'', JStr cur),
        (''currencyMetadataVersion'', JNum metaVersion),
        (''currencyMetadataVersionReference'', fld (fld v ''currencyMetadata'') ''metadataVersionReference''),
        (''subtotal'', quote_money_js subtotal cur), (''discount'', quote_money_js discount cur),
        (''tax'', quote_money_js tax cur), (''fee'', quote_money_js fee cur),
        (''total'', quote_money_js total0 cur), (''lines'', JArr (map quote_line_js (map vl_evidence verified))),
        (''warnings'', JArr (map JStr warnings)), (''quoteCreatedAt'', JStr createdAt),
        (''quoteExpiresAt'', JStr expiresAt), (''attachedAt'', JStr t),
        (''idempotencyExpiresAt'', JStr idem)]) = Inr a"
    by (elim exE conjE) (rule that; assumption)
  have v: "valid_attachment a" by (rule attachment.parse_valid [OF p])
  then have "ms_of (at_idempotencyExpiresAt a) = ms_of (at_attachedAt a) + dayMilliseconds"
    by (simp add: valid_attachment_def attachment_times_bad_def dayMilliseconds_def)
  with parseCartQuoteAttachment_scope [OF p] v show ?thesis by simp
qed

lemma new_attachment_Inr:
  assumes "new_attachment ports req intent s evidence loaded = Inr (a, au)"
    and u: "usable_guest guest (ar_requestedAt req) = Inr s"
  obtains c quote l where "loaded \<noteq> JNull" "parseCartAggregate loaded = Inr c"
    "ca_aggregateVersion c = ar_expectedCartVersion req"
    "assertCartLifecycleActive (ca_lifecycle c) (ar_requestedAt req) = Inr l"
    "\<not> outside_scope s (cart_scope c)"
    "validateAuditRecord evidence (ms_of (ar_requestedAt req)) = Inr au"
    "attach_audit_describes au (cart_scope c) (ar_requestedAt req)"
    "ap_quoteCart ports (pricing_input c (ar_requestedAt req)) = Inr quote"
    "verifyQuote quote c (ar_operationReference req) intent (gs_sessionReference s) (ar_requestedAt req) = Inr a"
  using assms(1) unfolding new_attachment_def bnd_eq_Inr throw_if_eq_Inr sessionScope_usable [OF u]
  by (elim exE conjE) (rule that, auto simp: asked_for_Inr attach_audit_Inr split: if_splits)

lemma plan_attachment_Save:
  assumes "plan_attachment ports v = Inr (SaveAttachment req intent a au)"
  obtains guest evidence s loaded where "attach_input v = Inr req" "intent = ap_hashIntent ports (attach_intent req)"
    "sha256_digest intent"
    "ap_authorize ports (ar_cartReference req) (ar_operationReference req) (ar_requestedAt req) = Inr (Some (guest, evidence))"
    "usable_guest guest (ar_requestedAt req) = Inr s"
    "ap_resolveOperation ports (ar_operationReference req) = Inr JNull"
    "ap_loadCart ports (ar_cartReference req) = Inr loaded"
    "new_attachment ports req intent s evidence loaded = Inr (a, au)"
  using assms unfolding plan_attachment_def
  by (auto simp: bnd_eq_Inr asked_for_Inr or_throw_Inr ordering_parse_Inr split: if_splits prod.splits)

lemma attachment_scope_within:
  assumes "\<not> outside_scope s (cart_scope c)" and "at_brandReference a = ca_brandReference c"
    and "at_storeReference a = ca_storeReference c" and "at_cartReference a = ca_cartReference c"
  shows "\<not> outside_scope s (attachment_scope a)"
    and "attach_audit_describes w (attachment_scope a) t = attach_audit_describes w (cart_scope c) t"
  using assms by (simp_all add: outside_scope_def attachment_scope_def cart_scope_def attach_audit_describes_def)

end
