(* ===== verification/CartItemService.thy ===== *)
theory CartItemService
  imports CartLifecycleCommands
begin

text \<open>
  The handlers of the cart item commands: the rest of
  \<open>packages/rms/ordering/src/application/cart-item-command-service.ts\<close> around the three mutations of the
  theory CartItemCommands. A request is parsed, the cart loaded, the guest authorised, a recorded
  operation replayed, the mutation computed and committed with its record. Ports are functions.
\<close>

section \<open>Ports and records\<close>

datatype item_action = AddAction | UpdateAction | RemoveAction

definition item_action_name :: "item_action \<Rightarrow> string" where
  "item_action_name a = (case a of AddAction \<Rightarrow> ''Add'' | UpdateAction \<Rightarrow> ''Update'' | RemoveAction \<Rightarrow> ''Remove'')"

record item_operation =
  io_action :: item_action
  io_operationReference :: string
  io_operationIntentHash :: string
  io_guestSessionReference :: string
  io_cartReference :: string
  io_cartItemReference :: string
  io_result :: cart_aggregate
  io_occurredAt :: string
  io_expiresAt :: string

record selection_question =
  sq_brandReference :: string
  sq_storeReference :: string
  sq_sourceChannel :: cart_source_channel
  sq_orderType :: cart_order_type
  sq_sellableReference :: string
  sq_optionSelections :: "cart_option_selection list"
  sq_observedAt :: string

text \<open>
  \<open>ip_generate\<close> is the reference generated for this request; \<open>ip_equals\<close> compares a stored hash, which is
  not parsed before, with the hash of the intent.
\<close>

record item_ports =
  ip_validateSelection :: "selection_question \<Rightarrow> js res"
  ip_authorize :: "item_action \<Rightarrow> string \<Rightarrow> string \<Rightarrow> string \<Rightarrow> (js \<times> js) option res"
  ip_generate :: string
  ip_hashIntent :: "string \<Rightarrow> string"
  ip_equals :: "js \<Rightarrow> string \<Rightarrow> bool"
  ip_resolveOperation :: "string \<Rightarrow> js res"
  ip_load :: "string \<Rightarrow> js res"
  ip_commit :: "item_operation \<Rightarrow> int \<Rightarrow> js \<Rightarrow> js res"

section \<open>Errors, audit, expiry\<close>

definition item_failure :: "err \<Rightarrow> err" where
  "item_failure e =
     (if e \<in> {CartError CART_VERSION_CONFLICT, CartError CART_IDEMPOTENCY_CONFLICT} then e else cart_unavailable)"

definition item_asked :: "'a res \<Rightarrow> 'a res" where
  "item_asked m = catching m (\<lambda>e. Inl (item_failure e))"

definition item_audit_describes :: "js \<Rightarrow> item_action \<Rightarrow> cart_aggregate \<Rightarrow> string \<Rightarrow> bool" where
  "item_audit_describes p action c at \<longleftrightarrow>
     fld p ''brandId'' = JStr (ca_brandReference c) \<and> fld p ''storeId'' = JStr (ca_storeReference c) \<and>
     fld (fld p ''actor'') ''type'' = JStr ''System'' \<and>
     fld p ''actionCode'' = JStr (case action of AddAction \<Rightarrow> ''ORDERING_CART_ITEM_ADD''
       | UpdateAction \<Rightarrow> ''ORDERING_CART_ITEM_UPDATE'' | RemoveAction \<Rightarrow> ''ORDERING_CART_ITEM_REMOVE'') \<and>
     fld p ''targetType'' = JStr ''OrderingCart'' \<and> fld p ''targetId'' = JStr (ca_cartReference c) \<and>
     fld p ''beforeSummary'' = JUndefined \<and> fld p ''afterSummary'' = JUndefined \<and>
     fld p ''reasonCode'' = JStr ''AUTHORIZED_CART_MUTATION'' \<and> fld p ''occurredAt'' = JStr at \<and>
     fld p ''sourceChannel'' = JStr ''CUSTOMER_PWA'' \<and> fld p ''dataClassification'' = JStr ''Restricted''"

definition item_audit :: "js \<Rightarrow> item_action \<Rightarrow> cart_aggregate \<Rightarrow> string \<Rightarrow> js res" where
  "item_audit evidence action c at =
     catching
       (bnd (validateAuditRecord evidence (ms_of at)) (\<lambda>p.
        bnd (throw_if (\<not> item_audit_describes p action c at) cart_denied) (\<lambda>_. Inr p)))
       (\<lambda>_. Inl cart_denied)"

section \<open>The guest session\<close>

text \<open>What the commands read of a parsed session.\<close>

definition session_view :: "guest_session \<Rightarrow> cart_session" where
  "session_view s =
     \<lparr>ss_brandReference = JStr (gs_brandReference s), ss_storeReference = JStr (gs_storeReference s),
      ss_sessionReference = JStr (gs_sessionReference s), ss_channel = JStr (guest_channel_name (gs_channel s)),
      ss_diningState = JStr (guest_dining_state_name (gs_diningState s)),
      ss_diningSessionReference = js_opt JStr (gs_diningSessionReference s),
      ss_diningParticipantReference = js_opt JStr (gs_diningParticipantReference s)\<rparr>"

text \<open>\<open>assertGuestSessionUsable(createGuestSession(value), at)\<close> inside \<open>authorizeSession\<close>.\<close>

definition usable_session :: "js \<Rightarrow> string \<Rightarrow> cart_session res" where
  "usable_session v at =
     bnd (createGuestSession v) (\<lambda>s0. bnd (assertGuestSessionUsable s0 (JStr at)) (\<lambda>s. Inr (session_view s)))"

section \<open>Requests\<close>

record item_request =
  ir_cartReference :: string
  ir_expectedVersion :: int
  ir_operationReference :: string
  ir_requestedAt :: string

datatype item_command =
    AddCommand string int "cart_option_selection list" "string option"
  | UpdateCommand string int "cart_option_selection list" "string option"
  | RemoveCommand string

fun command_action :: "item_command \<Rightarrow> item_action" where
  "command_action (AddCommand sellable q sels n) = AddAction"
| "command_action (UpdateCommand iref q sels n) = UpdateAction"
| "command_action (RemoveCommand iref) = RemoveAction"

definition add_input :: "js \<Rightarrow> (item_request \<times> item_command) res" where
  "add_input v =
     bnd (cart_closed v [''cartReference'', ''expectedAggregateVersion'', ''sellableReference'', ''quantity'',
            ''optionSelections'', ''customerNote'', ''operationReference'', ''requestedAt'']) (\<lambda>_.
     bnd (parseOrderingReference (fld v ''cartReference'')) (\<lambda>cref.
     bnd (parseOrderingReference (fld v ''operationReference'')) (\<lambda>operation.
     bnd (parseOrderingInstant (fld v ''requestedAt'')) (\<lambda>requestedAt.
     bnd (cart_version (fld v ''expectedAggregateVersion'')) (\<lambda>expected.
     bnd (parseOrderingReference (fld v ''sellableReference'')) (\<lambda>sellable.
     bnd (itemQuantity (fld v ''quantity'')) (\<lambda>q.
     bnd (selections (fld v ''optionSelections'')) (\<lambda>sels.
     bnd (parseCustomerNote (fld v ''customerNote'')) (\<lambda>n.
     Inr (\<lparr>ir_cartReference = cref, ir_expectedVersion = expected, ir_operationReference = operation,
           ir_requestedAt = requestedAt\<rparr>, AddCommand sellable q sels n))))))))))"

definition update_input :: "js \<Rightarrow> (item_request \<times> item_command) res" where
  "update_input v =
     bnd (cart_closed v [''cartReference'', ''cartItemReference'', ''expectedAggregateVersion'', ''quantity'',
            ''optionSelections'', ''customerNote'', ''operationReference'', ''requestedAt'']) (\<lambda>_.
     bnd (parseOrderingReference (fld v ''cartReference'')) (\<lambda>cref.
     bnd (parseOrderingReference (fld v ''cartItemReference'')) (\<lambda>iref.
     bnd (parseOrderingReference (fld v ''operationReference'')) (\<lambda>operation.
     bnd (parseOrderingInstant (fld v ''requestedAt'')) (\<lambda>requestedAt.
     bnd (cart_version (fld v ''expectedAggregateVersion'')) (\<lambda>expected.
     bnd (itemQuantity (fld v ''quantity'')) (\<lambda>q.
     bnd (selections (fld v ''optionSelections'')) (\<lambda>sels.
     bnd (parseCustomerNote (fld v ''customerNote'')) (\<lambda>n.
     Inr (\<lparr>ir_cartReference = cref, ir_expectedVersion = expected, ir_operationReference = operation,
           ir_requestedAt = requestedAt\<rparr>, UpdateCommand iref q sels n))))))))))"

definition remove_input :: "js \<Rightarrow> (item_request \<times> item_command) res" where
  "remove_input v =
     bnd (cart_closed v [''cartReference'', ''cartItemReference'', ''expectedAggregateVersion'',
            ''operationReference'', ''requestedAt'']) (\<lambda>_.
     bnd (parseOrderingReference (fld v ''cartReference'')) (\<lambda>cref.
     bnd (parseOrderingReference (fld v ''cartItemReference'')) (\<lambda>iref.
     bnd (parseOrderingReference (fld v ''operationReference'')) (\<lambda>operation.
     bnd (parseOrderingInstant (fld v ''requestedAt'')) (\<lambda>requestedAt.
     bnd (cart_version (fld v ''expectedAggregateVersion'')) (\<lambda>expected.
     Inr (\<lparr>ir_cartReference = cref, ir_expectedVersion = expected, ir_operationReference = operation,
           ir_requestedAt = requestedAt\<rparr>, RemoveCommand iref)))))))"

section \<open>Intents\<close>

text \<open>The text that is hashed: the action and \<open>JSON.stringify\<close> of the parsed values.\<close>

definition json_selection :: "cart_option_selection \<Rightarrow> string" where
  "json_selection s = json_object
     [(''optionReference'', json_text (co_optionReference s)), (''quantity'', int_str (co_quantity s))]"

definition json_selections :: "cart_option_selection list \<Rightarrow> string" where
  "json_selections sels =
     json_array (map json_selection sels)"

definition json_note :: "string option \<Rightarrow> string" where
  "json_note n = (case n of None \<Rightarrow> ''null'' | Some s \<Rightarrow> json_text s)"

fun item_intent :: "item_request \<Rightarrow> item_command \<Rightarrow> string" where
  "item_intent r (AddCommand sellable q sels n) =
     ''Add:'' @ json_object
       [(''cartReference'', json_text (ir_cartReference r)), (''expectedAggregateVersion'', int_str (ir_expectedVersion r)),
        (''sellableReference'', json_text sellable), (''quantity'', int_str q), (''optionSelections'', json_selections sels),
        (''customerNote'', json_note n), (''operationReference'', json_text (ir_operationReference r)),
        (''requestedAt'', json_text (ir_requestedAt r))]"
| "item_intent r (UpdateCommand iref q sels n) =
     ''Update:'' @ json_object
       [(''cartReference'', json_text (ir_cartReference r)), (''cartItemReference'', json_text iref),
        (''expectedAggregateVersion'', int_str (ir_expectedVersion r)), (''quantity'', int_str q),
        (''optionSelections'', json_selections sels), (''customerNote'', json_note n),
        (''operationReference'', json_text (ir_operationReference r)), (''requestedAt'', json_text (ir_requestedAt r))]"
| "item_intent r (RemoveCommand iref) =
     ''Remove:'' @ json_object
       [(''cartReference'', json_text (ir_cartReference r)), (''cartItemReference'', json_text iref),
        (''expectedAggregateVersion'', int_str (ir_expectedVersion r)),
        (''operationReference'', json_text (ir_operationReference r)), (''requestedAt'', json_text (ir_requestedAt r))]"

definition intentHash :: "item_ports \<Rightarrow> item_request \<Rightarrow> item_command \<Rightarrow> string res" where
  "intentHash ports r cmd = parseOrderingHash (JStr (ip_hashIntent ports (item_intent r cmd)))"

section \<open>Steps of the handlers\<close>

record item_context =
  ic_aggregate :: cart_aggregate
  ic_session :: cart_session
  ic_sessionReference :: string
  ic_audit :: js

definition item_context_of :: "item_ports \<Rightarrow> item_action \<Rightarrow> item_request \<Rightarrow> item_context res" where
  "item_context_of ports action r =
     bnd (item_asked (ip_load ports (ir_cartReference r))) (\<lambda>cart.
     bnd (throw_if (cart = JNull) (CartError CART_UNAVAILABLE)) (\<lambda>_.
     bnd (parseCartAggregate cart) (\<lambda>aggregate.
     bnd (item_asked (ip_authorize ports action (ir_cartReference r) (ir_operationReference r) (ir_requestedAt r))) (\<lambda>answer.
     bnd (or_throw answer cart_denied) (\<lambda>(guest, evidence).
     bnd (authorizeSession (usable_session guest (ir_requestedAt r)) aggregate) (\<lambda>session.
     bnd (item_audit evidence action aggregate (ir_requestedAt r)) (\<lambda>auditRecord.
     bnd (parseOrderingReference (ss_sessionReference session)) (\<lambda>sref.
     Inr \<lparr>ic_aggregate = aggregate, ic_session = session, ic_sessionReference = sref, ic_audit = auditRecord\<rparr>))))))))"

datatype item_outcome = ItemApplied string cart_aggregate | ItemAlreadyApplied js cart_aggregate

text \<open>
  \<open>replay\<close>: the stored record is read field by field; cart errors pass, everything else is a missing
  dependency. The expiry is parsed only when the other fields agree.
\<close>

definition replay_item ::
  "item_ports \<Rightarrow> item_action \<Rightarrow> item_request \<Rightarrow> string \<Rightarrow> string \<Rightarrow> js \<Rightarrow> item_outcome res" where
  "replay_item ports action r intent sessionReference prior =
     catching
       (bnd (get_prop prior ''result'') (\<lambda>raw.
        bnd (parseCartAggregate raw) (\<lambda>result.
        bnd (throw_if
               (fld prior ''action'' \<noteq> JStr (item_action_name action) \<or>
                fld prior ''operationReference'' \<noteq> JStr (ir_operationReference r) \<or>
                fld prior ''cartReference'' \<noteq> JStr (ir_cartReference r) \<or>
                fld prior ''guestSessionReference'' \<noteq> JStr sessionReference \<or>
                \<not> ip_equals ports (fld prior ''operationIntentHash'') intent)
               (CartError CART_IDEMPOTENCY_CONFLICT)) (\<lambda>_.
        bnd (parseOrderingInstant (fld prior ''expiresAt'')) (\<lambda>e.
        bnd (throw_if (ms_of e \<le> ms_of (ir_requestedAt r)) (CartError CART_IDEMPOTENCY_CONFLICT)) (\<lambda>_.
        Inr (ItemAlreadyApplied (fld prior ''cartItemReference'') result)))))))
       (\<lambda>e. Inl (case e of CartError code \<Rightarrow> e | _ \<Rightarrow> cart_unavailable))"

definition selection_question_of :: "cart_aggregate \<Rightarrow> string \<Rightarrow> cart_option_selection list \<Rightarrow> string \<Rightarrow> selection_question" where
  "selection_question_of c sellable sels at =
     \<lparr>sq_brandReference = ca_brandReference c, sq_storeReference = ca_storeReference c,
      sq_sourceChannel = ca_sourceChannel c, sq_orderType = ca_orderType c, sq_sellableReference = sellable,
      sq_optionSelections = sels, sq_observedAt = at\<rparr>"

text \<open>The sellable of the item an update names; without such an item the catalog is not asked.\<close>

definition sellable_of :: "cart_aggregate \<Rightarrow> string \<Rightarrow> string" where
  "sellable_of c iref =
     (case find (\<lambda>i. ci_cartItemReference i = iref) (ca_items c) of
        None \<Rightarrow> [] | Some i \<Rightarrow> ci_sellableReference i)"

text \<open>The mutation with the answers of the catalog and the reference generator filled in.\<close>

fun item_mutation :: "item_ports \<Rightarrow> item_request \<Rightarrow> cart_aggregate \<Rightarrow> item_command \<Rightarrow> cart_command" where
  "item_mutation ports r c (AddCommand sellable q sels n) =
     AddItem (ir_cartReference r) sellable q sels n
       (ip_validateSelection ports (selection_question_of c sellable sels (ir_requestedAt r))) (JStr (ip_generate ports))"
| "item_mutation ports r c (UpdateCommand iref q sels n) =
     UpdateItem iref q sels n
       (ip_validateSelection ports (selection_question_of c (sellable_of c iref) sels (ir_requestedAt r)))"
| "item_mutation ports r c (RemoveCommand iref) = RemoveItem iref"

fun item_reference :: "item_ports \<Rightarrow> item_command \<Rightarrow> string" where
  "item_reference ports (AddCommand sellable q sels n) = ip_generate ports"
| "item_reference ports (UpdateCommand iref q sels n) = iref"
| "item_reference ports (RemoveCommand iref) = iref"

definition item_record ::
  "item_action \<Rightarrow> item_request \<Rightarrow> string \<Rightarrow> string \<Rightarrow> string \<Rightarrow> cart_aggregate \<Rightarrow> item_operation res" where
  "item_record action r intent sessionReference itemReference aggregate =
     bnd (idempotencyExpiry (ir_requestedAt r)) (\<lambda>e.
     Inr \<lparr>io_action = action, io_operationReference = ir_operationReference r, io_operationIntentHash = intent,
          io_guestSessionReference = sessionReference, io_cartReference = ca_cartReference aggregate,
          io_cartItemReference = itemReference, io_result = aggregate, io_occurredAt = ir_requestedAt r,
          io_expiresAt = e\<rparr>)"

datatype item_plan = ReplayItem item_outcome | CommitItem item_operation int js

definition plan_item :: "item_ports \<Rightarrow> item_request \<Rightarrow> item_command \<Rightarrow> item_plan res" where
  "plan_item ports r cmd =
     (let action = command_action cmd in
      bnd (intentHash ports r cmd) (\<lambda>intent.
      bnd (item_context_of ports action r) (\<lambda>current.
      bnd (item_asked (ip_resolveOperation ports (ir_operationReference r))) (\<lambda>prior.
      if prior \<noteq> JNull
      then bnd (replay_item ports action r intent (ic_sessionReference current) prior) (\<lambda>out. Inr (ReplayItem out))
      else
        bnd (run_cart_command (ic_aggregate current) (ic_session current) (ir_expectedVersion r) (ir_requestedAt r)
               (item_mutation ports r (ic_aggregate current) cmd)) (\<lambda>aggregate.
        bnd (item_record action r intent (ic_sessionReference current) (item_reference ports cmd) aggregate) (\<lambda>op.
        Inr (CommitItem op (ir_expectedVersion r) (ic_audit current))))))))"

text \<open>\<open>verify\<close>: what the repository stored is the record, as far as it can tell.\<close>

definition verify_item :: "item_ports \<Rightarrow> js \<Rightarrow> item_operation \<Rightarrow> cart_aggregate res" where
  "verify_item ports saved expected =
     catching
       (bnd (get_prop saved ''result'') (\<lambda>raw.
        bnd (parseCartAggregate raw) (\<lambda>result.
        bnd (throw_if
               (fld saved ''action'' \<noteq> JStr (item_action_name (io_action expected)) \<or>
                fld saved ''operationReference'' \<noteq> JStr (io_operationReference expected) \<or>
                fld saved ''guestSessionReference'' \<noteq> JStr (io_guestSessionReference expected) \<or>
                fld saved ''cartReference'' \<noteq> JStr (io_cartReference expected) \<or>
                fld saved ''cartItemReference'' \<noteq> JStr (io_cartItemReference expected) \<or>
                \<not> ip_equals ports (fld saved ''operationIntentHash'') (io_operationIntentHash expected) \<or>
                ca_cartReference result \<noteq> ca_cartReference (io_result expected) \<or>
                ca_aggregateVersion result \<noteq> ca_aggregateVersion (io_result expected))
               cart_unavailable) (\<lambda>_. Inr result))))
       (\<lambda>_. Inl cart_unavailable)"

definition commit_item :: "item_ports \<Rightarrow> item_operation \<Rightarrow> int \<Rightarrow> js \<Rightarrow> item_outcome res" where
  "commit_item ports op expected auditRecord =
     bnd (item_asked (ip_commit ports op expected auditRecord)) (\<lambda>saved.
     bnd (verify_item ports saved op) (\<lambda>c. Inr (ItemApplied (io_cartItemReference op) c)))"

definition execute_item :: "item_ports \<Rightarrow> (item_request \<times> item_command) res \<Rightarrow> item_outcome res" where
  "execute_item ports input =
     bnd input (\<lambda>(r, cmd).
     bnd (plan_item ports r cmd) (\<lambda>p.
     case p of ReplayItem out \<Rightarrow> Inr out | CommitItem op expected auditRecord \<Rightarrow> commit_item ports op expected auditRecord))"

definition add_handler :: "item_ports \<Rightarrow> js \<Rightarrow> item_outcome res" where
  "add_handler ports v = execute_item ports (add_input v)"

definition update_handler :: "item_ports \<Rightarrow> js \<Rightarrow> item_outcome res" where
  "update_handler ports v = execute_item ports (update_input v)"

definition remove_handler :: "item_ports \<Rightarrow> js \<Rightarrow> item_outcome res" where
  "remove_handler ports v = execute_item ports (remove_input v)"

section \<open>Intents determine commands\<close>

lemma json_selection_code: "json_selection s @ r = json_selection t @ r' \<longleftrightarrow> s = t \<and> r = r'"
  by (cases s; cases t) (auto simp: json_selection_def json_object_def)

lemma json_selections_code [simp]:
  "json_selections xs @ r = json_selections ys @ r' \<longleftrightarrow> xs = ys \<and> r = r'"
  unfolding json_selections_def
  by (rule json_array_code [OF json_selection_code]) (simp add: json_selection_def json_object_def)

lemma json_note_code [simp]: "json_note n @ r = json_note m @ r' \<longleftrightarrow> n = m \<and> r = r'"
  by (cases n; cases m) (simp_all add: json_note_def, simp_all add: json_text_def)

lemma item_intent_code: "item_intent r cmd = item_intent r' cmd' \<longleftrightarrow> r = r' \<and> cmd = cmd'"
  by (cases cmd; cases cmd'; cases r; cases r') (auto simp: json_object_def)

section \<open>Plans\<close>

lemma item_asked_Inr [res_simps]: "item_asked m = Inr x \<longleftrightarrow> m = Inr x"
  by (cases m) (simp_all add: item_asked_def)

lemma item_audit_Inr [res_simps]:
  "item_audit e a c t = Inr w \<longleftrightarrow> validateAuditRecord e (ms_of t) = Inr w \<and> item_audit_describes w a c t"
  by (auto simp: item_audit_def catching_throw_Inr bnd_eq_Inr throw_if_eq_Inr)

lemma usable_session_Inr [res_simps]:
  "usable_session v t = Inr s \<longleftrightarrow> (\<exists>g. createGuestSession v = Inr g \<and> gs_status g = GuestActive \<and>
     canonical_instant t \<and> ms_of t < guest_expiry g \<and> s = session_view g)"
  by (auto simp: usable_session_def bnd_eq_Inr assertGuestSessionUsable_Inr)

text \<open>A session that \<open>authorizeSession\<close> returns is in the scope of the cart, as the other services define it.\<close>

lemma guest_names_inj [simp]:
  "guest_dining_state_name d = ''ContextOnly'' \<longleftrightarrow> d = ContextOnly"
  "guest_dining_state_name d = ''DiningBound'' \<longleftrightarrow> d = DiningBound"
  by (cases d; simp add: guest_dining_state_name_def)+

lemma authorizeSession_Inr:
  assumes "authorizeSession (usable_session v t) c = Inr s"
  obtains g where "createGuestSession v = Inr g" "gs_status g = GuestActive" "ms_of t < guest_expiry g"
    "s = session_view g" "\<not> guest_outside_cart g c \<or> (ca_orderType c = DineIn \<and> ca_diningSessionReference c = None)"
proof -
  from assms obtain g dining where g: "createGuestSession v = Inr g" "gs_status g = GuestActive"
    "ms_of t < guest_expiry g" "s = session_view g" and
    refs: "gs_brandReference g = ca_brandReference c" "gs_storeReference g = ca_storeReference c" and
    dining: "nullable parseOrderingReference (js_opt JStr (gs_diningSessionReference g)) = Inr dining" and
    m: "\<not> session_mismatch (session_view g) c (gs_sessionReference g) dining"
    by (auto simp: authorizeSession_def catching_throw_Inr bnd_eq_Inr throw_if_eq_Inr usable_session_Inr
        session_view_def ordering_parse_Inr)
  from nullable_ref_js [OF dining] m refs
  have "\<not> guest_outside_cart g c \<or> (ca_orderType c = DineIn \<and> ca_diningSessionReference c = None)"
    by (cases "ca_orderType c") (auto simp: session_mismatch_def session_view_def guest_outside_cart_def
        js_opt_JNull)
  with g that show ?thesis by blast
qed

lemma plan_item_Commit:
  assumes "plan_item ports r cmd = Inr (CommitItem op expected au)"
  obtains cart c guest evidence s intent where "ip_load ports (ir_cartReference r) = Inr cart" "parseCartAggregate cart = Inr c"
    "ip_authorize ports (command_action cmd) (ir_cartReference r) (ir_operationReference r) (ir_requestedAt r) =
       Inr (Some (guest, evidence))"
    "authorizeSession (usable_session guest (ir_requestedAt r)) c = Inr s"
    "item_audit evidence (command_action cmd) c (ir_requestedAt r) = Inr au"
    "ip_resolveOperation ports (ir_operationReference r) = Inr JNull" "expected = ir_expectedVersion r"
    "run_cart_command c s expected (ir_requestedAt r) (item_mutation ports r c cmd) = Inr (io_result op)"
    "intentHash ports r cmd = Inr intent" "io_operationIntentHash op = intent" "io_action op = command_action cmd"
    "ss_sessionReference s = JStr (io_guestSessionReference op)"
  using assms unfolding plan_item_def item_context_of_def item_record_def Let_def
  by (auto simp: bnd_eq_Inr item_asked_Inr or_throw_Inr throw_if_eq_Inr ordering_parse_Inr split: if_splits prod.splits)

section \<open>An example: a participant removes an own item\<close>

definition example_guest :: guest_session where
  "example_guest =
     \<lparr>gs_sessionReference = ''01890000-0000-7000-8000-000000000062'', gs_status = GuestActive, gs_version = 1,
      gs_brandReference = ''01890000-0000-7000-8000-000000000012'',
      gs_storeReference = ''01890000-0000-7000-8000-000000000013'',
      gs_publicStoreReference = ''01890000-0000-7000-8000-000000000013'',
      gs_publicTableReference = Some ''01890000-0000-7000-8000-000000000030'', gs_channel = GuestDineIn,
      gs_locale = ''en-NZ'', gs_qrReference = ''01890000-0000-7000-8000-000000000030'', gs_qrRevocationVersion = 1,
      gs_diningState = DiningBound, gs_diningSessionReference = Some ''01890000-0000-7000-8000-000000000042'',
      gs_diningParticipantReference = Some ''01890000-0000-7000-8000-000000000061'',
      gs_createdAt = ''2026-06-01T12:00:00.000Z'', gs_lastSeenAt = ''2026-06-01T12:05:00.000Z'',
      gs_idleExpiresAt = ''2026-06-01T16:05:00.000Z'', gs_absoluteExpiresAt = ''2026-06-02T12:00:00.000Z'',
      gs_orderClosedAt = None, gs_closureExpiresAt = None, gs_rotatedFromGuestSessionReference = None,
      gs_revocationReason = None, gs_revokedAt = None\<rparr>"

lemma example_guest_facts:
  "locale_format ''en-NZ''" "canonical_instant ''2026-06-01T16:05:00.000Z''"
  "canonical_instant ''2026-06-02T12:00:00.000Z''"
  "ms_of ''2026-06-01T16:05:00.000Z'' = 1780329900000" "ms_of ''2026-06-02T12:00:00.000Z'' = 1780401600000"
  by code_simp+

lemma example_guest_valid: "valid_guest_session example_guest"
  by (simp add: valid_guest_session_def example_guest_def example_cart_facts example_guest_facts
      guest_dining_bad_def guest_times_bad_def guest_revocation_ok_def max_safe_def)

definition example_remove_audit :: js where
  "example_remove_audit = JObj
     [(''auditId'', JStr ''01890000-0000-7000-8000-000000000030''),
      (''brandId'', JStr ''01890000-0000-7000-8000-000000000012''),
      (''storeId'', JStr ''01890000-0000-7000-8000-000000000013''),
      (''actor'', JObj [(''type'', JStr ''System'')]), (''actionCode'', JStr ''ORDERING_CART_ITEM_REMOVE''),
      (''targetType'', JStr ''OrderingCart''), (''targetId'', JStr ''01890000-0000-7000-8000-000000000040''),
      (''reasonCode'', JStr ''AUTHORIZED_CART_MUTATION''),
      (''correlationId'', JStr ''01890000-0000-7000-8000-000000000030''),
      (''occurredAt'', JStr ''2026-06-01T12:10:00.000Z''), (''sourceChannel'', JStr ''CUSTOMER_PWA''),
      (''dataClassification'', JStr ''Restricted''), (''retentionPolicyCode'', JStr ''ORDERING''),
      (''retentionPolicyVersion'', JNum 1)]"

lemma remove_audit_formats:
  "uuid_v7_any_case ''01890000-0000-7000-8000-000000000030''" "uuid_v7_any_case ''01890000-0000-7000-8000-000000000012''"
  "uuid_v7_any_case ''01890000-0000-7000-8000-000000000013''" "uuid_v7_any_case ''01890000-0000-7000-8000-000000000040''"
  "stable_code_format ''ORDERING_CART_ITEM_REMOVE''" "stable_code_format ''AUTHORIZED_CART_MUTATION''"
  "stable_code_format ''CUSTOMER_PWA''" "stable_code_format ''ORDERING''" "target_type_format ''OrderingCart''"
  by code_simp+

lemma example_remove_audit_valid:
  "validateAuditRecord example_remove_audit 1780315800000 = Inr example_remove_audit"
  by (simp add: validateAuditRecord_def example_remove_audit_def requireUuid_def optionalUuid_def audit_actor_def
      audit_summary_def audit_occurred_def reads_as_def audit_fields_def remove_audit_formats example_cart_facts
      max_safe_def)

definition example_item_ports :: item_ports where
  "example_item_ports =
     \<lparr>ip_validateSelection = \<lambda>q. Inl TypeError,
      ip_authorize = \<lambda>a c o' t. Inr (Some (guest_session_js example_guest, example_remove_audit)),
      ip_generate = ''01890000-0000-7000-8000-000000000030'', ip_hashIntent = \<lambda>s. example_intent_hash,
      ip_equals = \<lambda>v s. v = JStr s, ip_resolveOperation = \<lambda>o'. Inr JNull,
      ip_load = \<lambda>c. Inr (cart_js (example_cart 7)), ip_commit = \<lambda>op n a. Inl TypeError\<rparr>"

definition example_item_request :: item_request where
  "example_item_request =
     \<lparr>ir_cartReference = ''01890000-0000-7000-8000-000000000040'', ir_expectedVersion = 7,
      ir_operationReference = ''01890000-0000-7000-8000-000000000030'', ir_requestedAt = ''2026-06-01T12:10:00.000Z''\<rparr>"

definition example_removed :: cart_aggregate where
  "example_removed = removed_cart (example_cart 7) example_lifecycle 7 ''2026-06-01T12:10:00.000Z''
     (\<lambda>x. ci_cartItemReference x \<noteq> ''01890000-0000-7000-8000-000000000051'')"

lemma example_guest_owns: "owned_by (example_cart 7) (session_view example_guest) (hd (ca_items (example_cart 7)))"
  by (simp add: owned_by_def canMutateItem_def example_cart_def example_item_def example_guest_def session_view_def
      nullable_def parseOrderingReference_def example_cart_facts)

lemma example_guest_removes:
  "removeCartItem (example_cart 7) (session_view example_guest) 7 ''2026-06-01T12:10:00.000Z''
     ''01890000-0000-7000-8000-000000000051'' = Inr example_removed"
  using removeCartItem_eq [OF example_cart_valid _ _ example_cart_facts(13) _ _ _ _ example_guest_owns,
      of example_lifecycle "''01890000-0000-7000-8000-000000000051''"] example_times
  by (simp add: example_cart_def example_lifecycle_def example_item_def example_cart_facts example_removed_def)

lemma example_guest_authorized:
  "authorizeSession (usable_session (guest_session_js example_guest) ''2026-06-01T12:10:00.000Z'') (example_cart 7) =
     Inr (session_view example_guest)"
proof -
  have "usable_session (guest_session_js example_guest) ''2026-06-01T12:10:00.000Z'' = Inr (session_view example_guest)"
    by (simp add: usable_session_Inr guest.parse_print [OF example_guest_valid])
      (simp add: example_guest_def guest_expiry_def example_cart_facts example_guest_facts)
  then show ?thesis
    by (simp add: authorizeSession_def session_view_def example_guest_def session_mismatch_def example_cart_def
        parseOrderingReference_def nullable_def example_cart_facts guest_channel_name_def order_type_name_def)
qed

lemma example_item_plan:
  "\<exists>op. plan_item example_item_ports example_item_request (RemoveCommand ''01890000-0000-7000-8000-000000000051'') =
     Inr (CommitItem op 7 example_remove_audit) \<and> io_result op = example_removed"
proof -
  have "parseCartAggregate (cart_js (example_cart 7)) = Inr (example_cart 7)"
    by (simp add: cart.parse_print example_cart_valid)
  moreover have "item_audit example_remove_audit RemoveAction (example_cart 7) ''2026-06-01T12:10:00.000Z'' =
      Inr example_remove_audit"
    by (simp add: item_audit_def example_cart_facts example_remove_audit_valid item_audit_describes_def
        example_cart_def) (simp add: example_remove_audit_def)
  moreover have "\<exists>e. idempotencyExpiry ''2026-06-01T12:10:00.000Z'' = Inr e"
    by (simp add: idempotencyExpiry_def date_parse_canonical example_cart_facts dayMilliseconds_def iso_time_iff
        parseOrderingInstant_def canonical_to_iso_iff)
  moreover have "ss_sessionReference (session_view example_guest) = JStr ''01890000-0000-7000-8000-000000000062''"
    by (simp add: session_view_def example_guest_def)
  ultimately show ?thesis
    by (auto simp: plan_item_def item_context_of_def example_item_ports_def example_item_request_def item_asked_def
        intentHash_def parseOrderingHash_def parseOrderingReference_def example_expiry_facts example_cart_facts
        cart.print_not_null example_guest_authorized example_guest_removes item_record_def)
qed

section \<open>Properties\<close>

text \<open>
  C24. A guest changes only what is the guest's: whatever the item service hands to the repository, for any
  ports, is the result of one command on the cart the repository loaded at the expected version, made in
  the name of a usable guest session that the authorisation port gave for this cart. The result is a valid
  cart with the same identity, one version later, updated at the time of the request, and every item of
  other participants (of other actors in a pickup cart) is in it unchanged and in the same order.
\<close>

theorem item_commit_sound:
  assumes "plan_item ports r cmd = Inr (CommitItem op expected au)"
  shows "\<exists>guest evidence g loaded c.
    ip_authorize ports (command_action cmd) (ir_cartReference r) (ir_operationReference r) (ir_requestedAt r) =
      Inr (Some (guest, evidence)) \<and>
    createGuestSession guest = Inr g \<and> gs_status g = GuestActive \<and> ms_of (ir_requestedAt r) < guest_expiry g \<and>
    \<not> guest_outside_cart g c \<and> io_guestSessionReference op = gs_sessionReference g \<and>
    ip_load ports (ir_cartReference r) = Inr loaded \<and> parseCartAggregate loaded = Inr c \<and>
    expected = ir_expectedVersion r \<and> expected = ca_aggregateVersion c \<and>
    valid_cart (io_result op) \<and> same_cart_identity c (io_result op) \<and>
    ca_aggregateVersion (io_result op) = expected + 1 \<and> ca_updatedAt (io_result op) = ir_requestedAt r \<and>
    filter (\<lambda>i. \<not> owned_by c (session_view g) i) (ca_items (io_result op)) =
      filter (\<lambda>i. \<not> owned_by c (session_view g) i) (ca_items c) \<and>
    item_audit_describes au (command_action cmd) c (ir_requestedAt r)"
proof (rule plan_item_Commit [OF assms])
  fix cart c guest evidence s intent
  assume p: "ip_load ports (ir_cartReference r) = Inr cart" "parseCartAggregate cart = Inr c"
    "ip_authorize ports (command_action cmd) (ir_cartReference r) (ir_operationReference r) (ir_requestedAt r) =
       Inr (Some (guest, evidence))"
    "expected = ir_expectedVersion r" "ss_sessionReference s = JStr (io_guestSessionReference op)"
    and s: "authorizeSession (usable_session guest (ir_requestedAt r)) c = Inr s"
    and au: "item_audit evidence (command_action cmd) c (ir_requestedAt r) = Inr au"
    and run: "run_cart_command c s expected (ir_requestedAt r) (item_mutation ports r c cmd) = Inr (io_result op)"
  have c: "valid_cart c" by (rule cart.parse_valid [OF p(2)])
  then have dine: "\<not> (ca_orderType c = DineIn \<and> ca_diningSessionReference c = None)"
    by (auto simp: valid_cart_def cart_times_bad_def)
  show ?thesis
    by (rule authorizeSession_Inr [OF s])
      (use p au run_cart_command_Inr [OF run c] foreign_items [OF run c] dine in
        \<open>auto simp: item_audit_Inr session_view_def\<close>)
qed

theorem item_commit_sound_witness:
  "\<exists>op. plan_item example_item_ports example_item_request (RemoveCommand ''01890000-0000-7000-8000-000000000051'') =
     Inr (CommitItem op 7 example_remove_audit) \<and> ca_aggregateVersion (io_result op) = 8 \<and>
     same_cart_identity (example_cart 7) (io_result op)"
proof -
  from example_item_plan obtain op where
    op: "plan_item example_item_ports example_item_request (RemoveCommand ''01890000-0000-7000-8000-000000000051'') =
     Inr (CommitItem op 7 example_remove_audit)" by blast
  from item_commit_sound [OF op] have "ca_aggregateVersion (io_result op) = 8 \<and> same_cart_identity (example_cart 7) (io_result op)"
    by (auto simp: example_item_ports_def cart.parse_print example_cart_valid)
  with op show ?thesis by blast
qed

text \<open>
  C25. The hashed text of a command stands for the command: two requests of the item service have the same
  intent text only if they are the same command with the same parsed values (references, version, quantity,
  selections in order, note, operation, time). So a stored intent hash, if hashes do not collide, identifies
  the request that a replay is compared with; notes with quotes, braces or control characters cannot forge
  another request.
\<close>

theorem item_intent_injective: "(item_intent r cmd = item_intent r' cmd') = (r = r' \<and> cmd = cmd')"
  by (rule item_intent_code)

end
