(* ===== verification/AttachmentService.thy ===== *)
theory AttachmentService
  imports QuoteAttachment QuotePipeline CartItemService
begin

text \<open>
  What attaching a quote guarantees, from the request to the stored attachment, with the pricing port
  instantiated by the model of \<open>createPriceQuote\<close> in the example.
\<close>

section \<open>An example: the dining guest and the quote pricing computes\<close>

definition example_attach_audit :: js where
  "example_attach_audit = JObj
     [(''auditId'', JStr ''01890000-0000-7000-8000-000000000030''),
      (''brandId'', JStr ''01890000-0000-7000-8000-000000000012''),
      (''storeId'', JStr ''01890000-0000-7000-8000-000000000013''),
      (''actor'', JObj [(''type'', JStr ''System'')]), (''actionCode'', JStr ''ORDERING_CART_ATTACH_QUOTE''),
      (''targetType'', JStr ''OrderingCart''), (''targetId'', JStr ''01890000-0000-7000-8000-000000000052''),
      (''reasonCode'', JStr ''AUTHORIZED_CART_QUOTE''),
      (''correlationId'', JStr ''01890000-0000-7000-8000-000000000030''),
      (''occurredAt'', JStr ''2026-06-01T12:10:00.000Z''), (''sourceChannel'', JStr ''CUSTOMER_PWA''),
      (''dataClassification'', JStr ''Restricted''), (''retentionPolicyCode'', JStr ''ORDERING''),
      (''retentionPolicyVersion'', JNum 1)]"

lemma attach_audit_formats:
  "uuid_v7_any_case ''01890000-0000-7000-8000-000000000030''" "uuid_v7_any_case ''01890000-0000-7000-8000-000000000012''"
  "uuid_v7_any_case ''01890000-0000-7000-8000-000000000013''" "uuid_v7_any_case ''01890000-0000-7000-8000-000000000052''"
  "stable_code_format ''ORDERING_CART_ATTACH_QUOTE''" "stable_code_format ''AUTHORIZED_CART_QUOTE''"
  "stable_code_format ''CUSTOMER_PWA''" "stable_code_format ''ORDERING''" "target_type_format ''OrderingCart''"
  by code_simp+

lemma example_attach_audit_valid:
  "validateAuditRecord example_attach_audit 1780315800000 = Inr example_attach_audit"
  by (simp add: validateAuditRecord_def example_attach_audit_def requireUuid_def optionalUuid_def audit_actor_def
      audit_summary_def audit_occurred_def reads_as_def audit_fields_def attach_audit_formats example_cart_facts
      max_safe_def)

definition example_attach_ports :: "price_quote_snapshot \<Rightarrow> attachment_ports" where
  "example_attach_ports q =
     \<lparr>ap_quoteCart = \<lambda>i. Inr (example_object q),
      ap_authorize = \<lambda>c o' t. Inr (Some (guest_session_js example_guest, example_attach_audit)),
      ap_hashIntent = \<lambda>s. example_digest, ap_equals = (=), ap_resolveOperation = \<lambda>o'. Inr JNull,
      ap_loadCart = \<lambda>c. Inr (cart_js example_quoted_cart), ap_attach = \<lambda>a n au. Inr (attachment_js a)\<rparr>"

definition example_attach_request :: js where
  "example_attach_request = JObj
     [(''cartReference'', JStr ''01890000-0000-7000-8000-000000000052''), (''expectedCartVersion'', JNum 3),
      (''operationReference'', JStr ''01890000-0000-7000-8000-000000000061''),
      (''requestedAt'', JStr ''2026-06-01T12:10:00.000Z'')]"

definition example_attach_parsed :: attachment_request where
  "example_attach_parsed =
     \<lparr>ar_cartReference = ''01890000-0000-7000-8000-000000000052'', ar_expectedCartVersion = 3,
      ar_operationReference = ''01890000-0000-7000-8000-000000000061'',
      ar_requestedAt = ''2026-06-01T12:10:00.000Z''\<rparr>"

lemma example_attach_input: "attach_input example_attach_request = Inr example_attach_parsed"
  by code_simp

lemma example_usable_guest:
  "usable_guest (guest_session_js example_guest) ''2026-06-01T12:10:00.000Z'' = Inr example_guest"
  by (simp add: usable_guest_Inr guest.parse_print [OF example_guest_valid])
    (simp add: example_guest_def guest_expiry_def example_cart_facts example_guest_facts)

lemma example_attach_plan:
  "\<exists>q a. createPriceQuote example_zone example_quote_input = Inr q \<and>
     at_cartReference a = ''01890000-0000-7000-8000-000000000052'' \<and> at_operationIntentHash a = example_digest \<and>
     plan_attachment (example_attach_ports q) example_attach_request =
       Inr (SaveAttachment example_attach_parsed example_digest a example_attach_audit)"
proof -
  from example_attachment obtain q a where q: "createPriceQuote example_zone example_quote_input = Inr q" and
    a: "verifyQuote (example_object q) example_quoted_cart ''01890000-0000-7000-8000-000000000061'' example_digest
       ''01890000-0000-7000-8000-000000000062'' ''2026-06-01T12:10:00.000Z'' = Inr a" by blast
  have cart: "parseCartAggregate (cart_js example_quoted_cart) = Inr example_quoted_cart"
    by (rule cart.parse_print [OF example_quoted_cart_valid])
  have c: "ca_aggregateVersion example_quoted_cart = 3" "ca_lifecycle example_quoted_cart = Some example_lifecycle"
    "ca_items example_quoted_cart \<noteq> []"
    "\<not> list_ex (\<lambda>i. ci_catalogSelectionEvidence i = None) (ca_items example_quoted_cart)"
    "\<not> outside_scope example_guest (cart_scope example_quoted_cart)"
    "attach_audit_describes example_attach_audit (cart_scope example_quoted_cart) ''2026-06-01T12:10:00.000Z''"
    by (simp_all add: example_quoted_cart_def example_cart_def outside_scope_def cart_scope_def example_guest_def
        guest_channel_name_def order_type_name_def attach_audit_describes_def example_attach_audit_def)
  have l: "assertCartLifecycleActive (Some example_lifecycle) ''2026-06-01T12:10:00.000Z'' = Inr example_lifecycle"
    using assert_active_eq [OF example_lifecycle_valid example_cart_facts(13)]
    by (simp add: example_lifecycle_def example_cart_facts example_times)
  have "attach_audit example_attach_audit (cart_scope example_quoted_cart) ''2026-06-01T12:10:00.000Z'' =
      Inr example_attach_audit"
    using c(6) example_attach_audit_valid by (simp add: attach_audit_Inr example_cart_facts)
  moreover have "gs_sessionReference example_guest = ''01890000-0000-7000-8000-000000000062''"
    by (simp add: example_guest_def)
  ultimately have "plan_attachment (example_attach_ports q) example_attach_request =
      Inr (SaveAttachment example_attach_parsed example_digest a example_attach_audit)"
    using a by (simp add: plan_attachment_def example_attach_input new_attachment_def example_attach_ports_def
      asked_for_def cart c l cart.print_not_null parseOrderingHash_def example_quoted_facts
      example_attach_parsed_def example_usable_guest sessionScope_usable [OF example_usable_guest])
  with q verified_attachment [OF a] show ?thesis
    by (auto simp: example_quoted_cart_def)
qed

section \<open>Properties\<close>

text \<open>
  C21. Only a verified quote of an active cart is stored: whatever the attachment service hands to the
  repository, for any ports, comes from a usable guest session within the scope of the loaded cart, from
  that cart at the expected version before its deadlines, and from the answer of pricing to the pricing
  input of exactly that cart; the attachment quotes the items of the cart one to one, names guest,
  operation and intent of the request, and the audit evidence names the cart.
\<close>

theorem attach_commit_sound:
  assumes "plan_attachment ports v = Inr (SaveAttachment req intent a au)"
  shows "\<exists>guest evidence s loaded c l quote.
    attach_input v = Inr req \<and>
    ap_authorize ports (ar_cartReference req) (ar_operationReference req) (ar_requestedAt req) = Inr (Some (guest, evidence)) \<and>
    createGuestSession guest = Inr s \<and> gs_status s = GuestActive \<and> ms_of (ar_requestedAt req) < guest_expiry s \<and>
    ap_loadCart ports (ar_cartReference req) = Inr loaded \<and> parseCartAggregate loaded = Inr c \<and>
    ca_aggregateVersion c = ar_expectedCartVersion req \<and>
    assertCartLifecycleActive (ca_lifecycle c) (ar_requestedAt req) = Inr l \<and>
    \<not> outside_scope s (cart_scope c) \<and> attach_audit_describes au (cart_scope c) (ar_requestedAt req) \<and>
    ap_quoteCart ports (pricing_input c (ar_requestedAt req)) = Inr quote \<and>
    fld quote ''quoteReference'' = JStr (at_quoteReference a) \<and> quotes_items (at_lines a) (ca_items c) \<and>
    at_cartReference a = ca_cartReference c \<and> at_cartVersion a = ar_expectedCartVersion req \<and>
    at_guestSessionReference a = gs_sessionReference s \<and> at_operationReference a = ar_operationReference req \<and>
    at_operationIntentHash a = ap_hashIntent ports (attach_intent req)"
proof (rule plan_attachment_Save [OF assms])
  fix guest evidence s loaded
  assume p: "attach_input v = Inr req" "intent = ap_hashIntent ports (attach_intent req)"
    "ap_authorize ports (ar_cartReference req) (ar_operationReference req) (ar_requestedAt req) = Inr (Some (guest, evidence))"
    "ap_loadCart ports (ar_cartReference req) = Inr loaded"
    and u: "usable_guest guest (ar_requestedAt req) = Inr s"
    and n: "new_attachment ports req intent s evidence loaded = Inr (a, au)"
  show ?thesis
  proof (rule new_attachment_Inr [OF n u])
    fix c quote l
    assume c: "parseCartAggregate loaded = Inr c" "ca_aggregateVersion c = ar_expectedCartVersion req"
      "assertCartLifecycleActive (ca_lifecycle c) (ar_requestedAt req) = Inr l" "\<not> outside_scope s (cart_scope c)"
      "attach_audit_describes au (cart_scope c) (ar_requestedAt req)"
      "ap_quoteCart ports (pricing_input c (ar_requestedAt req)) = Inr quote"
      and q: "verifyQuote quote c (ar_operationReference req) intent (gs_sessionReference s) (ar_requestedAt req) = Inr a"
    note b = verifyQuote_body_Inr [OF q [unfolded verifyQuote_Inr] cart.parse_valid [OF c(1)]]
    from c p u b verified_attachment [OF q] show ?thesis
      by (auto simp: usable_guest_Inr intro!: exI)
  qed
qed

theorem attach_commit_sound_witness:
  "\<exists>q a. createPriceQuote example_zone example_quote_input = Inr q \<and>
     plan_attachment (example_attach_ports q) example_attach_request =
       Inr (SaveAttachment example_attach_parsed example_digest a example_attach_audit) \<and>
     quotes_items (at_lines a) (ca_items example_quoted_cart)"
proof -
  from example_attach_plan obtain q a where q: "createPriceQuote example_zone example_quote_input = Inr q"
    "plan_attachment (example_attach_ports q) example_attach_request =
       Inr (SaveAttachment example_attach_parsed example_digest a example_attach_audit)" by blast
  from attach_commit_sound [OF q(2)] have "quotes_items (at_lines a) (ca_items example_quoted_cart)"
    by (auto simp: example_attach_ports_def cart.parse_print [OF example_quoted_cart_valid])
  with q show ?thesis by blast
qed

text \<open>
  C22. Attaching is idempotent: when the repository answers an operation with the attachment that was
  stored for it, the same request is answered \<open>AlreadyAttached\<close> with that attachment, and neither pricing
  nor the repository's write is asked. It is used for a repository that loads the cart it is asked for,
  and a hash comparison that accepts a hash as equal to itself.
\<close>

theorem attach_replay:
  assumes "plan_attachment ports v = Inr (SaveAttachment req intent a au)"
    and "at_cartReference a = ar_cartReference req"
    and "ap_equals ports (at_operationIntentHash a) (at_operationIntentHash a)"
    and "recorded (ar_operationReference req) = Inr (attachment_js a)"
  shows "attach (ports\<lparr>ap_resolveOperation := recorded, ap_quoteCart := q', ap_attach := s'\<rparr>) v = Inr (AlreadyAttached a)"
proof (rule plan_attachment_Save [OF assms(1)])
  let ?ports = "ports\<lparr>ap_resolveOperation := recorded, ap_quoteCart := q', ap_attach := s'\<rparr>"
  fix guest evidence s loaded
  assume req: "attach_input v = Inr req" and i: "intent = ap_hashIntent ports (attach_intent req)" "sha256_digest intent"
    and auth: "ap_authorize ports (ar_cartReference req) (ar_operationReference req) (ar_requestedAt req) = Inr (Some (guest, evidence))"
    and u: "usable_guest guest (ar_requestedAt req) = Inr s"
    and n: "new_attachment ports req intent s evidence loaded = Inr (a, au)"
  show ?thesis
  proof (rule new_attachment_Inr [OF n u])
    fix c quote l
    assume c: "parseCartAggregate loaded = Inr c" "ca_aggregateVersion c = ar_expectedCartVersion req"
      "\<not> outside_scope s (cart_scope c)" "validateAuditRecord evidence (ms_of (ar_requestedAt req)) = Inr au"
      "attach_audit_describes au (cart_scope c) (ar_requestedAt req)"
      and q: "verifyQuote quote c (ar_operationReference req) intent (gs_sessionReference s) (ar_requestedAt req) = Inr a"
    from verified_attachment [OF q] have a: "at_operationIntentHash a = intent" "at_guestSessionReference a = gs_sessionReference s"
      "at_cartReference a = ca_cartReference c" "at_brandReference a = ca_brandReference c"
      "at_storeReference a = ca_storeReference c" "at_cartVersion a = ca_aggregateVersion c" "valid_attachment a"
      "ms_of (at_idempotencyExpiresAt a) = ms_of (ar_requestedAt req) + dayMilliseconds" by blast+
    note w = attachment_scope_within [OF c(3) a(4,5,3)]
    have audit: "attach_audit evidence (attachment_scope a) (ar_requestedAt req) = Inr au"
      using c(4,5) w(2) by (simp add: attach_audit_Inr)
    have "replay_attachment ?ports req intent s evidence (attachment_js a) = Inr a"
      using w(1) audit a c(2) assms(2,3)
      by (simp add: replay_attachment_def attachment.parse_print sessionScope_usable [OF u] dayMilliseconds_def throw_if_def)
    then show ?thesis
      using req i auth u assms(4)
      by (simp add: attach_def plan_attachment_def parseOrderingHash_def asked_for_def attachment.print_not_null)
  qed
qed

theorem attach_replay_witness:
  "\<exists>q a. createPriceQuote example_zone example_quote_input = Inr q \<and>
     attach ((example_attach_ports q)\<lparr>ap_resolveOperation := \<lambda>o'. Inr (attachment_js a),
       ap_quoteCart := \<lambda>i. Inl TypeError, ap_attach := \<lambda>a n au. Inl TypeError\<rparr>) example_attach_request =
     Inr (AlreadyAttached a)"
proof -
  from example_attach_plan obtain q a where q: "createPriceQuote example_zone example_quote_input = Inr q"
    and a: "at_cartReference a = ''01890000-0000-7000-8000-000000000052''" "at_operationIntentHash a = example_digest"
    and p: "plan_attachment (example_attach_ports q) example_attach_request =
       Inr (SaveAttachment example_attach_parsed example_digest a example_attach_audit)" by blast
  from attach_replay [OF p, where recorded = "\<lambda>o'. Inr (attachment_js a)" and q' = "\<lambda>i. Inl TypeError" and s' = "\<lambda>a n au. Inl TypeError"] a q show ?thesis
    by (auto simp: example_attach_parsed_def example_attach_ports_def)
qed

end
