(* ===== verification/Runs.thy ===== *)
theory Runs
  imports Prelude
begin

text \<open>
  Runs of a component and the ledger they leave: \<open>runs\<close> is the closure of a step relation over the list of
  its events, and the locale states what it takes for the events alone to determine the state, up to an
  abstraction.
\<close>

inductive runs :: "('a \<Rightarrow> 'e \<Rightarrow> 'a \<Rightarrow> bool) \<Rightarrow> 'a \<Rightarrow> 'e list \<Rightarrow> 'a \<Rightarrow> bool" for step where
  stop: "runs step a [] a"
| go: "step a e b \<Longrightarrow> runs step b es c \<Longrightarrow> runs step a (e # es) c"

inductive_cases runs_NilE: "runs step a [] b"
inductive_cases runs_ConsE: "runs step a (e # es) b"

lemma runs_append: "runs step a es b \<Longrightarrow> runs step b fs c \<Longrightarrow> runs step a (es @ fs) c"
  by (induction rule: runs.induct) (auto intro: runs.intros)

lemma runs_single: "step a e b \<Longrightarrow> runs step a [e] b"
  by (blast intro: runs.intros)

text \<open>Posting a list of entries to a book; an entry that the book refuses stops it.\<close>

fun posts :: "('e \<Rightarrow> 's \<Rightarrow> 's option) \<Rightarrow> 'e list \<Rightarrow> 's \<Rightarrow> 's option" where
  "posts post [] s = Some s"
| "posts post (e # es) s = (case post e s of None \<Rightarrow> None | Some t \<Rightarrow> posts post es t)"

locale ledger =
  fixes step :: "'a \<Rightarrow> 'e \<Rightarrow> 'a \<Rightarrow> bool" and post :: "'e \<Rightarrow> 's \<Rightarrow> 's option"
    and valid :: "'a \<Rightarrow> bool" and book :: "'a \<Rightarrow> 's"
  assumes step_valid: "step a e b \<Longrightarrow> valid a \<Longrightarrow> valid b"
    and step_post: "step a e b \<Longrightarrow> valid a \<Longrightarrow> post e (book a) = Some (book b)"
begin

lemma valid_after: "runs step a es b \<Longrightarrow> valid a \<Longrightarrow> valid b"
  by (induction rule: runs.induct) (auto intro: step_valid)

lemma run_posts: "runs step a es b \<Longrightarrow> valid a \<Longrightarrow> posts post es (book a) = Some (book b)"
  by (induction rule: runs.induct) (auto simp: step_post intro: step_valid)

lemma same_events_same_book:
  "runs step a es b \<Longrightarrow> runs step a' es b' \<Longrightarrow> valid a \<Longrightarrow> valid a' \<Longrightarrow> book a = book a' \<Longrightarrow> book b = book b'"
  using run_posts by (metis option.inject)

end

text \<open>\<open>array.findIndex(p)\<close>.\<close>

fun first_index :: "('a \<Rightarrow> bool) \<Rightarrow> 'a list \<Rightarrow> nat option" where
  "first_index p [] = None"
| "first_index p (x # xs) = (if p x then Some 0 else map_option Suc (first_index p xs))"

lemma first_index_Some:
  "first_index p xs = Some i \<Longrightarrow> \<exists>us x vs. xs = us @ x # vs \<and> length us = i \<and> p x \<and> list_all (\<lambda>u. \<not> p u) us"
proof (induction xs arbitrary: i)
  case (Cons x xs)
  show ?case
  proof (cases "p x")
    case True
    with Cons.prems have "x # xs = [] @ x # xs \<and> length [] = i \<and> p x \<and> list_all (\<lambda>u. \<not> p u) []" by simp
    then show ?thesis by blast
  next
    case False
    with Cons.prems obtain j where j: "first_index p xs = Some j" "i = Suc j" by auto
    from Cons.IH [OF j(1)] obtain us y vs where
      "xs = us @ y # vs" "length us = j" "p y" "list_all (\<lambda>u. \<not> p u) us" by blast
    with False j(2) have "x # xs = (x # us) @ y # vs \<and> length (x # us) = i \<and> p y \<and> list_all (\<lambda>u. \<not> p u) (x # us)"
      by simp
    then show ?thesis by blast
  qed
qed simp

lemma first_index_None: "first_index p xs = None \<longleftrightarrow> list_all (\<lambda>x. \<not> p x) xs"
  by (induction xs) simp_all

text \<open>\<open>array.slice(-n)\<close>.\<close>

definition slice_last :: "nat \<Rightarrow> 'a list \<Rightarrow> 'a list" where
  "slice_last n xs = drop (length xs - n) xs"

lemma slice_last_short [simp]: "length xs \<le> n \<Longrightarrow> slice_last n xs = xs"
  by (simp add: slice_last_def)

end
