(* ===== verification/LoyaltyAccount.thy ===== *)
theory LoyaltyAccount
  imports Runs OrderingValues
begin

text \<open>
  Loyalty accounts and their points: \<open>packages/rms/customer-loyalty/src/domain/loyalty-account.ts\<close>, with the
  value parsers of \<open>customer-profile.ts\<close> in the same directory. An account is the value the functions take
  and return; the parts of an input that the code declares \<open>unknown\<close> are JavaScript values.
\<close>

section \<open>Values\<close>

definition profile_error :: "customer_profile_code \<Rightarrow> err" where
  "profile_error code = CustomerProfileError code"

definition profile_invalid :: err where
  "profile_invalid = profile_error CUSTOMER_PROFILE_INVALID"

definition profile_conflict :: err where
  "profile_conflict = profile_error CUSTOMER_PROFILE_STATE_CONFLICT"

definition customerReference :: "js \<Rightarrow> string res" where
  "customerReference v = or_throw (str_if uuid_v7 v) profile_invalid"

text \<open>A well-formed string that names no time makes \<open>toISOString\<close> throw its own error.\<close>

definition customerInstant :: "js \<Rightarrow> string res" where
  "customerInstant v =
     bnd (or_throw (str_if instant_format v) profile_invalid) (\<lambda>s.
     bnd (date_to_iso (date_parse s)) (\<lambda>i.
     bnd (throw_if (i \<noteq> s) profile_invalid) (\<lambda>_. Inr s)))"

definition points_integer :: "js \<Rightarrow> int \<Rightarrow> int res" where
  "points_integer v least = or_throw (safe_int_in least max_safe v) profile_invalid"

definition points_code :: "js \<Rightarrow> string res" where
  "points_code v = or_throw (str_if (code_format ''_'') v) profile_invalid"

section \<open>Accounts, reservations and transactions\<close>

datatype loyalty_status = AccountPending | AccountActive | AccountSuspended | AccountClosed

datatype points_type = Earn | Activate | Reserve | Release | Redeem | Reverse | Adjust | ExpirePoints

datatype reservation_status = Reserved | Released | Redeemed

record points_reservation =
  pr_reservationReference :: string
  pr_redemptionRequestReference :: string
  pr_targetReference :: string
  pr_points :: int
  pr_expiresAt :: string
  pr_status :: reservation_status

record loyalty_account =
  la_accountReference :: string
  la_tenantReference :: string
  la_brandReference :: string
  la_customerProfileReference :: string
  la_programReference :: string
  la_programVersionReference :: string
  la_status :: loyalty_status
  la_tierCode :: "string option"
  la_pendingPoints :: int
  la_availablePoints :: int
  la_reservedPoints :: int
  la_lifetimeEarnedPoints :: int
  la_pointsDebt :: int
  la_expiringPoints :: int
  la_reservations :: "points_reservation list"
  la_aggregateVersion :: int
  la_createdAt :: string
  la_updatedAt :: string

record points_transaction =
  pt_transactionReference :: string
  pt_accountReference :: string
  pt_type :: points_type
  pt_points :: int
  pt_sourceType :: js
  pt_sourceReference :: string
  pt_programVersionReference :: string
  pt_ruleVersionReference :: string
  pt_occurredAt :: string
  pt_effectiveAt :: string
  pt_expiryAt :: "string option"
  pt_idempotencyReference :: string
  pt_originalTransactionReference :: "string option"
  pt_reservationReference :: "string option"
  pt_actorReference :: string
  pt_reasonCode :: string

definition points_types :: "(string \<times> points_type) list" where
  "points_types = [(''Earn'', Earn), (''Activate'', Activate), (''Reserve'', Reserve), (''Release'', Release),
     (''Redeem'', Redeem), (''Reverse'', Reverse), (''Adjust'', Adjust), (''Expire'', ExpirePoints)]"

definition loyalty_statuses :: "(string \<times> loyalty_status) list" where
  "loyalty_statuses = [(''Pending'', AccountPending), (''Active'', AccountActive),
     (''Suspended'', AccountSuspended), (''Closed'', AccountClosed)]"

section \<open>Creation and status\<close>

definition createLoyaltyAccount :: "js \<Rightarrow> loyalty_account res" where
  "createLoyaltyAccount v =
     bnd (customerInstant (fld v ''occurredAt'')) (\<lambda>occurredAt.
     bnd (customerReference (fld v ''actorReference'')) (\<lambda>_.
     bnd (customerReference (fld v ''accountReference'')) (\<lambda>account.
     bnd (customerReference (fld v ''tenantReference'')) (\<lambda>tenant.
     bnd (customerReference (fld v ''brandReference'')) (\<lambda>brand.
     bnd (customerReference (fld v ''customerProfileReference'')) (\<lambda>profile.
     bnd (customerReference (fld v ''programReference'')) (\<lambda>program.
     bnd (customerReference (fld v ''programVersionReference'')) (\<lambda>version.
     Inr \<lparr>la_accountReference = account, la_tenantReference = tenant, la_brandReference = brand,
       la_customerProfileReference = profile, la_programReference = program,
       la_programVersionReference = version, la_status = AccountPending, la_tierCode = None,
       la_pendingPoints = 0, la_availablePoints = 0, la_reservedPoints = 0, la_lifetimeEarnedPoints = 0,
       la_pointsDebt = 0, la_expiringPoints = 0, la_reservations = [], la_aggregateVersion = 1,
       la_createdAt = occurredAt, la_updatedAt = occurredAt\<rparr>))))))))"

definition evolve :: "loyalty_account \<Rightarrow> (loyalty_account \<Rightarrow> loyalty_account) \<Rightarrow> js \<Rightarrow> loyalty_account res" where
  "evolve account patch occurredAt =
     bnd (customerInstant occurredAt) (\<lambda>t.
     Inr ((patch account)\<lparr>la_aggregateVersion := la_aggregateVersion account + 1, la_updatedAt := t\<rparr>))"

definition allowed_status :: "loyalty_status \<Rightarrow> loyalty_status list" where
  "allowed_status s = (case s of AccountPending \<Rightarrow> [AccountActive, AccountClosed]
     | AccountActive \<Rightarrow> [AccountSuspended, AccountClosed] | AccountSuspended \<Rightarrow> [AccountActive, AccountClosed]
     | AccountClosed \<Rightarrow> [])"

definition transitionLoyaltyAccount :: "loyalty_account \<Rightarrow> js \<Rightarrow> loyalty_account res" where
  "transitionLoyaltyAccount account v =
     bnd (throw_if (fld v ''expectedVersion'' \<noteq> JNum (la_aggregateVersion account)) profile_conflict) (\<lambda>_.
     bnd (customerReference (fld v ''actorReference'')) (\<lambda>_.
     bnd (customerInstant (fld v ''occurredAt'')) (\<lambda>t.
     bnd (throw_if (str_less t (la_updatedAt account)) profile_conflict) (\<lambda>_.
     bnd (points_code (fld v ''reasonCode'')) (\<lambda>_.
     bnd (or_throw (enum_of loyalty_statuses (fld v ''targetStatus'')) profile_conflict) (\<lambda>target.
     bnd (throw_if (target \<notin> set (allowed_status (la_status account)) \<or>
                    target = AccountClosed \<and> list_ex (\<lambda>r. pr_status r = Reserved) (la_reservations account))
            profile_conflict) (\<lambda>_.
     evolve account (\<lambda>a. a\<lparr>la_status := target\<rparr>) (fld v ''occurredAt''))))))))"

section \<open>Points operations\<close>

record points_input =
  pi_expectedVersion :: js
  pi_transactionReference :: js
  pi_type :: js
  pi_points :: js
  pi_sourceType :: js
  pi_sourceReference :: js
  pi_ruleVersionReference :: js
  pi_occurredAt :: js
  pi_effectiveAt :: js
  pi_expiryAt :: js
  pi_idempotencyReference :: js
  pi_originalTransactionReference :: js
  pi_reservationReference :: js
  pi_redemptionRequestReference :: js
  pi_targetReference :: js
  pi_actorReference :: js
  pi_reasonCode :: js

text \<open>The local variables of the operation: the six balances and the copied list of reservations.\<close>

record points_state =
  ps_pending :: int
  ps_available :: int
  ps_reserved :: int
  ps_lifetime :: int
  ps_debt :: int
  ps_expiring :: int
  ps_reservations :: "points_reservation list"

definition account_points :: "loyalty_account \<Rightarrow> points_state" where
  "account_points a = \<lparr>ps_pending = la_pendingPoints a, ps_available = la_availablePoints a,
     ps_reserved = la_reservedPoints a, ps_lifetime = la_lifetimeEarnedPoints a, ps_debt = la_pointsDebt a,
     ps_expiring = la_expiringPoints a, ps_reservations = la_reservations a\<rparr>"

text \<open>Points that become available pay a debt first.\<close>

definition pay_in :: "int \<Rightarrow> points_state \<Rightarrow> points_state" where
  "pay_in points s =
     (let paid = min points (ps_debt s)
      in s\<lparr>ps_debt := ps_debt s - paid, ps_available := ps_available s + (points - paid)\<rparr>)"

definition open_reservation :: "string option \<Rightarrow> points_state \<Rightarrow> (nat \<times> points_reservation) option" where
  "open_reservation ref s =
     map_option (\<lambda>i. (i, ps_reservations s ! i))
       (first_index (\<lambda>r. Some (pr_reservationReference r) = ref \<and> pr_status r = Reserved) (ps_reservations s))"

definition add_reservation :: "points_reservation \<Rightarrow> points_state \<Rightarrow> points_state" where
  "add_reservation r s =
     s\<lparr>ps_available := ps_available s - pr_points r, ps_reserved := ps_reserved s + pr_points r,
       ps_reservations := ps_reservations s @ [r]\<rparr>"

definition reserve_points :: "points_input \<Rightarrow> int \<Rightarrow> string \<Rightarrow> string option \<Rightarrow> points_state \<Rightarrow> points_state res" where
  "reserve_points i points occurredAt ref s =
     bnd (throw_if (ref = None \<or> pi_redemptionRequestReference i = JNull \<or> pi_targetReference i = JNull \<or>
                    pi_expiryAt i = JNull \<or> ps_available s < points \<or> 100 \<le> length (ps_reservations s) \<or>
                    list_ex (\<lambda>r. JStr (pr_redemptionRequestReference r) = pi_redemptionRequestReference i \<or>
                                 Some (pr_reservationReference r) = ref) (ps_reservations s)) profile_invalid) (\<lambda>_.
     bnd (customerInstant (pi_expiryAt i)) (\<lambda>expiryAt.
     bnd (throw_if (\<not> str_less occurredAt expiryAt) profile_invalid) (\<lambda>_.
     bnd (customerReference (pi_redemptionRequestReference i)) (\<lambda>request.
     bnd (customerReference (pi_targetReference i)) (\<lambda>target.
     Inr (add_reservation
       \<lparr>pr_reservationReference = the ref, pr_redemptionRequestReference = request, pr_targetReference = target,
         pr_points = points, pr_expiresAt = expiryAt, pr_status = Reserved\<rparr> s))))))"

definition close_reservation :: "nat \<Rightarrow> points_reservation \<Rightarrow> reservation_status \<Rightarrow> points_state \<Rightarrow> points_state" where
  "close_reservation index r status s =
     s\<lparr>ps_reserved := ps_reserved s - pr_points r, ps_reservations := (ps_reservations s)[index := r\<lparr>pr_status := status\<rparr>]\<rparr>"

definition settle_reservation ::
  "bool \<Rightarrow> int \<Rightarrow> string \<Rightarrow> string option \<Rightarrow> points_state \<Rightarrow> points_state res" where
  "settle_reservation release points occurredAt ref s =
     bnd (throw_if (ref = None) profile_invalid) (\<lambda>_.
     bnd (or_throw (open_reservation ref s) profile_invalid) (\<lambda>(index, r).
     bnd (throw_if (pr_points r \<noteq> points) profile_invalid) (\<lambda>_.
     bnd (throw_if (release \<and> \<not> str_less occurredAt (pr_expiresAt r)) profile_conflict) (\<lambda>_.
     Inr (let s' = close_reservation index r (if release then Released else Redeemed) s
          in if release then s'\<lparr>ps_available := ps_available s' + points\<rparr> else s')))))"

definition reverse_points :: "int \<Rightarrow> points_state \<Rightarrow> points_state" where
  "reverse_points points s =
     (if points \<le> ps_pending s then s\<lparr>ps_pending := ps_pending s - points\<rparr>
      else let remainder = points - ps_pending s; removed = min (ps_available s) remainder
           in s\<lparr>ps_pending := 0, ps_available := ps_available s - removed,
                ps_debt := ps_debt s + (remainder - removed)\<rparr>)"

definition expire_points ::
  "int \<Rightarrow> string \<Rightarrow> string option \<Rightarrow> points_state \<Rightarrow> points_state res" where
  "expire_points points occurredAt ref s =
     (if ref \<noteq> None
      then bnd (or_throw (open_reservation ref s) profile_invalid) (\<lambda>(index, r).
           bnd (throw_if (pr_points r \<noteq> points \<or> str_less occurredAt (pr_expiresAt r)) profile_invalid) (\<lambda>_.
           Inr (close_reservation index r Released s)))
      else bnd (throw_if (ps_available s < points) profile_invalid) (\<lambda>_.
           Inr (s\<lparr>ps_available := ps_available s - points, ps_expiring := max 0 (ps_expiring s - points)\<rparr>)))"

definition points_effect ::
  "points_type \<Rightarrow> points_input \<Rightarrow> int \<Rightarrow> string \<Rightarrow> string option \<Rightarrow> string option \<Rightarrow> points_state \<Rightarrow> points_state res" where
  "points_effect ty i points occurredAt original ref s =
     (case ty of
        Earn \<Rightarrow> Inr (s\<lparr>ps_pending := ps_pending s + points, ps_lifetime := ps_lifetime s + points\<rparr>)
      | Activate \<Rightarrow>
          bnd (throw_if (original = None \<or> ps_pending s < points) profile_invalid) (\<lambda>_.
          Inr (pay_in points (s\<lparr>ps_pending := ps_pending s - points\<rparr>)))
      | Reserve \<Rightarrow> reserve_points i points occurredAt ref s
      | Release \<Rightarrow> settle_reservation True points occurredAt ref s
      | Redeem \<Rightarrow> settle_reservation False points occurredAt ref s
      | Reverse \<Rightarrow> bnd (throw_if (original = None) profile_invalid) (\<lambda>_. Inr (reverse_points points s))
      | Adjust \<Rightarrow>
          bnd (throw_if (original = None \<or> pi_sourceType i \<noteq> JStr ''AuthorizedCorrection'') profile_invalid) (\<lambda>_.
          Inr (pay_in points s))
      | ExpirePoints \<Rightarrow>
          bnd (throw_if (original = None) profile_invalid) (\<lambda>_. expire_points points occurredAt ref s))"

definition points_safe :: "points_state \<Rightarrow> bool" where
  "points_safe s \<longleftrightarrow> list_all (\<lambda>v. 0 \<le> v \<and> v \<le> max_safe)
     [ps_pending s, ps_available s, ps_reserved s, ps_lifetime s, ps_debt s, ps_expiring s]"

definition new_transaction ::
  "loyalty_account \<Rightarrow> points_input \<Rightarrow> points_type \<Rightarrow> int \<Rightarrow> string \<Rightarrow> string \<Rightarrow> string option \<Rightarrow> string option \<Rightarrow>
   points_transaction res" where
  "new_transaction account i ty points occurredAt effectiveAt original ref =
     bnd (customerReference (pi_transactionReference i)) (\<lambda>transaction.
     bnd (customerReference (pi_sourceReference i)) (\<lambda>source.
     bnd (customerReference (pi_ruleVersionReference i)) (\<lambda>rule.
     bnd (nullable customerInstant (pi_expiryAt i)) (\<lambda>expiryAt.
     bnd (customerReference (pi_idempotencyReference i)) (\<lambda>idempotency.
     bnd (customerReference (pi_actorReference i)) (\<lambda>actor.
     bnd (points_code (pi_reasonCode i)) (\<lambda>reason.
     Inr \<lparr>pt_transactionReference = transaction, pt_accountReference = la_accountReference account, pt_type = ty,
       pt_points = points, pt_sourceType = pi_sourceType i, pt_sourceReference = source,
       pt_programVersionReference = la_programVersionReference account, pt_ruleVersionReference = rule,
       pt_occurredAt = occurredAt, pt_effectiveAt = effectiveAt, pt_expiryAt = expiryAt,
       pt_idempotencyReference = idempotency, pt_originalTransactionReference = original,
       pt_reservationReference = ref, pt_actorReference = actor, pt_reasonCode = reason\<rparr>)))))))"

definition store_points :: "points_state \<Rightarrow> loyalty_account \<Rightarrow> loyalty_account" where
  "store_points s a = a\<lparr>la_pendingPoints := ps_pending s, la_availablePoints := ps_available s,
     la_reservedPoints := ps_reserved s, la_lifetimeEarnedPoints := ps_lifetime s, la_pointsDebt := ps_debt s,
     la_expiringPoints := ps_expiring s, la_reservations := slice_last 100 (ps_reservations s)\<rparr>"

definition applyPointsOperation :: "loyalty_account \<Rightarrow> points_input \<Rightarrow> (loyalty_account \<times> points_transaction) res" where
  "applyPointsOperation account i =
     bnd (throw_if (pi_expectedVersion i \<noteq> JNum (la_aggregateVersion account) \<or> la_status account \<noteq> AccountActive)
            profile_conflict) (\<lambda>_.
     bnd (points_integer (pi_points i) 1) (\<lambda>points.
     bnd (customerInstant (pi_occurredAt i)) (\<lambda>occurredAt.
     bnd (customerInstant (pi_effectiveAt i)) (\<lambda>effectiveAt.
     bnd (throw_if (str_less effectiveAt occurredAt \<or> str_less occurredAt (la_updatedAt account)) profile_invalid) (\<lambda>_.
     bnd (nullable customerReference (pi_originalTransactionReference i)) (\<lambda>original.
     bnd (nullable customerReference (pi_reservationReference i)) (\<lambda>ref.
     bnd (or_throw (enum_of points_types (pi_type i)) profile_invalid) (\<lambda>ty.
     bnd (points_effect ty i points occurredAt original ref (account_points account)) (\<lambda>s.
     bnd (throw_if (\<not> points_safe s) profile_invalid) (\<lambda>_.
     bnd (new_transaction account i ty points occurredAt effectiveAt original ref) (\<lambda>transaction.
     bnd (evolve account (store_points s) (JStr occurredAt)) (\<lambda>account'.
     Inr (account', transaction)))))))))))))"

section \<open>Valid accounts\<close>

definition held :: "points_reservation list \<Rightarrow> points_reservation list" where
  "held rs = filter (\<lambda>r. pr_status r = Reserved) rs"

definition valid_points :: "points_state \<Rightarrow> bool" where
  "valid_points s \<longleftrightarrow> points_safe s \<and> ps_reserved s = sum_list (map pr_points (held (ps_reservations s))) \<and>
     distinct (map pr_reservationReference (ps_reservations s)) \<and>
     list_all (\<lambda>r. 1 \<le> pr_points r) (ps_reservations s) \<and> length (ps_reservations s) \<le> 100"

definition valid_account :: "loyalty_account \<Rightarrow> bool" where
  "valid_account a \<longleftrightarrow> valid_points (account_points a)"

lemma customer_parse_Inr [res_simps]:
  "customerReference v = Inr s \<longleftrightarrow> v = JStr s \<and> uuid_v7 s"
  "points_code v = Inr s \<longleftrightarrow> v = JStr s \<and> code_format ''_'' s"
  "points_integer v least = Inr n \<longleftrightarrow> v = JNum n \<and> - max_safe \<le> n \<and> n \<le> max_safe \<and> least \<le> n"
  by (auto simp: customerReference_def points_code_def points_integer_def res_simps)

lemma canonical_date_to_iso: "canonical_instant s \<Longrightarrow> date_to_iso (date_parse s) = Inr s"
  using date_to_iso_time [OF iso_time_ms_of] by (simp add: date_parse_canonical to_iso_ms_of)

lemma customerInstant_Inr [res_simps]: "customerInstant v = Inr s \<longleftrightarrow> v = JStr s \<and> canonical_instant s"
proof
  assume "customerInstant v = Inr s"
  then have v: "v = JStr s" and f: "instant_format s" and i: "date_to_iso (date_parse s) = Inr s"
    by (auto simp: customerInstant_def res_simps)
  from i have "canonical_instant s"
    by (auto simp: date_to_iso_def canonical_instant_def split: option.splits if_splits)
  with v show "v = JStr s \<and> canonical_instant s" by simp
next
  assume "v = JStr s \<and> canonical_instant s"
  then show "customerInstant v = Inr s"
    by (simp add: customerInstant_def canonical_instant_format canonical_date_to_iso)
qed

interpretation points_ref: codec customerReference JStr uuid_v7
  by (rule string_codec) (simp add: customer_parse_Inr)

interpretation points_instant: codec customerInstant JStr canonical_instant
  by (rule string_codec) (simp add: customerInstant_Inr)

lemma account_points_store [simp]:
  "length (ps_reservations s) \<le> 100 \<Longrightarrow> account_points (store_points s a) = s"
  by (simp add: account_points_def store_points_def)

section \<open>The ledger\<close>

text \<open>
  What the transactions alone say of an account: its net balance, the points it ever earned, and the points
  held by each reservation that is still open.
\<close>

record points_book =
  pb_net :: int
  pb_earned :: int
  pb_held :: "string \<Rightarrow> int option"

definition points_book_of :: "points_state \<Rightarrow> points_book" where
  "points_book_of s =
     \<lparr>pb_net = ps_pending s + ps_available s + ps_reserved s - ps_debt s, pb_earned = ps_lifetime s,
      pb_held = map_of (map (\<lambda>r. (pr_reservationReference r, pr_points r)) (held (ps_reservations s)))\<rparr>"

text \<open>What a transaction adds to the net balance.\<close>

definition signed_points :: "points_transaction \<Rightarrow> int" where
  "signed_points t =
     (case pt_type t of Earn \<Rightarrow> pt_points t | Adjust \<Rightarrow> pt_points t
      | Redeem \<Rightarrow> - pt_points t | Reverse \<Rightarrow> - pt_points t | ExpirePoints \<Rightarrow> - pt_points t | _ \<Rightarrow> 0)"

datatype account_event = Posted points_transaction | StatusSet loyalty_status

definition held_after :: "points_transaction \<Rightarrow> (string \<Rightarrow> int option) \<Rightarrow> (string \<Rightarrow> int option) option" where
  "held_after t h =
     (case (pt_type t, pt_reservationReference t) of
        (Reserve, Some r) \<Rightarrow> if h r = None then Some (h(r \<mapsto> pt_points t)) else None
      | (Release, Some r) \<Rightarrow> if h r = Some (pt_points t) then Some (h(r := None)) else None
      | (Redeem, Some r) \<Rightarrow> if h r = Some (pt_points t) then Some (h(r := None)) else None
      | (ExpirePoints, Some r) \<Rightarrow> if h r = Some (pt_points t) then Some (h(r := None)) else None
      | (Reserve, None) \<Rightarrow> None | (Release, None) \<Rightarrow> None | (Redeem, None) \<Rightarrow> None
      | _ \<Rightarrow> Some h)"

fun post_event :: "account_event \<Rightarrow> points_book \<Rightarrow> points_book option" where
  "post_event (Posted t) b =
     map_option (\<lambda>h. \<lparr>pb_net = pb_net b + signed_points t,
         pb_earned = pb_earned b + (if pt_type t = Earn then pt_points t else 0), pb_held = h\<rparr>)
       (held_after t (pb_held b))"
| "post_event (StatusSet s) b = (if s = AccountClosed \<and> pb_held b \<noteq> Map.empty then None else Some b)"

section \<open>Reservations\<close>

lemma held_simps [simp]:
  "held [] = []" "held (rs @ rs') = held rs @ held rs'"
  "held (r # rs) = (if pr_status r = Reserved then r # held rs else held rs)"
  by (simp_all add: held_def)

lemma held_keys: "pr_reservationReference r \<notin> pr_reservationReference ` set rs \<Longrightarrow>
    map_of (map (\<lambda>r. (pr_reservationReference r, pr_points r)) (held rs)) (pr_reservationReference r) = None"
  by (auto simp: held_def map_of_eq_None_iff image_iff)

lemma sum_held_nonneg: "list_all (\<lambda>r. 1 \<le> pr_points r) rs \<Longrightarrow> 0 \<le> sum_list (map pr_points (held rs))"
  by (induction rs) auto

lemma open_reservation_Some:
  assumes "open_reservation ref s = Some (i, r)"
  obtains us vs where "ps_reservations s = us @ r # vs" "length us = i" "ref = Some (pr_reservationReference r)"
    "pr_status r = Reserved"
proof -
  from assms obtain us x vs where "ps_reservations s = us @ x # vs" "length us = i" "ref = Some (pr_reservationReference x)"
    "pr_status x = Reserved" "r = x"
    by (auto simp: open_reservation_def dest!: first_index_Some)
  with that show thesis by blast
qed

text \<open>Closing an open reservation takes its points out of the held ones and changes nothing else.\<close>

lemma close_reservation_effect:
  assumes r: "open_reservation ref s = Some (i, r)" and v: "valid_points s" and st: "status \<noteq> Reserved"
  defines "s' \<equiv> close_reservation i r status s"
  shows "ps_reserved s' = sum_list (map pr_points (held (ps_reservations s')))" "0 \<le> ps_reserved s'"
    "distinct (map pr_reservationReference (ps_reservations s'))" "list_all (\<lambda>r. 1 \<le> pr_points r) (ps_reservations s')"
    "length (ps_reservations s') = length (ps_reservations s)" "ref = Some (pr_reservationReference r)"
    "pb_held (points_book_of s) (pr_reservationReference r) = Some (pr_points r)"
    "pb_held (points_book_of s') = (pb_held (points_book_of s))(pr_reservationReference r := None)"
    "ps_pending s' = ps_pending s" "ps_available s' = ps_available s" "ps_reserved s' = ps_reserved s - pr_points r"
    "ps_lifetime s' = ps_lifetime s" "ps_debt s' = ps_debt s" "ps_expiring s' = ps_expiring s" "1 \<le> pr_points r"
proof -
  from r obtain us vs where xs: "ps_reservations s = us @ r # vs" "length us = i" and ref: "ref = Some (pr_reservationReference r)"
    and held: "pr_status r = Reserved" by (rule open_reservation_Some)
  have up: "ps_reservations s' = us @ r\<lparr>pr_status := status\<rparr> # vs"
    using xs by (simp add: s'_def close_reservation_def list_update_append)
  from v xs have d: "pr_reservationReference r \<notin> pr_reservationReference ` set us" "pr_reservationReference r \<notin> pr_reservationReference ` set vs"
    by (auto simp: valid_points_def)
  from v show "ps_reserved s' = sum_list (map pr_points (held (ps_reservations s')))"
    using held st by (simp add: valid_points_def up xs) (simp add: s'_def close_reservation_def)
  moreover have "list_all (\<lambda>r. 1 \<le> pr_points r) (ps_reservations s')" using v by (simp add: up valid_points_def xs)
  ultimately show "0 \<le> ps_reserved s'" "list_all (\<lambda>r. 1 \<le> pr_points r) (ps_reservations s')"
    by (simp_all add: sum_held_nonneg)
  show "distinct (map pr_reservationReference (ps_reservations s'))" "length (ps_reservations s') = length (ps_reservations s)"
    using v by (simp_all add: up valid_points_def xs)
  show "pb_held (points_book_of s) (pr_reservationReference r) = Some (pr_points r)"
    using held held_keys [OF d(1)] by (simp add: points_book_of_def xs map_add_def)
  show "pb_held (points_book_of s') = (pb_held (points_book_of s))(pr_reservationReference r := None)"
    using held st held_keys [OF d(1)] held_keys [OF d(2)]
    by (auto simp: points_book_of_def xs up map_add_def fun_eq_iff split: option.splits)
  show "1 \<le> pr_points r" using v by (simp add: valid_points_def xs)
  show "ref = Some (pr_reservationReference r)" by (rule ref)
qed (simp_all add: s'_def close_reservation_def)

section \<open>Every operation follows its ledger entry\<close>

lemma reserve_effect:
  assumes "reserve_points i p t ref s = Inr s'" and v: "valid_points s" and "1 \<le> p"
  obtains r where "ref = Some r" "pb_held (points_book_of s) r = None"
    "pb_held (points_book_of s') = (pb_held (points_book_of s))(r \<mapsto> p)"
    "pb_net (points_book_of s') = pb_net (points_book_of s)" "ps_lifetime s' = ps_lifetime s"
    "points_safe s' \<longrightarrow> valid_points s'"
proof -
  from assms(1) obtain u req target e where
    c: "throw_if (ref = None \<or> pi_redemptionRequestReference i = JNull \<or> pi_targetReference i = JNull \<or>
          pi_expiryAt i = JNull \<or> ps_available s < p \<or> 100 \<le> length (ps_reservations s) \<or>
          list_ex (\<lambda>r. JStr (pr_redemptionRequestReference r) = pi_redemptionRequestReference i \<or>
                       Some (pr_reservationReference r) = ref) (ps_reservations s)) profile_invalid = Inr u" and
    s': "s' = add_reservation \<lparr>pr_reservationReference = the ref, pr_redemptionRequestReference = req,
         pr_targetReference = target, pr_points = p, pr_expiresAt = e, pr_status = Reserved\<rparr> s"
    unfolding reserve_points_def bnd_eq_Inr by (elim exE conjE) (drule Inr_inject, rule that, assumption, rule sym)
  define n where "n = \<lparr>pr_reservationReference = the ref, pr_redemptionRequestReference = req,
         pr_targetReference = target, pr_points = p, pr_expiresAt = e, pr_status = Reserved\<rparr>"
  from c have ref: "ref = Some (pr_reservationReference n)" and len: "length (ps_reservations s) < 100"
    and fresh: "pr_reservationReference n \<notin> pr_reservationReference ` set (ps_reservations s)"
    by (auto simp: throw_if_eq_Inr n_def list_ex_iff)
  have n: "pr_points n = p" "pr_status n = Reserved" by (simp_all add: n_def)
  note s' = s' [folded n_def]
  have none: "map_of (map (\<lambda>r. (pr_reservationReference r, pr_points r)) (held (ps_reservations s)))
      (pr_reservationReference n) = None" by (rule held_keys [OF fresh])
  show thesis
  proof (rule that [OF ref])
    show "pb_held (points_book_of s) (pr_reservationReference n) = None" using none by (simp add: points_book_of_def)
    show "pb_held (points_book_of s') = (pb_held (points_book_of s))(pr_reservationReference n \<mapsto> p)"
      using none n by (auto simp: points_book_of_def s' add_reservation_def map_add_def fun_eq_iff split: option.splits)
    show "points_safe s' \<longrightarrow> valid_points s'"
      using v fresh len n \<open>1 \<le> p\<close> by (auto simp: s' add_reservation_def valid_points_def)
  qed (simp_all add: s' points_book_of_def add_reservation_def)
qed

lemma pay_in_facts [simp]:
  "ps_pending (pay_in p s) = ps_pending s" "ps_reserved (pay_in p s) = ps_reserved s"
  "ps_lifetime (pay_in p s) = ps_lifetime s" "ps_reservations (pay_in p s) = ps_reservations s"
  "ps_available (pay_in p s) - ps_debt (pay_in p s) = ps_available s - ps_debt s + p"
  by (simp_all add: pay_in_def Let_def)

lemma pay_in_sum [simp]:
  "x + ps_available (pay_in p s) - ps_debt (pay_in p s) = x + ps_available s - ps_debt s + p"
  by (simp add: pay_in_def Let_def)

lemma reverse_facts [simp]:
  "ps_reserved (reverse_points p s) = ps_reserved s"
  "ps_lifetime (reverse_points p s) = ps_lifetime s" "ps_reservations (reverse_points p s) = ps_reservations s"
  "ps_pending (reverse_points p s) + ps_available (reverse_points p s) - ps_debt (reverse_points p s) =
     ps_pending s + ps_available s - ps_debt s - p"
  by (simp_all add: reverse_points_def Let_def)

lemma book_eqI:
  "pb_net b = pb_net c \<Longrightarrow> pb_earned b = pb_earned c \<Longrightarrow> pb_held b = pb_held c \<Longrightarrow> b = (c :: points_book)"
  by simp

lemma closed_book:
  assumes r: "open_reservation ref s = Some (j, r)" and v: "valid_points s" and st: "status \<noteq> Reserved"
    and a: "s' = (close_reservation j r status s)\<lparr>ps_available := ps_available s + back\<rparr>"
  shows "ref = Some (pr_reservationReference r)"
    "pb_held (points_book_of s) (pr_reservationReference r) = Some (pr_points r)"
    "points_book_of s' = \<lparr>pb_net = pb_net (points_book_of s) - pr_points r + back, pb_earned = pb_earned (points_book_of s),
       pb_held = (pb_held (points_book_of s))(pr_reservationReference r := None)\<rparr>"
    "points_safe s' \<longrightarrow> valid_points s'"
proof -
  note e = close_reservation_effect [OF r v st]
  show "ref = Some (pr_reservationReference r)"
    "pb_held (points_book_of s) (pr_reservationReference r) = Some (pr_points r)" by (rule e)+
  have "pb_held (points_book_of s') = pb_held (points_book_of (close_reservation j r status s))"
    by (simp add: a points_book_of_def)
  then show "points_book_of s' = \<lparr>pb_net = pb_net (points_book_of s) - pr_points r + back, pb_earned = pb_earned (points_book_of s),
       pb_held = (pb_held (points_book_of s))(pr_reservationReference r := None)\<rparr>"
    using e by (intro book_eqI) (simp_all add: points_book_of_def a)
  show "points_safe s' \<longrightarrow> valid_points s'"
    using e v by (simp add: valid_points_def a)
qed

lemma close_back [simp]: "(close_reservation j r st s)\<lparr>ps_available := ps_available s + 0\<rparr> = close_reservation j r st s"
  by (simp add: close_reservation_def)

lemma released:
  assumes "settle_reservation True p t ref s = Inr s'"
  obtains j r where "open_reservation ref s = Some (j, r)" "pr_points r = p"
    "s' = (close_reservation j r Released s)\<lparr>ps_available := ps_available s + p\<rparr>"
  using assms unfolding settle_reservation_def
  by (fastforce simp: bnd_eq_Inr or_throw_Inr throw_if_eq_Inr Let_def close_reservation_def)

lemma redeemed:
  assumes "settle_reservation False p t ref s = Inr s'"
  obtains j r where "open_reservation ref s = Some (j, r)" "pr_points r = p"
    "s' = (close_reservation j r Redeemed s)\<lparr>ps_available := ps_available s + 0\<rparr>"
  using assms unfolding settle_reservation_def close_back
  by (fastforce simp: bnd_eq_Inr or_throw_Inr throw_if_eq_Inr Let_def)

lemma expired:
  assumes "expire_points p t (Some x) s = Inr s'"
  obtains j r where "open_reservation (Some x) s = Some (j, r)" "pr_points r = p"
    "s' = (close_reservation j r Released s)\<lparr>ps_available := ps_available s + 0\<rparr>"
  using assms unfolding expire_points_def close_back
  by (fastforce simp: bnd_eq_Inr or_throw_Inr throw_if_eq_Inr)

text \<open>Operations that leave the reservations alone.\<close>

lemma balances_only:
  assumes "valid_points s" "points_safe s'" "ps_reservations s' = ps_reservations s" "ps_reserved s' = ps_reserved s"
    and "ps_lifetime s' = ps_lifetime s" "held_after x = Some" "pt_type x \<noteq> Earn"
    and "ps_pending s' + ps_available s' - ps_debt s' = ps_pending s + ps_available s - ps_debt s + signed_points x"
  shows "valid_points s' \<and> post_event (Posted x) (points_book_of s) = Some (points_book_of s')"
  using assms by (simp add: valid_points_def points_book_of_def fun_eq_iff)

lemma points_effect_book:
  assumes e: "points_effect ty i p t original ref s = Inr s'" and v: "valid_points s" and safe: "points_safe s'" and p: "1 \<le> p"
    and tx: "pt_type x = ty" "pt_points x = p" "pt_reservationReference x = ref"
  shows "valid_points s'" "post_event (Posted x) (points_book_of s) = Some (points_book_of s')"
proof -
  have "valid_points s' \<and> post_event (Posted x) (points_book_of s) = Some (points_book_of s')"
  proof (cases ty)
    case Reserve
    with e have "reserve_points i p t ref s = Inr s'" by (simp add: points_effect_def)
    then obtain r where r: "ref = Some r" "pb_held (points_book_of s) r = None"
      "pb_held (points_book_of s') = (pb_held (points_book_of s))(r \<mapsto> p)"
      "pb_net (points_book_of s') = pb_net (points_book_of s)" "ps_lifetime s' = ps_lifetime s"
      "points_safe s' \<longrightarrow> valid_points s'" using v p by (rule reserve_effect)
    then have "pb_earned (points_book_of s') = pb_earned (points_book_of s)" by (simp add: points_book_of_def)
    with r safe tx Reserve show ?thesis by (auto simp: held_after_def signed_points_def intro!: book_eqI)
  next
    case Release
    with e have "settle_reservation True p t ref s = Inr s'" by (simp add: points_effect_def)
    then obtain j r where r: "open_reservation ref s = Some (j, r)" "pr_points r = p"
      and s': "s' = (close_reservation j r Released s)\<lparr>ps_available := ps_available s + p\<rparr>"
      by (rule released)
    show ?thesis using closed_book [OF r(1) v _ s'] safe tx Release r(2)
      by (simp add: held_after_def signed_points_def)
  next
    case Redeem
    with e have "settle_reservation False p t ref s = Inr s'" by (simp add: points_effect_def)
    then obtain j r where r: "open_reservation ref s = Some (j, r)" "pr_points r = p"
      and s': "s' = (close_reservation j r Redeemed s)\<lparr>ps_available := ps_available s + 0\<rparr>"
      by (rule redeemed)
    show ?thesis using closed_book [OF r(1) v _ s'] safe tx Redeem r(2)
      by (simp add: held_after_def signed_points_def)
  next
    case ExpirePoints
    show ?thesis
    proof (cases ref)
      case None
      with e ExpirePoints have "s' = s\<lparr>ps_available := ps_available s - p, ps_expiring := max 0 (ps_expiring s - p)\<rparr>"
        by (auto simp: points_effect_def expire_points_def bnd_eq_Inr throw_if_eq_Inr)
      with v safe tx ExpirePoints None show ?thesis
        by (simp add: valid_points_def held_after_def signed_points_def points_book_of_def)
    next
      case (Some rr)
      with e ExpirePoints have "expire_points p t ref s = Inr s'" by (auto simp: points_effect_def bnd_eq_Inr)
      then obtain j r where r: "open_reservation ref s = Some (j, r)" "pr_points r = p"
        and s': "s' = (close_reservation j r Released s)\<lparr>ps_available := ps_available s + 0\<rparr>"
        using Some by (auto elim!: expired)
      show ?thesis using closed_book [OF r(1) v _ s'] safe tx ExpirePoints r(2)
        by (simp add: held_after_def signed_points_def)
    qed
  next
    case Activate
    with e have s': "s' = pay_in p (s\<lparr>ps_pending := ps_pending s - p\<rparr>)"
      by (auto simp: points_effect_def bnd_eq_Inr throw_if_eq_Inr)
    show ?thesis
      by (rule balances_only [OF v safe]) (use tx Activate in \<open>simp_all add: s' held_after_def signed_points_def fun_eq_iff\<close>)
  next
    case Reverse
    with e have s': "s' = reverse_points p s" by (auto simp: points_effect_def bnd_eq_Inr throw_if_eq_Inr)
    show ?thesis
      by (rule balances_only [OF v safe]) (use tx Reverse in \<open>simp_all add: s' held_after_def signed_points_def fun_eq_iff\<close>)
  next
    case Adjust
    with e have s': "s' = pay_in p s" by (auto simp: points_effect_def bnd_eq_Inr throw_if_eq_Inr)
    show ?thesis
      by (rule balances_only [OF v safe]) (use tx Adjust in \<open>simp_all add: s' held_after_def signed_points_def fun_eq_iff\<close>)
  next
    case Earn
    with e v safe tx show ?thesis
      by (auto simp: points_effect_def valid_points_def held_after_def signed_points_def points_book_of_def)
  qed
  then show "valid_points s'" "post_event (Posted x) (points_book_of s) = Some (points_book_of s')" by blast+
qed

section \<open>Runs of an account\<close>

inductive account_step :: "loyalty_account \<Rightarrow> account_event \<Rightarrow> loyalty_account \<Rightarrow> bool" where
  operation: "applyPointsOperation a i = Inr (b, t) \<Longrightarrow> account_step a (Posted t) b"
| transition: "transitionLoyaltyAccount a v = Inr b \<Longrightarrow> account_step a (StatusSet (la_status b)) b"

inductive_cases account_stepE: "account_step a e b"

definition account_book :: "loyalty_account \<Rightarrow> points_book" where
  "account_book a = points_book_of (account_points a)"

lemma account_points_evolve [simp]:
  "account_points (a\<lparr>la_aggregateVersion := v, la_updatedAt := t\<rparr>) = account_points a"
  "account_points (a\<lparr>la_status := s\<rparr>) = account_points a"
  by (simp_all add: account_points_def)

lemma apply_Inr:
  assumes "applyPointsOperation a i = Inr (b, t)"
  obtains s where "la_status a = AccountActive" "pi_expectedVersion i = JNum (la_aggregateVersion a)"
    "enum_of points_types (pi_type i) = Some (pt_type t)" "pi_points i = JNum (pt_points t)" "1 \<le> pt_points t"
    "points_effect (pt_type t) i (pt_points t) (pt_occurredAt t) (pt_originalTransactionReference t)
       (pt_reservationReference t) (account_points a) = Inr s" "points_safe s"
    "b = (store_points s a)\<lparr>la_aggregateVersion := la_aggregateVersion a + 1, la_updatedAt := pt_occurredAt t\<rparr>"
    "\<not> str_less (pt_occurredAt t) (la_updatedAt a)" "pt_accountReference t = la_accountReference a"
  using assms unfolding applyPointsOperation_def bnd_eq_Inr
  by (elim exE conjE) (drule Inr_inject, elim Pair_inject, hypsubst, rule that,
    auto simp: throw_if_eq_Inr new_transaction_def evolve_def bnd_eq_Inr customer_parse_Inr customerInstant_Inr or_throw_Inr)

lemma transition_status_Inr:
  assumes "transitionLoyaltyAccount a v = Inr b"
  shows "account_points b = account_points a" "la_aggregateVersion b = la_aggregateVersion a + 1"
    "la_status b \<in> set (allowed_status (la_status a))" "la_status b = AccountClosed \<Longrightarrow> held (la_reservations a) = []"
  using assms by (auto simp: transitionLoyaltyAccount_def evolve_def bnd_eq_Inr or_throw_Inr throw_if_eq_Inr
      list_ex_iff held_def filter_empty_conv)

lemma operation_effect:
  assumes "applyPointsOperation a i = Inr (b, t)" and "valid_account a"
  shows "valid_account b" "post_event (Posted t) (account_book a) = Some (account_book b)"
proof -
  from assms(1) obtain s where e: "points_effect (pt_type t) i (pt_points t) (pt_occurredAt t)
      (pt_originalTransactionReference t) (pt_reservationReference t) (account_points a) = Inr s"
    "points_safe s" "1 \<le> pt_points t" and
    b: "b = (store_points s a)\<lparr>la_aggregateVersion := la_aggregateVersion a + 1, la_updatedAt := pt_occurredAt t\<rparr>"
    by (rule apply_Inr)
  note s = points_effect_book [OF e(1) assms(2) [unfolded valid_account_def] e(2,3) refl refl refl]
  then have "account_points b = s" by (simp add: b valid_points_def)
  with s show "valid_account b" "post_event (Posted t) (account_book a) = Some (account_book b)"
    by (simp_all add: valid_account_def account_book_def)
qed

interpretation loyalty: ledger account_step post_event valid_account account_book
proof
  fix a e b
  assume "account_step a e b" and v: "valid_account a"
  then have "valid_account b \<and> post_event e (account_book a) = Some (account_book b)"
  proof (cases rule: account_step.cases)
    case (operation i t)
    with operation_effect v show ?thesis by blast
  next
    case (transition w)
    note t = transition_status_Inr [OF transition(2)]
    then have "la_status b = AccountClosed \<Longrightarrow> pb_held (account_book a) = Map.empty"
      by (simp add: account_book_def points_book_of_def account_points_def)
    with v t(1) transition(1) show ?thesis by (auto simp: valid_account_def account_book_def)
  qed
  then show "valid_account b" "post_event e (account_book a) = Some (account_book b)" by blast+
qed

definition event_points :: "account_event \<Rightarrow> int" where
  "event_points e = (case e of Posted t \<Rightarrow> signed_points t | StatusSet s \<Rightarrow> 0)"

lemma posts_net: "posts post_event es b = Some c \<Longrightarrow> pb_net c = pb_net b + sum_list (map event_points es)"
proof (induction es arbitrary: b)
  case (Cons e es)
  from Cons.prems obtain d where d: "post_event e b = Some d" "posts post_event es d = Some c"
    by (auto split: option.splits)
  from d(1) have "pb_net d = pb_net b + event_points e"
    by (cases e) (auto simp: event_points_def split: if_splits)
  with Cons.IH [OF d(2)] show ?case by simp
qed simp

lemma run_version:
  "runs account_step a es b \<Longrightarrow> la_aggregateVersion b = la_aggregateVersion a + int (length es)"
proof (induction rule: runs.induct)
  case (go a e b es c)
  from go(1) have "la_aggregateVersion b = la_aggregateVersion a + 1"
    by (rule account_stepE) (auto dest: transition_status_Inr elim!: apply_Inr)
  with go(3) show ?case by simp
qed simp

definition empty_book :: points_book where
  "empty_book = \<lparr>pb_net = 0, pb_earned = 0, pb_held = Map.empty\<rparr>"

lemma created_account:
  assumes "createLoyaltyAccount v = Inr a"
  shows "valid_account a" "account_book a = empty_book" "la_aggregateVersion a = 1" "la_reservations a = []"
  using assms by (auto simp: createLoyaltyAccount_def bnd_eq_Inr valid_account_def valid_points_def points_safe_def
      account_points_def account_book_def points_book_of_def empty_book_def max_safe_def)

section \<open>Properties\<close>

text \<open>
  C31. The ledger determines the account: for every account that was created and then changed by any sequence
  of points operations and status changes, posting the transactions that were returned to an empty book
  gives exactly the net balance (pending plus available plus reserved points less the debt), the points ever
  earned and the open reservations with their points. In particular the net balance is the signed sum of
  the transactions, no reservation is settled twice or with other points than it holds, the reserved points
  are those of the open reservations, and no balance is ever negative or beyond the safe integers.
\<close>

theorem loyalty_follows_ledger:
  assumes "createLoyaltyAccount v = Inr a" and "runs account_step a es b"
  shows "posts post_event es empty_book = Some (account_book b) \<and>
    la_pendingPoints b + la_availablePoints b + la_reservedPoints b - la_pointsDebt b = sum_list (map event_points es) \<and>
    la_reservedPoints b = sum_list (map pr_points (filter (\<lambda>r. pr_status r = Reserved) (la_reservations b))) \<and>
    points_safe (account_points b) \<and> la_aggregateVersion b = 1 + int (length es)"
proof -
  note a = created_account [OF assms(1)]
  from loyalty.run_posts [OF assms(2) a(1)] a(2) have p: "posts post_event es empty_book = Some (account_book b)" by simp
  from loyalty.valid_after [OF assms(2) a(1)] have v: "valid_account b" .
  from posts_net [OF p] have "pb_net (account_book b) = sum_list (map event_points es)" by (simp add: empty_book_def)
  then have "la_pendingPoints b + la_availablePoints b + la_reservedPoints b - la_pointsDebt b = sum_list (map event_points es)"
    by (simp add: account_book_def points_book_of_def account_points_def)
  moreover from v have "points_safe (account_points b)"
    "la_reservedPoints b = sum_list (map pr_points (filter (\<lambda>r. pr_status r = Reserved) (la_reservations b)))"
    by (simp_all add: valid_account_def valid_points_def) (simp add: account_points_def held_def)
  ultimately show ?thesis using p run_version [OF assms(2)] a(3) by simp
qed

definition example_loyalty_input :: js where
  "example_loyalty_input = JObj
     [(''accountReference'', JStr ''01890000-0000-7000-8000-000000000201''),
      (''tenantReference'', JStr ''01890000-0000-7000-8000-000000000202''),
      (''brandReference'', JStr ''01890000-0000-7000-8000-000000000203''),
      (''customerProfileReference'', JStr ''01890000-0000-7000-8000-000000000204''),
      (''programReference'', JStr ''01890000-0000-7000-8000-000000000205''),
      (''programVersionReference'', JStr ''01890000-0000-7000-8000-000000000206''),
      (''actorReference'', JStr ''01890000-0000-7000-8000-000000000207''),
      (''occurredAt'', JStr ''2026-06-01T12:00:00.000Z'')]"

definition example_loyalty :: loyalty_account where
  "example_loyalty =
     \<lparr>la_accountReference = ''01890000-0000-7000-8000-000000000201'',
      la_tenantReference = ''01890000-0000-7000-8000-000000000202'',
      la_brandReference = ''01890000-0000-7000-8000-000000000203'',
      la_customerProfileReference = ''01890000-0000-7000-8000-000000000204'',
      la_programReference = ''01890000-0000-7000-8000-000000000205'',
      la_programVersionReference = ''01890000-0000-7000-8000-000000000206'',
      la_status = AccountPending, la_tierCode = None, la_pendingPoints = 0, la_availablePoints = 0,
      la_reservedPoints = 0, la_lifetimeEarnedPoints = 0, la_pointsDebt = 0, la_expiringPoints = 0,
      la_reservations = [], la_aggregateVersion = 1, la_createdAt = ''2026-06-01T12:00:00.000Z'',
      la_updatedAt = ''2026-06-01T12:00:00.000Z''\<rparr>"

definition example_activation :: js where
  "example_activation = JObj
     [(''expectedVersion'', JNum 1), (''targetStatus'', JStr ''Active''),
      (''actorReference'', JStr ''01890000-0000-7000-8000-000000000207''), (''reasonCode'', JStr ''VERIFIED''),
      (''occurredAt'', JStr ''2026-06-01T12:00:00.000Z'')]"

definition active_loyalty :: loyalty_account where
  "active_loyalty = example_loyalty\<lparr>la_status := AccountActive, la_aggregateVersion := 2\<rparr>"

definition points_request :: "int \<Rightarrow> string \<Rightarrow> int \<Rightarrow> js \<Rightarrow> points_input" where
  "points_request version ty points reservation =
     \<lparr>pi_expectedVersion = JNum version, pi_transactionReference = JStr ''01890000-0000-7000-8000-000000000211'',
      pi_type = JStr ty, pi_points = JNum points, pi_sourceType = JStr ''Order'',
      pi_sourceReference = JStr ''01890000-0000-7000-8000-000000000212'',
      pi_ruleVersionReference = JStr ''01890000-0000-7000-8000-000000000213'',
      pi_occurredAt = JStr ''2026-06-01T12:00:00.000Z'', pi_effectiveAt = JStr ''2026-06-01T12:00:00.000Z'',
      pi_expiryAt = JStr ''2026-06-02T12:00:00.000Z'',
      pi_idempotencyReference = JStr ''01890000-0000-7000-8000-000000000214'',
      pi_originalTransactionReference = JStr ''01890000-0000-7000-8000-000000000215'',
      pi_reservationReference = reservation,
      pi_redemptionRequestReference = JStr ''01890000-0000-7000-8000-000000000216'',
      pi_targetReference = JStr ''01890000-0000-7000-8000-000000000217'',
      pi_actorReference = JStr ''01890000-0000-7000-8000-000000000207'', pi_reasonCode = JStr ''PURCHASE''\<rparr>"

definition points_receipt :: "points_type \<Rightarrow> int \<Rightarrow> string option \<Rightarrow> points_transaction" where
  "points_receipt ty points reservation =
     \<lparr>pt_transactionReference = ''01890000-0000-7000-8000-000000000211'',
      pt_accountReference = ''01890000-0000-7000-8000-000000000201'', pt_type = ty, pt_points = points,
      pt_sourceType = JStr ''Order'', pt_sourceReference = ''01890000-0000-7000-8000-000000000212'',
      pt_programVersionReference = ''01890000-0000-7000-8000-000000000206'',
      pt_ruleVersionReference = ''01890000-0000-7000-8000-000000000213'',
      pt_occurredAt = ''2026-06-01T12:00:00.000Z'', pt_effectiveAt = ''2026-06-01T12:00:00.000Z'',
      pt_expiryAt = Some ''2026-06-02T12:00:00.000Z'',
      pt_idempotencyReference = ''01890000-0000-7000-8000-000000000214'',
      pt_originalTransactionReference = Some ''01890000-0000-7000-8000-000000000215'',
      pt_reservationReference = reservation, pt_actorReference = ''01890000-0000-7000-8000-000000000207'',
      pt_reasonCode = ''PURCHASE''\<rparr>"

lemma example_loyalty_formats:
  "uuid_v7 ''01890000-0000-7000-8000-000000000201''" "uuid_v7 ''01890000-0000-7000-8000-000000000202''"
  "uuid_v7 ''01890000-0000-7000-8000-000000000203''" "uuid_v7 ''01890000-0000-7000-8000-000000000204''"
  "uuid_v7 ''01890000-0000-7000-8000-000000000205''" "uuid_v7 ''01890000-0000-7000-8000-000000000206''"
  "uuid_v7 ''01890000-0000-7000-8000-000000000207''" "uuid_v7 ''01890000-0000-7000-8000-000000000211''"
  "uuid_v7 ''01890000-0000-7000-8000-000000000212''" "uuid_v7 ''01890000-0000-7000-8000-000000000213''"
  "uuid_v7 ''01890000-0000-7000-8000-000000000214''" "uuid_v7 ''01890000-0000-7000-8000-000000000215''"
  "uuid_v7 ''01890000-0000-7000-8000-000000000216''" "uuid_v7 ''01890000-0000-7000-8000-000000000217''"
  "uuid_v7 ''01890000-0000-7000-8000-000000000221''"
  "canonical_instant ''2026-06-01T12:00:00.000Z''" "canonical_instant ''2026-06-02T12:00:00.000Z''"
  "code_format ''_'' ''PURCHASE''" "code_format ''_'' ''VERIFIED''"
  "str_less ''2026-06-01T12:00:00.000Z'' ''2026-06-02T12:00:00.000Z''"
  by code_simp+

lemma example_customer_values:
  "uuid_v7 s \<Longrightarrow> customerReference (JStr s) = Inr s" "canonical_instant s \<Longrightarrow> customerInstant (JStr s) = Inr s"
  "code_format ''_'' s \<Longrightarrow> points_code (JStr s) = Inr s"
  by (simp_all add: customer_parse_Inr customerInstant_Inr)

text \<open>A request of the example, on an account whose effect is known.\<close>

lemma example_operation:
  assumes "points_effect ty (points_request v name p (js_opt JStr ref)) p ''2026-06-01T12:00:00.000Z''
      (Some ''01890000-0000-7000-8000-000000000215'') ref (account_points a) = Inr s" and "points_safe s"
    and "enum_of points_types (JStr name) = Some ty" and "1 \<le> p" "p \<le> max_safe" and "pred_option uuid_v7 ref"
    and "la_aggregateVersion a = v" "la_status a = AccountActive" "la_updatedAt a = ''2026-06-01T12:00:00.000Z''"
    and "la_accountReference a = ''01890000-0000-7000-8000-000000000201''"
    and "la_programVersionReference a = ''01890000-0000-7000-8000-000000000206''"
  shows "applyPointsOperation a (points_request v name p (js_opt JStr ref)) =
    Inr ((store_points s a)\<lparr>la_aggregateVersion := v + 1, la_updatedAt := ''2026-06-01T12:00:00.000Z''\<rparr>,
      points_receipt ty p ref)"
proof -
  have "nullable customerReference (js_opt JStr ref) = Inr ref"
    using assms(6) by (rule points_ref.nullable_parse_print)
  with assms show ?thesis
    by (simp add: applyPointsOperation_def points_request_def points_integer_def max_safe_def nullable_def evolve_def
        new_transaction_def points_receipt_def example_customer_values example_loyalty_formats)
qed

definition earned_loyalty :: loyalty_account where
  "earned_loyalty = active_loyalty\<lparr>la_pendingPoints := 50, la_lifetimeEarnedPoints := 50, la_aggregateVersion := 3\<rparr>"

definition spendable_loyalty :: loyalty_account where
  "spendable_loyalty = earned_loyalty\<lparr>la_pendingPoints := 0, la_availablePoints := 50, la_aggregateVersion := 4\<rparr>"

definition example_reservation :: points_reservation where
  "example_reservation = \<lparr>pr_reservationReference = ''01890000-0000-7000-8000-000000000221'',
     pr_redemptionRequestReference = ''01890000-0000-7000-8000-000000000216'',
     pr_targetReference = ''01890000-0000-7000-8000-000000000217'', pr_points = 20,
     pr_expiresAt = ''2026-06-02T12:00:00.000Z'', pr_status = Reserved\<rparr>"

definition reserved_loyalty :: loyalty_account where
  "reserved_loyalty = spendable_loyalty\<lparr>la_availablePoints := 30, la_reservedPoints := 20,
     la_reservations := [example_reservation], la_aggregateVersion := 5\<rparr>"

definition redeemed_loyalty :: loyalty_account where
  "redeemed_loyalty = reserved_loyalty\<lparr>la_reservedPoints := 0,
     la_reservations := [example_reservation\<lparr>pr_status := Redeemed\<rparr>], la_aggregateVersion := 6\<rparr>"

lemmas example_loyalty_defs = redeemed_loyalty_def reserved_loyalty_def spendable_loyalty_def earned_loyalty_def
  active_loyalty_def example_loyalty_def

lemma points_type_names [simp]:
  "enum_of points_types (JStr ''Earn'') = Some Earn" "enum_of points_types (JStr ''Activate'') = Some Activate"
  "enum_of points_types (JStr ''Reserve'') = Some Reserve" "enum_of points_types (JStr ''Release'') = Some Release"
  "enum_of points_types (JStr ''Redeem'') = Some Redeem" "enum_of points_types (JStr ''Expire'') = Some ExpirePoints"
  by (simp_all add: enum_of_def points_types_def)

lemma example_created: "createLoyaltyAccount example_loyalty_input = Inr example_loyalty"
  by (simp add: createLoyaltyAccount_def example_loyalty_input_def example_customer_values example_loyalty_formats
      example_loyalty_def)

lemma example_activated: "account_step example_loyalty (StatusSet AccountActive) active_loyalty"
proof -
  have "transitionLoyaltyAccount example_loyalty example_activation = Inr active_loyalty"
    by (simp add: transitionLoyaltyAccount_def example_activation_def example_loyalty_def active_loyalty_def
        example_customer_values example_loyalty_formats enum_of_def loyalty_statuses_def allowed_status_def evolve_def)
  from account_step.transition [OF this] show ?thesis by (simp add: active_loyalty_def)
qed

lemma example_earn_applied: "applyPointsOperation active_loyalty (points_request 2 ''Earn'' 50 JNull) =
    Inr (earned_loyalty, points_receipt Earn 50 None)"
proof -
  have "points_effect Earn (points_request 2 ''Earn'' 50 (js_opt JStr None)) 50 ''2026-06-01T12:00:00.000Z''
      (Some ''01890000-0000-7000-8000-000000000215'') None (account_points active_loyalty) =
      Inr (account_points earned_loyalty)"
    by (simp add: points_effect_def account_points_def example_loyalty_defs)
  from example_operation [OF this] show ?thesis
    by (simp add: example_loyalty_defs points_safe_def account_points_def store_points_def max_safe_def)
qed

lemma example_earned: "account_step active_loyalty (Posted (points_receipt Earn 50 None)) earned_loyalty"
  by (rule account_step.operation [OF example_earn_applied])

lemma example_spendable: "account_step earned_loyalty (Posted (points_receipt Activate 50 None)) spendable_loyalty"
proof -
  have "points_effect Activate (points_request 3 ''Activate'' 50 (js_opt JStr None)) 50 ''2026-06-01T12:00:00.000Z''
      (Some ''01890000-0000-7000-8000-000000000215'') None (account_points earned_loyalty) =
      Inr (account_points spendable_loyalty)"
    by (simp add: points_effect_def account_points_def example_loyalty_defs pay_in_def)
  from example_operation [OF this] show ?thesis
    by (intro account_step.operation) (simp add: example_loyalty_defs points_safe_def account_points_def store_points_def max_safe_def)
qed

lemma example_reserved:
  "account_step spendable_loyalty (Posted (points_receipt Reserve 20 (Some ''01890000-0000-7000-8000-000000000221'')))
     reserved_loyalty"
proof -
  have "points_effect Reserve (points_request 4 ''Reserve'' 20 (js_opt JStr (Some ''01890000-0000-7000-8000-000000000221''))) 20
      ''2026-06-01T12:00:00.000Z'' (Some ''01890000-0000-7000-8000-000000000215'')
      (Some ''01890000-0000-7000-8000-000000000221'') (account_points spendable_loyalty) =
      Inr (account_points reserved_loyalty)"
    by (simp add: points_effect_def reserve_points_def points_request_def account_points_def example_loyalty_defs
        add_reservation_def example_reservation_def example_customer_values example_loyalty_formats)
  from example_operation [OF this] show ?thesis
    by (intro account_step.operation) (simp add: example_loyalty_defs points_safe_def account_points_def
        store_points_def max_safe_def example_loyalty_formats)
qed

lemma example_redeemed:
  "account_step reserved_loyalty (Posted (points_receipt Redeem 20 (Some ''01890000-0000-7000-8000-000000000221'')))
     redeemed_loyalty"
proof -
  have "points_effect Redeem (points_request 5 ''Redeem'' 20 (js_opt JStr (Some ''01890000-0000-7000-8000-000000000221''))) 20
      ''2026-06-01T12:00:00.000Z'' (Some ''01890000-0000-7000-8000-000000000215'')
      (Some ''01890000-0000-7000-8000-000000000221'') (account_points reserved_loyalty) =
      Inr (account_points redeemed_loyalty)"
    by (simp add: points_effect_def settle_reservation_def open_reservation_def close_reservation_def account_points_def
        example_loyalty_defs example_reservation_def)
  from example_operation [OF this] show ?thesis
    by (intro account_step.operation) (simp add: example_loyalty_defs points_safe_def account_points_def
        store_points_def max_safe_def example_loyalty_formats)
qed

definition example_events_posted :: "account_event list" where
  "example_events_posted = [StatusSet AccountActive, Posted (points_receipt Earn 50 None),
     Posted (points_receipt Activate 50 None),
     Posted (points_receipt Reserve 20 (Some ''01890000-0000-7000-8000-000000000221'')),
     Posted (points_receipt Redeem 20 (Some ''01890000-0000-7000-8000-000000000221''))]"

lemma example_loyalty_run: "runs account_step example_loyalty example_events_posted redeemed_loyalty"
  unfolding example_events_posted_def
  by (rule runs.go [where step = account_step], rule example_activated, rule runs.go [where step = account_step],
      rule example_earned, rule runs.go [where step = account_step], rule example_spendable,
      rule runs.go [where step = account_step], rule example_reserved, rule runs.go [where step = account_step],
      rule example_redeemed, rule runs.stop)

theorem loyalty_follows_ledger_witness:
  "posts post_event example_events_posted empty_book = Some (account_book redeemed_loyalty) \<and>
   la_availablePoints redeemed_loyalty = 30 \<and> sum_list (map event_points example_events_posted) = 30"
  using loyalty_follows_ledger [OF example_created example_loyalty_run]
  by (simp add: example_loyalty_defs example_events_posted_def event_points_def signed_points_def points_receipt_def)

text \<open>An input that asks to close a given reservation of an account and is otherwise in order.\<close>

definition closing_input :: "loyalty_account \<Rightarrow> points_reservation \<Rightarrow> string \<Rightarrow> string \<Rightarrow> points_input \<Rightarrow> bool" where
  "closing_input a r ty t i \<longleftrightarrow>
     pi_expectedVersion i = JNum (la_aggregateVersion a) \<and> pi_type i = JStr ty \<and> pi_points i = JNum (pr_points r) \<and>
     pi_reservationReference i = JStr (pr_reservationReference r) \<and> pi_occurredAt i = JStr t \<and>
     pi_effectiveAt i = JStr t \<and> canonical_instant t \<and> \<not> str_less t (la_updatedAt a) \<and>
     uuid_v7 (pr_reservationReference r) \<and>
     (\<exists>x. customerReference (pi_transactionReference i) = Inr x) \<and>
     (\<exists>x. customerReference (pi_sourceReference i) = Inr x) \<and>
     (\<exists>x. customerReference (pi_ruleVersionReference i) = Inr x) \<and>
     (\<exists>x. nullable customerInstant (pi_expiryAt i) = Inr x) \<and>
     (\<exists>x. customerReference (pi_idempotencyReference i) = Inr x) \<and>
     (\<exists>x. customerReference (pi_originalTransactionReference i) = Inr x) \<and>
     (\<exists>x. customerReference (pi_actorReference i) = Inr x) \<and> (\<exists>x. points_code (pi_reasonCode i) = Inr x)"

definition closes :: "loyalty_account \<Rightarrow> points_input \<Rightarrow> bool" where
  "closes a i \<longleftrightarrow> (\<exists>b x. applyPointsOperation a i = Inr (b, x))"

lemma first_index_member: "x \<in> set xs \<Longrightarrow> p x \<Longrightarrow> \<exists>j. first_index p xs = Some j"
  using first_index_None [of p xs] by (cases "first_index p xs") (auto simp: list_all_iff)

lemma open_reservation_of:
  assumes v: "valid_points s" and r: "r \<in> set (ps_reservations s)" "pr_status r = Reserved"
  shows "\<exists>j. open_reservation (Some (pr_reservationReference r)) s = Some (j, r)"
proof -
  from r obtain j where j: "first_index (\<lambda>q. Some (pr_reservationReference q) = Some (pr_reservationReference r) \<and>
      pr_status q = Reserved) (ps_reservations s) = Some j"
    using first_index_member [of r "ps_reservations s"] by fastforce
  then obtain us q vs where q: "ps_reservations s = us @ q # vs" "length us = j"
    "pr_reservationReference q = pr_reservationReference r" by (auto dest!: first_index_Some)
  with v r have "q = r" unfolding valid_points_def
    by (metis (no_types, lifting) distinct_map in_set_conv_decomp inj_on_eq_iff)
  with q(1) q(2) [symmetric] j show ?thesis by (simp add: open_reservation_def)
qed

lemma closing_returns:
  assumes a: "valid_account a" "la_status a = AccountActive" and i: "closing_input a r ty t i"
    and ty: "enum_of points_types (JStr ty) = Some ty'"
  shows "closes a i \<longleftrightarrow> (\<exists>s o'. customerReference (pi_originalTransactionReference i) = Inr o' \<and>
    points_effect ty' i (pr_points r) t (Some o') (Some (pr_reservationReference r)) (account_points a) = Inr s \<and>
    points_safe s \<and> 1 \<le> pr_points r \<and> pr_points r \<le> max_safe)"
proof -
  from i obtain o' where o': "customerReference (pi_originalTransactionReference i) = Inr o'" by (auto simp: closing_input_def)
  then have o'': "nullable customerReference (pi_originalTransactionReference i) = Inr (Some o')"
    by (auto simp: nullable_def bnd_eq_Inr customer_parse_Inr)
  from i have ref: "nullable customerReference (pi_reservationReference i) = Inr (Some (pr_reservationReference r))"
    by (simp add: closing_input_def nullable_def bnd_eq_Inr customer_parse_Inr)
  from i have "\<exists>x. new_transaction a i ty' (pr_points r) t t (Some o') (Some (pr_reservationReference r)) = Inr x"
    by (auto simp: closing_input_def new_transaction_def)
  with i a(2) ty o'' o' ref show ?thesis
    by (auto simp: closes_def closing_input_def applyPointsOperation_def customerInstant_Inr
        customer_parse_Inr bnd_eq_Inr throw_if_eq_Inr or_throw_Inr evolve_def)
qed

text \<open>
  C32. Reserved points are never stuck: at any time, an open reservation of an active account can be redeemed;
  it can be released exactly before its expiry (as long as the points fit the available balance) and it can
  be expired exactly from its expiry on. So between any two of its transitions every open reservation has a
  way out, and never both release and expiry.
\<close>

theorem reservation_can_close:
  assumes "valid_account a" and "la_status a = AccountActive" and "r \<in> set (la_reservations a)"
    and "pr_status r = Reserved" and "closing_input a r ''Redeem'' t redeem"
    and "closing_input a r ''Release'' t release" and "closing_input a r ''Expire'' t expire"
    and "la_availablePoints a + pr_points r \<le> max_safe"
  shows "closes a redeem \<and> (closes a release \<longleftrightarrow> str_less t (pr_expiresAt r)) \<and>
    (closes a expire \<longleftrightarrow> \<not> str_less t (pr_expiresAt r))"
proof -
  have v: "valid_points (account_points a)" using assms(1) by (simp add: valid_account_def)
  have "r \<in> set (ps_reservations (account_points a))" using assms(3) by (simp add: account_points_def)
  from open_reservation_of [OF v this assms(4)] obtain j where
    j: "open_reservation (Some (pr_reservationReference r)) (account_points a) = Some (j, r)" by blast
  have av: "ps_available (account_points a) = la_availablePoints a" by (simp add: account_points_def)
  have e: "points_safe (close_reservation j r st (account_points a)) \<and>
      points_safe ((close_reservation j r st (account_points a))\<lparr>ps_available :=
        ps_available (close_reservation j r st (account_points a)) + pr_points r\<rparr>) \<and>
      1 \<le> pr_points r \<and> pr_points r \<le> max_safe" if st: "st \<noteq> Reserved" for st
  proof -
    note c = close_reservation_effect [OF j v st]
    have s: "points_safe (account_points a)" using v by (simp add: valid_points_def)
    then have "0 \<le> ps_reserved (account_points a) - pr_points r" "ps_reserved (account_points a) \<le> max_safe"
      using c(2) by (simp_all add: c(11) points_safe_def)
    with s c(15) assms(8) show ?thesis
      by (simp add: points_safe_def c(9-14) av)
  qed
  have o': "\<exists>o'. customerReference (pi_originalTransactionReference i) = Inr o'" if "closing_input a r ty t i" for i ty
    using that by (simp add: closing_input_def)
  have "closes a redeem" using o' [OF assms(5)] e [of Redeemed]
    by (simp add: closing_returns [OF assms(1,2,5)] points_effect_def settle_reservation_def j)
  moreover have "closes a release \<longleftrightarrow> str_less t (pr_expiresAt r)" using o' [OF assms(6)] e [of Released]
    by (simp add: closing_returns [OF assms(1,2,6)] points_effect_def settle_reservation_def j bnd_eq_Inr throw_if_eq_Inr Let_def)
  moreover have "closes a expire \<longleftrightarrow> \<not> str_less t (pr_expiresAt r)" using o' [OF assms(7)] e [of Released]
    by (simp add: closing_returns [OF assms(1,2,7)] points_effect_def expire_points_def j bnd_eq_Inr throw_if_eq_Inr)
  ultimately show ?thesis by blast
qed

lemma reserved_loyalty_valid: "valid_account reserved_loyalty"
  by (simp add: valid_account_def valid_points_def points_safe_def account_points_def example_loyalty_defs
      example_reservation_def max_safe_def)

lemma example_closing: "closing_input reserved_loyalty example_reservation ty ''2026-06-01T12:00:00.000Z''
    (points_request 5 ty 20 (JStr ''01890000-0000-7000-8000-000000000221''))"
  by (simp add: closing_input_def points_request_def example_reservation_def nullable_def example_customer_values
      example_loyalty_formats) (simp add: example_loyalty_defs)

theorem reservation_can_close_witness:
  "closes reserved_loyalty (points_request 5 ''Redeem'' 20 (JStr ''01890000-0000-7000-8000-000000000221'')) \<and>
   closes reserved_loyalty (points_request 5 ''Release'' 20 (JStr ''01890000-0000-7000-8000-000000000221'')) \<and>
   \<not> closes reserved_loyalty (points_request 5 ''Expire'' 20 (JStr ''01890000-0000-7000-8000-000000000221''))"
proof -
  have "la_status reserved_loyalty = AccountActive" "example_reservation \<in> set (la_reservations reserved_loyalty)"
    "pr_status example_reservation = Reserved" "la_availablePoints reserved_loyalty + pr_points example_reservation \<le> max_safe"
    "str_less ''2026-06-01T12:00:00.000Z'' (pr_expiresAt example_reservation)"
    by (simp_all add: example_loyalty_formats example_loyalty_defs example_reservation_def max_safe_def)
  with reservation_can_close [OF reserved_loyalty_valid _ _ _ example_closing example_closing example_closing]
  show ?thesis by blast
qed

section \<open>The limit of a hundred reservations\<close>

lemma effect_reservation_count:
  assumes "points_effect ty i p t original ref s = Inr s'"
  shows "length (ps_reservations s) \<le> length (ps_reservations s')"
  using assms
  by (cases ty) (auto simp: points_effect_def reserve_points_def settle_reservation_def expire_points_def add_reservation_def
      close_reservation_def bnd_eq_Inr Let_def split: if_splits)

lemma reservations_never_leave:
  "runs account_step a es b \<Longrightarrow> valid_account a \<Longrightarrow> length (la_reservations a) \<le> length (la_reservations b)"
proof (induction rule: runs.induct)
  case (go a e b es c)
  have v: "valid_account b" by (rule loyalty.step_valid [OF go(1,4)])
  from go(1) have "length (la_reservations a) \<le> length (la_reservations b)"
  proof (cases rule: account_step.cases)
    case (operation i t)
    from operation(2) obtain s where "points_effect (pt_type t) i (pt_points t) (pt_occurredAt t)
      (pt_originalTransactionReference t) (pt_reservationReference t) (account_points a) = Inr s" "points_safe s" "1 \<le> pt_points t"
      "b = (store_points s a)\<lparr>la_aggregateVersion := la_aggregateVersion a + 1, la_updatedAt := pt_occurredAt t\<rparr>"
      by (rule apply_Inr)
    with points_effect_book(1) [OF this(1) go(4) [unfolded valid_account_def] this(2,3) refl refl refl]
      effect_reservation_count [OF this(1)]
    show ?thesis by (simp add: store_points_def account_points_def valid_points_def)
  next
    case (transition w)
    from transition_status_Inr(1) [OF transition(2)] show ?thesis by (simp add: account_points_def)
  qed
  with go(3) [OF v] show ?case by simp
qed simp

text \<open>
  C33. The limit of a hundred reservations is for life: once an account has had a hundred of them, settled or
  not, no sequence of operations makes room again, and every later request to reserve points fails.
\<close>

theorem reservation_limit_is_for_life:
  assumes "valid_account a" and "100 \<le> length (la_reservations a)" and "runs account_step a es b"
    and "pi_type i = JStr ''Reserve''"
  shows "\<exists>e. applyPointsOperation b i = Inl e"
proof (rule ccontr)
  assume "\<nexists>e. applyPointsOperation b i = Inl e"
  then obtain c t where "applyPointsOperation b i = Inr (c, t)" by (metis sum.exhaust prod.exhaust)
  then obtain s where "enum_of points_types (pi_type i) = Some (pt_type t)"
    "points_effect (pt_type t) i (pt_points t) (pt_occurredAt t) (pt_originalTransactionReference t)
       (pt_reservationReference t) (account_points b) = Inr s" by (rule apply_Inr)
  with assms(4) have "length (la_reservations b) < 100"
    by (auto simp: points_effect_def reserve_points_def bnd_eq_Inr throw_if_eq_Inr account_points_def)
  with reservations_never_leave [OF assms(3,1)] assms(2) show False by simp
qed

definition spent_reservations :: "nat \<Rightarrow> points_reservation list" where
  "spent_reservations n = map (\<lambda>k. example_reservation\<lparr>pr_reservationReference := nat_str k, pr_status := Redeemed\<rparr>) [0..<n]"

theorem reservation_limit_is_for_life_witness:
  "\<exists>e. applyPointsOperation (spendable_loyalty\<lparr>la_reservations := spent_reservations 100\<rparr>)
     (points_request 4 ''Reserve'' 20 (JStr ''01890000-0000-7000-8000-000000000221'')) = Inl e"
proof (rule reservation_limit_is_for_life [OF _ _ runs.stop])
  have "inj nat_str" by (rule injI) (metis dec_val_nat_str of_nat_eq_iff)
  then have "distinct (map pr_reservationReference (spent_reservations 100))"
    by (auto simp: spent_reservations_def comp_def distinct_map intro: inj_on_subset)
  moreover have "held (spent_reservations 100) = []" "list_all (\<lambda>r. 1 \<le> pr_points r) (spent_reservations 100)"
    by (simp_all add: held_def spent_reservations_def filter_empty_conv list_all_iff example_reservation_def)
  moreover have "length (spent_reservations 100) = 100" by (simp add: spent_reservations_def)
  ultimately show "valid_account (spendable_loyalty\<lparr>la_reservations := spent_reservations 100\<rparr>)"
    "100 \<le> length (la_reservations (spendable_loyalty\<lparr>la_reservations := spent_reservations 100\<rparr>))"
    by (simp_all add: valid_account_def valid_points_def points_safe_def account_points_def example_loyalty_defs max_safe_def)
qed (simp add: points_request_def)

end
