(* ===== verification/LoyaltyService.thy ===== *)
theory LoyaltyService
  imports LoyaltyAccount
begin

text \<open>
  Points commands and queries: \<open>packages/rms/customer-loyalty/src/application/loyalty-account-service.ts\<close>, and
  the exceptions of \<open>domain/loyalty-account.ts\<close> that a review works off. Ports are arguments; a rejected
  promise is an error value, which these handlers pass on unchanged.
\<close>

section \<open>Points exceptions\<close>

datatype points_exception_type = DuplicateEarn | FailedEarn | RefundReversal | ExpiredReservation | NegativeMismatch

datatype points_exception_status = ExceptionOpen | ExceptionAcknowledged | ExceptionResolved

record points_exception =
  px_exceptionReference :: string
  px_tenantReference :: string
  px_brandReference :: string
  px_accountReference :: string
  px_sourceReference :: string
  px_type :: points_exception_type
  px_status :: points_exception_status
  px_ownerReference :: "string option"
  px_dueAt :: string
  px_correctionTransactionReference :: "string option"
  px_aggregateVersion :: int
  px_createdAt :: string
  px_updatedAt :: string

definition points_exception_types :: "(string \<times> points_exception_type) list" where
  "points_exception_types = [(''DuplicateEarn'', DuplicateEarn), (''FailedEarn'', FailedEarn),
     (''RefundReversal'', RefundReversal), (''ExpiredReservation'', ExpiredReservation),
     (''NegativeMismatch'', NegativeMismatch)]"

definition createPointsException :: "js \<Rightarrow> points_exception res" where
  "createPointsException v =
     bnd (or_throw (enum_of points_exception_types (fld v ''type'')) profile_invalid) (\<lambda>ty.
     bnd (customerInstant (fld v ''occurredAt'')) (\<lambda>occurredAt.
     bnd (customerInstant (fld v ''dueAt'')) (\<lambda>dueAt.
     bnd (throw_if (\<not> str_less occurredAt dueAt) profile_invalid) (\<lambda>_.
     bnd (customerReference (fld v ''exceptionReference'')) (\<lambda>exception.
     bnd (customerReference (fld v ''tenantReference'')) (\<lambda>tenant.
     bnd (customerReference (fld v ''brandReference'')) (\<lambda>brand.
     bnd (customerReference (fld v ''accountReference'')) (\<lambda>account.
     bnd (customerReference (fld v ''sourceReference'')) (\<lambda>source.
     Inr \<lparr>px_exceptionReference = exception, px_tenantReference = tenant, px_brandReference = brand,
       px_accountReference = account, px_sourceReference = source, px_type = ty, px_status = ExceptionOpen,
       px_ownerReference = None, px_dueAt = dueAt, px_correctionTransactionReference = None,
       px_aggregateVersion = 1, px_createdAt = occurredAt, px_updatedAt = occurredAt\<rparr>)))))))))"

definition acknowledgePointsException :: "points_exception \<Rightarrow> js \<Rightarrow> points_exception res" where
  "acknowledgePointsException x v =
     bnd (throw_if (fld v ''expectedVersion'' \<noteq> JNum (px_aggregateVersion x) \<or> px_status x \<noteq> ExceptionOpen)
            profile_conflict) (\<lambda>_.
     bnd (customerReference (fld v ''ownerReference'')) (\<lambda>owner.
     bnd (customerInstant (fld v ''occurredAt'')) (\<lambda>t.
     Inr (x\<lparr>px_status := ExceptionAcknowledged, px_ownerReference := Some owner,
       px_aggregateVersion := px_aggregateVersion x + 1, px_updatedAt := t\<rparr>))))"

text \<open>The actor is read only when version and status agree.\<close>

definition resolvePointsException :: "points_exception \<Rightarrow> js \<Rightarrow> points_exception res" where
  "resolvePointsException x v =
     bnd (throw_if (fld v ''expectedVersion'' \<noteq> JNum (px_aggregateVersion x) \<or> px_status x \<noteq> ExceptionAcknowledged)
            profile_conflict) (\<lambda>_.
     bnd (customerReference (fld v ''actorReference'')) (\<lambda>actor.
     bnd (throw_if (px_ownerReference x \<noteq> Some actor) profile_conflict) (\<lambda>_.
     bnd (customerReference (fld v ''correctionTransactionReference'')) (\<lambda>correction.
     bnd (customerInstant (fld v ''occurredAt'')) (\<lambda>t.
     Inr (x\<lparr>px_status := ExceptionResolved, px_correctionTransactionReference := Some correction,
       px_aggregateVersion := px_aggregateVersion x + 1, px_updatedAt := t\<rparr>))))))"

section \<open>Commands and ports\<close>

record points_command =
  pc_tenantReference :: string
  pc_brandReference :: string
  pc_actorReference :: string
  pc_purpose :: string
  pc_permission :: string
  pc_operationReference :: string
  pc_occurredAt :: string
  pc_accountReference :: string
  pc_input :: points_input

record points_access =
  ax_authorized :: bool
  ax_mayViewLedger :: bool
  ax_mayOperate :: bool
  ax_mayCorrect :: bool
  ax_mayReview :: bool

record points_source =
  xs_valid :: bool
  xs_sourceFactsMutated :: bool
  xs_points :: int
  xs_sourceReference :: string
  xs_programVersionReference :: string
  xs_ruleVersionReference :: string
  xs_originalTransactionReference :: "string option"

datatype points_outcome = PointsApplied | PointsAlreadyApplied

record points_record =
  xr_operationReference :: string
  xr_intentHash :: string
  xr_command :: points_command
  xr_before :: loyalty_account
  xr_after :: loyalty_account
  xr_transaction :: points_transaction
  xr_audit :: js
  xr_outcome :: points_outcome

text \<open>
  The text that is hashed has its keys sorted by the \<open>localeCompare\<close> of the host, \<open>lp_before\<close>;
  \<open>lp_hashIntent\<close> is the hash of the \<open>JSON.stringify\<close> of its argument.
\<close>

record points_ports =
  lp_authorize :: "points_command \<Rightarrow> points_access option res"
  lp_validate :: "points_command \<Rightarrow> points_source res"
  lp_load :: "string \<Rightarrow> string \<Rightarrow> string \<Rightarrow> loyalty_account option res"
  lp_resolveOperation :: "string \<Rightarrow> points_record option res"
  lp_commit :: "points_record \<Rightarrow> points_record res"
  lp_audit :: "points_command \<Rightarrow> loyalty_account \<Rightarrow> loyalty_account \<Rightarrow> js res"
  lp_hashIntent :: "js \<Rightarrow> string res"
  lp_equals :: "string \<Rightarrow> string \<Rightarrow> bool"
  lp_before :: "string \<Rightarrow> string \<Rightarrow> bool"

section \<open>The canonical form of a command\<close>

text \<open>A stable sort: an entry goes before the first one that is strictly after it.\<close>

fun insert_entry :: "(string \<Rightarrow> string \<Rightarrow> bool) \<Rightarrow> string \<times> 'v \<Rightarrow> (string \<times> 'v) list \<Rightarrow> (string \<times> 'v) list" where
  "insert_entry lt e [] = [e]"
| "insert_entry lt e (d # ds) = (if lt (fst d) (fst e) then d # insert_entry lt e ds else e # d # ds)"

definition sort_entries :: "(string \<Rightarrow> string \<Rightarrow> bool) \<Rightarrow> (string \<times> 'v) list \<Rightarrow> (string \<times> 'v) list" where
  "sort_entries lt es = foldr (insert_entry lt) es []"

fun canonical_js :: "(string \<Rightarrow> string \<Rightarrow> bool) \<Rightarrow> js \<Rightarrow> js" where
  "canonical_js lt (JArr vs) = JArr (map (canonical_js lt) vs)"
| "canonical_js lt (JObj ps) = JObj (sort_entries lt (map (\<lambda>(k, v). (k, canonical_js lt v)) ps))"
| "canonical_js lt v = v"

definition points_input_js :: "points_input \<Rightarrow> js" where
  "points_input_js i = JObj
     [(''expectedVersion'', pi_expectedVersion i), (''transactionReference'', pi_transactionReference i),
      (''type'', pi_type i), (''points'', pi_points i), (''sourceType'', pi_sourceType i),
      (''sourceReference'', pi_sourceReference i), (''ruleVersionReference'', pi_ruleVersionReference i),
      (''occurredAt'', pi_occurredAt i), (''effectiveAt'', pi_effectiveAt i), (''expiryAt'', pi_expiryAt i),
      (''idempotencyReference'', pi_idempotencyReference i),
      (''originalTransactionReference'', pi_originalTransactionReference i),
      (''reservationReference'', pi_reservationReference i),
      (''redemptionRequestReference'', pi_redemptionRequestReference i),
      (''targetReference'', pi_targetReference i), (''actorReference'', pi_actorReference i),
      (''reasonCode'', pi_reasonCode i)]"

definition points_command_js :: "points_command \<Rightarrow> js" where
  "points_command_js c = JObj
     [(''tenantReference'', JStr (pc_tenantReference c)), (''brandReference'', JStr (pc_brandReference c)),
      (''actorReference'', JStr (pc_actorReference c)), (''purpose'', JStr (pc_purpose c)),
      (''permission'', JStr (pc_permission c)), (''operationReference'', JStr (pc_operationReference c)),
      (''occurredAt'', JStr (pc_occurredAt c)), (''accountReference'', JStr (pc_accountReference c)),
      (''input'', points_input_js (pc_input c))]"

section \<open>The command handler\<close>

definition is_correction :: "points_command \<Rightarrow> bool" where
  "is_correction c \<longleftrightarrow> pi_type (pc_input c) = JStr ''Adjust'' \<or> pi_type (pc_input c) = JStr ''Reverse''"

definition required_permission :: "points_command \<Rightarrow> string" where
  "required_permission c = (if is_correction c then ''loyalty.points.correct'' else ''loyalty.points.operate'')"

definition may_execute :: "points_command \<Rightarrow> points_access option \<Rightarrow> bool" where
  "may_execute c access \<longleftrightarrow> (case access of None \<Rightarrow> False
     | Some x \<Rightarrow> ax_authorized x \<and> (if is_correction c then ax_mayCorrect x else ax_mayOperate x))"

definition source_proves :: "points_source \<Rightarrow> points_command \<Rightarrow> loyalty_account \<Rightarrow> bool" where
  "source_proves s c a \<longleftrightarrow>
     xs_valid s \<and> \<not> xs_sourceFactsMutated s \<and> JNum (xs_points s) = pi_points (pc_input c) \<and>
     JStr (xs_sourceReference s) = pi_sourceReference (pc_input c) \<and>
     xs_programVersionReference s = la_programVersionReference a \<and>
     JStr (xs_ruleVersionReference s) = pi_ruleVersionReference (pc_input c) \<and>
     js_opt JStr (xs_originalTransactionReference s) = pi_originalTransactionReference (pc_input c)"

definition points_denied :: err where
  "points_denied = profile_error CUSTOMER_PROFILE_PERMISSION_DENIED"

datatype points_plan = ReplayPoints points_record | CommitPoints points_record

definition plan_points :: "points_command \<Rightarrow> points_ports \<Rightarrow> points_plan res" where
  "plan_points c ports =
     bnd (throw_if (pc_purpose c \<noteq> ''LoyaltyAccountSupport'' \<or> pc_permission c \<noteq> required_permission c)
            points_denied) (\<lambda>_.
     bnd (lp_authorize ports c) (\<lambda>access.
     bnd (throw_if (\<not> may_execute c access) points_denied) (\<lambda>_.
     bnd (lp_hashIntent ports (canonical_js (lp_before ports) (points_command_js c))) (\<lambda>intent.
     bnd (lp_resolveOperation ports (pc_operationReference c)) (\<lambda>prior.
     case prior of
       Some r \<Rightarrow>
         bnd (throw_if (\<not> lp_equals ports (xr_intentHash r) intent)
                (profile_error CUSTOMER_PROFILE_IDEMPOTENCY_CONFLICT)) (\<lambda>_.
         Inr (ReplayPoints (r\<lparr>xr_outcome := PointsAlreadyApplied\<rparr>)))
     | None \<Rightarrow>
         bnd (lp_load ports (pc_tenantReference c) (pc_brandReference c) (pc_accountReference c)) (\<lambda>loaded.
         bnd (or_throw loaded profile_conflict) (\<lambda>before.
         bnd (throw_if (la_tenantReference before \<noteq> pc_tenantReference c \<or>
                        la_brandReference before \<noteq> pc_brandReference c) profile_conflict) (\<lambda>_.
         bnd (lp_validate ports c) (\<lambda>source.
         bnd (throw_if (\<not> source_proves source c before) (profile_error CUSTOMER_PROFILE_PROOF_REQUIRED)) (\<lambda>_.
         bnd (applyPointsOperation before ((pc_input c)\<lparr>pi_actorReference := JStr (pc_actorReference c),
                pi_occurredAt := JStr (pc_occurredAt c)\<rparr>)) (\<lambda>(account, transaction).
         bnd (lp_audit ports c before account) (\<lambda>audit.
         Inr (CommitPoints \<lparr>xr_operationReference = pc_operationReference c, xr_intentHash = intent, xr_command = c,
           xr_before = before, xr_after = account, xr_transaction = transaction, xr_audit = audit,
           xr_outcome = PointsApplied\<rparr>)))))))))))))"

definition executePointsCommand :: "points_command \<Rightarrow> points_ports \<Rightarrow> points_record res" where
  "executePointsCommand c ports =
     bnd (plan_points c ports) (\<lambda>p. case p of ReplayPoints r \<Rightarrow> Inr r | CommitPoints r \<Rightarrow> lp_commit ports r)"

section \<open>Queries\<close>

record loyalty_query =
  lq_tenantReference :: string
  lq_brandReference :: string
  lq_actorReference :: string
  lq_accountReference :: "string option"
  lq_orderReference :: "string option"
  lq_transactionTypes :: "points_type list"
  lq_fromUtc :: "string option"

record loyalty_view =
  lw_accountReference :: string
  lw_aggregateVersion :: int
  lw_status :: loyalty_status
  lw_programReference :: string
  lw_tierCode :: "string option"
  lw_pendingPoints :: int
  lw_availablePoints :: int
  lw_reservedPoints :: int
  lw_lifetimeEarnedPoints :: int
  lw_pointsDebt :: int
  lw_expiringPoints :: int
  lw_ledger :: "points_transaction list option"
  lw_rewardReferences :: "string list"
  lw_reservations :: "points_reservation list"
  lw_linkedAllocationReferences :: "string list"

record loyalty_projection =
  lj_projectionName :: string
  lj_projectionVersion :: int
  lj_tenantReference :: string
  lj_brandReference :: string
  lj_asOfUtc :: string
  lj_freshness :: string
  lj_partial :: bool
  lj_mayViewLedger :: bool
  lj_mayOperate :: bool
  lj_mayCorrect :: bool
  lj_account :: "loyalty_view option"

record points_exception_query =
  xq_tenantReference :: string
  xq_brandReference :: string
  xq_actorReference :: string
  xq_accountReference :: "string option"
  xq_orderReference :: "string option"
  xq_type :: "points_exception_type option"
  xq_status :: "points_exception_status option"
  xq_programReference :: "string option"
  xq_ownerReference :: "string option"
  xq_overdue :: "bool option"

record points_exception_projection =
  xj_projectionName :: string
  xj_projectionVersion :: int
  xj_tenantReference :: string
  xj_brandReference :: string
  xj_asOfUtc :: string
  xj_freshness :: string
  xj_partial :: bool
  xj_mayReview :: bool
  xj_mayCorrect :: bool
  xj_rows :: "points_exception list"

record loyalty_query_ports =
  qp_authorizeAccount :: "loyalty_query \<Rightarrow> points_access option res"
  qp_authorizeExceptions :: "points_exception_query \<Rightarrow> points_access option res"
  qp_account :: "loyalty_query \<Rightarrow> loyalty_projection res"
  qp_exceptions :: "points_exception_query \<Rightarrow> points_exception_projection res"

definition queryLoyaltyAccount :: "loyalty_query \<Rightarrow> loyalty_query_ports \<Rightarrow> loyalty_projection res" where
  "queryLoyaltyAccount q ports =
     bnd (qp_authorizeAccount ports q) (\<lambda>access.
     bnd (or_throw access points_denied) (\<lambda>granted.
     bnd (throw_if (\<not> ax_authorized granted) points_denied) (\<lambda>_.
     bnd (qp_account ports q) (\<lambda>result.
     bnd (throw_if (lj_projectionName result \<noteq> ''loyalty_account_v1'' \<or> lj_projectionVersion result \<noteq> 1 \<or>
                    lj_tenantReference result \<noteq> lq_tenantReference q \<or> lj_brandReference result \<noteq> lq_brandReference q \<or>
                    lq_accountReference q \<noteq> None \<and>
                      map_option lw_accountReference (lj_account result) \<noteq> lq_accountReference q)
            profile_invalid) (\<lambda>_.
     Inr (result\<lparr>lj_mayViewLedger := ax_mayViewLedger granted, lj_mayOperate := ax_mayOperate granted,
       lj_mayCorrect := ax_mayCorrect granted,
       lj_account := map_option (\<lambda>a. a\<lparr>lw_ledger := if ax_mayViewLedger granted then lw_ledger a else None\<rparr>)
         (lj_account result)\<rparr>))))))"

definition queryPointsExceptions :: "points_exception_query \<Rightarrow> loyalty_query_ports \<Rightarrow> points_exception_projection res" where
  "queryPointsExceptions q ports =
     bnd (qp_authorizeExceptions ports q) (\<lambda>access.
     bnd (or_throw access points_denied) (\<lambda>granted.
     bnd (throw_if (\<not> ax_authorized granted \<or> \<not> ax_mayReview granted) points_denied) (\<lambda>_.
     bnd (qp_exceptions ports q) (\<lambda>result.
     bnd (throw_if (xj_projectionName result \<noteq> ''loyalty_points_exception_v1'' \<or> xj_projectionVersion result \<noteq> 1 \<or>
                    xj_tenantReference result \<noteq> xq_tenantReference q \<or> xj_brandReference result \<noteq> xq_brandReference q)
            profile_invalid) (\<lambda>_.
     Inr (result\<lparr>xj_mayReview := True, xj_mayCorrect := ax_mayCorrect granted\<rparr>))))))"

section \<open>Properties\<close>

lemma plan_points_Commit:
  assumes "plan_points c ports = Inr (CommitPoints r)"
  obtains access before source audit where "lp_authorize ports c = Inr access" "may_execute c access"
    "pc_permission c = required_permission c"
    "lp_load ports (pc_tenantReference c) (pc_brandReference c) (pc_accountReference c) = Inr (Some before)"
    "la_tenantReference before = pc_tenantReference c" "la_brandReference before = pc_brandReference c"
    "lp_validate ports c = Inr source" "source_proves source c before"
    "applyPointsOperation before ((pc_input c)\<lparr>pi_actorReference := JStr (pc_actorReference c),
       pi_occurredAt := JStr (pc_occurredAt c)\<rparr>) = Inr (xr_after r, xr_transaction r)"
    "xr_before r = before" "lp_resolveOperation ports (xr_operationReference r) = Inr None"
  using assms unfolding plan_points_def
  by (auto simp: bnd_eq_Inr or_throw_Inr throw_if_eq_Inr split: option.splits)

lemma apply_transaction_fields:
  assumes "applyPointsOperation a i = Inr (b, t)"
  shows "pi_sourceReference i = JStr (pt_sourceReference t)" "pi_actorReference i = JStr (pt_actorReference t)"
    "pi_points i = JNum (pt_points t)" "pi_occurredAt i = JStr (pt_occurredAt t)"
    "enum_of points_types (pi_type i) = Some (pt_type t)"
    "pt_type t = Adjust \<Longrightarrow> pi_sourceType i = JStr ''AuthorizedCorrection''"
proof -
  have "pi_sourceReference i = JStr (pt_sourceReference t) \<and> pi_actorReference i = JStr (pt_actorReference t) \<and>
    pi_points i = JNum (pt_points t) \<and> pi_occurredAt i = JStr (pt_occurredAt t) \<and>
    enum_of points_types (pi_type i) = Some (pt_type t) \<and>
    (pt_type t = Adjust \<longrightarrow> pi_sourceType i = JStr ''AuthorizedCorrection'')"
    using assms unfolding applyPointsOperation_def bnd_eq_Inr
    by (elim exE conjE) (drule Inr_inject, elim Pair_inject, hypsubst,
      auto simp: throw_if_eq_Inr new_transaction_def evolve_def bnd_eq_Inr customer_parse_Inr customerInstant_Inr
        or_throw_Inr points_effect_def)
  then show "pi_sourceReference i = JStr (pt_sourceReference t)" "pi_actorReference i = JStr (pt_actorReference t)"
    "pi_points i = JNum (pt_points t)" "pi_occurredAt i = JStr (pt_occurredAt t)"
    "enum_of points_types (pi_type i) = Some (pt_type t)"
    "pt_type t = Adjust \<Longrightarrow> pi_sourceType i = JStr ''AuthorizedCorrection''" by blast+
qed

text \<open>
  C34. Whatever the points service hands to the repository was allowed, proved and booked: an authorisation
  that may correct (for an adjustment or a reversal) or operate (for everything else) and the matching
  permission in the command; an account of the command's tenant and brand; evidence of the source for
  exactly the points and the source of the transaction, which names the actor and the time of the command;
  and the stored account differs from the loaded one by exactly that transaction in the ledger.
\<close>

theorem points_commit_sound:
  assumes "plan_points c ports = Inr (CommitPoints r)" and "valid_account (xr_before r)"
  shows "\<exists>x source. lp_authorize ports c = Inr (Some x) \<and> ax_authorized x \<and>
    (pt_type (xr_transaction r) \<in> {Adjust, Reverse} \<longrightarrow> ax_mayCorrect x \<and> pc_permission c = ''loyalty.points.correct'') \<and>
    (pt_type (xr_transaction r) \<notin> {Adjust, Reverse} \<longrightarrow> ax_mayOperate x \<and> pc_permission c = ''loyalty.points.operate'') \<and>
    lp_load ports (pc_tenantReference c) (pc_brandReference c) (pc_accountReference c) = Inr (Some (xr_before r)) \<and>
    la_tenantReference (xr_before r) = pc_tenantReference c \<and> la_brandReference (xr_before r) = pc_brandReference c \<and>
    lp_validate ports c = Inr source \<and> xs_valid source \<and> xs_points source = pt_points (xr_transaction r) \<and>
    xs_sourceReference source = pt_sourceReference (xr_transaction r) \<and>
    pt_actorReference (xr_transaction r) = pc_actorReference c \<and> pt_occurredAt (xr_transaction r) = pc_occurredAt c \<and>
    valid_account (xr_after r) \<and>
    post_event (Posted (xr_transaction r)) (account_book (xr_before r)) = Some (account_book (xr_after r))"
  using assms(1)
proof (rule plan_points_Commit)
  fix access before source
  assume p: "lp_authorize ports c = Inr access" "may_execute c access" "pc_permission c = required_permission c"
    "lp_load ports (pc_tenantReference c) (pc_brandReference c) (pc_accountReference c) = Inr (Some before)"
    "la_tenantReference before = pc_tenantReference c" "la_brandReference before = pc_brandReference c"
    "lp_validate ports c = Inr source" "source_proves source c before" "xr_before r = before"
    and a: "applyPointsOperation before ((pc_input c)\<lparr>pi_actorReference := JStr (pc_actorReference c),
       pi_occurredAt := JStr (pc_occurredAt c)\<rparr>) = Inr (xr_after r, xr_transaction r)"
  note f = apply_transaction_fields [OF a] operation_effect [OF a]
  from p(2) obtain x where x: "access = Some x" "ax_authorized x"
    "if is_correction c then ax_mayCorrect x else ax_mayOperate x"
    by (auto simp: may_execute_def split: option.splits)
  from f(5) have "is_correction c \<longleftrightarrow> pt_type (xr_transaction r) \<in> {Adjust, Reverse}"
    by (auto simp: is_correction_def enum_of_def points_types_def split: js.splits if_splits)
  with p x f assms(2) show ?thesis
    by (intro exI [of _ x] exI [of _ source]) (auto simp: source_proves_def required_permission_def)
qed

definition example_points_command :: points_command where
  "example_points_command =
     \<lparr>pc_tenantReference = ''01890000-0000-7000-8000-000000000202'',
      pc_brandReference = ''01890000-0000-7000-8000-000000000203'',
      pc_actorReference = ''01890000-0000-7000-8000-000000000207'', pc_purpose = ''LoyaltyAccountSupport'',
      pc_permission = ''loyalty.points.operate'', pc_operationReference = ''01890000-0000-7000-8000-000000000231'',
      pc_occurredAt = ''2026-06-01T12:00:00.000Z'', pc_accountReference = ''01890000-0000-7000-8000-000000000201'',
      pc_input = points_request 2 ''Earn'' 50 JNull\<rparr>"

definition example_points_ports :: points_ports where
  "example_points_ports =
     \<lparr>lp_authorize = \<lambda>c. Inr (Some \<lparr>ax_authorized = True, ax_mayViewLedger = True, ax_mayOperate = True,
        ax_mayCorrect = False, ax_mayReview = False\<rparr>),
      lp_validate = \<lambda>c. Inr \<lparr>xs_valid = True, xs_sourceFactsMutated = False, xs_points = 50,
        xs_sourceReference = ''01890000-0000-7000-8000-000000000212'',
        xs_programVersionReference = ''01890000-0000-7000-8000-000000000206'',
        xs_ruleVersionReference = ''01890000-0000-7000-8000-000000000213'',
        xs_originalTransactionReference = Some ''01890000-0000-7000-8000-000000000215''\<rparr>,
      lp_load = \<lambda>te br ac. Inr (Some active_loyalty), lp_resolveOperation = \<lambda>o'. Inr None, lp_commit = Inr,
      lp_audit = \<lambda>c b a. Inr (JObj []), lp_hashIntent = \<lambda>v. Inr ''intent'', lp_equals = (=), lp_before = str_less\<rparr>"

definition example_points_record :: points_record where
  "example_points_record =
     \<lparr>xr_operationReference = ''01890000-0000-7000-8000-000000000231'', xr_intentHash = ''intent'',
      xr_command = example_points_command, xr_before = active_loyalty, xr_after = earned_loyalty,
      xr_transaction = points_receipt Earn 50 None, xr_audit = JObj [], xr_outcome = PointsApplied\<rparr>"

lemma example_points_plan:
  "plan_points example_points_command example_points_ports = Inr (CommitPoints example_points_record)"
proof -
  have i: "(pc_input example_points_command)\<lparr>pi_actorReference := JStr (pc_actorReference example_points_command),
      pi_occurredAt := JStr (pc_occurredAt example_points_command)\<rparr> = points_request 2 ''Earn'' 50 JNull"
    by (simp add: example_points_command_def points_request_def)
  have "required_permission example_points_command = ''loyalty.points.operate''" "\<not> is_correction example_points_command"
    by (simp_all add: required_permission_def is_correction_def example_points_command_def points_request_def)
  moreover have "source_proves (projr (lp_validate example_points_ports example_points_command)) example_points_command active_loyalty"
    by (simp add: source_proves_def example_points_ports_def example_points_command_def points_request_def
        example_loyalty_defs)
  moreover have "la_tenantReference active_loyalty = ''01890000-0000-7000-8000-000000000202''"
    "la_brandReference active_loyalty = ''01890000-0000-7000-8000-000000000203''"
    by (simp_all add: example_loyalty_defs)
  ultimately show ?thesis
    unfolding plan_points_def i example_earn_applied [symmetric]
    by (simp add: may_execute_def example_points_ports_def example_earn_applied)
      (simp add: example_points_command_def example_points_record_def points_request_def example_earn_applied)
qed

theorem points_commit_sound_witness:
  "valid_account earned_loyalty \<and>
   post_event (Posted (points_receipt Earn 50 None)) (account_book active_loyalty) = Some (account_book earned_loyalty)"
proof -
  have "valid_account (xr_before example_points_record)"
    by (simp add: example_points_record_def valid_account_def valid_points_def points_safe_def account_points_def
        example_loyalty_defs max_safe_def)
  moreover have "xr_before example_points_record = active_loyalty" "xr_after example_points_record = earned_loyalty"
    "xr_transaction example_points_record = points_receipt Earn 50 None" by (simp_all add: example_points_record_def)
  ultimately show ?thesis using points_commit_sound [OF example_points_plan] by metis
qed

end
