(* ===== verification/Organization.thy ===== *)
theory Organization
  imports GuestSession EffectivePeriod
begin

text \<open>
  Brands, stores, actors and the tenant context: \<open>packages/bop/tenant/src/domain/brand-store.ts\<close>,
  \<open>packages/bop/identity/src/contracts/identity-actor.ts\<close> and
  \<open>packages/bop/tenant/src/contracts/tenant-context.ts\<close>. What the host decides, the time zones its
  \<open>Intl.DateTimeFormat\<close> resolves to themselves and whether an object is frozen, is a parameter.
\<close>

record host =
  host_zone :: "string \<Rightarrow> bool"
  host_frozen :: "js \<Rightarrow> bool"

section \<open>Brands and stores\<close>

datatype organization_lifecycle = Draft | OrgActive | OrgSuspended | Archived

definition organization_lifecycles :: "(string \<times> organization_lifecycle) list" where
  "organization_lifecycles =
     [(''Draft'', Draft), (''Active'', OrgActive), (''Suspended'', OrgSuspended), (''Archived'', Archived)]"

record brand =
  br_brandReference :: string
  br_code :: string
  br_displayName :: string
  br_defaultLocale :: string
  br_lifecycle :: organization_lifecycle
  br_version :: int
  br_createdAt :: string
  br_updatedAt :: string

record shop =
  sh_storeReference :: string
  sh_brandReference :: string
  sh_code :: string
  sh_displayName :: string
  sh_timeZone :: string
  sh_locale :: string
  sh_lifecycle :: organization_lifecycle
  sh_version :: int
  sh_createdAt :: string
  sh_updatedAt :: string

definition organization_error :: "organization_code \<Rightarrow> err" where
  "organization_error code = OrganizationContractError code"

definition parseBrandReference :: "js \<Rightarrow> string res" where
  "parseBrandReference v = or_throw (str_if uuid_v7 v) (organization_error BRAND_REFERENCE_INVALID)"

definition parseStoreReference :: "js \<Rightarrow> string res" where
  "parseStoreReference v = or_throw (str_if uuid_v7 v) (organization_error STORE_REFERENCE_INVALID)"

definition parseOrganizationVersion :: "js \<Rightarrow> int res" where
  "parseOrganizationVersion v = or_throw (safe_int_in 1 max_safe v) (organization_error ORGANIZATION_INPUT_INVALID)"

definition organization_closed :: "js \<Rightarrow> string list \<Rightarrow> organization_code \<Rightarrow> unit res" where
  "organization_closed v keys code = throw_if (\<not> has_shape v keys) (organization_error code)"

definition organization_text :: "js \<Rightarrow> nat \<Rightarrow> (string \<Rightarrow> bool) \<Rightarrow> string res" where
  "organization_text v maximum pattern =
     or_throw (str_if (\<lambda>s. 1 \<le> length s \<and> length s \<le> maximum \<and> js_trim s = s \<and> pattern s) v)
       (organization_error ORGANIZATION_INPUT_INVALID)"

definition organization_lifecycle_value :: "js \<Rightarrow> organization_lifecycle res" where
  "organization_lifecycle_value v =
     or_throw (enum_of organization_lifecycles v) (organization_error ORGANIZATION_INPUT_INVALID)"

text \<open>\<open>/^[A-Z][A-Z0-9_-]{0,62}$/u\<close>\<close>

definition organization_code_format :: "string \<Rightarrow> bool" where
  "organization_code_format s \<longleftrightarrow> code_format ''_-'' s \<and> length s \<le> 63"

text \<open>
  \<open>/^[a-z]{2,3}(?:-[A-Z][a-z]{3})?(?:-[A-Z]{2}|\d{3})$/u\<close>: as for guests, a numeric region follows without
  a hyphen, but here a region there must be.
\<close>

definition brand_region :: "string \<Rightarrow> bool" where
  "brand_region r \<longleftrightarrow> r \<noteq> [] \<and> locale_region r"

definition brand_locale_format :: "string \<Rightarrow> bool" where
  "brand_locale_format s \<longleftrightarrow>
     list_ex (\<lambda>n. n \<le> length s \<and> list_all is_lower (take n s) \<and>
       (brand_region (drop n s) \<or>
        matches [lit (CHR ''-''), is_upper, is_lower, is_lower, is_lower] (take 5 (drop n s)) \<and>
          brand_region (drop 5 (drop n s)))) [2, 3]"

definition store_time_zone :: "host \<Rightarrow> js \<Rightarrow> string res" where
  "store_time_zone h v =
     bnd (organization_text v 64 (\<lambda>_. True)) (\<lambda>zone.
     bnd (throw_if (\<not> host_zone h zone) (organization_error STORE_SHAPE_INVALID)) (\<lambda>_. Inr zone))"

definition createBrand :: "js \<Rightarrow> brand res" where
  "createBrand v =
     bnd (organization_closed v [''brandReference'', ''code'', ''displayName'', ''defaultLocale'', ''currencyCode'',
            ''lifecycle'', ''version'', ''createdAt'', ''updatedAt''] BRAND_SHAPE_INVALID) (\<lambda>_.
     bnd (parseCanonicalInstant (fld v ''createdAt'')) (\<lambda>createdAt.
     bnd (parseCanonicalInstant (fld v ''updatedAt'')) (\<lambda>updatedAt.
     bnd (throw_if (ms_of updatedAt < ms_of createdAt \<or> fld v ''currencyCode'' \<noteq> JStr ''CAD'')
            (organization_error BRAND_SHAPE_INVALID)) (\<lambda>_.
     bnd (parseBrandReference (fld v ''brandReference'')) (\<lambda>brand.
     bnd (organization_text (fld v ''code'') 63 organization_code_format) (\<lambda>code.
     bnd (organization_text (fld v ''displayName'') 160 (\<lambda>_. True)) (\<lambda>name.
     bnd (organization_text (fld v ''defaultLocale'') 35 brand_locale_format) (\<lambda>loc.
     bnd (organization_lifecycle_value (fld v ''lifecycle'')) (\<lambda>life.
     bnd (parseOrganizationVersion (fld v ''version'')) (\<lambda>version.
     Inr \<lparr>br_brandReference = brand, br_code = code, br_displayName = name, br_defaultLocale = loc,
       br_lifecycle = life, br_version = version, br_createdAt = createdAt, br_updatedAt = updatedAt\<rparr>))))))))))"

definition createStore :: "host \<Rightarrow> js \<Rightarrow> shop res" where
  "createStore h v =
     bnd (organization_closed v [''storeReference'', ''brandReference'', ''code'', ''displayName'', ''timeZone'',
            ''locale'', ''currencyCode'', ''lifecycle'', ''version'', ''createdAt'', ''updatedAt'']
            STORE_SHAPE_INVALID) (\<lambda>_.
     bnd (parseCanonicalInstant (fld v ''createdAt'')) (\<lambda>createdAt.
     bnd (parseCanonicalInstant (fld v ''updatedAt'')) (\<lambda>updatedAt.
     bnd (throw_if (ms_of updatedAt < ms_of createdAt \<or> fld v ''currencyCode'' \<noteq> JStr ''CAD'')
            (organization_error STORE_SHAPE_INVALID)) (\<lambda>_.
     bnd (parseStoreReference (fld v ''storeReference'')) (\<lambda>shop.
     bnd (parseBrandReference (fld v ''brandReference'')) (\<lambda>brand.
     bnd (organization_text (fld v ''code'') 63 organization_code_format) (\<lambda>code.
     bnd (organization_text (fld v ''displayName'') 160 (\<lambda>_. True)) (\<lambda>name.
     bnd (store_time_zone h (fld v ''timeZone'')) (\<lambda>zone.
     bnd (organization_text (fld v ''locale'') 35 brand_locale_format) (\<lambda>loc.
     bnd (organization_lifecycle_value (fld v ''lifecycle'')) (\<lambda>life.
     bnd (parseOrganizationVersion (fld v ''version'')) (\<lambda>version.
     Inr \<lparr>sh_storeReference = shop, sh_brandReference = brand, sh_code = code, sh_displayName = name,
       sh_timeZone = zone, sh_locale = loc, sh_lifecycle = life, sh_version = version,
       sh_createdAt = createdAt, sh_updatedAt = updatedAt\<rparr>))))))))))))"

definition organization_transitions :: "organization_lifecycle \<Rightarrow> organization_lifecycle list" where
  "organization_transitions l = (case l of Draft \<Rightarrow> [OrgActive, Archived] | OrgActive \<Rightarrow> [OrgSuspended, Archived]
     | OrgSuspended \<Rightarrow> [OrgActive, Archived] | Archived \<Rightarrow> [])"

text \<open>The checks of a transition; they give the time of the change.\<close>

definition organization_transition ::
  "organization_lifecycle \<Rightarrow> int \<Rightarrow> string \<Rightarrow> int \<Rightarrow> organization_lifecycle \<Rightarrow> js \<Rightarrow> string res" where
  "organization_transition current version updated expectedVersion next_state at =
     bnd (throw_if (version \<noteq> expectedVersion) (organization_error ORGANIZATION_VERSION_CONFLICT)) (\<lambda>_.
     bnd (throw_if (next_state \<notin> set (organization_transitions current))
            (organization_error ORGANIZATION_TRANSITION_INVALID)) (\<lambda>_.
     bnd (parseCanonicalInstant at) (\<lambda>updatedAt.
     bnd (throw_if (ms_of updatedAt < ms_of updated) (organization_error ORGANIZATION_TRANSITION_INVALID)) (\<lambda>_.
     Inr updatedAt))))"

definition transitionBrand :: "brand \<Rightarrow> int \<Rightarrow> organization_lifecycle \<Rightarrow> js \<Rightarrow> brand res" where
  "transitionBrand b expectedVersion next_state at =
     bnd (organization_transition (br_lifecycle b) (br_version b) (br_updatedAt b) expectedVersion next_state at) (\<lambda>t.
     Inr (b\<lparr>br_lifecycle := next_state, br_version := br_version b + 1, br_updatedAt := t\<rparr>))"

definition transitionStore :: "shop \<Rightarrow> int \<Rightarrow> organization_lifecycle \<Rightarrow> js \<Rightarrow> shop res" where
  "transitionStore s expectedVersion next_state at =
     bnd (organization_transition (sh_lifecycle s) (sh_version s) (sh_updatedAt s) expectedVersion next_state at) (\<lambda>t.
     Inr (s\<lparr>sh_lifecycle := next_state, sh_version := sh_version s + 1, sh_updatedAt := t\<rparr>))"

section \<open>Actors\<close>

datatype actor_type = UserActor | SystemActor | ServiceActor

datatype account_kind = CustomerKind | WorkforceKind | PlatformKind | ServiceKind | SystemKind

datatype authentication_method = Oidc | ServiceCredential | SystemMethod

datatype verification_level = SingleFactor | Mfa | RecentMfa

record identity_actor =
  ia_actorType :: actor_type
  ia_actorReference :: "string option"
  ia_accountKind :: account_kind
  ia_authenticationMethod :: authentication_method
  ia_verificationLevel :: verification_level
  ia_authenticatedAt :: string
  ia_recentMfaAt :: "string option"

definition actor_types :: "(string \<times> actor_type) list" where
  "actor_types = [(''User'', UserActor), (''System'', SystemActor), (''Service'', ServiceActor)]"

definition account_kinds :: "(string \<times> account_kind) list" where
  "account_kinds = [(''Customer'', CustomerKind), (''Workforce'', WorkforceKind), (''Platform'', PlatformKind),
     (''Service'', ServiceKind), (''System'', SystemKind)]"

definition authentication_methods :: "(string \<times> authentication_method) list" where
  "authentication_methods = [(''Oidc'', Oidc), (''ServiceCredential'', ServiceCredential), (''System'', SystemMethod)]"

definition verification_levels :: "(string \<times> verification_level) list" where
  "verification_levels = [(''SingleFactor'', SingleFactor), (''Mfa'', Mfa), (''RecentMfa'', RecentMfa)]"

definition identity_statuses :: "string list" where
  "identity_statuses = [''Active'', ''Suspended'', ''Disabled'', ''Merged'']"

definition actor_shape_ok :: "actor_type \<Rightarrow> js \<Rightarrow> account_kind \<Rightarrow> bool" where
  "actor_shape_ok ty ref kind \<longleftrightarrow>
     ty = UserActor \<and> ref \<noteq> JNull \<and> kind \<in> {CustomerKind, WorkforceKind, PlatformKind} \<or>
     ty = ServiceActor \<and> ref \<noteq> JNull \<and> kind = ServiceKind \<or>
     ty = SystemActor \<and> ref = JNull \<and> kind = SystemKind"

definition method_of_actor :: "actor_type \<Rightarrow> authentication_method" where
  "method_of_actor ty = (case ty of UserActor \<Rightarrow> Oidc | ServiceActor \<Rightarrow> ServiceCredential | SystemActor \<Rightarrow> SystemMethod)"

definition createIdentityActor :: "js \<Rightarrow> identity_actor res" where
  "createIdentityActor v =
     bnd (readClosedRecord v [''actorType'', ''actorReference'', ''accountKind'', ''status'',
            ''authenticationMethod'', ''verificationLevel'', ''authenticatedAt'', ''recentMfaAt'']
            ACTOR_SHAPE_INVALID) (\<lambda>_.
     bnd (or_throw (enum_of actor_types (fld v ''actorType'')) (IdentityContractError ACTOR_SHAPE_INVALID)) (\<lambda>ty.
     bnd (or_throw (enum_of account_kinds (fld v ''accountKind'')) (IdentityContractError ACTOR_SHAPE_INVALID)) (\<lambda>kind.
     bnd (or_throw (str_if (\<lambda>s. s \<in> set identity_statuses) (fld v ''status''))
            (IdentityContractError ACTOR_SHAPE_INVALID)) (\<lambda>status.
     bnd (throw_if (status \<noteq> ''Active'') (IdentityContractError ACTOR_INACTIVE)) (\<lambda>_.
     bnd (throw_if (\<not> actor_shape_ok ty (fld v ''actorReference'') kind)
            (IdentityContractError ACTOR_SHAPE_INVALID)) (\<lambda>_.
     bnd (nullable (\<lambda>w. parseOpaqueUuidV7 w ACTOR_REFERENCE_INVALID) (fld v ''actorReference'')) (\<lambda>ref.
     bnd (or_throw (enum_of authentication_methods (fld v ''authenticationMethod''))
            (IdentityContractError AUTHENTICATION_METHOD_INVALID)) (\<lambda>meth.
     bnd (throw_if (meth \<noteq> method_of_actor ty) (IdentityContractError AUTHENTICATION_METHOD_INVALID)) (\<lambda>_.
     bnd (or_throw (enum_of verification_levels (fld v ''verificationLevel''))
            (IdentityContractError VERIFICATION_LEVEL_INVALID)) (\<lambda>level.
     bnd (throw_if (ty \<noteq> UserActor \<and> level \<noteq> SingleFactor)
            (IdentityContractError VERIFICATION_LEVEL_INVALID)) (\<lambda>_.
     bnd (identity_instant (fld v ''authenticatedAt'')) (\<lambda>authenticatedAt.
     bnd (nullable identity_instant (fld v ''recentMfaAt'')) (\<lambda>recentMfaAt.
     bnd (throw_if ((level = RecentMfa) \<noteq> (recentMfaAt \<noteq> None) \<or>
                    (case recentMfaAt of None \<Rightarrow> False | Some t \<Rightarrow> ms_of authenticatedAt < ms_of t))
            (IdentityContractError VERIFICATION_LEVEL_INVALID)) (\<lambda>_.
     Inr \<lparr>ia_actorType = ty, ia_actorReference = ref, ia_accountKind = kind, ia_authenticationMethod = meth,
       ia_verificationLevel = level, ia_authenticatedAt = authenticatedAt, ia_recentMfaAt = recentMfaAt\<rparr>))))))))))))))"

section \<open>Tenant contexts\<close>

record tenant_context =
  tc_actor :: identity_actor
  tc_brand :: brand
  tc_store :: "shop option"
  tc_resolvedAt :: string

definition tc_storeReference :: "tenant_context \<Rightarrow> string option" where
  "tc_storeReference c = map_option sh_storeReference (tc_store c)"

text \<open>\<open>scopeKind\<close>: a context with a store is a store context.\<close>

definition tc_scopeKind :: "tenant_context \<Rightarrow> string" where
  "tc_scopeKind c = (if tc_store c = None then ''Brand'' else ''Store'')"

definition workforceActor :: "js \<Rightarrow> identity_actor res" where
  "workforceActor v =
     catching
       (bnd (createIdentityActor v) (\<lambda>actor.
        bnd (throw_if (ia_actorType actor \<noteq> UserActor \<or> ia_accountKind actor \<noteq> WorkforceKind \<or>
                       ia_actorReference actor = None) (TenantContextContractError TENANT_CONTEXT_ACTOR_INVALID)) (\<lambda>_.
        Inr actor)))
       (\<lambda>_. Inl (TenantContextContractError TENANT_CONTEXT_ACTOR_INVALID))"

definition activeBrand :: "js \<Rightarrow> brand res" where
  "activeBrand v =
     catching
       (bnd (createBrand v) (\<lambda>brand.
        bnd (throw_if (br_lifecycle brand \<noteq> OrgActive) (TenantContextContractError TENANT_CONTEXT_BRAND_DENIED)) (\<lambda>_.
        Inr brand)))
       (\<lambda>_. Inl (TenantContextContractError TENANT_CONTEXT_BRAND_DENIED))"

definition activeStore :: "host \<Rightarrow> js \<Rightarrow> brand \<Rightarrow> shop res" where
  "activeStore h v brand =
     catching
       (bnd (createStore h v) (\<lambda>shop.
        bnd (throw_if (sh_lifecycle shop \<noteq> OrgActive \<or> sh_brandReference shop \<noteq> br_brandReference brand)
               (TenantContextContractError TENANT_CONTEXT_STORE_DENIED)) (\<lambda>_.
        Inr shop)))
       (\<lambda>_. Inl (TenantContextContractError TENANT_CONTEXT_STORE_DENIED))"

definition createTenantContext :: "host \<Rightarrow> js \<Rightarrow> js \<Rightarrow> js \<Rightarrow> js \<Rightarrow> tenant_context res" where
  "createTenantContext h actorInput brandInput storeInput resolvedAtInput =
     bnd (workforceActor actorInput) (\<lambda>actor.
     bnd (activeBrand brandInput) (\<lambda>brand.
     bnd (nullable (\<lambda>w. activeStore h w brand) storeInput) (\<lambda>shop.
     bnd (catching (parseCanonicalInstant resolvedAtInput)
            (\<lambda>_. Inl (TenantContextContractError TENANT_CONTEXT_INPUT_INVALID))) (\<lambda>resolvedAt.
     Inr \<lparr>tc_actor = actor, tc_brand = brand, tc_store = shop, tc_resolvedAt = resolvedAt\<rparr>))))"

text \<open>What a context guarantees.\<close>

lemma createTenantContext_Inr:
  assumes "createTenantContext h a b s t = Inr c"
  shows "ia_actorType (tc_actor c) = UserActor" "ia_accountKind (tc_actor c) = WorkforceKind"
    "br_lifecycle (tc_brand c) = OrgActive" "canonical_instant (tc_resolvedAt c)"
    "\<exists>r. ia_actorReference (tc_actor c) = Some r"
    "tc_store c = Some sh \<Longrightarrow> sh_lifecycle sh = OrgActive \<and> sh_brandReference sh = br_brandReference (tc_brand c)"
  using assms
  by (auto simp: createTenantContext_def workforceActor_def activeBrand_def activeStore_def bnd_eq_Inr catching_throw_Inr
      throw_if_eq_Inr nullable_Inr parseCanonicalInstant_Inr)

end
