(* ===== verification/Membership.thy ===== *)
theory Membership
  imports Organization
begin

text \<open>
  Memberships of actors in brands and their assignments to stores:
  \<open>packages/bop/membership/src/domain/membership.ts\<close>.
\<close>

datatype membership_lifecycle = MemberPending | MemberActive | MemberSuspended | MemberEnded

datatype assignment_lifecycle = AssignmentActive | AssignmentSuspended | AssignmentEnded

record membership =
  mb_membershipReference :: string
  mb_actorReference :: string
  mb_brandReference :: string
  mb_workforceRelationshipReference :: "string option"
  mb_lifecycle :: membership_lifecycle
  mb_effectiveFrom :: string
  mb_effectiveUntil :: "string option"
  mb_version :: int
  mb_createdAt :: string
  mb_updatedAt :: string

record store_assignment =
  sa_storeAssignmentReference :: string
  sa_membershipReference :: string
  sa_actorReference :: string
  sa_brandReference :: string
  sa_storeReference :: string
  sa_lifecycle :: assignment_lifecycle
  sa_effectiveFrom :: string
  sa_effectiveUntil :: "string option"
  sa_version :: int
  sa_createdAt :: string
  sa_updatedAt :: string

section \<open>Values\<close>

definition membership_error :: "membership_code \<Rightarrow> err" where
  "membership_error code = MembershipContractError code"

definition membership_uuid :: "js \<Rightarrow> membership_code \<Rightarrow> string res" where
  "membership_uuid v code = or_throw (str_if uuid_v7 v) (membership_error code)"

definition parseMembershipReference :: "js \<Rightarrow> string res" where
  "parseMembershipReference v = membership_uuid v MEMBERSHIP_REFERENCE_INVALID"

definition parseStoreAssignmentReference :: "js \<Rightarrow> string res" where
  "parseStoreAssignmentReference v = membership_uuid v STORE_ASSIGNMENT_REFERENCE_INVALID"

definition parseWorkforceRelationshipReference :: "js \<Rightarrow> string res" where
  "parseWorkforceRelationshipReference v = membership_uuid v WORKFORCE_RELATIONSHIP_REFERENCE_INVALID"

definition parseMembershipVersion :: "js \<Rightarrow> int res" where
  "parseMembershipVersion v = or_throw (safe_int_in 1 max_safe v) (membership_error MEMBERSHIP_INPUT_INVALID)"

definition parseMembershipInstant :: "js \<Rightarrow> string res" where
  "parseMembershipInstant v = or_throw (str_if canonical_instant v) (membership_error MEMBERSHIP_INPUT_INVALID)"

definition membership_closed :: "js \<Rightarrow> string list \<Rightarrow> membership_code \<Rightarrow> unit res" where
  "membership_closed v keys code = throw_if (\<not> has_shape v keys) (membership_error code)"

definition membership_lifecycles :: "(string \<times> membership_lifecycle) list" where
  "membership_lifecycles = [(''PendingActivation'', MemberPending), (''Active'', MemberActive),
     (''Suspended'', MemberSuspended), (''Ended'', MemberEnded)]"

definition assignment_lifecycles :: "(string \<times> assignment_lifecycle) list" where
  "assignment_lifecycles = [(''Active'', AssignmentActive), (''Suspended'', AssignmentSuspended),
     (''Ended'', AssignmentEnded)]"

definition membershipLifecycle :: "js \<Rightarrow> membership_lifecycle res" where
  "membershipLifecycle v = or_throw (enum_of membership_lifecycles v) (membership_error MEMBERSHIP_SHAPE_INVALID)"

definition assignmentLifecycle :: "js \<Rightarrow> assignment_lifecycle res" where
  "assignmentLifecycle v = or_throw (enum_of assignment_lifecycles v) (membership_error STORE_ASSIGNMENT_SHAPE_INVALID)"

definition membership_period :: "js \<Rightarrow> js \<Rightarrow> membership_code \<Rightarrow> (string \<times> string option) res" where
  "membership_period fromInput untilInput code =
     bnd (parseMembershipInstant fromInput) (\<lambda>start.
     bnd (nullable parseMembershipInstant untilInput) (\<lambda>ends.
     bnd (throw_if (case ends of None \<Rightarrow> False | Some u \<Rightarrow> ms_of u \<le> ms_of start) (membership_error code)) (\<lambda>_.
     Inr (start, ends))))"

text \<open>The half-open window that memberships, assignments, roles and grants share.\<close>

definition in_force :: "string \<Rightarrow> string option \<Rightarrow> int \<Rightarrow> bool" where
  "in_force start ends at \<longleftrightarrow> ms_of start \<le> at \<and> (case ends of None \<Rightarrow> True | Some u \<Rightarrow> at < ms_of u)"

definition assertActor :: "js \<Rightarrow> js \<Rightarrow> string res" where
  "assertActor actorInput expected =
     catching
       (bnd (createIdentityActor actorInput) (\<lambda>actor.
        bnd (throw_if (ia_actorType actor \<noteq> UserActor \<or> ia_accountKind actor \<noteq> WorkforceKind)
               (membership_error MEMBERSHIP_ACTOR_INVALID)) (\<lambda>_.
        bnd (or_throw (ia_actorReference actor) (membership_error MEMBERSHIP_ACTOR_INVALID)) (\<lambda>ref.
        bnd (throw_if (JStr ref \<noteq> expected) (membership_error MEMBERSHIP_ACTOR_INVALID)) (\<lambda>_. Inr ref)))))
       (\<lambda>_. Inl (membership_error MEMBERSHIP_ACTOR_INVALID))"

section \<open>Creation\<close>

definition createMembership :: "js \<Rightarrow> js \<Rightarrow> membership res" where
  "createMembership v actor =
     bnd (membership_closed v [''membershipReference'', ''actorReference'', ''brandReference'',
            ''workforceRelationshipReference'', ''lifecycle'', ''effectiveFrom'', ''effectiveUntil'', ''version'',
            ''createdAt'', ''updatedAt''] MEMBERSHIP_SHAPE_INVALID) (\<lambda>_.
     bnd (membershipLifecycle (fld v ''lifecycle'')) (\<lambda>life.
     bnd (nullable parseWorkforceRelationshipReference (fld v ''workforceRelationshipReference'')) (\<lambda>relationship.
     bnd (throw_if (life = MemberActive \<and> relationship = None) (membership_error MEMBERSHIP_EVIDENCE_REQUIRED)) (\<lambda>_.
     bnd (membership_period (fld v ''effectiveFrom'') (fld v ''effectiveUntil'') MEMBERSHIP_SHAPE_INVALID) (\<lambda>(start, ends).
     bnd (parseMembershipInstant (fld v ''createdAt'')) (\<lambda>createdAt.
     bnd (parseMembershipInstant (fld v ''updatedAt'')) (\<lambda>updatedAt.
     bnd (throw_if (ms_of updatedAt < ms_of createdAt) (membership_error MEMBERSHIP_SHAPE_INVALID)) (\<lambda>_.
     bnd (parseMembershipReference (fld v ''membershipReference'')) (\<lambda>ref.
     bnd (assertActor actor (fld v ''actorReference'')) (\<lambda>actorRef.
     bnd (membership_uuid (fld v ''brandReference'') MEMBERSHIP_SHAPE_INVALID) (\<lambda>brand.
     bnd (parseMembershipVersion (fld v ''version'')) (\<lambda>version.
     Inr \<lparr>mb_membershipReference = ref, mb_actorReference = actorRef, mb_brandReference = brand,
       mb_workforceRelationshipReference = relationship, mb_lifecycle = life, mb_effectiveFrom = start,
       mb_effectiveUntil = ends, mb_version = version, mb_createdAt = createdAt, mb_updatedAt = updatedAt\<rparr>))))))))))))"

definition createStoreAssignment :: "host \<Rightarrow> js \<Rightarrow> membership \<Rightarrow> js \<Rightarrow> store_assignment res" where
  "createStoreAssignment h v m storeInput =
     bnd (catching (createStore h storeInput) (\<lambda>_. Inl (membership_error STORE_ASSIGNMENT_SHAPE_INVALID))) (\<lambda>shop.
     bnd (membership_closed v [''storeAssignmentReference'', ''membershipReference'', ''actorReference'',
            ''brandReference'', ''storeReference'', ''lifecycle'', ''effectiveFrom'', ''effectiveUntil'', ''version'',
            ''createdAt'', ''updatedAt''] STORE_ASSIGNMENT_SHAPE_INVALID) (\<lambda>_.
     bnd (throw_if (fld v ''membershipReference'' \<noteq> JStr (mb_membershipReference m) \<or>
                    fld v ''actorReference'' \<noteq> JStr (mb_actorReference m) \<or>
                    fld v ''brandReference'' \<noteq> JStr (mb_brandReference m) \<or>
                    fld v ''storeReference'' \<noteq> JStr (sh_storeReference shop) \<or>
                    sh_brandReference shop \<noteq> mb_brandReference m) (membership_error STORE_BRAND_MISMATCH)) (\<lambda>_.
     bnd (membership_period (fld v ''effectiveFrom'') (fld v ''effectiveUntil'') STORE_ASSIGNMENT_SHAPE_INVALID) (\<lambda>(start, ends).
     bnd (parseMembershipInstant (fld v ''createdAt'')) (\<lambda>createdAt.
     bnd (parseMembershipInstant (fld v ''updatedAt'')) (\<lambda>updatedAt.
     bnd (throw_if (ms_of updatedAt < ms_of createdAt) (membership_error STORE_ASSIGNMENT_SHAPE_INVALID)) (\<lambda>_.
     bnd (parseStoreAssignmentReference (fld v ''storeAssignmentReference'')) (\<lambda>ref.
     bnd (assignmentLifecycle (fld v ''lifecycle'')) (\<lambda>life.
     bnd (parseMembershipVersion (fld v ''version'')) (\<lambda>version.
     Inr \<lparr>sa_storeAssignmentReference = ref, sa_membershipReference = mb_membershipReference m,
       sa_actorReference = mb_actorReference m, sa_brandReference = mb_brandReference m,
       sa_storeReference = sh_storeReference shop, sa_lifecycle = life, sa_effectiveFrom = start,
       sa_effectiveUntil = ends, sa_version = version, sa_createdAt = createdAt, sa_updatedAt = updatedAt\<rparr>))))))))))"

section \<open>Transitions\<close>

definition membershipTransitions :: "membership_lifecycle \<Rightarrow> membership_lifecycle list" where
  "membershipTransitions l = (case l of MemberPending \<Rightarrow> [MemberActive, MemberEnded]
     | MemberActive \<Rightarrow> [MemberSuspended, MemberEnded] | MemberSuspended \<Rightarrow> [MemberActive, MemberEnded]
     | MemberEnded \<Rightarrow> [])"

definition assignmentTransitions :: "assignment_lifecycle \<Rightarrow> assignment_lifecycle list" where
  "assignmentTransitions l = (case l of AssignmentActive \<Rightarrow> [AssignmentSuspended, AssignmentEnded]
     | AssignmentSuspended \<Rightarrow> [AssignmentActive, AssignmentEnded] | AssignmentEnded \<Rightarrow> [])"

definition transitionMembership :: "membership \<Rightarrow> int \<Rightarrow> membership_lifecycle \<Rightarrow> js \<Rightarrow> membership res" where
  "transitionMembership m expectedVersion target at =
     bnd (throw_if (mb_version m \<noteq> expectedVersion) (membership_error MEMBERSHIP_VERSION_CONFLICT)) (\<lambda>_.
     bnd (throw_if (target \<notin> set (membershipTransitions (mb_lifecycle m)))
            (membership_error MEMBERSHIP_TRANSITION_INVALID)) (\<lambda>_.
     bnd (throw_if (target = MemberActive \<and> mb_workforceRelationshipReference m = None)
            (membership_error MEMBERSHIP_EVIDENCE_REQUIRED)) (\<lambda>_.
     bnd (parseMembershipInstant at) (\<lambda>t.
     bnd (throw_if (ms_of t < ms_of (mb_updatedAt m)) (membership_error MEMBERSHIP_TRANSITION_INVALID)) (\<lambda>_.
     Inr (m\<lparr>mb_lifecycle := target, mb_version := mb_version m + 1, mb_updatedAt := t\<rparr>))))))"

definition transitionStoreAssignment ::
  "store_assignment \<Rightarrow> int \<Rightarrow> assignment_lifecycle \<Rightarrow> js \<Rightarrow> store_assignment res" where
  "transitionStoreAssignment a expectedVersion target at =
     bnd (throw_if (sa_version a \<noteq> expectedVersion) (membership_error STORE_ASSIGNMENT_VERSION_CONFLICT)) (\<lambda>_.
     bnd (throw_if (target \<notin> set (assignmentTransitions (sa_lifecycle a)))
            (membership_error STORE_ASSIGNMENT_TRANSITION_INVALID)) (\<lambda>_.
     bnd (parseMembershipInstant at) (\<lambda>t.
     bnd (throw_if (ms_of t < ms_of (sa_updatedAt a)) (membership_error STORE_ASSIGNMENT_TRANSITION_INVALID)) (\<lambda>_.
     Inr (a\<lparr>sa_lifecycle := target, sa_version := sa_version a + 1, sa_updatedAt := t\<rparr>)))))"

section \<open>Resolution\<close>

text \<open>The only match: none and more than one are errors of their own.\<close>

definition the_match :: "'a list \<Rightarrow> membership_code \<Rightarrow> membership_code \<Rightarrow> 'a res" where
  "the_match matching none many =
     (case matching of [] \<Rightarrow> Inl (membership_error none) | [x] \<Rightarrow> Inr x | _ \<Rightarrow> Inl (membership_error many))"

definition member_matches :: "string \<Rightarrow> string \<Rightarrow> int \<Rightarrow> membership \<Rightarrow> bool" where
  "member_matches actor brand at m \<longleftrightarrow> mb_actorReference m = actor \<and> mb_brandReference m = brand \<and>
     mb_lifecycle m = MemberActive \<and> in_force (mb_effectiveFrom m) (mb_effectiveUntil m) at"

definition resolveActiveMembership :: "membership list \<Rightarrow> string \<Rightarrow> string \<Rightarrow> js \<Rightarrow> membership res" where
  "resolveActiveMembership memberships actor brand at =
     bnd (parseMembershipInstant at) (\<lambda>t.
     the_match (filter (member_matches actor brand (ms_of t)) memberships)
       ACTIVE_MEMBERSHIP_NOT_FOUND ACTIVE_MEMBERSHIP_AMBIGUOUS)"

definition assignment_matches :: "membership \<Rightarrow> string \<Rightarrow> int \<Rightarrow> store_assignment \<Rightarrow> bool" where
  "assignment_matches m shop at a \<longleftrightarrow> sa_membershipReference a = mb_membershipReference m \<and>
     sa_actorReference a = mb_actorReference m \<and> sa_brandReference a = mb_brandReference m \<and>
     sa_storeReference a = shop \<and> sa_lifecycle a = AssignmentActive \<and>
     in_force (sa_effectiveFrom a) (sa_effectiveUntil a) at"

definition resolveActiveStoreAssignment ::
  "membership \<Rightarrow> store_assignment list \<Rightarrow> string \<Rightarrow> js \<Rightarrow> store_assignment res" where
  "resolveActiveStoreAssignment m assignments shop at =
     bnd (parseMembershipInstant at) (\<lambda>t.
     bnd (throw_if (mb_lifecycle m \<noteq> MemberActive \<or>
                    \<not> in_force (mb_effectiveFrom m) (mb_effectiveUntil m) (ms_of t))
            (membership_error ACTIVE_STORE_ASSIGNMENT_NOT_FOUND)) (\<lambda>_.
     the_match (filter (assignment_matches m shop (ms_of t)) assignments)
       ACTIVE_STORE_ASSIGNMENT_NOT_FOUND ACTIVE_STORE_ASSIGNMENT_AMBIGUOUS))"

section \<open>Suspension of a membership with its assignments\<close>

record access_invalidation =
  iv_membershipReference :: string
  iv_actorReference :: string
  iv_storeAssignmentReferences :: "string list"
  iv_occurredAt :: string

record membership_suspension =
  su_membership :: membership
  su_assignments :: "store_assignment list"
  su_invalidation :: access_invalidation

definition active_of :: "membership \<Rightarrow> store_assignment list \<Rightarrow> store_assignment list" where
  "active_of m assignments =
     filter (\<lambda>a. sa_membershipReference a = mb_membershipReference m \<and> sa_lifecycle a = AssignmentActive) assignments"

definition suspendMembershipAccess ::
  "membership \<Rightarrow> int \<Rightarrow> store_assignment list \<Rightarrow> (string \<Rightarrow> int option) \<Rightarrow> js \<Rightarrow> membership_suspension res" where
  "suspendMembershipAccess m expectedVersion assignments expectedVersions at =
     bnd (parseMembershipInstant at) (\<lambda>occurredAt.
     bnd (throw_if (list_ex (\<lambda>a. expectedVersions (sa_storeAssignmentReference a) \<noteq> Some (sa_version a))
                      (active_of m assignments)) (membership_error STORE_ASSIGNMENT_VERSION_CONFLICT)) (\<lambda>_.
     bnd (transitionMembership m expectedVersion MemberSuspended (JStr occurredAt)) (\<lambda>suspended.
     bnd (map_res (\<lambda>a. if sa_storeAssignmentReference a \<in> sa_storeAssignmentReference ` set (active_of m assignments)
                       then transitionStoreAssignment a (sa_version a) AssignmentSuspended (JStr occurredAt) else Inr a)
            assignments) (\<lambda>assignments'.
     Inr \<lparr>su_membership = suspended, su_assignments = assignments',
       su_invalidation = \<lparr>iv_membershipReference = mb_membershipReference m, iv_actorReference = mb_actorReference m,
         iv_storeAssignmentReferences = map sa_storeAssignmentReference (active_of m assignments),
         iv_occurredAt = occurredAt\<rparr>\<rparr>))))"

section \<open>Lemmas\<close>

lemma membership_parse_Inr [res_simps]:
  "parseMembershipInstant v = Inr s \<longleftrightarrow> v = JStr s \<and> canonical_instant s"
  "membership_uuid v code = Inr s \<longleftrightarrow> v = JStr s \<and> uuid_v7 s"
  "parseMembershipReference v = Inr s \<longleftrightarrow> v = JStr s \<and> uuid_v7 s"
  "parseStoreAssignmentReference v = Inr s \<longleftrightarrow> v = JStr s \<and> uuid_v7 s"
  "parseWorkforceRelationshipReference v = Inr s \<longleftrightarrow> v = JStr s \<and> uuid_v7 s"
  by (simp_all add: parseMembershipInstant_def membership_uuid_def parseMembershipReference_def
      parseStoreAssignmentReference_def parseWorkforceRelationshipReference_def res_simps)

lemma the_match_Inr: "the_match xs none many = Inr x \<longleftrightarrow> xs = [x]"
  by (auto simp: the_match_def split: list.splits)

lemma resolveActiveMembership_Inr:
  assumes "resolveActiveMembership ms actor brand (JStr t) = Inr m"
  shows "m \<in> set ms" "member_matches actor brand (ms_of t) m"
proof -
  from assms have "filter (member_matches actor brand (ms_of t)) ms = [m]"
    by (auto simp: resolveActiveMembership_def bnd_eq_Inr membership_parse_Inr the_match_Inr)
  then have "m \<in> set (filter (member_matches actor brand (ms_of t)) ms)" by simp
  then show "m \<in> set ms" "member_matches actor brand (ms_of t) m" by simp_all
qed

lemma resolveActiveStoreAssignment_Inr:
  assumes "resolveActiveStoreAssignment m as shop (JStr t) = Inr a"
  shows "a \<in> set as" "assignment_matches m shop (ms_of t) a" "mb_lifecycle m = MemberActive"
proof -
  from assms have f: "filter (assignment_matches m shop (ms_of t)) as = [a]" and l: "mb_lifecycle m = MemberActive"
    by (auto simp: resolveActiveStoreAssignment_def bnd_eq_Inr membership_parse_Inr the_match_Inr throw_if_eq_Inr)
  then have "a \<in> set (filter (assignment_matches m shop (ms_of t)) as)" by simp
  with l show "a \<in> set as" "assignment_matches m shop (ms_of t) a" "mb_lifecycle m = MemberActive" by simp_all
qed

lemma transitionMembership_Inr:
  "transitionMembership m e target v = Inr m' \<longleftrightarrow>
     (\<exists>t. v = JStr t \<and> canonical_instant t \<and> mb_version m = e \<and> target \<in> set (membershipTransitions (mb_lifecycle m)) \<and>
        (target = MemberActive \<longrightarrow> mb_workforceRelationshipReference m \<noteq> None) \<and> ms_of (mb_updatedAt m) \<le> ms_of t \<and>
        m' = m\<lparr>mb_lifecycle := target, mb_version := mb_version m + 1, mb_updatedAt := t\<rparr>)"
  by (auto simp: transitionMembership_def bnd_eq_Inr throw_if_eq_Inr membership_parse_Inr)

lemma transitionStoreAssignment_Inr:
  "transitionStoreAssignment a e target v = Inr a' \<longleftrightarrow>
     (\<exists>t. v = JStr t \<and> canonical_instant t \<and> sa_version a = e \<and> target \<in> set (assignmentTransitions (sa_lifecycle a)) \<and>
        ms_of (sa_updatedAt a) \<le> ms_of t \<and>
        a' = a\<lparr>sa_lifecycle := target, sa_version := sa_version a + 1, sa_updatedAt := t\<rparr>)"
  by (auto simp: transitionStoreAssignment_def bnd_eq_Inr throw_if_eq_Inr membership_parse_Inr)

end
