(* ===== verification/PermissionPolicy.thy ===== *)
theory PermissionPolicy
  imports Membership
begin

text \<open>
  The facts of the permission policy: \<open>packages/bop/permission/src/domain/permission-policy.ts\<close>. Definitions,
  roles, assignments, grants and overrides with their lifecycles. That a fact handed back to a function is
  frozen, as every function here leaves it, is taken for granted of the typed arguments.
\<close>

section \<open>Data\<close>

datatype definition_lifecycle = DefinitionActive | DefinitionRetired

datatype role_lifecycle = RoleActive | RoleSuspended | RoleRetired

datatype role_assignment_lifecycle = RoleAssignmentActive | RoleAssignmentSuspended | RoleAssignmentEnded

datatype grant_lifecycle = GrantActive | GrantRevoked

datatype override_lifecycle = OverrideActive | OverrideRevoked

datatype override_effect = DenyEffect | AllowEffect

record membership_fact =
  mf_membershipReference :: string
  mf_actorReference :: string
  mf_brandReference :: string

record store_assignment_fact =
  sf_storeAssignmentReference :: string
  sf_membershipReference :: string
  sf_actorReference :: string
  sf_brandReference :: string
  sf_storeReference :: string

record permission_definition =
  pd_permissionReference :: string
  pd_action :: string
  pd_lifecycle :: definition_lifecycle
  pd_version :: int
  pd_createdAt :: string
  pd_updatedAt :: string

record policy_state =
  ps_brandReference :: string
  ps_snapshotReference :: string
  ps_version :: int
  ps_updatedAt :: string

record permission_role =
  rl_roleReference :: string
  rl_brandReference :: string
  rl_storeReference :: "string option"
  rl_code :: string
  rl_lifecycle :: role_lifecycle
  rl_effectiveFrom :: string
  rl_effectiveUntil :: "string option"
  rl_version :: int
  rl_createdAt :: string
  rl_updatedAt :: string

record role_assignment =
  rs_assignmentReference :: string
  rs_roleReference :: string
  rs_membershipReference :: string
  rs_storeAssignmentReference :: "string option"
  rs_actorReference :: string
  rs_brandReference :: string
  rs_storeReference :: "string option"
  rs_lifecycle :: role_assignment_lifecycle
  rs_effectiveFrom :: string
  rs_effectiveUntil :: "string option"
  rs_version :: int
  rs_createdAt :: string
  rs_updatedAt :: string

record permission_grant =
  gt_grantReference :: string
  gt_roleReference :: string
  gt_permissionReference :: string
  gt_action :: string
  gt_brandReference :: string
  gt_storeReference :: "string option"
  gt_lifecycle :: grant_lifecycle
  gt_effectiveFrom :: string
  gt_effectiveUntil :: "string option"
  gt_version :: int
  gt_createdAt :: string
  gt_updatedAt :: string

record permission_override =
  ov_overrideReference :: string
  ov_permissionReference :: string
  ov_action :: string
  ov_actorReference :: string
  ov_brandReference :: string
  ov_storeReference :: "string option"
  ov_effect :: override_effect
  ov_lifecycle :: override_lifecycle
  ov_reasonReference :: string
  ov_correlationReference :: string
  ov_effectiveFrom :: string
  ov_effectiveUntil :: "string option"
  ov_version :: int
  ov_createdAt :: string
  ov_updatedAt :: string

section \<open>Values\<close>

definition policy_error :: "permission_policy_code \<Rightarrow> err" where
  "policy_error code = PermissionPolicyContractError code"

definition policy_uuid :: "js \<Rightarrow> string res" where
  "policy_uuid v = or_throw (str_if uuid_v7 v) (policy_error PERMISSION_POLICY_INPUT_INVALID)"

definition policy_instant :: "js \<Rightarrow> string res" where
  "policy_instant v = catching (parseCanonicalInstant v) (\<lambda>_. Inl (policy_error PERMISSION_POLICY_INPUT_INVALID))"

definition policy_version :: "js \<Rightarrow> int res" where
  "policy_version v = or_throw (safe_int_in 1 max_safe v) (policy_error PERMISSION_POLICY_INPUT_INVALID)"

definition policy_closed :: "js \<Rightarrow> string list \<Rightarrow> unit res" where
  "policy_closed v keys = throw_if (\<not> has_shape v keys) (policy_error PERMISSION_POLICY_SHAPE_INVALID)"

definition policy_enum :: "(string \<times> 'a) list \<Rightarrow> js \<Rightarrow> 'a res" where
  "policy_enum tab v = or_throw (enum_of tab v) (policy_error PERMISSION_POLICY_SHAPE_INVALID)"

definition policy_period :: "js \<Rightarrow> js \<Rightarrow> (string \<times> string option) res" where
  "policy_period fromInput untilInput =
     bnd (policy_instant fromInput) (\<lambda>start.
     bnd (nullable policy_instant untilInput) (\<lambda>ends.
     bnd (throw_if (case ends of None \<Rightarrow> False | Some u \<Rightarrow> ms_of u \<le> ms_of start)
            (policy_error PERMISSION_POLICY_SHAPE_INVALID)) (\<lambda>_.
     Inr (start, ends))))"

definition policy_timestamps :: "js \<Rightarrow> js \<Rightarrow> (string \<times> string) res" where
  "policy_timestamps createdInput updatedInput =
     bnd (policy_instant createdInput) (\<lambda>createdAt.
     bnd (policy_instant updatedInput) (\<lambda>updatedAt.
     bnd (throw_if (ms_of updatedAt < ms_of createdAt) (policy_error PERMISSION_POLICY_SHAPE_INVALID)) (\<lambda>_.
     Inr (createdAt, updatedAt))))"

text \<open>\<open>/^[a-z][a-z0-9]*(?:\.[a-z][a-z0-9]*){1,7}$/u\<close>: two to eight words separated by dots.\<close>

fun split_dots :: "string \<Rightarrow> string list" where
  "split_dots [] = [[]]"
| "split_dots (c # cs) =
     (if c = CHR ''.'' then [] # split_dots cs
      else case split_dots cs of [] \<Rightarrow> [[c]] | w # ws \<Rightarrow> (c # w) # ws)"

definition action_word :: "string \<Rightarrow> bool" where
  "action_word w \<longleftrightarrow> w \<noteq> [] \<and> is_lower (hd w) \<and> list_all (\<lambda>c. is_lower c \<or> is_digit c) w"

definition action_format :: "string \<Rightarrow> bool" where
  "action_format s \<longleftrightarrow> length s \<le> 128 \<and>
     (let ws = split_dots s in 2 \<le> length ws \<and> length ws \<le> 8 \<and> list_all action_word ws)"

text \<open>\<open>/^[a-z][a-z0-9_]{1,62}[a-z0-9]$/u\<close>\<close>

definition role_code_format :: "string \<Rightarrow> bool" where
  "role_code_format s \<longleftrightarrow> 3 \<le> length s \<and> length s \<le> 64 \<and> is_lower (hd s) \<and>
     list_all (\<lambda>c. is_lower c \<or> is_digit c \<or> c = CHR ''_'') s \<and> (is_lower (last s) \<or> is_digit (last s))"

definition policy_action :: "js \<Rightarrow> string res" where
  "policy_action v = or_throw (str_if action_format v) (policy_error PERMISSION_POLICY_INPUT_INVALID)"

definition parseRoleCode :: "js \<Rightarrow> string res" where
  "parseRoleCode v = or_throw (str_if role_code_format v) (policy_error PERMISSION_POLICY_INPUT_INVALID)"

definition definition_lifecycles :: "(string \<times> definition_lifecycle) list" where
  "definition_lifecycles = [(''Active'', DefinitionActive), (''Retired'', DefinitionRetired)]"

definition role_lifecycles :: "(string \<times> role_lifecycle) list" where
  "role_lifecycles = [(''Active'', RoleActive), (''Suspended'', RoleSuspended), (''Retired'', RoleRetired)]"

definition role_assignment_lifecycles :: "(string \<times> role_assignment_lifecycle) list" where
  "role_assignment_lifecycles = [(''Active'', RoleAssignmentActive), (''Suspended'', RoleAssignmentSuspended),
     (''Ended'', RoleAssignmentEnded)]"

definition grant_lifecycles :: "(string \<times> grant_lifecycle) list" where
  "grant_lifecycles = [(''Active'', GrantActive), (''Revoked'', GrantRevoked)]"

definition override_lifecycles :: "(string \<times> override_lifecycle) list" where
  "override_lifecycles = [(''Active'', OverrideActive), (''Revoked'', OverrideRevoked)]"

definition override_effects :: "(string \<times> override_effect) list" where
  "override_effects = [(''Deny'', DenyEffect), (''Allow'', AllowEffect)]"

section \<open>Creation\<close>

definition createPermissionDefinition :: "js \<Rightarrow> permission_definition res" where
  "createPermissionDefinition v =
     bnd (policy_closed v [''permissionReference'', ''action'', ''lifecycle'', ''version'', ''createdAt'', ''updatedAt'']) (\<lambda>_.
     bnd (policy_timestamps (fld v ''createdAt'') (fld v ''updatedAt'')) (\<lambda>(createdAt, updatedAt).
     bnd (policy_uuid (fld v ''permissionReference'')) (\<lambda>ref.
     bnd (policy_action (fld v ''action'')) (\<lambda>action.
     bnd (policy_enum definition_lifecycles (fld v ''lifecycle'')) (\<lambda>life.
     bnd (policy_version (fld v ''version'')) (\<lambda>version.
     Inr \<lparr>pd_permissionReference = ref, pd_action = action, pd_lifecycle = life, pd_version = version,
       pd_createdAt = createdAt, pd_updatedAt = updatedAt\<rparr>))))))"

definition policy_brand :: "js \<Rightarrow> brand res" where
  "policy_brand v = catching (createBrand v) (\<lambda>_. Inl (policy_error PERMISSION_POLICY_DEPENDENCY_INVALID))"

definition createPolicyState :: "js \<Rightarrow> js \<Rightarrow> policy_state res" where
  "createPolicyState v brandInput =
     bnd (policy_closed v [''brandReference'', ''snapshotReference'', ''version'', ''updatedAt'']) (\<lambda>_.
     bnd (policy_brand brandInput) (\<lambda>brand.
     bnd (throw_if (br_lifecycle brand \<noteq> OrgActive \<or> fld v ''brandReference'' \<noteq> JStr (br_brandReference brand))
            (policy_error PERMISSION_POLICY_SCOPE_INVALID)) (\<lambda>_.
     bnd (policy_uuid (fld v ''snapshotReference'')) (\<lambda>snapshot.
     bnd (policy_version (fld v ''version'')) (\<lambda>version.
     bnd (policy_instant (fld v ''updatedAt'')) (\<lambda>updatedAt.
     Inr \<lparr>ps_brandReference = br_brandReference brand, ps_snapshotReference = snapshot, ps_version = version,
       ps_updatedAt = updatedAt\<rparr>))))))"

definition role_scope_bad :: "js \<Rightarrow> brand \<Rightarrow> shop option \<Rightarrow> bool" where
  "role_scope_bad v brand shop \<longleftrightarrow>
     br_lifecycle brand \<noteq> OrgActive \<or> fld v ''brandReference'' \<noteq> JStr (br_brandReference brand) \<or>
     fld v ''storeReference'' \<noteq> js_opt JStr (map_option sh_storeReference shop) \<or>
     (case shop of None \<Rightarrow> False
      | Some s \<Rightarrow> sh_lifecycle s \<noteq> OrgActive \<or> sh_brandReference s \<noteq> br_brandReference brand)"

definition createPermissionRole :: "host \<Rightarrow> js \<Rightarrow> js \<Rightarrow> js \<Rightarrow> permission_role res" where
  "createPermissionRole h v brandInput storeInput =
     bnd (policy_closed v [''roleReference'', ''brandReference'', ''storeReference'', ''code'', ''lifecycle'',
            ''effectiveFrom'', ''effectiveUntil'', ''version'', ''createdAt'', ''updatedAt'']) (\<lambda>_.
     bnd (policy_brand brandInput) (\<lambda>brand.
     bnd (catching (nullable (createStore h) storeInput)
            (\<lambda>_. Inl (policy_error PERMISSION_POLICY_DEPENDENCY_INVALID))) (\<lambda>shop.
     bnd (throw_if (role_scope_bad v brand shop) (policy_error PERMISSION_POLICY_SCOPE_INVALID)) (\<lambda>_.
     bnd (policy_period (fld v ''effectiveFrom'') (fld v ''effectiveUntil'')) (\<lambda>(start, ends).
     bnd (policy_timestamps (fld v ''createdAt'') (fld v ''updatedAt'')) (\<lambda>(createdAt, updatedAt).
     bnd (policy_uuid (fld v ''roleReference'')) (\<lambda>ref.
     bnd (parseRoleCode (fld v ''code'')) (\<lambda>code.
     bnd (policy_enum role_lifecycles (fld v ''lifecycle'')) (\<lambda>life.
     bnd (policy_version (fld v ''version'')) (\<lambda>version.
     Inr \<lparr>rl_roleReference = ref, rl_brandReference = br_brandReference brand,
       rl_storeReference = map_option sh_storeReference shop, rl_code = code, rl_lifecycle = life,
       rl_effectiveFrom = start, rl_effectiveUntil = ends, rl_version = version, rl_createdAt = createdAt,
       rl_updatedAt = updatedAt\<rparr>))))))))))"

text \<open>\<open>role.storeReference === null ? null : storeAssignment?.storeAssignmentReference\<close>\<close>

definition expected_store_assignment :: "permission_role \<Rightarrow> store_assignment_fact option \<Rightarrow> js" where
  "expected_store_assignment role sa =
     (if rl_storeReference role = None then JNull
      else case sa of None \<Rightarrow> JUndefined | Some f \<Rightarrow> JStr (sf_storeAssignmentReference f))"

definition role_assignment_bad ::
  "js \<Rightarrow> permission_role \<Rightarrow> membership_fact \<Rightarrow> store_assignment_fact option \<Rightarrow> bool" where
  "role_assignment_bad v role m sa \<longleftrightarrow>
     fld v ''roleReference'' \<noteq> JStr (rl_roleReference role) \<or>
     fld v ''membershipReference'' \<noteq> JStr (mf_membershipReference m) \<or>
     fld v ''storeAssignmentReference'' \<noteq> expected_store_assignment role sa \<or>
     fld v ''actorReference'' \<noteq> JStr (mf_actorReference m) \<or>
     fld v ''brandReference'' \<noteq> JStr (rl_brandReference role) \<or> mf_brandReference m \<noteq> rl_brandReference role \<or>
     fld v ''storeReference'' \<noteq> js_opt JStr (rl_storeReference role) \<or>
     (rl_storeReference role \<noteq> None \<and>
      (case sa of None \<Rightarrow> True
       | Some f \<Rightarrow> sf_membershipReference f \<noteq> mf_membershipReference m \<or> sf_actorReference f \<noteq> mf_actorReference m \<or>
           sf_brandReference f \<noteq> rl_brandReference role \<or> Some (sf_storeReference f) \<noteq> rl_storeReference role))"

definition createRoleAssignment ::
  "js \<Rightarrow> permission_role \<Rightarrow> membership_fact \<Rightarrow> store_assignment_fact option \<Rightarrow> role_assignment res" where
  "createRoleAssignment v role m sa =
     bnd (policy_closed v [''assignmentReference'', ''roleReference'', ''membershipReference'',
            ''storeAssignmentReference'', ''actorReference'', ''brandReference'', ''storeReference'', ''lifecycle'',
            ''effectiveFrom'', ''effectiveUntil'', ''version'', ''createdAt'', ''updatedAt'']) (\<lambda>_.
     bnd (throw_if (role_assignment_bad v role m sa) (policy_error PERMISSION_POLICY_DEPENDENCY_INVALID)) (\<lambda>_.
     bnd (policy_period (fld v ''effectiveFrom'') (fld v ''effectiveUntil'')) (\<lambda>(start, ends).
     bnd (policy_timestamps (fld v ''createdAt'') (fld v ''updatedAt'')) (\<lambda>(createdAt, updatedAt).
     bnd (policy_uuid (fld v ''assignmentReference'')) (\<lambda>ref.
     bnd (policy_enum role_assignment_lifecycles (fld v ''lifecycle'')) (\<lambda>life.
     bnd (policy_version (fld v ''version'')) (\<lambda>version.
     Inr \<lparr>rs_assignmentReference = ref, rs_roleReference = rl_roleReference role,
       rs_membershipReference = mf_membershipReference m,
       rs_storeAssignmentReference =
         (if rl_storeReference role = None then None else map_option sf_storeAssignmentReference sa),
       rs_actorReference = mf_actorReference m, rs_brandReference = rl_brandReference role,
       rs_storeReference = rl_storeReference role, rs_lifecycle = life, rs_effectiveFrom = start,
       rs_effectiveUntil = ends, rs_version = version, rs_createdAt = createdAt, rs_updatedAt = updatedAt\<rparr>)))))))"

definition createPermissionGrant :: "js \<Rightarrow> permission_role \<Rightarrow> permission_definition \<Rightarrow> permission_grant res" where
  "createPermissionGrant v role permission =
     bnd (policy_closed v [''grantReference'', ''roleReference'', ''permissionReference'', ''action'',
            ''brandReference'', ''storeReference'', ''lifecycle'', ''effectiveFrom'', ''effectiveUntil'', ''version'',
            ''createdAt'', ''updatedAt'']) (\<lambda>_.
     bnd (throw_if (fld v ''roleReference'' \<noteq> JStr (rl_roleReference role) \<or>
                    fld v ''permissionReference'' \<noteq> JStr (pd_permissionReference permission) \<or>
                    fld v ''action'' \<noteq> JStr (pd_action permission) \<or>
                    fld v ''brandReference'' \<noteq> JStr (rl_brandReference role) \<or>
                    fld v ''storeReference'' \<noteq> js_opt JStr (rl_storeReference role))
            (policy_error PERMISSION_POLICY_DEPENDENCY_INVALID)) (\<lambda>_.
     bnd (policy_period (fld v ''effectiveFrom'') (fld v ''effectiveUntil'')) (\<lambda>(start, ends).
     bnd (policy_timestamps (fld v ''createdAt'') (fld v ''updatedAt'')) (\<lambda>(createdAt, updatedAt).
     bnd (policy_uuid (fld v ''grantReference'')) (\<lambda>ref.
     bnd (policy_enum grant_lifecycles (fld v ''lifecycle'')) (\<lambda>life.
     bnd (policy_version (fld v ''version'')) (\<lambda>version.
     Inr \<lparr>gt_grantReference = ref, gt_roleReference = rl_roleReference role,
       gt_permissionReference = pd_permissionReference permission, gt_action = pd_action permission,
       gt_brandReference = rl_brandReference role, gt_storeReference = rl_storeReference role,
       gt_lifecycle = life, gt_effectiveFrom = start, gt_effectiveUntil = ends, gt_version = version,
       gt_createdAt = createdAt, gt_updatedAt = updatedAt\<rparr>)))))))"

definition createPermissionOverride :: "js \<Rightarrow> permission_definition \<Rightarrow> permission_override res" where
  "createPermissionOverride v permission =
     bnd (policy_closed v [''overrideReference'', ''permissionReference'', ''action'', ''actorReference'',
            ''brandReference'', ''storeReference'', ''effect'', ''lifecycle'', ''reasonReference'',
            ''correlationReference'', ''effectiveFrom'', ''effectiveUntil'', ''version'', ''createdAt'', ''updatedAt'']) (\<lambda>_.
     bnd (throw_if (fld v ''permissionReference'' \<noteq> JStr (pd_permissionReference permission) \<or>
                    fld v ''action'' \<noteq> JStr (pd_action permission))
            (policy_error PERMISSION_POLICY_DEPENDENCY_INVALID)) (\<lambda>_.
     bnd (policy_period (fld v ''effectiveFrom'') (fld v ''effectiveUntil'')) (\<lambda>(start, ends).
     bnd (policy_timestamps (fld v ''createdAt'') (fld v ''updatedAt'')) (\<lambda>(createdAt, updatedAt).
     bnd (policy_uuid (fld v ''overrideReference'')) (\<lambda>ref.
     bnd (policy_uuid (fld v ''actorReference'')) (\<lambda>actor.
     bnd (policy_uuid (fld v ''brandReference'')) (\<lambda>brand.
     bnd (nullable policy_uuid (fld v ''storeReference'')) (\<lambda>shop.
     bnd (policy_enum override_effects (fld v ''effect'')) (\<lambda>effect.
     bnd (policy_enum override_lifecycles (fld v ''lifecycle'')) (\<lambda>life.
     bnd (policy_uuid (fld v ''reasonReference'')) (\<lambda>reason.
     bnd (policy_uuid (fld v ''correlationReference'')) (\<lambda>correlation.
     bnd (policy_version (fld v ''version'')) (\<lambda>version.
     Inr \<lparr>ov_overrideReference = ref, ov_permissionReference = pd_permissionReference permission,
       ov_action = pd_action permission, ov_actorReference = actor, ov_brandReference = brand,
       ov_storeReference = shop, ov_effect = effect, ov_lifecycle = life, ov_reasonReference = reason,
       ov_correlationReference = correlation, ov_effectiveFrom = start, ov_effectiveUntil = ends,
       ov_version = version, ov_createdAt = createdAt, ov_updatedAt = updatedAt\<rparr>)))))))))))))"

section \<open>Transitions\<close>

definition policy_transition :: "int \<Rightarrow> string \<Rightarrow> int \<Rightarrow> js \<Rightarrow> string res" where
  "policy_transition version updated expectedVersion at =
     bnd (throw_if (version \<noteq> expectedVersion) (policy_error PERMISSION_POLICY_VERSION_CONFLICT)) (\<lambda>_.
     bnd (policy_instant at) (\<lambda>t.
     bnd (throw_if (ms_of t < ms_of updated) (policy_error PERMISSION_POLICY_TRANSITION_INVALID)) (\<lambda>_. Inr t)))"

definition refuse_transition :: "bool \<Rightarrow> unit res" where
  "refuse_transition c = throw_if c (policy_error PERMISSION_POLICY_TRANSITION_INVALID)"

definition transitionPermissionDefinition ::
  "permission_definition \<Rightarrow> int \<Rightarrow> definition_lifecycle \<Rightarrow> js \<Rightarrow> permission_definition res" where
  "transitionPermissionDefinition d expectedVersion target at =
     bnd (refuse_transition (pd_lifecycle d \<noteq> DefinitionActive \<or> target \<noteq> DefinitionRetired)) (\<lambda>_.
     bnd (policy_transition (pd_version d) (pd_updatedAt d) expectedVersion at) (\<lambda>t.
     Inr (d\<lparr>pd_lifecycle := target, pd_version := pd_version d + 1, pd_updatedAt := t\<rparr>)))"

definition role_transitions :: "role_lifecycle \<Rightarrow> role_lifecycle list" where
  "role_transitions l = (case l of RoleActive \<Rightarrow> [RoleSuspended, RoleRetired]
     | RoleSuspended \<Rightarrow> [RoleActive, RoleRetired] | RoleRetired \<Rightarrow> [])"

definition transitionPermissionRole :: "permission_role \<Rightarrow> int \<Rightarrow> role_lifecycle \<Rightarrow> js \<Rightarrow> permission_role res" where
  "transitionPermissionRole r expectedVersion target at =
     bnd (refuse_transition (target \<notin> set (role_transitions (rl_lifecycle r)))) (\<lambda>_.
     bnd (policy_transition (rl_version r) (rl_updatedAt r) expectedVersion at) (\<lambda>t.
     Inr (r\<lparr>rl_lifecycle := target, rl_version := rl_version r + 1, rl_updatedAt := t\<rparr>)))"

definition role_assignment_transitions :: "role_assignment_lifecycle \<Rightarrow> role_assignment_lifecycle list" where
  "role_assignment_transitions l = (case l of RoleAssignmentActive \<Rightarrow> [RoleAssignmentSuspended, RoleAssignmentEnded]
     | RoleAssignmentSuspended \<Rightarrow> [RoleAssignmentActive, RoleAssignmentEnded] | RoleAssignmentEnded \<Rightarrow> [])"

definition transitionRoleAssignment ::
  "role_assignment \<Rightarrow> int \<Rightarrow> role_assignment_lifecycle \<Rightarrow> js \<Rightarrow> role_assignment res" where
  "transitionRoleAssignment r expectedVersion target at =
     bnd (refuse_transition (target \<notin> set (role_assignment_transitions (rs_lifecycle r)))) (\<lambda>_.
     bnd (policy_transition (rs_version r) (rs_updatedAt r) expectedVersion at) (\<lambda>t.
     Inr (r\<lparr>rs_lifecycle := target, rs_version := rs_version r + 1, rs_updatedAt := t\<rparr>)))"

definition revokePermissionGrant :: "permission_grant \<Rightarrow> int \<Rightarrow> js \<Rightarrow> permission_grant res" where
  "revokePermissionGrant g expectedVersion at =
     bnd (refuse_transition (gt_lifecycle g \<noteq> GrantActive)) (\<lambda>_.
     bnd (policy_transition (gt_version g) (gt_updatedAt g) expectedVersion at) (\<lambda>t.
     Inr (g\<lparr>gt_lifecycle := GrantRevoked, gt_version := gt_version g + 1, gt_updatedAt := t\<rparr>)))"

definition revokePermissionOverride :: "permission_override \<Rightarrow> int \<Rightarrow> js \<Rightarrow> permission_override res" where
  "revokePermissionOverride o' expectedVersion at =
     bnd (refuse_transition (ov_lifecycle o' \<noteq> OverrideActive)) (\<lambda>_.
     bnd (policy_transition (ov_version o') (ov_updatedAt o') expectedVersion at) (\<lambda>t.
     Inr (o'\<lparr>ov_lifecycle := OverrideRevoked, ov_version := ov_version o' + 1, ov_updatedAt := t\<rparr>)))"

definition advancePolicyState :: "policy_state \<Rightarrow> int \<Rightarrow> js \<Rightarrow> js \<Rightarrow> policy_state res" where
  "advancePolicyState s expectedVersion nextSnapshotInput updatedAtInput =
     bnd (throw_if (ps_version s \<noteq> expectedVersion) (policy_error PERMISSION_POLICY_VERSION_CONFLICT)) (\<lambda>_.
     bnd (policy_uuid nextSnapshotInput) (\<lambda>snapshot.
     bnd (refuse_transition (snapshot = ps_snapshotReference s)) (\<lambda>_.
     bnd (policy_instant updatedAtInput) (\<lambda>t.
     bnd (refuse_transition (ms_of t < ms_of (ps_updatedAt s))) (\<lambda>_.
     Inr (s\<lparr>ps_snapshotReference := snapshot, ps_version := ps_version s + 1, ps_updatedAt := t\<rparr>))))))"

end
