(* ===== verification/PermissionEvaluation.thy ===== *)
theory PermissionEvaluation
  imports PermissionPolicy JsonText "HOL-Library.List_Lexorder"
begin

text \<open>
  Decisions: the evaluation of a request over its evidence
  (\<open>packages/bop/permission/src/contracts/permission-evaluation.ts\<close>,
  \<open>packages/bop/permission/src/application/evaluate-permission.ts\<close>) and the evidence that the policy facts
  of an actor give (\<open>packages/bop/permission/src/application/materialize-policy-evidence.ts\<close>).
\<close>

section \<open>Evidence and decisions\<close>

datatype evidence_source = ExplicitDeny | ExplicitAllow | RolePermission

datatype decision_effect = Allow | Deny

datatype decision_reason = EXPLICIT_DENY | EXPLICIT_ALLOW | ROLE_PERMISSION | DEFAULT_DENY | INVALID_POLICY_EVIDENCE

datatype decision_source = FromEvidence evidence_source | DefaultDeny | InvalidPolicy

record permission_evidence =
  pe_source :: evidence_source
  pe_evidenceReference :: string
  pe_action :: string
  pe_actorReference :: string
  pe_roleReference :: "string option"
  pe_brandReference :: string
  pe_storeReference :: "string option"
  pe_effectiveFrom :: string
  pe_effectiveUntil :: "string option"

record resource_scope =
  sc_kind :: string
  sc_brandReference :: string
  sc_storeReference :: "string option"

text \<open>The audit entry of a decision repeats its effect, reason and source.\<close>

record permission_decision =
  dc_effect :: decision_effect
  dc_reason :: decision_reason
  dc_source :: decision_source
  dc_action :: string
  dc_scopeKind :: string
  dc_policySnapshotReference :: string
  dc_policyVersion :: int

definition evaluation_error :: "permission_evaluation_code \<Rightarrow> err" where
  "evaluation_error code = PermissionEvaluationContractError code"

definition evaluation_uuid :: "js \<Rightarrow> string res" where
  "evaluation_uuid v = or_throw (str_if uuid_v7 v) (evaluation_error PERMISSION_REQUEST_INVALID)"

definition parseBusinessAction :: "js \<Rightarrow> string res" where
  "parseBusinessAction v = or_throw (str_if action_format v) (evaluation_error PERMISSION_REQUEST_INVALID)"

definition parsePolicyVersion :: "js \<Rightarrow> int res" where
  "parsePolicyVersion v = or_throw (safe_int_in 1 max_safe v) (evaluation_error PERMISSION_REQUEST_INVALID)"

definition parseEvidenceInstant :: "js \<Rightarrow> string res" where
  "parseEvidenceInstant v = catching (parseCanonicalInstant v) (\<lambda>_. Inl (evaluation_error PERMISSION_REQUEST_INVALID))"

text \<open>The context is built again from its parts; whatever goes wrong, it is an invalid context.\<close>

definition revalidateTenantContext :: "host \<Rightarrow> js \<Rightarrow> tenant_context res" where
  "revalidateTenantContext h v =
     catching
       (bnd (throw_if (\<not> host_frozen h v) (evaluation_error PERMISSION_CONTEXT_INVALID)) (\<lambda>_.
        bnd (get_prop v ''actor'') (\<lambda>actor.
        createTenantContext h actor (fld v ''brand'') (fld v ''store'') (fld v ''resolvedAt''))))
       (\<lambda>_. Inl (evaluation_error PERMISSION_CONTEXT_INVALID))"

section \<open>Evaluation\<close>

definition evaluation_plain :: "js \<Rightarrow> string list \<Rightarrow> unit res" where
  "evaluation_plain v keys = throw_if (\<not> has_shape v keys) (evaluation_error PERMISSION_REQUEST_INVALID)"

definition evaluation_scope :: "js \<Rightarrow> tenant_context \<Rightarrow> resource_scope res" where
  "evaluation_scope v ctx =
     bnd (evaluation_plain v [''kind'', ''brandReference'', ''storeReference'']) (\<lambda>_.
     bnd (throw_if (fld v ''kind'' \<noteq> JStr (tc_scopeKind ctx) \<or>
                    fld v ''brandReference'' \<noteq> JStr (br_brandReference (tc_brand ctx)) \<or>
                    fld v ''storeReference'' \<noteq> js_opt JStr (tc_storeReference ctx))
            (evaluation_error PERMISSION_REQUEST_INVALID)) (\<lambda>_.
     Inr \<lparr>sc_kind = tc_scopeKind ctx, sc_brandReference = br_brandReference (tc_brand ctx),
       sc_storeReference = tc_storeReference ctx\<rparr>))"

definition evidence_sources :: "(string \<times> evidence_source) list" where
  "evidence_sources = [(''ExplicitDeny'', ExplicitDeny), (''ExplicitAllow'', ExplicitAllow),
     (''RolePermission'', RolePermission)]"

definition any_string :: "js \<Rightarrow> string res" where
  "any_string v = or_throw (str_if (\<lambda>_. True) v) (evaluation_error PERMISSION_REQUEST_INVALID)"

definition permission_evidence_of :: "js \<Rightarrow> permission_evidence res" where
  "permission_evidence_of v =
     bnd (evaluation_plain v [''source'', ''evidenceReference'', ''action'', ''actorReference'', ''roleReference'',
            ''brandReference'', ''storeReference'', ''effectiveFrom'', ''effectiveUntil'']) (\<lambda>_.
     bnd (or_throw (enum_of evidence_sources (fld v ''source'')) (evaluation_error PERMISSION_REQUEST_INVALID)) (\<lambda>source.
     bnd (any_string (fld v ''actorReference'')) (\<lambda>actor.
     bnd (any_string (fld v ''brandReference'')) (\<lambda>brand.
     bnd (nullable any_string (fld v ''storeReference'')) (\<lambda>shop.
     bnd (throw_if ((source = RolePermission) \<noteq> (fld v ''roleReference'' \<noteq> JNull))
            (evaluation_error PERMISSION_REQUEST_INVALID)) (\<lambda>_.
     bnd (parseEvidenceInstant (fld v ''effectiveFrom'')) (\<lambda>start.
     bnd (nullable parseEvidenceInstant (fld v ''effectiveUntil'')) (\<lambda>ends.
     bnd (throw_if (case ends of None \<Rightarrow> False | Some u \<Rightarrow> ms_of u \<le> ms_of start)
            (evaluation_error PERMISSION_REQUEST_INVALID)) (\<lambda>_.
     bnd (evaluation_uuid (fld v ''evidenceReference'')) (\<lambda>ref.
     bnd (parseBusinessAction (fld v ''action'')) (\<lambda>action.
     bnd (nullable evaluation_uuid (fld v ''roleReference'')) (\<lambda>role.
     Inr \<lparr>pe_source = source, pe_evidenceReference = ref, pe_action = action, pe_actorReference = actor,
       pe_roleReference = role, pe_brandReference = brand, pe_storeReference = shop, pe_effectiveFrom = start,
       pe_effectiveUntil = ends\<rparr>))))))))))))"

definition evidence_source_name :: "evidence_source \<Rightarrow> string" where
  "evidence_source_name s = (case s of ExplicitDeny \<Rightarrow> ''ExplicitDeny'' | ExplicitAllow \<Rightarrow> ''ExplicitAllow''
     | RolePermission \<Rightarrow> ''RolePermission'')"

definition json_nullable :: "string option \<Rightarrow> string" where
  "json_nullable s = (case s of None \<Rightarrow> ''null'' | Some t \<Rightarrow> json_text t)"

text \<open>\<open>JSON.stringify(evidence)\<close>\<close>

definition evidence_text :: "permission_evidence \<Rightarrow> string" where
  "evidence_text e = json_object
     [(''source'', json_text (evidence_source_name (pe_source e))),
      (''evidenceReference'', json_text (pe_evidenceReference e)),
      (''action'', json_text (pe_action e)),
      (''actorReference'', json_text (pe_actorReference e)),
      (''roleReference'', json_nullable (pe_roleReference e)),
      (''brandReference'', json_text (pe_brandReference e)),
      (''storeReference'', json_nullable (pe_storeReference e)),
      (''effectiveFrom'', json_text (pe_effectiveFrom e)),
      (''effectiveUntil'', json_nullable (pe_effectiveUntil e))]"

definition sameEvidence :: "permission_evidence \<Rightarrow> permission_evidence \<Rightarrow> bool" where
  "sameEvidence a b \<longleftrightarrow> evidence_text a = evidence_text b"

text \<open>
  The map from references to evidence that both modules fill: an entry that is set again keeps its place,
  and a second, different entry of one reference ends the loop.
\<close>

fun put_evidence :: "permission_evidence \<Rightarrow> permission_evidence list \<Rightarrow> permission_evidence list" where
  "put_evidence c [] = [c]"
| "put_evidence c (e # es) =
     (if pe_evidenceReference e = pe_evidenceReference c then c # es else e # put_evidence c es)"

fun collect_evidence :: "permission_evidence list \<Rightarrow> permission_evidence list \<Rightarrow> permission_evidence list option" where
  "collect_evidence seen [] = Some seen"
| "collect_evidence seen (c # cs) =
     (case find (\<lambda>e. pe_evidenceReference e = pe_evidenceReference c) seen of
        Some previous \<Rightarrow> if sameEvidence previous c then collect_evidence (put_evidence c seen) cs else None
      | None \<Rightarrow> collect_evidence (put_evidence c seen) cs)"

definition evidence_applies :: "tenant_context \<Rightarrow> string \<Rightarrow> permission_evidence \<Rightarrow> bool" where
  "evidence_applies ctx action e \<longleftrightarrow>
     pe_action e = action \<and> Some (pe_actorReference e) = ia_actorReference (tc_actor ctx) \<and>
     pe_brandReference e = br_brandReference (tc_brand ctx) \<and>
     (pe_storeReference e = None \<or> pe_storeReference e = tc_storeReference ctx) \<and>
     in_force (pe_effectiveFrom e) (pe_effectiveUntil e) (ms_of (tc_resolvedAt ctx))"

definition decide :: "permission_evidence list option \<Rightarrow> tenant_context \<Rightarrow> string \<Rightarrow>
  decision_effect \<times> decision_reason \<times> decision_source" where
  "decide seen ctx action =
     (case seen of None \<Rightarrow> (Deny, INVALID_POLICY_EVIDENCE, InvalidPolicy)
      | Some es \<Rightarrow>
          let applying = filter (evidence_applies ctx action) es in
          if list_ex (\<lambda>e. pe_source e = ExplicitDeny) applying then (Deny, EXPLICIT_DENY, FromEvidence ExplicitDeny)
          else if list_ex (\<lambda>e. pe_source e = ExplicitAllow) applying
            then (Allow, EXPLICIT_ALLOW, FromEvidence ExplicitAllow)
          else if list_ex (\<lambda>e. pe_source e = RolePermission) applying
            then (Allow, ROLE_PERMISSION, FromEvidence RolePermission)
          else (Deny, DEFAULT_DENY, DefaultDeny))"

text \<open>The evidence of a request: \<open>None\<close> when an item is malformed or two items of one reference differ.\<close>

definition request_evidence :: "js \<Rightarrow> permission_evidence list option" where
  "request_evidence v =
     (case map_res permission_evidence_of (elements v) of Inl _ \<Rightarrow> None | Inr cs \<Rightarrow> collect_evidence [] cs)"

definition evaluatePermission :: "host \<Rightarrow> js \<Rightarrow> permission_decision res" where
  "evaluatePermission h v =
     bnd (evaluation_plain v [''tenantContext'', ''action'', ''resourceScope'', ''policySnapshotReference'',
            ''policyVersion'', ''evidence'']) (\<lambda>_.
     bnd (revalidateTenantContext h (fld v ''tenantContext'')) (\<lambda>ctx.
     bnd (parseBusinessAction (fld v ''action'')) (\<lambda>action.
     bnd (evaluation_scope (fld v ''resourceScope'') ctx) (\<lambda>scope.
     bnd (evaluation_uuid (fld v ''policySnapshotReference'')) (\<lambda>snapshot.
     bnd (parsePolicyVersion (fld v ''policyVersion'')) (\<lambda>version.
     bnd (throw_if (\<not> is_array (fld v ''evidence'')) (evaluation_error PERMISSION_REQUEST_INVALID)) (\<lambda>_.
     case decide (request_evidence (fld v ''evidence'')) ctx action of (effect, reason, source) \<Rightarrow>
       Inr \<lparr>dc_effect = effect, dc_reason = reason, dc_source = source, dc_action = action, dc_scopeKind = sc_kind scope,
         dc_policySnapshotReference = snapshot, dc_policyVersion = version\<rparr>)))))))"

section \<open>Materialization\<close>

text \<open>\<open>mi_frozen\<close>: the input, the policy state and every array of facts with its elements are frozen.\<close>

record materialization_input =
  mi_frozen :: bool
  mi_tenantContext :: js
  mi_policyState :: policy_state
  mi_membership :: membership
  mi_storeAssignment :: "store_assignment option"
  mi_permissionDefinitions :: "permission_definition list"
  mi_roles :: "permission_role list"
  mi_roleAssignments :: "role_assignment list"
  mi_permissionGrants :: "permission_grant list"
  mi_permissionOverrides :: "permission_override list"

record policy_materialization =
  pm_policySnapshotReference :: string
  pm_policyVersion :: int
  pm_evidence :: "permission_evidence list"
  pm_evidenceCount :: nat

definition materialization_fail :: err where
  "materialization_fail = policy_error PERMISSION_POLICY_MATERIALIZATION_INVALID"

definition latestFrom :: "string list \<Rightarrow> string" where
  "latestFrom xs = hd (sort_key (\<lambda>s. - ms_of s) xs)"

definition earliestUntil :: "string option list \<Rightarrow> string option" where
  "earliestUntil xs =
     (case sort_key ms_of (map the (filter (\<lambda>x. x \<noteq> None) xs)) of [] \<Rightarrow> None | u # _ \<Rightarrow> Some u)"

definition fact_in_scope :: "string \<Rightarrow> string option \<Rightarrow> tenant_context \<Rightarrow> bool" where
  "fact_in_scope brand shop ctx \<longleftrightarrow>
     brand = br_brandReference (tc_brand ctx) \<and> (shop = None \<or> shop = tc_storeReference ctx)"

definition definition_for :: "permission_definition list \<Rightarrow> string \<Rightarrow> permission_definition option" where
  "definition_for ds ref = find (\<lambda>d. pd_permissionReference d = ref) ds"

definition override_skipped :: "tenant_context \<Rightarrow> string \<Rightarrow> permission_definition \<Rightarrow> permission_override \<Rightarrow> bool" where
  "override_skipped ctx actor d ov \<longleftrightarrow>
     pd_action d \<noteq> ov_action ov \<or> pd_lifecycle d \<noteq> DefinitionActive \<or> ov_lifecycle ov \<noteq> OverrideActive \<or>
     ov_actorReference ov \<noteq> actor \<or> \<not> fact_in_scope (ov_brandReference ov) (ov_storeReference ov) ctx \<or>
     \<not> in_force (ov_effectiveFrom ov) (ov_effectiveUntil ov) (ms_of (tc_resolvedAt ctx))"

text \<open>The evidence of an override: none, or one item.\<close>

definition override_evidence ::
  "tenant_context \<Rightarrow> string \<Rightarrow> permission_definition list \<Rightarrow> permission_override \<Rightarrow> permission_evidence list res" where
  "override_evidence ctx actor ds ov =
     bnd (or_throw (definition_for ds (ov_permissionReference ov)) materialization_fail) (\<lambda>d.
     if override_skipped ctx actor d ov then Inr []
     else
       bnd (evaluation_uuid (JStr (ov_overrideReference ov))) (\<lambda>ref.
       bnd (parseBusinessAction (JStr (pd_action d))) (\<lambda>action.
       Inr [\<lparr>pe_source = (if ov_effect ov = DenyEffect then ExplicitDeny else ExplicitAllow),
         pe_evidenceReference = ref, pe_action = action, pe_actorReference = actor, pe_roleReference = None,
         pe_brandReference = ov_brandReference ov, pe_storeReference = ov_storeReference ov,
         pe_effectiveFrom = ov_effectiveFrom ov, pe_effectiveUntil = ov_effectiveUntil ov\<rparr>])))"

definition role_skipped ::
  "tenant_context \<Rightarrow> string \<Rightarrow> membership \<Rightarrow> permission_role \<Rightarrow> role_assignment \<Rightarrow> bool" where
  "role_skipped ctx actor m role assigned \<longleftrightarrow>
     rs_lifecycle assigned \<noteq> RoleAssignmentActive \<or> rl_lifecycle role \<noteq> RoleActive \<or>
     rs_membershipReference assigned \<noteq> mb_membershipReference m \<or> rs_actorReference assigned \<noteq> actor \<or>
     rs_brandReference assigned \<noteq> rl_brandReference role \<or> rs_storeReference assigned \<noteq> rl_storeReference role \<or>
     \<not> fact_in_scope (rl_brandReference role) (rl_storeReference role) ctx \<or>
     \<not> in_force (rs_effectiveFrom assigned) (rs_effectiveUntil assigned) (ms_of (tc_resolvedAt ctx)) \<or>
     \<not> in_force (rl_effectiveFrom role) (rl_effectiveUntil role) (ms_of (tc_resolvedAt ctx))"

definition role_store_bad :: "permission_role \<Rightarrow> role_assignment \<Rightarrow> store_assignment option \<Rightarrow> bool" where
  "role_store_bad role assigned sa \<longleftrightarrow>
     (if rl_storeReference role = None then rs_storeAssignmentReference assigned \<noteq> None
      else case sa of None \<Rightarrow> True
        | Some a \<Rightarrow> rs_storeAssignmentReference assigned \<noteq> Some (sa_storeAssignmentReference a))"

definition grant_skipped :: "tenant_context \<Rightarrow> permission_role \<Rightarrow> permission_grant \<Rightarrow> bool" where
  "grant_skipped ctx role g \<longleftrightarrow>
     gt_roleReference g \<noteq> rl_roleReference role \<or> gt_lifecycle g \<noteq> GrantActive \<or>
     gt_brandReference g \<noteq> rl_brandReference role \<or> gt_storeReference g \<noteq> rl_storeReference role \<or>
     \<not> in_force (gt_effectiveFrom g) (gt_effectiveUntil g) (ms_of (tc_resolvedAt ctx))"

definition grant_evidence ::
  "tenant_context \<Rightarrow> string \<Rightarrow> permission_definition list \<Rightarrow> permission_role \<Rightarrow> role_assignment \<Rightarrow> permission_grant \<Rightarrow>
   permission_evidence list res" where
  "grant_evidence ctx actor ds role assigned g =
     (if grant_skipped ctx role g then Inr []
      else
        bnd (or_throw (definition_for ds (gt_permissionReference g)) materialization_fail) (\<lambda>d.
        if pd_lifecycle d \<noteq> DefinitionActive \<or> pd_action d \<noteq> gt_action g then Inr []
        else
          let start = latestFrom [rl_effectiveFrom role, rs_effectiveFrom assigned, gt_effectiveFrom g];
              ends = earliestUntil [rl_effectiveUntil role, rs_effectiveUntil assigned, gt_effectiveUntil g] in
          bnd (throw_if (case ends of None \<Rightarrow> False | Some u \<Rightarrow> ms_of u \<le> ms_of start) materialization_fail) (\<lambda>_.
          bnd (evaluation_uuid (JStr (gt_grantReference g))) (\<lambda>ref.
          bnd (parseBusinessAction (JStr (pd_action d))) (\<lambda>action.
          bnd (evaluation_uuid (JStr (rl_roleReference role))) (\<lambda>roleRef.
          Inr [\<lparr>pe_source = RolePermission, pe_evidenceReference = ref, pe_action = action, pe_actorReference = actor,
            pe_roleReference = Some roleRef, pe_brandReference = rl_brandReference role,
            pe_storeReference = rl_storeReference role, pe_effectiveFrom = start, pe_effectiveUntil = ends\<rparr>]))))))"

definition assignment_evidence ::
  "tenant_context \<Rightarrow> string \<Rightarrow> membership \<Rightarrow> store_assignment option \<Rightarrow> permission_definition list \<Rightarrow>
   permission_role list \<Rightarrow> permission_grant list \<Rightarrow> role_assignment \<Rightarrow> permission_evidence list res" where
  "assignment_evidence ctx actor m sa ds roles grants assigned =
     bnd (or_throw (find (\<lambda>r. rl_roleReference r = rs_roleReference assigned) roles) materialization_fail) (\<lambda>role.
     if role_skipped ctx actor m role assigned then Inr []
     else
       bnd (throw_if (role_store_bad role assigned sa) materialization_fail) (\<lambda>_.
       bnd (map_res (grant_evidence ctx actor ds role assigned) grants) (\<lambda>items. Inr (concat items))))"

definition evidence_source_order :: "evidence_source \<Rightarrow> nat" where
  "evidence_source_order s = (case s of ExplicitDeny \<Rightarrow> 0 | ExplicitAllow \<Rightarrow> 1 | RolePermission \<Rightarrow> 2)"

text \<open>By source, then by reference in collation order.\<close>

definition deduplicateAndSort :: "permission_evidence list \<Rightarrow> permission_evidence list res" where
  "deduplicateAndSort es =
     bnd (or_throw (collect_evidence [] es) materialization_fail) (\<lambda>seen.
     Inr (sort_key (\<lambda>e. evidence_source_order (pe_source e) # collation_key (pe_evidenceReference e)) seen))"

definition context_assignment :: "materialization_input \<Rightarrow> tenant_context \<Rightarrow> membership \<Rightarrow> store_assignment option res" where
  "context_assignment inp ctx m =
     (case tc_store ctx of
        None \<Rightarrow> bnd (throw_if (mi_storeAssignment inp \<noteq> None) materialization_fail) (\<lambda>_. Inr None)
      | Some s \<Rightarrow>
          bnd (resolveActiveStoreAssignment m (case mi_storeAssignment inp of None \<Rightarrow> [] | Some a \<Rightarrow> [a])
                 (sh_storeReference s) (JStr (tc_resolvedAt ctx))) (\<lambda>a. Inr (Some a)))"

definition materialize_body :: "host \<Rightarrow> materialization_input \<Rightarrow> policy_materialization res" where
  "materialize_body h inp =
     bnd (throw_if (\<not> mi_frozen inp) materialization_fail) (\<lambda>_.
     bnd (revalidateTenantContext h (mi_tenantContext inp)) (\<lambda>ctx.
     bnd (throw_if (ps_brandReference (mi_policyState inp) \<noteq> br_brandReference (tc_brand ctx))
            materialization_fail) (\<lambda>_.
     bnd (or_throw (ia_actorReference (tc_actor ctx)) materialization_fail) (\<lambda>actor.
     bnd (resolveActiveMembership [mi_membership inp] actor (br_brandReference (tc_brand ctx))
            (JStr (tc_resolvedAt ctx))) (\<lambda>m.
     bnd (context_assignment inp ctx m) (\<lambda>sa.
     bnd (throw_if (\<not> distinct (map pd_permissionReference (mi_permissionDefinitions inp)) \<or>
                    \<not> distinct (map rl_roleReference (mi_roles inp))) materialization_fail) (\<lambda>_.
     bnd (map_res (override_evidence ctx actor (mi_permissionDefinitions inp)) (mi_permissionOverrides inp)) (\<lambda>explicit.
     bnd (map_res (assignment_evidence ctx actor m sa (mi_permissionDefinitions inp) (mi_roles inp)
                     (mi_permissionGrants inp)) (mi_roleAssignments inp)) (\<lambda>byRole.
     bnd (deduplicateAndSort (concat explicit @ concat byRole)) (\<lambda>normalized.
     bnd (evaluation_uuid (JStr (ps_snapshotReference (mi_policyState inp)))) (\<lambda>snapshot.
     bnd (parsePolicyVersion (JNum (ps_version (mi_policyState inp)))) (\<lambda>version.
     Inr \<lparr>pm_policySnapshotReference = snapshot, pm_policyVersion = version, pm_evidence = normalized,
       pm_evidenceCount = length normalized\<rparr>))))))))))))"

definition materializePermissionEvidence :: "host \<Rightarrow> materialization_input \<Rightarrow> policy_materialization res" where
  "materializePermissionEvidence h inp = catching (materialize_body h inp) (\<lambda>_. Inl materialization_fail)"

section \<open>Lemmas\<close>

lemma json_nullable_code [simp]: "json_nullable a @ r = json_nullable b @ r' \<longleftrightarrow> a = b \<and> r = r'"
  by (cases a; cases b) (simp_all add: json_nullable_def, simp_all add: json_text_def)

lemma json_nullable_inj [simp]: "json_nullable a = json_nullable b \<longleftrightarrow> a = b"
  using json_nullable_code [of a "[]" b "[]"] by simp

lemma evidence_source_name_inj [simp]: "evidence_source_name s = evidence_source_name t \<longleftrightarrow> s = t"
  by (cases s; cases t) (simp_all add: evidence_source_name_def)

text \<open>Equal texts are equal evidence.\<close>

lemma sameEvidence_iff [simp]: "sameEvidence a b \<longleftrightarrow> a = b"
  by (cases a; cases b) (auto simp: sameEvidence_def evidence_text_def json_object_def)

definition one_per_reference :: "permission_evidence set \<Rightarrow> bool" where
  "one_per_reference E \<longleftrightarrow> (\<forall>a\<in>E. \<forall>b\<in>E. pe_evidenceReference a = pe_evidenceReference b \<longrightarrow> a = b)"

lemma put_new: "\<not> (\<exists>e\<in>set es. pe_evidenceReference e = pe_evidenceReference c) \<Longrightarrow> put_evidence c es = es @ [c]"
  by (induction es) auto

lemma put_same:
  "one_per_reference (insert c (set es)) \<Longrightarrow> c \<in> set es \<Longrightarrow> put_evidence c es = es"
  by (induction es) (auto simp: one_per_reference_def)

lemma collect_evidence_spec:
  "one_per_reference (set seen) \<Longrightarrow>
     (if one_per_reference (set seen \<union> set cs)
      then \<exists>ys. collect_evidence seen cs = Some ys \<and> set ys = set seen \<union> set cs
      else collect_evidence seen cs = None)"
proof (induction cs arbitrary: seen)
  case (Cons c cs)
  show ?case
  proof (cases "find (\<lambda>e. pe_evidenceReference e = pe_evidenceReference c) seen")
    case None
    then have n: "\<not> (\<exists>e\<in>set seen. pe_evidenceReference e = pe_evidenceReference c)" by (simp add: find_None_iff)
    with Cons.prems have "one_per_reference (set (seen @ [c]))" by (auto simp: one_per_reference_def)
    from Cons.IH [OF this] show ?thesis by (auto simp: None put_new [OF n] split: if_splits)
  next
    case (Some p)
    then have p: "p \<in> set seen" "pe_evidenceReference p = pe_evidenceReference c"
      by (auto simp: find_Some_iff)
    show ?thesis
    proof (cases "p = c")
      case True
      with p Cons.prems have "put_evidence c seen = seen" by (intro put_same) (auto simp: insert_absorb)
      with Cons.IH [OF Cons.prems] Some True p show ?thesis by (simp add: insert_absorb)
    next
      case False
      with p have "\<not> one_per_reference (set seen \<union> set (c # cs))" by (auto simp: one_per_reference_def)
      with Some False show ?thesis by simp
    qed
  qed
qed simp

lemma collect_evidence_iff:
  "collect_evidence [] cs = None \<longleftrightarrow> \<not> one_per_reference (set cs)"
  "collect_evidence [] cs = Some ys \<Longrightarrow> set ys = set cs"
  using collect_evidence_spec [of "[]" cs] by (auto simp: one_per_reference_def split: if_splits)

text \<open>A decision depends on the set of the evidence only.\<close>

definition some_applies :: "permission_evidence set \<Rightarrow> tenant_context \<Rightarrow> string \<Rightarrow> evidence_source \<Rightarrow> bool" where
  "some_applies E ctx action source \<longleftrightarrow>
     (\<exists>e\<in>E. evidence_applies ctx action e \<and> pe_source e = source)"

lemma decide_Some:
  "decide (Some es) ctx action =
     (if some_applies (set es) ctx action ExplicitDeny then (Deny, EXPLICIT_DENY, FromEvidence ExplicitDeny)
      else if some_applies (set es) ctx action ExplicitAllow then (Allow, EXPLICIT_ALLOW, FromEvidence ExplicitAllow)
      else if some_applies (set es) ctx action RolePermission then (Allow, ROLE_PERMISSION, FromEvidence RolePermission)
      else (Deny, DEFAULT_DENY, DefaultDeny))"
proof -
  have "list_ex (\<lambda>e. pe_source e = source) (filter (evidence_applies ctx action) es) \<longleftrightarrow>
      some_applies (set es) ctx action source" for source
    by (auto simp: list_ex_iff some_applies_def)
  then show ?thesis by (simp add: decide_def Let_def)
qed

lemma decide_collected:
  "decide (collect_evidence [] cs) ctx action =
     (if one_per_reference (set cs) then decide (Some cs) ctx action
      else (Deny, INVALID_POLICY_EVIDENCE, InvalidPolicy))"
proof (cases "collect_evidence [] cs")
  case None
  then show ?thesis using collect_evidence_iff(1) [of cs] by (simp add: decide_def)
next
  case (Some ys)
  then show ?thesis using collect_evidence_iff(1) [of cs] collect_evidence_iff(2) [OF Some] by (simp add: decide_Some)
qed

text \<open>The evidence of a request as a set.\<close>

lemma request_evidence_decide:
  "decide (request_evidence v) ctx action =
     (case map_res permission_evidence_of (elements v) of Inl _ \<Rightarrow> (Deny, INVALID_POLICY_EVIDENCE, InvalidPolicy)
      | Inr cs \<Rightarrow> if one_per_reference (set cs) then decide (Some cs) ctx action
          else (Deny, INVALID_POLICY_EVIDENCE, InvalidPolicy))"
  by (simp add: request_evidence_def decide_collected split: sum.splits) (simp add: decide_def)

lemma evaluatePermission_Inr:
  assumes "evaluatePermission h v = Inr d"
  obtains ctx where "revalidateTenantContext h (fld v ''tenantContext'') = Inr ctx"
    "fld v ''action'' = JStr (dc_action d)" "action_format (dc_action d)"
    "decide (request_evidence (fld v ''evidence'')) ctx (dc_action d) = (dc_effect d, dc_reason d, dc_source d)"
proof -
  from assms obtain ctx action and scope :: resource_scope and snapshot version where
    c: "revalidateTenantContext h (fld v ''tenantContext'') = Inr ctx"
    and a: "parseBusinessAction (fld v ''action'') = Inr action"
    and d: "(case decide (request_evidence (fld v ''evidence'')) ctx action of (effect, reason, source) \<Rightarrow>
       Inr \<lparr>dc_effect = effect, dc_reason = reason, dc_source = source, dc_action = action, dc_scopeKind = sc_kind scope,
         dc_policySnapshotReference = snapshot, dc_policyVersion = version\<rparr>) = (Inr d :: permission_decision res)"
    unfolding evaluatePermission_def bnd_eq_Inr by blast
  from a have "fld v ''action'' = JStr action" "action_format action"
    by (auto simp: parseBusinessAction_def or_throw_Inr str_if_Some)
  moreover from d have "dc_action d = action"
    "decide (request_evidence (fld v ''evidence'')) ctx action = (dc_effect d, dc_reason d, dc_source d)"
    by (auto split: prod.splits)
  ultimately show ?thesis using c that by metis
qed

lemma decide_Allow_iff:
  "fst (decide (Some es) ctx action) = Allow \<longleftrightarrow>
     \<not> some_applies (set es) ctx action ExplicitDeny \<and>
     (some_applies (set es) ctx action ExplicitAllow \<or> some_applies (set es) ctx action RolePermission)"
  by (simp add: decide_Some)

text \<open>
  C30. Deny overrides. A request that gets a decision is allowed exactly when all of its evidence is well
  formed, no two items of one reference differ, none that applies to the action, the actor, the scope and the
  instant of the context denies, and one that applies allows. Malformed or contradictory evidence never allows.
\<close>

theorem permission_deny_overrides:
  assumes "evaluatePermission h v = Inr d"
  obtains ctx where "revalidateTenantContext h (fld v ''tenantContext'') = Inr ctx"
    and "dc_effect d = Allow \<longleftrightarrow>
      (\<exists>es. map_res permission_evidence_of (elements (fld v ''evidence'')) = Inr es \<and> one_per_reference (set es) \<and>
         (\<forall>e\<in>set es. evidence_applies ctx (dc_action d) e \<longrightarrow> pe_source e \<noteq> ExplicitDeny) \<and>
         (\<exists>e\<in>set es. evidence_applies ctx (dc_action d) e))"
proof -
  from assms obtain ctx where c: "revalidateTenantContext h (fld v ''tenantContext'') = Inr ctx"
    and d: "decide (request_evidence (fld v ''evidence'')) ctx (dc_action d) = (dc_effect d, dc_reason d, dc_source d)"
    by (rule evaluatePermission_Inr)
  have e: "dc_effect d = fst (decide (request_evidence (fld v ''evidence'')) ctx (dc_action d))"
    using d by simp
  have "dc_effect d = Allow \<longleftrightarrow>
      (\<exists>es. map_res permission_evidence_of (elements (fld v ''evidence'')) = Inr es \<and> one_per_reference (set es) \<and>
         (\<forall>e\<in>set es. evidence_applies ctx (dc_action d) e \<longrightarrow> pe_source e \<noteq> ExplicitDeny) \<and>
         (\<exists>e\<in>set es. evidence_applies ctx (dc_action d) e))"
  proof (cases "map_res permission_evidence_of (elements (fld v ''evidence''))")
    case (Inl x)
    then show ?thesis by (simp add: e request_evidence_decide)
  next
    case (Inr es)
    have "(pe_source x = ExplicitAllow \<or> pe_source x = RolePermission) \<longleftrightarrow> pe_source x \<noteq> ExplicitDeny"
      for x :: permission_evidence
      by (cases "pe_source x") simp_all
    then show ?thesis
      by (simp add: e request_evidence_decide Inr decide_Allow_iff some_applies_def) metis
  qed
  with c show ?thesis by (rule that)
qed

section \<open>What the policy facts say\<close>

text \<open>
  The policy in its own terms: an override that stands for an action, and the chain from an assignment of the
  actor over a role and a grant to the definition of the action.
\<close>

definition override_stands ::
  "tenant_context \<Rightarrow> materialization_input \<Rightarrow> override_effect \<Rightarrow> string \<Rightarrow> permission_override \<Rightarrow> bool" where
  "override_stands ctx inp effect action ov \<longleftrightarrow>
     ov \<in> set (mi_permissionOverrides inp) \<and> ov_effect ov = effect \<and> ov_action ov = action \<and>
     ov_lifecycle ov = OverrideActive \<and> Some (ov_actorReference ov) = ia_actorReference (tc_actor ctx) \<and>
     fact_in_scope (ov_brandReference ov) (ov_storeReference ov) ctx \<and>
     in_force (ov_effectiveFrom ov) (ov_effectiveUntil ov) (ms_of (tc_resolvedAt ctx)) \<and>
     (\<exists>d\<in>set (mi_permissionDefinitions inp). pd_permissionReference d = ov_permissionReference ov \<and>
        pd_action d = action \<and> pd_lifecycle d = DefinitionActive)"

definition role_stands ::
  "tenant_context \<Rightarrow> materialization_input \<Rightarrow> role_assignment \<Rightarrow> permission_role \<Rightarrow> bool" where
  "role_stands ctx inp assigned role \<longleftrightarrow>
     assigned \<in> set (mi_roleAssignments inp) \<and> role \<in> set (mi_roles inp) \<and>
     rs_roleReference assigned = rl_roleReference role \<and> rs_lifecycle assigned = RoleAssignmentActive \<and>
     rl_lifecycle role = RoleActive \<and>
     rs_membershipReference assigned = mb_membershipReference (mi_membership inp) \<and>
     Some (rs_actorReference assigned) = ia_actorReference (tc_actor ctx) \<and>
     rs_brandReference assigned = rl_brandReference role \<and> rs_storeReference assigned = rl_storeReference role \<and>
     fact_in_scope (rl_brandReference role) (rl_storeReference role) ctx \<and>
     in_force (rs_effectiveFrom assigned) (rs_effectiveUntil assigned) (ms_of (tc_resolvedAt ctx)) \<and>
     in_force (rl_effectiveFrom role) (rl_effectiveUntil role) (ms_of (tc_resolvedAt ctx))"

definition grant_stands ::
  "tenant_context \<Rightarrow> materialization_input \<Rightarrow> permission_role \<Rightarrow> string \<Rightarrow> permission_grant \<Rightarrow> bool" where
  "grant_stands ctx inp role action g \<longleftrightarrow>
     g \<in> set (mi_permissionGrants inp) \<and> gt_roleReference g = rl_roleReference role \<and> gt_lifecycle g = GrantActive \<and>
     gt_brandReference g = rl_brandReference role \<and> gt_storeReference g = rl_storeReference role \<and>
     in_force (gt_effectiveFrom g) (gt_effectiveUntil g) (ms_of (tc_resolvedAt ctx)) \<and> gt_action g = action \<and>
     (\<exists>d\<in>set (mi_permissionDefinitions inp). pd_permissionReference d = gt_permissionReference g \<and>
        pd_action d = action \<and> pd_lifecycle d = DefinitionActive)"

definition policy_permits :: "tenant_context \<Rightarrow> materialization_input \<Rightarrow> string \<Rightarrow> bool" where
  "policy_permits ctx inp action \<longleftrightarrow>
     \<not> (\<exists>ov. override_stands ctx inp DenyEffect action ov) \<and>
     ((\<exists>ov. override_stands ctx inp AllowEffect action ov) \<or>
      (\<exists>assigned role g. role_stands ctx inp assigned role \<and> grant_stands ctx inp role action g))"

definition evidence_of_override :: "permission_override \<Rightarrow> permission_evidence" where
  "evidence_of_override ov =
     \<lparr>pe_source = (if ov_effect ov = DenyEffect then ExplicitDeny else ExplicitAllow),
      pe_evidenceReference = ov_overrideReference ov, pe_action = ov_action ov,
      pe_actorReference = ov_actorReference ov, pe_roleReference = None,
      pe_brandReference = ov_brandReference ov, pe_storeReference = ov_storeReference ov,
      pe_effectiveFrom = ov_effectiveFrom ov, pe_effectiveUntil = ov_effectiveUntil ov\<rparr>"

definition evidence_of_grant :: "permission_role \<Rightarrow> role_assignment \<Rightarrow> permission_grant \<Rightarrow> permission_evidence" where
  "evidence_of_grant role assigned g =
     \<lparr>pe_source = RolePermission, pe_evidenceReference = gt_grantReference g, pe_action = gt_action g,
      pe_actorReference = rs_actorReference assigned, pe_roleReference = Some (rl_roleReference role),
      pe_brandReference = rl_brandReference role, pe_storeReference = rl_storeReference role,
      pe_effectiveFrom = latestFrom [rl_effectiveFrom role, rs_effectiveFrom assigned, gt_effectiveFrom g],
      pe_effectiveUntil = earliestUntil [rl_effectiveUntil role, rs_effectiveUntil assigned, gt_effectiveUntil g]\<rparr>"

lemma find_distinct: "distinct (map f xs) \<Longrightarrow> find (\<lambda>x. f x = r) xs = Some d \<longleftrightarrow> d \<in> set xs \<and> f d = r"
  by (induction xs) (auto simp: image_iff)

lemma latestFrom_in: "xs \<noteq> [] \<Longrightarrow> latestFrom xs \<in> set xs"
  by (metis hd_in_set latestFrom_def set_sort sort_key_Nil_iff)

lemma earliestUntil_in: "earliestUntil xs = Some u \<Longrightarrow> Some u \<in> set xs"
proof -
  assume "earliestUntil xs = Some u"
  then obtain r where "sort_key ms_of (map the (filter (\<lambda>x. x \<noteq> None) xs)) = u # r"
    unfolding earliestUntil_def by (cases "sort_key ms_of (map the (filter (\<lambda>x. x \<noteq> None) xs))") simp_all
  then have "u \<in> set (sort_key ms_of (map the (filter (\<lambda>x. x \<noteq> None) xs)))" by (simp only: list.set_intros)
  then show ?thesis by auto
qed

lemma in_force_merged:
  assumes "in_force a a' t" and "in_force b b' t" and "in_force c c' t"
  shows "in_force (latestFrom [a, b, c]) (earliestUntil [a', b', c']) t"
proof -
  have "latestFrom [a, b, c] \<in> {a, b, c}" using latestFrom_in [of "[a, b, c]"] by simp
  moreover have "t < ms_of u" if "earliestUntil [a', b', c'] = Some u" for u
    using earliestUntil_in [OF that] assms by (auto simp: in_force_def)
  ultimately show ?thesis using assms by (auto simp: in_force_def split: option.splits)
qed

lemma override_evidence_Inr:
  assumes "override_evidence ctx actor ds ov = Inr es" and "distinct (map pd_permissionReference ds)"
  shows "set es = (if \<exists>d\<in>set ds. pd_permissionReference d = ov_permissionReference ov \<and> \<not> override_skipped ctx actor d ov
                   then {evidence_of_override ov} else {})"
    and "e \<in> set es \<Longrightarrow> uuid_v7 (pe_evidenceReference e) \<and> action_format (pe_action e) \<and>
           (\<exists>ov. e = evidence_of_override ov)"
proof -
  from assms(1) obtain d where d: "definition_for ds (ov_permissionReference ov) = Some d"
    by (auto simp: override_evidence_def bnd_eq_Inr or_throw_Inr)
  with assms(2) have in_ds: "d \<in> set ds" "pd_permissionReference d = ov_permissionReference ov"
    by (simp_all add: definition_for_def find_distinct)
  have unique: "d' = d" if "d' \<in> set ds" "pd_permissionReference d' = ov_permissionReference ov" for d'
    using that in_ds assms(2) by (metis find_distinct option.inject)
  have ex: "(\<exists>d\<in>set ds. pd_permissionReference d = ov_permissionReference ov \<and> \<not> override_skipped ctx actor d ov) \<longleftrightarrow>
      \<not> override_skipped ctx actor d ov"
    using in_ds unique by blast
  show "set es = (if \<exists>d\<in>set ds. pd_permissionReference d = ov_permissionReference ov \<and> \<not> override_skipped ctx actor d ov
                   then {evidence_of_override ov} else {})"
    using assms(1) unfolding ex
    by (auto simp: override_evidence_def d bnd_eq_Inr evaluation_uuid_def parseBusinessAction_def or_throw_Inr
        evidence_of_override_def override_skipped_def split: if_splits)
  show "uuid_v7 (pe_evidenceReference e) \<and> action_format (pe_action e) \<and> (\<exists>ov. e = evidence_of_override ov)"
    if "e \<in> set es"
    using assms(1) that
    by (auto simp: override_evidence_def d bnd_eq_Inr evaluation_uuid_def parseBusinessAction_def or_throw_Inr
        evidence_of_override_def override_skipped_def split: if_splits)
qed

lemma grant_evidence_Inr:
  assumes "grant_evidence ctx actor ds role assigned g = Inr es" and "distinct (map pd_permissionReference ds)"
    and "rs_actorReference assigned = actor"
  shows "set es = (if \<not> grant_skipped ctx role g \<and> (\<exists>d\<in>set ds. pd_permissionReference d = gt_permissionReference g \<and>
                        pd_lifecycle d = DefinitionActive \<and> pd_action d = gt_action g)
                   then {evidence_of_grant role assigned g} else {})"
    and "e \<in> set es \<Longrightarrow> uuid_v7 (pe_evidenceReference e) \<and> action_format (pe_action e) \<and> uuid_v7 (rl_roleReference role) \<and>
           e = evidence_of_grant role assigned g \<and>
           (case pe_effectiveUntil e of None \<Rightarrow> True | Some u \<Rightarrow> ms_of (pe_effectiveFrom e) < ms_of u)"
proof -
  have "set es = (if \<not> grant_skipped ctx role g \<and> (\<exists>d\<in>set ds. pd_permissionReference d = gt_permissionReference g \<and>
                        pd_lifecycle d = DefinitionActive \<and> pd_action d = gt_action g)
                   then {evidence_of_grant role assigned g} else {}) \<and>
      (\<forall>e\<in>set es. uuid_v7 (pe_evidenceReference e) \<and> action_format (pe_action e) \<and> uuid_v7 (rl_roleReference role) \<and>
           e = evidence_of_grant role assigned g \<and>
           (case pe_effectiveUntil e of None \<Rightarrow> True | Some u \<Rightarrow> ms_of (pe_effectiveFrom e) < ms_of u))"
  proof (cases "grant_skipped ctx role g")
    case True
    with assms(1) show ?thesis by (simp add: grant_evidence_def)
  next
    case False
    with assms(1) obtain d where d: "definition_for ds (gt_permissionReference g) = Some d"
      by (auto simp: grant_evidence_def bnd_eq_Inr or_throw_Inr)
    with assms(2) have in_ds: "d \<in> set ds" "pd_permissionReference d = gt_permissionReference g"
      by (simp_all add: definition_for_def find_distinct)
    have "d' = d" if "d' \<in> set ds" "pd_permissionReference d' = gt_permissionReference g" for d'
      using that in_ds assms(2) by (metis find_distinct option.inject)
    then have ex: "(\<exists>d\<in>set ds. pd_permissionReference d = gt_permissionReference g \<and> pd_lifecycle d = DefinitionActive \<and>
        pd_action d = gt_action g) \<longleftrightarrow> pd_lifecycle d = DefinitionActive \<and> pd_action d = gt_action g"
      using in_ds by blast
    show ?thesis
      using assms(1) False unfolding ex
      by (auto simp: grant_evidence_def d bnd_eq_Inr evaluation_uuid_def parseBusinessAction_def or_throw_Inr
          evidence_of_grant_def assms(3) throw_if_eq_Inr Let_def split: if_splits option.splits)
  qed
  then show "set es = (if \<not> grant_skipped ctx role g \<and> (\<exists>d\<in>set ds. pd_permissionReference d = gt_permissionReference g \<and>
                        pd_lifecycle d = DefinitionActive \<and> pd_action d = gt_action g)
                   then {evidence_of_grant role assigned g} else {})"
    and "e \<in> set es \<Longrightarrow> uuid_v7 (pe_evidenceReference e) \<and> action_format (pe_action e) \<and> uuid_v7 (rl_roleReference role) \<and>
           e = evidence_of_grant role assigned g \<and>
           (case pe_effectiveUntil e of None \<Rightarrow> True | Some u \<Rightarrow> ms_of (pe_effectiveFrom e) < ms_of u)"
    by blast+
qed

lemma map_res_concat:
  assumes "map_res f xs = Inr yss"
  shows "y \<in> set (concat yss) \<longleftrightarrow> (\<exists>x\<in>set xs. \<exists>ys. f x = Inr ys \<and> y \<in> set ys)"
proof
  assume "y \<in> set (concat yss)"
  then obtain ys where "ys \<in> set yss" "y \<in> set ys" by auto
  with map_res_in [OF assms] show "\<exists>x\<in>set xs. \<exists>ys. f x = Inr ys \<and> y \<in> set ys" by blast
next
  assume "\<exists>x\<in>set xs. \<exists>ys. f x = Inr ys \<and> y \<in> set ys"
  then obtain x ys where x: "x \<in> set xs" "f x = Inr ys" "y \<in> set ys" by blast
  from map_res_in_src [OF assms x(1)] x(2) have "ys \<in> set yss" by auto
  with x(3) show "y \<in> set (concat yss)" by auto
qed

lemma assignment_evidence_Inr:
  assumes "assignment_evidence ctx actor m sa ds roles grants assigned = Inr es"
    and "distinct (map pd_permissionReference ds)" and "distinct (map rl_roleReference roles)"
  shows "e \<in> set es \<longleftrightarrow> (\<exists>role\<in>set roles. rl_roleReference role = rs_roleReference assigned \<and>
      \<not> role_skipped ctx actor m role assigned \<and> (\<exists>g\<in>set grants. \<not> grant_skipped ctx role g \<and>
        (\<exists>d\<in>set ds. pd_permissionReference d = gt_permissionReference g \<and> pd_lifecycle d = DefinitionActive \<and>
           pd_action d = gt_action g) \<and> e = evidence_of_grant role assigned g))" (is ?members)
    and "role \<in> set roles \<Longrightarrow> rl_roleReference role = rs_roleReference assigned \<Longrightarrow>
      \<not> role_skipped ctx actor m role assigned \<Longrightarrow> \<not> role_store_bad role assigned sa"
    and "e \<in> set es \<Longrightarrow> uuid_v7 (pe_evidenceReference e) \<and> action_format (pe_action e) \<and> pe_source e = RolePermission \<and>
      (\<exists>r. pe_roleReference e = Some r \<and> uuid_v7 r) \<and>
      (case pe_effectiveUntil e of None \<Rightarrow> True | Some u \<Rightarrow> ms_of (pe_effectiveFrom e) < ms_of u)"
proof -
  from assms(1) obtain r where r: "find (\<lambda>r. rl_roleReference r = rs_roleReference assigned) roles = Some r"
    by (auto simp: assignment_evidence_def bnd_eq_Inr or_throw_Inr)
  then have in_roles: "r \<in> set roles" "rl_roleReference r = rs_roleReference assigned"
    using assms(3) by (simp_all add: find_distinct)
  have unique: "r' = r" if "r' \<in> set roles" "rl_roleReference r' = rs_roleReference assigned" for r'
    using that r assms(3) by (metis find_distinct option.inject)
  have go: "\<exists>items. es = concat items \<and> map_res (grant_evidence ctx actor ds r assigned) grants = Inr items \<and>
      \<not> role_store_bad r assigned sa \<and> rs_actorReference assigned = actor"
    if "\<not> role_skipped ctx actor m r assigned"
    using assms(1) that by (auto simp: assignment_evidence_def r bnd_eq_Inr throw_if_eq_Inr role_skipped_def)
  have skip: "es = []" if "role_skipped ctx actor m r assigned"
    using assms(1) that by (simp add: assignment_evidence_def r)
  have members: "e \<in> set es \<longleftrightarrow> (\<exists>g\<in>set grants. \<not> grant_skipped ctx r g \<and>
        (\<exists>d\<in>set ds. pd_permissionReference d = gt_permissionReference g \<and> pd_lifecycle d = DefinitionActive \<and>
           pd_action d = gt_action g) \<and> e = evidence_of_grant r assigned g)"
    if "\<not> role_skipped ctx actor m r assigned"
  proof -
    from go [OF that] obtain items where i: "es = concat items"
      "map_res (grant_evidence ctx actor ds r assigned) grants = Inr items" "rs_actorReference assigned = actor" by blast
    have s: "e \<in> set ys \<longleftrightarrow> \<not> grant_skipped ctx r g \<and>
        (\<exists>d\<in>set ds. pd_permissionReference d = gt_permissionReference g \<and> pd_lifecycle d = DefinitionActive \<and>
           pd_action d = gt_action g) \<and> e = evidence_of_grant r assigned g"
      if "grant_evidence ctx actor ds r assigned g = Inr ys" for g ys
      using grant_evidence_Inr(1) [OF that assms(2) i(3)] by (auto split: if_splits)
    show ?thesis unfolding i(1) map_res_concat [OF i(2)] using s map_res_in_src [OF i(2)] by blast
  qed
  show ?members
  proof (cases "role_skipped ctx actor m r assigned")
    case True
    then have "e \<notin> set es" using skip by simp
    with True unique show ?thesis by blast
  next
    case False
    show ?thesis unfolding members [OF False] using False unique in_roles by blast
  qed
  show "\<not> role_store_bad role assigned sa"
    if "role \<in> set roles" "rl_roleReference role = rs_roleReference assigned" "\<not> role_skipped ctx actor m role assigned"
    using go unique that by blast
  show "uuid_v7 (pe_evidenceReference e) \<and> action_format (pe_action e) \<and> pe_source e = RolePermission \<and>
      (\<exists>r. pe_roleReference e = Some r \<and> uuid_v7 r) \<and>
      (case pe_effectiveUntil e of None \<Rightarrow> True | Some u \<Rightarrow> ms_of (pe_effectiveFrom e) < ms_of u)" if e: "e \<in> set es"
  proof -
    have "\<not> role_skipped ctx actor m r assigned" using skip e by auto
    from go [OF this] obtain items where i: "es = concat items"
      "map_res (grant_evidence ctx actor ds r assigned) grants = Inr items" "rs_actorReference assigned = actor" by blast
    from e obtain g ys where g: "grant_evidence ctx actor ds r assigned g = Inr ys" "e \<in> set ys"
      unfolding i(1) map_res_concat [OF i(2)] by blast
    from grant_evidence_Inr(2) [OF g(1) assms(2) i(3) g(2)] show ?thesis by (auto simp: evidence_of_grant_def)
  qed
qed

text \<open>The evidence of a successful materialization is that of the facts that stand, no more and no less.\<close>

definition standing_evidence :: "tenant_context \<Rightarrow> materialization_input \<Rightarrow> permission_evidence \<Rightarrow> bool" where
  "standing_evidence ctx inp e \<longleftrightarrow>
     (\<exists>effect action ov. override_stands ctx inp effect action ov \<and> e = evidence_of_override ov) \<or>
     (\<exists>assigned role action g. role_stands ctx inp assigned role \<and> grant_stands ctx inp role action g \<and>
        e = evidence_of_grant role assigned g)"

lemma override_stands_iff:
  assumes "ia_actorReference (tc_actor ctx) = Some actor"
  shows "(\<exists>effect action. override_stands ctx inp effect action ov) \<longleftrightarrow> ov \<in> set (mi_permissionOverrides inp) \<and>
    (\<exists>d\<in>set (mi_permissionDefinitions inp). pd_permissionReference d = ov_permissionReference ov \<and>
       \<not> override_skipped ctx actor d ov)"
  unfolding override_stands_def override_skipped_def assms by auto

lemma role_stands_iff:
  assumes "ia_actorReference (tc_actor ctx) = Some actor"
  shows "role_stands ctx inp assigned role \<longleftrightarrow> assigned \<in> set (mi_roleAssignments inp) \<and> role \<in> set (mi_roles inp) \<and>
     rl_roleReference role = rs_roleReference assigned \<and> \<not> role_skipped ctx actor (mi_membership inp) role assigned"
  unfolding role_stands_def role_skipped_def assms by auto

lemma grant_stands_iff:
  "(\<exists>action. grant_stands ctx inp role action g) \<longleftrightarrow> g \<in> set (mi_permissionGrants inp) \<and> \<not> grant_skipped ctx role g \<and>
     (\<exists>d\<in>set (mi_permissionDefinitions inp). pd_permissionReference d = gt_permissionReference g \<and>
        pd_lifecycle d = DefinitionActive \<and> pd_action d = gt_action g)"
  unfolding grant_stands_def grant_skipped_def by auto

lemma materialize_parts:
  assumes "materializePermissionEvidence h inp = Inr pm"
  obtains ctx actor sa explicit byRole seen where
    "revalidateTenantContext h (mi_tenantContext inp) = Inr ctx"
    "ia_actorReference (tc_actor ctx) = Some actor"
    "member_matches actor (br_brandReference (tc_brand ctx)) (ms_of (tc_resolvedAt ctx)) (mi_membership inp)"
    "context_assignment inp ctx (mi_membership inp) = Inr sa"
    "distinct (map pd_permissionReference (mi_permissionDefinitions inp))"
    "distinct (map rl_roleReference (mi_roles inp))"
    "map_res (override_evidence ctx actor (mi_permissionDefinitions inp)) (mi_permissionOverrides inp) = Inr explicit"
    "map_res (assignment_evidence ctx actor (mi_membership inp) sa (mi_permissionDefinitions inp) (mi_roles inp)
       (mi_permissionGrants inp)) (mi_roleAssignments inp) = Inr byRole"
    "collect_evidence [] (concat explicit @ concat byRole) = Some seen" "set (pm_evidence pm) = set seen"
    "uuid_v7 (pm_policySnapshotReference pm)" "1 \<le> pm_policyVersion pm" "pm_policyVersion pm \<le> max_safe"
proof -
  from assms have body: "materialize_body h inp = Inr pm"
    by (simp add: materializePermissionEvidence_def catching_throw_Inr)
  show ?thesis
    using body unfolding materialize_body_def bnd_eq_Inr or_throw_Inr throw_if_eq_Inr deduplicateAndSort_def
  proof (elim exE conjE)
    fix ctx actor m sa explicit byRole seen normalized snapshot version
    assume "revalidateTenantContext h (mi_tenantContext inp) = Inr ctx" "ia_actorReference (tc_actor ctx) = Some actor"
      and m: "resolveActiveMembership [mi_membership inp] actor (br_brandReference (tc_brand ctx))
            (JStr (tc_resolvedAt ctx)) = Inr m"
      and sa: "context_assignment inp ctx m = Inr sa"
      and d: "\<not> (\<not> distinct (map pd_permissionReference (mi_permissionDefinitions inp)) \<or>
                    \<not> distinct (map rl_roleReference (mi_roles inp)))"
      and "map_res (override_evidence ctx actor (mi_permissionDefinitions inp)) (mi_permissionOverrides inp) = Inr explicit"
      and r: "map_res (assignment_evidence ctx actor m sa (mi_permissionDefinitions inp) (mi_roles inp)
           (mi_permissionGrants inp)) (mi_roleAssignments inp) = Inr byRole"
      and "collect_evidence [] (concat explicit @ concat byRole) = Some seen"
      and n: "Inr (sort_key (\<lambda>e. evidence_source_order (pe_source e) # collation_key (pe_evidenceReference e)) seen) =
           (Inr normalized :: permission_evidence list res)"
      and s: "evaluation_uuid (JStr (ps_snapshotReference (mi_policyState inp))) = Inr snapshot"
      and v: "parsePolicyVersion (JNum (ps_version (mi_policyState inp))) = Inr version"
      and pm: "Inr \<lparr>pm_policySnapshotReference = snapshot, pm_policyVersion = version, pm_evidence = normalized,
           pm_evidenceCount = length normalized\<rparr> = (Inr pm :: policy_materialization res)"
    moreover have "m = mi_membership inp"
      "member_matches actor (br_brandReference (tc_brand ctx)) (ms_of (tc_resolvedAt ctx)) m"
      using resolveActiveMembership_Inr [OF m] by simp_all
    moreover have "set (pm_evidence pm) = set seen" using n pm by auto
    moreover have "uuid_v7 (pm_policySnapshotReference pm)" "1 \<le> pm_policyVersion pm" "pm_policyVersion pm \<le> max_safe"
      using pm s v by (auto simp: evaluation_uuid_def parsePolicyVersion_def or_throw_Inr split: if_splits)
    ultimately show ?thesis using d by (intro that [of ctx actor sa explicit byRole seen]) simp_all
  qed
qed

lemma materialized_evidence:
  assumes "materializePermissionEvidence h inp = Inr pm"
  obtains ctx actor sa where "revalidateTenantContext h (mi_tenantContext inp) = Inr ctx"
    "ia_actorReference (tc_actor ctx) = Some actor"
    "member_matches actor (br_brandReference (tc_brand ctx)) (ms_of (tc_resolvedAt ctx)) (mi_membership inp)"
    "context_assignment inp ctx (mi_membership inp) = Inr sa"
    "\<And>e. e \<in> set (pm_evidence pm) \<longleftrightarrow> standing_evidence ctx inp e" "one_per_reference (set (pm_evidence pm))"
    "\<And>assigned role. role_stands ctx inp assigned role \<Longrightarrow> \<not> role_store_bad role assigned sa"
    "\<And>e. e \<in> set (pm_evidence pm) \<Longrightarrow> uuid_v7 (pe_evidenceReference e) \<and> action_format (pe_action e) \<and>
      (pe_source e = RolePermission \<longrightarrow> (\<exists>r. pe_roleReference e = Some r \<and> uuid_v7 r) \<and>
         (case pe_effectiveUntil e of None \<Rightarrow> True | Some u \<Rightarrow> ms_of (pe_effectiveFrom e) < ms_of u))"
proof -
  from assms obtain ctx actor sa explicit byRole seen where
    c: "revalidateTenantContext h (mi_tenantContext inp) = Inr ctx"
    and a: "ia_actorReference (tc_actor ctx) = Some actor"
    and m: "member_matches actor (br_brandReference (tc_brand ctx)) (ms_of (tc_resolvedAt ctx)) (mi_membership inp)"
    and sa: "context_assignment inp ctx (mi_membership inp) = Inr sa"
    and dd: "distinct (map pd_permissionReference (mi_permissionDefinitions inp))"
    and dr: "distinct (map rl_roleReference (mi_roles inp))"
    and ex: "map_res (override_evidence ctx actor (mi_permissionDefinitions inp)) (mi_permissionOverrides inp) = Inr explicit"
    and byr: "map_res (assignment_evidence ctx actor (mi_membership inp) sa (mi_permissionDefinitions inp) (mi_roles inp)
       (mi_permissionGrants inp)) (mi_roleAssignments inp) = Inr byRole"
    and col: "collect_evidence [] (concat explicit @ concat byRole) = Some seen" and pm: "set (pm_evidence pm) = set seen"
    by (rule materialize_parts)
  have set: "set (pm_evidence pm) = set (concat explicit) \<union> set (concat byRole)"
    using collect_evidence_iff(2) [OF col] pm by simp
  have one: "one_per_reference (set (pm_evidence pm))"
    using collect_evidence_iff [of "concat explicit @ concat byRole"] col pm by force
  have explicit: "e \<in> set (concat explicit) \<longleftrightarrow>
      (\<exists>effect action ov. override_stands ctx inp effect action ov \<and> e = evidence_of_override ov)" for e
  proof -
    have "e \<in> set es \<longleftrightarrow> (\<exists>d\<in>set (mi_permissionDefinitions inp). pd_permissionReference d = ov_permissionReference ov \<and>
           \<not> override_skipped ctx actor d ov) \<and> e = evidence_of_override ov"
      if "override_evidence ctx actor (mi_permissionDefinitions inp) ov = Inr es" for ov es
      using override_evidence_Inr(1) [OF that dd] by (auto split: if_splits)
    then have "e \<in> set (concat explicit) \<longleftrightarrow> (\<exists>ov\<in>set (mi_permissionOverrides inp).
        (\<exists>d\<in>set (mi_permissionDefinitions inp). pd_permissionReference d = ov_permissionReference ov \<and>
           \<not> override_skipped ctx actor d ov) \<and> e = evidence_of_override ov)"
      unfolding map_res_concat [OF ex] using map_res_in_src [OF ex] by blast
    also have "\<dots> \<longleftrightarrow> (\<exists>effect action ov. override_stands ctx inp effect action ov \<and> e = evidence_of_override ov)"
      using override_stands_iff [OF a, of inp] by blast
    finally show ?thesis .
  qed
  have role: "e \<in> set (concat byRole) \<longleftrightarrow> (\<exists>assigned role action g. role_stands ctx inp assigned role \<and>
      grant_stands ctx inp role action g \<and> e = evidence_of_grant role assigned g)" for e
  proof -
    have "e \<in> set (concat byRole) \<longleftrightarrow> (\<exists>assigned\<in>set (mi_roleAssignments inp). \<exists>role\<in>set (mi_roles inp).
        rl_roleReference role = rs_roleReference assigned \<and>
        \<not> role_skipped ctx actor (mi_membership inp) role assigned \<and> (\<exists>g\<in>set (mi_permissionGrants inp).
        \<not> grant_skipped ctx role g \<and> (\<exists>d\<in>set (mi_permissionDefinitions inp).
          pd_permissionReference d = gt_permissionReference g \<and> pd_lifecycle d = DefinitionActive \<and>
          pd_action d = gt_action g) \<and> e = evidence_of_grant role assigned g))"
    (is "_ \<longleftrightarrow> (\<exists>assigned\<in>_. ?from assigned)")
    proof -
      have "e \<in> set es \<longleftrightarrow> ?from assigned" if "assignment_evidence ctx actor (mi_membership inp) sa
          (mi_permissionDefinitions inp) (mi_roles inp) (mi_permissionGrants inp) assigned = Inr es" for assigned es
        by (rule assignment_evidence_Inr(1) [OF that dd dr])
      then show ?thesis unfolding map_res_concat [OF byr] using map_res_in_src [OF byr] by blast
    qed
    also have "\<dots> \<longleftrightarrow> (\<exists>assigned role g. role_stands ctx inp assigned role \<and> (\<exists>action. grant_stands ctx inp role action g) \<and>
        e = evidence_of_grant role assigned g)"
      unfolding role_stands_iff [OF a] grant_stands_iff by blast
    finally show ?thesis by blast
  qed
  have link: "\<not> role_store_bad r assigned sa" if "role_stands ctx inp assigned r" for assigned r
    using that map_res_in_src [OF byr, of assigned] assignment_evidence_Inr(2) [OF _ dd dr, of ctx actor "mi_membership inp" sa _ assigned]
    unfolding role_stands_iff [OF a] by blast
  have wf: "uuid_v7 (pe_evidenceReference e) \<and> action_format (pe_action e) \<and>
      (pe_source e = RolePermission \<longrightarrow> (\<exists>r. pe_roleReference e = Some r \<and> uuid_v7 r) \<and>
         (case pe_effectiveUntil e of None \<Rightarrow> True | Some u \<Rightarrow> ms_of (pe_effectiveFrom e) < ms_of u))"
    if "e \<in> set (pm_evidence pm)" for e
  proof (cases "e \<in> set (concat explicit)")
    case True
    then obtain ov es where "override_evidence ctx actor (mi_permissionDefinitions inp) ov = Inr es" "e \<in> set es"
      unfolding map_res_concat [OF ex] by blast
    from override_evidence_Inr(2) [OF this(1) dd this(2)] show ?thesis
      by (auto simp: evidence_of_override_def split: if_splits)
  next
    case False
    with that set obtain assigned es where "assignment_evidence ctx actor (mi_membership inp) sa
        (mi_permissionDefinitions inp) (mi_roles inp) (mi_permissionGrants inp) assigned = Inr es" "e \<in> set es"
      using map_res_concat [OF byr] by blast
    from assignment_evidence_Inr(3) [OF this(1) dd dr this(2)] show ?thesis by blast
  qed
  show ?thesis
  proof (rule that [OF c a m sa _ one link wf])
    show "e \<in> set (pm_evidence pm) \<longleftrightarrow> standing_evidence ctx inp e" for e
      unfolding set standing_evidence_def explicit [symmetric] role [symmetric] by simp
  qed
qed

lemma evidence_of_applies:
  "override_stands ctx inp effect action ov \<Longrightarrow> evidence_applies ctx a (evidence_of_override ov) \<longleftrightarrow> action = a"
  "role_stands ctx inp assigned role \<Longrightarrow> grant_stands ctx inp role action g \<Longrightarrow>
     evidence_applies ctx a (evidence_of_grant role assigned g) \<longleftrightarrow> action = a"
  by (auto simp: override_stands_def role_stands_def grant_stands_def evidence_applies_def evidence_of_override_def
      evidence_of_grant_def fact_in_scope_def intro: in_force_merged)

text \<open>The decision over the materialized evidence is the policy.\<close>

lemma standing_decides:
  assumes "\<And>e. e \<in> E \<longleftrightarrow> standing_evidence ctx inp e"
  shows "some_applies E ctx a ExplicitDeny \<longleftrightarrow> (\<exists>ov. override_stands ctx inp DenyEffect a ov)"
    and "some_applies E ctx a ExplicitAllow \<longleftrightarrow> (\<exists>ov. override_stands ctx inp AllowEffect a ov)"
    and "some_applies E ctx a RolePermission \<longleftrightarrow>
      (\<exists>assigned role g. role_stands ctx inp assigned role \<and> grant_stands ctx inp role a g)"
proof -
  have eff: "override_stands ctx inp effect action ov \<Longrightarrow>
      pe_source (evidence_of_override ov) = (if effect = DenyEffect then ExplicitDeny else ExplicitAllow)"
    for effect action ov by (simp add: evidence_of_override_def override_stands_def)
  have rp: "pe_source (evidence_of_grant role assigned g) = RolePermission" for role assigned g
    by (simp add: evidence_of_grant_def)
  have eff_cases: "effect = DenyEffect \<or> effect = AllowEffect" for effect by (cases effect) simp_all
  have sa: "some_applies E ctx a source \<longleftrightarrow>
      (\<exists>effect ov. override_stands ctx inp effect a ov \<and> (if effect = DenyEffect then ExplicitDeny else ExplicitAllow) = source) \<or>
      (\<exists>assigned role g. role_stands ctx inp assigned role \<and> grant_stands ctx inp role a g \<and> RolePermission = source)"
    (is "_ \<longleftrightarrow> ?facts source") for source
  proof
    assume "some_applies E ctx a source"
    then obtain e where e: "standing_evidence ctx inp e" "evidence_applies ctx a e" "pe_source e = source"
      unfolding some_applies_def assms Bex_def by blast
    from e(1) consider (explicit) effect action ov where "override_stands ctx inp effect action ov" "e = evidence_of_override ov"
      | (role) assigned role action g where "role_stands ctx inp assigned role" "grant_stands ctx inp role action g"
        "e = evidence_of_grant role assigned g"
      unfolding standing_evidence_def by blast
    then show "?facts source"
    proof cases
      case explicit
      with e evidence_of_applies(1) [OF explicit(1), of a] eff [OF explicit(1)] show ?thesis by metis
    next
      case role
      with e evidence_of_applies(2) [OF role(1) role(2), of a] rp show ?thesis by metis
    qed
  next
    assume "?facts source"
    then consider (explicit) effect ov where "override_stands ctx inp effect a ov"
        "(if effect = DenyEffect then ExplicitDeny else ExplicitAllow) = source"
      | (role) assigned role g where "role_stands ctx inp assigned role" "grant_stands ctx inp role a g"
        "RolePermission = source" by blast
    then show "some_applies E ctx a source"
    proof cases
      case explicit
      then have "evidence_of_override ov \<in> E" unfolding assms standing_evidence_def by blast
      moreover have "evidence_applies ctx a (evidence_of_override ov)" using evidence_of_applies(1) [OF explicit(1)] by simp
      ultimately show ?thesis using eff [OF explicit(1)] explicit(2) unfolding some_applies_def by metis
    next
      case role
      then have "evidence_of_grant role assigned g \<in> E" unfolding assms standing_evidence_def by blast
      moreover have "evidence_applies ctx a (evidence_of_grant role assigned g)"
        using evidence_of_applies(2) [OF role(1) role(2)] by simp
      ultimately show ?thesis using rp role(3) unfolding some_applies_def by metis
    qed
  qed
  show "some_applies E ctx a ExplicitDeny \<longleftrightarrow> (\<exists>ov. override_stands ctx inp DenyEffect a ov)"
    "some_applies E ctx a ExplicitAllow \<longleftrightarrow> (\<exists>ov. override_stands ctx inp AllowEffect a ov)"
    "some_applies E ctx a RolePermission \<longleftrightarrow>
      (\<exists>assigned role g. role_stands ctx inp assigned role \<and> grant_stands ctx inp role a g)"
    unfolding sa using eff_cases by auto
qed

section \<open>Evidence in a request\<close>

definition evidence_js :: "permission_evidence \<Rightarrow> js" where
  "evidence_js e = JObj [(''source'', JStr (evidence_source_name (pe_source e))),
     (''evidenceReference'', JStr (pe_evidenceReference e)), (''action'', JStr (pe_action e)),
     (''actorReference'', JStr (pe_actorReference e)), (''roleReference'', js_opt JStr (pe_roleReference e)),
     (''brandReference'', JStr (pe_brandReference e)), (''storeReference'', js_opt JStr (pe_storeReference e)),
     (''effectiveFrom'', JStr (pe_effectiveFrom e)), (''effectiveUntil'', js_opt JStr (pe_effectiveUntil e))]"

definition valid_evidence :: "permission_evidence \<Rightarrow> bool" where
  "valid_evidence e \<longleftrightarrow>
     uuid_v7 (pe_evidenceReference e) \<and> action_format (pe_action e) \<and>
     (pe_source e = RolePermission \<longleftrightarrow> pe_roleReference e \<noteq> None) \<and> pred_option uuid_v7 (pe_roleReference e) \<and>
     canonical_instant (pe_effectiveFrom e) \<and> pred_option canonical_instant (pe_effectiveUntil e) \<and>
     (case pe_effectiveUntil e of None \<Rightarrow> True | Some u \<Rightarrow> ms_of (pe_effectiveFrom e) < ms_of u)"

definition evaluation_request :: "js \<Rightarrow> js \<Rightarrow> js \<Rightarrow> js \<Rightarrow> js \<Rightarrow> js \<Rightarrow> js" where
  "evaluation_request tenant action scope snapshot version evidence =
     JObj [(''tenantContext'', tenant), (''action'', action), (''resourceScope'', scope),
       (''policySnapshotReference'', snapshot), (''policyVersion'', version), (''evidence'', evidence)]"

lemma evaluation_request_fld [simp]:
  "fld (evaluation_request t a s n v e) ''tenantContext'' = t" "fld (evaluation_request t a s n v e) ''action'' = a"
  "fld (evaluation_request t a s n v e) ''resourceScope'' = s"
  "fld (evaluation_request t a s n v e) ''policySnapshotReference'' = n"
  "fld (evaluation_request t a s n v e) ''policyVersion'' = v" "fld (evaluation_request t a s n v e) ''evidence'' = e"
  by (simp_all add: evaluation_request_def)

lemma evaluation_parse_Inr [res_simps]:
  "evaluation_uuid v = Inr s \<longleftrightarrow> v = JStr s \<and> uuid_v7 s"
  "parseBusinessAction v = Inr s \<longleftrightarrow> v = JStr s \<and> action_format s"
  "parseEvidenceInstant v = Inr s \<longleftrightarrow> v = JStr s \<and> canonical_instant s"
  "any_string v = Inr s \<longleftrightarrow> v = JStr s"
  "parsePolicyVersion v = Inr n \<longleftrightarrow> v = JNum n \<and> 1 \<le> n \<and> n \<le> max_safe"
  by (auto simp: evaluation_uuid_def parseBusinessAction_def parseEvidenceInstant_def any_string_def
      parsePolicyVersion_def catching_throw_Inr parseCanonicalInstant_Inr or_throw_Inr str_if_Some safe_int_in_Some
      max_safe_def)

lemma evidence_source_of_name [simp]: "enum_of evidence_sources (JStr (evidence_source_name s)) = Some s"
  by (cases s) (simp_all add: enum_of_def evidence_sources_def evidence_source_name_def)

lemma permission_evidence_of_Inr:
  "permission_evidence_of v = Inr e \<longleftrightarrow>
     has_shape v [''source'', ''evidenceReference'', ''action'', ''actorReference'', ''roleReference'',
            ''brandReference'', ''storeReference'', ''effectiveFrom'', ''effectiveUntil''] \<and>
     enum_of evidence_sources (fld v ''source'') = Some (pe_source e) \<and>
     fld v ''actorReference'' = JStr (pe_actorReference e) \<and> fld v ''brandReference'' = JStr (pe_brandReference e) \<and>
     fld v ''storeReference'' = js_opt JStr (pe_storeReference e) \<and>
     fld v ''roleReference'' = js_opt JStr (pe_roleReference e) \<and>
     fld v ''effectiveFrom'' = JStr (pe_effectiveFrom e) \<and> fld v ''effectiveUntil'' = js_opt JStr (pe_effectiveUntil e) \<and>
     fld v ''evidenceReference'' = JStr (pe_evidenceReference e) \<and> fld v ''action'' = JStr (pe_action e) \<and>
     valid_evidence e"
proof -
  have n: "nullable f w = Inr o' \<longleftrightarrow> w = js_opt JStr o' \<and> pred_option P o'"
    if "\<And>w s. f w = Inr s \<longleftrightarrow> w = JStr s \<and> P s" for f P w o'
    using that by (cases o'; cases w) (auto simp: nullable_Inr)
  note ns = n [of any_string "\<lambda>_. True", simplified evaluation_parse_Inr, simplified]
    n [of parseEvidenceInstant canonical_instant, simplified evaluation_parse_Inr, simplified]
    n [of evaluation_uuid uuid_v7, simplified evaluation_parse_Inr, simplified]
  have r: "js_opt JStr o' \<noteq> JNull \<longleftrightarrow> o' \<noteq> None" "pred_option (\<lambda>_. True) o'" for o' by (cases o'; simp)+
  show ?thesis
    unfolding permission_evidence_of_def bnd_eq_Inr or_throw_Inr throw_if_eq_Inr evaluation_plain_def
      evaluation_parse_Inr ns
    by (cases e) (auto simp: valid_evidence_def r not_le split: option.splits)
qed

text \<open>Evidence and its objects are a codec.\<close>

interpretation evidence_codec: codec permission_evidence_of evidence_js valid_evidence
proof
  show "permission_evidence_of v = Inr x \<Longrightarrow> valid_evidence x" for v x by (simp add: permission_evidence_of_Inr)
  show "valid_evidence x \<Longrightarrow> permission_evidence_of (evidence_js x) = Inr x" for x
    by (simp add: permission_evidence_of_Inr evidence_js_def)
  show "evidence_js x \<noteq> JNull" for x by (simp add: evidence_js_def)
qed

lemma evidence_js_parse: "permission_evidence_of (evidence_js e) = Inr e' \<Longrightarrow> e' = e"
proof -
  have o: "js_opt JStr a = js_opt JStr b \<longleftrightarrow> a = b" for a b by (cases a; cases b) simp_all
  show "permission_evidence_of (evidence_js e) = Inr e' \<Longrightarrow> e' = e"
    unfolding permission_evidence_of_Inr by (cases e; cases e') (simp add: evidence_js_def o)
qed

lemma parse_printed_evidence:
  "map_res permission_evidence_of (map evidence_js es) = Inr cs \<Longrightarrow> cs = es"
  by (induction es arbitrary: cs) (auto simp: bnd_eq_Inr dest: evidence_js_parse)

text \<open>What the creation functions promise of the facts: instants are canonical and periods are not empty.\<close>

definition period_ok :: "string \<Rightarrow> string option \<Rightarrow> bool" where
  "period_ok start ends \<longleftrightarrow> canonical_instant start \<and> pred_option canonical_instant ends \<and>
     (case ends of None \<Rightarrow> True | Some u \<Rightarrow> ms_of start < ms_of u)"

definition facts_ok :: "materialization_input \<Rightarrow> bool" where
  "facts_ok inp \<longleftrightarrow>
     list_all (\<lambda>ov. period_ok (ov_effectiveFrom ov) (ov_effectiveUntil ov)) (mi_permissionOverrides inp) \<and>
     list_all (\<lambda>r. period_ok (rl_effectiveFrom r) (rl_effectiveUntil r)) (mi_roles inp) \<and>
     list_all (\<lambda>r. period_ok (rs_effectiveFrom r) (rs_effectiveUntil r)) (mi_roleAssignments inp) \<and>
     list_all (\<lambda>g. period_ok (gt_effectiveFrom g) (gt_effectiveUntil g)) (mi_permissionGrants inp)"

lemma created_period_ok:
  "createPermissionOverride v d = Inr ov \<Longrightarrow> period_ok (ov_effectiveFrom ov) (ov_effectiveUntil ov)"
  "createPermissionGrant v role d = Inr g \<Longrightarrow> period_ok (gt_effectiveFrom g) (gt_effectiveUntil g)"
proof -
  have p: "policy_period a b = Inr (x, y) \<Longrightarrow> period_ok x y" for a b x y
    by (cases y) (auto simp: policy_period_def policy_instant_def bnd_eq_Inr throw_if_eq_Inr catching_throw_Inr
        parseCanonicalInstant_Inr nullable_Inr period_ok_def)
  show "createPermissionOverride v d = Inr ov \<Longrightarrow> period_ok (ov_effectiveFrom ov) (ov_effectiveUntil ov)"
    unfolding createPermissionOverride_def bnd_eq_Inr by (elim exE conjE) (auto simp: bnd_eq_Inr dest!: p split: prod.splits)
  show "createPermissionGrant v role d = Inr g \<Longrightarrow> period_ok (gt_effectiveFrom g) (gt_effectiveUntil g)"
    unfolding createPermissionGrant_def bnd_eq_Inr by (elim exE conjE) (auto simp: bnd_eq_Inr dest!: p split: prod.splits)
qed

lemma merged_canonical:
  assumes "period_ok a a'" and "period_ok b b'" and "period_ok c c'"
  shows "canonical_instant (latestFrom [a, b, c])" "pred_option canonical_instant (earliestUntil [a', b', c'])"
proof -
  show "canonical_instant (latestFrom [a, b, c])"
    using latestFrom_in [of "[a, b, c]"] assms by (auto simp: period_ok_def)
  show "pred_option canonical_instant (earliestUntil [a', b', c'])"
    using earliestUntil_in [of "[a', b', c']"] assms by (cases "earliestUntil [a', b', c']") (auto simp: period_ok_def)
qed

lemma standing_evidence_valid:
  assumes "facts_ok inp" and "standing_evidence ctx inp e"
    and "uuid_v7 (pe_evidenceReference e) \<and> action_format (pe_action e) \<and>
      (pe_source e = RolePermission \<longrightarrow> (\<exists>r. pe_roleReference e = Some r \<and> uuid_v7 r) \<and>
         (case pe_effectiveUntil e of None \<Rightarrow> True | Some u \<Rightarrow> ms_of (pe_effectiveFrom e) < ms_of u))"
  shows "valid_evidence e"
  using assms(2) unfolding standing_evidence_def
proof (elim disjE exE conjE)
  fix effect action ov assume ov: "override_stands ctx inp effect action ov" "e = evidence_of_override ov"
  then have "period_ok (ov_effectiveFrom ov) (ov_effectiveUntil ov)"
    using assms(1) by (auto simp: facts_ok_def override_stands_def list_all_iff)
  then show ?thesis using assms(3) by (auto simp: ov(2) valid_evidence_def evidence_of_override_def period_ok_def split: option.splits)
next
  fix assigned role action g
  assume g: "role_stands ctx inp assigned role" "grant_stands ctx inp role action g" "e = evidence_of_grant role assigned g"
  then have "period_ok (rl_effectiveFrom role) (rl_effectiveUntil role)"
    "period_ok (rs_effectiveFrom assigned) (rs_effectiveUntil assigned)"
    "period_ok (gt_effectiveFrom g) (gt_effectiveUntil g)"
    using assms(1) by (auto simp: facts_ok_def role_stands_def grant_stands_def list_all_iff)
  from merged_canonical [OF this] assms(3) show ?thesis
    by (auto simp: g(3) valid_evidence_def evidence_of_grant_def split: option.splits)
qed

lemma request_decides:
  assumes "materializePermissionEvidence h inp = Inr pm" and "revalidateTenantContext h (mi_tenantContext inp) = Inr ctx"
    and "evaluatePermission h (evaluation_request (mi_tenantContext inp) a s n v (JArr (map evidence_js (pm_evidence pm)))) = Inr d"
  shows "dc_effect d = Allow \<Longrightarrow> policy_permits ctx inp (dc_action d)"
    and "facts_ok inp \<Longrightarrow> dc_effect d = Allow \<longleftrightarrow> policy_permits ctx inp (dc_action d)"
proof -
  from materialized_evidence [OF assms(1)] assms(2) have
    st: "\<And>e. e \<in> set (pm_evidence pm) \<longleftrightarrow> standing_evidence ctx inp e" and one: "one_per_reference (set (pm_evidence pm))"
    and wf: "\<And>e. e \<in> set (pm_evidence pm) \<Longrightarrow> uuid_v7 (pe_evidenceReference e) \<and> action_format (pe_action e) \<and>
      (pe_source e = RolePermission \<longrightarrow> (\<exists>r. pe_roleReference e = Some r \<and> uuid_v7 r) \<and>
         (case pe_effectiveUntil e of None \<Rightarrow> True | Some u \<Rightarrow> ms_of (pe_effectiveFrom e) < ms_of u))"
    by (metis Inr_inject)+
  from assms(3) obtain ctx' where c': "revalidateTenantContext h (mi_tenantContext inp) = Inr ctx'"
    and d: "decide (request_evidence (JArr (map evidence_js (pm_evidence pm)))) ctx' (dc_action d) =
      (dc_effect d, dc_reason d, dc_source d)"
    by (rule evaluatePermission_Inr) simp
  from c' assms(2) have ctx': "ctx' = ctx" by simp
  have e: "dc_effect d = fst (decide (request_evidence (JArr (map evidence_js (pm_evidence pm)))) ctx (dc_action d))"
    using d by (simp add: ctx')
  have permits: "fst (decide (Some (pm_evidence pm)) ctx (dc_action d)) = Allow \<longleftrightarrow> policy_permits ctx inp (dc_action d)"
    unfolding decide_Allow_iff standing_decides [OF st] policy_permits_def by blast
  show "dc_effect d = Allow \<Longrightarrow> policy_permits ctx inp (dc_action d)"
    using parse_printed_evidence [of "pm_evidence pm"] permits
    by (auto simp: e request_evidence_decide one split: sum.splits)
  assume "facts_ok inp"
  then have "list_all valid_evidence (pm_evidence pm)"
    using st wf standing_evidence_valid by (auto simp: list_all_iff)
  then show "dc_effect d = Allow \<longleftrightarrow> policy_permits ctx inp (dc_action d)"
    using permits by (simp add: e request_evidence_decide evidence_codec.list_parse_print one)
qed

section \<open>The permission middleware\<close>

text \<open>
  \<open>createMerchantPermissionMiddleware\<close> of \<open>apps/api/src/merchant-authentication.ts\<close>: the context of the
  request, the membership, the assignment to the store, the policy snapshot, the evidence and the decision.
  Whatever throws on the way denies the request. The ports are arguments; a snapshot they return is frozen or
  not. A reference that is not a string matches no membership and no store; it denies here at once.
\<close>

record policy_snapshot =
  sn_frozen :: bool
  sn_state :: policy_state
  sn_permissionDefinitions :: "permission_definition list"
  sn_roles :: "permission_role list"
  sn_roleAssignments :: "role_assignment list"
  sn_permissionGrants :: "permission_grant list"
  sn_permissionOverrides :: "permission_override list"

record permission_ports =
  findMemberships :: "string \<Rightarrow> string \<Rightarrow> membership list res"
  findStoreAssignments :: "string \<Rightarrow> string \<Rightarrow> store_assignment list res"
  loadPolicySnapshot :: "string \<Rightarrow> policy_snapshot option res"

datatype middleware_outcome = Next | Forbidden

definition snapshot_input :: "js \<Rightarrow> membership \<Rightarrow> store_assignment option \<Rightarrow> policy_snapshot \<Rightarrow> materialization_input" where
  "snapshot_input tenant m sa sn =
     \<lparr>mi_frozen = sn_frozen sn, mi_tenantContext = tenant, mi_policyState = sn_state sn, mi_membership = m,
      mi_storeAssignment = sa, mi_permissionDefinitions = sn_permissionDefinitions sn, mi_roles = sn_roles sn,
      mi_roleAssignments = sn_roleAssignments sn, mi_permissionGrants = sn_permissionGrants sn,
      mi_permissionOverrides = sn_permissionOverrides sn\<rparr>"

definition typed_reference :: "js \<Rightarrow> string res" where
  "typed_reference v = or_throw (str_if (\<lambda>_. True) v) TypeError"

definition merchant_assignment :: "permission_ports \<Rightarrow> js \<Rightarrow> membership \<Rightarrow> store_assignment option res" where
  "merchant_assignment p tenant m =
     (if fld tenant ''store'' = JNull then Inr None
      else
        bnd (get_prop (fld tenant ''store'') ''storeReference'') (\<lambda>v.
        bnd (typed_reference v) (\<lambda>shop.
        bnd (findStoreAssignments p (mb_membershipReference m) shop) (\<lambda>assignments.
        bnd (resolveActiveStoreAssignment m assignments shop (fld tenant ''resolvedAt'')) (\<lambda>a. Inr (Some a))))))"

definition merchant_decision :: "host \<Rightarrow> permission_ports \<Rightarrow> string \<Rightarrow> js \<Rightarrow> permission_decision res" where
  "merchant_decision h p action tenant =
     bnd (get_prop (fld tenant ''actor'') ''actorReference'') (\<lambda>actorValue.
     bnd (typed_reference actorValue) (\<lambda>actor.
     bnd (get_prop (fld tenant ''brand'') ''brandReference'') (\<lambda>brandValue.
     bnd (typed_reference brandValue) (\<lambda>brand.
     bnd (findMemberships p actor brand) (\<lambda>memberships.
     bnd (resolveActiveMembership memberships actor brand (fld tenant ''resolvedAt'')) (\<lambda>m.
     bnd (merchant_assignment p tenant m) (\<lambda>sa.
     bnd (loadPolicySnapshot p brand) (\<lambda>loaded.
     bnd (or_throw loaded TypeError) (\<lambda>sn.
     bnd (materializePermissionEvidence h (snapshot_input tenant m sa sn)) (\<lambda>pm.
     evaluatePermission h (evaluation_request tenant (JStr action)
       (JObj [(''kind'', fld tenant ''scopeKind''), (''brandReference'', JStr brand),
          (''storeReference'', if fld tenant ''store'' = JNull then JNull else fld (fld tenant ''store'') ''storeReference'')])
       (JStr (pm_policySnapshotReference pm)) (JNum (pm_policyVersion pm))
       (JArr (map evidence_js (pm_evidence pm))))))))))))))"

definition merchant_effect :: "host \<Rightarrow> permission_ports \<Rightarrow> string \<Rightarrow> bool \<Rightarrow> js \<Rightarrow> decision_effect res" where
  "merchant_effect h p action requireStoreScope tenant =
     bnd (get_prop tenant ''store'') (\<lambda>shop.
     if requireStoreScope \<and> shop = JNull then Inr Deny
     else bnd (merchant_decision h p action tenant) (\<lambda>d. Inr (dc_effect d)))"

definition merchant_permission :: "host \<Rightarrow> permission_ports \<Rightarrow> string \<Rightarrow> bool \<Rightarrow> js \<Rightarrow> middleware_outcome" where
  "merchant_permission h p action requireStoreScope tenant =
     (case merchant_effect h p action requireStoreScope tenant of
        Inr Allow \<Rightarrow> Next
      | _ \<Rightarrow> Forbidden)"

lemma get_prop_Inr: "get_prop v k = Inr w \<longleftrightarrow> v \<noteq> JUndefined \<and> v \<noteq> JNull \<and> w = fld v k"
  by (cases v) auto

lemma revalidated_store:
  "revalidateTenantContext h v = Inr ctx \<Longrightarrow> tc_store ctx = None \<longleftrightarrow> fld v ''store'' = JNull"
  by (auto simp: revalidateTenantContext_def createTenantContext_def catching_throw_Inr bnd_eq_Inr get_prop_Inr nullable_Inr)

lemma context_assignment_Inr:
  assumes "context_assignment inp ctx m = Inr sa"
  shows "sa = mi_storeAssignment inp"
    and "tc_store ctx = Some s \<Longrightarrow> \<exists>a. sa = Some a \<and> assignment_matches m (sh_storeReference s) (ms_of (tc_resolvedAt ctx)) a"
proof -
  have "sa = mi_storeAssignment inp \<and> (\<forall>s. tc_store ctx = Some s \<longrightarrow>
      (\<exists>a. sa = Some a \<and> assignment_matches m (sh_storeReference s) (ms_of (tc_resolvedAt ctx)) a))"
  proof (cases "tc_store ctx")
    case None
    with assms show ?thesis by (auto simp: context_assignment_def bnd_eq_Inr throw_if_eq_Inr)
  next
    case (Some s)
    with assms obtain a where "sa = Some a" "resolveActiveStoreAssignment m
        (case mi_storeAssignment inp of None \<Rightarrow> [] | Some a \<Rightarrow> [a]) (sh_storeReference s) (JStr (tc_resolvedAt ctx)) = Inr a"
      by (auto simp: context_assignment_def bnd_eq_Inr)
    with Some resolveActiveStoreAssignment_Inr(1,2) [OF this(2)] show ?thesis
      by (cases "mi_storeAssignment inp") auto
  qed
  then show "sa = mi_storeAssignment inp"
    "tc_store ctx = Some s \<Longrightarrow> \<exists>a. sa = Some a \<and> assignment_matches m (sh_storeReference s) (ms_of (tc_resolvedAt ctx)) a"
    by blast+
qed

lemma merchant_effect_parts:
  assumes "merchant_effect h p action requireStoreScope tenant = Inr Allow"
  obtains actor brand memberships m sa sn pm d sc where
    "\<not> (requireStoreScope \<and> fld tenant ''store'' = JNull)" "findMemberships p actor brand = Inr memberships"
    "resolveActiveMembership memberships actor brand (fld tenant ''resolvedAt'') = Inr m"
    "merchant_assignment p tenant m = Inr sa" "loadPolicySnapshot p brand = Inr (Some sn)"
    "materializePermissionEvidence h (snapshot_input tenant m sa sn) = Inr pm"
    "evaluatePermission h (evaluation_request tenant (JStr action) sc
       (JStr (pm_policySnapshotReference pm)) (JNum (pm_policyVersion pm)) (JArr (map evidence_js (pm_evidence pm)))) = Inr d"
    "dc_effect d = Allow"
proof -
  from assms obtain d where req: "\<not> (requireStoreScope \<and> fld tenant ''store'' = JNull)"
    and d: "merchant_decision h p action tenant = Inr d" "dc_effect d = Allow"
    by (auto simp: merchant_effect_def bnd_eq_Inr get_prop_Inr split: if_splits)
  from d(1) show thesis
    unfolding merchant_decision_def bnd_eq_Inr or_throw_Inr
    by (elim exE conjE, hypsubst) (rule that [OF req _ _ _ _ _ _ d(2)]; assumption)
qed

definition scope_js :: "tenant_context \<Rightarrow> js" where
  "scope_js ctx = JObj [(''kind'', JStr (tc_scopeKind ctx)), (''brandReference'', JStr (br_brandReference (tc_brand ctx))),
     (''storeReference'', js_opt JStr (tc_storeReference ctx))]"

lemma evaluation_returns:
  assumes "revalidateTenantContext h tenant = Inr ctx" and "action_format action" and "uuid_v7 snapshot"
    and "1 \<le> version" and "version \<le> max_safe"
  shows "\<exists>d. evaluatePermission h (evaluation_request tenant (JStr action) (scope_js ctx) (JStr snapshot) (JNum version)
      (JArr es)) = Inr d \<and> dc_action d = action \<and> dc_effect d = fst (decide (request_evidence (JArr es)) ctx action)"
proof -
  have "evaluation_scope (scope_js ctx) ctx = Inr \<lparr>sc_kind = tc_scopeKind ctx,
      sc_brandReference = br_brandReference (tc_brand ctx), sc_storeReference = tc_storeReference ctx\<rparr>"
    by (simp add: evaluation_scope_def evaluation_plain_def scope_js_def)
  moreover have "evaluation_plain (evaluation_request tenant (JStr action) (scope_js ctx) (JStr snapshot) (JNum version)
      (JArr es)) [''tenantContext'', ''action'', ''resourceScope'', ''policySnapshotReference'', ''policyVersion'',
      ''evidence''] = Inr ()"
    by (simp add: evaluation_plain_def evaluation_request_def)
  moreover have "parseBusinessAction (JStr action) = Inr action" "evaluation_uuid (JStr snapshot) = Inr snapshot"
    "parsePolicyVersion (JNum version) = Inr version"
    using assms by (simp_all add: evaluation_parse_Inr)
  ultimately show ?thesis
    using assms(1) by (simp add: evaluatePermission_def split: prod.splits)
qed

text \<open>
  C28. Whoever passes the permission middleware holds the permission. The request has a valid context with an
  actor whose membership of the brand, as the membership port gave it, is active and in force; if a store is
  required or given, the actor is actively assigned to it. By the policy snapshot of the brand no deny override
  of the action stands, and an allow override stands or the actor's assignment reaches the action through an
  active role, grant and definition, all in force at the instant of the context and within its scope; a role of
  a store is held through the assignment to that store.
\<close>

theorem merchant_permission_sound:
  assumes "merchant_permission h p action requireStoreScope tenant = Next"
  obtains ctx actor m sa sn memberships where "revalidateTenantContext h tenant = Inr ctx"
    and "ia_actorReference (tc_actor ctx) = Some actor"
    and "findMemberships p actor (br_brandReference (tc_brand ctx)) = Inr memberships" and "m \<in> set memberships"
    and "member_matches actor (br_brandReference (tc_brand ctx)) (ms_of (tc_resolvedAt ctx)) m"
    and "requireStoreScope \<Longrightarrow> tc_store ctx \<noteq> None"
    and "\<And>s. tc_store ctx = Some s \<Longrightarrow>
      \<exists>a. sa = Some a \<and> assignment_matches m (sh_storeReference s) (ms_of (tc_resolvedAt ctx)) a"
    and "loadPolicySnapshot p (br_brandReference (tc_brand ctx)) = Inr (Some sn)"
    and "policy_permits ctx (snapshot_input tenant m sa sn) action"
    and "\<And>assigned role. role_stands ctx (snapshot_input tenant m sa sn) assigned role \<Longrightarrow>
      \<not> role_store_bad role assigned sa"
proof -
  from assms have "merchant_effect h p action requireStoreScope tenant = Inr Allow"
    by (auto simp: merchant_permission_def split: sum.splits decision_effect.splits)
  then obtain actor brand memberships m sa sn pm d sc where
    req: "\<not> (requireStoreScope \<and> fld tenant ''store'' = JNull)" and ms: "findMemberships p actor brand = Inr memberships"
    and m: "resolveActiveMembership memberships actor brand (fld tenant ''resolvedAt'') = Inr m"
    and sn: "loadPolicySnapshot p brand = Inr (Some sn)"
    and pm: "materializePermissionEvidence h (snapshot_input tenant m sa sn) = Inr pm"
    and d: "evaluatePermission h (evaluation_request tenant (JStr action) sc (JStr (pm_policySnapshotReference pm))
       (JNum (pm_policyVersion pm)) (JArr (map evidence_js (pm_evidence pm)))) = Inr d" "dc_effect d = Allow"
    by (rule merchant_effect_parts)
  have inp: "mi_tenantContext (snapshot_input tenant m sa sn) = tenant" "mi_membership (snapshot_input tenant m sa sn) = m"
    "mi_storeAssignment (snapshot_input tenant m sa sn) = sa"
    by (simp_all add: snapshot_input_def)
  from materialized_evidence [OF pm, unfolded inp] obtain ctx actor' sa' where
    ctx: "revalidateTenantContext h tenant = Inr ctx" and actor': "ia_actorReference (tc_actor ctx) = Some actor'"
    and member: "member_matches actor' (br_brandReference (tc_brand ctx)) (ms_of (tc_resolvedAt ctx)) m"
    and ca: "context_assignment (snapshot_input tenant m sa sn) ctx m = Inr sa'"
    and link: "\<And>assigned role. role_stands ctx (snapshot_input tenant m sa sn) assigned role \<Longrightarrow>
      \<not> role_store_bad role assigned sa'"
    by metis
  from m obtain t where t: "fld tenant ''resolvedAt'' = JStr t"
    by (auto simp: resolveActiveMembership_def bnd_eq_Inr membership_parse_Inr)
  have here: "actor' = actor" "br_brandReference (tc_brand ctx) = brand" "m \<in> set memberships"
    using resolveActiveMembership_Inr [OF m [unfolded t]] member by (auto simp: member_matches_def)
  have sa': "sa' = sa" using context_assignment_Inr(1) [OF ca] by (simp add: inp)
  have "dc_action d = action"
    using d(1) by (rule evaluatePermission_Inr) simp
  then have permits: "policy_permits ctx (snapshot_input tenant m sa sn) action"
    using request_decides(1) [OF pm, unfolded inp, OF ctx d(1) d(2)] by simp
  have req': "requireStoreScope \<Longrightarrow> tc_store ctx \<noteq> None" using req revalidated_store [OF ctx] by simp
  show ?thesis
    by (rule that [OF ctx actor' _ here(3) member req' context_assignment_Inr(2) [OF ca, unfolded sa'] _ permits link [unfolded sa']])
      (simp_all add: here ms sn)
qed

text \<open>
  C29. The permission decision implements the policy. For a context that is accepted and policy facts of which
  the evidence can be derived, with the periods the creation functions guarantee, the evaluation of the derived
  evidence returns, and it allows an action exactly when the facts permit it.
\<close>

theorem permission_refines_policy:
  assumes "materializePermissionEvidence h inp = Inr pm" and "revalidateTenantContext h (mi_tenantContext inp) = Inr ctx"
    and "facts_ok inp" and "action_format action"
  shows "\<exists>d. evaluatePermission h (evaluation_request (mi_tenantContext inp) (JStr action) (scope_js ctx)
      (JStr (pm_policySnapshotReference pm)) (JNum (pm_policyVersion pm)) (JArr (map evidence_js (pm_evidence pm)))) = Inr d \<and>
    (dc_effect d = Allow \<longleftrightarrow> policy_permits ctx inp action)"
proof -
  have "uuid_v7 (pm_policySnapshotReference pm) \<and> 1 \<le> pm_policyVersion pm \<and> pm_policyVersion pm \<le> max_safe"
    by (rule materialize_parts [OF assms(1)]) blast
  then have "uuid_v7 (pm_policySnapshotReference pm)" "1 \<le> pm_policyVersion pm" "pm_policyVersion pm \<le> max_safe" by auto
  from evaluation_returns [OF assms(2) assms(4) this] obtain d where
    d: "evaluatePermission h (evaluation_request (mi_tenantContext inp) (JStr action) (scope_js ctx)
      (JStr (pm_policySnapshotReference pm)) (JNum (pm_policyVersion pm)) (JArr (map evidence_js (pm_evidence pm)))) = Inr d"
    "dc_action d = action" by blast
  from request_decides(2) [OF assms(1,2) d(1) assms(3)] d show ?thesis by auto
qed

lemma map_res_throws: "(\<exists>e. map_res f xs = Inl e) \<longleftrightarrow> (\<exists>x\<in>set xs. \<exists>e. f x = Inl e)"
proof (induction xs)
  case (Cons x xs)
  show ?case
  proof (cases "f x")
    case (Inr y)
    with Cons show ?thesis by (cases "map_res f xs") auto
  qed auto
qed simp

text \<open>
  The evidence of a request is a set: in whatever order its items come and however often one is repeated,
  the decision is the same, errors included.
\<close>

theorem evidence_is_a_set:
  assumes "set xs = set ys"
  shows "evaluatePermission h (evaluation_request t a s n v (JArr xs)) = evaluatePermission h (evaluation_request t a s n v (JArr ys))"
proof -
  have "decide (request_evidence (JArr xs)) ctx action = decide (request_evidence (JArr ys)) ctx action" for ctx action
  proof (cases "\<exists>x\<in>set xs. \<exists>e. permission_evidence_of x = Inl e")
    case True
    then have "\<exists>e. map_res permission_evidence_of xs = Inl e" "\<exists>e. map_res permission_evidence_of ys = Inl e"
      unfolding map_res_throws using assms by simp_all
    then show ?thesis by (auto simp: request_evidence_decide)
  next
    case False
    define f where "f x = (case permission_evidence_of x of Inr e \<Rightarrow> e)" for x
    have "permission_evidence_of x = Inr (f x)" if "x \<in> set xs" for x
      using False that by (cases "permission_evidence_of x") (auto simp: f_def)
    then have "map_res permission_evidence_of xs = Inr (map f xs)" "map_res permission_evidence_of ys = Inr (map f ys)"
      using assms by (auto intro: map_res_Inr_id)
    then show ?thesis by (simp add: request_evidence_decide decide_Some assms)
  qed
  then show ?thesis unfolding evaluatePermission_def by (simp add: evaluation_plain_def evaluation_request_def)
qed

section \<open>An example\<close>

text \<open>A manager of the brand publishes a menu: membership, role, assignment and grant are in force.\<close>

definition example_host :: host where
  "example_host = \<lparr>host_zone = (\<lambda>_. True), host_frozen = (\<lambda>_. True)\<rparr>"

definition example_actor_js :: js where
  "example_actor_js = JObj [(''actorType'', JStr ''User''),
     (''actorReference'', JStr ''01890000-0000-7000-8000-000000000301''), (''accountKind'', JStr ''Workforce''),
     (''status'', JStr ''Active''), (''authenticationMethod'', JStr ''Oidc''), (''verificationLevel'', JStr ''Mfa''),
     (''authenticatedAt'', JStr ''2026-06-01T12:00:00.000Z''), (''recentMfaAt'', JNull)]"

definition example_brand_js :: js where
  "example_brand_js = JObj [(''brandReference'', JStr ''01890000-0000-7000-8000-000000000302''), (''code'', JStr ''BOP''),
     (''displayName'', JStr ''Bop''), (''defaultLocale'', JStr ''fr-CA''), (''currencyCode'', JStr ''CAD''),
     (''lifecycle'', JStr ''Active''), (''version'', JNum 1), (''createdAt'', JStr ''2026-06-01T12:00:00.000Z''),
     (''updatedAt'', JStr ''2026-06-01T12:00:00.000Z'')]"

definition example_tenant :: js where
  "example_tenant = JObj [(''actor'', example_actor_js), (''scopeKind'', JStr ''Brand''), (''brand'', example_brand_js),
     (''store'', JNull), (''resolvedAt'', JStr ''2026-06-02T12:00:00.000Z'')]"

definition example_context :: tenant_context where
  "example_context =
     \<lparr>tc_actor = \<lparr>ia_actorType = UserActor, ia_actorReference = Some ''01890000-0000-7000-8000-000000000301'',
        ia_accountKind = WorkforceKind, ia_authenticationMethod = Oidc, ia_verificationLevel = Mfa,
        ia_authenticatedAt = ''2026-06-01T12:00:00.000Z'', ia_recentMfaAt = None\<rparr>,
      tc_brand = \<lparr>br_brandReference = ''01890000-0000-7000-8000-000000000302'', br_code = ''BOP'',
        br_displayName = ''Bop'', br_defaultLocale = ''fr-CA'', br_lifecycle = OrgActive, br_version = 1,
        br_createdAt = ''2026-06-01T12:00:00.000Z'', br_updatedAt = ''2026-06-01T12:00:00.000Z''\<rparr>,
      tc_store = None, tc_resolvedAt = ''2026-06-02T12:00:00.000Z''\<rparr>"

definition example_membership :: membership where
  "example_membership =
     \<lparr>mb_membershipReference = ''01890000-0000-7000-8000-000000000303'',
      mb_actorReference = ''01890000-0000-7000-8000-000000000301'',
      mb_brandReference = ''01890000-0000-7000-8000-000000000302'', mb_workforceRelationshipReference = None,
      mb_lifecycle = MemberActive, mb_effectiveFrom = ''2026-06-01T12:00:00.000Z'', mb_effectiveUntil = None,
      mb_version = 1, mb_createdAt = ''2026-06-01T12:00:00.000Z'', mb_updatedAt = ''2026-06-01T12:00:00.000Z''\<rparr>"

definition example_definition :: permission_definition where
  "example_definition =
     \<lparr>pd_permissionReference = ''01890000-0000-7000-8000-000000000304'', pd_action = ''menu.publish'',
      pd_lifecycle = DefinitionActive, pd_version = 1, pd_createdAt = ''2026-06-01T12:00:00.000Z'',
      pd_updatedAt = ''2026-06-01T12:00:00.000Z''\<rparr>"

definition example_role :: permission_role where
  "example_role =
     \<lparr>rl_roleReference = ''01890000-0000-7000-8000-000000000305'',
      rl_brandReference = ''01890000-0000-7000-8000-000000000302'', rl_storeReference = None, rl_code = ''manager'',
      rl_lifecycle = RoleActive, rl_effectiveFrom = ''2026-06-01T12:00:00.000Z'', rl_effectiveUntil = None,
      rl_version = 1, rl_createdAt = ''2026-06-01T12:00:00.000Z'', rl_updatedAt = ''2026-06-01T12:00:00.000Z''\<rparr>"

definition example_role_assignment :: role_assignment where
  "example_role_assignment =
     \<lparr>rs_assignmentReference = ''01890000-0000-7000-8000-000000000306'',
      rs_roleReference = ''01890000-0000-7000-8000-000000000305'',
      rs_membershipReference = ''01890000-0000-7000-8000-000000000303'', rs_storeAssignmentReference = None,
      rs_actorReference = ''01890000-0000-7000-8000-000000000301'',
      rs_brandReference = ''01890000-0000-7000-8000-000000000302'', rs_storeReference = None,
      rs_lifecycle = RoleAssignmentActive, rs_effectiveFrom = ''2026-06-01T12:00:00.000Z'', rs_effectiveUntil = None,
      rs_version = 1, rs_createdAt = ''2026-06-01T12:00:00.000Z'', rs_updatedAt = ''2026-06-01T12:00:00.000Z''\<rparr>"

definition example_grant :: permission_grant where
  "example_grant =
     \<lparr>gt_grantReference = ''01890000-0000-7000-8000-000000000307'',
      gt_roleReference = ''01890000-0000-7000-8000-000000000305'',
      gt_permissionReference = ''01890000-0000-7000-8000-000000000304'', gt_action = ''menu.publish'',
      gt_brandReference = ''01890000-0000-7000-8000-000000000302'', gt_storeReference = None,
      gt_lifecycle = GrantActive, gt_effectiveFrom = ''2026-06-01T12:00:00.000Z'', gt_effectiveUntil = None,
      gt_version = 1, gt_createdAt = ''2026-06-01T12:00:00.000Z'', gt_updatedAt = ''2026-06-01T12:00:00.000Z''\<rparr>"

definition example_snapshot :: policy_snapshot where
  "example_snapshot =
     \<lparr>sn_frozen = True,
      sn_state = \<lparr>ps_brandReference = ''01890000-0000-7000-8000-000000000302'',
        ps_snapshotReference = ''01890000-0000-7000-8000-000000000308'', ps_version = 4,
        ps_updatedAt = ''2026-06-01T12:00:00.000Z''\<rparr>,
      sn_permissionDefinitions = [example_definition], sn_roles = [example_role],
      sn_roleAssignments = [example_role_assignment], sn_permissionGrants = [example_grant],
      sn_permissionOverrides = []\<rparr>"

definition example_permission_ports :: permission_ports where
  "example_permission_ports =
     \<lparr>findMemberships = (\<lambda>_ _. Inr [example_membership]), findStoreAssignments = (\<lambda>_ _. Inr []),
      loadPolicySnapshot = (\<lambda>_. Inr (Some example_snapshot))\<rparr>"

definition example_input :: materialization_input where
  "example_input = snapshot_input example_tenant example_membership None example_snapshot"

definition example_materialization :: policy_materialization where
  "example_materialization =
     \<lparr>pm_policySnapshotReference = ''01890000-0000-7000-8000-000000000308'', pm_policyVersion = 4,
      pm_evidence = [evidence_of_grant example_role example_role_assignment example_grant], pm_evidenceCount = 1\<rparr>"

lemma permission_formats:
  "uuid_v7 ''01890000-0000-7000-8000-000000000301''" "uuid_v7 ''01890000-0000-7000-8000-000000000302''"
  "uuid_v7 ''01890000-0000-7000-8000-000000000305''" "uuid_v7 ''01890000-0000-7000-8000-000000000307''"
  "uuid_v7 ''01890000-0000-7000-8000-000000000308''" "action_format ''menu.publish''"
  "organization_code_format ''BOP''" "js_trim ''BOP'' = ''BOP''" "js_trim ''Bop'' = ''Bop''"
  "js_trim ''fr-CA'' = ''fr-CA''" "brand_locale_format ''fr-CA''"
  "canonical_instant ''2026-06-01T12:00:00.000Z''" "canonical_instant ''2026-06-02T12:00:00.000Z''"
  "ms_of ''2026-06-01T12:00:00.000Z'' = 1780315200000" "ms_of ''2026-06-02T12:00:00.000Z'' = 1780401600000"
  by code_simp+

lemma example_instants:
  "parseCanonicalInstant (JStr ''2026-06-01T12:00:00.000Z'') = Inr ''2026-06-01T12:00:00.000Z''"
  "parseCanonicalInstant (JStr ''2026-06-02T12:00:00.000Z'') = Inr ''2026-06-02T12:00:00.000Z''"
  by (simp_all add: parseCanonicalInstant_Inr permission_formats)

lemma example_context_accepted: "revalidateTenantContext example_host example_tenant = Inr example_context"
proof -
  have a: "workforceActor example_actor_js = Inr (tc_actor example_context)"
    by (simp add: workforceActor_def createIdentityActor_def example_actor_js_def readClosedRecord_def enum_of_def
        actor_types_def account_kinds_def identity_statuses_def actor_shape_ok_def parseOpaqueUuidV7_def
        authentication_methods_def method_of_actor_def verification_levels_def identity_instant_def permission_formats
        nullable_def example_context_def)
  have b: "activeBrand example_brand_js = Inr (tc_brand example_context)"
    by (simp add: activeBrand_def createBrand_def example_brand_js_def organization_closed_def example_instants
        parseBrandReference_def organization_text_def organization_lifecycle_value_def enum_of_def
        organization_lifecycles_def parseOrganizationVersion_def max_safe_def permission_formats example_context_def)
  show ?thesis
    by (simp add: revalidateTenantContext_def example_host_def example_tenant_def createTenantContext_def a b
        example_instants) (simp add: example_context_def)
qed

lemmas example_permission_facts = example_membership_def example_definition_def example_role_def
  example_role_assignment_def example_grant_def

lemma example_context_values [simp]:
  "ia_actorReference (tc_actor example_context) = Some ''01890000-0000-7000-8000-000000000301''"
  "br_brandReference (tc_brand example_context) = ''01890000-0000-7000-8000-000000000302''"
  "tc_store example_context = None" "tc_storeReference example_context = None"
  "tc_resolvedAt example_context = ''2026-06-02T12:00:00.000Z''"
  by (simp_all add: example_context_def tc_storeReference_def)

lemma example_facts_ok: "facts_ok example_input"
  by (simp add: facts_ok_def example_input_def snapshot_input_def example_snapshot_def period_ok_def
      example_permission_facts permission_formats)

lemma example_evidence:
  "assignment_evidence example_context ''01890000-0000-7000-8000-000000000301'' example_membership None
     [example_definition] [example_role] [example_grant] example_role_assignment =
   Inr [evidence_of_grant example_role example_role_assignment example_grant]"
  by (simp add: assignment_evidence_def role_skipped_def role_store_bad_def fact_in_scope_def in_force_def
      grant_evidence_def grant_skipped_def definition_for_def latestFrom_def earliestUntil_def evaluation_uuid_def
      parseBusinessAction_def evidence_of_grant_def example_permission_facts permission_formats)

lemma example_materialized: "materializePermissionEvidence example_host example_input = Inr example_materialization"
proof -
  have m: "resolveActiveMembership [example_membership] ''01890000-0000-7000-8000-000000000301''
      ''01890000-0000-7000-8000-000000000302'' (JStr ''2026-06-02T12:00:00.000Z'') = Inr example_membership"
    by (simp add: resolveActiveMembership_def parseMembershipInstant_def member_matches_def in_force_def the_match_def
        example_membership_def permission_formats)
  have c: "context_assignment example_input example_context example_membership = Inr None"
    by (simp add: context_assignment_def example_input_def snapshot_input_def)
  have "mi_frozen example_input" "mi_tenantContext example_input = example_tenant"
    "ps_brandReference (mi_policyState example_input) = ''01890000-0000-7000-8000-000000000302''"
    "mi_membership example_input = example_membership" "mi_permissionDefinitions example_input = [example_definition]"
    "mi_roles example_input = [example_role]" "mi_permissionOverrides example_input = []"
    "mi_permissionGrants example_input = [example_grant]" "mi_roleAssignments example_input = [example_role_assignment]"
    "ps_snapshotReference (mi_policyState example_input) = ''01890000-0000-7000-8000-000000000308''"
    "ps_version (mi_policyState example_input) = 4"
    by (simp_all add: example_input_def snapshot_input_def example_snapshot_def)
  then show ?thesis
    by (simp add: materializePermissionEvidence_def materialize_body_def example_context_accepted m c example_evidence
        deduplicateAndSort_def evaluation_uuid_def parsePolicyVersion_def max_safe_def permission_formats
        example_materialization_def)
qed

lemma example_permits: "policy_permits example_context example_input ''menu.publish''"
proof -
  have "role_stands example_context example_input example_role_assignment example_role"
    by (simp add: role_stands_def example_input_def snapshot_input_def example_snapshot_def fact_in_scope_def in_force_def)
      (simp add: example_permission_facts permission_formats)
  moreover have "grant_stands example_context example_input example_role ''menu.publish'' example_grant"
    by (simp add: grant_stands_def example_input_def snapshot_input_def example_snapshot_def in_force_def)
      (simp add: example_permission_facts permission_formats)
  moreover have "\<not> override_stands example_context example_input e a ov" for e a ov
    by (simp add: override_stands_def example_input_def snapshot_input_def example_snapshot_def)
  ultimately show ?thesis unfolding policy_permits_def by blast
qed

theorem permission_refines_policy_witness:
  "\<exists>d. evaluatePermission example_host (evaluation_request example_tenant (JStr ''menu.publish'') (scope_js example_context)
      (JStr ''01890000-0000-7000-8000-000000000308'') (JNum 4)
      (JArr [evidence_js (evidence_of_grant example_role example_role_assignment example_grant)])) = Inr d \<and>
    dc_effect d = Allow"
proof -
  have "mi_tenantContext example_input = example_tenant" by (simp add: example_input_def snapshot_input_def)
  moreover from this have "revalidateTenantContext example_host (mi_tenantContext example_input) = Inr example_context"
    by (simp add: example_context_accepted)
  ultimately show ?thesis
    using permission_refines_policy [OF example_materialized _ example_facts_ok permission_formats(6)] example_permits
    by (auto simp: example_materialization_def)
qed

text \<open>The same evidence next to a denial of it.\<close>

definition example_evidence_item :: permission_evidence where
  "example_evidence_item = evidence_of_grant example_role example_role_assignment example_grant"

definition example_denial :: permission_evidence where
  "example_denial = example_evidence_item\<lparr>pe_source := ExplicitDeny,
     pe_evidenceReference := ''01890000-0000-7000-8000-000000000308'', pe_roleReference := None\<rparr>"

lemma example_evidence_valid: "valid_evidence example_evidence_item" "valid_evidence example_denial"
  by (simp_all add: valid_evidence_def example_denial_def example_evidence_item_def evidence_of_grant_def latestFrom_def
      earliestUntil_def example_permission_facts permission_formats)

lemma example_denied:
  "evidence_applies example_context ''menu.publish'' example_denial" "pe_source example_denial = ExplicitDeny"
  by (simp_all add: evidence_applies_def example_denial_def example_evidence_item_def evidence_of_grant_def latestFrom_def
      earliestUntil_def in_force_def example_permission_facts permission_formats)

theorem permission_deny_overrides_witness:
  "\<exists>d. evaluatePermission example_host (evaluation_request example_tenant (JStr ''menu.publish'') (scope_js example_context)
      (JStr ''01890000-0000-7000-8000-000000000308'') (JNum 4)
      (JArr (map evidence_js [example_evidence_item, example_denial]))) = Inr d \<and> dc_effect d = Deny"
proof -
  from evaluation_returns [OF example_context_accepted permission_formats(6) permission_formats(5), of 4
      "map evidence_js [example_evidence_item, example_denial]"]
  obtain d where d: "evaluatePermission example_host (evaluation_request example_tenant (JStr ''menu.publish'')
      (scope_js example_context) (JStr ''01890000-0000-7000-8000-000000000308'') (JNum 4)
      (JArr (map evidence_js [example_evidence_item, example_denial]))) = Inr d" "dc_action d = ''menu.publish''"
    by (auto simp: max_safe_def)
  have parsed: "map_res permission_evidence_of (map evidence_js [example_evidence_item, example_denial]) =
      Inr [example_evidence_item, example_denial]"
    by (rule evidence_codec.list_parse_print) (simp add: example_evidence_valid)
  have "dc_effect d \<noteq> Allow"
  proof (rule permission_deny_overrides [OF d(1)])
    fix ctx assume ctx: "revalidateTenantContext example_host (fld (evaluation_request example_tenant
        (JStr ''menu.publish'') (scope_js example_context) (JStr ''01890000-0000-7000-8000-000000000308'') (JNum 4)
        (JArr (map evidence_js [example_evidence_item, example_denial]))) ''tenantContext'') = Inr ctx"
      and iff: "dc_effect d = Allow \<longleftrightarrow> (\<exists>es. map_res permission_evidence_of (elements (fld (evaluation_request
        example_tenant (JStr ''menu.publish'') (scope_js example_context) (JStr ''01890000-0000-7000-8000-000000000308'')
        (JNum 4) (JArr (map evidence_js [example_evidence_item, example_denial]))) ''evidence'')) = Inr es \<and>
         one_per_reference (set es) \<and>
         (\<forall>e\<in>set es. evidence_applies ctx (dc_action d) e \<longrightarrow> pe_source e \<noteq> ExplicitDeny) \<and>
         (\<exists>e\<in>set es. evidence_applies ctx (dc_action d) e))"
    from ctx have "ctx = example_context" by (simp add: example_context_accepted)
    with iff show ?thesis using example_denied parsed by (simp add: d(2) del: list.map)
  qed
  then have "dc_effect d = Deny" by (cases "dc_effect d") simp_all
  with d(1) show ?thesis by blast
qed

theorem evidence_is_a_set_witness:
  "evaluatePermission example_host (evaluation_request example_tenant (JStr ''menu.publish'') (scope_js example_context)
      (JStr ''01890000-0000-7000-8000-000000000308'') (JNum 4)
      (JArr [evidence_js example_denial, evidence_js example_evidence_item, evidence_js example_denial])) =
   evaluatePermission example_host (evaluation_request example_tenant (JStr ''menu.publish'') (scope_js example_context)
      (JStr ''01890000-0000-7000-8000-000000000308'') (JNum 4)
      (JArr [evidence_js example_evidence_item, evidence_js example_denial]))"
  by (rule evidence_is_a_set) auto

lemma example_passes: "merchant_permission example_host example_permission_ports ''menu.publish'' False example_tenant = Next"
proof -
  have inp: "mi_tenantContext example_input = example_tenant" by (simp add: example_input_def snapshot_input_def)
  from evaluation_returns [OF example_context_accepted permission_formats(6) permission_formats(5), of 4
      "map evidence_js (pm_evidence example_materialization)"]
  obtain d where d: "evaluatePermission example_host (evaluation_request example_tenant (JStr ''menu.publish'')
      (scope_js example_context) (JStr ''01890000-0000-7000-8000-000000000308'') (JNum 4)
      (JArr (map evidence_js (pm_evidence example_materialization)))) = Inr d" "dc_action d = ''menu.publish''"
    by (auto simp: max_safe_def)
  have allow: "dc_effect d = Allow"
    using request_decides(2) [OF example_materialized, unfolded inp, OF example_context_accepted d(1) example_facts_ok]
      example_permits d(2) by simp
  have m: "resolveActiveMembership [example_membership] ''01890000-0000-7000-8000-000000000301''
      ''01890000-0000-7000-8000-000000000302'' (JStr ''2026-06-02T12:00:00.000Z'') = Inr example_membership"
    by (simp add: resolveActiveMembership_def parseMembershipInstant_def member_matches_def in_force_def the_match_def
        example_membership_def permission_formats)
  have fields: "fld (fld example_tenant ''actor'') ''actorReference'' = JStr ''01890000-0000-7000-8000-000000000301''"
    "get_prop (fld example_tenant ''actor'') ''actorReference'' = Inr (JStr ''01890000-0000-7000-8000-000000000301'')"
    "get_prop (fld example_tenant ''brand'') ''brandReference'' = Inr (JStr ''01890000-0000-7000-8000-000000000302'')"
    "fld example_tenant ''resolvedAt'' = JStr ''2026-06-02T12:00:00.000Z''" "fld example_tenant ''store'' = JNull"
    "fld example_tenant ''scopeKind'' = JStr ''Brand''" "get_prop example_tenant ''store'' = Inr JNull"
    by (simp_all add: example_tenant_def example_actor_js_def example_brand_js_def)
  have scope: "JObj [(''kind'', JStr ''Brand''), (''brandReference'', JStr ''01890000-0000-7000-8000-000000000302''),
      (''storeReference'', JNull)] = scope_js example_context"
    by (simp add: scope_js_def tc_scopeKind_def)
  have "merchant_decision example_host example_permission_ports ''menu.publish'' example_tenant = Inr d"
    using d(1) by (simp add: merchant_decision_def fields typed_reference_def example_permission_ports_def m
        merchant_assignment_def example_materialized [unfolded example_input_def] scope)
      (simp add: example_materialization_def)
  then show ?thesis by (simp add: merchant_permission_def merchant_effect_def fields allow)
qed

theorem merchant_permission_sound_witness:
  "\<exists>ctx m sa sn. revalidateTenantContext example_host example_tenant = Inr ctx \<and>
     policy_permits ctx (snapshot_input example_tenant m sa sn) ''menu.publish''"
  by (rule merchant_permission_sound [OF example_passes]) blast

end
