(* ===== verification/CheckoutValidation.thy ===== *)
theory CheckoutValidation
  imports Cart
begin

text \<open>
  The evidence that a cart may be checked out: \<open>packages/rms/ordering/src/domain/checkout-validation.ts\<close>.
  It names the cart version, the quote, the catalog versions of every line and the accepted fulfillment,
  and says until when all of it holds. Every failure of the parser is the same error.
\<close>

section \<open>Data\<close>

text \<open>
  An accepted fulfillment has the status \<open>Accepted\<close>. The order type and the channel are compared through
  \<open>String(...)\<close>, which also accepts an array of one name; the evidence compares them with those of the
  fulfillment by identity, and no array is identical to one that is part of another value, so only the
  names themselves are accepted.
\<close>

record checkout_fulfillment =
  kf_brandReference :: string
  kf_storeReference :: string
  kf_cartReference :: string
  kf_cartVersion :: int
  kf_quoteReference :: string
  kf_orderType :: cart_order_type
  kf_sourceChannel :: cart_source_channel
  kf_evidenceReference :: string
  kf_evidenceVersion :: int
  kf_evidenceDigest :: string
  kf_checkedAt :: string
  kf_validUntil :: string

record checkout_line =
  kl_cartItemReference :: string
  kl_sellableReference :: string
  kl_menuVersionReference :: string
  kl_productVersionReference :: string
  kl_validatedAt :: string

record checkout_evidence =
  ck_validationReference :: string
  ck_validationIntentHash :: string
  ck_guestSessionReference :: string
  ck_brandReference :: string
  ck_storeReference :: string
  ck_cartReference :: string
  ck_cartVersion :: int
  ck_quoteReference :: string
  ck_quoteVersion :: int
  ck_quoteInputDigest :: string
  ck_orderType :: cart_order_type
  ck_sourceChannel :: cart_source_channel
  ck_catalogLines :: "checkout_line list"
  ck_fulfillment :: checkout_fulfillment
  ck_validatedAt :: string
  ck_validUntil :: string

section \<open>Parsing\<close>

definition checkout_invalid :: err where
  "checkout_invalid = CheckoutValidationError CHECKOUT_INPUT_INVALID"

definition checkout_exact :: "js \<Rightarrow> string list \<Rightarrow> unit res" where
  "checkout_exact v ks = throw_if (\<not> has_shape v ks) checkout_invalid"

definition checkout_version :: "js \<Rightarrow> int res" where
  "checkout_version v = or_throw (safe_int_in 1 max_safe v) checkout_invalid"

definition checkout_array :: "js \<Rightarrow> nat \<Rightarrow> nat \<Rightarrow> js list res" where
  "checkout_array v minimum maximum =
     bnd (throw_if (\<not> is_array v \<or> length (elements v) < minimum \<or> maximum < length (elements v)) checkout_invalid)
       (\<lambda>_. Inr (elements v))"

text \<open>The handlers of the parsers: an error of this module passes, any other becomes this one.\<close>

fun checkout_rethrow :: "err \<Rightarrow> err" where
  "checkout_rethrow (CheckoutValidationError code) = CheckoutValidationError code"
| "checkout_rethrow _ = checkout_invalid"

definition checkout_guard :: "'a res \<Rightarrow> 'a res" where
  "checkout_guard m = catching m (\<lambda>e. Inl (checkout_rethrow e))"

definition checkout_line_of :: "js \<Rightarrow> checkout_line res" where
  "checkout_line_of v =
     bnd (checkout_exact v [''cartItemReference'', ''sellableReference'', ''menuVersionReference'',
            ''productVersionReference'', ''validatedAt'']) (\<lambda>_.
     catching
       (bnd (parseOrderingReference (fld v ''cartItemReference'')) (\<lambda>item.
        bnd (parseOrderingReference (fld v ''sellableReference'')) (\<lambda>sellable.
        bnd (parseOrderingReference (fld v ''menuVersionReference'')) (\<lambda>menu.
        bnd (parseOrderingReference (fld v ''productVersionReference'')) (\<lambda>product.
        bnd (parseOrderingInstant (fld v ''validatedAt'')) (\<lambda>validatedAt.
        Inr \<lparr>kl_cartItemReference = item, kl_sellableReference = sellable, kl_menuVersionReference = menu,
             kl_productVersionReference = product, kl_validatedAt = validatedAt\<rparr>))))))
       (\<lambda>_. Inl checkout_invalid))"

definition fulfillment_fields :: "string list" where
  "fulfillment_fields = [''status'', ''brandReference'', ''storeReference'', ''cartReference'', ''cartVersion'',
     ''quoteReference'', ''orderType'', ''sourceChannel'', ''evidenceReference'', ''evidenceVersion'',
     ''evidenceDigest'', ''checkedAt'', ''validUntil'']"

definition checkout_fulfillment_of :: "js \<Rightarrow> checkout_fulfillment res" where
  "checkout_fulfillment_of v =
     bnd (checkout_exact v fulfillment_fields) (\<lambda>_.
     bnd (throw_if (fld v ''status'' \<noteq> JStr ''Accepted'') checkout_invalid) (\<lambda>_.
     bnd (or_throw (enum_of cart_order_types (fld v ''orderType'')) checkout_invalid) (\<lambda>orderType.
     bnd (or_throw (enum_of cart_source_channels (fld v ''sourceChannel'')) checkout_invalid) (\<lambda>channel.
     checkout_guard
       (bnd (parseOrderingInstant (fld v ''checkedAt'')) (\<lambda>checkedAt.
        bnd (parseOrderingInstant (fld v ''validUntil'')) (\<lambda>validUntil.
        bnd (throw_if (ms_of validUntil \<le> ms_of checkedAt) checkout_invalid) (\<lambda>_.
        bnd (parseOrderingReference (fld v ''brandReference'')) (\<lambda>brand.
        bnd (parseOrderingReference (fld v ''storeReference'')) (\<lambda>store.
        bnd (parseOrderingReference (fld v ''cartReference'')) (\<lambda>cref.
        bnd (checkout_version (fld v ''cartVersion'')) (\<lambda>version.
        bnd (parseOrderingReference (fld v ''quoteReference'')) (\<lambda>quote.
        bnd (parseOrderingReference (fld v ''evidenceReference'')) (\<lambda>evidence.
        bnd (checkout_version (fld v ''evidenceVersion'')) (\<lambda>evidenceVersion.
        bnd (parseOrderingHash (fld v ''evidenceDigest'')) (\<lambda>evidenceDigest.
        Inr \<lparr>kf_brandReference = brand, kf_storeReference = store, kf_cartReference = cref,
             kf_cartVersion = version, kf_quoteReference = quote, kf_orderType = orderType,
             kf_sourceChannel = channel, kf_evidenceReference = evidence, kf_evidenceVersion = evidenceVersion,
             kf_evidenceDigest = evidenceDigest, kf_checkedAt = checkedAt,
             kf_validUntil = validUntil\<rparr>))))))))))))))))"

text \<open>The consistency condition of the evidence, on its parsed parts.\<close>

definition checkout_inconsistent ::
  "string \<Rightarrow> string \<Rightarrow> string \<Rightarrow> int \<Rightarrow> string \<Rightarrow> cart_order_type \<Rightarrow> cart_source_channel \<Rightarrow>
   checkout_line list \<Rightarrow> checkout_fulfillment \<Rightarrow> string \<Rightarrow> string \<Rightarrow> bool" where
  "checkout_inconsistent brand store cref version quote orderType channel lines f validatedAt validUntil \<longleftrightarrow>
     ms_of validUntil \<le> ms_of validatedAt \<or> ms_of validUntil > ms_of (kf_validUntil f) \<or>
     kf_brandReference f \<noteq> brand \<or> kf_storeReference f \<noteq> store \<or> kf_cartReference f \<noteq> cref \<or>
     kf_cartVersion f \<noteq> version \<or> kf_quoteReference f \<noteq> quote \<or> kf_orderType f \<noteq> orderType \<or>
     kf_sourceChannel f \<noteq> channel \<or> kf_checkedAt f \<noteq> validatedAt \<or>
     list_ex (\<lambda>l. kl_validatedAt l \<noteq> validatedAt) lines \<or> \<not> distinct (map kl_cartItemReference lines)"

definition parseCheckoutValidationEvidence :: "js \<Rightarrow> checkout_evidence res" where
  "parseCheckoutValidationEvidence v =
     bnd (checkout_exact v [''validationReference'', ''validationIntentHash'', ''guestSessionReference'',
            ''brandReference'', ''storeReference'', ''cartReference'', ''cartVersion'', ''quoteReference'',
            ''quoteVersion'', ''quoteInputDigest'', ''orderType'', ''sourceChannel'', ''catalogLines'',
            ''fulfillment'', ''validatedAt'', ''validUntil'']) (\<lambda>_.
     bnd (throw_if (fld v ''quoteVersion'' \<noteq> JNum 1) checkout_invalid) (\<lambda>_.
     bnd (or_throw (enum_of cart_order_types (fld v ''orderType'')) checkout_invalid) (\<lambda>orderType.
     bnd (or_throw (enum_of cart_source_channels (fld v ''sourceChannel'')) checkout_invalid) (\<lambda>channel.
     bnd (throw_if (\<not> is_array (fld v ''catalogLines'')) checkout_invalid) (\<lambda>_.
     checkout_guard
       (bnd (parseOrderingReference (fld v ''brandReference'')) (\<lambda>brand.
        bnd (parseOrderingReference (fld v ''storeReference'')) (\<lambda>store.
        bnd (parseOrderingReference (fld v ''cartReference'')) (\<lambda>cref.
        bnd (checkout_version (fld v ''cartVersion'')) (\<lambda>version.
        bnd (parseOrderingReference (fld v ''quoteReference'')) (\<lambda>quote.
        bnd (parseOrderingInstant (fld v ''validatedAt'')) (\<lambda>validatedAt.
        bnd (parseOrderingInstant (fld v ''validUntil'')) (\<lambda>validUntil.
        bnd (checkout_array (fld v ''catalogLines'') 1 100) (\<lambda>raw.
        bnd (map_res checkout_line_of raw) (\<lambda>lines.
        bnd (checkout_fulfillment_of (fld v ''fulfillment'')) (\<lambda>f.
        bnd (throw_if (checkout_inconsistent brand store cref version quote orderType channel lines f
                         validatedAt validUntil) checkout_invalid) (\<lambda>_.
        bnd (parseOrderingReference (fld v ''validationReference'')) (\<lambda>validation.
        bnd (parseOrderingHash (fld v ''validationIntentHash'')) (\<lambda>intent.
        bnd (parseOrderingReference (fld v ''guestSessionReference'')) (\<lambda>guest.
        bnd (parseOrderingHash (fld v ''quoteInputDigest'')) (\<lambda>input.
        Inr \<lparr>ck_validationReference = validation, ck_validationIntentHash = intent,
             ck_guestSessionReference = guest, ck_brandReference = brand, ck_storeReference = store,
             ck_cartReference = cref, ck_cartVersion = version, ck_quoteReference = quote,
             ck_quoteVersion = 1, ck_quoteInputDigest = input, ck_orderType = orderType,
             ck_sourceChannel = channel, ck_catalogLines = lines, ck_fulfillment = f,
             ck_validatedAt = validatedAt, ck_validUntil = validUntil\<rparr>)))))))))))))))))))))"

section \<open>Parsers as codecs\<close>

lemma checkout_guard_Inr [res_simps]: "checkout_guard m = Inr x \<longleftrightarrow> m = Inr x"
  by (cases m) (simp_all add: checkout_guard_def)

lemma checkout_parse_Inr [res_simps]:
  "checkout_exact v ks = Inr u \<longleftrightarrow> has_shape v ks"
  "checkout_array v lo hi = Inr xs \<longleftrightarrow> v = JArr xs \<and> lo \<le> length xs \<and> length xs \<le> hi"
  by (auto simp: checkout_exact_def checkout_array_def res_simps is_array_iff)

lemma checkout_version_Inr [res_simps]: "checkout_version v = Inr n \<longleftrightarrow> v = JNum n \<and> 1 \<le> n \<and> n \<le> max_safe"
  by (auto simp: checkout_version_def res_simps max_safe_def)

lemmas checkout_Inr = throw_if_eq_Inr or_throw_Inr ordering_parse_Inr checkout_parse_Inr checkout_version_Inr
  checkout_guard_Inr catching_throw_Inr

definition checkout_line_js :: "checkout_line \<Rightarrow> js" where
  "checkout_line_js l = JObj
     [(''cartItemReference'', JStr (kl_cartItemReference l)), (''sellableReference'', JStr (kl_sellableReference l)),
      (''menuVersionReference'', JStr (kl_menuVersionReference l)),
      (''productVersionReference'', JStr (kl_productVersionReference l)), (''validatedAt'', JStr (kl_validatedAt l))]"

definition valid_checkout_line :: "checkout_line \<Rightarrow> bool" where
  "valid_checkout_line l \<longleftrightarrow> uuid_v7 (kl_cartItemReference l) \<and> uuid_v7 (kl_sellableReference l) \<and>
     uuid_v7 (kl_menuVersionReference l) \<and> uuid_v7 (kl_productVersionReference l) \<and>
     canonical_instant (kl_validatedAt l)"

interpretation checkout_line: codec checkout_line_of checkout_line_js valid_checkout_line
  by unfold_locales (auto simp: checkout_line_of_def checkout_line_js_def valid_checkout_line_def bnd_eq_Inr checkout_Inr)

definition checkout_fulfillment_js :: "checkout_fulfillment \<Rightarrow> js" where
  "checkout_fulfillment_js f = JObj
     [(''status'', JStr ''Accepted''), (''brandReference'', JStr (kf_brandReference f)),
      (''storeReference'', JStr (kf_storeReference f)), (''cartReference'', JStr (kf_cartReference f)),
      (''cartVersion'', JNum (kf_cartVersion f)), (''quoteReference'', JStr (kf_quoteReference f)),
      (''orderType'', JStr (order_type_name (kf_orderType f))),
      (''sourceChannel'', JStr (channel_name (kf_sourceChannel f))),
      (''evidenceReference'', JStr (kf_evidenceReference f)), (''evidenceVersion'', JNum (kf_evidenceVersion f)),
      (''evidenceDigest'', JStr (kf_evidenceDigest f)), (''checkedAt'', JStr (kf_checkedAt f)),
      (''validUntil'', JStr (kf_validUntil f))]"

definition valid_fulfillment :: "checkout_fulfillment \<Rightarrow> bool" where
  "valid_fulfillment f \<longleftrightarrow> uuid_v7 (kf_brandReference f) \<and> uuid_v7 (kf_storeReference f) \<and>
     uuid_v7 (kf_cartReference f) \<and> 1 \<le> kf_cartVersion f \<and> kf_cartVersion f \<le> max_safe \<and>
     uuid_v7 (kf_quoteReference f) \<and> uuid_v7 (kf_evidenceReference f) \<and> 1 \<le> kf_evidenceVersion f \<and>
     kf_evidenceVersion f \<le> max_safe \<and> sha256_digest (kf_evidenceDigest f) \<and>
     canonical_instant (kf_checkedAt f) \<and> canonical_instant (kf_validUntil f) \<and>
     ms_of (kf_checkedAt f) < ms_of (kf_validUntil f)"

interpretation fulfillment: codec checkout_fulfillment_of checkout_fulfillment_js valid_fulfillment
proof unfold_locales
  show "valid_fulfillment f" if "checkout_fulfillment_of v = Inr f" for v f
    using that unfolding checkout_fulfillment_of_def bnd_eq_Inr checkout_guard_Inr
    by (elim exE conjE) (drule Inr_inject, hypsubst, simp add: valid_fulfillment_def checkout_Inr)
  show "checkout_fulfillment_of (checkout_fulfillment_js f) = Inr f" if "valid_fulfillment f" for f
    using that by (simp add: checkout_fulfillment_of_def checkout_fulfillment_js_def valid_fulfillment_def
        fulfillment_fields_def bnd_eq_Inr checkout_Inr)
qed (simp add: checkout_fulfillment_js_def)

definition checkout_evidence_js :: "checkout_evidence \<Rightarrow> js" where
  "checkout_evidence_js e = JObj
     [(''validationReference'', JStr (ck_validationReference e)),
      (''validationIntentHash'', JStr (ck_validationIntentHash e)),
      (''guestSessionReference'', JStr (ck_guestSessionReference e)), (''brandReference'', JStr (ck_brandReference e)),
      (''storeReference'', JStr (ck_storeReference e)), (''cartReference'', JStr (ck_cartReference e)),
      (''cartVersion'', JNum (ck_cartVersion e)), (''quoteReference'', JStr (ck_quoteReference e)),
      (''quoteVersion'', JNum (ck_quoteVersion e)), (''quoteInputDigest'', JStr (ck_quoteInputDigest e)),
      (''orderType'', JStr (order_type_name (ck_orderType e))),
      (''sourceChannel'', JStr (channel_name (ck_sourceChannel e))),
      (''catalogLines'', JArr (map checkout_line_js (ck_catalogLines e))),
      (''fulfillment'', checkout_fulfillment_js (ck_fulfillment e)), (''validatedAt'', JStr (ck_validatedAt e)),
      (''validUntil'', JStr (ck_validUntil e))]"

definition valid_checkout :: "checkout_evidence \<Rightarrow> bool" where
  "valid_checkout e \<longleftrightarrow>
     list_all uuid_v7 [ck_validationReference e, ck_guestSessionReference e, ck_brandReference e, ck_storeReference e,
       ck_cartReference e, ck_quoteReference e] \<and>
     sha256_digest (ck_validationIntentHash e) \<and> sha256_digest (ck_quoteInputDigest e) \<and>
     1 \<le> ck_cartVersion e \<and> ck_cartVersion e \<le> max_safe \<and> ck_quoteVersion e = 1 \<and>
     1 \<le> length (ck_catalogLines e) \<and> length (ck_catalogLines e) \<le> 100 \<and>
     list_all valid_checkout_line (ck_catalogLines e) \<and> valid_fulfillment (ck_fulfillment e) \<and>
     canonical_instant (ck_validatedAt e) \<and> canonical_instant (ck_validUntil e) \<and>
     \<not> checkout_inconsistent (ck_brandReference e) (ck_storeReference e) (ck_cartReference e) (ck_cartVersion e)
         (ck_quoteReference e) (ck_orderType e) (ck_sourceChannel e) (ck_catalogLines e) (ck_fulfillment e)
         (ck_validatedAt e) (ck_validUntil e)"

interpretation checkout: codec parseCheckoutValidationEvidence checkout_evidence_js valid_checkout
proof unfold_locales
  show "valid_checkout e" if "parseCheckoutValidationEvidence v = Inr e" for v e
    using that unfolding parseCheckoutValidationEvidence_def bnd_eq_Inr checkout_guard_Inr
    by (elim exE conjE) (drule Inr_inject, hypsubst,
      auto simp: valid_checkout_def checkout_Inr checkout_line.list_valid fulfillment.parse_valid dest: map_res_length)
  show "parseCheckoutValidationEvidence (checkout_evidence_js e) = Inr e" if "valid_checkout e" for e
    using that by (simp add: parseCheckoutValidationEvidence_def checkout_evidence_js_def valid_checkout_def bnd_eq_Inr
        checkout_Inr checkout_line.list_parse_print fulfillment.parse_print)
qed (simp add: checkout_evidence_js_def)

end
