(* ===== verification/OrderAggregate.thy ===== *)
theory OrderAggregate
  imports CheckoutValidation
begin

text \<open>
  A submitted order: \<open>packages/rms/ordering/src/domain/order.ts\<close>. An order has one batch of item
  identities, one for every line of the checkout evidence it was created from, and is created only while
  that evidence is valid.
\<close>

section \<open>Data\<close>

record order_item_identity =
  oi_orderItemReference :: string
  oi_orderBatchReference :: string
  oi_cartItemReference :: string

record order_batch =
  ob_orderBatchReference :: string
  ob_orderReference :: string
  ob_submissionReference :: string
  ob_sourceCartReference :: string
  ob_sourceCartVersion :: int
  ob_checkoutValidationReference :: string
  ob_quoteReference :: string
  ob_submittedByActorReference :: string
  ob_submittedAt :: string
  ob_items :: "order_item_identity list"

text \<open>
  \<open>orderType\<close> and \<open>sourceChannel\<close> keep the value that was read, which is checked through \<open>String(...)\<close>. The
  version, phase, closure and payment status of an order that was just submitted are constants, and its
  batches are an array of one.
\<close>

record order_aggregate =
  oa_orderReference :: string
  oa_brandReference :: string
  oa_storeReference :: string
  oa_orderType :: js
  oa_sourceChannel :: js
  oa_diningSessionReference :: "string option"
  oa_createdByActorReference :: string
  oa_submittedByActorReference :: string
  oa_createdAt :: string
  oa_batch :: order_batch

section \<open>Parsing\<close>

definition order_invalid :: err where
  "order_invalid = OrderError ORDER_INPUT_INVALID"

definition order_closed :: "js \<Rightarrow> string list \<Rightarrow> unit res" where
  "order_closed v ks = throw_if (\<not> has_shape v ks) order_invalid"

definition positiveVersion :: "js \<Rightarrow> int res" where
  "positiveVersion v = or_throw (safe_int_in 1 max_safe v) order_invalid"

fun order_rethrow :: "err \<Rightarrow> err" where
  "order_rethrow (OrderError code) = OrderError code"
| "order_rethrow _ = order_invalid"

definition order_guard :: "'a res \<Rightarrow> 'a res" where
  "order_guard m = catching m (\<lambda>e. Inl (order_rethrow e))"

text \<open>\<open>!Array.isArray(x) || x.length < 1 || x.length > 100\<close>.\<close>

definition order_items_array :: "js \<Rightarrow> js list res" where
  "order_items_array v =
     bnd (throw_if (\<not> is_array v \<or> length (elements v) < 1 \<or> 100 < length (elements v)) order_invalid)
       (\<lambda>_. Inr (elements v))"

definition itemIdentity :: "string \<Rightarrow> js \<Rightarrow> order_item_identity res" where
  "itemIdentity batchReference v =
     bnd (order_closed v [''orderItemReference'', ''cartItemReference'']) (\<lambda>_.
     catching
       (bnd (parseOrderingReference (fld v ''orderItemReference'')) (\<lambda>item.
        bnd (parseOrderingReference (fld v ''cartItemReference'')) (\<lambda>cartItem.
        Inr \<lparr>oi_orderItemReference = item, oi_orderBatchReference = batchReference,
             oi_cartItemReference = cartItem\<rparr>)))
       (\<lambda>_. Inl order_invalid))"

definition parseStoredItem :: "js \<Rightarrow> order_item_identity res" where
  "parseStoredItem v =
     bnd (order_closed v [''orderItemReference'', ''orderBatchReference'', ''cartItemReference'']) (\<lambda>_.
     catching
       (bnd (parseOrderingReference (fld v ''orderItemReference'')) (\<lambda>item.
        bnd (parseOrderingReference (fld v ''orderBatchReference'')) (\<lambda>batch.
        bnd (parseOrderingReference (fld v ''cartItemReference'')) (\<lambda>cartItem.
        Inr \<lparr>oi_orderItemReference = item, oi_orderBatchReference = batch, oi_cartItemReference = cartItem\<rparr>))))
       (\<lambda>_. Inl order_invalid))"

definition batch_items_bad :: "string \<Rightarrow> order_item_identity list \<Rightarrow> bool" where
  "batch_items_bad batchReference items \<longleftrightarrow>
     list_ex (\<lambda>i. oi_orderBatchReference i \<noteq> batchReference) items \<or>
     \<not> distinct (map oi_orderItemReference items) \<or> \<not> distinct (map oi_cartItemReference items)"

definition parseBatch :: "js \<Rightarrow> order_batch res" where
  "parseBatch v =
     bnd (order_closed v [''orderBatchReference'', ''orderReference'', ''submissionReference'', ''sourceCartReference'',
            ''sourceCartVersion'', ''checkoutValidationReference'', ''quoteReference'', ''submittedByActorReference'',
            ''submittedAt'', ''items'']) (\<lambda>_.
     bnd (order_items_array (fld v ''items'')) (\<lambda>raw.
     order_guard
       (bnd (parseOrderingReference (fld v ''orderBatchReference'')) (\<lambda>batch.
        bnd (map_res parseStoredItem raw) (\<lambda>items.
        bnd (throw_if (batch_items_bad batch items) order_invalid) (\<lambda>_.
        bnd (parseOrderingReference (fld v ''orderReference'')) (\<lambda>oref.
        bnd (parseOrderingReference (fld v ''submissionReference'')) (\<lambda>submission.
        bnd (parseOrderingReference (fld v ''sourceCartReference'')) (\<lambda>cref.
        bnd (positiveVersion (fld v ''sourceCartVersion'')) (\<lambda>version.
        bnd (parseOrderingReference (fld v ''checkoutValidationReference'')) (\<lambda>validation.
        bnd (parseOrderingReference (fld v ''quoteReference'')) (\<lambda>quote.
        bnd (parseOrderingReference (fld v ''submittedByActorReference'')) (\<lambda>actor.
        bnd (parseOrderingInstant (fld v ''submittedAt'')) (\<lambda>submittedAt.
        Inr \<lparr>ob_orderBatchReference = batch, ob_orderReference = oref, ob_submissionReference = submission,
             ob_sourceCartReference = cref, ob_sourceCartVersion = version,
             ob_checkoutValidationReference = validation, ob_quoteReference = quote,
             ob_submittedByActorReference = actor, ob_submittedAt = submittedAt,
             ob_items = items\<rparr>))))))))))))))"

definition order_constants_bad :: "js \<Rightarrow> bool" where
  "order_constants_bad v \<longleftrightarrow>
     fld v ''aggregateVersion'' \<noteq> JNum 1 \<or> fld v ''canonicalPhase'' \<noteq> JStr ''Submitted'' \<or>
     fld v ''closureStatus'' \<noteq> JStr ''Open'' \<or> fld v ''paymentStatus'' \<noteq> JStr ''NotReported'' \<or>
     \<not> named_in [''DineIn'', ''Pickup''] (fld v ''orderType'') \<or>
     \<not> named_in [''Api'', ''Pos'', ''Qr'', ''Web''] (fld v ''sourceChannel'') \<or>
     \<not> is_array (fld v ''batches'') \<or> length (elements (fld v ''batches'')) \<noteq> 1"

definition order_identities :: "string \<Rightarrow> string \<Rightarrow> order_item_identity list \<Rightarrow> string list" where
  "order_identities oref batch items = oref # batch # map oi_orderItemReference items"

definition order_inconsistent :: "js \<Rightarrow> string \<Rightarrow> string \<Rightarrow> string option \<Rightarrow> js \<Rightarrow> order_batch \<Rightarrow> bool" where
  "order_inconsistent orderType oref createdAt session actor batch \<longleftrightarrow>
     (orderType = JStr ''DineIn'') \<noteq> (session \<noteq> None) \<or> ob_orderReference batch \<noteq> oref \<or>
     JStr (ob_submittedByActorReference batch) \<noteq> actor \<or> ob_submittedAt batch \<noteq> createdAt \<or>
     \<not> distinct (order_identities oref (ob_orderBatchReference batch) (ob_items batch))"

definition parseOrderAggregate :: "js \<Rightarrow> order_aggregate res" where
  "parseOrderAggregate v =
     bnd (order_closed v [''orderReference'', ''brandReference'', ''storeReference'', ''orderType'', ''sourceChannel'',
            ''diningSessionReference'', ''createdByActorReference'', ''submittedByActorReference'',
            ''aggregateVersion'', ''canonicalPhase'', ''closureStatus'', ''paymentStatus'', ''createdAt'',
            ''batches'']) (\<lambda>_.
     bnd (throw_if (order_constants_bad v) order_invalid) (\<lambda>_.
     order_guard
       (bnd (parseOrderingReference (fld v ''orderReference'')) (\<lambda>oref.
        bnd (parseOrderingInstant (fld v ''createdAt'')) (\<lambda>createdAt.
        bnd (nullable parseOrderingReference (fld v ''diningSessionReference'')) (\<lambda>session.
        bnd (parseBatch (hd (elements (fld v ''batches'')))) (\<lambda>batch.
        bnd (throw_if (order_inconsistent (fld v ''orderType'') oref createdAt session
                         (fld v ''submittedByActorReference'') batch) order_invalid) (\<lambda>_.
        bnd (parseOrderingReference (fld v ''brandReference'')) (\<lambda>brand.
        bnd (parseOrderingReference (fld v ''storeReference'')) (\<lambda>store.
        bnd (parseOrderingReference (fld v ''createdByActorReference'')) (\<lambda>creator.
        bnd (parseOrderingReference (fld v ''submittedByActorReference'')) (\<lambda>actor.
        Inr \<lparr>oa_orderReference = oref, oa_brandReference = brand, oa_storeReference = store,
             oa_orderType = fld v ''orderType'', oa_sourceChannel = fld v ''sourceChannel'',
             oa_diningSessionReference = session, oa_createdByActorReference = creator,
             oa_submittedByActorReference = actor, oa_createdAt = createdAt, oa_batch = batch\<rparr>))))))))))))"

section \<open>Orders as JavaScript objects\<close>

definition order_item_js :: "order_item_identity \<Rightarrow> js" where
  "order_item_js i = JObj
     [(''orderItemReference'', JStr (oi_orderItemReference i)), (''orderBatchReference'', JStr (oi_orderBatchReference i)),
      (''cartItemReference'', JStr (oi_cartItemReference i))]"

definition order_batch_js :: "order_batch \<Rightarrow> js" where
  "order_batch_js b = JObj
     [(''orderBatchReference'', JStr (ob_orderBatchReference b)), (''orderReference'', JStr (ob_orderReference b)),
      (''submissionReference'', JStr (ob_submissionReference b)),
      (''sourceCartReference'', JStr (ob_sourceCartReference b)), (''sourceCartVersion'', JNum (ob_sourceCartVersion b)),
      (''checkoutValidationReference'', JStr (ob_checkoutValidationReference b)),
      (''quoteReference'', JStr (ob_quoteReference b)),
      (''submittedByActorReference'', JStr (ob_submittedByActorReference b)), (''submittedAt'', JStr (ob_submittedAt b)),
      (''items'', JArr (map order_item_js (ob_items b)))]"

definition order_js :: "order_aggregate \<Rightarrow> js" where
  "order_js a = JObj
     [(''orderReference'', JStr (oa_orderReference a)), (''brandReference'', JStr (oa_brandReference a)),
      (''storeReference'', JStr (oa_storeReference a)), (''orderType'', oa_orderType a),
      (''sourceChannel'', oa_sourceChannel a), (''diningSessionReference'', js_opt JStr (oa_diningSessionReference a)),
      (''createdByActorReference'', JStr (oa_createdByActorReference a)),
      (''submittedByActorReference'', JStr (oa_submittedByActorReference a)), (''aggregateVersion'', JNum 1),
      (''canonicalPhase'', JStr ''Submitted''), (''closureStatus'', JStr ''Open''),
      (''paymentStatus'', JStr ''NotReported''), (''createdAt'', JStr (oa_createdAt a)),
      (''batches'', JArr [order_batch_js (oa_batch a)])]"

section \<open>Creation\<close>

definition order_evidence :: "js \<Rightarrow> checkout_evidence res" where
  "order_evidence v = catching (parseCheckoutValidationEvidence v) (\<lambda>_. Inl order_invalid)"

definition order_items_bad ::
  "checkout_evidence \<Rightarrow> string option \<Rightarrow> string \<Rightarrow> string \<Rightarrow> order_item_identity list \<Rightarrow> bool" where
  "order_items_bad e session oref batch items \<longleftrightarrow>
     (ck_orderType e = DineIn) \<noteq> (session \<noteq> None) \<or>
     length items \<noteq> card (set (map kl_cartItemReference (ck_catalogLines e))) \<or>
     list_ex (\<lambda>i. oi_cartItemReference i \<notin> set (map kl_cartItemReference (ck_catalogLines e))) items \<or>
     \<not> distinct (map oi_cartItemReference items) \<or> \<not> distinct (order_identities oref batch items)"

definition createOrderAggregate :: "js \<Rightarrow> order_aggregate res" where
  "createOrderAggregate v =
     bnd (order_closed v [''orderReference'', ''orderBatchReference'', ''submissionReference'', ''diningSessionReference'',
            ''createdByActorReference'', ''submittedByActorReference'', ''submittedAt'', ''checkoutValidationEvidence'',
            ''items'']) (\<lambda>_.
     bnd (order_items_array (fld v ''items'')) (\<lambda>raw.
     order_guard
       (bnd (order_evidence (fld v ''checkoutValidationEvidence'')) (\<lambda>e.
        bnd (parseOrderingInstant (fld v ''submittedAt'')) (\<lambda>submittedAt.
        bnd (throw_if (ms_of (ck_validUntil e) \<le> ms_of submittedAt) (OrderError ORDER_VALIDATION_EXPIRED)) (\<lambda>_.
        bnd (throw_if (ms_of submittedAt < ms_of (ck_validatedAt e)) order_invalid) (\<lambda>_.
        bnd (parseOrderingReference (fld v ''orderReference'')) (\<lambda>oref.
        bnd (parseOrderingReference (fld v ''orderBatchReference'')) (\<lambda>batch.
        bnd (parseOrderingReference (fld v ''submittedByActorReference'')) (\<lambda>actor.
        bnd (nullable parseOrderingReference (fld v ''diningSessionReference'')) (\<lambda>session.
        bnd (map_res (itemIdentity batch) raw) (\<lambda>items.
        bnd (throw_if (order_items_bad e session oref batch items) order_invalid) (\<lambda>_.
        bnd (parseOrderingReference (fld v ''createdByActorReference'')) (\<lambda>creator.
        bnd (parseOrderingReference (fld v ''submissionReference'')) (\<lambda>submission.
        parseOrderAggregate (order_js
          \<lparr>oa_orderReference = oref, oa_brandReference = ck_brandReference e,
           oa_storeReference = ck_storeReference e, oa_orderType = JStr (order_type_name (ck_orderType e)),
           oa_sourceChannel = JStr (channel_name (ck_sourceChannel e)), oa_diningSessionReference = session,
           oa_createdByActorReference = creator, oa_submittedByActorReference = actor, oa_createdAt = submittedAt,
           oa_batch =
             \<lparr>ob_orderBatchReference = batch, ob_orderReference = oref, ob_submissionReference = submission,
              ob_sourceCartReference = ck_cartReference e, ob_sourceCartVersion = ck_cartVersion e,
              ob_checkoutValidationReference = ck_validationReference e, ob_quoteReference = ck_quoteReference e,
              ob_submittedByActorReference = actor, ob_submittedAt = submittedAt,
              ob_items = items\<rparr>\<rparr>))))))))))))))))"

section \<open>Parsers as codecs\<close>

lemma order_guard_Inr [res_simps]: "order_guard m = Inr x \<longleftrightarrow> m = Inr x"
  by (cases m) (simp_all add: order_guard_def)

lemma order_parse_Inr [res_simps]:
  "order_closed v ks = Inr u \<longleftrightarrow> has_shape v ks"
  "order_items_array v = Inr xs \<longleftrightarrow> v = JArr xs \<and> 1 \<le> length xs \<and> length xs \<le> 100"
  by (auto simp: order_closed_def order_items_array_def res_simps is_array_iff Suc_le_eq)

lemma positiveVersion_Inr [res_simps]: "positiveVersion v = Inr n \<longleftrightarrow> v = JNum n \<and> 1 \<le> n \<and> n \<le> max_safe"
  by (auto simp: positiveVersion_def res_simps max_safe_def)

lemmas order_Inr = throw_if_eq_Inr ordering_parse_Inr order_parse_Inr positiveVersion_Inr order_guard_Inr
  catching_throw_Inr

definition valid_order_item :: "order_item_identity \<Rightarrow> bool" where
  "valid_order_item i \<longleftrightarrow>
     uuid_v7 (oi_orderItemReference i) \<and> uuid_v7 (oi_orderBatchReference i) \<and> uuid_v7 (oi_cartItemReference i)"

interpretation order_item: codec parseStoredItem order_item_js valid_order_item
  by unfold_locales (auto simp: parseStoredItem_def order_item_js_def valid_order_item_def bnd_eq_Inr order_Inr)

definition valid_batch :: "order_batch \<Rightarrow> bool" where
  "valid_batch b \<longleftrightarrow>
     list_all uuid_v7 [ob_orderBatchReference b, ob_orderReference b, ob_submissionReference b, ob_sourceCartReference b,
       ob_checkoutValidationReference b, ob_quoteReference b, ob_submittedByActorReference b] \<and>
     1 \<le> ob_sourceCartVersion b \<and> ob_sourceCartVersion b \<le> max_safe \<and> canonical_instant (ob_submittedAt b) \<and>
     1 \<le> length (ob_items b) \<and> length (ob_items b) \<le> 100 \<and> list_all valid_order_item (ob_items b) \<and>
     \<not> batch_items_bad (ob_orderBatchReference b) (ob_items b)"

interpretation batch: codec parseBatch order_batch_js valid_batch
proof unfold_locales
  show "valid_batch b" if "parseBatch v = Inr b" for v b
    using that unfolding parseBatch_def bnd_eq_Inr order_guard_Inr
    by (elim exE conjE) (drule Inr_inject, hypsubst,
      auto simp: valid_batch_def order_Inr order_item.list_valid dest: map_res_length)
  show "parseBatch (order_batch_js b) = Inr b" if "valid_batch b" for b
    using that by (simp add: parseBatch_def order_batch_js_def valid_batch_def bnd_eq_Inr order_Inr order_item.list_parse_print)
qed (simp add: order_batch_js_def)

definition valid_order :: "order_aggregate \<Rightarrow> bool" where
  "valid_order a \<longleftrightarrow>
     list_all uuid_v7 [oa_orderReference a, oa_brandReference a, oa_storeReference a, oa_createdByActorReference a,
       oa_submittedByActorReference a] \<and>
     named_in [''DineIn'', ''Pickup''] (oa_orderType a) \<and>
     named_in [''Api'', ''Pos'', ''Qr'', ''Web''] (oa_sourceChannel a) \<and>
     pred_option uuid_v7 (oa_diningSessionReference a) \<and> canonical_instant (oa_createdAt a) \<and> valid_batch (oa_batch a) \<and>
     \<not> order_inconsistent (oa_orderType a) (oa_orderReference a) (oa_createdAt a) (oa_diningSessionReference a)
         (JStr (oa_submittedByActorReference a)) (oa_batch a)"

interpretation order: codec parseOrderAggregate order_js valid_order
proof unfold_locales
  show "valid_order a" if "parseOrderAggregate v = Inr a" for v a
    using that unfolding parseOrderAggregate_def bnd_eq_Inr order_guard_Inr
    by (elim exE conjE) (drule Inr_inject, hypsubst,
      auto simp: valid_order_def order_constants_bad_def order_Inr batch.parse_valid ref.nullable_valid)
  show "parseOrderAggregate (order_js a) = Inr a" if "valid_order a" for a
    using that by (simp add: parseOrderAggregate_def order_js_def valid_order_def bnd_eq_Inr order_constants_bad_def
        order_Inr batch.parse_print ref.nullable_parse_print)
qed (simp add: order_js_def)

end
