(* ===== verification/OrderSnapshot.thy ===== *)
theory OrderSnapshot
  imports OrderAggregate CartQuote GuestSession MoneyTax
begin

text \<open>
  What an order keeps of its lines: \<open>packages/rms/ordering/src/domain/order-item-snapshot.ts\<close>. Every line
  is stored with the catalog data, the price and the tax it was sold with; the snapshots of an order are
  checked against the cart, the checkout evidence and each other.
\<close>

section \<open>Data\<close>

record snapshot_money =
  nm_amountMinor :: int
  nm_currencyCode :: string

record snapshot_option =
  no_optionReference :: string
  no_quantity :: int
  no_bindingReference :: string
  no_optionSetVersionReference :: string
  no_localizedNames :: "(string \<times> string) list"

record snapshot_catalog =
  nc_snapshotReference :: string
  nc_snapshotDigest :: string
  nc_brandReference :: string
  nc_storeReference :: string
  nc_sellableReference :: string
  nc_productReference :: string
  nc_productVersionReference :: string
  nc_skuReference :: string
  nc_menuVersionReference :: string
  nc_localizedNames :: "(string \<times> string) list"
  nc_unitOfSale :: string
  nc_unitQuantity :: string
  nc_taxClassificationReference :: string
  nc_options :: "snapshot_option list"
  nc_capturedAt :: string

text \<open>\<open>scopeKind\<close>, \<open>treatment\<close>, \<open>priceInclusion\<close> and \<open>roundingMode\<close> are checked through \<open>String(...)\<close> and kept as read.\<close>

record snapshot_price =
  nr_priceBookReference :: string
  nr_priceBookVersionReference :: string
  nr_priceBookDigest :: string
  nr_priceEntryReference :: string
  nr_unitPrice :: snapshot_money
  nr_scopeKind :: js
  nr_scopeReference :: "string option"
  nr_channelCode :: "string option"
  nr_orderType :: "cart_order_type option"
  nr_priority :: int
  nr_effectiveFrom :: string
  nr_effectiveUntil :: "string option"
  nr_reasonCode :: string

record snapshot_tax =
  nt_ruleVersionReference :: string
  nt_ruleVersionDigest :: string
  nt_jurisdictionCode :: string
  nt_taxComponentCode :: string
  nt_taxClassificationReference :: string
  nt_treatment :: js
  nt_rate :: string
  nt_priceInclusion :: js
  nt_roundingMode :: js
  nt_calculationOrder :: int
  nt_compoundOnPriorTax :: bool
  nt_taxAmount :: snapshot_money

record snapshot_pricing =
  np_quoteReference :: string
  np_quoteInputDigest :: string
  np_lineReference :: string
  np_sellableReference :: string
  np_quantity :: int
  np_currencyMinorUnitExponent :: int
  np_currencyMetadataVersion :: int
  np_currencyMetadataVersionReference :: string
  np_currencyMetadataDigest :: string
  np_unitPrice :: snapshot_money
  np_subtotal :: snapshot_money
  np_discount :: snapshot_money
  np_tax :: snapshot_money
  np_fee :: snapshot_money
  np_total :: snapshot_money
  np_priceResolution :: snapshot_price
  np_taxConfigurationReference :: string
  np_taxConfigurationVersionReference :: string
  np_taxConfigurationDigest :: string
  np_taxEffectiveFrom :: string
  np_taxEffectiveUntil :: "string option"
  np_taxComponents :: "snapshot_tax list"
  np_quotedAt :: string

record item_snapshot =
  ns_orderItemReference :: string
  ns_orderBatchReference :: string
  ns_cartItemReference :: string
  ns_quantity :: int
  ns_customerNote :: "string option"
  ns_addedByActorReference :: string
  ns_addedByParticipantReference :: "string option"
  ns_addedAt :: string
  ns_catalog :: snapshot_catalog
  ns_pricing :: snapshot_pricing
  ns_snapshotCapturedAt :: string

section \<open>Values\<close>

definition snapshot_invalid :: err where
  "snapshot_invalid = OrderItemSnapshotError ORDER_ITEM_SNAPSHOT_INPUT_INVALID"

definition snapshot_closed :: "js \<Rightarrow> string list \<Rightarrow> unit res" where
  "snapshot_closed v ks = throw_if (\<not> has_shape v ks) snapshot_invalid"

fun snapshot_rethrow :: "err \<Rightarrow> err" where
  "snapshot_rethrow (OrderItemSnapshotError code) = OrderItemSnapshotError code"
| "snapshot_rethrow _ = snapshot_invalid"

definition snapshot_guard :: "'a res \<Rightarrow> 'a res" where
  "snapshot_guard m = catching m (\<lambda>e. Inl (snapshot_rethrow e))"

definition snapshot_positive :: "int \<Rightarrow> js \<Rightarrow> int res" where
  "snapshot_positive maximum v = or_throw (safe_int_in 1 maximum v) snapshot_invalid"

definition snapshot_nonnegative :: "js \<Rightarrow> int res" where
  "snapshot_nonnegative v = or_throw (safe_int_in 0 max_safe v) snapshot_invalid"

definition optionalInstant :: "js \<Rightarrow> string option res" where
  "optionalInstant v = catching (nullable parseOrderingInstant v) (\<lambda>_. Inl snapshot_invalid)"

definition snapshot_code :: "js \<Rightarrow> string res" where
  "snapshot_code v = or_throw (str_if (code_format ''_-'') v) snapshot_invalid"

text \<open>\<open>/^(?:0*[1-9]\d*)(?:\.\d{1,6})?$|^0\.(?:0{0,5}[1-9]\d{0,5})$/u\<close>: a positive decimal.\<close>

definition unit_quantity_format :: "string \<Rightarrow> bool" where
  "unit_quantity_format s \<longleftrightarrow>
     (let whole = takeWhile (\<lambda>c. c \<noteq> CHR ''.'') s; rest = dropWhile (\<lambda>c. c \<noteq> CHR ''.'') s in
      list_all is_digit whole \<and> list_ex (\<lambda>c. c \<noteq> CHR ''0'') whole \<and>
        (rest = [] \<or> list_all is_digit (tl rest) \<and> 1 \<le> length (tl rest) \<and> length (tl rest) \<le> 6) \<or>
      whole = ''0'' \<and> rest \<noteq> [] \<and> list_all is_digit (tl rest) \<and>
        length (takeWhile (\<lambda>c. c = CHR ''0'') (tl rest)) \<le> 5 \<and>
        1 \<le> length (dropWhile (\<lambda>c. c = CHR ''0'') (tl rest)) \<and>
        length (dropWhile (\<lambda>c. c = CHR ''0'') (tl rest)) \<le> 6)"

fun own_entries :: "js \<Rightarrow> (string \<times> js) list" where
  "own_entries (JObj ps) = ps"
| "own_entries _ = []"

definition snapshot_name :: "string \<times> js \<Rightarrow> (string \<times> string) res" where
  "snapshot_name p =
     bnd (throw_if (\<not> locale_format (fst p)) snapshot_invalid) (\<lambda>_.
     bnd (or_throw (str_if (\<lambda>_. True) (snd p)) snapshot_invalid) (\<lambda>name.
     bnd (throw_if (length (js_trim name) < 1 \<or> 200 < length (js_trim name)) snapshot_invalid) (\<lambda>_.
     Inr (fst p, js_trim name))))"

definition snapshot_names :: "js \<Rightarrow> (string \<times> string) list res" where
  "snapshot_names v =
     bnd (throw_if (\<not> is_plain v) snapshot_invalid) (\<lambda>_.
     bnd (throw_if (length (own_entries v) < 1 \<or> 20 < length (own_entries v)) snapshot_invalid) (\<lambda>_.
     map_res snapshot_name (own_entries v)))"

definition snapshot_money_of :: "string option \<Rightarrow> js \<Rightarrow> snapshot_money res" where
  "snapshot_money_of expectedCurrency v =
     bnd (snapshot_closed v [''amountMinor'', ''currencyCode'']) (\<lambda>_.
     bnd (or_throw (bigint_in int64_min int64_max (fld v ''amountMinor'')) snapshot_invalid) (\<lambda>a.
     bnd (or_throw (str_if currency_format (fld v ''currencyCode'')) snapshot_invalid) (\<lambda>c.
     bnd (throw_if (expectedCurrency \<noteq> None \<and> expectedCurrency \<noteq> Some c) snapshot_invalid) (\<lambda>_.
     Inr \<lparr>nm_amountMinor = a, nm_currencyCode = c\<rparr>))))"

section \<open>The parts of a line\<close>

definition snapshot_option_of :: "js \<Rightarrow> snapshot_option res" where
  "snapshot_option_of v =
     bnd (snapshot_closed v [''optionReference'', ''quantity'', ''bindingReference'', ''optionSetVersionReference'',
            ''localizedNames'']) (\<lambda>_.
     catching
       (bnd (parseOrderingReference (fld v ''optionReference'')) (\<lambda>opt.
        bnd (snapshot_positive 999 (fld v ''quantity'')) (\<lambda>q.
        bnd (parseOrderingReference (fld v ''bindingReference'')) (\<lambda>binding.
        bnd (parseOrderingReference (fld v ''optionSetVersionReference'')) (\<lambda>optionSet.
        bnd (snapshot_names (fld v ''localizedNames'')) (\<lambda>names.
        Inr \<lparr>no_optionReference = opt, no_quantity = q, no_bindingReference = binding,
             no_optionSetVersionReference = optionSet, no_localizedNames = names\<rparr>))))))
       (\<lambda>_. Inl snapshot_invalid))"

definition snapshot_catalog_of :: "js \<Rightarrow> snapshot_catalog res" where
  "snapshot_catalog_of v =
     bnd (snapshot_closed v [''snapshotReference'', ''snapshotDigest'', ''brandReference'', ''storeReference'',
            ''sellableReference'', ''sellableType'', ''productReference'', ''productVersionReference'',
            ''skuReference'', ''menuVersionReference'', ''localizedNames'', ''unitOfSale'', ''unitQuantity'',
            ''taxClassificationReference'', ''options'', ''capturedAt'']) (\<lambda>_.
     bnd (throw_if (fld v ''sellableType'' \<noteq> JStr ''Sku'') snapshot_invalid) (\<lambda>_.
     bnd (or_throw (str_if unit_quantity_format (fld v ''unitQuantity'')) snapshot_invalid) (\<lambda>unitQuantity.
     bnd (throw_if (\<not> is_array (fld v ''options'') \<or> 100 < length (elements (fld v ''options''))) snapshot_invalid) (\<lambda>_.
     snapshot_guard
       (bnd (map_res snapshot_option_of (elements (fld v ''options''))) (\<lambda>options.
        bnd (throw_if (\<not> distinct (map no_optionReference options)) snapshot_invalid) (\<lambda>_.
        bnd (parseOrderingReference (fld v ''snapshotReference'')) (\<lambda>snapshot.
        bnd (parseOrderingHash (fld v ''snapshotDigest'')) (\<lambda>dig.
        bnd (parseOrderingReference (fld v ''brandReference'')) (\<lambda>brand.
        bnd (parseOrderingReference (fld v ''storeReference'')) (\<lambda>store.
        bnd (parseOrderingReference (fld v ''sellableReference'')) (\<lambda>sellable.
        bnd (parseOrderingReference (fld v ''productReference'')) (\<lambda>product.
        bnd (parseOrderingReference (fld v ''productVersionReference'')) (\<lambda>productVersion.
        bnd (parseOrderingReference (fld v ''skuReference'')) (\<lambda>sku.
        bnd (parseOrderingReference (fld v ''menuVersionReference'')) (\<lambda>menu.
        bnd (snapshot_names (fld v ''localizedNames'')) (\<lambda>names.
        bnd (snapshot_code (fld v ''unitOfSale'')) (\<lambda>unitOfSale.
        bnd (parseOrderingReference (fld v ''taxClassificationReference'')) (\<lambda>tax.
        bnd (parseOrderingInstant (fld v ''capturedAt'')) (\<lambda>capturedAt.
        Inr \<lparr>nc_snapshotReference = snapshot, nc_snapshotDigest = dig, nc_brandReference = brand,
             nc_storeReference = store, nc_sellableReference = sellable, nc_productReference = product,
             nc_productVersionReference = productVersion, nc_skuReference = sku, nc_menuVersionReference = menu,
             nc_localizedNames = names, nc_unitOfSale = unitOfSale, nc_unitQuantity = unitQuantity,
             nc_taxClassificationReference = tax, nc_options = options,
             nc_capturedAt = capturedAt\<rparr>))))))))))))))))))))"

definition snapshot_price_order_types :: "(js \<times> cart_order_type option) list" where
  "snapshot_price_order_types = [(JNull, None), (JStr ''DineIn'', Some DineIn), (JStr ''Pickup'', Some Pickup)]"

definition snapshot_price_bad :: "js \<Rightarrow> bool" where
  "snapshot_price_bad v \<longleftrightarrow>
     \<not> named_in [''Brand'', ''Region'', ''StoreGroup'', ''Store''] (fld v ''scopeKind'') \<or>
     (fld v ''scopeKind'' = JStr ''Brand'') \<noteq> (fld v ''scopeReference'' = JNull) \<or>
     (fld v ''channelCode'' \<noteq> JNull \<and> str_if (code_format ''_-'') (fld v ''channelCode'') = None) \<or>
     map_of snapshot_price_order_types (fld v ''orderType'') = None"

definition snapshot_price_of :: "string \<Rightarrow> js \<Rightarrow> snapshot_price res" where
  "snapshot_price_of cur v =
     bnd (snapshot_closed v [''priceBookReference'', ''priceBookVersionReference'', ''priceBookDigest'',
            ''priceEntryReference'', ''unitPrice'', ''scopeKind'', ''scopeReference'', ''channelCode'', ''orderType'',
            ''priority'', ''effectiveFrom'', ''effectiveUntil'', ''reasonCode'']) (\<lambda>_.
     bnd (throw_if (snapshot_price_bad v) snapshot_invalid) (\<lambda>_.
     catching
       (bnd (parseOrderingInstant (fld v ''effectiveFrom'')) (\<lambda>effectiveFrom.
        bnd (optionalInstant (fld v ''effectiveUntil'')) (\<lambda>effectiveUntil.
        bnd (throw_if (effectiveUntil \<noteq> None \<and> ms_of (the effectiveUntil) \<le> ms_of effectiveFrom) snapshot_invalid) (\<lambda>_.
        bnd (parseOrderingReference (fld v ''priceBookReference'')) (\<lambda>book.
        bnd (parseOrderingReference (fld v ''priceBookVersionReference'')) (\<lambda>bookVersion.
        bnd (parseOrderingHash (fld v ''priceBookDigest'')) (\<lambda>dig.
        bnd (parseOrderingReference (fld v ''priceEntryReference'')) (\<lambda>entry.
        bnd (snapshot_money_of (Some cur) (fld v ''unitPrice'')) (\<lambda>unitPrice.
        bnd (nullable parseOrderingReference (fld v ''scopeReference'')) (\<lambda>scopeReference.
        bnd (snapshot_nonnegative (fld v ''priority'')) (\<lambda>priority.
        bnd (snapshot_code (fld v ''reasonCode'')) (\<lambda>reason.
        Inr \<lparr>nr_priceBookReference = book, nr_priceBookVersionReference = bookVersion, nr_priceBookDigest = dig,
             nr_priceEntryReference = entry, nr_unitPrice = unitPrice, nr_scopeKind = fld v ''scopeKind'',
             nr_scopeReference = scopeReference,
             nr_channelCode = str_if (code_format ''_-'') (fld v ''channelCode''),
             nr_orderType = the (map_of snapshot_price_order_types (fld v ''orderType'')), nr_priority = priority,
             nr_effectiveFrom = effectiveFrom, nr_effectiveUntil = effectiveUntil,
             nr_reasonCode = reason\<rparr>))))))))))))
       (\<lambda>_. Inl snapshot_invalid)))"

definition snapshot_tax_bad :: "js \<Rightarrow> bool" where
  "snapshot_tax_bad v \<longleftrightarrow>
     \<not> named_in [''Taxable'', ''Exempt'', ''ZeroRated''] (fld v ''treatment'') \<or>
     str_if canonical_rate (fld v ''rate'') = None \<or>
     \<not> named_in [''Exclusive'', ''Inclusive''] (fld v ''priceInclusion'') \<or>
     \<not> named_in [''HalfUp'', ''HalfEven'', ''TowardZero'', ''AwayFromZero''] (fld v ''roundingMode'')"

fun js_bool :: "js \<Rightarrow> bool option" where
  "js_bool (JBool b) = Some b"
| "js_bool _ = None"

definition snapshot_tax_of :: "string \<Rightarrow> js \<Rightarrow> snapshot_tax res" where
  "snapshot_tax_of cur v =
     bnd (snapshot_closed v [''ruleVersionReference'', ''ruleVersionDigest'', ''jurisdictionCode'', ''taxComponentCode'',
            ''taxClassificationReference'', ''treatment'', ''rate'', ''priceInclusion'', ''roundingMode'',
            ''calculationOrder'', ''compoundOnPriorTax'', ''taxAmount'']) (\<lambda>_.
     bnd (throw_if (snapshot_tax_bad v) snapshot_invalid) (\<lambda>_.
     bnd (or_throw (js_bool (fld v ''compoundOnPriorTax'')) snapshot_invalid) (\<lambda>compound.
     bnd (throw_if (fld v ''treatment'' \<noteq> JStr ''Taxable'' \<and> fld v ''rate'' \<noteq> JStr ''0'') snapshot_invalid) (\<lambda>_.
     snapshot_guard
       (bnd (snapshot_money_of (Some cur) (fld v ''taxAmount'')) (\<lambda>taxAmount.
        bnd (throw_if (nm_amountMinor taxAmount < 0 \<or>
                       (fld v ''treatment'' \<noteq> JStr ''Taxable'' \<and> nm_amountMinor taxAmount \<noteq> 0)) snapshot_invalid) (\<lambda>_.
        bnd (parseOrderingReference (fld v ''ruleVersionReference'')) (\<lambda>rule.
        bnd (parseOrderingHash (fld v ''ruleVersionDigest'')) (\<lambda>dig.
        bnd (snapshot_code (fld v ''jurisdictionCode'')) (\<lambda>jurisdiction.
        bnd (snapshot_code (fld v ''taxComponentCode'')) (\<lambda>component.
        bnd (parseOrderingReference (fld v ''taxClassificationReference'')) (\<lambda>classification.
        bnd (snapshot_nonnegative (fld v ''calculationOrder'')) (\<lambda>order.
        Inr \<lparr>nt_ruleVersionReference = rule, nt_ruleVersionDigest = dig, nt_jurisdictionCode = jurisdiction,
             nt_taxComponentCode = component, nt_taxClassificationReference = classification,
             nt_treatment = fld v ''treatment'', nt_rate = the (str_if canonical_rate (fld v ''rate'')),
             nt_priceInclusion = fld v ''priceInclusion'', nt_roundingMode = fld v ''roundingMode'',
             nt_calculationOrder = order, nt_compoundOnPriorTax = compound,
             nt_taxAmount = taxAmount\<rparr>)))))))))))))"

text \<open>The consistency condition of the priced line.\<close>

definition pricing_amounts_bad ::
  "snapshot_money \<Rightarrow> snapshot_money \<Rightarrow> snapshot_money \<Rightarrow> snapshot_money \<Rightarrow> snapshot_money \<Rightarrow> snapshot_money \<Rightarrow>
   snapshot_price \<Rightarrow> snapshot_tax list \<Rightarrow> bool" where
  "pricing_amounts_bad unitPrice subtotal discount tax fee totalled price components \<longleftrightarrow>
     list_ex (\<lambda>m. nm_amountMinor m < 0) [unitPrice, subtotal, discount, tax, fee, totalled] \<or>
     nm_amountMinor subtotal - nm_amountMinor discount + nm_amountMinor tax + nm_amountMinor fee
       \<noteq> nm_amountMinor totalled \<or>
     nm_amountMinor (nr_unitPrice price) \<noteq> nm_amountMinor unitPrice \<or>
     sum_list (map (\<lambda>c. nm_amountMinor (nt_taxAmount c)) components) \<noteq> nm_amountMinor tax \<or>
     \<not> distinct (map nt_calculationOrder components) \<or> \<not> distinct (map nt_ruleVersionReference components)"

definition pricing_times_bad :: "snapshot_price \<Rightarrow> string \<Rightarrow> string \<Rightarrow> string option \<Rightarrow> bool" where
  "pricing_times_bad price quotedAt taxFrom taxUntil \<longleftrightarrow>
     ms_of quotedAt < ms_of (nr_effectiveFrom price) \<or>
     (nr_effectiveUntil price \<noteq> None \<and> ms_of (the (nr_effectiveUntil price)) \<le> ms_of quotedAt) \<or>
     (taxUntil \<noteq> None \<and> ms_of (the taxUntil) \<le> ms_of taxFrom) \<or>
     ms_of quotedAt < ms_of taxFrom \<or> (taxUntil \<noteq> None \<and> ms_of (the taxUntil) \<le> ms_of quotedAt)"

definition snapshot_pricing_of :: "js \<Rightarrow> snapshot_pricing res" where
  "snapshot_pricing_of v =
     bnd (snapshot_closed v [''quoteReference'', ''quoteVersion'', ''quoteInputDigest'', ''lineReference'',
            ''sellableReference'', ''quantity'', ''currencyMinorUnitExponent'', ''currencyMetadataVersion'',
            ''currencyMetadataVersionReference'', ''currencyMetadataDigest'', ''unitPrice'', ''subtotal'', ''discount'',
            ''tax'', ''fee'', ''total'', ''priceResolution'', ''taxConfigurationReference'',
            ''taxConfigurationVersionReference'', ''taxConfigurationDigest'', ''taxEffectiveFrom'',
            ''taxEffectiveUntil'', ''taxComponents'', ''quotedAt'']) (\<lambda>_.
     bnd (throw_if (fld v ''quoteVersion'' \<noteq> JNum 1 \<or> \<not> is_array (fld v ''taxComponents'') \<or>
                    20 < length (elements (fld v ''taxComponents''))) snapshot_invalid) (\<lambda>_.
     snapshot_guard
       (bnd (snapshot_money_of None (fld v ''unitPrice'')) (\<lambda>unitPrice.
        let money = snapshot_money_of (Some (nm_currencyCode unitPrice)) in
        bnd (money (fld v ''subtotal'')) (\<lambda>subtotal.
        bnd (money (fld v ''discount'')) (\<lambda>discount.
        bnd (money (fld v ''tax'')) (\<lambda>tax.
        bnd (money (fld v ''fee'')) (\<lambda>fee.
        bnd (money (fld v ''total'')) (\<lambda>totalled.
        bnd (snapshot_price_of (nm_currencyCode unitPrice) (fld v ''priceResolution'')) (\<lambda>price.
        bnd (parseOrderingInstant (fld v ''quotedAt'')) (\<lambda>quotedAt.
        bnd (parseOrderingInstant (fld v ''taxEffectiveFrom'')) (\<lambda>taxFrom.
        bnd (optionalInstant (fld v ''taxEffectiveUntil'')) (\<lambda>taxUntil.
        bnd (map_res (snapshot_tax_of (nm_currencyCode unitPrice)) (elements (fld v ''taxComponents''))) (\<lambda>components.
        bnd (throw_if (pricing_amounts_bad unitPrice subtotal discount tax fee totalled price components) snapshot_invalid) (\<lambda>_.
        bnd (or_throw (safe_int_in 0 6 (fld v ''currencyMinorUnitExponent'')) snapshot_invalid) (\<lambda>exponent.
        bnd (throw_if (pricing_times_bad price quotedAt taxFrom taxUntil) snapshot_invalid) (\<lambda>_.
        bnd (parseOrderingReference (fld v ''quoteReference'')) (\<lambda>quote.
        bnd (parseOrderingHash (fld v ''quoteInputDigest'')) (\<lambda>input.
        bnd (parseOrderingReference (fld v ''lineReference'')) (\<lambda>line.
        bnd (parseOrderingReference (fld v ''sellableReference'')) (\<lambda>sellable.
        bnd (snapshot_positive 999 (fld v ''quantity'')) (\<lambda>q.
        bnd (snapshot_positive max_safe (fld v ''currencyMetadataVersion'')) (\<lambda>metaVersion.
        bnd (parseOrderingReference (fld v ''currencyMetadataVersionReference'')) (\<lambda>metaReference.
        bnd (parseOrderingHash (fld v ''currencyMetadataDigest'')) (\<lambda>metaDigest.
        bnd (parseOrderingReference (fld v ''taxConfigurationReference'')) (\<lambda>config.
        bnd (parseOrderingReference (fld v ''taxConfigurationVersionReference'')) (\<lambda>configVersion.
        bnd (parseOrderingHash (fld v ''taxConfigurationDigest'')) (\<lambda>configDigest.
        Inr \<lparr>np_quoteReference = quote, np_quoteInputDigest = input, np_lineReference = line,
             np_sellableReference = sellable, np_quantity = q, np_currencyMinorUnitExponent = exponent,
             np_currencyMetadataVersion = metaVersion, np_currencyMetadataVersionReference = metaReference,
             np_currencyMetadataDigest = metaDigest, np_unitPrice = unitPrice, np_subtotal = subtotal,
             np_discount = discount, np_tax = tax, np_fee = fee, np_total = totalled, np_priceResolution = price,
             np_taxConfigurationReference = config, np_taxConfigurationVersionReference = configVersion,
             np_taxConfigurationDigest = configDigest, np_taxEffectiveFrom = taxFrom,
             np_taxEffectiveUntil = taxUntil, np_taxComponents = components,
             np_quotedAt = quotedAt\<rparr>))))))))))))))))))))))))))))"

section \<open>Lines\<close>

definition snapshot_line_of :: "js \<Rightarrow> item_snapshot res" where
  "snapshot_line_of v =
     bnd (snapshot_closed v [''orderItemReference'', ''orderBatchReference'', ''cartItemReference'', ''quantity'',
            ''customerNote'', ''addedByActorReference'', ''addedByParticipantReference'', ''addedAt'', ''catalog'',
            ''pricing'', ''snapshotCapturedAt'']) (\<lambda>_.
     snapshot_guard
       (bnd (parseOrderingReference (fld v ''orderItemReference'')) (\<lambda>item.
        bnd (parseOrderingReference (fld v ''orderBatchReference'')) (\<lambda>batch.
        bnd (parseOrderingReference (fld v ''cartItemReference'')) (\<lambda>cartItem.
        bnd (snapshot_positive 999 (fld v ''quantity'')) (\<lambda>q.
        bnd (parseCustomerNote (fld v ''customerNote'')) (\<lambda>note'.
        bnd (parseOrderingReference (fld v ''addedByActorReference'')) (\<lambda>actor.
        bnd (nullable parseOrderingReference (fld v ''addedByParticipantReference'')) (\<lambda>participant.
        bnd (parseOrderingInstant (fld v ''addedAt'')) (\<lambda>addedAt.
        bnd (snapshot_catalog_of (fld v ''catalog'')) (\<lambda>catalog.
        bnd (snapshot_pricing_of (fld v ''pricing'')) (\<lambda>pricing.
        bnd (parseOrderingInstant (fld v ''snapshotCapturedAt'')) (\<lambda>capturedAt.
        Inr \<lparr>ns_orderItemReference = item, ns_orderBatchReference = batch, ns_cartItemReference = cartItem,
             ns_quantity = q, ns_customerNote = note', ns_addedByActorReference = actor,
             ns_addedByParticipantReference = participant, ns_addedAt = addedAt, ns_catalog = catalog,
             ns_pricing = pricing, ns_snapshotCapturedAt = capturedAt\<rparr>)))))))))))))"

definition line_inconsistent :: "item_snapshot \<Rightarrow> bool" where
  "line_inconsistent s \<longleftrightarrow>
     nc_sellableReference (ns_catalog s) \<noteq> np_sellableReference (ns_pricing s) \<or>
     ns_cartItemReference s \<noteq> np_lineReference (ns_pricing s) \<or> ns_quantity s \<noteq> np_quantity (ns_pricing s) \<or>
     nc_capturedAt (ns_catalog s) \<noteq> ns_snapshotCapturedAt s \<or>
     ms_of (ns_addedAt s) > ms_of (ns_snapshotCapturedAt s) \<or>
     ms_of (np_quotedAt (ns_pricing s)) > ms_of (ns_snapshotCapturedAt s) \<or>
     list_ex (\<lambda>c. nt_taxClassificationReference c \<noteq> nc_taxClassificationReference (ns_catalog s))
       (np_taxComponents (ns_pricing s))"

definition parseOrderItemTransactionSnapshot :: "js \<Rightarrow> item_snapshot res" where
  "parseOrderItemTransactionSnapshot v =
     bnd (snapshot_line_of v) (\<lambda>s. bnd (throw_if (line_inconsistent s) snapshot_invalid) (\<lambda>_. Inr s))"

end
