(* ===== verification/OrderLines.thy ===== *)
theory OrderLines
  imports OrderSnapshot
begin

text \<open>
  The lines of a new order: \<open>createOrderItemSnapshots\<close> of
  \<open>packages/rms/ordering/src/domain/order-item-snapshot.ts\<close>, on the parsers of the theory OrderSnapshot. Every
  snapshot that was built is handed back to the parser as an object.
\<close>

section \<open>Snapshots as JavaScript objects\<close>

definition names_js :: "(string \<times> string) list \<Rightarrow> js" where
  "names_js ns = JObj (map (\<lambda>(k, t). (k, JStr t)) ns)"

definition snapshot_money_js :: "snapshot_money \<Rightarrow> js" where
  "snapshot_money_js m = JObj [(''amountMinor'', JBig (nm_amountMinor m)), (''currencyCode'', JStr (nm_currencyCode m))]"

definition snapshot_option_js :: "snapshot_option \<Rightarrow> js" where
  "snapshot_option_js p = JObj
     [(''optionReference'', JStr (no_optionReference p)), (''quantity'', JNum (no_quantity p)),
      (''bindingReference'', JStr (no_bindingReference p)),
      (''optionSetVersionReference'', JStr (no_optionSetVersionReference p)),
      (''localizedNames'', names_js (no_localizedNames p))]"

definition snapshot_catalog_js :: "snapshot_catalog \<Rightarrow> js" where
  "snapshot_catalog_js c = JObj
     [(''snapshotReference'', JStr (nc_snapshotReference c)), (''snapshotDigest'', JStr (nc_snapshotDigest c)),
      (''brandReference'', JStr (nc_brandReference c)), (''storeReference'', JStr (nc_storeReference c)),
      (''sellableReference'', JStr (nc_sellableReference c)), (''sellableType'', JStr ''Sku''),
      (''productReference'', JStr (nc_productReference c)),
      (''productVersionReference'', JStr (nc_productVersionReference c)), (''skuReference'', JStr (nc_skuReference c)),
      (''menuVersionReference'', JStr (nc_menuVersionReference c)),
      (''localizedNames'', names_js (nc_localizedNames c)), (''unitOfSale'', JStr (nc_unitOfSale c)),
      (''unitQuantity'', JStr (nc_unitQuantity c)),
      (''taxClassificationReference'', JStr (nc_taxClassificationReference c)),
      (''options'', JArr (map snapshot_option_js (nc_options c))), (''capturedAt'', JStr (nc_capturedAt c))]"

definition price_order_type_js :: "cart_order_type option \<Rightarrow> js" where
  "price_order_type_js t = js_opt (\<lambda>x. JStr (order_type_name x)) t"

definition snapshot_price_js :: "snapshot_price \<Rightarrow> js" where
  "snapshot_price_js p = JObj
     [(''priceBookReference'', JStr (nr_priceBookReference p)),
      (''priceBookVersionReference'', JStr (nr_priceBookVersionReference p)),
      (''priceBookDigest'', JStr (nr_priceBookDigest p)), (''priceEntryReference'', JStr (nr_priceEntryReference p)),
      (''unitPrice'', snapshot_money_js (nr_unitPrice p)), (''scopeKind'', nr_scopeKind p),
      (''scopeReference'', js_opt JStr (nr_scopeReference p)), (''channelCode'', js_opt JStr (nr_channelCode p)),
      (''orderType'', price_order_type_js (nr_orderType p)), (''priority'', JNum (nr_priority p)),
      (''effectiveFrom'', JStr (nr_effectiveFrom p)), (''effectiveUntil'', js_opt JStr (nr_effectiveUntil p)),
      (''reasonCode'', JStr (nr_reasonCode p))]"

definition snapshot_tax_js :: "snapshot_tax \<Rightarrow> js" where
  "snapshot_tax_js c = JObj
     [(''ruleVersionReference'', JStr (nt_ruleVersionReference c)), (''ruleVersionDigest'', JStr (nt_ruleVersionDigest c)),
      (''jurisdictionCode'', JStr (nt_jurisdictionCode c)), (''taxComponentCode'', JStr (nt_taxComponentCode c)),
      (''taxClassificationReference'', JStr (nt_taxClassificationReference c)), (''treatment'', nt_treatment c),
      (''rate'', JStr (nt_rate c)), (''priceInclusion'', nt_priceInclusion c), (''roundingMode'', nt_roundingMode c),
      (''calculationOrder'', JNum (nt_calculationOrder c)), (''compoundOnPriorTax'', JBool (nt_compoundOnPriorTax c)),
      (''taxAmount'', snapshot_money_js (nt_taxAmount c))]"

definition snapshot_pricing_js :: "snapshot_pricing \<Rightarrow> js" where
  "snapshot_pricing_js p = JObj
     [(''quoteReference'', JStr (np_quoteReference p)), (''quoteVersion'', JNum 1),
      (''quoteInputDigest'', JStr (np_quoteInputDigest p)), (''lineReference'', JStr (np_lineReference p)),
      (''sellableReference'', JStr (np_sellableReference p)), (''quantity'', JNum (np_quantity p)),
      (''currencyMinorUnitExponent'', JNum (np_currencyMinorUnitExponent p)),
      (''currencyMetadataVersion'', JNum (np_currencyMetadataVersion p)),
      (''currencyMetadataVersionReference'', JStr (np_currencyMetadataVersionReference p)),
      (''currencyMetadataDigest'', JStr (np_currencyMetadataDigest p)),
      (''unitPrice'', snapshot_money_js (np_unitPrice p)), (''subtotal'', snapshot_money_js (np_subtotal p)),
      (''discount'', snapshot_money_js (np_discount p)), (''tax'', snapshot_money_js (np_tax p)),
      (''fee'', snapshot_money_js (np_fee p)), (''total'', snapshot_money_js (np_total p)),
      (''priceResolution'', snapshot_price_js (np_priceResolution p)),
      (''taxConfigurationReference'', JStr (np_taxConfigurationReference p)),
      (''taxConfigurationVersionReference'', JStr (np_taxConfigurationVersionReference p)),
      (''taxConfigurationDigest'', JStr (np_taxConfigurationDigest p)),
      (''taxEffectiveFrom'', JStr (np_taxEffectiveFrom p)), (''taxEffectiveUntil'', js_opt JStr (np_taxEffectiveUntil p)),
      (''taxComponents'', JArr (map snapshot_tax_js (np_taxComponents p))), (''quotedAt'', JStr (np_quotedAt p))]"

definition item_snapshot_js :: "item_snapshot \<Rightarrow> js" where
  "item_snapshot_js s = JObj
     [(''orderItemReference'', JStr (ns_orderItemReference s)), (''orderBatchReference'', JStr (ns_orderBatchReference s)),
      (''cartItemReference'', JStr (ns_cartItemReference s)), (''quantity'', JNum (ns_quantity s)),
      (''customerNote'', js_opt JStr (ns_customerNote s)), (''addedByActorReference'', JStr (ns_addedByActorReference s)),
      (''addedByParticipantReference'', js_opt JStr (ns_addedByParticipantReference s)),
      (''addedAt'', JStr (ns_addedAt s)), (''catalog'', snapshot_catalog_js (ns_catalog s)),
      (''pricing'', snapshot_pricing_js (ns_pricing s)), (''snapshotCapturedAt'', JStr (ns_snapshotCapturedAt s))]"

section \<open>Parsers as codecs\<close>

lemma snapshot_guard_Inr [res_simps]: "snapshot_guard m = Inr x \<longleftrightarrow> m = Inr x"
  by (cases m) (simp_all add: snapshot_guard_def)

lemma snapshot_closed_Inr [res_simps]: "snapshot_closed v ks = Inr u \<longleftrightarrow> has_shape v ks"
  by (simp add: snapshot_closed_def throw_if_eq_Inr)

lemma snapshot_parse_Inr [res_simps]:
  "snapshot_nonnegative v = Inr n \<longleftrightarrow> v = JNum n \<and> 0 \<le> n \<and> n \<le> max_safe"
  "snapshot_code v = Inr s \<longleftrightarrow> v = JStr s \<and> code_format ''_-'' s"
  "optionalInstant v = Inr t \<longleftrightarrow> nullable parseOrderingInstant v = Inr t"
  by (auto simp: snapshot_nonnegative_def snapshot_code_def optionalInstant_def catching_throw_Inr or_throw_Inr
      safe_int_in_Some str_if_Some max_safe_def)

lemma snapshot_positive_Inr [res_simps]:
  "m \<le> max_safe \<Longrightarrow> snapshot_positive m v = Inr n \<longleftrightarrow> v = JNum n \<and> 1 \<le> n \<and> n \<le> m"
  by (auto simp: snapshot_positive_def or_throw_Inr safe_int_in_Some max_safe_def)

lemma small_max_safe [simp]: "999 \<le> max_safe"
  by (simp add: max_safe_def)

definition valid_name :: "string \<times> string \<Rightarrow> bool" where
  "valid_name p \<longleftrightarrow> locale_format (fst p) \<and> js_trim (snd p) = snd p \<and> 1 \<le> length (snd p) \<and> length (snd p) \<le> 200"

definition valid_names :: "(string \<times> string) list \<Rightarrow> bool" where
  "valid_names ns \<longleftrightarrow> distinct (map fst ns) \<and> 1 \<le> length ns \<and> length ns \<le> 20 \<and> list_all valid_name ns"

lemma snapshot_name_Inr: "snapshot_name p = Inr q \<Longrightarrow> valid_name q \<and> fst q = fst p"
  by (auto simp: snapshot_name_def valid_name_def bnd_eq_Inr throw_if_eq_Inr or_throw_Inr Suc_le_eq)

lemma snapshot_name_printed: "valid_name (k, t) \<Longrightarrow> snapshot_name (k, JStr t) = Inr (k, t)"
  by (auto simp: snapshot_name_def valid_name_def throw_if_def)

lemma snapshot_name_list: "map_res snapshot_name ps = Inr ns \<Longrightarrow> list_all valid_name ns \<and> map fst ns = map fst ps"
  by (induction ps arbitrary: ns) (auto simp: bnd_eq_Inr dest: snapshot_name_Inr)

interpretation names: codec snapshot_names names_js valid_names
proof unfold_locales
  show "valid_names ns" if "snapshot_names v = Inr ns" for v ns
    using that by (cases v) (auto simp: snapshot_names_def valid_names_def bnd_eq_Inr throw_if_eq_Inr Suc_le_eq
        dest: snapshot_name_list map_res_length)
  have "map_res snapshot_name (map (\<lambda>(k, t). (k, JStr t)) ns) = Inr ns" if "list_all valid_name ns" for ns
    using that by (induction ns) (auto simp: snapshot_name_printed)
  then show "snapshot_names (names_js ns) = Inr ns" if "valid_names ns" for ns
    using that by (auto simp: snapshot_names_def names_js_def valid_names_def throw_if_def comp_def split_def)
qed (simp add: names_js_def)

definition valid_snapshot_money :: "string option \<Rightarrow> snapshot_money \<Rightarrow> bool" where
  "valid_snapshot_money cur m \<longleftrightarrow> int64_min \<le> nm_amountMinor m \<and> nm_amountMinor m \<le> int64_max \<and>
     currency_format (nm_currencyCode m) \<and> (cur = None \<or> cur = Some (nm_currencyCode m))"

interpretation snapshot_money: codec "snapshot_money_of cur" snapshot_money_js "valid_snapshot_money cur"
  by unfold_locales (auto simp: snapshot_money_of_def snapshot_money_js_def valid_snapshot_money_def bnd_eq_Inr
      snapshot_closed_Inr throw_if_eq_Inr or_throw_Inr bigint_in_Some str_if_Some)

definition valid_snapshot_option :: "snapshot_option \<Rightarrow> bool" where
  "valid_snapshot_option p \<longleftrightarrow> uuid_v7 (no_optionReference p) \<and> 1 \<le> no_quantity p \<and> no_quantity p \<le> 999 \<and>
     uuid_v7 (no_bindingReference p) \<and> uuid_v7 (no_optionSetVersionReference p) \<and> valid_names (no_localizedNames p)"

lemmas snapshot_Inr = snapshot_guard_Inr snapshot_closed_Inr snapshot_parse_Inr snapshot_positive_Inr small_max_safe
  throw_if_eq_Inr or_throw_Inr catching_throw_Inr ordering_parse_Inr str_if_Some safe_int_in_Some

interpretation snapshot_option: codec snapshot_option_of snapshot_option_js valid_snapshot_option
  by unfold_locales (auto simp: snapshot_option_of_def snapshot_option_js_def valid_snapshot_option_def bnd_eq_Inr
      snapshot_Inr names.parse_valid names.parse_print)

definition valid_catalog :: "snapshot_catalog \<Rightarrow> bool" where
  "valid_catalog c \<longleftrightarrow>
     list_all uuid_v7 [nc_snapshotReference c, nc_brandReference c, nc_storeReference c, nc_sellableReference c,
       nc_productReference c, nc_productVersionReference c, nc_skuReference c, nc_menuVersionReference c,
       nc_taxClassificationReference c] \<and>
     sha256_digest (nc_snapshotDigest c) \<and> valid_names (nc_localizedNames c) \<and> code_format ''_-'' (nc_unitOfSale c) \<and>
     unit_quantity_format (nc_unitQuantity c) \<and> length (nc_options c) \<le> 100 \<and>
     list_all valid_snapshot_option (nc_options c) \<and> distinct (map no_optionReference (nc_options c)) \<and>
     canonical_instant (nc_capturedAt c)"

interpretation snapshot_catalog: codec snapshot_catalog_of snapshot_catalog_js valid_catalog
proof unfold_locales
  show "valid_catalog c" if "snapshot_catalog_of v = Inr c" for v c
    using that unfolding snapshot_catalog_of_def bnd_eq_Inr snapshot_guard_Inr
    by (elim exE conjE) (drule Inr_inject, hypsubst,
      auto simp: valid_catalog_def snapshot_Inr snapshot_option.list_valid names.parse_valid dest: map_res_length)
  show "snapshot_catalog_of (snapshot_catalog_js c) = Inr c" if "valid_catalog c" for c
    using that by (simp add: snapshot_catalog_of_def snapshot_catalog_js_def valid_catalog_def bnd_eq_Inr snapshot_Inr
        snapshot_option.list_parse_print names.parse_print)
qed (simp add: snapshot_catalog_js_def)

definition valid_price :: "string \<Rightarrow> snapshot_price \<Rightarrow> bool" where
  "valid_price cur p \<longleftrightarrow>
     list_all uuid_v7 [nr_priceBookReference p, nr_priceBookVersionReference p, nr_priceEntryReference p] \<and>
     sha256_digest (nr_priceBookDigest p) \<and> valid_snapshot_money (Some cur) (nr_unitPrice p) \<and>
     named_in [''Brand'', ''Region'', ''StoreGroup'', ''Store''] (nr_scopeKind p) \<and>
     (nr_scopeKind p = JStr ''Brand'') = (nr_scopeReference p = None) \<and> pred_option uuid_v7 (nr_scopeReference p) \<and>
     pred_option (code_format ''_-'') (nr_channelCode p) \<and> 0 \<le> nr_priority p \<and> nr_priority p \<le> max_safe \<and>
     canonical_instant (nr_effectiveFrom p) \<and> pred_option canonical_instant (nr_effectiveUntil p) \<and>
     (nr_effectiveUntil p \<noteq> None \<longrightarrow> ms_of (nr_effectiveFrom p) < ms_of (the (nr_effectiveUntil p))) \<and>
     code_format ''_-'' (nr_reasonCode p)"

lemma price_order_type_printed [simp]:
  "map_of snapshot_price_order_types (price_order_type_js t) = Some t"
  by (cases t) (auto simp: snapshot_price_order_types_def price_order_type_js_def order_type_name_def split: cart_order_type.splits)

lemma channel_printed: "pred_option (code_format ''_-'') c \<Longrightarrow> str_if (code_format ''_-'') (js_opt JStr c) = c"
  by (cases c) simp_all

lemma str_if_kept: "pred_option P (str_if P v)"
  by (cases v) simp_all

lemma snapshot_price_good:
  assumes "\<not> snapshot_price_bad v" and "nullable parseOrderingReference (fld v ''scopeReference'') = Inr s"
  shows "named_in [''Brand'', ''Region'', ''StoreGroup'', ''Store''] (fld v ''scopeKind'')"
    and "(fld v ''scopeKind'' = JStr ''Brand'') = (s = None)"
    and "pred_option (code_format ''_-'') (str_if (code_format ''_-'') (fld v ''channelCode''))"
  using assms by (auto simp: snapshot_price_bad_def nullable_Inr str_if_kept)

interpretation snapshot_price: codec "snapshot_price_of cur" snapshot_price_js "valid_price cur"
proof unfold_locales
  show "valid_price cur p" if "snapshot_price_of cur v = Inr p" for v p
    using that unfolding snapshot_price_of_def bnd_eq_Inr catching_throw_Inr
    by (elim exE conjE) (drule Inr_inject, hypsubst,
      auto simp: valid_price_def snapshot_Inr snapshot_money.parse_valid ref.nullable_valid inst.nullable_valid
        snapshot_price_good)
  show "snapshot_price_of cur (snapshot_price_js p) = Inr p" if "valid_price cur p" for p
  proof -
    have "(nr_scopeKind p = JStr ''Brand'') = (js_opt JStr (nr_scopeReference p) = JNull)"
      using that by (simp add: valid_price_def js_opt_JNull)
    moreover have "js_opt JStr (nr_channelCode p) = JNull \<or> str_if (code_format ''_-'') (js_opt JStr (nr_channelCode p)) \<noteq> None"
      using that by (cases "nr_channelCode p") (simp_all add: valid_price_def)
    ultimately show ?thesis
      using that by (simp add: snapshot_price_of_def snapshot_price_js_def valid_price_def bnd_eq_Inr snapshot_price_bad_def
          snapshot_Inr catching_throw_Inr snapshot_money.parse_print ref.nullable_parse_print inst.nullable_parse_print
          channel_printed) (cases "nr_channelCode p"; cases "nr_effectiveUntil p"; simp)
  qed
qed (simp add: snapshot_price_js_def)

definition valid_tax :: "string \<Rightarrow> snapshot_tax \<Rightarrow> bool" where
  "valid_tax cur c \<longleftrightarrow> uuid_v7 (nt_ruleVersionReference c) \<and> sha256_digest (nt_ruleVersionDigest c) \<and>
     code_format ''_-'' (nt_jurisdictionCode c) \<and> code_format ''_-'' (nt_taxComponentCode c) \<and>
     uuid_v7 (nt_taxClassificationReference c) \<and> named_in [''Taxable'', ''Exempt'', ''ZeroRated''] (nt_treatment c) \<and>
     canonical_rate (nt_rate c) \<and> named_in [''Exclusive'', ''Inclusive''] (nt_priceInclusion c) \<and>
     named_in [''HalfUp'', ''HalfEven'', ''TowardZero'', ''AwayFromZero''] (nt_roundingMode c) \<and>
     0 \<le> nt_calculationOrder c \<and> nt_calculationOrder c \<le> max_safe \<and> valid_snapshot_money (Some cur) (nt_taxAmount c) \<and>
     0 \<le> nm_amountMinor (nt_taxAmount c) \<and>
     (nt_treatment c \<noteq> JStr ''Taxable'' \<longrightarrow> nt_rate c = ''0'' \<and> nm_amountMinor (nt_taxAmount c) = 0)"

lemma js_bool_boolean: "js_bool v = Some b \<longleftrightarrow> v = JBool b"
  by (cases v) simp_all

interpretation snapshot_tax: codec "snapshot_tax_of cur" snapshot_tax_js "valid_tax cur"
proof unfold_locales
  show "valid_tax cur c" if "snapshot_tax_of cur v = Inr c" for v c
    using that unfolding snapshot_tax_of_def bnd_eq_Inr snapshot_guard_Inr
    by (elim exE conjE) (drule Inr_inject, hypsubst,
      auto simp: valid_tax_def snapshot_Inr snapshot_tax_bad_def snapshot_money.parse_valid)
  show "snapshot_tax_of cur (snapshot_tax_js c) = Inr c" if "valid_tax cur c" for c
    using that by (auto simp: snapshot_tax_of_def snapshot_tax_js_def valid_tax_def bnd_eq_Inr snapshot_tax_bad_def
        snapshot_Inr js_bool_boolean snapshot_money.parse_print)
qed (simp add: snapshot_tax_js_def)

definition valid_pricing :: "snapshot_pricing \<Rightarrow> bool" where
  "valid_pricing p \<longleftrightarrow>
     list_all uuid_v7 [np_quoteReference p, np_lineReference p, np_sellableReference p,
       np_currencyMetadataVersionReference p, np_taxConfigurationReference p, np_taxConfigurationVersionReference p] \<and>
     list_all sha256_digest [np_quoteInputDigest p, np_currencyMetadataDigest p, np_taxConfigurationDigest p] \<and>
     1 \<le> np_quantity p \<and> np_quantity p \<le> 999 \<and>
     0 \<le> np_currencyMinorUnitExponent p \<and> np_currencyMinorUnitExponent p \<le> 6 \<and>
     1 \<le> np_currencyMetadataVersion p \<and> np_currencyMetadataVersion p \<le> max_safe \<and>
     list_all (valid_snapshot_money (Some (nm_currencyCode (np_unitPrice p))))
       [np_unitPrice p, np_subtotal p, np_discount p, np_tax p, np_fee p, np_total p] \<and>
     valid_price (nm_currencyCode (np_unitPrice p)) (np_priceResolution p) \<and>
     canonical_instant (np_taxEffectiveFrom p) \<and> pred_option canonical_instant (np_taxEffectiveUntil p) \<and>
     length (np_taxComponents p) \<le> 20 \<and>
     list_all (valid_tax (nm_currencyCode (np_unitPrice p))) (np_taxComponents p) \<and> canonical_instant (np_quotedAt p) \<and>
     \<not> pricing_amounts_bad (np_unitPrice p) (np_subtotal p) (np_discount p) (np_tax p) (np_fee p) (np_total p)
         (np_priceResolution p) (np_taxComponents p) \<and>
     \<not> pricing_times_bad (np_priceResolution p) (np_quotedAt p) (np_taxEffectiveFrom p) (np_taxEffectiveUntil p)"

lemma any_currency: "valid_snapshot_money None m \<Longrightarrow> valid_snapshot_money (Some (nm_currencyCode m)) m"
  "valid_snapshot_money (Some cur) m \<Longrightarrow> valid_snapshot_money None m"
  by (simp_all add: valid_snapshot_money_def)

interpretation snapshot_pricing: codec snapshot_pricing_of snapshot_pricing_js valid_pricing
proof unfold_locales
  show "valid_pricing p" if "snapshot_pricing_of v = Inr p" for v p
    using that unfolding snapshot_pricing_of_def bnd_eq_Inr snapshot_guard_Inr Let_def
    by (elim exE conjE) (drule Inr_inject, hypsubst,
      auto simp: valid_pricing_def snapshot_Inr snapshot_money.parse_valid snapshot_price.parse_valid
        snapshot_tax.list_valid inst.nullable_valid any_currency dest: map_res_length)
  show "snapshot_pricing_of (snapshot_pricing_js p) = Inr p" if v: "valid_pricing p" for p
  proof -
    have "valid_snapshot_money (Some (nm_currencyCode (np_unitPrice p))) (np_unitPrice p)"
      using v by (simp add: valid_pricing_def)
    then have "snapshot_money_of None (snapshot_money_js (np_unitPrice p)) = Inr (np_unitPrice p)"
      by (rule snapshot_money.parse_print [OF any_currency(2)])
    with v show ?thesis
      by (simp add: snapshot_pricing_of_def snapshot_pricing_js_def valid_pricing_def bnd_eq_Inr snapshot_Inr
        Let_def snapshot_money.parse_print snapshot_price.parse_print snapshot_tax.list_parse_print
        inst.nullable_parse_print max_safe_def)
  qed
qed (simp add: snapshot_pricing_js_def)

definition valid_snapshot :: "item_snapshot \<Rightarrow> bool" where
  "valid_snapshot s \<longleftrightarrow>
     list_all uuid_v7 [ns_orderItemReference s, ns_orderBatchReference s, ns_cartItemReference s, ns_addedByActorReference s] \<and>
     1 \<le> ns_quantity s \<and> ns_quantity s \<le> 999 \<and> pred_option valid_note (ns_customerNote s) \<and>
     pred_option uuid_v7 (ns_addedByParticipantReference s) \<and> canonical_instant (ns_addedAt s) \<and>
     valid_catalog (ns_catalog s) \<and> valid_pricing (ns_pricing s) \<and> canonical_instant (ns_snapshotCapturedAt s) \<and>
     \<not> line_inconsistent s"

interpretation item_snapshot: codec parseOrderItemTransactionSnapshot item_snapshot_js valid_snapshot
proof unfold_locales
  show "valid_snapshot s" if "parseOrderItemTransactionSnapshot v = Inr s" for v s
    using that unfolding parseOrderItemTransactionSnapshot_def snapshot_line_of_def bnd_eq_Inr snapshot_guard_Inr
      parseCustomerNote_def
    by (elim exE conjE) (drule Inr_inject, drule Inr_inject, hypsubst,
      auto simp: valid_snapshot_def snapshot_Inr customer_note.nullable_valid ref.nullable_valid
        snapshot_catalog.parse_valid snapshot_pricing.parse_valid)
  show "parseOrderItemTransactionSnapshot (item_snapshot_js s) = Inr s" if "valid_snapshot s" for s
    using that by (cases s) (simp add: parseOrderItemTransactionSnapshot_def snapshot_line_of_def item_snapshot_js_def
        valid_snapshot_def bnd_eq_Inr snapshot_Inr parseCustomerNote_def customer_note.nullable_parse_print
        ref.nullable_parse_print snapshot_catalog.parse_print snapshot_pricing.parse_print)
qed (simp add: item_snapshot_js_def)

section \<open>The snapshots of an order\<close>

definition snapshot_evidence :: "js \<Rightarrow> checkout_evidence res" where
  "snapshot_evidence v = catching (parseCheckoutValidationEvidence v) (\<lambda>_. Inl snapshot_invalid)"

definition snapshot_cart :: "js \<Rightarrow> cart_aggregate res" where
  "snapshot_cart v = catching (parseCartAggregate v) (\<lambda>_. Inl snapshot_invalid)"

text \<open>The condition on the cart, the evidence and the moment the snapshots are taken at.\<close>

definition snapshot_source_bad :: "checkout_evidence \<Rightarrow> cart_aggregate \<Rightarrow> string \<Rightarrow> string \<Rightarrow> string \<Rightarrow> bool" where
  "snapshot_source_bad e c oref batch at \<longleftrightarrow>
     ms_of at < ms_of (ck_validatedAt e) \<or> ca_cartReference c \<noteq> ck_cartReference e \<or>
     ca_brandReference c \<noteq> ck_brandReference e \<or> ca_storeReference c \<noteq> ck_storeReference e \<or>
     ca_aggregateVersion c \<noteq> ck_cartVersion e \<or> ca_orderType c \<noteq> ck_orderType e \<or>
     ca_sourceChannel c \<noteq> ck_sourceChannel e \<or>
     (case ca_lifecycle c of None \<Rightarrow> True | Some l \<Rightarrow> cl_status l \<noteq> JStr ''Active'') \<or>
     length (ca_items c) \<noteq> length (ck_catalogLines e) \<or> oref = batch"

definition option_unselected :: "cart_item \<Rightarrow> cart_selection_rule_evidence list \<Rightarrow> snapshot_option \<Rightarrow> bool" where
  "option_unselected i rules p \<longleftrightarrow>
     (case find (\<lambda>s. co_optionReference s = no_optionReference p) (ci_optionSelections i) of
        None \<Rightarrow> True | Some s \<Rightarrow> co_quantity s \<noteq> no_quantity p) \<or>
     \<not> list_ex (\<lambda>r. ce_bindingReference r = no_bindingReference p \<and>
                     ce_optionSetVersionReference r = no_optionSetVersionReference p) rules"

definition catalog_disagrees ::
  "checkout_evidence \<Rightarrow> cart_item \<Rightarrow> catalog_selection_evidence \<Rightarrow> checkout_line \<Rightarrow> string \<Rightarrow> snapshot_catalog \<Rightarrow> bool" where
  "catalog_disagrees e i selection l at s \<longleftrightarrow>
     nc_brandReference s \<noteq> ck_brandReference e \<or> nc_storeReference s \<noteq> ck_storeReference e \<or>
     nc_sellableReference s \<noteq> ci_sellableReference i \<or> nc_sellableReference s \<noteq> kl_sellableReference l \<or>
     nc_productVersionReference s \<noteq> kl_productVersionReference l \<or>
     nc_menuVersionReference s \<noteq> kl_menuVersionReference l \<or> nc_capturedAt s \<noteq> at \<or>
     length (nc_options s) \<noteq> length (ci_optionSelections i) \<or>
     list_ex (option_unselected i (cs_ruleEvidence selection)) (nc_options s)"

definition pricing_disagrees ::
  "checkout_evidence \<Rightarrow> cart_aggregate \<Rightarrow> cart_item \<Rightarrow> catalog_selection_evidence \<Rightarrow> snapshot_catalog \<Rightarrow>
   snapshot_pricing \<Rightarrow> bool" where
  "pricing_disagrees e c i selection s p \<longleftrightarrow>
     np_quoteReference p \<noteq> ck_quoteReference e \<or> np_quoteInputDigest p \<noteq> ck_quoteInputDigest e \<or>
     np_lineReference p \<noteq> ci_cartItemReference i \<or> np_sellableReference p \<noteq> ci_sellableReference i \<or>
     np_quantity p \<noteq> ci_quantity i \<or>
     (nr_channelCode (np_priceResolution p) \<noteq> None \<and>
        nr_channelCode (np_priceResolution p) \<noteq> Some (cs_catalogChannelCode selection)) \<or>
     (nr_orderType (np_priceResolution p) \<noteq> None \<and> nr_orderType (np_priceResolution p) \<noteq> Some (ck_orderType e)) \<or>
     ms_of (np_quotedAt p) < ms_of (ca_updatedAt c) \<or> ms_of (np_quotedAt p) > ms_of (ck_validatedAt e) \<or>
     list_ex (\<lambda>x. nt_taxClassificationReference x \<noteq> nc_taxClassificationReference s) (np_taxComponents p)"

definition order_line_snapshot ::
  "checkout_evidence \<Rightarrow> cart_aggregate \<Rightarrow> string \<Rightarrow> string \<Rightarrow> js \<Rightarrow> item_snapshot res" where
  "order_line_snapshot e c batch at v =
     bnd (parseOrderingReference (fld v ''orderItemReference'')) (\<lambda>orderItem.
     bnd (parseOrderingReference (fld v ''cartItemReference'')) (\<lambda>cartItem.
     bnd (or_throw (find (\<lambda>i. ci_cartItemReference i = cartItem) (ca_items c)) snapshot_invalid) (\<lambda>i.
     bnd (or_throw (find (\<lambda>l. kl_cartItemReference l = cartItem) (ck_catalogLines e)) snapshot_invalid) (\<lambda>l.
     bnd (snapshot_catalog_of (fld v ''catalog'')) (\<lambda>s.
     bnd (snapshot_pricing_of (fld v ''pricing'')) (\<lambda>p.
     bnd (or_throw (ci_catalogSelectionEvidence i) snapshot_invalid) (\<lambda>selection.
     bnd (throw_if (catalog_disagrees e i selection l at s \<or> pricing_disagrees e c i selection s p) snapshot_invalid) (\<lambda>_.
     parseOrderItemTransactionSnapshot (item_snapshot_js
       \<lparr>ns_orderItemReference = orderItem, ns_orderBatchReference = batch, ns_cartItemReference = cartItem,
        ns_quantity = ci_quantity i, ns_customerNote = ci_customerNote i,
        ns_addedByActorReference = ci_addedByActorReference i,
        ns_addedByParticipantReference = ci_addedByParticipantReference i, ns_addedAt = ci_addedAt i,
        ns_catalog = s, ns_pricing = p, ns_snapshotCapturedAt = at\<rparr>)))))))))"

definition snapshots_bad :: "cart_aggregate \<Rightarrow> string \<Rightarrow> string \<Rightarrow> item_snapshot list \<Rightarrow> bool" where
  "snapshots_bad c oref batch xs \<longleftrightarrow>
     length xs \<noteq> length (ca_items c) \<or> \<not> distinct (map ns_orderItemReference xs) \<or>
     \<not> distinct (map ns_cartItemReference xs) \<or>
     list_ex (\<lambda>s. ns_orderItemReference s = oref \<or> ns_orderItemReference s = batch) xs"

definition createOrderItemSnapshots :: "js \<Rightarrow> item_snapshot list res" where
  "createOrderItemSnapshots v =
     bnd (snapshot_closed v [''orderReference'', ''orderBatchReference'', ''snapshotCapturedAt'',
            ''checkoutValidationEvidence'', ''cart'', ''lines'']) (\<lambda>_.
     bnd (throw_if (\<not> is_array (fld v ''lines'') \<or> length (elements (fld v ''lines'')) < 1 \<or>
                    100 < length (elements (fld v ''lines''))) snapshot_invalid) (\<lambda>_.
     snapshot_guard
       (bnd (parseOrderingReference (fld v ''orderReference'')) (\<lambda>oref.
        bnd (parseOrderingReference (fld v ''orderBatchReference'')) (\<lambda>batch.
        bnd (parseOrderingInstant (fld v ''snapshotCapturedAt'')) (\<lambda>at.
        bnd (snapshot_evidence (fld v ''checkoutValidationEvidence'')) (\<lambda>e.
        bnd (snapshot_cart (fld v ''cart'')) (\<lambda>c.
        bnd (throw_if (ms_of (ck_validUntil e) \<le> ms_of at)
               (OrderItemSnapshotError ORDER_ITEM_SNAPSHOT_VALIDATION_EXPIRED)) (\<lambda>_.
        bnd (throw_if (snapshot_source_bad e c oref batch at) snapshot_invalid) (\<lambda>_.
        bnd (map_res (\<lambda>l. snapshot_closed l [''orderItemReference'', ''cartItemReference'', ''catalog'', ''pricing''])
               (elements (fld v ''lines''))) (\<lambda>_.
        bnd (map_res (order_line_snapshot e c batch at) (elements (fld v ''lines''))) (\<lambda>xs.
        bnd (throw_if (snapshots_bad c oref batch xs) snapshot_invalid) (\<lambda>_.
        Inr xs)))))))))))))"

section \<open>What a snapshot list holds\<close>

lemma find_SomeD: "find P xs = Some x \<Longrightarrow> x \<in> set xs \<and> P x"
  by (induction xs) (auto split: if_splits)

lemma same_references:
  assumes "length xs = length ys" and "distinct (map f xs)" and "distinct (map g ys)"
    and "\<And>x. x \<in> set xs \<Longrightarrow> f x \<in> g ` set ys"
  shows "mset (map f xs) = mset (map g ys)"
proof -
  have "f ` set xs = g ` set ys"
  proof (rule card_subset_eq)
    show "f ` set xs \<subseteq> g ` set ys" using assms(4) by auto
    show "card (f ` set xs) = card (g ` set ys)"
      using assms(1) distinct_card [OF assms(2)] distinct_card [OF assms(3)] by simp
  qed simp
  then have "set (map f xs) = set (map g ys)" by simp
  then show ?thesis using set_eq_iff_mset_eq_distinct [OF assms(2,3)] by blast
qed

lemma snapshot_reparsed:
  assumes "valid_catalog (ns_catalog s)" "valid_pricing (ns_pricing s)" "pred_option valid_note (ns_customerNote s)"
    and "parseOrderItemTransactionSnapshot (item_snapshot_js s) = Inr s'"
  shows "s' = s"
proof -
  have opt: "x = y" if "nullable parseOrderingReference (js_opt JStr y) = Inr x" for x y
    using that by (cases y) (auto simp: nullable_Inr ordering_parse_Inr)
  show ?thesis
    using assms unfolding parseOrderItemTransactionSnapshot_def snapshot_line_of_def bnd_eq_Inr snapshot_guard_Inr
      parseCustomerNote_def
    by (elim exE conjE) (drule Inr_inject, drule Inr_inject, hypsubst, cases s,
      simp add: item_snapshot_js_def snapshot_Inr customer_note.nullable_parse_print opt
        snapshot_catalog.parse_print snapshot_pricing.parse_print)
qed

lemma order_line_snapshot_Inr:
  assumes "order_line_snapshot e c batch at v = Inr s" and c: "valid_cart c"
  obtains i l selection where "i \<in> set (ca_items c)" "l \<in> set (ck_catalogLines e)"
    "ci_catalogSelectionEvidence i = Some selection" "kl_cartItemReference l = ci_cartItemReference i"
    "s = \<lparr>ns_orderItemReference = ns_orderItemReference s, ns_orderBatchReference = batch,
          ns_cartItemReference = ci_cartItemReference i, ns_quantity = ci_quantity i,
          ns_customerNote = ci_customerNote i, ns_addedByActorReference = ci_addedByActorReference i,
          ns_addedByParticipantReference = ci_addedByParticipantReference i, ns_addedAt = ci_addedAt i,
          ns_catalog = ns_catalog s, ns_pricing = ns_pricing s, ns_snapshotCapturedAt = at\<rparr>"
    "fld v ''orderItemReference'' = JStr (ns_orderItemReference s)"
    "valid_snapshot s" "\<not> catalog_disagrees e i selection l at (ns_catalog s)"
    "\<not> pricing_disagrees e c i selection (ns_catalog s) (ns_pricing s)"
proof -
  from assms(1) obtain orderItem cartItem i l selection and g :: snapshot_catalog and p :: snapshot_pricing
    where o: "fld v ''orderItemReference'' = JStr orderItem"
      and i: "find (\<lambda>i. ci_cartItemReference i = cartItem) (ca_items c) = Some i"
      and l: "find (\<lambda>l. kl_cartItemReference l = cartItem) (ck_catalogLines e) = Some l"
      and g: "snapshot_catalog_of (fld v ''catalog'') = Inr g" and p: "snapshot_pricing_of (fld v ''pricing'') = Inr p"
      and selection: "ci_catalogSelectionEvidence i = Some selection"
      and ok: "\<not> (catalog_disagrees e i selection l at g \<or> pricing_disagrees e c i selection g p)"
      and r: "parseOrderItemTransactionSnapshot (item_snapshot_js
         \<lparr>ns_orderItemReference = orderItem, ns_orderBatchReference = batch, ns_cartItemReference = cartItem,
          ns_quantity = ci_quantity i, ns_customerNote = ci_customerNote i,
          ns_addedByActorReference = ci_addedByActorReference i,
          ns_addedByParticipantReference = ci_addedByParticipantReference i, ns_addedAt = ci_addedAt i,
          ns_catalog = g, ns_pricing = p, ns_snapshotCapturedAt = at\<rparr>) = Inr s"
    unfolding order_line_snapshot_def bnd_eq_Inr or_throw_Inr throw_if_eq_Inr ordering_parse_Inr by blast
  have i': "i \<in> set (ca_items c)" "ci_cartItemReference i = cartItem" using find_SomeD [OF i] by simp_all
  have l': "l \<in> set (ck_catalogLines e)" "kl_cartItemReference l = cartItem" using find_SomeD [OF l] by simp_all
  have n: "pred_option valid_note (ci_customerNote i)"
    using c i'(1) by (auto simp: valid_cart_def valid_item_def list_all_iff)
  have s: "s = \<lparr>ns_orderItemReference = orderItem, ns_orderBatchReference = batch, ns_cartItemReference = cartItem,
          ns_quantity = ci_quantity i, ns_customerNote = ci_customerNote i,
          ns_addedByActorReference = ci_addedByActorReference i,
          ns_addedByParticipantReference = ci_addedByParticipantReference i, ns_addedAt = ci_addedAt i,
          ns_catalog = g, ns_pricing = p, ns_snapshotCapturedAt = at\<rparr>"
    by (rule snapshot_reparsed [OF _ _ _ r]) (simp_all add: snapshot_catalog.parse_valid [OF g] snapshot_pricing.parse_valid [OF p] n)
  show ?thesis
    by (rule that [OF i'(1) l'(1) selection]) (use i' l' s o ok item_snapshot.parse_valid [OF r] in simp_all)
qed

lemma createOrderItemSnapshots_Inr:
  assumes "createOrderItemSnapshots v = Inr xs"
  obtains oref batch at e c where "fld v ''orderReference'' = JStr oref" "uuid_v7 oref"
    "fld v ''orderBatchReference'' = JStr batch" "uuid_v7 batch"
    "fld v ''snapshotCapturedAt'' = JStr at" "canonical_instant at"
    "parseCheckoutValidationEvidence (fld v ''checkoutValidationEvidence'') = Inr e"
    "parseCartAggregate (fld v ''cart'') = Inr c" "ms_of at < ms_of (ck_validUntil e)"
    "\<not> snapshot_source_bad e c oref batch at"
    "map_res (order_line_snapshot e c batch at) (elements (fld v ''lines'')) = Inr xs"
    "\<not> snapshots_bad c oref batch xs" "1 \<le> length xs" "length xs \<le> 100"
proof -
  from assms obtain oref batch at e c where
    f: "fld v ''orderReference'' = JStr oref \<and> uuid_v7 oref" "fld v ''orderBatchReference'' = JStr batch \<and> uuid_v7 batch"
    "fld v ''snapshotCapturedAt'' = JStr at \<and> canonical_instant at"
    "parseCheckoutValidationEvidence (fld v ''checkoutValidationEvidence'') = Inr e"
    "parseCartAggregate (fld v ''cart'') = Inr c" "\<not> ms_of (ck_validUntil e) \<le> ms_of at"
    "\<not> snapshot_source_bad e c oref batch at" "\<not> snapshots_bad c oref batch xs"
    and m: "map_res (order_line_snapshot e c batch at) (elements (fld v ''lines'')) = Inr xs"
    and n: "\<not> (\<not> is_array (fld v ''lines'') \<or> length (elements (fld v ''lines'')) < 1 \<or>
                    100 < length (elements (fld v ''lines'')))"
    unfolding createOrderItemSnapshots_def bnd_eq_Inr snapshot_guard_Inr snapshot_evidence_def snapshot_cart_def
      catching_throw_Inr throw_if_eq_Inr ordering_parse_Inr by blast
  show ?thesis
    by (rule that [of oref batch at e c]) (use f m n map_res_length [OF m] in \<open>auto simp: Suc_le_eq\<close>)
qed

end
