(* ===== verification/CheckoutService.thy ===== *)
theory CheckoutService
  imports CheckoutValidation QuoteAttachment QuotePipeline CartItemService
begin

text \<open>
  Checkout validation: \<open>packages/rms/ordering/src/application/checkout-validation-service.ts\<close>. The loaded
  cart, its attached quote, a fresh answer of the catalog for every item and the answer of fulfillment are
  put together to evidence with an end of validity. Ports are functions; a rejected promise is an \<open>Inl\<close>.
\<close>

section \<open>Ports and requests\<close>

record fulfillment_question =
  fq_brandReference :: string
  fq_storeReference :: string
  fq_cartReference :: string
  fq_cartVersion :: int
  fq_quoteReference :: string
  fq_orderType :: cart_order_type
  fq_sourceChannel :: cart_source_channel
  fq_observedAt :: string

record checkout_ports =
  kp_authorize :: "string \<Rightarrow> string \<Rightarrow> string \<Rightarrow> js option res"
  kp_validateSelection :: "selection_question \<Rightarrow> js res"
  kp_fulfill :: "fulfillment_question \<Rightarrow> js res"
  kp_hashIntent :: "string \<Rightarrow> string"
  kp_loadCart :: "string \<Rightarrow> js res"
  kp_loadQuote :: "string \<Rightarrow> js res"

record checkout_request =
  kr_validationReference :: string
  kr_cartReference :: string
  kr_expectedCartVersion :: int
  kr_quoteReference :: string
  kr_requestedAt :: string

definition checkout_fail :: "checkout_code \<Rightarrow> err" where
  "checkout_fail code = CheckoutValidationError code"

definition checkout_dependency :: err where
  "checkout_dependency = CheckoutValidationError CHECKOUT_DEPENDENCY_UNAVAILABLE"

text \<open>\<open>dependency(promise)\<close>: every rejection is the same error. An error handler that lets this module's errors pass.\<close>

definition checkout_asked :: "'a res \<Rightarrow> 'a res" where
  "checkout_asked m = catching m (\<lambda>_. Inl checkout_dependency)"

fun checkout_own :: "err \<Rightarrow> err" where
  "checkout_own (CheckoutValidationError code) = CheckoutValidationError code"
| "checkout_own _ = checkout_dependency"

definition checkout_input :: "js \<Rightarrow> checkout_request res" where
  "checkout_input v =
     bnd (checkout_exact v [''validationReference'', ''cartReference'', ''expectedCartVersion'', ''quoteReference'',
            ''requestedAt'']) (\<lambda>_.
     bnd (parseOrderingReference (fld v ''validationReference'')) (\<lambda>validation.
     bnd (parseOrderingReference (fld v ''cartReference'')) (\<lambda>cref.
     bnd (checkout_version (fld v ''expectedCartVersion'')) (\<lambda>expected.
     bnd (parseOrderingReference (fld v ''quoteReference'')) (\<lambda>quote.
     bnd (parseOrderingInstant (fld v ''requestedAt'')) (\<lambda>requestedAt.
     Inr \<lparr>kr_validationReference = validation, kr_cartReference = cref, kr_expectedCartVersion = expected,
          kr_quoteReference = quote, kr_requestedAt = requestedAt\<rparr>))))))"

definition checkout_intent :: "checkout_request \<Rightarrow> string" where
  "checkout_intent r = ''ValidateCheckout:'' @ json_object
     [(''validationReference'', json_text (kr_validationReference r)),
      (''cartReference'', json_text (kr_cartReference r)),
      (''expectedCartVersion'', int_str (kr_expectedCartVersion r)),
      (''quoteReference'', json_text (kr_quoteReference r)), (''requestedAt'', json_text (kr_requestedAt r))]"

section \<open>The checks\<close>

text \<open>\<open>sessionScope\<close>: a usable session within the scope of the cart.\<close>

definition checkout_session :: "js \<Rightarrow> cart_aggregate \<Rightarrow> string \<Rightarrow> guest_session res" where
  "checkout_session v c observedAt =
     catching
       (bnd (createGuestSession v) (\<lambda>s0.
        bnd (assertGuestSessionUsable s0 (JStr observedAt)) (\<lambda>s.
        bnd (throw_if (outside_scope s (cart_scope c)) TypeError) (\<lambda>_. Inr s))))
       (\<lambda>_. Inl (checkout_fail CHECKOUT_PERMISSION_DENIED))"

definition checkout_quote_bad :: "cart_quote_attachment \<Rightarrow> cart_aggregate \<Rightarrow> string \<Rightarrow> bool" where
  "checkout_quote_bad a c quoteReference \<longleftrightarrow>
     at_cartReference a \<noteq> ca_cartReference c \<or> at_brandReference a \<noteq> ca_brandReference c \<or>
     at_storeReference a \<noteq> ca_storeReference c \<or> at_cartVersion a \<noteq> ca_aggregateVersion c \<or>
     at_quoteReference a \<noteq> quoteReference \<or> length (at_lines a) \<noteq> length (ca_items c)"

text \<open>A line disagrees with its item; without catalog evidence the item agrees with no line.\<close>

definition line_differs :: "cart_quote_line option \<Rightarrow> cart_item \<Rightarrow> bool" where
  "line_differs line i \<longleftrightarrow>
     (case line of None \<Rightarrow> True
      | Some l \<Rightarrow> qe_sellableReference l \<noteq> ci_sellableReference i \<or> qe_quantity l \<noteq> ci_quantity i \<or>
          Some (qe_menuVersionReference l) \<noteq> map_option cs_menuVersionReference (ci_catalogSelectionEvidence i) \<or>
          Some (qe_productVersionReference l) \<noteq> map_option cs_productVersionReference (ci_catalogSelectionEvidence i))"

definition checkout_lines_bad :: "cart_quote_line list \<Rightarrow> cart_item list \<Rightarrow> bool" where
  "checkout_lines_bad lines items \<longleftrightarrow>
     card (set (map qe_lineReference lines)) \<noteq> length items \<or>
     list_ex (\<lambda>i. line_differs (find (\<lambda>l. qe_lineReference l = ci_cartItemReference i) lines) i) items"

text \<open>\<open>xs.some((x, index) => ...)\<close> against the list of expected values, where the test may throw.\<close>

fun some_differs :: "(js \<Rightarrow> 'a \<Rightarrow> bool res) \<Rightarrow> js list \<Rightarrow> 'a list \<Rightarrow> bool res" where
  "some_differs test (v # vs) (x # xs) = bnd (test v x) (\<lambda>b. if b then Inr True else some_differs test vs xs)"
| "some_differs test _ _ = Inr False"

definition selection_differs :: "js \<Rightarrow> cart_option_selection \<Rightarrow> bool res" where
  "selection_differs v s =
     bnd (get_prop v ''optionReference'') (\<lambda>r.
     bnd (parseOrderingReference r) (\<lambda>ref.
     Inr (ref \<noteq> co_optionReference s \<or> fld v ''quantity'' \<noteq> JNum (co_quantity s))))"

definition rule_differs :: "js \<Rightarrow> cart_selection_rule_evidence \<Rightarrow> bool res" where
  "rule_differs v e =
     bnd (get_prop v ''bindingReference'') (\<lambda>b.
     bnd (parseOrderingReference b) (\<lambda>binding.
     if binding \<noteq> ce_bindingReference e then Inr True
     else bnd (parseOrderingReference (fld v ''optionSetVersionReference'')) (\<lambda>os.
          Inr (os \<noteq> ce_optionSetVersionReference e))))"

text \<open>The second condition of \<open>catalogEvidence\<close>, in the order of its disjuncts.\<close>

definition selection_changed :: "js \<Rightarrow> string \<Rightarrow> string \<Rightarrow> cart_item \<Rightarrow> catalog_selection_evidence \<Rightarrow> bool res" where
  "selection_changed r menu product i attached =
     (if menu \<noteq> cs_menuVersionReference attached \<or> product \<noteq> cs_productVersionReference attached \<or>
         fld r ''catalogChannelCode'' \<noteq> JStr (cs_catalogChannelCode attached) \<or>
         fld r ''catalogOrderTypeCode'' \<noteq> JStr (cs_catalogOrderTypeCode attached) \<or>
         \<not> is_array (fld r ''optionSelections'') \<or>
         length (elements (fld r ''optionSelections'')) \<noteq> length (ci_optionSelections i)
      then Inr True
      else bnd (some_differs selection_differs (elements (fld r ''optionSelections'')) (ci_optionSelections i)) (\<lambda>b.
           if b \<or> \<not> is_array (fld r ''ruleEvidence'') \<or>
              length (elements (fld r ''ruleEvidence'')) \<noteq> length (cs_ruleEvidence attached)
           then Inr True
           else some_differs rule_differs (elements (fld r ''ruleEvidence'')) (cs_ruleEvidence attached)))"

definition checkout_line_evidence :: "js \<Rightarrow> cart_aggregate \<Rightarrow> cart_item \<Rightarrow> string \<Rightarrow> checkout_line res" where
  "checkout_line_evidence r c i observedAt =
     catching
       (bnd (parseOrderingReference (fld r ''brandReference'')) (\<lambda>brand.
        bnd (parseOrderingReference (fld r ''storeReference'')) (\<lambda>store.
        bnd (parseOrderingReference (fld r ''sellableReference'')) (\<lambda>sellable.
        bnd (parseOrderingInstant (fld r ''validatedAt'')) (\<lambda>validatedAt.
        bnd (parseOrderingReference (fld r ''menuVersionReference'')) (\<lambda>menu.
        bnd (parseOrderingReference (fld r ''productVersionReference'')) (\<lambda>product.
        bnd (or_throw (ci_catalogSelectionEvidence i) checkout_dependency) (\<lambda>attached.
        bnd (throw_if
               (brand \<noteq> ca_brandReference c \<or> store \<noteq> ca_storeReference c \<or>
                fld r ''sourceChannel'' \<noteq> JStr (channel_name (ca_sourceChannel c)) \<or>
                fld r ''orderType'' \<noteq> JStr (order_type_name (ca_orderType c)) \<or>
                sellable \<noteq> ci_sellableReference i \<or> validatedAt \<noteq> observedAt) checkout_dependency) (\<lambda>_.
        bnd (selection_changed r menu product i attached) (\<lambda>changed.
        bnd (throw_if changed (checkout_fail CHECKOUT_REQUOTE_REQUIRED)) (\<lambda>_.
        Inr \<lparr>kl_cartItemReference = ci_cartItemReference i, kl_sellableReference = ci_sellableReference i,
             kl_menuVersionReference = menu, kl_productVersionReference = product,
             kl_validatedAt = validatedAt\<rparr>)))))))))))
       (\<lambda>e. Inl (checkout_own e))"

text \<open>One answer of the catalog, for the item it was asked about.\<close>

definition checkout_answer :: "cart_aggregate \<Rightarrow> string \<Rightarrow> js \<times> cart_item \<Rightarrow> checkout_line res" where
  "checkout_answer c observedAt p =
     bnd (get_prop (fst p) ''status'') (\<lambda>status.
     if status = JStr ''Rejected''
     then Inl (checkout_fail (if fld (fst p) ''reason'' = JStr ''SELLABLE_UNAVAILABLE''
                              then CHECKOUT_ITEM_UNAVAILABLE else CHECKOUT_SELECTION_INVALID))
     else checkout_line_evidence (fst p) c (snd p) observedAt)"

text \<open>\<open>fulfillment(value, ...)\<close>: the accepted answer is rebuilt from the cart.\<close>

definition fulfillment_evidence :: "js \<Rightarrow> cart_aggregate \<Rightarrow> string \<Rightarrow> string \<Rightarrow> checkout_fulfillment res" where
  "fulfillment_evidence v c quoteReference observedAt =
     catching
       (bnd (throw_if (\<not> has_shape v fulfillment_fields) TypeError) (\<lambda>_.
        bnd (parseOrderingReference (fld v ''evidenceReference'')) (\<lambda>evidence.
        bnd (parseOrderingHash (fld v ''evidenceDigest'')) (\<lambda>dig.
        bnd (parseOrderingInstant (fld v ''checkedAt'')) (\<lambda>checkedAt.
        bnd (parseOrderingInstant (fld v ''validUntil'')) (\<lambda>validUntil.
        bnd (throw_if (fld v ''status'' \<noteq> JStr ''Accepted'') TypeError) (\<lambda>_.
        bnd (parseOrderingReference (fld v ''brandReference'')) (\<lambda>brand.
        bnd (parseOrderingReference (fld v ''storeReference'')) (\<lambda>store.
        bnd (parseOrderingReference (fld v ''cartReference'')) (\<lambda>cref.
        bnd (parseOrderingReference (fld v ''quoteReference'')) (\<lambda>quote.
        bnd (or_throw (safe_int_in 1 max_safe (fld v ''evidenceVersion'')) TypeError) (\<lambda>evidenceVersion.
        bnd (throw_if
               (brand \<noteq> ca_brandReference c \<or> store \<noteq> ca_storeReference c \<or> cref \<noteq> ca_cartReference c \<or>
                fld v ''cartVersion'' \<noteq> JNum (ca_aggregateVersion c) \<or> quote \<noteq> quoteReference \<or>
                fld v ''orderType'' \<noteq> JStr (order_type_name (ca_orderType c)) \<or>
                fld v ''sourceChannel'' \<noteq> JStr (channel_name (ca_sourceChannel c)) \<or>
                checkedAt \<noteq> observedAt \<or> ms_of validUntil \<le> ms_of observedAt) TypeError) (\<lambda>_.
        Inr \<lparr>kf_brandReference = ca_brandReference c, kf_storeReference = ca_storeReference c,
             kf_cartReference = ca_cartReference c, kf_cartVersion = ca_aggregateVersion c,
             kf_quoteReference = quoteReference, kf_orderType = ca_orderType c,
             kf_sourceChannel = ca_sourceChannel c, kf_evidenceReference = evidence,
             kf_evidenceVersion = evidenceVersion, kf_evidenceDigest = dig, kf_checkedAt = checkedAt,
             kf_validUntil = validUntil\<rparr>)))))))))))))
       (\<lambda>_. Inl checkout_dependency)"

text \<open>\<open>rejected(fulfillmentRejection(value))\<close>: the error a rejection stands for.\<close>

definition fulfillment_rejection :: "js \<Rightarrow> err" where
  "fulfillment_rejection v =
     (if \<not> has_shape v [''status'', ''reason''] \<or> fld v ''status'' \<noteq> JStr ''Rejected'' \<or>
         \<not> named_in [''STORE_CLOSED'', ''CAPACITY_UNAVAILABLE'', ''FULFILLMENT_UNAVAILABLE''] (fld v ''reason'')
      then checkout_dependency
      else if fld v ''reason'' = JStr ''STORE_CLOSED'' then checkout_fail CHECKOUT_STORE_CLOSED
      else if fld v ''reason'' = JStr ''CAPACITY_UNAVAILABLE'' then checkout_fail CHECKOUT_CAPACITY_UNAVAILABLE
      else checkout_fail CHECKOUT_FULFILLMENT_UNAVAILABLE)"

definition checkout_fulfillment_answer :: "js \<Rightarrow> cart_aggregate \<Rightarrow> string \<Rightarrow> string \<Rightarrow> checkout_fulfillment res" where
  "checkout_fulfillment_answer v c quoteReference observedAt =
     bnd (get_prop v ''status'') (\<lambda>status.
     if status = JStr ''Rejected'' then Inl (fulfillment_rejection v)
     else fulfillment_evidence v c quoteReference observedAt)"

text \<open>The end of validity: the first deadline of the quote, of the fulfillment and of the cart.\<close>

definition checkout_deadline :: "cart_quote_attachment \<Rightarrow> checkout_fulfillment \<Rightarrow> cart_aggregate \<Rightarrow> int" where
  "checkout_deadline a f c =
     min (min (ms_of (at_quoteExpiresAt a)) (ms_of (kf_validUntil f)))
       (min (ms_of (case ca_lifecycle c of None \<Rightarrow> at_quoteExpiresAt a | Some l \<Rightarrow> cl_idleExpiresAt l))
            (ms_of (case ca_lifecycle c of None \<Rightarrow> at_quoteExpiresAt a | Some l \<Rightarrow> cl_absoluteExpiresAt l)))"

section \<open>The handler\<close>

definition selection_question_for :: "cart_aggregate \<Rightarrow> string \<Rightarrow> cart_item \<Rightarrow> selection_question" where
  "selection_question_for c at i =
     \<lparr>sq_brandReference = ca_brandReference c, sq_storeReference = ca_storeReference c,
      sq_sourceChannel = ca_sourceChannel c, sq_orderType = ca_orderType c,
      sq_sellableReference = ci_sellableReference i, sq_optionSelections = ci_optionSelections i, sq_observedAt = at\<rparr>"

definition fulfillment_question_for :: "cart_aggregate \<Rightarrow> string \<Rightarrow> string \<Rightarrow> fulfillment_question" where
  "fulfillment_question_for c quoteReference at =
     \<lparr>fq_brandReference = ca_brandReference c, fq_storeReference = ca_storeReference c,
      fq_cartReference = ca_cartReference c, fq_cartVersion = ca_aggregateVersion c,
      fq_quoteReference = quoteReference, fq_orderType = ca_orderType c, fq_sourceChannel = ca_sourceChannel c,
      fq_observedAt = at\<rparr>"

text \<open>The cart, the session and the quote the rest of the handler works on.\<close>

definition checkout_subject ::
  "checkout_request \<Rightarrow> js \<Rightarrow> js \<Rightarrow> js \<Rightarrow> (cart_aggregate \<times> guest_session \<times> cart_quote_attachment) res" where
  "checkout_subject req guest loadedCart loadedQuote =
     bnd (throw_if (loadedCart = JNull) (checkout_fail CHECKOUT_CART_UNAVAILABLE)) (\<lambda>_.
     bnd (checkout_asked (parseCartAggregate loadedCart)) (\<lambda>c.
     bnd (throw_if (ca_aggregateVersion c \<noteq> kr_expectedCartVersion req)
            (checkout_fail CHECKOUT_CART_VERSION_CONFLICT)) (\<lambda>_.
     bnd (catching (assertCartLifecycleActive (ca_lifecycle c) (kr_requestedAt req))
            (\<lambda>_. Inl (checkout_fail CHECKOUT_CART_NOT_ACTIVE))) (\<lambda>_.
     bnd (checkout_session guest c (kr_requestedAt req)) (\<lambda>s.
     bnd (throw_if (ca_items c = []) (checkout_fail CHECKOUT_CART_EMPTY)) (\<lambda>_.
     bnd (throw_if (loadedQuote = JNull) (checkout_fail CHECKOUT_QUOTE_MISSING)) (\<lambda>_.
     bnd (checkout_asked (parseCartQuoteAttachment loadedQuote)) (\<lambda>a.
     bnd (throw_if (checkout_quote_bad a c (kr_quoteReference req)) (checkout_fail CHECKOUT_REQUOTE_REQUIRED)) (\<lambda>_.
     bnd (throw_if (ms_of (at_quoteExpiresAt a) \<le> ms_of (kr_requestedAt req))
            (checkout_fail CHECKOUT_QUOTE_EXPIRED)) (\<lambda>_.
     bnd (throw_if (checkout_lines_bad (at_lines a) (ca_items c)) (checkout_fail CHECKOUT_REQUOTE_REQUIRED)) (\<lambda>_.
     Inr (c, s, a))))))))))))"

definition validate_checkout :: "checkout_ports \<Rightarrow> js \<Rightarrow> checkout_evidence res" where
  "validate_checkout ports v =
     bnd (checkout_input v) (\<lambda>req.
     bnd (checkout_asked (parseOrderingHash (JStr (kp_hashIntent ports (checkout_intent req))))) (\<lambda>intent.
     bnd (checkout_asked (kp_authorize ports (kr_cartReference req) (kr_validationReference req) (kr_requestedAt req))) (\<lambda>authorized.
     bnd (or_throw authorized (checkout_fail CHECKOUT_PERMISSION_DENIED)) (\<lambda>guest.
     bnd (checkout_asked (kp_loadCart ports (kr_cartReference req))) (\<lambda>loadedCart.
     bnd (checkout_asked (kp_loadQuote ports (kr_cartReference req))) (\<lambda>loadedQuote.
     bnd (checkout_subject req guest loadedCart loadedQuote) (\<lambda>(c, s, a).
     bnd (map_res (\<lambda>i. checkout_asked (kp_validateSelection ports (selection_question_for c (kr_requestedAt req) i)))
            (ca_items c)) (\<lambda>answers.
     bnd (map_res (checkout_answer c (kr_requestedAt req)) (zip answers (ca_items c))) (\<lambda>lines.
     bnd (checkout_asked (kp_fulfill ports (fulfillment_question_for c (kr_quoteReference req) (kr_requestedAt req)))) (\<lambda>r.
     bnd (checkout_fulfillment_answer r c (kr_quoteReference req) (kr_requestedAt req)) (\<lambda>f.
     bnd (date_to_iso (Some (checkout_deadline a f c))) (\<lambda>iso.
     bnd (parseOrderingInstant (JStr iso)) (\<lambda>validUntil.
     bnd (throw_if (ms_of validUntil \<le> ms_of (kr_requestedAt req)) checkout_dependency) (\<lambda>_.
     bnd (parseOrderingReference (JStr (gs_sessionReference s))) (\<lambda>guestReference.
     parseCheckoutValidationEvidence (checkout_evidence_js
       \<lparr>ck_validationReference = kr_validationReference req, ck_validationIntentHash = intent,
        ck_guestSessionReference = guestReference, ck_brandReference = ca_brandReference c,
        ck_storeReference = ca_storeReference c, ck_cartReference = ca_cartReference c,
        ck_cartVersion = ca_aggregateVersion c, ck_quoteReference = at_quoteReference a, ck_quoteVersion = 1,
        ck_quoteInputDigest = at_quoteInputDigest a, ck_orderType = ca_orderType c,
        ck_sourceChannel = ca_sourceChannel c, ck_catalogLines = lines, ck_fulfillment = f,
        ck_validatedAt = kr_requestedAt req, ck_validUntil = validUntil\<rparr>))))))))))))))))"

section \<open>The evidence that is built\<close>

lemma checkout_asked_Inr [res_simps]: "checkout_asked m = Inr x \<longleftrightarrow> m = Inr x"
  by (simp add: checkout_asked_def catching_throw_Inr)

lemma checkout_own_Inr [res_simps]: "catching m (\<lambda>e. Inl (checkout_own e)) = Inr x \<longleftrightarrow> m = Inr x"
  by (cases m) simp_all

lemma checkout_line_evidence_Inr:
  assumes "checkout_line_evidence r c i t = Inr l"
  obtains e where "ci_catalogSelectionEvidence i = Some e" "kl_cartItemReference l = ci_cartItemReference i"
    "kl_sellableReference l = ci_sellableReference i" "kl_menuVersionReference l = cs_menuVersionReference e"
    "kl_productVersionReference l = cs_productVersionReference e" "kl_validatedAt l = t"
    "fld r ''menuVersionReference'' = JStr (cs_menuVersionReference e)"
    "fld r ''productVersionReference'' = JStr (cs_productVersionReference e)" "canonical_instant t"
proof -
  from assms obtain menu product e where
    f: "fld r ''validatedAt'' = JStr t \<and> canonical_instant t" "fld r ''menuVersionReference'' = JStr menu"
    "fld r ''productVersionReference'' = JStr product" "ci_catalogSelectionEvidence i = Some e"
    and ch: "selection_changed r menu product i e = Inr False"
    and l: "l = \<lparr>kl_cartItemReference = ci_cartItemReference i, kl_sellableReference = ci_sellableReference i,
             kl_menuVersionReference = menu, kl_productVersionReference = product, kl_validatedAt = t\<rparr>"
    unfolding checkout_line_evidence_def checkout_own_Inr bnd_eq_Inr
    by (elim exE conjE) (drule Inr_inject, hypsubst, auto simp: throw_if_eq_Inr or_throw_Inr ordering_parse_Inr)
  have "menu = cs_menuVersionReference e" "product = cs_productVersionReference e"
    using ch by (auto simp: selection_changed_def split: if_splits)
  with f l show ?thesis by (intro that) simp_all
qed

lemma checkout_answer_Inr: "checkout_answer c t p = Inr l \<Longrightarrow> checkout_line_evidence (fst p) c (snd p) t = Inr l"
  by (auto simp: checkout_answer_def bnd_eq_Inr split: if_splits)

text \<open>What the lines of the evidence say of the items they are about.\<close>

definition line_confirms :: "string \<Rightarrow> cart_item \<Rightarrow> checkout_line \<Rightarrow> bool" where
  "line_confirms t i l \<longleftrightarrow>
     kl_cartItemReference l = ci_cartItemReference i \<and> kl_sellableReference l = ci_sellableReference i \<and>
     kl_validatedAt l = t \<and>
     (case ci_catalogSelectionEvidence i of None \<Rightarrow> False
      | Some e \<Rightarrow> kl_menuVersionReference l = cs_menuVersionReference e \<and>
                  kl_productVersionReference l = cs_productVersionReference e)"

lemma checkout_lines_confirm:
  assumes "map_res (checkout_answer c t) (zip answers items) = Inr lines" and "length answers = length items"
  shows "list_all2 (line_confirms t) items lines"
  using assms
proof (induction answers items arbitrary: lines rule: list_induct2')
  case (4 r rs i items)
  from 4(2,3) obtain l ls where l: "checkout_answer c t (r, i) = Inr l" "lines = l # ls"
    "map_res (checkout_answer c t) (zip rs items) = Inr ls"
    by (auto simp: bnd_eq_Inr)
  from checkout_answer_Inr [OF l(1)] have "line_confirms t i l"
    by (auto simp: line_confirms_def elim!: checkout_line_evidence_Inr)
  with 4(1) [OF l(3)] 4(3) l(2) show ?case by simp
qed auto

lemma line_confirms_valid: "line_confirms t i l \<Longrightarrow> valid_item i \<Longrightarrow> canonical_instant t \<Longrightarrow> valid_checkout_line l"
  by (auto simp: line_confirms_def valid_item_def valid_checkout_line_def valid_evidence_def split: option.splits)

lemma confirmed_lines:
  assumes "list_all2 (line_confirms t) items lines"
  shows "map kl_cartItemReference lines = map ci_cartItemReference items" and "length lines = length items"
    and "\<not> list_ex (\<lambda>l. kl_validatedAt l \<noteq> t) lines"
    and "list_all valid_item items \<Longrightarrow> canonical_instant t \<Longrightarrow> list_all valid_checkout_line lines"
  using assms by (induction rule: list_all2_induct) (auto simp: line_confirms_def intro: line_confirms_valid)

lemma fulfillment_evidence_Inr:
  assumes "checkout_fulfillment_answer v c q t = Inr f" and "valid_cart c" and "uuid_v7 q"
  shows "valid_fulfillment f \<and> kf_brandReference f = ca_brandReference c \<and> kf_storeReference f = ca_storeReference c \<and>
    kf_cartReference f = ca_cartReference c \<and> kf_cartVersion f = ca_aggregateVersion c \<and> kf_quoteReference f = q \<and>
    kf_orderType f = ca_orderType c \<and> kf_sourceChannel f = ca_sourceChannel c \<and> kf_checkedAt f = t"
proof -
  have "fulfillment_evidence v c q t = Inr f"
    using assms(1) by (auto simp: checkout_fulfillment_answer_def bnd_eq_Inr split: if_splits)
  then show ?thesis
    using assms(2,3) unfolding fulfillment_evidence_def catching_throw_Inr bnd_eq_Inr
    by (elim exE conjE) (drule Inr_inject, hypsubst, auto simp: valid_fulfillment_def valid_cart_def throw_if_eq_Inr
        ordering_parse_Inr or_throw_Inr safe_int_in_Some max_safe_def)
qed

section \<open>The quote of the cart\<close>

lemma find_unique:
  assumes "distinct (map f xs)"
  shows "find (\<lambda>x. f x = r) xs = Some x \<longleftrightarrow> x \<in> set xs \<and> f x = r"
  using assms by (induction xs) (auto simp: image_iff)

lemma line_differs_iff:
  assumes "distinct (map qe_lineReference lines)"
  shows "line_differs (find (\<lambda>l. qe_lineReference l = ci_cartItemReference i) lines) i \<longleftrightarrow> \<not> item_quoted lines i"
proof (cases "find (\<lambda>l. qe_lineReference l = ci_cartItemReference i) lines")
  case None
  then have "\<forall>l \<in> set lines. qe_lineReference l \<noteq> ci_cartItemReference i" by (simp add: find_None_iff)
  with None show ?thesis by (auto simp: line_differs_def item_quoted_def list_ex_iff split: option.splits)
next
  case (Some l)
  then have l: "l' \<in> set lines \<and> qe_lineReference l' = ci_cartItemReference i \<longleftrightarrow> l' = l" for l'
    using find_unique [OF assms] by (metis option.inject)
  have "list_ex (\<lambda>l'. qe_lineReference l' = ci_cartItemReference i \<and> Q l') lines = Q l" for Q
  proof -
    have "list_ex (\<lambda>l'. qe_lineReference l' = ci_cartItemReference i \<and> Q l') lines \<longleftrightarrow>
      (\<exists>l'. (l' \<in> set lines \<and> qe_lineReference l' = ci_cartItemReference i) \<and> Q l')"
      by (auto simp: list_ex_iff)
    also have "\<dots> \<longleftrightarrow> Q l" unfolding l by simp
    finally show ?thesis .
  qed
  with Some show ?thesis by (auto simp: line_differs_def item_quoted_def split: option.splits)
qed

text \<open>
  The two modules ask the same of the lines of a quote: checkout with a map and a loop, the attachment with
  a search for every item.
\<close>

lemma checkout_lines_iff:
  assumes "distinct (map qe_lineReference lines)" and "length lines = length items"
    and "distinct (map ci_cartItemReference items)"
  shows "\<not> checkout_lines_bad lines items \<longleftrightarrow> quotes_items lines items"
proof -
  have "card (set (map qe_lineReference lines)) = length items"
    using distinct_card [OF assms(1)] assms(2) by simp
  then have bad: "\<not> checkout_lines_bad lines items \<longleftrightarrow> list_all (item_quoted lines) items"
    by (auto simp: checkout_lines_bad_def line_differs_iff [OF assms(1)] list_ex_iff list_all_iff)
  have "set (map qe_lineReference lines) = set (map ci_cartItemReference items)" if "list_all (item_quoted lines) items"
    using that by (intro same_lines [OF assms]) (auto simp: list_all_iff item_quoted_def list_ex_iff split: option.splits)
  with bad assms(1) show ?thesis by (auto simp: quotes_items_def)
qed

lemma valid_cart_items: "valid_cart c \<Longrightarrow> distinct (map ci_cartItemReference (ca_items c)) \<and> list_all valid_item (ca_items c)"
  by (simp add: valid_cart_def cart_items_bad_def)

lemma valid_attachment_lines: "valid_attachment a \<Longrightarrow> distinct (map qe_lineReference (at_lines a))"
  by (simp add: valid_attachment_def)

lemma checkout_session_Inr [res_simps]:
  "checkout_session v c t = Inr s \<longleftrightarrow> usable_guest v t = Inr s \<and> \<not> outside_scope s (cart_scope c)"
  by (auto simp: checkout_session_def catching_throw_Inr bnd_eq_Inr throw_if_eq_Inr usable_guest_def)

lemma checkout_subject_Inr:
  assumes "checkout_subject req guest lc lq = Inr (c, s, a)"
  obtains l where "lc \<noteq> JNull" "parseCartAggregate lc = Inr c" "ca_aggregateVersion c = kr_expectedCartVersion req"
    "assertCartLifecycleActive (ca_lifecycle c) (kr_requestedAt req) = Inr l"
    "usable_guest guest (kr_requestedAt req) = Inr s" "\<not> outside_scope s (cart_scope c)" "ca_items c \<noteq> []" "lq \<noteq> JNull"
    "parseCartQuoteAttachment lq = Inr a" "\<not> checkout_quote_bad a c (kr_quoteReference req)"
    "ms_of (kr_requestedAt req) < ms_of (at_quoteExpiresAt a)" "quotes_items (at_lines a) (ca_items c)"
proof -
  from assms obtain l where f: "lc \<noteq> JNull" "parseCartAggregate lc = Inr c" "ca_aggregateVersion c = kr_expectedCartVersion req"
    "assertCartLifecycleActive (ca_lifecycle c) (kr_requestedAt req) = Inr l"
    "usable_guest guest (kr_requestedAt req) = Inr s" "\<not> outside_scope s (cart_scope c)" "ca_items c \<noteq> []" "lq \<noteq> JNull"
    "parseCartQuoteAttachment lq = Inr a" "\<not> checkout_quote_bad a c (kr_quoteReference req)"
    "ms_of (kr_requestedAt req) < ms_of (at_quoteExpiresAt a)" "\<not> checkout_lines_bad (at_lines a) (ca_items c)"
    by (auto simp: checkout_subject_def bnd_eq_Inr throw_if_eq_Inr checkout_asked_Inr catching_throw_Inr checkout_session_Inr)
  have "quotes_items (at_lines a) (ca_items c)"
    using f(12) checkout_lines_iff [OF valid_attachment_lines [OF attachment.parse_valid [OF f(9)]], of "ca_items c"]
      valid_cart_items [OF cart.parse_valid [OF f(2)]] f(10) by (simp add: checkout_quote_bad_def)
  with f that show ?thesis by blast
qed

section \<open>The evidence that is returned\<close>

text \<open>The object the handler builds is always accepted by the parser, unchanged.\<close>

definition built_evidence ::
  "checkout_request \<Rightarrow> string \<Rightarrow> cart_aggregate \<Rightarrow> guest_session \<Rightarrow> cart_quote_attachment \<Rightarrow> checkout_line list \<Rightarrow>
   checkout_fulfillment \<Rightarrow> checkout_evidence" where
  "built_evidence req intent c s a lines f =
     \<lparr>ck_validationReference = kr_validationReference req, ck_validationIntentHash = intent,
      ck_guestSessionReference = gs_sessionReference s, ck_brandReference = ca_brandReference c,
      ck_storeReference = ca_storeReference c, ck_cartReference = ca_cartReference c,
      ck_cartVersion = ca_aggregateVersion c, ck_quoteReference = at_quoteReference a, ck_quoteVersion = 1,
      ck_quoteInputDigest = at_quoteInputDigest a, ck_orderType = ca_orderType c,
      ck_sourceChannel = ca_sourceChannel c, ck_catalogLines = lines, ck_fulfillment = f,
      ck_validatedAt = kr_requestedAt req, ck_validUntil = to_iso (checkout_deadline a f c)\<rparr>"

lemma checkout_input_Inr:
  "checkout_input v = Inr req \<Longrightarrow> uuid_v7 (kr_validationReference req) \<and> uuid_v7 (kr_cartReference req) \<and>
     uuid_v7 (kr_quoteReference req) \<and> canonical_instant (kr_requestedAt req)"
  by (auto simp: checkout_input_def bnd_eq_Inr ordering_parse_Inr)

lemma iso_time_min: "iso_time x \<Longrightarrow> iso_time y \<Longrightarrow> iso_time (min x y)"
  by (simp add: min_def)

lemma checkout_deadline_facts:
  assumes a: "valid_attachment a" and f: "valid_fulfillment f" and c: "valid_cart c"
    and l: "assertCartLifecycleActive (ca_lifecycle c) t = Inr l" and t: "canonical_instant t"
    and q: "ms_of t < ms_of (at_quoteExpiresAt a)" and ft: "kf_checkedAt f = t"
  shows "iso_time (checkout_deadline a f c)" and "ms_of t < checkout_deadline a f c"
    and "checkout_deadline a f c \<le> ms_of (kf_validUntil f)"
proof -
  have lc: "ca_lifecycle c = Some l" using l by (auto simp: assertCartLifecycleActive_def bnd_eq_Inr or_throw_Inr)
  then have v: "valid_lifecycle l" using c by (simp add: valid_cart_def)
  then have d: "canonical_instant (cl_idleExpiresAt l)" "canonical_instant (cl_absoluteExpiresAt l)"
    by (simp_all add: valid_lifecycle_def)
  have "ms_of t < ms_of (cl_idleExpiresAt l)" "ms_of t < ms_of (cl_absoluteExpiresAt l)"
    using l lc d t by (auto simp: assertCartLifecycleActive_def bnd_eq_Inr throw_if_eq_Inr date_parse_canonical)
  with lc q f ft show "ms_of t < checkout_deadline a f c" by (simp add: checkout_deadline_def valid_fulfillment_def)
  show "iso_time (checkout_deadline a f c)"
    using lc d a f by (simp add: checkout_deadline_def iso_time_min iso_time_ms_of valid_attachment_def valid_fulfillment_def)
  show "checkout_deadline a f c \<le> ms_of (kf_validUntil f)" by (simp add: checkout_deadline_def)
qed

lemma built_evidence_valid:
  assumes req: "checkout_input v = Inr req" and "sha256_digest intent" and c: "valid_cart c" and n: "ca_items c \<noteq> []"
    and s: "usable_guest guest (kr_requestedAt req) = Inr s" and a: "valid_attachment a"
    and b: "\<not> checkout_quote_bad a c (kr_quoteReference req)"
    and lines: "list_all2 (line_confirms (kr_requestedAt req)) (ca_items c) lines"
    and f: "checkout_fulfillment_answer r c (kr_quoteReference req) (kr_requestedAt req) = Inr f"
    and l: "assertCartLifecycleActive (ca_lifecycle c) (kr_requestedAt req) = Inr l"
    and q: "ms_of (kr_requestedAt req) < ms_of (at_quoteExpiresAt a)"
  shows "valid_checkout (built_evidence req intent c s a lines f)"
proof -
  note req' = checkout_input_Inr [OF req]
  note f' = fulfillment_evidence_Inr [OF f c] req'
  have vf: "valid_fulfillment f" and ft: "kf_checkedAt f = kr_requestedAt req" using f' by blast+
  have t: "canonical_instant (kr_requestedAt req)" using req' by blast
  note d = checkout_deadline_facts [OF a vf c l t q ft]
  have dm: "ms_of (to_iso (checkout_deadline a f c)) = checkout_deadline a f c"
    "canonical_instant (to_iso (checkout_deadline a f c))"
    using d(1) by (simp_all add: canonical_to_iso ms_of_to_iso)
  have "uuid_v7 (gs_sessionReference s)"
    using guest.parse_valid s by (auto simp: usable_guest_Inr valid_guest_session_def)
  moreover have "sha256_digest (at_quoteInputDigest a)" using a by (simp add: valid_attachment_def)
  moreover have "at_quoteReference a = kr_quoteReference req" using b by (simp add: checkout_quote_bad_def)
  moreover have "length (ca_items c) \<le> 100" "0 < length (ca_items c)" "distinct (map ci_cartItemReference (ca_items c))"
    "list_all valid_item (ca_items c)" "1 \<le> ca_aggregateVersion c" "ca_aggregateVersion c \<le> 999"
    using c n valid_cart_items by (simp_all add: valid_cart_def)
  ultimately show ?thesis
    using assms(2) c f' confirmed_lines [OF lines] d dm
    by (simp add: valid_checkout_def built_evidence_def checkout_inconsistent_def valid_cart_def Suc_le_eq max_safe_def)
qed

lemma validate_checkout_Inr:
  assumes "validate_checkout ports v = Inr e"
  obtains req guest lc lq c s a l answers r f where "checkout_input v = Inr req"
    "sha256_digest (kp_hashIntent ports (checkout_intent req))"
    "kp_authorize ports (kr_cartReference req) (kr_validationReference req) (kr_requestedAt req) = Inr (Some guest)"
    "kp_loadCart ports (kr_cartReference req) = Inr lc" "kp_loadQuote ports (kr_cartReference req) = Inr lq"
    "parseCartAggregate lc = Inr c" "ca_aggregateVersion c = kr_expectedCartVersion req"
    "assertCartLifecycleActive (ca_lifecycle c) (kr_requestedAt req) = Inr l"
    "usable_guest guest (kr_requestedAt req) = Inr s" "\<not> outside_scope s (cart_scope c)" "ca_items c \<noteq> []"
    "parseCartQuoteAttachment lq = Inr a" "\<not> checkout_quote_bad a c (kr_quoteReference req)"
    "ms_of (kr_requestedAt req) < ms_of (at_quoteExpiresAt a)" "quotes_items (at_lines a) (ca_items c)"
    "map_res (\<lambda>i. checkout_asked (kp_validateSelection ports (selection_question_for c (kr_requestedAt req) i)))
       (ca_items c) = Inr answers"
    "map_res (checkout_answer c (kr_requestedAt req)) (zip answers (ca_items c)) = Inr (ck_catalogLines e)"
    "kp_fulfill ports (fulfillment_question_for c (kr_quoteReference req) (kr_requestedAt req)) = Inr r"
    "checkout_fulfillment_answer r c (kr_quoteReference req) (kr_requestedAt req) = Inr f"
    "e = built_evidence req (kp_hashIntent ports (checkout_intent req)) c s a (ck_catalogLines e) f" "valid_checkout e"
proof -
  let ?hash = "\<lambda>req. kp_hashIntent ports (checkout_intent req)"
  from assms obtain req guest lc lq c s a answers r f lines iso where
    p: "checkout_input v = Inr req" "sha256_digest (?hash req)"
    "kp_authorize ports (kr_cartReference req) (kr_validationReference req) (kr_requestedAt req) = Inr (Some guest)"
    "kp_loadCart ports (kr_cartReference req) = Inr lc" "kp_loadQuote ports (kr_cartReference req) = Inr lq"
    and sub: "checkout_subject req guest lc lq = Inr (c, s, a)"
    and an: "map_res (\<lambda>i. checkout_asked (kp_validateSelection ports (selection_question_for c (kr_requestedAt req) i)))
       (ca_items c) = Inr answers"
    and li: "map_res (checkout_answer c (kr_requestedAt req)) (zip answers (ca_items c)) = Inr lines"
    and fu: "kp_fulfill ports (fulfillment_question_for c (kr_quoteReference req) (kr_requestedAt req)) = Inr r"
    "checkout_fulfillment_answer r c (kr_quoteReference req) (kr_requestedAt req) = Inr f"
    and iso: "date_to_iso (Some (checkout_deadline a f c)) = Inr iso"
    and r: "parseCheckoutValidationEvidence (checkout_evidence_js
       ((built_evidence req (?hash req) c s a lines f)\<lparr>ck_validUntil := iso\<rparr>)) = Inr e"
    unfolding validate_checkout_def bnd_eq_Inr checkout_asked_Inr or_throw_Inr ordering_parse_Inr throw_if_eq_Inr
    by (elim exE conjE) (auto simp: bnd_eq_Inr checkout_asked_Inr ordering_parse_Inr throw_if_eq_Inr built_evidence_def
        split: prod.splits)
  show ?thesis
  proof (rule checkout_subject_Inr [OF sub])
    fix l
    assume h: "parseCartAggregate lc = Inr c" "ca_aggregateVersion c = kr_expectedCartVersion req"
      "assertCartLifecycleActive (ca_lifecycle c) (kr_requestedAt req) = Inr l"
      "usable_guest guest (kr_requestedAt req) = Inr s" "\<not> outside_scope s (cart_scope c)" "ca_items c \<noteq> []"
      "parseCartQuoteAttachment lq = Inr a" "\<not> checkout_quote_bad a c (kr_quoteReference req)"
      "ms_of (kr_requestedAt req) < ms_of (at_quoteExpiresAt a)" "quotes_items (at_lines a) (ca_items c)"
    note vc = cart.parse_valid [OF h(1)] and va = attachment.parse_valid [OF h(7)]
    have t: "canonical_instant (kr_requestedAt req)" using checkout_input_Inr [OF p(1)] by blast
    have fv: "valid_fulfillment f" "kf_checkedAt f = kr_requestedAt req"
      using fulfillment_evidence_Inr [OF fu(2) vc] checkout_input_Inr [OF p(1)] by blast+
    note d = checkout_deadline_facts [OF va fv(1) vc h(3) t h(9) fv(2)]
    have "iso = to_iso (checkout_deadline a f c)" using iso d(1) by simp
    then have r': "parseCheckoutValidationEvidence (checkout_evidence_js (built_evidence req (?hash req) c s a lines f)) = Inr e"
      using r by (simp add: built_evidence_def)
    have "valid_checkout (built_evidence req (?hash req) c s a lines f)"
      by (rule built_evidence_valid [OF p(1,2) vc h(6,4) va h(8) checkout_lines_confirm [OF li map_res_length [OF an]] fu(2) h(3,9)])
    with r' have e: "e = built_evidence req (?hash req) c s a lines f" by (simp add: checkout.parse_print)
    moreover have "ck_catalogLines e = lines" by (simp add: e built_evidence_def)
    ultimately show ?thesis using that [OF p h(1-10) an] li fu checkout.parse_valid [OF r'] by simp
  qed
qed

lemma asked_and_answered:
  assumes "map_res g items = Inr answers" and "map_res h (zip answers items) = Inr lines"
  shows "list_all2 (\<lambda>i l. \<exists>r. g i = Inr r \<and> h (r, i) = Inr l) items lines"
  using assms by (induction items arbitrary: answers lines) (auto simp: bnd_eq_Inr)

section \<open>An example: the dining guest checks the cart out\<close>

definition example_selection_answer :: js where
  "example_selection_answer = JObj
     [(''status'', JStr ''Accepted''), (''brandReference'', JStr ''01890000-0000-7000-8000-000000000012''),
      (''storeReference'', JStr ''01890000-0000-7000-8000-000000000013''), (''sourceChannel'', JStr ''Qr''),
      (''orderType'', JStr ''DineIn''), (''sellableReference'', JStr ''01890000-0000-7000-8000-000000000030''),
      (''optionSelections'', JArr []), (''menuVersionReference'', JStr ''01890000-0000-7000-8000-000000000055''),
      (''productVersionReference'', JStr ''01890000-0000-7000-8000-000000000054''),
      (''catalogChannelCode'', JStr ''KIOSK''), (''catalogOrderTypeCode'', JStr ''DINE_IN''),
      (''ruleEvidence'', JArr []), (''validatedAt'', JStr ''2026-06-01T12:10:00.000Z'')]"

definition example_fulfillment :: "string \<Rightarrow> checkout_fulfillment" where
  "example_fulfillment quote =
     \<lparr>kf_brandReference = ''01890000-0000-7000-8000-000000000012'',
      kf_storeReference = ''01890000-0000-7000-8000-000000000013'',
      kf_cartReference = ''01890000-0000-7000-8000-000000000052'', kf_cartVersion = 3, kf_quoteReference = quote,
      kf_orderType = cart_order_type.DineIn, kf_sourceChannel = QrChannel,
      kf_evidenceReference = ''01890000-0000-7000-8000-000000000040'', kf_evidenceVersion = 1,
      kf_evidenceDigest = example_digest, kf_checkedAt = ''2026-06-01T12:10:00.000Z'',
      kf_validUntil = ''2026-06-01T12:15:00.000Z''\<rparr>"

definition example_checkout_ports :: "cart_quote_attachment \<Rightarrow> checkout_ports" where
  "example_checkout_ports a =
     \<lparr>kp_authorize = \<lambda>c o' t. Inr (Some (guest_session_js example_guest)),
      kp_validateSelection = \<lambda>q. Inr example_selection_answer,
      kp_fulfill = \<lambda>q. Inr (checkout_fulfillment_js (example_fulfillment (fq_quoteReference q))),
      kp_hashIntent = \<lambda>s. example_digest, kp_loadCart = \<lambda>c. Inr (cart_js example_quoted_cart),
      kp_loadQuote = \<lambda>c. Inr (attachment_js a)\<rparr>"

definition example_checkout_parsed :: "cart_quote_attachment \<Rightarrow> checkout_request" where
  "example_checkout_parsed a =
     \<lparr>kr_validationReference = ''01890000-0000-7000-8000-000000000041'',
      kr_cartReference = ''01890000-0000-7000-8000-000000000052'', kr_expectedCartVersion = 3,
      kr_quoteReference = at_quoteReference a, kr_requestedAt = ''2026-06-01T12:10:00.000Z''\<rparr>"

definition example_checkout_request :: "cart_quote_attachment \<Rightarrow> js" where
  "example_checkout_request a = JObj
     [(''validationReference'', JStr ''01890000-0000-7000-8000-000000000041''),
      (''cartReference'', JStr ''01890000-0000-7000-8000-000000000052''), (''expectedCartVersion'', JNum 3),
      (''quoteReference'', JStr (at_quoteReference a)), (''requestedAt'', JStr ''2026-06-01T12:10:00.000Z'')]"

lemma example_checkout_usable:
  "usable_guest (guest_session_js example_guest) ''2026-06-01T12:10:00.000Z'' = Inr example_guest"
  by (simp add: usable_guest_Inr guest.parse_print [OF example_guest_valid])
    (simp add: example_guest_def guest_expiry_def example_cart_facts example_guest_facts)

lemma example_checkout_within: "\<not> outside_scope example_guest (cart_scope example_quoted_cart)"
  by (simp add: example_quoted_cart_def example_cart_def outside_scope_def cart_scope_def example_guest_def
      guest_channel_name_def order_type_name_def)

lemma example_checkout_active:
  "assertCartLifecycleActive (ca_lifecycle example_quoted_cart) ''2026-06-01T12:10:00.000Z'' = Inr example_lifecycle"
  using assert_active_eq [OF example_lifecycle_valid example_cart_facts(13)]
  by (simp add: example_quoted_cart_def example_cart_def example_lifecycle_def example_cart_facts example_times)

lemma example_checkout_input:
  "uuid_v7 (at_quoteReference a) \<Longrightarrow> checkout_input (example_checkout_request a) = Inr (example_checkout_parsed a)"
  by (simp add: checkout_input_def example_checkout_request_def example_checkout_parsed_def bnd_eq_Inr checkout_Inr
      example_cart_facts max_safe_def)

section \<open>Properties\<close>

lemma attached_subject:
  assumes "verifyQuote v c operation intent g t0 = Inr a" and "valid_cart c"
    and "kr_expectedCartVersion req = ca_aggregateVersion c" and "kr_quoteReference req = at_quoteReference a"
    and "usable_guest guest (kr_requestedAt req) = Inr s" and "\<not> outside_scope s (cart_scope c)"
    and "assertCartLifecycleActive (ca_lifecycle c) (kr_requestedAt req) = Inr l"
  shows "checkout_subject req guest (cart_js c) (attachment_js a) =
    (if ms_of (kr_requestedAt req) < ms_of (at_quoteExpiresAt a) then Inr (c, s, a)
     else Inl (CheckoutValidationError CHECKOUT_QUOTE_EXPIRED))"
proof -
  note q = verifyQuote_body_Inr [OF assms(1) [unfolded verifyQuote_Inr] assms(2)] and w = verified_attachment [OF assms(1)]
  have n: "ca_items c \<noteq> []" and lines: "quotes_items (at_lines a) (ca_items c)" using q by blast+
  have d: "distinct (map qe_lineReference (at_lines a))" using lines by (simp add: quotes_items_def)
  have "card (set (map qe_lineReference (at_lines a))) = card (set (map ci_cartItemReference (ca_items c)))"
    using lines by (simp add: quotes_items_def)
  then have len: "length (at_lines a) = length (ca_items c)"
    using distinct_card [OF d] distinct_card [of "map ci_cartItemReference (ca_items c)"] valid_cart_items [OF assms(2)] by simp
  have "\<not> checkout_lines_bad (at_lines a) (ca_items c)"
    using checkout_lines_iff [OF d len] lines valid_cart_items [OF assms(2)] by blast
  moreover have "checkout_session guest c (kr_requestedAt req) = Inr s"
    using assms(5,6) by (simp add: checkout_session_Inr)
  ultimately show ?thesis
    using assms w n len by (simp add: checkout_subject_def cart.parse_print attachment.parse_print checkout_asked_def
        cart.print_not_null attachment.print_not_null checkout_quote_bad_def checkout_fail_def)
qed

text \<open>The example: the catalog confirms the item, fulfillment accepts, and evidence is returned.\<close>

definition example_checkout_line :: checkout_line where
  "example_checkout_line =
     \<lparr>kl_cartItemReference = ''01890000-0000-7000-8000-000000000053'',
      kl_sellableReference = ''01890000-0000-7000-8000-000000000030'',
      kl_menuVersionReference = ''01890000-0000-7000-8000-000000000055'',
      kl_productVersionReference = ''01890000-0000-7000-8000-000000000054'',
      kl_validatedAt = ''2026-06-01T12:10:00.000Z''\<rparr>"

lemma example_checkout_answers:
  "map_res (checkout_answer example_quoted_cart ''2026-06-01T12:10:00.000Z'')
     (zip [example_selection_answer] (ca_items example_quoted_cart)) = Inr [example_checkout_line]"
  by (simp add: example_quoted_cart_def example_cart_def example_item_def checkout_answer_def checkout_line_evidence_def
      example_selection_answer_def selection_changed_def example_checkout_line_def parseOrderingReference_def
      parseOrderingInstant_def example_cart_facts example_quoted_facts channel_name_def order_type_name_def)

lemma example_checkout_fulfilled:
  assumes "uuid_v7 q"
  shows "checkout_fulfillment_answer (checkout_fulfillment_js (example_fulfillment q)) example_quoted_cart q
     ''2026-06-01T12:10:00.000Z'' = Inr (example_fulfillment q)"
  using assms
  by (simp add: checkout_fulfillment_answer_def fulfillment_evidence_def checkout_fulfillment_js_def example_fulfillment_def
      fulfillment_fields_def parseOrderingReference_def parseOrderingInstant_def parseOrderingHash_def
      example_quoted_cart_def example_cart_def example_cart_facts example_quoted_facts max_safe_def)

lemma example_checkout:
  assumes a: "verifyQuote (example_object q) example_quoted_cart ''01890000-0000-7000-8000-000000000061'' example_digest
       ''01890000-0000-7000-8000-000000000062'' ''2026-06-01T12:10:00.000Z'' = Inr a"
  shows "validate_checkout (example_checkout_ports a) (example_checkout_request a) =
      Inr (built_evidence (example_checkout_parsed a) example_digest example_quoted_cart example_guest a
        [example_checkout_line] (example_fulfillment (at_quoteReference a)))"
proof -
  let ?req = "example_checkout_parsed a" and ?f = "example_fulfillment (at_quoteReference a)"
  let ?e = "built_evidence ?req example_digest example_quoted_cart example_guest a [example_checkout_line] ?f"
  have va: "valid_attachment a" using verified_attachment [OF a] by blast
  then have ref: "uuid_v7 (at_quoteReference a)" by (simp add: valid_attachment_def)
  note input = example_checkout_input [OF ref]
  have t: "kr_requestedAt ?req = ''2026-06-01T12:10:00.000Z''" by (simp add: example_checkout_parsed_def)
  have q: "ms_of (kr_requestedAt ?req) < ms_of (at_quoteExpiresAt a)"
    using verifyQuote_body_Inr [OF a [unfolded verifyQuote_Inr] example_quoted_cart_valid] t by simp
  have u: "usable_guest (guest_session_js example_guest) (kr_requestedAt ?req) = Inr example_guest"
    and l: "assertCartLifecycleActive (ca_lifecycle example_quoted_cart) (kr_requestedAt ?req) = Inr example_lifecycle"
    and f: "checkout_fulfillment_answer (checkout_fulfillment_js ?f) example_quoted_cart (kr_quoteReference ?req)
      (kr_requestedAt ?req) = Inr ?f"
    and li: "map_res (checkout_answer example_quoted_cart (kr_requestedAt ?req))
       (zip [example_selection_answer] (ca_items example_quoted_cart)) = Inr [example_checkout_line]"
    using example_checkout_usable example_checkout_active example_checkout_fulfilled [OF ref] example_checkout_answers
    by (simp_all add: example_checkout_parsed_def)
  have v: "kr_expectedCartVersion ?req = ca_aggregateVersion example_quoted_cart" "kr_quoteReference ?req = at_quoteReference a"
    and one: "length (ca_items example_quoted_cart) = 1"
    by (simp_all add: example_checkout_parsed_def example_quoted_cart_def example_cart_def)
  have sub: "checkout_subject ?req (guest_session_js example_guest) (cart_js example_quoted_cart) (attachment_js a) =
      Inr (example_quoted_cart, example_guest, a)"
    using attached_subject [OF a example_quoted_cart_valid v u example_checkout_within l] q by simp
  then obtain "\<not> checkout_quote_bad a example_quoted_cart (kr_quoteReference ?req)" "ca_items example_quoted_cart \<noteq> []"
    by (rule checkout_subject_Inr)
  then have e: "valid_checkout ?e"
    using built_evidence_valid [OF input example_quoted_facts(8) example_quoted_cart_valid _ u va _
        checkout_lines_confirm [OF li] f l q] one by simp
  have fv: "valid_fulfillment ?f" "kf_checkedAt ?f = kr_requestedAt ?req"
    using fulfillment_evidence_Inr [OF f example_quoted_cart_valid] ref v by simp_all
  note d = checkout_deadline_facts [OF va fv(1) example_quoted_cart_valid l _ q fv(2)]
  have answers: "map_res (\<lambda>i. checkout_asked (kp_validateSelection (example_checkout_ports a)
      (selection_question_for example_quoted_cart (kr_requestedAt ?req) i))) (ca_items example_quoted_cart) =
      Inr [example_selection_answer]"
    using one by (cases "ca_items example_quoted_cart") (simp_all add: example_checkout_ports_def checkout_asked_def)
  have qr: "fq_quoteReference (fulfillment_question_for example_quoted_cart (kr_quoteReference ?req) (kr_requestedAt ?req)) =
      at_quoteReference a"
    using v by (simp add: fulfillment_question_for_def)
  have "uuid_v7 (gs_sessionReference example_guest)" by (simp add: example_guest_def example_cart_facts)
  moreover have "canonical_instant (kr_requestedAt ?req)" by (simp add: t example_cart_facts)
  ultimately show ?thesis
    using sub li f d answers qr checkout.parse_print [OF e]
    by (simp add: validate_checkout_def input example_checkout_ports_def checkout_asked_def parseOrderingHash_def
        example_quoted_facts parseOrderingInstant_def canonical_to_iso parseOrderingReference_def built_evidence_def)
qed

text \<open>
  C36. What the attachment service verified, checkout accepts: a quote attached to a cart is found to fit that
  cart at the same version until the quote expires, and is refused as expired from that instant on. The two
  services check the lines of the quote independently, one by searching for every item, one with a map.
\<close>

theorem attached_quote_checks_out:
  assumes "verifyQuote v c operation intent g t0 = Inr a" and "valid_cart c"
    and "kr_expectedCartVersion req = ca_aggregateVersion c" and "kr_quoteReference req = at_quoteReference a"
    and "usable_guest guest (kr_requestedAt req) = Inr s" and "\<not> outside_scope s (cart_scope c)"
    and "assertCartLifecycleActive (ca_lifecycle c) (kr_requestedAt req) = Inr l"
  shows "checkout_subject req guest (cart_js c) (attachment_js a) =
    (if ms_of (kr_requestedAt req) < ms_of (at_quoteExpiresAt a) then Inr (c, s, a)
     else Inl (CheckoutValidationError CHECKOUT_QUOTE_EXPIRED))"
  by (rule attached_subject [OF assms])

theorem attached_quote_checks_out_witness:
  "\<exists>q a. createPriceQuote example_zone example_quote_input = Inr q \<and>
     checkout_subject (example_checkout_parsed a) (guest_session_js example_guest) (cart_js example_quoted_cart)
       (attachment_js a) = Inr (example_quoted_cart, example_guest, a)"
proof -
  from example_attachment obtain q a where q: "createPriceQuote example_zone example_quote_input = Inr q" and
    a: "verifyQuote (example_object q) example_quoted_cart ''01890000-0000-7000-8000-000000000061'' example_digest
       ''01890000-0000-7000-8000-000000000062'' ''2026-06-01T12:10:00.000Z'' = Inr a" by blast
  have "ms_of ''2026-06-01T12:10:00.000Z'' < ms_of (at_quoteExpiresAt a)"
    using verifyQuote_body_Inr [OF a [unfolded verifyQuote_Inr] example_quoted_cart_valid] by simp
  then have "checkout_subject (example_checkout_parsed a) (guest_session_js example_guest) (cart_js example_quoted_cart)
       (attachment_js a) = Inr (example_quoted_cart, example_guest, a)"
    using attached_quote_checks_out [OF a example_quoted_cart_valid, of "example_checkout_parsed a"]
      example_checkout_usable example_checkout_within example_checkout_active
    by (simp add: example_checkout_parsed_def example_quoted_cart_def example_cart_def)
  with q show ?thesis by blast
qed

text \<open>
  C35. Checkout evidence means what it says: whatever the ports answer, evidence is returned only for a usable
  guest session within the scope of the loaded cart, which has items, is at the version that was expected and
  before its deadlines; the attached quote is of that cart, brand, store and version and quotes its items one to one; the catalog was asked
  about every item and confirmed the versions the item was added with; and the evidence ends, after the
  request, at the first of the deadlines of the quote, the fulfillment and the cart.
\<close>

theorem checkout_sound:
  assumes "validate_checkout ports v = Inr e"
  shows "\<exists>req guest s c a l f lc lq.
    checkout_input v = Inr req \<and>
    kp_authorize ports (kr_cartReference req) (kr_validationReference req) (kr_requestedAt req) = Inr (Some guest) \<and>
    usable_guest guest (kr_requestedAt req) = Inr s \<and> \<not> outside_scope s (cart_scope c) \<and>
    kp_loadCart ports (kr_cartReference req) = Inr lc \<and> parseCartAggregate lc = Inr c \<and>
    ca_aggregateVersion c = kr_expectedCartVersion req \<and> ca_items c \<noteq> [] \<and>
    assertCartLifecycleActive (ca_lifecycle c) (kr_requestedAt req) = Inr l \<and>
    kp_loadQuote ports (kr_cartReference req) = Inr lq \<and> parseCartQuoteAttachment lq = Inr a \<and>
    at_cartReference a = ca_cartReference c \<and> at_cartVersion a = ca_aggregateVersion c \<and>
    at_brandReference a = ca_brandReference c \<and> at_storeReference a = ca_storeReference c \<and>
    quotes_items (at_lines a) (ca_items c) \<and>
    list_all2 (\<lambda>i l. line_confirms (kr_requestedAt req) i l \<and>
      (\<exists>r. kp_validateSelection ports (selection_question_for c (kr_requestedAt req) i) = Inr r \<and>
           checkout_answer c (kr_requestedAt req) (r, i) = Inr l)) (ca_items c) (ck_catalogLines e) \<and>
    ck_cartReference e = ca_cartReference c \<and> ck_cartVersion e = ca_aggregateVersion c \<and>
    ck_quoteReference e = at_quoteReference a \<and> ck_quoteReference e = kr_quoteReference req \<and>
    ck_quoteInputDigest e = at_quoteInputDigest a \<and> ck_guestSessionReference e = gs_sessionReference s \<and>
    ck_fulfillment e = f \<and> kf_cartVersion f = ca_aggregateVersion c \<and>
    ck_validatedAt e = kr_requestedAt req \<and> ms_of (ck_validatedAt e) < ms_of (ck_validUntil e) \<and>
    ms_of (ck_validUntil e) = checkout_deadline a f c"
proof (rule validate_checkout_Inr [OF assms])
  fix guest lc lq answers r and req :: checkout_request and c :: cart_aggregate and s :: guest_session
    and a :: cart_quote_attachment and l :: cart_lifecycle and f :: checkout_fulfillment
  let ?t = "kr_requestedAt req"
  assume h: "checkout_input v = Inr req"
    "kp_authorize ports (kr_cartReference req) (kr_validationReference req) ?t = Inr (Some guest)"
    "kp_loadCart ports (kr_cartReference req) = Inr lc" "kp_loadQuote ports (kr_cartReference req) = Inr lq"
    "parseCartAggregate lc = Inr c" "ca_aggregateVersion c = kr_expectedCartVersion req"
    "assertCartLifecycleActive (ca_lifecycle c) ?t = Inr l"
    "usable_guest guest ?t = Inr s" "\<not> outside_scope s (cart_scope c)" "ca_items c \<noteq> []"
    "parseCartQuoteAttachment lq = Inr a" "quotes_items (at_lines a) (ca_items c)"
    and b: "\<not> checkout_quote_bad a c (kr_quoteReference req)" and q: "ms_of ?t < ms_of (at_quoteExpiresAt a)"
    and an: "map_res (\<lambda>i. checkout_asked (kp_validateSelection ports (selection_question_for c ?t i))) (ca_items c) = Inr answers"
    and li: "map_res (checkout_answer c ?t) (zip answers (ca_items c)) = Inr (ck_catalogLines e)"
    and fu: "checkout_fulfillment_answer r c (kr_quoteReference req) ?t = Inr f"
    and e: "e = built_evidence req (kp_hashIntent ports (checkout_intent req)) c s a (ck_catalogLines e) f"
  have t: "canonical_instant ?t" "uuid_v7 (kr_quoteReference req)" using checkout_input_Inr [OF h(1)] by blast+
  note f = fulfillment_evidence_Inr [OF fu cart.parse_valid [OF h(5)] t(2)]
  have d: "iso_time (checkout_deadline a f c)" "ms_of ?t < checkout_deadline a f c"
    using f by (blast intro: checkout_deadline_facts [OF attachment.parse_valid [OF h(11)] _ cart.parse_valid [OF h(5)] h(7) t(1) q])+
  have "list_all2 (\<lambda>i l. line_confirms ?t i l \<and>
      (\<exists>r. kp_validateSelection ports (selection_question_for c ?t i) = Inr r \<and>
           checkout_answer c ?t (r, i) = Inr l)) (ca_items c) (ck_catalogLines e)"
    using asked_and_answered [OF an li] checkout_lines_confirm [OF li map_res_length [OF an]]
    by (simp add: list_all2_conv_all_nth checkout_asked_Inr)
  moreover have "ck_cartReference e = ca_cartReference c \<and> ck_cartVersion e = ca_aggregateVersion c \<and>
    ck_quoteReference e = at_quoteReference a \<and> ck_quoteInputDigest e = at_quoteInputDigest a \<and>
    ck_guestSessionReference e = gs_sessionReference s \<and> ck_fulfillment e = f \<and> ck_validatedAt e = ?t \<and>
    ck_validUntil e = to_iso (checkout_deadline a f c)"
    by (subst (1 2 3 4 5 6 7 8) e) (simp add: built_evidence_def)
  ultimately show ?thesis
    using h b d f by (intro exI [of _ req] exI [of _ guest] exI [of _ s] exI [of _ c] exI [of _ a] exI [of _ l]
        exI [of _ f] exI [of _ lc] exI [of _ lq]) (simp add: checkout_quote_bad_def)
qed

theorem checkout_sound_witness:
  "\<exists>q a e. createPriceQuote example_zone example_quote_input = Inr q \<and>
     validate_checkout (example_checkout_ports a) (example_checkout_request a) = Inr e \<and>
     ck_cartVersion e = 3 \<and> quotes_items (at_lines a) (ca_items example_quoted_cart) \<and>
     ms_of (ck_validatedAt e) < ms_of (ck_validUntil e)"
proof -
  from example_attachment obtain q a where q: "createPriceQuote example_zone example_quote_input = Inr q" and
    a: "verifyQuote (example_object q) example_quoted_cart ''01890000-0000-7000-8000-000000000061'' example_digest
       ''01890000-0000-7000-8000-000000000062'' ''2026-06-01T12:10:00.000Z'' = Inr a" by blast
  note e = example_checkout [OF a]
  have va: "valid_attachment a" using verified_attachment [OF a] by blast
  let ?ports = "example_checkout_ports a"
  let ?e = "built_evidence (example_checkout_parsed a) example_digest example_quoted_cart example_guest a
    [example_checkout_line] (example_fulfillment (at_quoteReference a))"
  from checkout_sound [OF e] obtain lc lq and req :: checkout_request
    and c :: cart_aggregate and a' :: cart_quote_attachment where
    "kp_loadCart ?ports (kr_cartReference req) = Inr lc" "parseCartAggregate lc = Inr c"
    "kp_loadQuote ?ports (kr_cartReference req) = Inr lq" "parseCartQuoteAttachment lq = Inr a'"
    "quotes_items (at_lines a') (ca_items c)" "ms_of (ck_validatedAt ?e) < ms_of (ck_validUntil ?e)"
    by (elim exE conjE) (rule that; assumption)
  moreover from this(1-4) have "c = example_quoted_cart" "a' = a"
    using cart.parse_print [OF example_quoted_cart_valid] attachment.parse_print [OF va]
    by (auto simp: example_checkout_ports_def)
  moreover have "ck_cartVersion ?e = 3" by (simp add: built_evidence_def example_quoted_cart_def example_cart_def)
  ultimately show ?thesis using q e by blast
qed

end
