(* ===== verification/OrderPlacement.thy ===== *)
theory OrderPlacement
  imports OrderLines CheckoutService
begin

text \<open>
  Snapshots and order together: \<open>order-item-snapshot.ts\<close> and \<open>order.ts\<close> of
  \<open>packages/rms/ordering/src/domain\<close>, called by \<open>application/order-creation-service.ts\<close> with the inputs
  defined here. What the first accepts, the second accepts.
\<close>

section \<open>The inputs the service passes\<close>

definition snapshots_input :: "string \<Rightarrow> string \<Rightarrow> string \<Rightarrow> checkout_evidence \<Rightarrow> cart_aggregate \<Rightarrow> js list \<Rightarrow> js" where
  "snapshots_input oref batch at e c lines = JObj
     [(''orderReference'', JStr oref), (''orderBatchReference'', JStr batch), (''snapshotCapturedAt'', JStr at),
      (''checkoutValidationEvidence'', checkout_evidence_js e), (''cart'', cart_js c), (''lines'', JArr lines)]"

definition item_identity_input :: "item_snapshot \<Rightarrow> js" where
  "item_identity_input s = JObj
     [(''orderItemReference'', JStr (ns_orderItemReference s)), (''cartItemReference'', JStr (ns_cartItemReference s))]"

definition order_input ::
  "string \<Rightarrow> string \<Rightarrow> string \<Rightarrow> cart_aggregate \<Rightarrow> string \<Rightarrow> string \<Rightarrow> checkout_evidence \<Rightarrow> item_snapshot list \<Rightarrow> js" where
  "order_input oref batch submission c guest at e xs = JObj
     [(''orderReference'', JStr oref), (''orderBatchReference'', JStr batch), (''submissionReference'', JStr submission),
      (''diningSessionReference'', js_opt JStr (ca_diningSessionReference c)),
      (''createdByActorReference'', JStr (ca_createdByActorReference c)),
      (''submittedByActorReference'', JStr guest), (''submittedAt'', JStr at),
      (''checkoutValidationEvidence'', checkout_evidence_js e), (''items'', JArr (map item_identity_input xs))]"

section \<open>What the snapshots say\<close>

definition identity_of :: "string \<Rightarrow> item_snapshot \<Rightarrow> order_item_identity" where
  "identity_of batch s = \<lparr>oi_orderItemReference = ns_orderItemReference s, oi_orderBatchReference = batch,
     oi_cartItemReference = ns_cartItemReference s\<rparr>"

lemma identity_of_fields [simp]:
  "oi_orderItemReference \<circ> identity_of batch = ns_orderItemReference"
  "oi_cartItemReference \<circ> identity_of batch = ns_cartItemReference"
  by (simp_all add: fun_eq_iff identity_of_def)

text \<open>A snapshot holds an item of the cart, priced by the quote of the evidence, and its amounts balance.\<close>

definition snapshot_of_item :: "checkout_evidence \<Rightarrow> cart_item \<Rightarrow> item_snapshot \<Rightarrow> bool" where
  "snapshot_of_item e i s \<longleftrightarrow>
     ns_cartItemReference s = ci_cartItemReference i \<and> ns_quantity s = ci_quantity i \<and>
     ns_customerNote s = ci_customerNote i \<and> ns_addedByActorReference s = ci_addedByActorReference i \<and>
     nc_sellableReference (ns_catalog s) = ci_sellableReference i \<and>
     mset (map (\<lambda>p. (no_optionReference p, no_quantity p)) (nc_options (ns_catalog s))) =
       mset (map (\<lambda>o'. (co_optionReference o', co_quantity o')) (ci_optionSelections i)) \<and>
     np_quoteReference (ns_pricing s) = ck_quoteReference e \<and>
     np_quoteInputDigest (ns_pricing s) = ck_quoteInputDigest e \<and>
     0 \<le> nm_amountMinor (np_total (ns_pricing s)) \<and>
     nm_amountMinor (np_total (ns_pricing s)) =
       nm_amountMinor (np_subtotal (ns_pricing s)) - nm_amountMinor (np_discount (ns_pricing s)) +
       sum_list (map (\<lambda>c. nm_amountMinor (nt_taxAmount c)) (np_taxComponents (ns_pricing s))) +
       nm_amountMinor (np_fee (ns_pricing s))"

lemma distinct_pairs: "distinct (map f xs) \<Longrightarrow> distinct (map (\<lambda>x. (f x, g x)) xs)"
  by (auto simp: distinct_map inj_on_def)

lemma option_selected:
  assumes "\<not> option_unselected i rules p"
  shows "(no_optionReference p, no_quantity p) \<in> (\<lambda>s. (co_optionReference s, co_quantity s)) ` set (ci_optionSelections i)"
  using assms by (auto simp: option_unselected_def image_iff split: option.splits dest!: find_SomeD) metis

lemma snapshot_line_of_item:
  assumes "order_line_snapshot e c batch at v = Inr s" and "valid_cart c"
  shows "\<exists>i \<in> set (ca_items c). snapshot_of_item e i s \<and> ns_orderBatchReference s = batch \<and>
    ns_snapshotCapturedAt s = at \<and> valid_snapshot s"
proof (rule order_line_snapshot_Inr [OF assms])
  fix i l selection
  assume i: "i \<in> set (ca_items c)" and v: "valid_snapshot s" and g: "\<not> catalog_disagrees e i selection l at (ns_catalog s)"
    and p: "\<not> pricing_disagrees e c i selection (ns_catalog s) (ns_pricing s)"
    and s: "s = \<lparr>ns_orderItemReference = ns_orderItemReference s, ns_orderBatchReference = batch,
          ns_cartItemReference = ci_cartItemReference i, ns_quantity = ci_quantity i,
          ns_customerNote = ci_customerNote i, ns_addedByActorReference = ci_addedByActorReference i,
          ns_addedByParticipantReference = ci_addedByParticipantReference i, ns_addedAt = ci_addedAt i,
          ns_catalog = ns_catalog s, ns_pricing = ns_pricing s, ns_snapshotCapturedAt = at\<rparr>"
  have "valid_item i" using assms(2) i by (simp add: valid_cart_def list_all_iff)
  then have d: "distinct (map co_optionReference (ci_optionSelections i))" by (simp add: valid_item_def)
  have d': "distinct (map no_optionReference (nc_options (ns_catalog s)))"
    using v by (simp add: valid_snapshot_def valid_catalog_def)
  have o': "mset (map (\<lambda>p. (no_optionReference p, no_quantity p)) (nc_options (ns_catalog s))) =
       mset (map (\<lambda>o'. (co_optionReference o', co_quantity o')) (ci_optionSelections i))"
  proof (rule same_references [OF _ distinct_pairs [OF d'] distinct_pairs [OF d]])
    show "length (nc_options (ns_catalog s)) = length (ci_optionSelections i)"
      using g by (simp add: catalog_disagrees_def)
    fix p assume "p \<in> set (nc_options (ns_catalog s))"
    then show "(no_optionReference p, no_quantity p) \<in> (\<lambda>o'. (co_optionReference o', co_quantity o')) ` set (ci_optionSelections i)"
      using g by (intro option_selected [where rules = "cs_ruleEvidence selection"]) (auto simp: catalog_disagrees_def list_ex_iff)
  qed
  have "\<not> pricing_amounts_bad (np_unitPrice (ns_pricing s)) (np_subtotal (ns_pricing s)) (np_discount (ns_pricing s))
     (np_tax (ns_pricing s)) (np_fee (ns_pricing s)) (np_total (ns_pricing s)) (np_priceResolution (ns_pricing s))
     (np_taxComponents (ns_pricing s))"
    using v by (simp add: valid_snapshot_def valid_pricing_def)
  then have "snapshot_of_item e i s"
    using g p o' by (subst s) (simp add: snapshot_of_item_def catalog_disagrees_def pricing_disagrees_def pricing_amounts_bad_def)
  moreover have "ns_orderBatchReference s = batch" "ns_snapshotCapturedAt s = at" by (subst s, simp)+
  ultimately show ?thesis using i v by blast
qed

lemma snapshots_of_items:
  assumes "map_res (order_line_snapshot e c batch at) vs = Inr xs" and "valid_cart c" and "\<not> snapshots_bad c oref batch xs"
  shows "mset (map ns_cartItemReference xs) = mset (map ci_cartItemReference (ca_items c))"
    and "list_all (\<lambda>s. \<exists>i \<in> set (ca_items c). snapshot_of_item e i s) xs"
    and "list_all (\<lambda>s. ns_orderBatchReference s = batch \<and> ns_snapshotCapturedAt s = at \<and> valid_snapshot s) xs"
proof -
  have each: "\<exists>i \<in> set (ca_items c). snapshot_of_item e i s \<and> ns_orderBatchReference s = batch \<and>
    ns_snapshotCapturedAt s = at \<and> valid_snapshot s" if "s \<in> set xs" for s
    using map_res_in [OF assms(1) that] snapshot_line_of_item [OF _ assms(2)] by blast
  then show "list_all (\<lambda>s. \<exists>i \<in> set (ca_items c). snapshot_of_item e i s) xs"
    and "list_all (\<lambda>s. ns_orderBatchReference s = batch \<and> ns_snapshotCapturedAt s = at \<and> valid_snapshot s) xs"
    by (auto simp: list_all_iff)
  show "mset (map ns_cartItemReference xs) = mset (map ci_cartItemReference (ca_items c))"
  proof (rule same_references)
    show "length xs = length (ca_items c)" "distinct (map ns_cartItemReference xs)"
      using assms(3) by (simp_all add: snapshots_bad_def)
    show "distinct (map ci_cartItemReference (ca_items c))" using valid_cart_items [OF assms(2)] by simp
    show "ns_cartItemReference s \<in> ci_cartItemReference ` set (ca_items c)" if "s \<in> set xs" for s
      using each [OF that] by (auto simp: snapshot_of_item_def)
  qed
qed

section \<open>From snapshots to the order\<close>

definition new_order ::
  "string \<Rightarrow> string \<Rightarrow> string \<Rightarrow> cart_aggregate \<Rightarrow> string \<Rightarrow> string \<Rightarrow> checkout_evidence \<Rightarrow> item_snapshot list \<Rightarrow> order_aggregate" where
  "new_order oref batch submission c guest at e xs =
     \<lparr>oa_orderReference = oref, oa_brandReference = ck_brandReference e, oa_storeReference = ck_storeReference e,
      oa_orderType = JStr (order_type_name (ck_orderType e)), oa_sourceChannel = JStr (channel_name (ck_sourceChannel e)),
      oa_diningSessionReference = ca_diningSessionReference c, oa_createdByActorReference = ca_createdByActorReference c,
      oa_submittedByActorReference = guest, oa_createdAt = at,
      oa_batch =
        \<lparr>ob_orderBatchReference = batch, ob_orderReference = oref, ob_submissionReference = submission,
         ob_sourceCartReference = ck_cartReference e, ob_sourceCartVersion = ck_cartVersion e,
         ob_checkoutValidationReference = ck_validationReference e, ob_quoteReference = ck_quoteReference e,
         ob_submittedByActorReference = guest, ob_submittedAt = at, ob_items = map (identity_of batch) xs\<rparr>\<rparr>"

lemma item_identities:
  assumes "list_all valid_snapshot xs"
  shows "map_res (itemIdentity batch) (map item_identity_input xs) = Inr (map (identity_of batch) xs)"
  using assms
  by (induction xs) (simp_all add: itemIdentity_def item_identity_input_def identity_of_def order_closed_def
      parseOrderingReference_def valid_snapshot_def)

lemma snapshots_input_fields:
  assumes "createOrderItemSnapshots (snapshots_input oref batch at e c ls) = Inr xs" and "valid_checkout e" and "valid_cart c"
  shows "uuid_v7 oref" "uuid_v7 batch" "canonical_instant at" "ms_of at < ms_of (ck_validUntil e)"
    "\<not> snapshot_source_bad e c oref batch at" "map_res (order_line_snapshot e c batch at) ls = Inr xs"
    "\<not> snapshots_bad c oref batch xs" "1 \<le> length xs" "length xs \<le> 100"
  using createOrderItemSnapshots_Inr [OF assms(1)] checkout.parse_print [OF assms(2)] cart.parse_print [OF assms(3)]
  by (auto simp: snapshots_input_def)

lemma snapshot_line_evidence:
  assumes "map_res (order_line_snapshot e c batch at) ls = Inr xs" and "valid_cart c"
  shows "list_all (\<lambda>s. ns_cartItemReference s \<in> set (map kl_cartItemReference (ck_catalogLines e))) xs"
proof -
  have "ns_cartItemReference s \<in> kl_cartItemReference ` set (ck_catalogLines e)" if "order_line_snapshot e c batch at v = Inr s" for v s
  proof (rule order_line_snapshot_Inr [OF that assms(2)])
    fix i l
    assume l: "l \<in> set (ck_catalogLines e)" "kl_cartItemReference l = ci_cartItemReference i"
      and s: "s = \<lparr>ns_orderItemReference = ns_orderItemReference s, ns_orderBatchReference = batch,
          ns_cartItemReference = ci_cartItemReference i, ns_quantity = ci_quantity i,
          ns_customerNote = ci_customerNote i, ns_addedByActorReference = ci_addedByActorReference i,
          ns_addedByParticipantReference = ci_addedByParticipantReference i, ns_addedAt = ci_addedAt i,
          ns_catalog = ns_catalog s, ns_pricing = ns_pricing s, ns_snapshotCapturedAt = at\<rparr>"
    show ?thesis using l(1) l(2) [symmetric] by (subst s) auto
  qed
  then show ?thesis using map_res_in [OF assms(1)] by (fastforce simp: list_all_iff)
qed

lemma placed_items_good:
  assumes "createOrderItemSnapshots (snapshots_input oref batch at e c ls) = Inr xs" and "valid_checkout e" and "valid_cart c"
  shows "\<not> order_items_bad e (ca_diningSessionReference c) oref batch (map (identity_of batch) xs)"
proof -
  note f = snapshots_input_fields [OF assms]
  have refs: "map oi_orderItemReference (map (identity_of batch) xs) = map ns_orderItemReference xs"
    "map oi_cartItemReference (map (identity_of batch) xs) = map ns_cartItemReference xs"
    by (simp_all add: identity_of_def comp_def)
  have "distinct (map kl_cartItemReference (ck_catalogLines e))"
    using assms(2) by (simp add: valid_checkout_def checkout_inconsistent_def)
  from distinct_card [OF this] have n: "card (set (map kl_cartItemReference (ck_catalogLines e))) = length (ck_catalogLines e)"
    by simp
  have len: "length xs = length (ck_catalogLines e)"
    using f(5,7) by (simp add: snapshot_source_bad_def snapshots_bad_def)
  have d: "distinct (map ns_orderItemReference xs)" "distinct (map ns_cartItemReference xs)"
    "\<not> list_ex (\<lambda>s. ns_orderItemReference s = oref \<or> ns_orderItemReference s = batch) xs" "oref \<noteq> batch"
    using f(5,7) by (simp_all add: snapshot_source_bad_def snapshots_bad_def)
  then have ids: "distinct (order_identities oref batch (map (identity_of batch) xs))"
    unfolding order_identities_def refs by (auto simp: list_ex_iff)
  have "(ca_orderType c = cart_order_type.DineIn) = (ca_diningSessionReference c \<noteq> None)" "ca_orderType c = ck_orderType e"
    using assms(3) f(5) by (simp_all add: valid_cart_def cart_times_bad_def snapshot_source_bad_def)
  then show ?thesis
    using n len d ids snapshot_line_evidence [OF f(6) assms(3)] refs
    by (auto simp: order_items_bad_def list_ex_iff list_all_iff identity_of_def)
qed

lemma new_order_valid:
  assumes s: "createOrderItemSnapshots (snapshots_input oref batch at e c ls) = Inr xs" and e: "valid_checkout e"
    and c: "valid_cart c" and "uuid_v7 submission" and "uuid_v7 guest"
  shows "valid_order (new_order oref batch submission c guest at e xs)"
proof -
  note f = snapshots_input_fields [OF s e c] and g = placed_items_good [OF s e c]
  note v = snapshots_of_items [OF f(6) c f(7)]
  have "list_all valid_order_item (map (identity_of batch) xs)"
    using v(3) f(2) by (auto simp: list_all_iff valid_order_item_def identity_of_def valid_snapshot_def)
  moreover have "(order_type_name (ck_orderType e) = ''DineIn'') = (ck_orderType e = cart_order_type.DineIn)"
    by (cases "ck_orderType e") (simp_all add: order_type_name_def)
  moreover have "order_type_name (ck_orderType e) \<in> {''DineIn'', ''Pickup''}" "channel_name (ck_sourceChannel e) \<in> {''Api'', ''Pos'', ''Qr'', ''Web''}"
    by (cases "ck_orderType e"; simp add: order_type_name_def) (cases "ck_sourceChannel e"; simp add: channel_name_def)
  moreover have "\<not> batch_items_bad batch (map (identity_of batch) xs)"
    using g by (auto simp: batch_items_bad_def order_items_bad_def order_identities_def list_ex_iff identity_of_def)
  ultimately show ?thesis
    using f g e c assms(4,5)
    by (simp add: valid_order_def new_order_def valid_batch_def order_inconsistent_def valid_checkout_def valid_cart_def
        order_items_bad_def)
qed

lemma snapshots_then_order:
  assumes s: "createOrderItemSnapshots (snapshots_input oref batch at e c ls) = Inr xs" and e: "valid_checkout e"
    and c: "valid_cart c" and "uuid_v7 submission" and "uuid_v7 guest"
  shows "createOrderAggregate (order_input oref batch submission c guest at e xs) =
    Inr (new_order oref batch submission c guest at e xs)"
proof -
  note f = snapshots_input_fields [OF s e c] and v = new_order_valid [OF assms]
  have session: "nullable parseOrderingReference (js_opt JStr (ca_diningSessionReference c)) = Inr (ca_diningSessionReference c)"
    using c by (simp add: valid_cart_def ref.nullable_parse_print)
  have items: "map_res (itemIdentity batch) (map item_identity_input xs) = Inr (map (identity_of batch) xs)"
    using snapshots_of_items(3) [OF f(6) c f(7)] by (intro item_identities) (simp add: list_all_iff)
  have late: "\<not> ms_of at < ms_of (ck_validatedAt e)" using f(5) by (simp add: snapshot_source_bad_def)
  have creator: "uuid_v7 (ca_createdByActorReference c)" using c by (simp add: valid_cart_def)
  have "xs \<noteq> []" using f(8) by auto
  then show ?thesis
    using f late creator session items placed_items_good [OF s e c] assms(4,5) order.parse_print [OF v]
    by (simp add: createOrderAggregate_def order_input_def order_evidence_def checkout.parse_print [OF e] order_parse_Inr
        order_closed_def order_items_array_def parseOrderingReference_def parseOrderingInstant_def order_guard_def
        new_order_def)
qed

section \<open>An example: the order of the dining guest\<close>

definition example_catalog :: snapshot_catalog where
  "example_catalog =
     \<lparr>nc_snapshotReference = ''01890000-0000-7000-8000-000000000040'', nc_snapshotDigest = example_digest,
      nc_brandReference = ''01890000-0000-7000-8000-000000000012'',
      nc_storeReference = ''01890000-0000-7000-8000-000000000013'',
      nc_sellableReference = ''01890000-0000-7000-8000-000000000030'',
      nc_productReference = ''01890000-0000-7000-8000-000000000041'',
      nc_productVersionReference = ''01890000-0000-7000-8000-000000000054'',
      nc_skuReference = ''01890000-0000-7000-8000-000000000042'',
      nc_menuVersionReference = ''01890000-0000-7000-8000-000000000055'',
      nc_localizedNames = [(''en-NZ'', ''Soup'')], nc_unitOfSale = ''EACH'', nc_unitQuantity = ''1'',
      nc_taxClassificationReference = ''01890000-0000-7000-8000-000000000051'', nc_options = [],
      nc_capturedAt = ''2026-06-01T12:10:00.000Z''\<rparr>"

definition nzd :: "int \<Rightarrow> snapshot_money" where
  "nzd n = \<lparr>nm_amountMinor = n, nm_currencyCode = ''NZD''\<rparr>"

definition example_pricing :: "cart_quote_attachment \<Rightarrow> snapshot_pricing" where
  "example_pricing a =
     \<lparr>np_quoteReference = at_quoteReference a, np_quoteInputDigest = at_quoteInputDigest a,
      np_lineReference = ''01890000-0000-7000-8000-000000000053'',
      np_sellableReference = ''01890000-0000-7000-8000-000000000030'', np_quantity = 2,
      np_currencyMinorUnitExponent = 2, np_currencyMetadataVersion = 1,
      np_currencyMetadataVersionReference = ''01890000-0000-7000-8000-000000000061'',
      np_currencyMetadataDigest = example_digest, np_unitPrice = nzd 1000, np_subtotal = nzd 2000, np_discount = nzd 0,
      np_tax = nzd 300, np_fee = nzd 0, np_total = nzd 2300,
      np_priceResolution =
        \<lparr>nr_priceBookReference = ''01890000-0000-7000-8000-000000000061'',
         nr_priceBookVersionReference = ''01890000-0000-7000-8000-000000000061'', nr_priceBookDigest = example_digest,
         nr_priceEntryReference = ''01890000-0000-7000-8000-000000000062'', nr_unitPrice = nzd 1000,
         nr_scopeKind = JStr ''Brand'', nr_scopeReference = None, nr_channelCode = Some ''KIOSK'',
         nr_orderType = Some cart_order_type.DineIn, nr_priority = 0,
         nr_effectiveFrom = ''2026-06-01T12:00:00.000Z'', nr_effectiveUntil = None, nr_reasonCode = ''BASE''\<rparr>,
      np_taxConfigurationReference = ''01890000-0000-7000-8000-000000000061'',
      np_taxConfigurationVersionReference = ''01890000-0000-7000-8000-000000000062'',
      np_taxConfigurationDigest = example_digest, np_taxEffectiveFrom = ''2026-06-01T12:00:00.000Z'',
      np_taxEffectiveUntil = None,
      np_taxComponents =
        [\<lparr>nt_ruleVersionReference = ''01890000-0000-7000-8000-000000000062'', nt_ruleVersionDigest = example_digest,
          nt_jurisdictionCode = ''NZ'', nt_taxComponentCode = ''GST'',
          nt_taxClassificationReference = ''01890000-0000-7000-8000-000000000051'', nt_treatment = JStr ''Taxable'',
          nt_rate = ''0.15'', nt_priceInclusion = JStr ''Exclusive'', nt_roundingMode = JStr ''HalfUp'',
          nt_calculationOrder = 1, nt_compoundOnPriorTax = False, nt_taxAmount = nzd 300\<rparr>],
      np_quotedAt = ''2026-06-01T12:05:00.000Z''\<rparr>"

definition example_snapshot :: "cart_quote_attachment \<Rightarrow> item_snapshot" where
  "example_snapshot a =
     \<lparr>ns_orderItemReference = ''01890000-0000-7000-8000-000000000051'',
      ns_orderBatchReference = ''01890000-0000-7000-8000-000000000062'',
      ns_cartItemReference = ''01890000-0000-7000-8000-000000000053'', ns_quantity = 2,
      ns_customerNote = Some ''no onions'', ns_addedByActorReference = ''01890000-0000-7000-8000-000000000041'',
      ns_addedByParticipantReference = Some ''01890000-0000-7000-8000-000000000061'',
      ns_addedAt = ''2026-06-01T12:05:00.000Z'', ns_catalog = example_catalog, ns_pricing = example_pricing a,
      ns_snapshotCapturedAt = ''2026-06-01T12:10:00.000Z''\<rparr>"

definition example_order_line :: "cart_quote_attachment \<Rightarrow> js" where
  "example_order_line a = JObj
     [(''orderItemReference'', JStr ''01890000-0000-7000-8000-000000000051''),
      (''cartItemReference'', JStr ''01890000-0000-7000-8000-000000000053''),
      (''catalog'', snapshot_catalog_js example_catalog), (''pricing'', snapshot_pricing_js (example_pricing a))]"

lemma example_snapshot_formats:
  "code_format ''_-'' ''KIOSK''" "code_format ''_-'' ''BASE''" "code_format ''_-'' ''NZ''" "code_format ''_-'' ''GST''"
  "code_format ''_-'' ''EACH''" "unit_quantity_format ''1''" "canonical_rate ''0.15''" "currency_format ''NZD''"
  "valid_names [(''en-NZ'', ''Soup'')]"
  by code_simp+

lemma example_catalog_valid: "valid_catalog example_catalog"
  by (simp add: valid_catalog_def example_catalog_def example_cart_facts example_quoted_facts example_snapshot_formats)

lemma example_pricing_valid:
  assumes "valid_attachment a"
  shows "valid_pricing (example_pricing a)"
  using assms
  by (simp add: valid_pricing_def example_pricing_def nzd_def example_cart_facts example_quoted_facts example_snapshot_formats
      valid_snapshot_money_def valid_price_def valid_tax_def pricing_amounts_bad_def pricing_times_bad_def max_safe_def
      int64_min_def int64_max_def valid_attachment_def)

lemma example_snapshot_valid: "valid_attachment a \<Longrightarrow> valid_snapshot (example_snapshot a)"
  using example_pricing_valid [of a]
  by (simp add: valid_snapshot_def example_snapshot_def example_catalog_valid example_cart_facts example_quoted_facts
      line_inconsistent_def) (simp add: example_catalog_def example_pricing_def example_cart_facts)

definition example_evidence :: "cart_quote_attachment \<Rightarrow> checkout_evidence" where
  "example_evidence a = built_evidence (example_checkout_parsed a) example_digest example_quoted_cart example_guest a
     [example_checkout_line] (example_fulfillment (at_quoteReference a))"

lemma example_placement:
  assumes a: "verifyQuote (example_object q) example_quoted_cart ''01890000-0000-7000-8000-000000000061'' example_digest
       ''01890000-0000-7000-8000-000000000062'' ''2026-06-01T12:10:00.000Z'' = Inr a"
  shows "valid_checkout (example_evidence a)"
    and "createOrderItemSnapshots (snapshots_input ''01890000-0000-7000-8000-000000000061''
       ''01890000-0000-7000-8000-000000000062'' ''2026-06-01T12:10:00.000Z'' (example_evidence a) example_quoted_cart
       [example_order_line a]) = Inr [example_snapshot a]"
proof -
  have va: "valid_attachment a" using verified_attachment [OF a] by blast
  let ?e = "example_evidence a"
  from validate_checkout_Inr [OF example_checkout [OF a]] show e: "valid_checkout ?e"
    unfolding example_evidence_def by blast
  then have t: "1780315800000 < ms_of (ck_validUntil ?e)"
    by (simp add: valid_checkout_def checkout_inconsistent_def example_evidence_def built_evidence_def
        example_checkout_parsed_def example_cart_facts)
  have ev: "ck_validatedAt ?e = ''2026-06-01T12:10:00.000Z''" "ck_catalogLines ?e = [example_checkout_line]"
    "ck_brandReference ?e = ''01890000-0000-7000-8000-000000000012''"
    "ck_storeReference ?e = ''01890000-0000-7000-8000-000000000013''"
    "ck_cartReference ?e = ''01890000-0000-7000-8000-000000000052''" "ck_cartVersion ?e = 3"
    "ck_orderType ?e = cart_order_type.DineIn" "ck_sourceChannel ?e = QrChannel"
    "ck_quoteReference ?e = at_quoteReference a" "ck_quoteInputDigest ?e = at_quoteInputDigest a"
    by (simp_all add: example_evidence_def built_evidence_def example_checkout_parsed_def example_quoted_cart_def example_cart_def)
  have src: "\<not> snapshot_source_bad ?e example_quoted_cart ''01890000-0000-7000-8000-000000000061''
      ''01890000-0000-7000-8000-000000000062'' ''2026-06-01T12:10:00.000Z''"
    by (simp add: snapshot_source_bad_def ev example_quoted_cart_def example_cart_def example_lifecycle_def)
  have line: "order_line_snapshot ?e example_quoted_cart ''01890000-0000-7000-8000-000000000062''
      ''2026-06-01T12:10:00.000Z'' (example_order_line a) = Inr (example_snapshot a)"
    using item_snapshot.parse_print [OF example_snapshot_valid [OF va]]
    by (simp add: order_line_snapshot_def example_order_line_def parseOrderingReference_def example_cart_facts
        example_quoted_facts snapshot_catalog.parse_print [OF example_catalog_valid]
        snapshot_pricing.parse_print [OF example_pricing_valid [OF va]] ev example_quoted_cart_def example_cart_def
        example_item_def example_checkout_line_def catalog_disagrees_def pricing_disagrees_def)
      (simp add: example_catalog_def example_pricing_def example_cart_facts example_snapshot_def)
  have bad: "\<not> snapshots_bad example_quoted_cart ''01890000-0000-7000-8000-000000000061''
      ''01890000-0000-7000-8000-000000000062'' [example_snapshot a]"
    by (simp add: snapshots_bad_def example_snapshot_def example_quoted_cart_def example_cart_def)
  show "createOrderItemSnapshots (snapshots_input ''01890000-0000-7000-8000-000000000061''
       ''01890000-0000-7000-8000-000000000062'' ''2026-06-01T12:10:00.000Z'' ?e example_quoted_cart
       [example_order_line a]) = Inr [example_snapshot a]"
    using src line bad t
    by (simp add: createOrderItemSnapshots_def snapshots_input_def snapshot_closed_def snapshot_guard_def snapshot_evidence_def
        snapshot_cart_def checkout.parse_print [OF e] cart.parse_print [OF example_quoted_cart_valid]
        parseOrderingReference_def parseOrderingInstant_def example_cart_facts example_order_line_def)
qed

section \<open>Properties\<close>

text \<open>
  C37. The lines of an order are the items of the cart: whatever is passed to \<open>createOrderItemSnapshots\<close>,
  accepted snapshots are taken while the checkout evidence is valid, of the cart at the version the evidence
  names, with every item of the cart exactly once and order items that are all different; each keeps the
  quantity, the note and the options of its item, its pricing names the quote of the evidence by reference
  and input digest, and its total is non-negative and equals subtotal minus discount plus all tax components
  plus fee. The amounts are those the pricing port returned: the evidence and the cart have none to compare.
\<close>

theorem snapshots_cover_cart:
  assumes "createOrderItemSnapshots v = Inr xs"
  shows "\<exists>e c at. parseCheckoutValidationEvidence (fld v ''checkoutValidationEvidence'') = Inr e \<and>
    parseCartAggregate (fld v ''cart'') = Inr c \<and> fld v ''snapshotCapturedAt'' = JStr at \<and>
    ms_of (ck_validatedAt e) \<le> ms_of at \<and> ms_of at < ms_of (ck_validUntil e) \<and>
    ca_cartReference c = ck_cartReference e \<and> ca_aggregateVersion c = ck_cartVersion e \<and>
    mset (map ns_cartItemReference xs) = mset (map ci_cartItemReference (ca_items c)) \<and>
    distinct (map ns_orderItemReference xs) \<and> list_all (\<lambda>s. \<exists>i \<in> set (ca_items c). snapshot_of_item e i s) xs"
proof (rule createOrderItemSnapshots_Inr [OF assms])
  fix oref batch at and e :: checkout_evidence and c :: cart_aggregate
  assume f: "fld v ''snapshotCapturedAt'' = JStr at" "parseCheckoutValidationEvidence (fld v ''checkoutValidationEvidence'') = Inr e"
    "parseCartAggregate (fld v ''cart'') = Inr c" "ms_of at < ms_of (ck_validUntil e)" "\<not> snapshot_source_bad e c oref batch at"
    and m: "map_res (order_line_snapshot e c batch at) (elements (fld v ''lines'')) = Inr xs"
    and b: "\<not> snapshots_bad c oref batch xs"
  from f b snapshots_of_items [OF m cart.parse_valid [OF f(3)] b] show ?thesis
    by (intro exI [of _ e] exI [of _ c] exI [of _ at]) (simp add: snapshot_source_bad_def snapshots_bad_def)
qed

theorem snapshots_cover_cart_witness:
  "\<exists>q a. createPriceQuote example_zone example_quote_input = Inr q \<and>
     createOrderItemSnapshots (snapshots_input ''01890000-0000-7000-8000-000000000061''
       ''01890000-0000-7000-8000-000000000062'' ''2026-06-01T12:10:00.000Z'' (example_evidence a) example_quoted_cart
       [example_order_line a]) = Inr [example_snapshot a] \<and>
     mset (map ns_cartItemReference [example_snapshot a]) = mset (map ci_cartItemReference (ca_items example_quoted_cart))"
proof -
  from example_attachment obtain q a where q: "createPriceQuote example_zone example_quote_input = Inr q" and
    a: "verifyQuote (example_object q) example_quoted_cart ''01890000-0000-7000-8000-000000000061'' example_digest
       ''01890000-0000-7000-8000-000000000062'' ''2026-06-01T12:10:00.000Z'' = Inr a" by blast
  note s = example_placement(2) [OF a]
  have "mset (map ns_cartItemReference [example_snapshot a]) = mset (map ci_cartItemReference (ca_items example_quoted_cart))"
    using snapshots_cover_cart [OF s] cart.parse_print [OF example_quoted_cart_valid] by (auto simp: snapshots_input_def)
  with q s show ?thesis by blast
qed

text \<open>
  C38. Accepted snapshots make an order: when the snapshots of a cart are accepted, the order is accepted too,
  for every submission and guest session. The two modules check the evidence, the identities and the lines
  independently; the order that results has one item identity per snapshot, in their order, belongs to the
  brand, the store and the dining session of the cart, and names quote, cart version and checkout evidence.
\<close>

theorem snapshots_make_an_order:
  assumes "createOrderItemSnapshots (snapshots_input oref batch at e c ls) = Inr xs" and "valid_checkout e"
    and "valid_cart c" and "uuid_v7 submission" and "uuid_v7 guest"
  shows "createOrderAggregate (order_input oref batch submission c guest at e xs) =
    Inr (new_order oref batch submission c guest at e xs)"
  by (rule snapshots_then_order [OF assms])

theorem snapshots_make_an_order_witness:
  "\<exists>q a. createPriceQuote example_zone example_quote_input = Inr q \<and>
     createOrderAggregate (order_input ''01890000-0000-7000-8000-000000000061'' ''01890000-0000-7000-8000-000000000062''
       ''01890000-0000-7000-8000-000000000040'' example_quoted_cart ''01890000-0000-7000-8000-000000000062''
       ''2026-06-01T12:10:00.000Z'' (example_evidence a) [example_snapshot a]) =
     Inr (new_order ''01890000-0000-7000-8000-000000000061'' ''01890000-0000-7000-8000-000000000062''
       ''01890000-0000-7000-8000-000000000040'' example_quoted_cart ''01890000-0000-7000-8000-000000000062''
       ''2026-06-01T12:10:00.000Z'' (example_evidence a) [example_snapshot a])"
proof -
  from example_attachment obtain q a where q: "createPriceQuote example_zone example_quote_input = Inr q" and
    a: "verifyQuote (example_object q) example_quoted_cart ''01890000-0000-7000-8000-000000000061'' example_digest
       ''01890000-0000-7000-8000-000000000062'' ''2026-06-01T12:10:00.000Z'' = Inr a" by blast
  from q snapshots_make_an_order [OF example_placement(2,1) [OF a] example_quoted_cart_valid example_cart_facts(1,10)]
  show ?thesis by blast
qed

end
