(* ===== verification/BusinessDate.thy ===== *)
theory BusinessDate
  imports Organization OrderingValues
begin

text \<open>
  Business dates: \<open>packages/rms/store/src/domain/resolve-business-date.ts\<close>. The business day of a store
  starts at a local time of its own; an instant belongs to the business date whose start it follows.

  \<open>Intl.DateTimeFormat\<close> (the time-zone database of the runtime) is the parameter \<open>w\<close>: \<open>w zone\<close> is the wall
  clock of the zone, the local fields that \<open>formatToParts\<close> gives for a time value, or \<open>None\<close> when the
  constructor rejects the zone.
\<close>

section \<open>Data\<close>

record local_fields =
  lf_year :: int
  lf_month :: int
  lf_day :: int
  lf_hour :: int
  lf_minute :: int
  lf_second :: int

type_synonym wall_clock = "string \<Rightarrow> (int \<Rightarrow> local_fields) option"

datatype boundary_kind = ExactBoundary | GapForward | OverlapEarlier

text \<open>\<open>businessDayStartSource\<close> is checked through \<open>String(...)\<close> and kept as read.\<close>

record business_date_configuration =
  bc_configurationReference :: string
  bc_configurationVersion :: int
  bc_brandReference :: string
  bc_storeReference :: string
  bc_timeZone :: string
  bc_businessDayStartLocalTime :: string
  bc_businessDayStartSource :: js
  bc_contentDigest :: string
  bc_effectiveFrom :: string
  bc_effectiveUntil :: "string option"

record business_date_resolution =
  br_brandReference :: string
  br_storeReference :: string
  br_occurredAt :: string
  br_businessDate :: string
  br_businessDateBoundaryAt :: string
  br_boundaryDisambiguation :: boundary_kind
  br_configurationReference :: string
  br_configurationVersion :: int
  br_contentDigest :: string
  br_timeZone :: string
  br_businessDayStartLocalTime :: string

definition defaultBusinessDayStartLocalTime :: string where
  "defaultBusinessDayStartLocalTime = ''04:00:00''"

section \<open>Configuration\<close>

definition business_fail :: err where
  "business_fail = BusinessDateError STORE_BUSINESS_DATE_INPUT_INVALID"

definition business_closed :: "js \<Rightarrow> string list \<Rightarrow> unit res" where
  "business_closed v ks = throw_if (\<not> has_shape v ks) business_fail"

definition business_reference :: "js \<Rightarrow> string res" where
  "business_reference v = or_throw (str_if uuid_v7 v) business_fail"

definition business_instant :: "js \<Rightarrow> string res" where
  "business_instant v = catching (parseCanonicalInstant v) (\<lambda>_. Inl business_fail)"

text \<open>\<open>/^(?:[01]\d|2[0-3]):[0-5]\d:00$/u\<close>\<close>

definition local_time_format :: "string \<Rightarrow> bool" where
  "local_time_format s \<longleftrightarrow>
     matches ([is_digit, is_digit, lit (CHR '':''), \<lambda>c. c \<in> set ''012345'', is_digit] @ map lit '':00'') s \<and>
     (hd s \<in> {CHR ''0'', CHR ''1''} \<or> hd s = CHR ''2'' \<and> s ! 1 \<in> set ''0123'')"

definition parseStoreBusinessDateConfiguration :: "wall_clock \<Rightarrow> js \<Rightarrow> business_date_configuration res" where
  "parseStoreBusinessDateConfiguration w v =
     bnd (business_closed v [''configurationReference'', ''configurationVersion'', ''brandReference'', ''storeReference'',
            ''timeZone'', ''businessDayStartLocalTime'', ''businessDayStartSource'', ''contentDigest'', ''effectiveFrom'',
            ''effectiveUntil'']) (\<lambda>_.
     bnd (or_throw (safe_int_in 1 max_safe (fld v ''configurationVersion'')) business_fail) (\<lambda>version.
     bnd (or_throw (str_if (\<lambda>_. True) (fld v ''timeZone'')) business_fail) (\<lambda>zone.
     bnd (or_throw (str_if local_time_format (fld v ''businessDayStartLocalTime'')) business_fail) (\<lambda>start.
     bnd (throw_if (\<not> named_in [''PlatformDefault'', ''StoreOverride''] (fld v ''businessDayStartSource'')) business_fail) (\<lambda>_.
     bnd (or_throw (str_if sha256_digest (fld v ''contentDigest'')) business_fail) (\<lambda>dig.
     bnd (throw_if (fld v ''businessDayStartSource'' = JStr ''PlatformDefault'' \<and>
                    start \<noteq> defaultBusinessDayStartLocalTime) business_fail) (\<lambda>_.
     catching
       (bnd (throw_if (w zone = None) RangeError) (\<lambda>_.
        bnd (business_instant (fld v ''effectiveFrom'')) (\<lambda>from'.
        bnd (nullable business_instant (fld v ''effectiveUntil'')) (\<lambda>until'.
        bnd (throw_if (until' \<noteq> None \<and> ms_of (the until') \<le> ms_of from') business_fail) (\<lambda>_.
        bnd (business_reference (fld v ''configurationReference'')) (\<lambda>configuration.
        bnd (parseBrandReference (fld v ''brandReference'')) (\<lambda>brand.
        bnd (parseStoreReference (fld v ''storeReference'')) (\<lambda>store.
        Inr \<lparr>bc_configurationReference = configuration, bc_configurationVersion = version,
             bc_brandReference = brand, bc_storeReference = store, bc_timeZone = zone,
             bc_businessDayStartLocalTime = start,
             bc_businessDayStartSource = fld v ''businessDayStartSource'', bc_contentDigest = dig,
             bc_effectiveFrom = from', bc_effectiveUntil = until'\<rparr>))))))))
       (\<lambda>_. Inl business_fail))))))))"

section \<open>Local dates and times\<close>

text \<open>\<open>Date.UTC\<close>: the years 0 to 99 stand for 1900 to 1999.\<close>

definition utc_year :: "int \<Rightarrow> int" where
  "utc_year y = (if 0 \<le> y \<and> y \<le> 99 then 1900 + y else y)"

definition date_utc :: "int \<Rightarrow> int \<Rightarrow> int \<Rightarrow> int \<Rightarrow> int \<Rightarrow> int \<Rightarrow> int" where
  "date_utc y m d h mi se = make_day (utc_year y) m d * ms_per_day + make_time h mi se 0"

text \<open>The fields of a time value in UTC.\<close>

definition utc_fields :: "int \<Rightarrow> local_fields" where
  "utc_fields t =
     (let day = t div ms_per_day; r = t mod ms_per_day; y = year_from_day day;
          (m, d) = split_month (month_lengths (leap y)) 1 (day - day_from_year y)
      in \<lparr>lf_year = y, lf_month = m, lf_day = d, lf_hour = r div 3600000, lf_minute = r div 60000 mod 60,
          lf_second = r div 1000 mod 60\<rparr>)"

text \<open>\<open>String(n).padStart(w, "0")\<close>\<close>

definition pad_start :: "nat \<Rightarrow> int \<Rightarrow> string" where
  "pad_start w n = replicate (w - length (int_str n)) (CHR ''0'') @ int_str n"

definition dateText :: "local_fields \<Rightarrow> string" where
  "dateText l = pad_start 4 (lf_year l) @ ''-'' @ pad_start 2 (lf_month l) @ ''-'' @ pad_start 2 (lf_day l)"

definition previousDate :: "local_fields \<Rightarrow> local_fields" where
  "previousDate l =
     (utc_fields (date_utc (lf_year l) (lf_month l) (lf_day l - 1) 0 0 0))\<lparr>lf_hour := 0, lf_minute := 0, lf_second := 0\<rparr>"

definition field_tuple :: "local_fields \<Rightarrow> int" where
  "field_tuple l = date_utc (lf_year l) (lf_month l) (lf_day l) (lf_hour l) (lf_minute l) (lf_second l)"

definition start_fields :: "local_fields \<Rightarrow> string \<Rightarrow> local_fields" where
  "start_fields date start =
     date\<lparr>lf_hour := dec_val (take 2 start), lf_minute := dec_val (take 2 (drop 3 start)), lf_second := 0\<rparr>"

text \<open>
  The instants at which the wall clock reads the target: the offset in force is sampled around it, and a
  candidate is kept when the clock reads the target there.
\<close>

definition boundary_samples :: "int list" where
  "boundary_samples = map (\<lambda>k. 3 * k) [-12..12]"

definition boundary_candidate :: "(int \<Rightarrow> local_fields) \<Rightarrow> int \<Rightarrow> int \<Rightarrow> int" where
  "boundary_candidate clock target offsetHour =
     (let sample = target + offsetHour * 3600000 in target - (field_tuple (clock sample) - sample))"

definition boundary_candidates :: "(int \<Rightarrow> local_fields) \<Rightarrow> int \<Rightarrow> int list" where
  "boundary_candidates clock target =
     remdups (filter (\<lambda>c. field_tuple (clock c) = target) (map (boundary_candidate clock target) boundary_samples))"

definition gap_forward :: "(int \<Rightarrow> local_fields) \<Rightarrow> local_fields \<Rightarrow> int option" where
  "gap_forward clock target =
     find (\<lambda>c. lf_year (clock c) = lf_year target \<and> lf_month (clock c) = lf_month target \<and>
               lf_day (clock c) = lf_day target \<and> field_tuple (clock c) > field_tuple target)
       (map (\<lambda>delta. field_tuple target + delta * 60000) [-1080..1080])"

definition boundaryInstant ::
  "(int \<Rightarrow> local_fields) \<Rightarrow> local_fields \<Rightarrow> string \<Rightarrow> (int \<times> boundary_kind) res" where
  "boundaryInstant clock date start =
     (let target = start_fields date start; exact = sort (boundary_candidates clock (field_tuple target)) in
      case exact of
        [] \<Rightarrow> bnd (or_throw (gap_forward clock target) business_fail) (\<lambda>c. Inr (c, GapForward))
      | c # cs \<Rightarrow> Inr (c, if cs \<noteq> [] then OverlapEarlier else ExactBoundary))"

section \<open>Resolution\<close>

definition not_in_effect :: "business_date_configuration \<Rightarrow> string \<Rightarrow> bool" where
  "not_in_effect cfg occurredAt \<longleftrightarrow>
     ms_of occurredAt < ms_of (bc_effectiveFrom cfg) \<or>
     (case bc_effectiveUntil cfg of None \<Rightarrow> False | Some u \<Rightarrow> ms_of u \<le> ms_of occurredAt)"

definition business_day ::
  "(int \<Rightarrow> local_fields) \<Rightarrow> string \<Rightarrow> int \<Rightarrow> (local_fields \<times> int \<times> boundary_kind) res" where
  "business_day clock start occurred =
     (let here = clock occurred in
      bnd (boundaryInstant clock here start) (\<lambda>(boundary, kind).
      if occurred < boundary
      then bnd (boundaryInstant clock (previousDate here) start) (\<lambda>(boundary', kind').
           Inr (previousDate here, boundary', kind'))
      else Inr (here, boundary, kind)))"

definition resolveStoreBusinessDate :: "wall_clock \<Rightarrow> js \<Rightarrow> js \<Rightarrow> business_date_resolution res" where
  "resolveStoreBusinessDate w occurred configuration =
     bnd (business_instant occurred) (\<lambda>occurredAt.
     bnd (parseStoreBusinessDateConfiguration w configuration) (\<lambda>cfg.
     bnd (throw_if (not_in_effect cfg occurredAt) (BusinessDateError STORE_BUSINESS_DATE_CONFIGURATION_NOT_EFFECTIVE)) (\<lambda>_.
     bnd (business_day (the (w (bc_timeZone cfg))) (bc_businessDayStartLocalTime cfg) (ms_of occurredAt)) (\<lambda>(date, boundary, kind).
     bnd (date_to_iso (Some boundary)) (\<lambda>boundaryAt.
     Inr \<lparr>br_brandReference = bc_brandReference cfg, br_storeReference = bc_storeReference cfg,
          br_occurredAt = occurredAt, br_businessDate = dateText date, br_businessDateBoundaryAt = boundaryAt,
          br_boundaryDisambiguation = kind, br_configurationReference = bc_configurationReference cfg,
          br_configurationVersion = bc_configurationVersion cfg, br_contentDigest = bc_contentDigest cfg,
          br_timeZone = bc_timeZone cfg, br_businessDayStartLocalTime = bc_businessDayStartLocalTime cfg\<rparr>)))))"

section \<open>Fields of a time value\<close>

text \<open>The time values in the years 100 to 9999, on which \<open>Date.UTC\<close> inverts the fields.\<close>

definition civil_range :: "int \<Rightarrow> bool" where
  "civil_range t \<longleftrightarrow> day_from_year 100 * ms_per_day \<le> t \<and> t < day_from_year 10000 * ms_per_day"

definition date_of_fields :: "local_fields \<Rightarrow> int \<times> int \<times> int" where
  "date_of_fields l = (lf_year l, lf_month l, lf_day l)"

lemma civil_parts:
  assumes "civil_range t"
  obtains y m d h mi se ms where "valid_parts (y, m, d, h, mi, se, ms)" "100 \<le> y" "t = parts_ms (y, m, d, h, mi, se, ms)"
    "t div ms_per_day = make_day y m d"
    "utc_fields t = \<lparr>lf_year = y, lf_month = m, lf_day = d, lf_hour = h, lf_minute = mi, lf_second = se\<rparr>"
proof -
  have c: "day_from_year 100 * ms_per_day \<le> t" "t < day_from_year 10000 * ms_per_day" using assms by (simp_all add: civil_range_def)
  moreover have "day_from_year 0 \<le> day_from_year 100" by (simp add: day_from_year_def)
  ultimately obtain p where "valid_parts p" "parts_ms p = t" using parts_exist [of t] by (force simp: ms_per_day_def)
  then obtain y m d h mi se ms where v: "valid_parts (y, m, d, h, mi, se, ms)" and t: "t = parts_ms (y, m, d, h, mi, se, ms)"
    by (cases p) auto
  note w = v [unfolded valid_parts_def prod.case]
  have ts: "0 \<le> make_time h mi se ms" "make_time h mi se ms < ms_per_day"
    "make_time h mi se ms div 3600000 = h" "make_time h mi se ms div 60000 mod 60 = mi"
    "make_time h mi se ms div 1000 mod 60 = se"
    using time_split [of h mi se ms] w by simp_all
  have dm: "t div ms_per_day = make_day y m d" "t mod ms_per_day = make_time h mi se ms"
    using ts by (simp_all add: t parts_ms_def ms_per_day_def)
  have sp: "year_from_day (make_day y m d) = y"
    "split_month (month_lengths (leap y)) 1 (make_day y m d - day_from_year y) = (m, d)"
    using make_day_split [of m d y] w by simp_all
  have "day_from_year 100 \<le> make_day y m d"
    using c(1) unfolding dm(1) [symmetric] by (simp add: ms_per_day_def)
  then have "100 \<le> y"
    using year_from_day_bracket [of "make_day y m d"] sp(1) day_from_year_mono [of "y + 1" 100] by force
  moreover have "utc_fields t = \<lparr>lf_year = y, lf_month = m, lf_day = d, lf_hour = h, lf_minute = mi, lf_second = se\<rparr>"
    by (simp add: utc_fields_def Let_def dm sp ts)
  ultimately show ?thesis using that v t dm(1) by blast
qed

lemma field_tuple_utc: "civil_range t \<Longrightarrow> field_tuple (utc_fields t) = t - t mod 1000"
proof (elim civil_parts)
  fix y m d h mi se ms
  assume v: "valid_parts (y, m, d, h, mi, se, ms)" "100 \<le> y" and t: "t = parts_ms (y, m, d, h, mi, se, ms)"
    and u: "utc_fields t = \<lparr>lf_year = y, lf_month = m, lf_day = d, lf_hour = h, lf_minute = mi, lf_second = se\<rparr>"
  define a where "a = make_day y m d * 86400 + (h * 60 + mi) * 60 + se"
  have "t = a * 1000 + ms" by (simp add: a_def t parts_ms_def make_time_def ms_per_day_def)
  then have "t mod 1000 = ms" using v by (simp add: valid_parts_def)
  moreover have "field_tuple (utc_fields t) = make_day y m d * ms_per_day + make_time h mi se 0"
    using v(2) by (simp add: u field_tuple_def date_utc_def utc_year_def)
  moreover have "t = make_day y m d * ms_per_day + make_time h mi se 0 + ms" by (simp add: t parts_ms_def make_time_def)
  ultimately show ?thesis by simp
qed

text \<open>The offset of the local day start from midnight.\<close>

definition start_ms :: "string \<Rightarrow> int" where
  "start_ms start = make_time (dec_val (take 2 start)) (dec_val (take 2 (drop 3 start))) 0 0"

lemma start_ms_bounds: "local_time_format start \<Longrightarrow> 0 \<le> start_ms start \<and> start_ms start < ms_per_day \<and> start_ms start mod 1000 = 0"
proof -
  assume a: "local_time_format start"
  then obtain a b c d e where s: "start = [a, b, CHR '':'', d, e] @ '':00''" and
    dg: "is_digit a" "is_digit b" "d \<in> set ''012345''" "is_digit e" and
    h: "a \<in> {CHR ''0'', CHR ''1''} \<or> a = CHR ''2'' \<and> b \<in> set ''0123''"
    by (auto simp: local_time_format_def matches_def list_all2_Cons1 lit_def)
  have dv: "digit_val a = 0 \<or> digit_val a = 1 \<or> digit_val a = 2 \<and> digit_val b \<le> 3" "0 \<le> digit_val b" "digit_val b \<le> 9"
    "0 \<le> digit_val d" "digit_val d \<le> 5" "0 \<le> digit_val e" "digit_val e \<le> 9"
    using h dg digit_val_range [of b] digit_val_range [of e] by (auto simp: digit_val_def)
  have "start_ms start = ((digit_val a * 10 + digit_val b) * 60 + (digit_val d * 10 + digit_val e)) * 60 * 1000"
    by (simp add: start_ms_def s make_time_def dec_val_Cons dec_val_Nil)
  moreover have "0 \<le> digit_val a * 10 + digit_val b" "digit_val a * 10 + digit_val b \<le> 23"
    "0 \<le> digit_val d * 10 + digit_val e" "digit_val d * 10 + digit_val e \<le> 59"
    using dv by auto
  ultimately show ?thesis by (simp add: ms_per_day_def)
qed

text \<open>Only the day of a time value matters for its date.\<close>

lemma same_day:
  assumes "t div ms_per_day = u div ms_per_day"
  shows "start_fields (utc_fields t) s = start_fields (utc_fields u) s" "dateText (utc_fields t) = dateText (utc_fields u)"
  unfolding start_fields_def utc_fields_def dateText_def Let_def assms by (simp_all split: prod.split)

lemma start_tuple:
  assumes "civil_range t"
  shows "field_tuple (start_fields (utc_fields t) start) = t div ms_per_day * ms_per_day + start_ms start"
  using assms by (elim civil_parts) (simp add: start_fields_def field_tuple_def date_utc_def utc_year_def start_ms_def)

lemma previousDate_utc:
  assumes "civil_range t"
  shows "start_fields (previousDate (utc_fields t)) s = start_fields (utc_fields (t - ms_per_day)) s"
    "dateText (previousDate (utc_fields t)) = dateText (utc_fields (t - ms_per_day))"
proof -
  obtain u where p: "previousDate (utc_fields t) = (utc_fields u)\<lparr>lf_hour := 0, lf_minute := 0, lf_second := 0\<rparr>"
    and "u div ms_per_day = (t - ms_per_day) div ms_per_day"
    using assms
  proof (elim civil_parts)
    fix y m d h mi se ms
    assume t: "t div ms_per_day = make_day y m d" "100 \<le> y"
      and u: "utc_fields t = \<lparr>lf_year = y, lf_month = m, lf_day = d, lf_hour = h, lf_minute = mi, lf_second = se\<rparr>"
    have "make_day y m (d - 1) = t div ms_per_day - 1" by (simp add: t make_day_def)
    then have "date_utc y m (d - 1) 0 0 0 = (t div ms_per_day - 1) * ms_per_day"
      using t by (simp add: date_utc_def utc_year_def make_time_def)
    then have "date_utc y m (d - 1) 0 0 0 div ms_per_day = (t - ms_per_day) div ms_per_day"
      by (simp add: ms_per_day_def)
    then show ?thesis using that [of "date_utc y m (d - 1) 0 0 0"] by (simp add: previousDate_def u)
  qed
  then show "start_fields (previousDate (utc_fields t)) s = start_fields (utc_fields (t - ms_per_day)) s"
    "dateText (previousDate (utc_fields t)) = dateText (utc_fields (t - ms_per_day))"
    using same_day [of u "t - ms_per_day"] by (simp_all add: start_fields_def dateText_def)
qed

section \<open>Between two transitions of a zone\<close>

text \<open>The clock of a zone that keeps its offset from UTC for the four days around an instant.\<close>

definition steady :: "(int \<Rightarrow> local_fields) \<Rightarrow> int \<Rightarrow> int \<Rightarrow> bool" where
  "steady clock off t \<longleftrightarrow> off mod 1000 = 0 \<and> \<bar>off\<bar> \<le> ms_per_day \<and>
     (\<forall>u. \<bar>u - t\<bar> \<le> 4 * ms_per_day \<longrightarrow> clock u = utc_fields (u + off) \<and> civil_range (u + off))"

lemma steady_reads:
  assumes "steady clock off t" and "\<bar>u - t\<bar> \<le> 4 * ms_per_day" and "u mod 1000 = 0"
  shows "field_tuple (clock u) = u + off"
proof -
  have "field_tuple (clock u) = u + off - (u + off) mod 1000"
    using assms field_tuple_utc [of "u + off"] by (simp add: steady_def)
  moreover have "(u + off) mod 1000 = 0" using assms by (auto simp: steady_def mod_add_eq [of u 1000 off, symmetric])
  ultimately show ?thesis by simp
qed

lemma remdups_replicate: "remdups (replicate n x) = (if n = 0 then [] else [x])"
  by (induction n) auto

lemma whole_seconds: "(a + k * 1000) mod 1000 = (a :: int) mod 1000"
  by (rule mod_mult_self1)

lemma boundary_steady:
  assumes s: "steady clock off t" and w: "\<bar>field_tuple (start_fields date start) - off - t\<bar> \<le> ms_per_day"
    and m: "field_tuple (start_fields date start) mod 1000 = 0"
  shows "boundaryInstant clock date start = Inr (field_tuple (start_fields date start) - off, ExactBoundary)"
proof -
  let ?x = "field_tuple (start_fields date start)"
  have off: "\<bar>off\<bar> \<le> ms_per_day" "off mod 1000 = 0" using s by (simp_all add: steady_def)
  have c: "boundary_candidate clock ?x k = ?x - off" if "k \<in> set boundary_samples" for k
  proof -
    have k: "\<bar>k * 3600000\<bar> \<le> 129600000" using that by (auto simp: boundary_samples_def)
    have "\<bar>?x + k * 3600000 - t\<bar> \<le> 4 * ms_per_day"
      using w off k unfolding abs_le_iff ms_per_day_def by linarith
    moreover have "(?x + k * 3600000) mod 1000 = 0" using m whole_seconds [of ?x "k * 3600"] by (simp add: mult.commute)
    ultimately show ?thesis using steady_reads [OF s] by (simp add: boundary_candidate_def Let_def)
  qed
  have "map (boundary_candidate clock ?x) boundary_samples = replicate (length boundary_samples) (?x - off)"
    using c by (simp add: map_replicate_const [symmetric] cong: map_cong)
  moreover have "field_tuple (clock (?x - off)) = ?x"
    using steady_reads [OF s, of "?x - off"] w m off by (simp add: ms_per_day_def mod_diff_eq [of ?x 1000 off, symmetric])
  ultimately have "boundary_candidates clock ?x = [?x - off]"
    by (simp add: boundary_candidates_def remdups_replicate) (simp add: boundary_samples_def)
  then show ?thesis by (simp add: boundaryInstant_def Let_def)
qed

text \<open>The business day of an instant: the day whose start it follows, in local time.\<close>

lemma business_day_steady:
  assumes s: "steady clock off t" and f: "local_time_format start"
  defines "b \<equiv> (t + off - start_ms start) div ms_per_day * ms_per_day + start_ms start - off"
  shows "\<exists>date. business_day clock start t = Inr (date, b, ExactBoundary) \<and>
    dateText date = dateText (utc_fields (t + off - start_ms start)) \<and> b \<le> t \<and> t < b + ms_per_day"
proof -
  let ?l = "t + off" and ?m = "start_ms start"
  define day where "day = ?l div ms_per_day"
  have l: "day * ms_per_day \<le> ?l" "?l < day * ms_per_day + ms_per_day"
    using div_mult_mod_eq [of ?l ms_per_day] pos_mod_bound [of ms_per_day ?l] pos_mod_sign [of ms_per_day ?l]
    by (simp_all add: day_def ms_per_day_def)
  note m = start_ms_bounds [OF f]
  have here: "clock t = utc_fields ?l" "civil_range ?l" using s by (simp_all add: steady_def ms_per_day_def)
  have "clock (t - ms_per_day) = utc_fields (t - ms_per_day + off) \<and> civil_range (t - ms_per_day + off)"
    using s by (simp add: steady_def ms_per_day_def)
  then have yesterday: "civil_range (?l - ms_per_day)" by (simp add: algebra_simps)
  have shift: "(day' * ms_per_day + r) div ms_per_day = day'" if "0 \<le> r" "r < ms_per_day" for day' r
    using that by (simp add: ms_per_day_def)
  have start: "field_tuple (start_fields (utc_fields u) start) = u div ms_per_day * ms_per_day + ?m" if "civil_range u" for u
    using that by (rule start_tuple)
  have bd: "boundaryInstant clock date start = Inr (x * ms_per_day + ?m - off, ExactBoundary)"
    if "field_tuple (start_fields date start) = x * ms_per_day + ?m" "\<bar>x * ms_per_day + ?m - ?l\<bar> \<le> ms_per_day" for date x
  proof -
    have "(x * ms_per_day + ?m) mod 1000 = 0"
      using m whole_seconds [of ?m "x * 86400"] by (simp add: ms_per_day_def add.commute mult.commute)
    then show ?thesis using that boundary_steady [OF s, of date start] by (simp add: algebra_simps)
  qed
  have near: "\<bar>day * ms_per_day + ?m - ?l\<bar> \<le> ms_per_day" using l m unfolding abs_le_iff by linarith
  then have today: "boundaryInstant clock (clock t) start = Inr (day * ms_per_day + ?m - off, ExactBoundary)"
    by (intro bd) (simp_all add: here start day_def)
  show ?thesis
  proof (cases "day * ms_per_day + ?m \<le> ?l")
    case True
    with l m have d: "(?l - ?m) div ms_per_day = day"
      using shift [of "?l - ?m - day * ms_per_day" day] by simp
    moreover have "dateText (clock t) = dateText (utc_fields (?l - ?m))"
      unfolding here by (rule same_day) (simp add: d day_def)
    ultimately show ?thesis using True today l m by (simp add: business_day_def Let_def b_def)
  next
    case False
    with l m have d: "(?l - ?m) div ms_per_day = day - 1"
      using shift [of "?l - ?m - (day - 1) * ms_per_day" "day - 1"] by (simp add: algebra_simps)
    have e: "(?l - ms_per_day) div ms_per_day = day - 1" by (simp add: day_def ms_per_day_def)
    have "boundaryInstant clock (previousDate (clock t)) start = Inr ((day - 1) * ms_per_day + ?m - off, ExactBoundary)"
    proof (rule bd)
      show "field_tuple (start_fields (previousDate (clock t)) start) = (day - 1) * ms_per_day + ?m"
        by (simp only: here previousDate_utc [OF here(2)] start [OF yesterday] e)
      show "\<bar>(day - 1) * ms_per_day + ?m - ?l\<bar> \<le> ms_per_day"
        using False l m unfolding abs_le_iff left_diff_distrib by linarith
    qed
    moreover have "dateText (previousDate (clock t)) = dateText (utc_fields (?l - ?m))"
      unfolding here previousDate_utc [OF here(2)] by (rule same_day) (simp add: d e)
    moreover have b: "b = (day - 1) * ms_per_day + ?m - off" by (simp add: b_def d)
    moreover have "b \<le> t" "t < b + ms_per_day"
      using False l m unfolding b left_diff_distrib by linarith+
    ultimately show ?thesis using False today by (simp add: business_day_def Let_def)
  qed
qed

lemma business_instant_Inr: "business_instant v = Inr s \<longleftrightarrow> v = JStr s \<and> canonical_instant s"
  by (simp add: business_instant_def parseCanonicalInstant_Inr catching_eq_Inr)

definition example_clock :: "int \<Rightarrow> local_fields" where
  "example_clock t = utc_fields (t - (if t < 1289097060000 then 9000000 else 12600000))"

lemma civil_range_iff: "civil_range t \<longleftrightarrow> -59011459200000 \<le> t \<and> t < 253402300800000"
  by (simp add: civil_range_def day_from_year_def ms_per_day_def)

lemma example_clock_reads:
  assumes "u mod 1000 = 0" and "-59000000000000 \<le> u" and "u < 253402300800000"
  shows "field_tuple (example_clock u) = u - (if u < 1289097060000 then 9000000 else 12600000)"
proof -
  let ?off = "if u < 1289097060000 then 9000000 else 12600000 :: int"
  have "(u - ?off) mod 1000 = 0" using assms(1) whole_seconds [of u "-9000"] whole_seconds [of u "-12600"] by simp
  then show ?thesis using assms field_tuple_utc [of "u - ?off"] by (simp add: example_clock_def civil_range_iff)
qed

lemma example_civil: "civil_range (1289097030000 - 9000000)" "civil_range (1289097900000 - 12600000)"
  by (simp_all add: civil_range_iff)

lemma example_today:
  "boundaryInstant example_clock (example_clock 1289097030000) ''00:00:00'' = Inr (1289097000000, OverlapEarlier)"
proof -
  have t: "field_tuple (start_fields (example_clock 1289097030000) ''00:00:00'') = 1289088000000"
    using start_tuple [OF example_civil(1), of "''00:00:00''"]
    by (simp add: example_clock_def start_ms_def make_time_def dec_val_Cons digit_val_def ms_per_day_def)
  have "sort (boundary_candidates example_clock 1289088000000) = [1289097000000, 1289100600000]"
    by (simp add: boundary_candidates_def boundary_samples_def upto.simps boundary_candidate_def example_clock_reads)
  with t show ?thesis by (simp add: boundaryInstant_def Let_def)
qed

lemma example_yesterday:
  "boundaryInstant example_clock (example_clock 1289097900000) ''00:00:00'' = Inr (1289010600000, ExactBoundary)"
proof -
  have t: "field_tuple (start_fields (example_clock 1289097900000) ''00:00:00'') = 1289001600000"
    using start_tuple [OF example_civil(2), of "''00:00:00''"]
    by (simp add: example_clock_def start_ms_def make_time_def dec_val_Cons digit_val_def ms_per_day_def)
  have "sort (boundary_candidates example_clock 1289001600000) = [1289010600000]"
    by (simp add: boundary_candidates_def boundary_samples_def upto.simps boundary_candidate_def example_clock_reads)
  with t show ?thesis by (simp add: boundaryInstant_def Let_def)
qed

lemma example_dates:
  "dateText (utc_fields (1289097030000 - 9000000)) = ''2010-11-07''"
  "dateText (utc_fields (1289097900000 - 12600000)) = ''2010-11-06''"
  by code_simp+

lemma resolve_steady:
  assumes at: "canonical_instant at" and c: "parseStoreBusinessDateConfiguration w v = Inr cfg" "\<not> not_in_effect cfg at"
    and z: "w (bc_timeZone cfg) = Some clock" and s: "steady clock off (ms_of at)"
  shows "\<exists>r b. resolveStoreBusinessDate w (JStr at) v = Inr r \<and> br_boundaryDisambiguation r = ExactBoundary \<and>
    date_parse (br_businessDateBoundaryAt r) = Some b \<and> b \<le> ms_of at \<and> ms_of at < b + ms_per_day \<and>
    (b + off - start_ms (bc_businessDayStartLocalTime cfg)) mod ms_per_day = 0 \<and>
    br_businessDate r = dateText (utc_fields (ms_of at + off - start_ms (bc_businessDayStartLocalTime cfg))) \<and>
    br_occurredAt r = at \<and> br_storeReference r = bc_storeReference cfg"
proof -
  let ?start = "bc_businessDayStartLocalTime cfg"
  let ?b = "(ms_of at + off - start_ms ?start) div ms_per_day * ms_per_day + start_ms ?start - off"
  have f: "local_time_format ?start"
    using c(1) unfolding parseStoreBusinessDateConfiguration_def by (auto simp: res_simps)
  obtain date where d: "business_day clock ?start (ms_of at) = Inr (date, ?b, ExactBoundary)"
    "dateText date = dateText (utc_fields (ms_of at + off - start_ms ?start))" "?b \<le> ms_of at" "ms_of at < ?b + ms_per_day"
    using business_day_steady [OF s f] by blast
  have "\<bar>?b - ms_of at\<bar> \<le> 4 * ms_per_day" using d(3,4) unfolding abs_le_iff ms_per_day_def by linarith
  with s have "civil_range (?b + off)" "\<bar>off\<bar> \<le> ms_per_day" by (simp_all only: steady_def simp_thms)
  with d(3) iso_time_ms_of [OF at] have "iso_time ?b" unfolding civil_range_iff iso_time_iff ms_per_day_def abs_le_iff by linarith
  moreover have "(?b + off - start_ms ?start) mod ms_per_day = 0" by simp
  moreover have "business_instant (JStr at) = Inr at" using at by (simp add: business_instant_Inr)
  ultimately show ?thesis using c z d by (simp add: resolveStoreBusinessDate_def date_parse_to_iso)
qed

section \<open>Example\<close>

text \<open>A store twelve hours ahead of UTC whose business day starts at four in the morning.\<close>

definition example_zones :: wall_clock where
  "example_zones zone = (if zone = ''Pacific/Auckland'' then Some (\<lambda>t. utc_fields (t + 43200000)) else None)"

definition example_business_digest :: string where
  "example_business_digest = ''sha256:'' @ replicate 64 (CHR ''a'')"

definition example_business_day :: js where
  "example_business_day = JObj
     [(''configurationReference'', JStr ''01890000-0000-7000-8000-000000000081''), (''configurationVersion'', JNum 1),
      (''brandReference'', JStr ''01890000-0000-7000-8000-000000000082''),
      (''storeReference'', JStr ''01890000-0000-7000-8000-000000000083''),
      (''timeZone'', JStr ''Pacific/Auckland''), (''businessDayStartLocalTime'', JStr ''04:00:00''),
      (''businessDayStartSource'', JStr ''PlatformDefault''),
      (''contentDigest'', JStr example_business_digest),
      (''effectiveFrom'', JStr ''2026-01-01T00:00:00.000Z''), (''effectiveUntil'', JNull)]"

definition example_business_configuration :: business_date_configuration where
  "example_business_configuration =
     \<lparr>bc_configurationReference = ''01890000-0000-7000-8000-000000000081'', bc_configurationVersion = 1,
      bc_brandReference = ''01890000-0000-7000-8000-000000000082'',
      bc_storeReference = ''01890000-0000-7000-8000-000000000083'', bc_timeZone = ''Pacific/Auckland'',
      bc_businessDayStartLocalTime = ''04:00:00'', bc_businessDayStartSource = JStr ''PlatformDefault'',
      bc_contentDigest = example_business_digest, bc_effectiveFrom = ''2026-01-01T00:00:00.000Z'',
      bc_effectiveUntil = None\<rparr>"

lemma example_business_formats:
  "uuid_v7 ''01890000-0000-7000-8000-000000000081''" "uuid_v7 ''01890000-0000-7000-8000-000000000082''"
  "uuid_v7 ''01890000-0000-7000-8000-000000000083''" "sha256_digest example_business_digest"
  "local_time_format ''04:00:00''" "canonical_instant ''2026-01-01T00:00:00.000Z''"
  "canonical_instant ''2026-06-01T14:30:00.000Z''"
  by code_simp+

lemma example_business_parsed:
  "parseStoreBusinessDateConfiguration example_zones example_business_day = Inr example_business_configuration"
proof -
  have "parseCanonicalInstant (JStr ''2026-01-01T00:00:00.000Z'') = Inr ''2026-01-01T00:00:00.000Z''"
    by (simp add: parseCanonicalInstant_Inr example_business_formats)
  then show ?thesis
    unfolding parseStoreBusinessDateConfiguration_def business_closed_def
    by (simp add: example_business_day_def example_zones_def example_business_formats business_instant_def business_reference_def
        parseBrandReference_def parseStoreReference_def example_business_configuration_def max_safe_def
        defaultBusinessDayStartLocalTime_def)
qed

lemma example_steady: "steady (\<lambda>t. utc_fields (t + 43200000)) 43200000 (ms_of ''2026-06-01T14:30:00.000Z'')"
proof -
  have "ms_of ''2026-06-01T14:30:00.000Z'' = 1780324200000" by code_simp
  then show ?thesis by (auto simp: steady_def ms_per_day_def civil_range_iff)
qed

section \<open>Properties\<close>

text \<open>
  C39. Between two changes of the offset of a zone, the business date is the local date of the instant shifted
  back by the start of the business day: for every valid configuration in effect, the resolution succeeds
  with an exact boundary, which is a local day start, not after the instant and less than a day before it.
  The time-zone database is a parameter, of which only the clock around the instant is used.
\<close>

theorem business_date_between_transitions:
  assumes "canonical_instant at" and "parseStoreBusinessDateConfiguration w v = Inr cfg" and "\<not> not_in_effect cfg at"
    and "w (bc_timeZone cfg) = Some clock" and "steady clock off (ms_of at)"
  shows "\<exists>r b. resolveStoreBusinessDate w (JStr at) v = Inr r \<and> br_boundaryDisambiguation r = ExactBoundary \<and>
    date_parse (br_businessDateBoundaryAt r) = Some b \<and> b \<le> ms_of at \<and> ms_of at < b + ms_per_day \<and>
    (b + off - start_ms (bc_businessDayStartLocalTime cfg)) mod ms_per_day = 0 \<and>
    br_businessDate r = dateText (utc_fields (ms_of at + off - start_ms (bc_businessDayStartLocalTime cfg))) \<and>
    br_occurredAt r = at \<and> br_storeReference r = bc_storeReference cfg"
  by (rule resolve_steady [OF assms])

theorem business_date_between_transitions_witness:
  "\<exists>r. resolveStoreBusinessDate example_zones (JStr ''2026-06-01T14:30:00.000Z'') example_business_day = Inr r \<and>
     br_businessDate r = ''2026-06-01''"
proof -
  have "\<not> not_in_effect example_business_configuration ''2026-06-01T14:30:00.000Z''" by code_simp
  moreover have "example_zones (bc_timeZone example_business_configuration) = Some (\<lambda>t. utc_fields (t + 43200000))"
    by (simp add: example_zones_def example_business_configuration_def)
  ultimately obtain r where "resolveStoreBusinessDate example_zones (JStr ''2026-06-01T14:30:00.000Z'') example_business_day = Inr r"
    "br_businessDate r = dateText (utc_fields (ms_of ''2026-06-01T14:30:00.000Z'' + 43200000 - start_ms ''04:00:00''))"
    using business_date_between_transitions [OF example_business_formats(7) example_business_parsed _ _ example_steady]
    by (auto simp: example_business_configuration_def)
  moreover have "dateText (utc_fields (ms_of ''2026-06-01T14:30:00.000Z'' + 43200000 - start_ms ''04:00:00'')) = ''2026-06-01''"
    by code_simp
  ultimately show ?thesis by auto
qed

text \<open>
  A business date can go back: in a zone whose clock falls back across midnight (here from 00:01 to 23:01, as
  Newfoundland did until 2011), with a business day that starts at midnight, the instant half a minute after
  the first midnight belongs to the new date and one fifteen minutes later to the old one again.
\<close>

theorem business_date_goes_back:
  "\<exists>d d' b b'. business_day example_clock ''00:00:00'' 1289097030000 = Inr (d, b, OverlapEarlier) \<and>
     business_day example_clock ''00:00:00'' 1289097900000 = Inr (d', b', ExactBoundary) \<and>
     dateText d = ''2010-11-07'' \<and> dateText d' = ''2010-11-06''"
  using example_today example_yesterday example_dates by (simp add: business_day_def Let_def example_clock_def)

end
