(* ===== verification/Spec2Isabelle.thy ===== *)
theory Spec2Isabelle
  imports MoneyTax EffectivePeriod TaxConfiguration PriceQuoteLifecycle Promotion CartItemCommands QuotePipeline OrderAmendmentService AttachmentService LoyaltyService PermissionEvaluation OrderPlacement BusinessDate
begin

text \<open>
  Verification development of the path from a price to a submitted order of the restaurant platform, with the
  platform services on that path.

  \<^bold>\<open>The program.\<close> Paths are relative to \<open>src/packages\<close>. Pricing (\<open>rms/pricing\<close>) computes money, taxes, price
  resolution, quotes and promotions from configurations in force over effective periods
  (\<open>bop/effective-period\<close>). Ordering (\<open>rms/ordering\<close>) keeps carts: their lifecycle, their items, the quote attached
  to them, the checkout evidence, the order created from it and its later amendments. Every ordering command
  is authorised by a guest session (\<open>bop/identity\<close>) or, for merchants, by a permission decision over memberships
  and policy facts (\<open>bop/membership\<close>, \<open>bop/permission\<close>, \<open>bop/tenant\<close>), and leaves an audit record (\<open>bop/audit\<close>).
  Loyalty accounts (\<open>rms/customer-loyalty\<close>) keep points. Business dates (\<open>rms/store\<close>) tell the trading day of an
  instant. The domain modules are pure functions over values checked at the boundary; the application
  services are handlers \<open>request \<Rightarrow> ports \<Rightarrow> result\<close> around them.

  \<^bold>\<open>How the code appears here.\<close> An unknown input is a value of the datatype \<open>js\<close>; a TypeScript interface is a
  \<open>record\<close>, a union of string literals a \<open>datatype\<close>, a \<open>throw\<close> the left case of a result \<open>err + 'a\<close> with the error
  class and code of the module. A \<open>bigint\<close> is an \<open>int\<close> with the explicit 64-bit range checks of the code, a
  \<open>number\<close> an \<open>int\<close> with the safe-integer checks. A port is a function argument (the records \<open>..._ports\<close>), and a
  rejected promise is its \<open>Inl\<close> answer. Where a handler decides and then writes, the model has a \<open>plan_...\<close> that
  ends in a replay or a commit and an \<open>execute_...\<close> that saves and checks what was stored. Names are those of
  the code, with a prefix where two modules use the same one; PROJECT.json maps each definition to its lines.

  \<^bold>\<open>Theories.\<close>
  \<^item> \<open>Errors\<close>, \<open>Prelude\<close>, \<open>JsDate\<close>, \<open>JsonText\<close>: error codes, result combinators (collection \<open>res_simps\<close>), \<open>js\<close> values and
    the closed-shape guard, string formats, \<open>Date.parse\<close> and \<open>toISOString\<close>, and \<open>JSON.stringify\<close> of flat objects.
  \<^item> \<open>Codec\<close>, \<open>Window\<close>, \<open>CheckedSum\<close>, \<open>Runs\<close>: the interfaces as locales. \<open>codec\<close> (a parser accepts valid values and
    accepts a printed one unchanged) is interpreted for every stored record; \<open>half_open_window\<close> for periods and
    quotes; \<open>checked_addition\<close> for \<open>addMoney\<close>; \<open>ledger\<close> for loyalty accounts.
  \<^item> \<open>MoneyTax\<close> (\<open>money-tax-contract.ts\<close>, \<open>money-tax.ts\<close>), \<open>EffectivePeriod\<close> (\<open>effective-period.ts\<close>,
    \<open>resolve-effective-version.ts\<close>), \<open>TaxConfiguration\<close>, \<open>PriceResolution\<close>, \<open>PriceQuote\<close>, \<open>PriceQuoteLifecycle\<close>,
    \<open>Promotion\<close> (the files of these names): pricing.
  \<^item> \<open>OrderingValues\<close>, \<open>CartLifecycle\<close>, \<open>Cart\<close>, \<open>CartItemCommands\<close>: \<open>cart-lifecycle.ts\<close>, \<open>cart.ts\<close> and the three item
    mutations; \<open>CartItemService\<close> and \<open>CartLifecycleCommands\<close>: the handlers of \<open>cart-item-command-service.ts\<close> and
    \<open>cart-lifecycle-command-service.ts\<close>.
  \<^item> \<open>CartQuote\<close>, \<open>QuoteAttachment\<close>, \<open>QuotePipeline\<close>, \<open>AttachmentService\<close>: \<open>cart-quote-attachment.ts\<close>, its service, and
    the composition of pricing with it.
  \<^item> \<open>CheckoutValidation\<close>, \<open>CheckoutService\<close>: \<open>checkout-validation.ts\<close> and \<open>checkout-validation-service.ts\<close>.
  \<^item> \<open>OrderAggregate\<close>, \<open>OrderSnapshot\<close>, \<open>OrderLines\<close>, \<open>OrderPlacement\<close>: \<open>order.ts\<close> and \<open>order-item-snapshot.ts\<close>, and the
    two together on the inputs that \<open>order-creation-service.ts\<close> gives them.
  \<^item> \<open>OrderAmendment\<close>, \<open>OrderAmendmentService\<close>: \<open>order-amendment.ts\<close> and its service.
  \<^item> \<open>GuestSession\<close>, \<open>AuditRecords\<close>, \<open>Organization\<close>, \<open>Membership\<close>, \<open>PermissionPolicy\<close>, \<open>PermissionEvaluation\<close>:
    \<open>guest-session.ts\<close>, \<open>validate-audit-record.ts\<close>, \<open>brand-store.ts\<close> and the contexts, \<open>membership.ts\<close>,
    \<open>permission-policy.ts\<close>, and \<open>permission-evaluation.ts\<close> with the services and the middleware around it.
  \<^item> \<open>LoyaltyAccount\<close>, \<open>LoyaltyService\<close>: \<open>loyalty-account.ts\<close> and \<open>loyalty-account-service.ts\<close>.
  \<^item> \<open>BusinessDate\<close>: \<open>resolve-business-date.ts\<close>.

  \<^bold>\<open>What is shown.\<close> Arithmetic: allocation conserves, is proportional and independent of the order; taxes are the
  specified roundings; quotes and discounts add up within their bounds. Resolution: overlap is a common
  instant, resolved prices and taxes are the most specific ones, accepted configurations never conflict.
  State machines: a cart lifecycle refines a machine of two deadlines, amendments end within a bound, stored
  amendments are never lost under interleaved stale requests, loyalty accounts follow the ledger of their
  transactions. Handlers: whatever they commit was authorised, in scope, at the expected version and of an
  admissible input, and the same request again is a replay. Composition: a created quote attaches, an
  attached quote checks out, accepted snapshots cover the cart and make an order. Permissions: a decision
  allows exactly what the policy facts permit. Business dates: between two changes of the offset of a zone
  the date is the local date shifted by the start of the day. Four theorems exhibit defects of the code
  (item-scoped promotions, the cart version bound of 999, the lifelong limit of reservations, business dates
  that go back); they are listed as findings.

  \<^bold>\<open>Bounds.\<close> Every recursion is structural, or on the digits of a number; no definition needs fuel. The gap search
  of a business day runs over the 2161 minutes of the code. Runs and histories are unbounded lists.

  \<^bold>\<open>Parameters.\<close> \<open>zone_render\<close> and \<open>wall_clock\<close> stand for \<open>Intl.DateTimeFormat\<close>: how an instant reads in a zone. Ports are
  arbitrary functions; hash functions among them are not assumed to be injective.

  \<^bold>\<open>Limits of the model.\<close> Strings are Latin-1, on which \<open>normalize("NFC")\<close> is the identity; \<open>localeCompare\<close> is the order of
  collation weights on the alphabet of stable codes. JavaScript values are trees of plain data: no accessors,
  symbol keys, sparse arrays, exotic prototypes, shared or cyclic objects. Numbers are integers, and
  \<open>JNonInt\<close> stands for the rest. Keys of objects that are turned into text are not array indices. Calls joined
  by \<open>Promise.all\<close> are taken in the order of the list. Instants that the types promise to be canonical are.

  \<^bold>\<open>Not modelled.\<close> The services that create and project an order after the domain functions above (\<open>order-creation-service.ts\<close>
  and what follows it), the administration services of pricing, and the other bounded contexts: kitchen,
  payment, fulfillment, inventory, procurement, catalog, dining, reservations, compliance, reporting. They sit
  behind ports of the modelled handlers or downstream of a submitted order. Database access, SQL, messaging,
  HTTP, rendering and cryptography are input and output and stay outside. PROJECT.json lists each with its
  reason.
\<close>

end
